(* ===== verification/Archive_Prelude.thy ===== *)
theory Archive_Prelude
  imports Main "HOL-Library.Word"
begin

text \<open>
  What every component of the Archive Center backend shares: Go's values (strings as byte
  lists, 64-bit counters, wall-clock times, \<open>error\<close> results), the text functions of the
  \<open>strings\<close> package that the components call, and Go maps as association lists whose order
  is the (unspecified) iteration order.
\<close>

named_theorems archive_eval \<open>definitions that evaluate a call or a text function on closed arguments\<close>

subsection \<open>Go's scalar values\<close>

text \<open>
  A Go \<open>string\<close> is a byte sequence, which is what the type \<open>string\<close> (a list of 8-bit
  characters) is. \<open>time.Time\<close> values are nanoseconds since Go's zero time, so
  \<open>time.Time{}\<close> is 0 and \<open>After\<close> is the order; durations are nanoseconds. A \<open>float64\<close>
  that is only stored is its 64-bit pattern. Turn numbers, row ids and sizes that are only
  stored and compared are \<open>int\<close>; counters that the code increments for the life of the
  process (\<open>uint64\<close>, \<open>int64\<close>) keep their 64 bits.
\<close>

type_synonym go_int = int
type_synonym go_time = int
type_synonym go_duration = int
type_synonym float64 = "64 word"
type_synonym uint64 = "64 word"

definition second :: go_duration where
  "second = 1000000000"

text \<open>Arithmetic on \<open>int\<close> wraps around at 64 bits; \<open>int64\<close> is written where the code computes.\<close>

definition int64 :: "int \<Rightarrow> int" where
  "int64 n = sint (word_of_int n :: 64 word)"

lemma int64_small: "- (2 ^ 63) \<le> n \<Longrightarrow> n < 2 ^ 63 \<Longrightarrow> int64 n = n"
  by (simp add: int64_def signed_of_int signed_take_bit_int_eq_self)

lemma int64_range: "- (2 ^ 63) \<le> int64 n" "int64 n < 2 ^ 63"
  using sint_ge [of "word_of_int n :: 64 word"] sint_lt [of "word_of_int n :: 64 word"]
  by (simp_all add: int64_def)

text \<open>
  Go's \<open>error\<close> values. The sentinels are the package variables of
  \<open>internal/store/store.go\<close>, \<open>internal/store/memory_derivation.go\<close> and
  \<open>internal/vector/vector.go\<close>; \<open>Wrapped\<close> is \<open>fmt.Errorf\<close> with \<open>%w\<close> (the label
  and the wrapped error), \<open>Failure\<close> any other error with its text.
\<close>

datatype go_error =
    ErrNotFound
  | ErrNotEnabled
  | ErrStatusProjectionStale
  | ErrSourceRevisionConflict
  | ErrSourceRevisionStale
  | ErrLeaseExpired
  | ErrMemoryReprocessingLeased
  | ErrContextCanceled
  | Wrapped string go_error
  | Failure string

text \<open>\<open>errors.Is\<close>: the error itself or one that it wraps.\<close>

fun error_is :: "go_error \<Rightarrow> go_error \<Rightarrow> bool" where
  "error_is (Wrapped l e) t = (Wrapped l e = t \<or> error_is e t)"
| "error_is e t = (e = t)"

text \<open>A call result in Go is a value together with an \<open>error\<close> that may be \<open>nil\<close>.\<close>

type_synonym err = "go_error option"

text \<open>A method of an interface value: the state behind it, before and after.\<close>

type_synonym ('st, 'r) meth = "'st \<Rightarrow> ('r \<times> err) \<times> 'st"

text \<open>Methods that only return: \<open>return r, nil\<close> and \<open>return r, e\<close>.\<close>

definition returns :: "'r \<Rightarrow> ('st, 'r) meth" where
  [archive_eval]: "returns r st = ((r, None), st)"

definition raises :: "go_error \<Rightarrow> 'r \<Rightarrow> ('st, 'r) meth" where
  [archive_eval]: "raises e r st = ((r, Some e), st)"

subsection \<open>Text functions\<close>

definition is_prefix :: "'a list \<Rightarrow> 'a list \<Rightarrow> bool" where
  "is_prefix p s \<longleftrightarrow> take (length p) s = p"

text \<open>
  \<open>strings.TrimSpace\<close> removes leading and trailing Unicode white space. In UTF-8 the
  white-space code points (\<open>unicode.IsSpace\<close>) are the byte sequences below; no sequence is
  a suffix or a prefix of the encoding of another code point, so removing them as byte
  sequences is what decoding rune by rune from either end does.
\<close>

definition space_encodings :: "string list" where
  "space_encodings =
     [[CHR 0x09], [CHR 0x0A], [CHR 0x0B], [CHR 0x0C], [CHR 0x0D], [CHR 0x20], [CHR 0xC2, CHR 0x85],
      [CHR 0xC2, CHR 0xA0], [CHR 0xE1, CHR 0x9A, CHR 0x80], [CHR 0xE2, CHR 0x80, CHR 0x80],
      [CHR 0xE2, CHR 0x80, CHR 0x81], [CHR 0xE2, CHR 0x80, CHR 0x82],
      [CHR 0xE2, CHR 0x80, CHR 0x83], [CHR 0xE2, CHR 0x80, CHR 0x84],
      [CHR 0xE2, CHR 0x80, CHR 0x85], [CHR 0xE2, CHR 0x80, CHR 0x86],
      [CHR 0xE2, CHR 0x80, CHR 0x87], [CHR 0xE2, CHR 0x80, CHR 0x88],
      [CHR 0xE2, CHR 0x80, CHR 0x89], [CHR 0xE2, CHR 0x80, CHR 0x8A],
      [CHR 0xE2, CHR 0x80, CHR 0xA8], [CHR 0xE2, CHR 0x80, CHR 0xA9],
      [CHR 0xE2, CHR 0x80, CHR 0xAF], [CHR 0xE2, CHR 0x81, CHR 0x9F],
      [CHR 0xE3, CHR 0x80, CHR 0x80]]"

definition drop_space :: "string list \<Rightarrow> string \<Rightarrow> string option" where
  "drop_space encs s =
     (case filter (\<lambda>p. is_prefix p s) encs of
        [] \<Rightarrow> None
      | p # _ \<Rightarrow> Some (drop (length p) s))"

fun trim_left_fuel :: "nat \<Rightarrow> string list \<Rightarrow> string \<Rightarrow> string" where
  "trim_left_fuel 0 encs s = s"
| "trim_left_fuel (Suc n) encs s =
     (case drop_space encs s of None \<Rightarrow> s | Some s' \<Rightarrow> trim_left_fuel n encs s')"

definition trim_left :: "string list \<Rightarrow> string \<Rightarrow> string" where
  "trim_left encs s = trim_left_fuel (length s) encs s"

definition trim_space :: "string \<Rightarrow> string" where
  "trim_space s =
     rev (trim_left (map rev space_encodings) (rev (trim_left space_encodings s)))"

text \<open>Every removed encoding has a byte, so the length of the string is fuel enough: the result starts with no white space.\<close>

lemma drop_space_shorter:
  assumes "drop_space encs s = Some s'" and "[] \<notin> set encs"
  shows "length s' < length s"
proof -
  obtain p ps where p: "filter (\<lambda>p. is_prefix p s) encs = p # ps" and s': "s' = drop (length p) s"
    using assms(1) by (auto simp: drop_space_def split: list.splits)
  then have "p \<in> set (filter (\<lambda>p. is_prefix p s) encs)" by simp
  then have "is_prefix p s" "p \<noteq> []" using assms(2) by auto
  then have "length p \<le> length s" "0 < length p"
    by (auto simp: is_prefix_def dest: arg_cong [where f = length])
  moreover have "length s' = length s - length p" using s' by simp
  ultimately show ?thesis by arith
qed

lemma trim_left_fuel_done:
  assumes "length s \<le> n" and "[] \<notin> set encs"
  shows "drop_space encs (trim_left_fuel n encs s) = None"
  using assms
proof (induction n arbitrary: s)
  case 0
  have no_prefix: "\<And>p. p \<in> set encs \<Longrightarrow> \<not> is_prefix p []"
    using 0(2) by (auto simp: is_prefix_def)
  have "filter (\<lambda>p. is_prefix p []) encs = []"
    using no_prefix by (simp add: filter_empty_conv)
  with 0 show ?case by (simp add: drop_space_def)
next
  case (Suc n)
  show ?case
  proof (cases "drop_space encs s")
    case None
    then show ?thesis by simp
  next
    case (Some s')
    with Suc.prems have "length s' < length s" by (simp add: drop_space_shorter)
    with Suc.prems have "length s' \<le> n" by simp
    with Suc.IH Suc.prems(2) Some show ?thesis by simp
  qed
qed

text \<open>Trimming again changes nothing.\<close>

lemma drop_space_None: "drop_space encs s = None \<longleftrightarrow> (\<forall>p \<in> set encs. \<not> is_prefix p s)"
  by (auto simp: drop_space_def filter_empty_conv split: list.splits) (metis filter_empty_conv list.distinct(1))

lemma trim_left_fuel_keeps: "drop_space encs s = None \<Longrightarrow> trim_left_fuel n encs s = s"
  by (cases n) simp_all

lemma trim_left_fuel_drop: "\<exists>k. trim_left_fuel n encs s = drop k s"
proof (induction n arbitrary: s)
  case (Suc n)
  show ?case
  proof (cases "drop_space encs s")
    case None
    then have "trim_left_fuel (Suc n) encs s = drop 0 s" by simp
    then show ?thesis by blast
  next
    case (Some s')
    then obtain j where "s' = drop j s" by (auto simp: drop_space_def split: list.splits)
    moreover obtain k where "trim_left_fuel n encs s' = drop k s'" using Suc by blast
    ultimately have "trim_left_fuel (Suc n) encs s = drop (k + j) s" using Some by simp
    then show ?thesis by blast
  qed
next
  case 0
  have "trim_left_fuel 0 encs s = drop 0 s" by simp
  then show ?case by blast
qed

lemma no_empty_space: "[] \<notin> set space_encodings" "[] \<notin> set (map rev space_encodings)"
  by (simp_all add: space_encodings_def)

lemma trim_space_idem [simp]: "trim_space (trim_space s) = trim_space s"
proof -
  let ?R = "map rev space_encodings"
  define t where "t = trim_left space_encodings s"
  have none: "drop_space space_encodings t = None" "drop_space ?R (trim_left ?R (rev t)) = None"
    unfolding t_def trim_left_def by (simp_all add: trim_left_fuel_done no_empty_space del: set_map)
  obtain k where "trim_left ?R (rev t) = drop k (rev t)"
    using trim_left_fuel_drop unfolding trim_left_def by metis
  then have s: "trim_space s = take (length t - k) t" and r: "rev (trim_space s) = trim_left ?R (rev t)"
    by (simp_all add: trim_space_def t_def drop_rev)
  have "\<not> is_prefix p (take n t)" if "p \<in> set space_encodings" for p n
  proof
    assume "is_prefix p (take n t)"
    then have "take (length p) t = p"
      by (auto simp: is_prefix_def min_def dest: arg_cong [where f = length] split: if_splits)
    with none(1) that show False by (auto simp: drop_space_None is_prefix_def)
  qed
  then have "trim_left space_encodings (trim_space s) = trim_space s"
    unfolding trim_left_def s by (simp add: trim_left_fuel_keeps drop_space_None)
  moreover have "trim_left ?R (rev (trim_space s)) = rev (trim_space s)"
    unfolding r using none(2) by (simp add: trim_left_def trim_left_fuel_keeps)
  ultimately show ?thesis by (simp add: trim_space_def [of "trim_space s"])
qed

text \<open>
  Case folding against ASCII text. \<open>strings.EqualFold(s, t)\<close> for an ASCII \<open>t\<close>: besides
  the ASCII letters, two code points fold onto ASCII letters, U+212A (Kelvin sign) onto
  \<open>k\<close> and U+017F (long s) onto \<open>s\<close>; every other non-ASCII code point folds onto no ASCII
  letter, so leaving its bytes in place decides the comparison the same way.
\<close>

fun lower_byte :: "char \<Rightarrow> char" where
  "lower_byte (Char b0 b1 b2 b3 b4 b5 b6 b7) =
     (if \<not> b7 \<and> b6 \<and> \<not> b5 \<and> (b4 \<or> b3 \<or> b2 \<or> b1 \<or> b0) \<and> \<not> (b4 \<and> b3 \<and> (b2 \<or> b1 \<and> b0))
        then Char b0 b1 b2 b3 b4 True b6 b7
      else Char b0 b1 b2 b3 b4 b5 b6 b7)"

text \<open>The bit test is the range \<open>A\<close> (65) to \<open>Z\<close> (90), and setting bit 5 adds 32.\<close>

lemma of_char_lower_byte:
  "(of_char (lower_byte c) :: nat) =
     (if 65 \<le> (of_char c :: nat) \<and> (of_char c :: nat) \<le> 90 then of_char c + 32 else of_char c)"
  by (cases c) (auto simp: of_char_def)

fun ascii_fold :: "string \<Rightarrow> string" where
  "ascii_fold [] = []"
| "ascii_fold (c # cs) =
     (if is_prefix ([CHR 0xE2, CHR 0x84, CHR 0xAA]) (c # cs)
        then CHR ''k'' # ascii_fold (drop 2 cs)
      else if is_prefix ([CHR 0xC5, CHR 0xBF]) (c # cs)
        then CHR ''s'' # ascii_fold (drop 1 cs)
      else lower_byte c # ascii_fold cs)"

lemma ascii_fold_plain:
  "c \<noteq> CHR 0xE2 \<Longrightarrow> c \<noteq> CHR 0xC5 \<Longrightarrow> ascii_fold (c # cs) = lower_byte c # ascii_fold cs"
  by (simp add: is_prefix_def)

declare ascii_fold.simps(2) [simp del]

definition equal_fold_ascii :: "string \<Rightarrow> string \<Rightarrow> bool" where
  "equal_fold_ascii s t \<longleftrightarrow> ascii_fold s = ascii_fold t"

lemma equal_fold_ascii_refl [simp]: "equal_fold_ascii s s"
  by (simp add: equal_fold_ascii_def)

text \<open>
  \<open>strings.ToLower\<close>, for comparison with ASCII words: it lowers the ASCII letters, maps the Kelvin
  sign to \<open>k\<close> and U+0130 to \<open>i\<close>; the bytes of other letters are left in place, which cannot make
  a text equal to an ASCII word or different from it. (Two texts that differ only in the case of
  other non-ASCII letters are told apart here.)
\<close>

fun ascii_lower :: "string \<Rightarrow> string" where
  "ascii_lower [] = []"
| "ascii_lower (c # cs) =
     (if is_prefix ([CHR 0xE2, CHR 0x84, CHR 0xAA]) (c # cs)
        then CHR ''k'' # ascii_lower (drop 2 cs)
      else if is_prefix ([CHR 0xC4, CHR 0xB0]) (c # cs)
        then CHR ''i'' # ascii_lower (drop 1 cs)
      else lower_byte c # ascii_lower cs)"

lemma ascii_lower_keeps:
  "list_all (\<lambda>c. c \<noteq> CHR 0xE2 \<and> c \<noteq> CHR 0xC4 \<and> lower_byte c = c) s \<Longrightarrow> ascii_lower s = s"
  by (induction s) (auto simp: is_prefix_def)

text \<open>Evaluation of the text functions on closed strings, by the simplifier.\<close>

lemma trim_left_fuel_numeral [simp]:
  "trim_left_fuel (numeral k) encs s =
     (case drop_space encs s of None \<Rightarrow> s | Some s' \<Rightarrow> trim_left_fuel (pred_numeral k) encs s')"
  by (simp add: numeral_eq_Suc)

lemmas text_eval [archive_eval] =
  is_prefix_def space_encodings_def drop_space_def trim_left_def trim_space_def
  equal_fold_ascii_def ascii_fold_plain

text \<open>
  \<open>[]rune(s)\<close>: the UTF-8 decoding of Go, in which a byte that starts no well-formed sequence
  stands for U+FFFD. \<open>continuation\<close> gives the number of bytes after the first one and the range
  of the second byte.
\<close>

definition byte_at :: "char \<Rightarrow> nat" where
  "byte_at c = of_char c"

definition continuation :: "nat \<Rightarrow> (nat \<times> nat \<times> nat) option" where
  "continuation b =
     (if 0xC2 \<le> b \<and> b \<le> 0xDF then Some (1, 0x80, 0xBF)
      else if b = 0xE0 then Some (2, 0xA0, 0xBF)
      else if b = 0xED then Some (2, 0x80, 0x9F)
      else if 0xE1 \<le> b \<and> b \<le> 0xEF then Some (2, 0x80, 0xBF)
      else if b = 0xF0 then Some (3, 0x90, 0xBF)
      else if 0xF1 \<le> b \<and> b \<le> 0xF3 then Some (3, 0x80, 0xBF)
      else if b = 0xF4 then Some (3, 0x80, 0x8F)
      else None)"

definition tail_byte :: "nat \<Rightarrow> bool" where
  "tail_byte b \<longleftrightarrow> 0x80 \<le> b \<and> b \<le> 0xBF"

text \<open>The first rune and the number of bytes after the first that belong to it.\<close>

definition decode_rune :: "nat \<Rightarrow> nat list \<Rightarrow> nat \<times> nat" where
  "decode_rune b bs =
     (if b < 0x80 then (b, 0)
      else case continuation b of
             None \<Rightarrow> (0xFFFD, 0)
           | Some (n, lo, hi) \<Rightarrow>
               (if n \<le> length bs \<and> lo \<le> bs ! 0 \<and> bs ! 0 \<le> hi \<and> list_all tail_byte (take n bs)
                  then (foldl (\<lambda>acc x. acc * 0x40 + x mod 0x40)
                          (b mod (if n = 1 then 0x20 else if n = 2 then 0x10 else 0x08)) (take n bs), n)
                else (0xFFFD, 0)))"

fun runes :: "nat list \<Rightarrow> nat list" where
  "runes [] = []"
| "runes (b # bs) = (case decode_rune b bs of (r, n) \<Rightarrow> r # runes (drop n bs))"

text \<open>Decimal text of an integer (\<open>%d\<close>, and the JSON text of an integer).\<close>

definition digit_char :: "nat \<Rightarrow> char" where
  "digit_char d = ''0123456789'' ! d"

fun decimal_nat :: "nat \<Rightarrow> string" where
  "decimal_nat n =
     (if n < 10 then [digit_char n] else decimal_nat (n div 10) @ [digit_char (n mod 10)])"

declare decimal_nat.simps [simp del]

definition decimal :: "int \<Rightarrow> string" where
  "decimal i = (if i < 0 then CHR ''-'' # decimal_nat (nat (- i)) else decimal_nat (nat i))"

text \<open>
  The number \<open>strconv.Atoi\<close> returns beside its error: 0 for a text that is not a number, the nearest
  64-bit integer for a number that is too large.
\<close>

definition digit_value :: "char \<Rightarrow> int" where
  "digit_value c = int (of_char c) - 48"

definition is_digit :: "char \<Rightarrow> bool" where
  "is_digit c \<longleftrightarrow> 48 \<le> byte_at c \<and> byte_at c \<le> 57"

definition digits_value :: "string \<Rightarrow> int" where
  "digits_value s = foldl (\<lambda>n c. n * 10 + digit_value c) 0 s"

definition Atoi_value :: "string \<Rightarrow> int" where
  "Atoi_value s =
     (let negative = is_prefix ''-'' s;
          digits = (if negative \<or> is_prefix ''+'' s then tl s else s)
      in if digits = [] \<or> \<not> list_all is_digit digits then 0
         else if negative then max (- (2 ^ 63)) (- digits_value digits)
         else min (2 ^ 63 - 1) (digits_value digits))"

subsection \<open>Go maps as association lists\<close>

text \<open>
  A Go map is an association list with distinct keys; the order of the list is the order in
  which a \<open>range\<close> loop happens to visit it, which Go leaves open. \<open>map_put\<close> is
  \<open>m[k] = v\<close>, \<open>map_remove\<close> is \<open>delete(m, k)\<close>, \<open>map_of\<close> the lookup.
\<close>

definition map_remove :: "'k \<Rightarrow> ('k \<times> 'v) list \<Rightarrow> ('k \<times> 'v) list" where
  "map_remove k m = filter (\<lambda>kv. fst kv \<noteq> k) m"

definition map_put :: "'k \<Rightarrow> 'v \<Rightarrow> ('k \<times> 'v) list \<Rightarrow> ('k \<times> 'v) list" where
  "map_put k v m = map_remove k m @ [(k, v)]"

abbreviation go_map :: "('k \<times> 'v) list \<Rightarrow> bool" where
  "go_map m \<equiv> distinct (map fst m)"

lemma map_of_remove [simp]: "map_of (map_remove k m) = (map_of m)(k := None)"
  by (induction m) (auto simp: map_remove_def fun_eq_iff)

lemma map_of_put [simp]: "map_of (map_put k v m) = (map_of m)(k \<mapsto> v)"
  by (rule ext) (auto simp: map_put_def map_add_def split: option.splits)

lemma go_map_remove [simp, intro]: "go_map m \<Longrightarrow> go_map (map_remove k m)"
  by (auto simp: map_remove_def distinct_map intro: inj_on_subset)

lemma set_map_remove: "set (map_remove k m) = {kv \<in> set m. fst kv \<noteq> k}"
  by (auto simp: map_remove_def)

lemma go_map_put [simp, intro]: "go_map m \<Longrightarrow> go_map (map_put k v m)"
  by (auto simp: map_put_def set_map_remove dest: go_map_remove [of m k])

lemma length_map_remove_le [simp]: "length (map_remove k m) \<le> length m"
  by (simp add: map_remove_def)

lemma map_remove_absent: "map_of m k = None \<Longrightarrow> map_remove k m = m"
  by (induction m) (auto simp: map_remove_def split: if_splits)

lemma length_map_remove_present:
  "go_map m \<Longrightarrow> map_of m k = Some v \<Longrightarrow> Suc (length (map_remove k m)) = length m"
proof (induction m)
  case (Cons kv m)
  show ?case
  proof (cases "fst kv = k")
    case True
    with Cons.prems have "map_of m k = None"
      by (auto simp: map_of_eq_None_iff)
    then have "map_remove k m = m" by (rule map_remove_absent)
    with True show ?thesis by (simp add: map_remove_def)
  next
    case False
    with Cons show ?thesis by (cases kv) (auto simp: map_remove_def)
  qed
qed simp

lemma length_map_put_absent: "map_of m k = None \<Longrightarrow> length (map_put k v m) = Suc (length m)"
  by (simp add: map_put_def map_remove_absent)

end
