(* ===== verification/Turn_Response.thy ===== *)
theory Turn_Response
  imports Archive_Prelude
begin

text \<open>
  The recorded responses of \<open>POST /complete-turn\<close>
  (\<open>go-service/internal/httpapi/complete_turn_idempotency.go\<close>): the buffer that a handler
  run writes into, the record kept of it, what \<open>encoding/json\<close> reads back from the body,
  and the three decisions the ledger takes from it (retry the whole request, pin the
  outcome, count as a success).
\<close>

subsection \<open>JSON documents\<close>

text \<open>
  A body is represented by the documents written to it: \<open>Some j\<close> is the text of the JSON
  value \<open>j\<close>, \<open>None\<close> a chunk that is not a JSON document. The textual syntax of JSON is the
  standard library's; what the code relies on is that \<open>json.Unmarshal\<close> accepts exactly one
  document and fails on an empty body, on several documents and on anything else.
  A number keeps its literal text. An object keeps its members in order, with duplicates.
\<close>

datatype json =
    JNull
  | JBool bool
  | JNum string
  | JStr string
  | JArr "json list"
  | JObj "(string \<times> json) list"

type_synonym body = "json option list"

fun body_document :: "body \<Rightarrow> json option" where
  "body_document [chunk] = chunk"
| "body_document _ = None"

text \<open>Go's \<open>http.Header\<close>: a map from names to the list of their values.\<close>

type_synonym http_header = "(string \<times> string list) list"

record recorded_response =
  resp_status :: go_int
  resp_header :: http_header
  resp_body :: body

definition no_response :: recorded_response where
  "no_response = \<lparr>resp_status = 0, resp_header = [], resp_body = []\<rparr>"

subsection \<open>The response buffer\<close>

record response_buffer =
  buf_header :: http_header
  buf_status :: go_int
  buf_wroteHeader :: bool
  buf_body :: body

definition newCompleteTurnResponseBuffer :: response_buffer where
  "newCompleteTurnResponseBuffer =
     \<lparr>buf_header = [], buf_status = 0, buf_wroteHeader = False, buf_body = []\<rparr>"

definition WriteHeader :: "response_buffer \<Rightarrow> go_int \<Rightarrow> response_buffer" where
  "WriteHeader w status =
     (if buf_wroteHeader w then w else w\<lparr>buf_status := status, buf_wroteHeader := True\<rparr>)"

definition Write :: "response_buffer \<Rightarrow> json option \<Rightarrow> response_buffer" where
  "Write w chunk =
     (let w = (if buf_wroteHeader w then w else WriteHeader w 200)
      in w\<lparr>buf_body := buf_body w @ [chunk]\<rparr>)"

definition recorded :: "response_buffer \<Rightarrow> recorded_response" where
  "recorded w =
     (let status = (if buf_status w = 0 then 200 else buf_status w)
      in \<lparr>resp_status = status, resp_header = buf_header w, resp_body = buf_body w\<rparr>)"

text \<open>\<open>writeJSON\<close> of \<open>vocabulary.go\<close>: the content type, the status, then the document.\<close>

definition writeJSON :: "response_buffer \<Rightarrow> go_int \<Rightarrow> json \<Rightarrow> response_buffer" where
  "writeJSON w status v =
     (let w = w\<lparr>buf_header := map_put ''Content-Type'' [''application/json; charset=utf-8''] (buf_header w)\<rparr>;
          w = WriteHeader w status
      in Write w (Some v))"

text \<open>Replaying a recorded response into a client's writer.\<close>

definition add_header :: "http_header \<Rightarrow> string \<Rightarrow> string \<Rightarrow> http_header" where
  "add_header h key value =
     map_put key ((case map_of h key of None \<Rightarrow> [] | Some vs \<Rightarrow> vs) @ [value]) h"

fun add_headers :: "http_header \<Rightarrow> http_header \<Rightarrow> http_header" where
  "add_headers h [] = h"
| "add_headers h ((key, values) # rest) =
     add_headers (foldl (\<lambda>h value. add_header h key value) h values) rest"

definition writeCompleteTurnRecordedResponse ::
    "response_buffer \<Rightarrow> recorded_response \<Rightarrow> response_buffer" where
  "writeCompleteTurnRecordedResponse w response =
     (let w = w\<lparr>buf_header := add_headers (buf_header w) (resp_header response)\<rparr>;
          status = (if resp_status response = 0 then 200 else resp_status response);
          w = WriteHeader w status
      in w\<lparr>buf_body := buf_body w @ resp_body response\<rparr>)"

subsection \<open>Reading the recorded state\<close>

record recorded_state =
  rs_status :: string
  rs_code :: string
  rs_save_ok :: "bool option"
  rs_raw_committed :: bool
  rs_commit_state :: string
  rs_derived_retry_required :: bool
  rs_reconciliation_required :: bool
  rs_reconciliation_retry_key :: string
  rs_retryable :: "bool option"
  rs_queue_action :: string

definition zero_state :: recorded_state where
  "zero_state =
     \<lparr>rs_status = [], rs_code = [], rs_save_ok = None, rs_raw_committed = False,
      rs_commit_state = [], rs_derived_retry_required = False,
      rs_reconciliation_required = False, rs_reconciliation_retry_key = [],
      rs_retryable = None, rs_queue_action = []\<rparr>"

text \<open>
  How \<open>json.Unmarshal\<close> stores a value into a field of Go type \<open>string\<close>, \<open>bool\<close> and
  \<open>*bool\<close>: \<open>null\<close> leaves a plain field and sets a pointer to nil; a value of another kind
  is a type error, after which decoding goes on and the call reports the error at the end.
  The first component says whether the value fitted.
\<close>

fun decode_string :: "json \<Rightarrow> string \<Rightarrow> bool \<times> string" where
  "decode_string (JStr s) old = (True, s)"
| "decode_string JNull old = (True, old)"
| "decode_string _ old = (False, old)"

fun decode_bool :: "json \<Rightarrow> bool \<Rightarrow> bool \<times> bool" where
  "decode_bool (JBool b) old = (True, b)"
| "decode_bool JNull old = (True, old)"
| "decode_bool _ old = (False, old)"

text \<open>A \<open>*bool\<close> field that is nil is allocated before the value is decoded into it, so a type error leaves it pointing at \<open>false\<close>.\<close>

fun decode_bool_ptr :: "json \<Rightarrow> bool option \<Rightarrow> bool \<times> bool option" where
  "decode_bool_ptr (JBool b) old = (True, Some b)"
| "decode_bool_ptr JNull old = (True, None)"
| "decode_bool_ptr _ old = (False, Some (case old of None \<Rightarrow> False | Some b \<Rightarrow> b))"

text \<open>An object key selects the field whose tag it equals up to case folding (all tags are ASCII and differ after folding); unknown keys are skipped.\<close>

definition decode_member :: "recorded_state \<Rightarrow> string \<Rightarrow> json \<Rightarrow> bool \<times> recorded_state" where
  "decode_member st key v =
     (if equal_fold_ascii key ''status'' then
        apsnd (\<lambda>x. st\<lparr>rs_status := x\<rparr>) (decode_string v (rs_status st))
      else if equal_fold_ascii key ''code'' then
        apsnd (\<lambda>x. st\<lparr>rs_code := x\<rparr>) (decode_string v (rs_code st))
      else if equal_fold_ascii key ''save_ok'' then
        apsnd (\<lambda>x. st\<lparr>rs_save_ok := x\<rparr>) (decode_bool_ptr v (rs_save_ok st))
      else if equal_fold_ascii key ''raw_committed'' then
        apsnd (\<lambda>x. st\<lparr>rs_raw_committed := x\<rparr>) (decode_bool v (rs_raw_committed st))
      else if equal_fold_ascii key ''commit_state'' then
        apsnd (\<lambda>x. st\<lparr>rs_commit_state := x\<rparr>) (decode_string v (rs_commit_state st))
      else if equal_fold_ascii key ''derived_retry_required'' then
        apsnd (\<lambda>x. st\<lparr>rs_derived_retry_required := x\<rparr>) (decode_bool v (rs_derived_retry_required st))
      else if equal_fold_ascii key ''reconciliation_required'' then
        apsnd (\<lambda>x. st\<lparr>rs_reconciliation_required := x\<rparr>) (decode_bool v (rs_reconciliation_required st))
      else if equal_fold_ascii key ''reconciliation_retry_idempotency_key'' then
        apsnd (\<lambda>x. st\<lparr>rs_reconciliation_retry_key := x\<rparr>) (decode_string v (rs_reconciliation_retry_key st))
      else if equal_fold_ascii key ''retryable'' then
        apsnd (\<lambda>x. st\<lparr>rs_retryable := x\<rparr>) (decode_bool_ptr v (rs_retryable st))
      else if equal_fold_ascii key ''queue_action'' then
        apsnd (\<lambda>x. st\<lparr>rs_queue_action := x\<rparr>) (decode_string v (rs_queue_action st))
      else (True, st))"

fun decode_members :: "bool \<Rightarrow> recorded_state \<Rightarrow> (string \<times> json) list \<Rightarrow> bool \<times> recorded_state" where
  "decode_members fits st [] = (fits, st)"
| "decode_members fits st ((key, v) # rest) =
     (let (fit, st') = decode_member st key v in decode_members (fits \<and> fit) st' rest)"

fun unmarshal_state :: "json \<Rightarrow> recorded_state option" where
  "unmarshal_state JNull = Some zero_state"
| "unmarshal_state (JObj members) =
     (let (fits, st) = decode_members True zero_state members in if fits then Some st else None)"
| "unmarshal_state _ = None"

definition parseCompleteTurnRecordedResponseState ::
    "recorded_response \<Rightarrow> recorded_state option" where
  "parseCompleteTurnRecordedResponseState response =
     (case body_document (resp_body response) of None \<Rightarrow> None | Some j \<Rightarrow> unmarshal_state j)"

subsection \<open>The decisions\<close>

definition completeTurnRecordedResponseHasFailedSave :: "recorded_response \<Rightarrow> bool" where
  "completeTurnRecordedResponseHasFailedSave response =
     (if resp_status response < 200 \<or> 300 \<le> resp_status response then False
      else case parseCompleteTurnRecordedResponseState response of
             None \<Rightarrow> False
           | Some payload \<Rightarrow> rs_save_ok payload = Some False)"

definition completeTurnRecordedResponseAllowsWholeRequestRetry :: "recorded_response \<Rightarrow> bool" where
  "completeTurnRecordedResponseAllowsWholeRequestRetry response =
     (case parseCompleteTurnRecordedResponseState response of
        Some payload \<Rightarrow>
          (if rs_raw_committed payload \<or> equal_fold_ascii (trim_space (rs_commit_state payload)) ''unknown''
             then False
           else if rs_save_ok payload = Some True then False
           else if rs_retryable payload = Some False then False
           else if equal_fold_ascii (trim_space (rs_queue_action payload)) ''discard'' then False
           else if rs_save_ok payload = Some False then True
           else 500 \<le> resp_status response)
      | None \<Rightarrow> 500 \<le> resp_status response)"

definition completeTurnRecordedResponsePinsOutcome :: "recorded_response \<Rightarrow> bool" where
  "completeTurnRecordedResponsePinsOutcome response =
     (case parseCompleteTurnRecordedResponseState response of
        None \<Rightarrow> False
      | Some payload \<Rightarrow> equal_fold_ascii (trim_space (rs_commit_state payload)) ''unknown'')"

definition completeTurnRecordedResponseSuccessful :: "recorded_response \<Rightarrow> bool" where
  "completeTurnRecordedResponseSuccessful response =
     (if resp_status response < 200 \<or> 300 \<le> resp_status response then False
      else case parseCompleteTurnRecordedResponseState response of
             None \<Rightarrow> False
           | Some payload \<Rightarrow>
               (if rs_save_ok payload = Some False then False
                else ascii_lower (trim_space (rs_status payload))
                       \<notin> {''error'', ''rejected'', ''processing'', ''skeleton''}))"

lemmas response_decisions =
  completeTurnRecordedResponseHasFailedSave_def
  completeTurnRecordedResponseAllowsWholeRequestRetry_def
  completeTurnRecordedResponsePinsOutcome_def
  completeTurnRecordedResponseSuccessful_def

text \<open>The three outcomes exclude each other the way the ledger needs: a pinned outcome is never dropped for a retry, and neither is one that committed or succeeded in saving.\<close>

lemma pins_not_retry:
  "completeTurnRecordedResponsePinsOutcome r \<Longrightarrow>
   \<not> completeTurnRecordedResponseAllowsWholeRequestRetry r"
  by (auto simp: response_decisions split: option.splits)

lemma committed_not_retry:
  assumes "parseCompleteTurnRecordedResponseState r = Some p"
    and "rs_raw_committed p \<or> rs_save_ok p = Some True"
  shows "\<not> completeTurnRecordedResponseAllowsWholeRequestRetry r"
  using assms by (auto simp: response_decisions)

lemma ascii_fold_closed:
  "ascii_fold ''unknown'' = ''unknown''" "ascii_fold ''discard'' = ''discard''"
  by (simp_all add: ascii_fold_plain)

end
