(* ===== verification/Turn_Ledger.thy ===== *)
theory Turn_Ledger
  imports Turn_Response "HOL-Library.Multiset"
begin

text \<open>
  The in-memory ledger that makes \<open>POST /complete-turn\<close> idempotent
  (\<open>completeTurnRequestLedger\<close> in
  \<open>go-service/internal/httpapi/complete_turn_idempotency.go\<close>). Entries are shared by
  pointer between the ledger, the request that owns the run, the requests that wait for it
  and the goroutine that watches for cancellation, so the model keeps an explicit heap:
  an entry is an address, \<open>led_entries\<close> maps idempotency keys to addresses, and an entry
  deleted from the map stays in the heap for those who still hold it. A channel is the flag
  "closed"; \<open>close\<close> of a closed channel panics, which the model records in
  \<open>led_panicked\<close>.
\<close>

type_synonym addr = nat

record request_entry =
  ent_sequence :: uint64
  ent_fingerprint :: string
  ent_done_closed :: bool
  ent_response :: recorded_response
  ent_finished :: bool

record request_ledger =
  led_entries :: "(string \<times> addr) list"
  led_nextSequence :: uint64
  led_heap :: "request_entry list"
  led_panicked :: bool

definition completeTurnRequestMax :: nat where
  "completeTurnRequestMax = 1024"

definition newCompleteTurnRequestLedger :: request_ledger where
  "newCompleteTurnRequestLedger =
     \<lparr>led_entries = [], led_nextSequence = 0, led_heap = [], led_panicked = False\<rparr>"

subsection \<open>Heap access\<close>

definition entry_at :: "request_ledger \<Rightarrow> addr \<Rightarrow> request_entry" where
  "entry_at l a = led_heap l ! a"

definition set_entry :: "addr \<Rightarrow> request_entry \<Rightarrow> request_ledger \<Rightarrow> request_ledger" where
  "set_entry a e l = l\<lparr>led_heap := (led_heap l)[a := e]\<rparr>"

definition close_done :: "addr \<Rightarrow> request_ledger \<Rightarrow> request_ledger" where
  "close_done a l =
     (if ent_done_closed (entry_at l a) then l\<lparr>led_panicked := True\<rparr>
      else set_entry a ((entry_at l a)\<lparr>ent_done_closed := True\<rparr>) l)"

definition lookup_entry :: "request_ledger \<Rightarrow> string \<Rightarrow> addr option" where
  "lookup_entry l key = map_of (led_entries l) key"

definition drop_key :: "string \<Rightarrow> request_ledger \<Rightarrow> request_ledger" where
  "drop_key key l = l\<lparr>led_entries := map_remove key (led_entries l)\<rparr>"

subsection \<open>Eviction\<close>

definition evictable :: "request_entry \<Rightarrow> bool" where
  "evictable e \<longleftrightarrow> ent_finished e \<and> \<not> completeTurnRecordedResponsePinsOutcome (ent_response e)"

text \<open>The \<open>range\<close> loop of \<open>evictFinishedForCapacityLocked\<close>, over the map in its iteration order, with its two variables.\<close>

fun evict_scan ::
    "request_ledger \<Rightarrow> (string \<times> addr) list \<Rightarrow> string \<Rightarrow> uint64 \<Rightarrow> string \<times> uint64" where
  "evict_scan l [] oldestKey oldestSequence = (oldestKey, oldestSequence)"
| "evict_scan l ((key, a) # rest) oldestKey oldestSequence =
     (if \<not> ent_finished (entry_at l a)
          \<or> completeTurnRecordedResponsePinsOutcome (ent_response (entry_at l a))
        then evict_scan l rest oldestKey oldestSequence
      else if oldestKey = [] \<or> ent_sequence (entry_at l a) < oldestSequence
        then evict_scan l rest key (ent_sequence (entry_at l a))
      else evict_scan l rest oldestKey oldestSequence)"

definition evictFinishedForCapacityLocked :: "request_ledger \<Rightarrow> request_ledger" where
  "evictFinishedForCapacityLocked l =
     (let (oldestKey, _) = evict_scan l (led_entries l) [] 0
      in if oldestKey \<noteq> [] then drop_key oldestKey l else l)"

subsection \<open>The operations\<close>

text \<open>The result is the entry (\<open>None\<close> for a nil pointer), whether the caller owns it, and whether the fingerprints conflict.\<close>

definition beginWithFingerprint ::
    "string \<Rightarrow> string \<Rightarrow> request_ledger \<Rightarrow> (addr option \<times> bool \<times> bool) \<times> request_ledger" where
  "beginWithFingerprint key fingerprint l =
     (case lookup_entry l key of
        Some a \<Rightarrow>
          (let fp = ent_fingerprint (entry_at l a);
               conflict = (fp \<noteq> [] \<and> fingerprint \<noteq> [] \<and> fp \<noteq> fingerprint)
           in ((Some a, False, conflict), l))
      | None \<Rightarrow>
          (let l' = (if completeTurnRequestMax \<le> length (led_entries l)
                       then evictFinishedForCapacityLocked l else l)
           in if completeTurnRequestMax \<le> length (led_entries l')
                then ((None, False, False), l')
              else
                (let seq = led_nextSequence l' + 1;
                     a = length (led_heap l');
                     e = \<lparr>ent_sequence = seq, ent_fingerprint = fingerprint, ent_done_closed = False,
                          ent_response = no_response, ent_finished = False\<rparr>
                 in ((Some a, True, False),
                     l'\<lparr>led_nextSequence := seq, led_heap := led_heap l' @ [e],
                        led_entries := map_put key a (led_entries l')\<rparr>))))"

definition begin_request :: "string \<Rightarrow> request_ledger \<Rightarrow> (addr option \<times> bool) \<times> request_ledger" where
  "begin_request key l =
     (let ((entry, owner, _), l') = beginWithFingerprint key [] l in ((entry, owner), l'))"

text \<open>The four assignments shared by the three ways to finish an entry.\<close>

definition record_response :: "addr \<Rightarrow> recorded_response \<Rightarrow> request_ledger \<Rightarrow> request_ledger" where
  "record_response a response l = set_entry a ((entry_at l a)\<lparr>ent_response := response\<rparr>) l"

definition mark_finished :: "addr \<Rightarrow> request_ledger \<Rightarrow> request_ledger" where
  "mark_finished a l = close_done a (set_entry a ((entry_at l a)\<lparr>ent_finished := True\<rparr>) l)"

definition drop_if_retryable :: "string \<Rightarrow> recorded_response \<Rightarrow> request_ledger \<Rightarrow> request_ledger" where
  "drop_if_retryable key response l =
     (if completeTurnRecordedResponseAllowsWholeRequestRetry response then drop_key key l else l)"

definition finish_request :: "string \<Rightarrow> recorded_response \<Rightarrow> request_ledger \<Rightarrow> request_ledger" where
  "finish_request key response l =
     (case lookup_entry l key of
        None \<Rightarrow> l
      | Some a \<Rightarrow>
          (if ent_finished (entry_at l a) then l
           else drop_if_retryable key response (mark_finished a (record_response a response l))))"

definition finishIfCurrent ::
    "string \<Rightarrow> addr \<Rightarrow> recorded_response \<Rightarrow> request_ledger \<Rightarrow> request_ledger" where
  "finishIfCurrent key expected response l =
     (case lookup_entry l key of
        None \<Rightarrow> l
      | Some a \<Rightarrow>
          (if a \<noteq> expected \<or> ent_finished (entry_at l a) then l
           else drop_if_retryable key response (mark_finished a (record_response a response l))))"

definition finishOwner ::
    "string \<Rightarrow> addr \<Rightarrow> recorded_response \<Rightarrow> request_ledger \<Rightarrow> request_ledger" where
  "finishOwner key expected response l =
     (case lookup_entry l key of
        None \<Rightarrow> l
      | Some a \<Rightarrow>
          (if a \<noteq> expected then l
           else
             (let l1 = record_response a response l;
                  l2 = (if ent_finished (entry_at l1 a) then l1 else mark_finished a l1)
              in drop_if_retryable key response l2)))"

definition ledger_status :: "string \<Rightarrow> request_ledger \<Rightarrow> string \<times> recorded_response \<times> bool" where
  "ledger_status key l =
     (case lookup_entry l key of
        None \<Rightarrow> (''unknown'', no_response, False)
      | Some a \<Rightarrow>
          (if \<not> ent_finished (entry_at l a) then (''processing'', no_response, True)
           else (''completed'', ent_response (entry_at l a), True)))"

definition responseForEntry ::
    "string \<Rightarrow> addr \<Rightarrow> request_ledger \<Rightarrow> recorded_response \<times> bool" where
  "responseForEntry key expected l =
     (case lookup_entry l key of
        None \<Rightarrow> (no_response, False)
      | Some a \<Rightarrow>
          (if a \<noteq> expected \<or> \<not> ent_finished (entry_at l a) then (no_response, False)
           else (ent_response (entry_at l a), True)))"

subsection \<open>The keys and the request's answers\<close>

text \<open>\<open>stringFromAny\<close>: the string, or the empty string for a value of another kind; \<open>None\<close> is an absent map key.\<close>

fun stringFromAny :: "json option \<Rightarrow> string" where
  "stringFromAny (Some (JStr s)) = s"
| "stringFromAny _ = []"

definition completeTurnIdempotencyKey :: "(string \<times> json) list \<Rightarrow> string" where
  "completeTurnIdempotencyKey clientMeta =
     (let key = trim_space (stringFromAny (map_of clientMeta ''idempotency_key''))
      in if 240 < length key then take 240 key else key)"

definition retry_answer :: "string \<Rightarrow> string \<Rightarrow> json" where
  "retry_answer code key =
     JObj [(''status'', JStr ''error''), (''code'', JStr code), (''idempotency_key'', JStr key),
           (''retryable'', JBool True), (''queue_action'', JStr ''retry''), (''save_ok'', JBool False)]"

definition conflict_answer :: "string \<Rightarrow> json" where
  "conflict_answer key =
     JObj [(''status'', JStr ''error''), (''code'', JStr ''idempotency_key_conflict''),
           (''idempotency_key'', JStr key), (''retryable'', JBool False),
           (''queue_action'', JStr ''discard''), (''save_ok'', JBool False)]"

definition processing_answer :: "string \<Rightarrow> json" where
  "processing_answer key =
     JObj [(''status'', JStr ''processing''), (''code'', JStr ''idempotent_request_processing''),
           (''idempotency_key'', JStr key)]"

definition cancelled_answer :: "string \<Rightarrow> json" where
  "cancelled_answer key =
     JObj [(''status'', JStr ''error''), (''code'', JStr ''complete_turn_request_outcome_unknown''),
           (''idempotency_key'', JStr key), (''commit_state'', JStr ''unknown''),
           (''reconciliation_required'', JBool True), (''retryable'', JBool False),
           (''queue_action'', JStr ''discard''), (''save_ok'', JBool False)]"

definition cancelled_response :: "string \<Rightarrow> recorded_response" where
  "cancelled_response key =
     recorded (writeJSON newCompleteTurnResponseBuffer 408 (cancelled_answer key))"

text \<open>\<open>handleCompleteTurnRequestStatus\<close>: the HTTP status and the answer; the ledger is always present in the server.\<close>

definition request_status_answer :: "string \<Rightarrow> request_ledger \<Rightarrow> go_int \<times> json" where
  "request_status_answer query l =
     (let key = trim_space query
      in if key = [] then (400, JObj [(''status'', JStr ''error''), (''error'', JStr ''idempotency_key is required''),
                            (''code'', JStr ''missing_param'')])
         else
           (let (status, response, found) = ledger_status key l;
                base = [(''status'', JStr status), (''idempotency_key'', JStr key)];
                http = [(''http_status'', JNum (decimal (resp_status response))),
                        (''success'', JBool (completeTurnRecordedResponseSuccessful response))]
            in if found \<and> status = ''completed'' then
                 (case parseCompleteTurnRecordedResponseState response of
                    None \<Rightarrow> (200, JObj (base @ http))
                  | Some p \<Rightarrow>
                      (200, JObj (base @ http @
                         [(''raw_saved'', JBool (rs_save_ok p = Some True)),
                          (''save_ok'', JBool (rs_save_ok p = Some True)),
                          (''result_status'', JStr (rs_status p)),
                          (''raw_committed'', JBool (rs_raw_committed p))]
                         @ (if rs_commit_state p \<noteq> [] then [(''commit_state'', JStr (rs_commit_state p))] else [])
                         @ [(''derived_retry_required'', JBool (rs_derived_retry_required p)),
                            (''reconciliation_required'', JBool (rs_reconciliation_required p))]
                         @ (if rs_reconciliation_retry_key p \<noteq> []
                              then [(''reconciliation_retry_idempotency_key'', JStr (rs_reconciliation_retry_key p))] else [])
                         @ (if rs_code p \<noteq> [] then [(''code'', JStr (rs_code p))] else [])
                         @ (case rs_retryable p of None \<Rightarrow> [] | Some b \<Rightarrow> [(''retryable'', JBool b)])
                         @ (if rs_queue_action p \<noteq> [] then [(''queue_action'', JStr (rs_queue_action p))] else []))))
               else (200, JObj base)))"

subsection \<open>The ledger's invariant\<close>

definition ledger_ok :: "request_ledger \<Rightarrow> bool" where
  "ledger_ok l \<longleftrightarrow>
     go_map (led_entries l) \<and>
     length (led_entries l) \<le> completeTurnRequestMax \<and>
     (\<forall>k a. lookup_entry l k = Some a \<longrightarrow> k \<noteq> [] \<and> a < length (led_heap l)) \<and>
     (\<forall>k k' a. lookup_entry l k = Some a \<longrightarrow> lookup_entry l k' = Some a \<longrightarrow> k = k') \<and>
     (\<forall>e \<in> set (led_heap l). ent_done_closed e = ent_finished e) \<and>
     \<not> led_panicked l"

text \<open>An entry stays in the map as long as its run may still be going on or its outcome is unknown.\<close>

definition kept :: "request_ledger \<Rightarrow> addr \<Rightarrow> bool" where
  "kept l a \<longleftrightarrow> a < length (led_heap l) \<and> \<not> evictable (entry_at l a)"

lemma ledger_okD:
  assumes "ledger_ok l"
  shows "go_map (led_entries l)" "length (led_entries l) \<le> completeTurnRequestMax"
    and "lookup_entry l k = Some a \<Longrightarrow> k \<noteq> []"
    and "lookup_entry l k = Some a \<Longrightarrow> a < length (led_heap l)"
    and "lookup_entry l k = Some a \<Longrightarrow> lookup_entry l k' = Some a \<Longrightarrow> k = k'"
    and "a < length (led_heap l) \<Longrightarrow> ent_done_closed (entry_at l a) = ent_finished (entry_at l a)"
    and "\<not> led_panicked l"
  using assms by (auto simp: ledger_ok_def entry_at_def)

lemma ledger_ok_new: "ledger_ok newCompleteTurnRequestLedger"
  by (simp add: ledger_ok_def newCompleteTurnRequestLedger_def lookup_entry_def)

subsection \<open>Writing an entry\<close>

text \<open>\<open>settle_entry\<close> is what every way of finishing does to the entry itself.\<close>

definition settle_entry :: "addr \<Rightarrow> recorded_response \<Rightarrow> request_ledger \<Rightarrow> request_ledger" where
  "settle_entry a r l =
     set_entry a ((entry_at l a)\<lparr>ent_response := r, ent_finished := True, ent_done_closed := True\<rparr>) l"

lemma entry_at_set_entry:
  "a < length (led_heap l) \<Longrightarrow> entry_at (set_entry a e l) b = (if a = b then e else entry_at l b)"
  by (auto simp: entry_at_def set_entry_def nth_list_update)

lemma set_entry_simps [simp]:
  "led_entries (set_entry a e l) = led_entries l"
  "led_nextSequence (set_entry a e l) = led_nextSequence l"
  "led_panicked (set_entry a e l) = led_panicked l"
  "length (led_heap (set_entry a e l)) = length (led_heap l)"
  "lookup_entry (set_entry a e l) k = lookup_entry l k"
  by (simp_all add: set_entry_def lookup_entry_def)

lemma drop_key_simps [simp]:
  "led_heap (drop_key k l) = led_heap l"
  "led_nextSequence (drop_key k l) = led_nextSequence l"
  "led_panicked (drop_key k l) = led_panicked l"
  "entry_at (drop_key k l) a = entry_at l a"
  "lookup_entry (drop_key k l) k' = (if k' = k then None else lookup_entry l k')"
  by (simp_all add: drop_key_def entry_at_def lookup_entry_def)

lemma finish_fresh:
  assumes "a < length (led_heap l)" and "\<not> ent_done_closed (entry_at l a)"
  shows "mark_finished a (record_response a r l) = settle_entry a r l"
  using assms
  by (simp add: mark_finished_def record_response_def settle_entry_def close_done_def
      entry_at_set_entry) (simp add: set_entry_def)

lemma finish_again:
  assumes "a < length (led_heap l)" and "ent_done_closed (entry_at l a)" and "ent_finished (entry_at l a)"
  shows "record_response a r l = settle_entry a r l"
  using assms by (cases "entry_at l a") (simp add: record_response_def settle_entry_def)

lemma ledger_ok_drop: "ledger_ok l \<Longrightarrow> ledger_ok (drop_key k l)"
  unfolding ledger_ok_def
  by (auto simp: drop_key_def lookup_entry_def intro: order_trans [OF length_map_remove_le]
      split: if_splits)

lemma ledger_ok_settle:
  assumes "ledger_ok l" and "a < length (led_heap l)"
  shows "ledger_ok (settle_entry a r l)"
  using assms unfolding ledger_ok_def settle_entry_def
  by (auto simp: set_entry_def lookup_entry_def dest!: set_update_subset_insert [THEN subsetD])

text \<open>With the invariant, each of the three finishing operations is: leave the ledger alone, or settle the entry and drop the key when the response allows a retry.\<close>

lemma finishIfCurrent_eq:
  assumes "ledger_ok l"
  shows "finishIfCurrent key a r l =
    (if lookup_entry l key = Some a \<and> \<not> ent_finished (entry_at l a)
       then drop_if_retryable key r (settle_entry a r l) else l)"
  using ledger_okD [OF assms]
  by (auto simp: finishIfCurrent_def finish_fresh split: option.splits)

lemma finishOwner_eq:
  assumes "ledger_ok l"
  shows "finishOwner key a r l =
    (if lookup_entry l key = Some a then drop_if_retryable key r (settle_entry a r l) else l)"
proof (cases "lookup_entry l key = Some a")
  case True
  with assms have a: "a < length (led_heap l)" by (simp add: ledger_okD)
  have keep: "ent_finished (entry_at (record_response a r l) a) = ent_finished (entry_at l a)"
    using a by (simp add: record_response_def entry_at_set_entry)
  show ?thesis
  proof (cases "ent_finished (entry_at l a)")
    case fin: True
    with assms a have "record_response a r l = settle_entry a r l"
      by (simp add: finish_again ledger_okD)
    with True fin keep show ?thesis by (simp add: finishOwner_def Let_def)
  next
    case False
    with assms a have "mark_finished a (record_response a r l) = settle_entry a r l"
      by (simp add: finish_fresh ledger_okD)
    with True False keep show ?thesis by (simp add: finishOwner_def Let_def)
  qed
qed (auto simp: finishOwner_def split: option.splits)

lemma finish_request_eq:
  assumes "ledger_ok l"
  shows "finish_request key r l =
    (case lookup_entry l key of None \<Rightarrow> l
     | Some a \<Rightarrow> finishIfCurrent key a r l)"
  by (auto simp: finish_request_def finishIfCurrent_def split: option.splits)

lemma ledger_ok_drop_if_retryable: "ledger_ok l \<Longrightarrow> ledger_ok (drop_if_retryable k r l)"
  by (simp add: drop_if_retryable_def ledger_ok_drop)

lemma ledger_ok_finishIfCurrent: "ledger_ok l \<Longrightarrow> ledger_ok (finishIfCurrent key a r l)"
  by (auto simp: finishIfCurrent_eq intro: ledger_ok_drop_if_retryable ledger_ok_settle dest: ledger_okD(4))

lemma ledger_ok_finishOwner: "ledger_ok l \<Longrightarrow> ledger_ok (finishOwner key a r l)"
  by (auto simp: finishOwner_eq intro: ledger_ok_drop_if_retryable ledger_ok_settle dest: ledger_okD(4))

lemma ledger_ok_finish: "ledger_ok l \<Longrightarrow> ledger_ok (finish_request key r l)"
  by (simp add: finish_request_eq ledger_ok_finishIfCurrent split: option.splits)

subsection \<open>Which entry is evicted\<close>

definition evict_candidates :: "request_ledger \<Rightarrow> (string \<times> addr) list" where
  "evict_candidates l = filter (\<lambda>(k, a). evictable (entry_at l a)) (led_entries l)"

lemma evict_scan_step:
  "evict_scan l ((k1, a1) # es) k s =
     (if evictable (entry_at l a1) then
        (if k = [] \<or> ent_sequence (entry_at l a1) < s
           then evict_scan l es k1 (ent_sequence (entry_at l a1)) else evict_scan l es k s)
      else evict_scan l es k s)"
  by (simp add: evictable_def)

lemma evict_scan_evictable:
  "evict_scan l es k s = evict_scan l (filter (\<lambda>(k, a). evictable (entry_at l a)) es) k s"
proof (induction es arbitrary: k s)
  case (Cons ka es)
  obtain k1 a1 where ka: "ka = (k1, a1)" by (cases ka)
  show ?case
    by (simp add: ka evict_scan_step Cons.IH [symmetric] del: evict_scan.simps(2))
qed simp

lemma evict_scan_found:
  assumes "\<forall>(k, a) \<in> set es. evictable (entry_at l a)" and "k0 \<noteq> []"
    and "evict_scan l es k0 s0 = (k, s)" and "\<forall>(k, a) \<in> set es. k \<noteq> []"
  shows "s \<le> s0 \<and> (\<forall>(k', a') \<in> set es. s \<le> ent_sequence (entry_at l a'))
    \<and> ((k, s) = (k0, s0) \<or> (\<exists>a. (k, a) \<in> set es \<and> s = ent_sequence (entry_at l a)))"
  using assms
proof (induction es arbitrary: k0 s0)
  case Nil
  then show ?case by simp
next
  case (Cons ka es)
  obtain k1 a1 where ka: "ka = (k1, a1)" by (cases ka)
  define n where "n = ent_sequence (entry_at l a1)"
  show ?case
  proof (cases "n < s0")
    case True
    with Cons.prems have "evict_scan l es k1 n = (k, s)"
      by (simp add: ka n_def evictable_def)
    with Cons.IH [of k1 n] Cons.prems True show ?thesis
      by (auto simp: ka n_def)
  next
    case False
    with Cons.prems have "evict_scan l es k0 s0 = (k, s)"
      by (simp add: ka n_def evictable_def)
    with Cons.IH [of k0 s0] Cons.prems False show ?thesis
      by (auto simp: ka n_def)
  qed
qed

lemma evict_scan_min:
  assumes "es \<noteq> []" and "\<forall>(k, a) \<in> set es. evictable (entry_at l a)"
    and "\<forall>(k, a) \<in> set es. k \<noteq> []" and "evict_scan l es [] s0 = (k, s)"
  shows "(\<exists>a. (k, a) \<in> set es \<and> s = ent_sequence (entry_at l a))
    \<and> (\<forall>(k', a') \<in> set es. s \<le> ent_sequence (entry_at l a'))"
proof -
  obtain k1 a1 es' where es: "es = (k1, a1) # es'"
    using assms(1) by (cases es) auto
  with assms have "evict_scan l es' k1 (ent_sequence (entry_at l a1)) = (k, s)"
    by (simp add: evictable_def)
  with evict_scan_found [of es' l k1 "ent_sequence (entry_at l a1)" k s] assms(2,3) es
  have "s \<le> ent_sequence (entry_at l a1) \<and> (\<forall>(k', a') \<in> set es'. s \<le> ent_sequence (entry_at l a'))
      \<and> ((k, s) = (k1, ent_sequence (entry_at l a1)) \<or> (\<exists>a. (k, a) \<in> set es' \<and> s = ent_sequence (entry_at l a)))"
    by simp
  then show ?thesis unfolding es by (elim conjE disjE) auto
qed

lemma evict_none:
  assumes "evict_candidates l = []"
  shows "evictFinishedForCapacityLocked l = l"
  using assms evict_scan_evictable [of l "led_entries l" "[]" 0]
  by (simp add: evictFinishedForCapacityLocked_def evict_candidates_def)

lemma evict_some:
  assumes "ledger_ok l" and "evict_candidates l \<noteq> []"
  obtains k a where "lookup_entry l k = Some a" "evictable (entry_at l a)"
    and "evictFinishedForCapacityLocked l = drop_key k l"
    and "\<forall>k' a'. lookup_entry l k' = Some a' \<longrightarrow> evictable (entry_at l a')
           \<longrightarrow> ent_sequence (entry_at l a) \<le> ent_sequence (entry_at l a')"
proof -
  let ?es = "evict_candidates l"
  have in_es: "(k, a) \<in> set ?es \<longleftrightarrow> lookup_entry l k = Some a \<and> evictable (entry_at l a)" for k a
    using assms(1) by (auto simp: evict_candidates_def lookup_entry_def ledger_okD(1))
  obtain k s where scan: "evict_scan l ?es [] 0 = (k, s)" by fastforce
  have ev: "\<forall>(k, a) \<in> set ?es. evictable (entry_at l a)" and ne: "\<forall>(k, a) \<in> set ?es. k \<noteq> []"
    using in_es ledger_okD(3) [OF assms(1)] by auto
  from evict_scan_min [OF assms(2) ev ne scan] obtain a where
    a: "(k, a) \<in> set ?es" "s = ent_sequence (entry_at l a)"
    and min: "\<forall>(k', a') \<in> set ?es. s \<le> ent_sequence (entry_at l a')" by blast
  have "evict_scan l (led_entries l) [] 0 = (k, s)"
    using scan by (subst evict_scan_evictable) (simp add: evict_candidates_def)
  with a ne have "evictFinishedForCapacityLocked l = drop_key k l"
    by (auto simp: evictFinishedForCapacityLocked_def)
  with a min in_es show thesis by (intro that [of k a]) auto
qed

lemma ledger_ok_evict: "ledger_ok l \<Longrightarrow> ledger_ok (evictFinishedForCapacityLocked l)"
  by (cases "evict_candidates l = []") (simp_all add: evict_none, metis evict_some ledger_ok_drop)

lemma evict_frame [simp]:
  "led_heap (evictFinishedForCapacityLocked l) = led_heap l"
  "entry_at (evictFinishedForCapacityLocked l) a = entry_at l a"
  "led_nextSequence (evictFinishedForCapacityLocked l) = led_nextSequence l"
  by (auto simp: evictFinishedForCapacityLocked_def split: prod.splits)

lemma evict_keeps:
  assumes "ledger_ok l" and "lookup_entry l k = Some a" and "kept l a"
  shows "lookup_entry (evictFinishedForCapacityLocked l) k = Some a"
proof (cases "evict_candidates l = []")
  case True
  with assms show ?thesis by (simp add: evict_none)
next
  case False
  with assms(1) obtain k' a' where k': "lookup_entry l k' = Some a'" "evictable (entry_at l a')"
    "evictFinishedForCapacityLocked l = drop_key k' l" by (rule evict_some)
  with assms have "k \<noteq> k'" by (auto simp: kept_def)
  with assms k' show ?thesis by simp
qed

lemma evict_lookup_absent:
  "lookup_entry l k = None \<Longrightarrow> lookup_entry (evictFinishedForCapacityLocked l) k = None"
  by (auto simp: evictFinishedForCapacityLocked_def split: prod.splits)

subsection \<open>Beginning a request\<close>

text \<open>The ledger into which a new entry goes: the old one, after an eviction when it is full.\<close>

definition make_room :: "request_ledger \<Rightarrow> request_ledger" where
  "make_room l =
     (if completeTurnRequestMax \<le> length (led_entries l)
        then evictFinishedForCapacityLocked l else l)"

lemma ledger_ok_make_room: "ledger_ok l \<Longrightarrow> ledger_ok (make_room l)"
  by (simp add: make_room_def ledger_ok_evict)

lemma make_room_frame [simp]:
  "led_heap (make_room l) = led_heap l" "entry_at (make_room l) a = entry_at l a"
  "led_nextSequence (make_room l) = led_nextSequence l"
  by (simp_all add: make_room_def)

lemma make_room_keeps:
  "ledger_ok l \<Longrightarrow> lookup_entry l k = Some a \<Longrightarrow> kept l a \<Longrightarrow> lookup_entry (make_room l) k = Some a"
  by (simp add: make_room_def evict_keeps)

lemma make_room_absent: "lookup_entry l k = None \<Longrightarrow> lookup_entry (make_room l) k = None"
  by (simp add: make_room_def evict_lookup_absent)

definition register_entry :: "string \<Rightarrow> string \<Rightarrow> request_ledger \<Rightarrow> request_ledger" where
  "register_entry key fp l =
     l\<lparr>led_nextSequence := led_nextSequence l + 1,
       led_heap := led_heap l @
         [\<lparr>ent_sequence = led_nextSequence l + 1, ent_fingerprint = fp, ent_done_closed = False,
           ent_response = no_response, ent_finished = False\<rparr>],
       led_entries := map_put key (length (led_heap l)) (led_entries l)\<rparr>"

lemma begin_cases:
  "beginWithFingerprint key fp l =
     (case lookup_entry l key of
        Some a \<Rightarrow> ((Some a, False, ent_fingerprint (entry_at l a) \<noteq> [] \<and> fp \<noteq> []
                                 \<and> ent_fingerprint (entry_at l a) \<noteq> fp), l)
      | None \<Rightarrow>
          (if completeTurnRequestMax \<le> length (led_entries (make_room l))
             then ((None, False, False), make_room l)
           else ((Some (length (led_heap l)), True, False), register_entry key fp (make_room l))))"
  by (simp add: beginWithFingerprint_def make_room_def register_entry_def Let_def split: option.splits)

lemma register_lookup [simp]:
  "lookup_entry (register_entry key fp l) k =
     (if k = key then Some (length (led_heap l)) else lookup_entry l k)"
  by (simp add: register_entry_def lookup_entry_def)

lemma register_entry_at:
  "a < length (led_heap l) \<Longrightarrow> entry_at (register_entry key fp l) a = entry_at l a"
  by (simp add: register_entry_def entry_at_def nth_append)

lemma register_heap [simp]: "length (led_heap (register_entry key fp l)) = Suc (length (led_heap l))"
  by (simp add: register_entry_def)

lemma kept_register_new: "kept (register_entry key fp l) (length (led_heap l))"
  by (simp add: kept_def evictable_def register_entry_def entry_at_def)

lemma kept_register_old: "kept l a \<Longrightarrow> kept (register_entry key fp l) a"
  by (simp add: kept_def register_entry_at)

lemma ledger_ok_register:
  assumes "ledger_ok l" and "key \<noteq> []" and "lookup_entry l key = None"
    and "length (led_entries l) < completeTurnRequestMax"
  shows "ledger_ok (register_entry key fp l)"
  unfolding ledger_ok_def
proof (intro conjI)
  show "go_map (led_entries (register_entry key fp l))"
    using ledger_okD(1) [OF assms(1)] by (simp add: register_entry_def)
  show "length (led_entries (register_entry key fp l)) \<le> completeTurnRequestMax"
    using assms(3,4) by (simp add: register_entry_def length_map_put_absent lookup_entry_def)
  show "\<forall>e\<in>set (led_heap (register_entry key fp l)). ent_done_closed e = ent_finished e"
    using assms(1) by (auto simp: register_entry_def ledger_ok_def)
  show "\<not> led_panicked (register_entry key fp l)"
    using assms(1) by (simp add: register_entry_def ledger_ok_def)
  show "\<forall>k a. lookup_entry (register_entry key fp l) k = Some a \<longrightarrow>
      k \<noteq> [] \<and> a < length (led_heap (register_entry key fp l))"
    using assms(2) ledger_okD(3,4) [OF assms(1)] by (auto simp: less_Suc_eq)
  show "\<forall>k k' a. lookup_entry (register_entry key fp l) k = Some a \<longrightarrow>
      lookup_entry (register_entry key fp l) k' = Some a \<longrightarrow> k = k'"
    using ledger_okD(4,5) [OF assms(1)] by (auto dest: less_imp_neq)
qed

lemma ledger_ok_begin:
  "ledger_ok l \<Longrightarrow> key \<noteq> [] \<Longrightarrow> ledger_ok (snd (beginWithFingerprint key fp l))"
  by (auto simp: begin_cases ledger_ok_make_room make_room_absent not_le
      intro!: ledger_ok_register split: option.splits)

end
