(* ===== verification/Turn_Requests.thy ===== *)
theory Turn_Requests
  imports Turn_Ledger
begin

text \<open>
  The requests that go through \<open>executeCompleteTurnIdempotent\<close>
  (\<open>go-service/internal/httpapi/complete_turn_idempotency.go\<close>) as concurrent processes over
  one ledger. Each ledger operation runs under the ledger's mutex and is one step; between
  steps any other request, any cancellation and any panic of a handler may come. The
  interface between the ledger and the requests is the locale \<open>run_registry\<close>; the exclusion
  argument is made in it once and interpreted on the ledger.
\<close>

subsection \<open>The contract of the ledger\<close>

text \<open>
  \<open>holder l k\<close> is the entry registered for a key, \<open>held l a\<close> that the entry cannot be
  evicted. \<open>start\<close> hands out an entry with an ownership flag, \<open>settle\<close> is the owner's
  report, \<open>give_up\<close> the report of the cancellation watcher.
\<close>

locale run_registry =
  fixes ok :: "'l \<Rightarrow> bool"
    and holder :: "'l \<Rightarrow> string \<Rightarrow> 'a option"
    and held :: "'l \<Rightarrow> 'a \<Rightarrow> bool"
    and start :: "string \<Rightarrow> string \<Rightarrow> 'l \<Rightarrow> ('a option \<times> bool \<times> bool) \<times> 'l"
    and settle :: "string \<Rightarrow> 'a \<Rightarrow> recorded_response \<Rightarrow> 'l \<Rightarrow> 'l"
    and give_up :: "string \<Rightarrow> 'a \<Rightarrow> 'l \<Rightarrow> 'l"
  assumes start_ok: "ok l \<Longrightarrow> key \<noteq> [] \<Longrightarrow> ok (snd (start key fp l))"
    and start_owner: "ok l \<Longrightarrow> start key fp l = ((Some a, True, c), l') \<Longrightarrow>
          holder l key = None \<and> holder l' key = Some a \<and> held l' a"
    and start_keeps: "ok l \<Longrightarrow> start key fp l = (res, l') \<Longrightarrow> holder l k = Some b \<Longrightarrow> held l b \<Longrightarrow>
          holder l' k = Some b \<and> held l' b"
    and settle_ok: "ok l \<Longrightarrow> ok (settle key a r l)"
    and settle_keeps: "ok l \<Longrightarrow> k \<noteq> key \<Longrightarrow> holder l k = Some b \<Longrightarrow> held l b \<Longrightarrow>
          holder (settle key a r l) k = Some b \<and> held (settle key a r l) b"
    and give_up_ok: "ok l \<Longrightarrow> ok (give_up key a l)"
    and give_up_keeps: "ok l \<Longrightarrow> holder l k = Some b \<Longrightarrow> held l b \<Longrightarrow>
          holder (give_up key a l) k = Some b \<and> held (give_up key a l) b"
begin

text \<open>
  \<open>runs\<close> says which process runs a handler, for which key and with which entry. The
  invariant: the entry of a running handler is the registered one and cannot be evicted, and
  no two handlers run for one key.
\<close>

definition runs_ok :: "'l \<Rightarrow> (nat \<Rightarrow> (string \<times> 'a) option) \<Rightarrow> bool" where
  "runs_ok l runs \<longleftrightarrow>
     ok l \<and>
     (\<forall>t k a. runs t = Some (k, a) \<longrightarrow> holder l k = Some a \<and> held l a) \<and>
     (\<forall>t t' k a a'. runs t = Some (k, a) \<longrightarrow> runs t' = Some (k, a') \<longrightarrow> t = t')"

lemma runs_okD:
  assumes "runs_ok l runs"
  shows "ok l" and "runs t = Some (k, a) \<Longrightarrow> holder l k = Some a" and "runs t = Some (k, a) \<Longrightarrow> held l a"
  using assms by (auto simp: runs_ok_def)

lemma runs_ok_exclusive:
  "runs_ok l runs \<Longrightarrow> runs t = Some (k, a) \<Longrightarrow> runs t' = Some (k, a') \<Longrightarrow> t = t'"
  by (auto simp: runs_ok_def)

lemma runs_ok_start_owner:
  assumes "runs_ok l runs" and "key \<noteq> []" and "start key fp l = ((Some a, True, c), l')"
  shows "runs_ok l' (runs(t \<mapsto> (key, a)))"
proof -
  have l: "ok l" using assms(1) by (simp add: runs_ok_def)
  have l': "ok l'" using start_ok [OF l assms(2), of fp] assms(3) by simp
  note own = start_owner [OF l assms(3)]
  have "k \<noteq> key" if "runs s = Some (k, b)" for s k b
    using that assms(1) own by (auto simp: runs_ok_def)
  moreover have "holder l' k = Some b \<and> held l' b" if "runs s = Some (k, b)" for s k b
    by (rule start_keeps [OF l assms(3)]) (rule runs_okD(2,3) [OF assms(1) that])+
  ultimately show ?thesis
    using assms(1) l' own unfolding runs_ok_def by (auto split: if_splits)
qed

lemma runs_ok_start_other:
  assumes "runs_ok l runs" and "key \<noteq> []" and "start key fp l = (res, l')"
  shows "runs_ok l' runs"
proof -
  have l: "ok l" using assms(1) by (simp add: runs_ok_def)
  have "ok l'" using start_ok [OF l assms(2), of fp] assms(3) by simp
  with assms(1) start_keeps [OF l assms(3)] show ?thesis unfolding runs_ok_def by blast
qed

lemma runs_ok_stop: "runs_ok l runs \<Longrightarrow> runs_ok l (runs(t := None))"
  unfolding runs_ok_def by (auto split: if_splits)

lemma runs_ok_settle:
  assumes "runs_ok l runs" and "runs t = Some (key, a)"
  shows "runs_ok (settle key a r l) (runs(t := None))"
proof -
  have l: "ok l" using assms(1) by (simp add: runs_ok_def)
  have "k \<noteq> key" if "runs s = Some (k, b)" "s \<noteq> t" for s k b
    using that assms by (auto simp: runs_ok_def)
  then have "holder (settle key a r l) k = Some b \<and> held (settle key a r l) b"
    if "runs s = Some (k, b)" "s \<noteq> t" for s k b
    using that by (intro settle_keeps [OF l]) (auto intro: runs_okD [OF assms(1)])
  with assms(1) settle_ok [OF l] show ?thesis
    unfolding runs_ok_def by (auto split: if_splits)
qed

lemma runs_ok_give_up: "runs_ok l runs \<Longrightarrow> runs_ok (give_up key a l) runs"
  unfolding runs_ok_def using give_up_ok give_up_keeps by blast

end

subsection \<open>The ledger keeps the contract\<close>

lemma cancelled_state:
  "parseCompleteTurnRecordedResponseState (cancelled_response key) =
     Some (zero_state\<lparr>rs_status := ''error'', rs_code := ''complete_turn_request_outcome_unknown'',
       rs_commit_state := ''unknown'', rs_reconciliation_required := True,
       rs_retryable := Some False, rs_queue_action := ''discard'', rs_save_ok := Some False\<rparr>)"
  by (simp add: parseCompleteTurnRecordedResponseState_def cancelled_response_def recorded_def
      writeJSON_def newCompleteTurnResponseBuffer_def Write_def WriteHeader_def
      cancelled_answer_def decode_member_def zero_state_def archive_eval)

lemma trim_unknown: "trim_space ''unknown'' = ''unknown''"
  by (simp add: archive_eval)

text \<open>The watcher's response reports an unknown commit state: it pins the entry and forbids a retry.\<close>

lemma cancelled_pins: "completeTurnRecordedResponsePinsOutcome (cancelled_response key)"
  by (simp add: completeTurnRecordedResponsePinsOutcome_def cancelled_state trim_unknown)

lemma cancelled_no_retry:
  "\<not> completeTurnRecordedResponseAllowsWholeRequestRetry (cancelled_response key)"
  using cancelled_pins pins_not_retry by blast

lemma settle_entry_at:
  "a < length (led_heap l) \<Longrightarrow> entry_at (settle_entry a r l) b =
     (if a = b then (entry_at l a)\<lparr>ent_response := r, ent_finished := True, ent_done_closed := True\<rparr>
      else entry_at l b)"
  by (simp add: settle_entry_def entry_at_set_entry)

lemma settle_entry_frame [simp]:
  "lookup_entry (settle_entry a r l) k = lookup_entry l k"
  "length (led_heap (settle_entry a r l)) = length (led_heap l)"
  by (simp_all add: settle_entry_def)

lemma drop_if_retryable_frame [simp]:
  "led_heap (drop_if_retryable k r l) = led_heap l"
  "entry_at (drop_if_retryable k r l) a = entry_at l a"
  by (simp_all add: drop_if_retryable_def)

lemma drop_if_retryable_lookup:
  "k \<noteq> key \<Longrightarrow> lookup_entry (drop_if_retryable key r l) k = lookup_entry l k"
  by (simp add: drop_if_retryable_def)

definition give_up_request :: "string \<Rightarrow> addr \<Rightarrow> request_ledger \<Rightarrow> request_ledger" where
  "give_up_request key a l = finishIfCurrent key a (cancelled_response key) l"

lemma begin_keeps:
  assumes "ledger_ok l" and "beginWithFingerprint key fp l = (res, l')"
    and "lookup_entry l k = Some b" and "kept l b"
  shows "lookup_entry l' k = Some b \<and> kept l' b"
proof (cases "lookup_entry l key")
  case (Some a)
  with assms show ?thesis by (auto simp: begin_cases)
next
  case None
  have room: "lookup_entry (make_room l) k = Some b" "kept (make_room l) b"
    using assms make_room_keeps by (auto simp: kept_def)
  from None assms have "l' = make_room l \<or> l' = register_entry key fp (make_room l)"
    by (auto simp: begin_cases split: if_splits)
  moreover from None assms(3) have "k \<noteq> key" by auto
  ultimately show ?thesis using room kept_register_old by auto
qed

lemma begin_owner:
  assumes "ledger_ok l" and "beginWithFingerprint key fp l = ((Some a, True, c), l')"
  shows "lookup_entry l key = None \<and> lookup_entry l' key = Some a \<and> kept l' a"
  using assms kept_register_new [of key fp "make_room l"]
  by (auto simp: begin_cases split: option.splits if_splits)

lemma finishOwner_keeps:
  assumes "ledger_ok l" and "k \<noteq> key" and "lookup_entry l k = Some b" and "kept l b"
  shows "lookup_entry (finishOwner key a r l) k = Some b \<and> kept (finishOwner key a r l) b"
proof (cases "lookup_entry l key = Some a")
  case True
  with assms have "a \<noteq> b" "a < length (led_heap l)" by (auto dest: ledger_okD)
  with True assms show ?thesis
    by (simp add: finishOwner_eq drop_if_retryable_lookup kept_def settle_entry_at)
qed (use assms in \<open>simp add: finishOwner_eq\<close>)

lemma give_up_keeps_entry:
  assumes "ledger_ok l" and "lookup_entry l k = Some b" and "kept l b"
  shows "lookup_entry (give_up_request key a l) k = Some b \<and> kept (give_up_request key a l) b"
proof (cases "lookup_entry l key = Some a \<and> \<not> ent_finished (entry_at l a)")
  case True
  with assms(1) have "a < length (led_heap l)" by (auto dest: ledger_okD)
  with True assms show ?thesis
    by (simp add: give_up_request_def finishIfCurrent_eq drop_if_retryable_def cancelled_no_retry
        kept_def settle_entry_at evictable_def cancelled_pins)
qed (use assms in \<open>auto simp: give_up_request_def finishIfCurrent_eq\<close>)

interpretation turn_runs: run_registry
  ledger_ok lookup_entry kept beginWithFingerprint finishOwner give_up_request
proof unfold_locales
  show "\<And>l key fp. ledger_ok l \<Longrightarrow> key \<noteq> [] \<Longrightarrow> ledger_ok (snd (beginWithFingerprint key fp l))"
    by (rule ledger_ok_begin)
  show "\<And>l key a r. ledger_ok l \<Longrightarrow> ledger_ok (finishOwner key a r l)"
    by (rule ledger_ok_finishOwner)
  show "\<And>l key a. ledger_ok l \<Longrightarrow> ledger_ok (give_up_request key a l)"
    by (simp add: give_up_request_def ledger_ok_finishIfCurrent)
qed (simp_all add: begin_owner begin_keeps finishOwner_keeps give_up_keeps_entry)

subsection \<open>The request processes\<close>

text \<open>
  Where a request is in \<open>executeCompleteTurnIdempotent\<close>. \<open>Unguarded\<close> is a request with an
  empty key, which runs without the ledger; \<open>Running\<close> owns an entry and is inside \<open>run\<close>;
  \<open>Returned\<close> has the recorded response but has not yet called \<open>finishOwner\<close>; \<open>Aborted\<close>
  panicked inside \<open>run\<close> (\<open>net/http\<close> recovers, the ledger is not told).
\<close>

datatype request_pc =
    Arrived string string
  | Unguarded
  | Running string addr
  | Returned string addr recorded_response
  | Waiting string addr
  | Replied recorded_response
  | Aborted

text \<open>\<open>sys_watch t\<close> is the goroutine an owner with a cancellable context leaves behind.\<close>

record request_system =
  sys_ledger :: request_ledger
  sys_pcs :: "nat \<Rightarrow> request_pc option"
  sys_watch :: "nat \<Rightarrow> (string \<times> addr) option"

definition initial_system :: request_system where
  "initial_system =
     \<lparr>sys_ledger = newCompleteTurnRequestLedger, sys_pcs = (\<lambda>_. None), sys_watch = (\<lambda>_. None)\<rparr>"

definition json_response :: "go_int \<Rightarrow> json \<Rightarrow> recorded_response" where
  "json_response status v = recorded (writeJSON newCompleteTurnResponseBuffer status v)"

text \<open>
  What a request does up to its first wait: with an empty key it runs at once; otherwise it
  calls \<open>beginWithFingerprint\<close> and answers a conflict or a full ledger, waits for another
  owner, or owns the entry.
\<close>

definition enter_request :: "string \<Rightarrow> string \<Rightarrow> request_ledger \<Rightarrow> request_pc \<times> request_ledger" where
  "enter_request key fingerprint l =
     (if key = [] then (Unguarded, l)
      else
        (let ((entry, owner, conflict), l') = beginWithFingerprint key fingerprint l
         in if conflict then (Replied (json_response 200 (conflict_answer key)), l')
            else case entry of
                   None \<Rightarrow>
                     (Replied (json_response 503
                        (retry_answer ''complete_turn_processing_capacity_reached'' key)), l')
                 | Some a \<Rightarrow> (if owner then Running key a else Waiting key a, l')))"

text \<open>What a waiting request answers once its entry's channel is closed.\<close>

definition waited_answer :: "string \<Rightarrow> addr \<Rightarrow> request_ledger \<Rightarrow> recorded_response" where
  "waited_answer key a l =
     (let (response, ok) = responseForEntry key a l
      in if ok then response
         else json_response 503 (retry_answer ''complete_turn_recorded_response_unavailable'' key))"

definition set_pc :: "nat \<Rightarrow> request_pc \<Rightarrow> request_system \<Rightarrow> request_system" where
  "set_pc t pc s = s\<lparr>sys_pcs := (sys_pcs s)(t \<mapsto> pc)\<rparr>"

inductive request_step :: "request_system \<Rightarrow> request_system \<Rightarrow> bool" where
  arrive: "sys_pcs s t = None \<Longrightarrow> request_step s (set_pc t (Arrived key fp) s)"
| enter: "sys_pcs s t = Some (Arrived key fp) \<Longrightarrow>
    enter_request key fp (sys_ledger s) = (pc, l') \<Longrightarrow>
    request_step s
      (set_pc t pc (s\<lparr>sys_ledger := l',
         sys_watch := (case pc of Running k a \<Rightarrow> (sys_watch s)(t \<mapsto> (k, a)) | _ \<Rightarrow> sys_watch s)\<rparr>))"
| run_unguarded: "sys_pcs s t = Some Unguarded \<Longrightarrow> request_step s (set_pc t (Replied r) s)"
| run_returns: "sys_pcs s t = Some (Running key a) \<Longrightarrow> request_step s (set_pc t (Returned key a r) s)"
| run_panics: "sys_pcs s t = Some (Running key a) \<Longrightarrow> request_step s (set_pc t Aborted s)"
| owner_settles: "sys_pcs s t = Some (Returned key a r) \<Longrightarrow>
    request_step s (set_pc t (Replied r) (s\<lparr>sys_ledger := finishOwner key a r (sys_ledger s)\<rparr>))"
| watcher_fires: "sys_watch s t = Some (key, a) \<Longrightarrow>
    request_step s (s\<lparr>sys_ledger := give_up_request key a (sys_ledger s),
                      sys_watch := (sys_watch s)(t := None)\<rparr>)"
| waiter_answers: "sys_pcs s t = Some (Waiting key a) \<Longrightarrow>
    ent_done_closed (entry_at (sys_ledger s) a) \<Longrightarrow>
    request_step s (set_pc t (Replied (waited_answer key a (sys_ledger s))) s)"
| waiter_cancelled: "sys_pcs s t = Some (Waiting key a) \<Longrightarrow>
    request_step s (set_pc t (Replied (json_response 202 (processing_answer key))) s)"

inductive_cases request_stepE: "request_step s s'"

inductive reachable_system :: "request_system \<Rightarrow> bool" where
  reachable_initial: "reachable_system initial_system"
| reachable_step: "reachable_system s \<Longrightarrow> request_step s s' \<Longrightarrow> reachable_system s'"

text \<open>Which handler a process runs: from owning the entry until the ledger has its response.\<close>

fun running_entry :: "request_pc \<Rightarrow> (string \<times> addr) option" where
  "running_entry (Running key a) = Some (key, a)"
| "running_entry (Returned key a r) = Some (key, a)"
| "running_entry _ = None"

definition sys_runs :: "request_system \<Rightarrow> nat \<Rightarrow> (string \<times> addr) option" where
  "sys_runs s t = Option.bind (sys_pcs s t) running_entry"

definition system_ok :: "request_system \<Rightarrow> bool" where
  "system_ok s \<longleftrightarrow> turn_runs.runs_ok (sys_ledger s) (sys_runs s)"

lemma sys_runs_set_pc [simp]:
  "sys_runs (set_pc t pc s) = (sys_runs s)(t := running_entry pc)"
  by (rule ext) (simp add: sys_runs_def set_pc_def)

lemma sys_runs_ledger [simp]: "sys_runs (s\<lparr>sys_ledger := l\<rparr>) = sys_runs s"
  "sys_runs (s\<lparr>sys_ledger := l, sys_watch := w\<rparr>) = sys_runs s"
  by (simp_all add: sys_runs_def fun_eq_iff)

lemma set_pc_ledger [simp]: "sys_ledger (set_pc t pc s) = sys_ledger s"
  by (simp add: set_pc_def)

lemma fun_upd_None_idle: "f t = None \<Longrightarrow> f(t := None) = f"
  by (simp add: fun_upd_idem)

lemma system_ok_enter:
  assumes "system_ok s" and idle: "sys_runs s t = None"
    and "enter_request key fp (sys_ledger s) = (pc, l')"
  shows "turn_runs.runs_ok l' ((sys_runs s)(t := running_entry pc))"
proof (cases "key = []")
  case True
  with assms show ?thesis
    by (auto simp: enter_request_def system_ok_def fun_upd_None_idle)
next
  case False
  obtain entry owner conflict l1 where
    begin_eq: "beginWithFingerprint key fp (sys_ledger s) = ((entry, owner, conflict), l1)"
    by (metis prod.exhaust)
  with False assms(3) have l1: "l' = l1"
    by (auto simp: enter_request_def split: if_splits option.splits)
  have inv: "turn_runs.runs_ok (sys_ledger s) (sys_runs s)" using assms(1) by (simp add: system_ok_def)
  show ?thesis
  proof (cases "running_entry pc")
    case None
    with turn_runs.runs_ok_start_other [OF inv False begin_eq] idle l1 show ?thesis
      by (simp add: fun_upd_None_idle)
  next
    case (Some ka)
    with False assms(3) begin_eq have "entry = Some (snd ka)" "owner" "fst ka = key"
      by (auto simp: enter_request_def split: if_splits option.splits)
    with turn_runs.runs_ok_start_owner [OF inv False] begin_eq l1 Some show ?thesis
      by (cases ka) auto
  qed
qed

lemma request_step_ok:
  assumes "request_step s s'" and "system_ok s"
  shows "system_ok s'"
  using assms(1)
proof cases
  case (enter t key fp pc l')
  then have "sys_runs s t = None" by (simp add: sys_runs_def)
  from system_ok_enter [OF assms(2) this enter(3)] show ?thesis
    by (simp add: system_ok_def enter(1))
next
  case (owner_settles t key a r)
  then have "sys_runs s t = Some (key, a)" by (simp add: sys_runs_def)
  with turn_runs.runs_ok_settle assms(2) owner_settles(1) show ?thesis
    by (simp add: system_ok_def)
next
  case (run_returns t key a r)
  then have "sys_runs s t = Some (key, a)" by (simp add: sys_runs_def)
  with assms(2) run_returns(1) show ?thesis by (simp add: system_ok_def fun_upd_idem)
qed (use assms(2) in \<open>simp_all add: system_ok_def turn_runs.runs_ok_stop turn_runs.runs_ok_give_up\<close>)

lemma system_ok_initial: "system_ok initial_system"
  by (simp add: system_ok_def initial_system_def sys_runs_def turn_runs.runs_ok_def ledger_ok_new)

lemma reachable_system_ok: "reachable_system s \<Longrightarrow> system_ok s"
  by (induction rule: reachable_system.induct) (auto intro: system_ok_initial request_step_ok)

end
