(* ===== verification/Turn_Outcomes.thy ===== *)
theory Turn_Outcomes
  imports Turn_Requests
begin

text \<open>
  What becomes of an outcome once the ledger has it, over all interleavings of the requests of
  \<open>Turn_Requests\<close>: a pinned outcome (something was committed, or it is unknown whether it was)
  stays until the process ends and answers every duplicate, and an entry leaves the ledger for
  two reasons only.
\<close>

subsection \<open>Entries of others are not written\<close>

lemma begin_entry_at:
  assumes "a < length (led_heap l)"
  shows "entry_at (snd (beginWithFingerprint key fp l)) a = entry_at l a"
  using assms by (auto simp: begin_cases register_entry_at split: option.splits)

lemma finishOwner_entry_at:
  assumes "ledger_ok l" and "lookup_entry l k = Some b" and "k \<noteq> key"
  shows "entry_at (finishOwner key a r l) b = entry_at l b"
proof (cases "lookup_entry l key = Some a")
  case True
  with assms have "a \<noteq> b" "a < length (led_heap l)"
    by (auto dest: ledger_okD)
  with True assms(1) show ?thesis by (simp add: finishOwner_eq settle_entry_at)
qed (simp add: finishOwner_eq [OF assms(1)])

lemma give_up_entry_at:
  assumes "ledger_ok l" and "ent_finished (entry_at l b)"
  shows "entry_at (give_up_request key a l) b = entry_at l b"
proof (cases "lookup_entry l key = Some a \<and> \<not> ent_finished (entry_at l a)")
  case True
  with assms have "a \<noteq> b" "a < length (led_heap l)"
    by (auto dest: ledger_okD)
  with True assms(1) show ?thesis
    by (simp add: give_up_request_def finishIfCurrent_eq settle_entry_at)
qed (use assms in \<open>auto simp: give_up_request_def finishIfCurrent_eq\<close>)

lemma enter_request_ledger:
  assumes "enter_request key fp l = (pc, l')"
  shows "l' = (if key = [] then l else snd (beginWithFingerprint key fp l))"
  using assms by (auto simp: enter_request_def split: if_splits option.splits prod.splits)

lemma enter_request_running:
  assumes "enter_request key fp l = (pc, l')" and "running_entry pc = Some (k, a)"
  shows "k = key \<and> beginWithFingerprint key fp l = ((Some a, True, False), l')"
  using assms by (auto simp: enter_request_def split: if_splits option.splits prod.splits)

lemma system_okD:
  assumes "system_ok s"
  shows "ledger_ok (sys_ledger s)"
    and "sys_runs s t = Some (k, a) \<Longrightarrow> lookup_entry (sys_ledger s) k = Some a \<and> kept (sys_ledger s) a"
    and "sys_runs s t = Some (k, a) \<Longrightarrow> sys_runs s u = Some (k, b) \<Longrightarrow> t = u"
proof -
  have runs: "turn_runs.runs_ok (sys_ledger s) (sys_runs s)"
    using assms by (simp add: system_ok_def)
  show "ledger_ok (sys_ledger s)"
    by (rule turn_runs.runs_okD(1) [OF runs])
  show "sys_runs s t = Some (k, a) \<Longrightarrow> lookup_entry (sys_ledger s) k = Some a \<and> kept (sys_ledger s) a"
    using turn_runs.runs_okD(2,3) [OF runs] by blast
  show "sys_runs s t = Some (k, a) \<Longrightarrow> sys_runs s u = Some (k, b) \<Longrightarrow> t = u"
    by (rule turn_runs.runs_ok_exclusive [OF runs])
qed

subsection \<open>Pinned outcomes\<close>

definition settled :: "request_system \<Rightarrow> string \<Rightarrow> addr \<Rightarrow> recorded_response \<Rightarrow> bool" where
  "settled s key a r \<longleftrightarrow>
     lookup_entry (sys_ledger s) key = Some a \<and>
     ent_finished (entry_at (sys_ledger s) a) \<and> ent_response (entry_at (sys_ledger s) a) = r \<and>
     completeTurnRecordedResponsePinsOutcome r \<and> (\<forall>t. sys_runs s t \<noteq> Some (key, a))"

lemma settled_kept:
  assumes "settled s key a r" and "ledger_ok (sys_ledger s)"
  shows "kept (sys_ledger s) a"
  using assms by (auto simp: settled_def kept_def evictable_def dest: ledger_okD)

lemma settled_step:
  assumes st: "settled s key a r" and ok: "system_ok s" and step: "request_step s s'"
  shows "settled s' key a r"
proof -
  let ?l = "sys_ledger s"
  have l: "ledger_ok ?l" and at: "lookup_entry ?l key = Some a"
    using system_okD(1) [OF ok] st by (auto simp: settled_def)
  have a: "a < length (led_heap ?l)" and kept: "kept ?l a"
    using ledger_okD(4) [OF l at] settled_kept [OF st l] by auto
  have fin: "ent_finished (entry_at ?l a)" using st by (simp add: settled_def)
  from step show ?thesis
  proof cases
    case (enter t key' fp pc l')
    have l': "l' = (if key' = [] then ?l else snd (beginWithFingerprint key' fp ?l))"
      by (rule enter_request_ledger [OF enter(3)])
    have "lookup_entry l' key = Some a \<and> entry_at l' a = entry_at ?l a"
      using begin_keeps [OF l _ at kept, of key' fp] begin_entry_at [OF a] at l'
      by (metis prod.collapse)
    moreover have "running_entry pc \<noteq> Some (key, a)"
    proof
      assume "running_entry pc = Some (key, a)"
      from enter_request_running [OF enter(3) this] begin_owner [OF l] at show False by fastforce
    qed
    ultimately show ?thesis using st by (auto simp: settled_def enter(1))
  next
    case (owner_settles t key' b r')
    then have run: "sys_runs s t = Some (key', b)" by (simp add: sys_runs_def)
    have "key' \<noteq> key"
      using system_okD(2) [OF ok run] run st at by (auto simp: settled_def)
    with finishOwner_keeps [OF l _ at kept] finishOwner_entry_at [OF l at] st show ?thesis
      by (auto simp: settled_def owner_settles(1))
  next
    case (watcher_fires t key' b)
    with give_up_keeps_entry [OF l at kept] give_up_entry_at [OF l fin] st show ?thesis
      by (auto simp: settled_def watcher_fires(1))
  next
    case (run_returns t key' b r')
    then have "sys_runs s t = Some (key', b)" by (simp add: sys_runs_def)
    with st show ?thesis by (auto simp: settled_def run_returns(1) fun_upd_idem)
  qed (use st in \<open>auto simp: settled_def\<close>)
qed

lemma settled_steps:
  assumes "request_step\<^sup>*\<^sup>* s s'" and "reachable_system s" and "settled s key a r"
  shows "settled s' key a r \<and> reachable_system s'"
  using assms
  by (induction rule: rtranclp_induct)
    (auto intro: settled_step reachable_system_ok reachable_step)

lemma owner_settled:
  assumes "reachable_system s" and pc: "sys_pcs s t = Some (Returned key a r)"
    and pins: "completeTurnRecordedResponsePinsOutcome r"
  shows "settled (set_pc t (Replied r) (s\<lparr>sys_ledger := finishOwner key a r (sys_ledger s)\<rparr>)) key a r"
proof -
  have ok: "system_ok s" using assms(1) by (rule reachable_system_ok)
  note l = system_okD(1) [OF ok]
  have run: "sys_runs s t = Some (key, a)" using pc by (simp add: sys_runs_def)
  have at: "lookup_entry (sys_ledger s) key = Some a" using system_okD(2) [OF ok run] by simp
  have "a < length (led_heap (sys_ledger s))" by (rule ledger_okD(4) [OF l at])
  moreover have "\<not> completeTurnRecordedResponseAllowsWholeRequestRetry r"
    using pins pins_not_retry by blast
  ultimately show ?thesis
    using system_okD(3) [OF ok run] at pins
    by (auto simp: settled_def finishOwner_eq [OF l] settle_entry_at drop_if_retryable_def)
qed

text \<open>A duplicate of a settled request: a conflict if its fingerprint differs, the recorded response otherwise.\<close>

lemma settled_duplicate:
  assumes "settled s key a r" and "ledger_ok (sys_ledger s)"
  shows "enter_request key fp (sys_ledger s) =
      (let fp0 = ent_fingerprint (entry_at (sys_ledger s) a) in
       if fp0 \<noteq> [] \<and> fp \<noteq> [] \<and> fp0 \<noteq> fp then Replied (json_response 200 (conflict_answer key))
       else Waiting key a, sys_ledger s)
    \<and> ent_done_closed (entry_at (sys_ledger s) a) \<and> waited_answer key a (sys_ledger s) = r"
proof -
  let ?l = "sys_ledger s"
  have at: "lookup_entry ?l key = Some a" and fin: "ent_finished (entry_at ?l a)"
    using assms(1) by (auto simp: settled_def)
  have "key \<noteq> []" and "a < length (led_heap ?l)"
    using ledger_okD(3,4) [OF assms(2) at] by auto
  with assms at fin show ?thesis
    by (simp add: settled_def enter_request_def begin_cases waited_answer_def responseForEntry_def
        ledger_okD(6))
qed

subsection \<open>Why an entry leaves\<close>

lemma make_room_drops:
  assumes "ledger_ok l" and "lookup_entry l k = Some b" and "lookup_entry (make_room l) k \<noteq> Some b"
  shows "length (led_entries l) = completeTurnRequestMax \<and> evictable (entry_at l b)"
proof -
  have full: "completeTurnRequestMax \<le> length (led_entries l)"
    using assms(2,3) by (auto simp: make_room_def split: if_splits)
  have "\<not> kept l b"
    using make_room_keeps [OF assms(1,2)] assms(3) by blast
  then show ?thesis
    using ledger_okD(2,4) [OF assms(1)] assms(2) full by (auto simp: kept_def)
qed

lemma begin_drops:
  assumes "ledger_ok l" and "lookup_entry l k = Some b"
    and "lookup_entry (snd (beginWithFingerprint key fp l)) k \<noteq> Some b"
  shows "length (led_entries l) = completeTurnRequestMax \<and> evictable (entry_at l b)"
proof -
  have "lookup_entry l key = None" using assms(2,3) by (auto simp: begin_cases split: option.splits)
  with assms(2,3) have "lookup_entry (make_room l) k \<noteq> Some b"
    by (auto simp: begin_cases split: if_splits)
  with assms(1,2) show ?thesis by (rule make_room_drops)
qed

lemma step_drops:
  assumes ok: "system_ok s" and step: "request_step s s'"
    and at: "lookup_entry (sys_ledger s) key = Some a"
    and gone: "lookup_entry (sys_ledger s') key \<noteq> Some a"
  shows "(\<exists>t r. sys_pcs s t = Some (Returned key a r) \<and> sys_pcs s' t = Some (Replied r)
        \<and> completeTurnRecordedResponseAllowsWholeRequestRetry r)
    \<or> length (led_entries (sys_ledger s)) = completeTurnRequestMax
        \<and> evictable (entry_at (sys_ledger s) a)"
proof -
  let ?l = "sys_ledger s"
  note l = system_okD(1) [OF ok]
  from step show ?thesis
  proof cases
    case (enter t key' fp pc l')
    with enter_request_ledger [OF enter(3)] gone at
    have "lookup_entry (snd (beginWithFingerprint key' fp ?l)) key \<noteq> Some a"
      by (auto split: if_splits)
    with begin_drops [OF l at] show ?thesis by blast
  next
    case (owner_settles t key' b r')
    then have at': "lookup_entry ?l key' = Some b"
      using system_okD(2) [OF ok, of t key' b] by (simp add: sys_runs_def)
    with gone at have "key' = key \<and> completeTurnRecordedResponseAllowsWholeRequestRetry r'"
      by (auto simp: owner_settles(1) finishOwner_eq [OF l] drop_if_retryable_def split: if_splits)
    with at at' owner_settles show ?thesis by (auto simp: set_pc_def)
  next
    case (watcher_fires t key' b)
    with gone at show ?thesis
      by (auto simp: give_up_request_def finishIfCurrent_eq [OF l] drop_if_retryable_def
          cancelled_no_retry split: if_splits)
  qed (use gone at in auto)
qed

subsection \<open>Go's map order\<close>

lemma lookup_permuted:
  assumes "go_map (led_entries l)" and "mset (led_entries l') = mset (led_entries l)"
  shows "lookup_entry l' = lookup_entry l" and "go_map (led_entries l')"
proof -
  have keys: "mset (map fst (led_entries l')) = mset (map fst (led_entries l))"
    using assms(2) by simp
  show "go_map (led_entries l')"
    using assms(1) mset_eq_imp_distinct_iff [OF keys] by simp
  then have "map_of (led_entries l') = map_of (led_entries l)"
    using assms mset_eq_setD by (subst map_of_inject_set) blast+
  then show "lookup_entry l' = lookup_entry l"
    by (simp add: lookup_entry_def fun_eq_iff)
qed

lemma evict_permuted:
  assumes ok: "ledger_ok l" and perm: "mset (led_entries l') = mset (led_entries l)"
    and heap: "led_heap l' = led_heap l" and "\<not> led_panicked l'"
    and inj: "inj_on (\<lambda>a. ent_sequence (entry_at l a)) {a. \<exists>k. lookup_entry l k = Some a}"
  shows "lookup_entry (evictFinishedForCapacityLocked l') = lookup_entry (evictFinishedForCapacityLocked l)"
proof -
  note same = lookup_permuted [OF ledger_okD(1) [OF ok] perm]
  have at: "entry_at l' = entry_at l" using heap by (simp add: entry_at_def fun_eq_iff)
  have len: "length (led_entries l') = length (led_entries l)"
    using perm by (metis size_mset)
  have ok': "ledger_ok l'"
    using ok same heap assms(4) len by (simp add: ledger_ok_def)
  have cand: "mset (evict_candidates l') = mset (evict_candidates l)"
    using perm at by (simp add: evict_candidates_def)
  show ?thesis
  proof (cases "evict_candidates l = []")
    case True
    moreover have "evict_candidates l' = []" using cand True by simp
    ultimately show ?thesis using same by (simp add: evict_none)
  next
    case False
    have "evict_candidates l' \<noteq> []" using cand False by auto
    then obtain k' a' where new: "lookup_entry l' k' = Some a'" "evictable (entry_at l' a')"
      "evictFinishedForCapacityLocked l' = drop_key k' l'"
      "\<forall>k a. lookup_entry l' k = Some a \<longrightarrow> evictable (entry_at l' a)
         \<longrightarrow> ent_sequence (entry_at l' a') \<le> ent_sequence (entry_at l' a)"
      by (rule evict_some [OF ok'])
    obtain k a where old: "lookup_entry l k = Some a" "evictable (entry_at l a)"
      "evictFinishedForCapacityLocked l = drop_key k l"
      "\<forall>k' a'. lookup_entry l k' = Some a' \<longrightarrow> evictable (entry_at l a')
         \<longrightarrow> ent_sequence (entry_at l a) \<le> ent_sequence (entry_at l a')"
      by (rule evict_some [OF ok False])
    have "ent_sequence (entry_at l a) = ent_sequence (entry_at l a')"
      using new old same at by (metis order_antisym)
    with inj old(1) new(1) same have "a = a'"
      by (auto dest: inj_onD)
    with old(1) new(1) same ledger_okD(5) [OF ok] have "k = k'" by metis
    with old(3) new(3) same show ?thesis by (simp add: fun_eq_iff)
  qed
qed

end
