(* ===== verification/Dual_Write.thy ===== *)
theory Dual_Write
  imports Archive_Prelude
begin

text \<open>
  The state of \<open>dualWriteStore\<close> (\<open>go-service/internal/store/dualwrite.go\<close>) and the shapes its
  methods have: which of the two stores is called, in which order, with which argument, and
  what becomes of each error. \<open>Dual_Store\<close> holds the methods themselves, one definition per
  method, each an instance of one of these shapes. The locale at the end is the contract that
  the write shapes share: the primary decides, the shadow is only accounted for.
\<close>

subsection \<open>State\<close>

text \<open>
  The two \<open>Store\<close> values are interface values whose dynamic type is fixed; what changes is
  the state behind them.
\<close>

record ('p, 's) dual =
  dual_primary :: 'p
  dual_shadow :: 's
  shadowFailures :: "64 word"
  shadowLastErr :: err

definition ShadowStatus :: "('p, 's) dual \<Rightarrow> 64 word \<times> err" where
  "ShadowStatus d = (shadowFailures d, shadowLastErr d)"

definition recordShadowErr :: "go_error \<Rightarrow> ('p, 's) dual \<Rightarrow> ('p, 's) dual" where
  "recordShadowErr e d = d\<lparr>shadowFailures := shadowFailures d + 1, shadowLastErr := Some e\<rparr>"

definition on_primary :: "('p \<Rightarrow> 'a \<times> 'p) \<Rightarrow> ('p, 's) dual \<Rightarrow> 'a \<times> ('p, 's) dual" where
  "on_primary m d = (case m (dual_primary d) of (r, p) \<Rightarrow> (r, d\<lparr>dual_primary := p\<rparr>))"

definition on_shadow :: "('s \<Rightarrow> 'a \<times> 's) \<Rightarrow> ('p, 's) dual \<Rightarrow> 'a \<times> ('p, 's) dual" where
  "on_shadow m d = (case m (dual_shadow d) of (r, s) \<Rightarrow> (r, d\<lparr>dual_shadow := s\<rparr>))"

text \<open>\<open>if err := shadow.M(...); err != nil { d.recordShadowErr(err) }\<close>.\<close>

definition shadow_quietly :: "('s, 'r) meth \<Rightarrow> ('p, 's) dual \<Rightarrow> 'r \<times> ('p, 's) dual" where
  "shadow_quietly m d = (case on_shadow m d of
     ((r, None), d1) \<Rightarrow> (r, d1)
   | ((r, Some e), d1) \<Rightarrow> (r, recordShadowErr e d1))"

text \<open>The same, under \<open>if shadow, ok := d.shadow.(I); ok\<close>.\<close>

fun shadow_optional ::
  "('x \<Rightarrow> ('s, 'r) meth) option \<Rightarrow> 'x \<Rightarrow> 'r \<Rightarrow> ('p, 's) dual \<Rightarrow> 'r \<times> ('p, 's) dual" where
  "shadow_optional None x r d = (r, d)"
| "shadow_optional (Some m) x r d = shadow_quietly (m x) d"

subsection \<open>Shapes of the writes\<close>

text \<open>
  \<open>x\<close> is the record behind a pointer argument, which the primary may change before the shadow
  sees it; for methods without one it is \<open>()\<close>. \<open>write_both\<close>: a method of \<open>Store\<close> itself.
  \<open>write_present\<close>: each side is called when it has the method. \<open>write_required\<close>: the primary
  must have it.
\<close>

definition write_both ::
  "('x \<Rightarrow> ('p, 'x) meth) \<Rightarrow> ('x \<Rightarrow> ('s, 'x) meth) \<Rightarrow> 'x \<Rightarrow> (('p, 's) dual, 'x) meth" where
  "write_both mp ms x d = (case on_primary (mp x) d of
     ((x1, Some e), d1) \<Rightarrow> ((x1, Some e), d1)
   | ((x1, None), d1) \<Rightarrow> (case shadow_quietly (ms x1) d1 of (x2, d2) \<Rightarrow> ((x2, None), d2)))"

definition write_present ::
  "('x \<Rightarrow> ('p, 'x) meth) option \<Rightarrow> ('x \<Rightarrow> ('s, 'x) meth) option \<Rightarrow> 'x
    \<Rightarrow> (('p, 's) dual, 'x) meth" where
  "write_present mp ms x d =
    (case (case mp of None \<Rightarrow> ((x, None), d) | Some m \<Rightarrow> on_primary (m x) d) of
       ((x1, Some e), d1) \<Rightarrow> ((x1, Some e), d1)
     | ((x1, None), d1) \<Rightarrow> (case shadow_optional ms x1 x1 d1 of (x2, d2) \<Rightarrow> ((x2, None), d2)))"

definition write_required ::
  "('x \<Rightarrow> ('p, 'x) meth) option \<Rightarrow> ('x \<Rightarrow> ('s, 'x) meth) option \<Rightarrow> 'x
    \<Rightarrow> (('p, 's) dual, 'x) meth" where
  "write_required mp ms x d = (case mp of
     None \<Rightarrow> ((x, Some ErrNotEnabled), d)
   | Some m \<Rightarrow> (case on_primary (m x) d of
       ((x1, Some e), d1) \<Rightarrow> ((x1, Some e), d1)
     | ((x1, None), d1) \<Rightarrow> (case shadow_optional ms x1 x1 d1 of (x2, d2) \<Rightarrow> ((x2, None), d2))))"

text \<open>
  \<open>SaveEpisodeSummary\<close> passes the shadow a copy, so the caller's record is as the primary left
  it.
\<close>

definition write_required_copy ::
  "('x \<Rightarrow> ('p, 'x) meth) option \<Rightarrow> ('x \<Rightarrow> ('s, 'x) meth) option \<Rightarrow> 'x
    \<Rightarrow> (('p, 's) dual, 'x) meth" where
  "write_required_copy mp ms x d = (case mp of
     None \<Rightarrow> ((x, Some ErrNotEnabled), d)
   | Some m \<Rightarrow> (case on_primary (m x) d of
       ((x1, Some e), d1) \<Rightarrow> ((x1, Some e), d1)
     | ((x1, None), d1) \<Rightarrow> ((x1, None), snd (shadow_optional ms x1 x1 d1))))"

text \<open>
  Writes that return the row they saved: the shadow is given that row. On an error the primary's
  row is still returned, and without the interface the argument is.
\<close>

definition save_required ::
  "('x \<Rightarrow> ('p, 'x) meth) option \<Rightarrow> ('x \<Rightarrow> ('s, 'x) meth) option \<Rightarrow> 'x
    \<Rightarrow> (('p, 's) dual, 'x) meth" where
  "save_required mp ms x d = (case mp of
     None \<Rightarrow> ((x, Some ErrNotEnabled), d)
   | Some m \<Rightarrow> (case on_primary (m x) d of
       ((saved, Some e), d1) \<Rightarrow> ((saved, Some e), d1)
     | ((saved, None), d1) \<Rightarrow> ((saved, None), snd (shadow_optional ms saved saved d1))))"

text \<open>
  Writes whose result is not a row: both stores get the caller's arguments. \<open>keep\<close> is what the
  method returns beside an error of the primary (the result, or a zero value).
\<close>

definition patch_required ::
  "'r \<Rightarrow> ('r \<Rightarrow> 'r) \<Rightarrow> ('p, 'r) meth option \<Rightarrow> ('s, 'r) meth option \<Rightarrow> (('p, 's) dual, 'r) meth"
where
  "patch_required zero keep mp ms d = (case mp of
     None \<Rightarrow> ((zero, Some ErrNotEnabled), d)
   | Some m \<Rightarrow> (case on_primary m d of
       ((r, Some e), d1) \<Rightarrow> ((keep r, Some e), d1)
     | ((r, None), d1) \<Rightarrow>
         ((r, None), snd (shadow_optional (map_option (\<lambda>w _. w) ms) () r d1))))"

text \<open>
  Writes that need either store. \<open>loud\<close> tells whether the shadow's error is returned when the
  shadow is the only store with the interface.
\<close>

definition write_either ::
  "bool \<Rightarrow> ('x \<Rightarrow> ('p, 'x) meth) option \<Rightarrow> ('x \<Rightarrow> ('s, 'x) meth) option \<Rightarrow> 'x
    \<Rightarrow> (('p, 's) dual, 'x) meth" where
  "write_either loud mp ms x d =
    (if Option.is_none mp \<and> Option.is_none ms then ((x, Some ErrNotEnabled), d)
     else case (case mp of None \<Rightarrow> ((x, None), d) | Some m \<Rightarrow> on_primary (m x) d) of
       ((x1, Some e), d1) \<Rightarrow> ((x1, Some e), d1)
     | ((x1, None), d1) \<Rightarrow> (case ms of
         None \<Rightarrow> ((x1, None), d1)
       | Some w \<Rightarrow> (case on_shadow (w x1) d1 of
           ((x2, None), d2) \<Rightarrow> ((x2, None), d2)
         | ((x2, Some e), d2) \<Rightarrow>
             ((x2, if loud \<and> Option.is_none mp then Some e else None), recordShadowErr e d2))))"

text \<open>
  Writes behind an availability check of both stores. If only the shadow takes the write, its
  error is recorded and the caller gets the zero result with no error.
\<close>

definition gated_write ::
  "'r \<Rightarrow> ('x \<Rightarrow> ('p, 'r \<times> 'x) meth) option \<Rightarrow> ('x \<Rightarrow> ('s, 'r \<times> 'x) meth) option \<Rightarrow> 'x
    \<Rightarrow> (('p, 's) dual, 'r \<times> 'x) meth" where
  "gated_write zero mp ms x d = (case mp of
     Some m \<Rightarrow> (case on_primary (m x) d of
       (((r, x1), Some e), d1) \<Rightarrow> (((zero, x1), Some e), d1)
     | (((r, x1), None), d1) \<Rightarrow>
         (case shadow_optional ms x1 (r, x1) d1 of ((_, x2), d2) \<Rightarrow> (((r, x2), None), d2)))
   | None \<Rightarrow> (case ms of
       None \<Rightarrow> (((zero, x), Some ErrNotEnabled), d)
     | Some w \<Rightarrow> (case on_shadow (w x) d of
         (((r, x1), None), d1) \<Rightarrow> (((r, x1), None), d1)
       | (((r, x1), Some e), d1) \<Rightarrow> (((zero, x1), None), recordShadowErr e d1))))"

text \<open>\<open>dualWriteRollback\<close>: each side if present, errors labelled, none needed.\<close>

definition dualWriteRollback ::
  "string \<Rightarrow> ('p, unit) meth option \<Rightarrow> ('s, unit) meth option \<Rightarrow> (('p, 's) dual, unit) meth" where
  "dualWriteRollback label mp ms d =
    (case (case mp of None \<Rightarrow> (((), None), d) | Some m \<Rightarrow> on_primary m d) of
       ((u, Some e), d1) \<Rightarrow> (((), Some (Wrapped (label @ '' primary'') e)), d1)
     | ((u, None), d1) \<Rightarrow> (case ms of
         None \<Rightarrow> (((), None), d1)
       | Some w \<Rightarrow> (case on_shadow w d1 of
           ((v, None), d2) \<Rightarrow> (((), None), d2)
         | ((v, Some e), d2) \<Rightarrow>
             (((), None), recordShadowErr (Wrapped (label @ '' shadow'') e) d2))))"

subsection \<open>Shapes of the reads\<close>

fun read_required :: "'r \<Rightarrow> ('p, 'r) meth option \<Rightarrow> (('p, 's) dual, 'r) meth" where
  "read_required zero None d = ((zero, Some ErrNotEnabled), d)"
| "read_required zero (Some m) d = on_primary m d"

fun read_fallback ::
  "'r \<Rightarrow> ('p, 'r) meth option \<Rightarrow> ('s, 'r) meth option \<Rightarrow> (('p, 's) dual, 'r) meth" where
  "read_fallback zero (Some m) ms d = on_primary m d"
| "read_fallback zero None (Some m) d = on_shadow m d"
| "read_fallback zero None None d = ((zero, Some ErrNotEnabled), d)"

subsection \<open>What the shadow's bookkeeping allows\<close>

definition same_shadow :: "('p, 's) dual \<Rightarrow> ('p, 's) dual \<Rightarrow> bool" where
  "same_shadow d d' \<longleftrightarrow> dual_shadow d' = dual_shadow d \<and> ShadowStatus d' = ShadowStatus d"

definition shadow_accounted :: "('p, 's) dual \<Rightarrow> ('p, 's) dual \<Rightarrow> bool" where
  "shadow_accounted d d' \<longleftrightarrow> ShadowStatus d' = ShadowStatus d
     \<or> shadowFailures d' = shadowFailures d + 1 \<and> shadowLastErr d' \<noteq> None"

lemma same_shadow_refl [simp]: "same_shadow d d"
  by (simp add: same_shadow_def)

lemma same_shadow_trans: "same_shadow d d1 \<Longrightarrow> same_shadow d1 d2 \<Longrightarrow> same_shadow d d2"
  by (simp add: same_shadow_def)

lemma same_shadow_accounted: "same_shadow d d' \<Longrightarrow> shadow_accounted d d'"
  by (simp add: same_shadow_def shadow_accounted_def)

lemma on_primary_eqs [simp]:
  "fst (on_primary m d) = fst (m (dual_primary d))"
  "dual_primary (snd (on_primary m d)) = snd (m (dual_primary d))"
  "same_shadow d (snd (on_primary m d))"
  by (simp_all add: on_primary_def same_shadow_def ShadowStatus_def split: prod.splits)

lemma shadow_quietly_eqs [simp]:
  "dual_primary (snd (shadow_quietly m d)) = dual_primary d"
  "fst (shadow_quietly m d) = fst (fst (m (dual_shadow d)))"
  "dual_shadow (snd (shadow_quietly m d)) = snd (m (dual_shadow d))"
  "ShadowStatus (snd (shadow_quietly m d)) = (case snd (fst (m (dual_shadow d))) of
     None \<Rightarrow> ShadowStatus d | Some e \<Rightarrow> (shadowFailures d + 1, Some e))"
  by (simp_all add: shadow_quietly_def on_shadow_def recordShadowErr_def ShadowStatus_def
      split: prod.splits option.splits)

lemma shadow_optional_eqs [simp]:
  "dual_primary (snd (shadow_optional m x r d)) = dual_primary d"
  by (cases m) simp_all

lemma accounted_quietly: "shadow_accounted d (snd (shadow_quietly m d))"
  using shadow_quietly_eqs(4) [of m d]
  by (auto simp: shadow_accounted_def ShadowStatus_def split: option.splits)

lemma accounted_optional: "shadow_accounted d (snd (shadow_optional m x r d))"
  by (cases m) (simp add: shadow_accounted_def, simp add: accounted_quietly)

lemma accounted_after: "same_shadow d d1 \<Longrightarrow> shadow_accounted d1 d2 \<Longrightarrow> shadow_accounted d d2"
  by (auto simp: same_shadow_def shadow_accounted_def ShadowStatus_def)

lemma on_primaryD:
  assumes "on_primary m d = (r, d1)"
  shows "m (dual_primary d) = (r, dual_primary d1) \<and> same_shadow d d1"
  using assms by (auto simp: on_primary_def same_shadow_def ShadowStatus_def split: prod.splits)

lemma shadow_quietlyD:
  assumes "shadow_quietly m d = (r, d1)"
  shows "dual_primary d1 = dual_primary d \<and> shadow_accounted d d1"
  using shadow_quietly_eqs(1) [of m d] accounted_quietly [of d m] assms by simp_all

lemma shadow_optionalD:
  assumes "shadow_optional m x r d = (r', d1)"
  shows "dual_primary d1 = dual_primary d \<and> shadow_accounted d d1"
  using shadow_optional_eqs [of m x r d] accounted_optional [of d m x r] assms by simp_all

subsection \<open>The contract of a write\<close>

text \<open>
  A shape follows the primary's method \<open>m\<close> when the error it returns and the primary's next
  state are those of \<open>m\<close> alone, the shadow is not called after an error, and a failing shadow
  is counted.
\<close>

definition follows_primary :: "(('p, 's) dual, 'r) meth \<Rightarrow> ('p, 'q) meth \<Rightarrow> bool" where
  "follows_primary f m \<longleftrightarrow> (\<forall>d. snd (fst (f d)) = snd (fst (m (dual_primary d)))
     \<and> dual_primary (snd (f d)) = snd (m (dual_primary d))
     \<and> (snd (fst (f d)) \<noteq> None \<longrightarrow> same_shadow d (snd (f d)))
     \<and> shadow_accounted d (snd (f d)))"

lemma follows_primaryI:
  assumes "\<And>d. snd (fst (f d)) = snd (fst (m (dual_primary d)))"
    and "\<And>d. dual_primary (snd (f d)) = snd (m (dual_primary d))"
    and "\<And>d. snd (fst (f d)) \<noteq> None \<Longrightarrow> same_shadow d (snd (f d))"
    and "\<And>d. shadow_accounted d (snd (f d))"
  shows "follows_primary f m"
  using assms by (simp add: follows_primary_def)

lemma follows_primaryD:
  assumes "follows_primary f m"
  shows "snd (fst (f d)) = snd (fst (m (dual_primary d)))"
    "dual_primary (snd (f d)) = snd (m (dual_primary d))"
    "snd (fst (f d)) \<noteq> None \<Longrightarrow> same_shadow d (snd (f d))"
    "shadow_accounted d (snd (f d))"
  using assms by (simp_all add: follows_primary_def)

lemma follows_by_cases:
  fixes f :: "(('p, 's) dual, 'r) meth"
  assumes failed: "\<And>(d :: ('p, 's) dual) r e d1. on_primary m d = ((r, Some e), d1) \<Longrightarrow> \<exists>r'. f d = ((r', Some e), d1)"
    and passed: "\<And>(d :: ('p, 's) dual) r d1. on_primary m d = ((r, None), d1) \<Longrightarrow>
      \<exists>r' d2. f d = ((r', None), d2) \<and> dual_primary d2 = dual_primary d1 \<and> shadow_accounted d1 d2"
  shows "follows_primary f m"
proof (rule follows_primaryI)
  fix d :: "('p, 's) dual"
  obtain r eo d1 where p: "on_primary m d = ((r, eo), d1)"
    by (metis surj_pair)
  note m = on_primaryD [OF p]
  have "snd (fst (f d)) = eo \<and> dual_primary (snd (f d)) = dual_primary d1
      \<and> shadow_accounted d1 (snd (f d)) \<and> (eo \<noteq> None \<longrightarrow> snd (f d) = d1)"
    using failed [of d r _ d1] passed [of d r d1] p
    by (cases eo) (auto simp: same_shadow_accounted)
  with m show "snd (fst (f d)) = snd (fst (m (dual_primary d)))"
      "dual_primary (snd (f d)) = snd (m (dual_primary d))"
      "snd (fst (f d)) \<noteq> None \<Longrightarrow> same_shadow d (snd (f d))"
      "shadow_accounted d (snd (f d))"
    by (auto intro: accounted_after)
qed

lemma follows_write_both: "follows_primary (write_both mp ms x) (mp x)"
  by (rule follows_by_cases) (auto simp: write_both_def dest!: shadow_quietlyD split: prod.splits)

lemma follows_write_present: "follows_primary (write_present (Some m) ms x) (m x)"
  by (rule follows_by_cases) (auto simp: write_present_def dest!: shadow_optionalD split: prod.splits)

lemma follows_write_required: "follows_primary (write_required (Some m) ms x) (m x)"
  by (rule follows_by_cases) (auto simp: write_required_def dest!: shadow_optionalD split: prod.splits)

lemma follows_write_required_copy: "follows_primary (write_required_copy (Some m) ms x) (m x)"
  by (rule follows_by_cases) (auto simp: write_required_copy_def accounted_optional)

lemma follows_save_required: "follows_primary (save_required (Some m) ms x) (m x)"
  by (rule follows_by_cases) (auto simp: save_required_def accounted_optional)

lemma follows_patch_required: "follows_primary (patch_required zero keep (Some m) ms) m"
  by (rule follows_by_cases) (auto simp: patch_required_def accounted_optional)

lemma follows_gated_write: "follows_primary (gated_write zero (Some m) ms x) (m x)"
  by (rule follows_by_cases) (auto simp: gated_write_def dest!: shadow_optionalD split: prod.splits)

lemma on_shadow_quiet:
  assumes "on_shadow m d = ((r, eo), d1)"
  shows "dual_primary d1 = dual_primary d
    \<and> shadow_accounted d (case eo of None \<Rightarrow> d1 | Some e \<Rightarrow> recordShadowErr e' d1)"
  using assms by (auto simp: on_shadow_def shadow_accounted_def ShadowStatus_def
      recordShadowErr_def split: prod.splits option.splits)

lemma recordShadowErr_primary [simp]: "dual_primary (recordShadowErr e d) = dual_primary d"
  by (simp add: recordShadowErr_def)

lemma follows_write_either:
  fixes ms :: "('x \<Rightarrow> ('s, 'x) meth) option" and m :: "'x \<Rightarrow> ('p, 'x) meth"
  shows "follows_primary (write_either loud (Some m) ms x) (m x)"
proof (rule follows_by_cases)
  fix d d1 :: "('p, 's) dual" and r
  assume p: "on_primary (m x) d = ((r, None), d1)"
  show "\<exists>r' d2. write_either loud (Some m) ms x d = ((r', None), d2)
      \<and> dual_primary d2 = dual_primary d1 \<and> shadow_accounted d1 d2"
  proof (cases ms)
    case None
    then show ?thesis using p by (simp add: write_either_def same_shadow_accounted)
  next
    case (Some w)
    obtain r2 eo d2 where q: "on_shadow (w r) d1 = ((r2, eo), d2)"
      by (metis surj_pair)
    show ?thesis
      using p q Some on_shadow_quiet [OF q]
      by (cases eo) (auto simp: write_either_def)
  qed
qed (auto simp: write_either_def)

text \<open>A rollback step labels the primary's error.\<close>

definition labelled :: "string \<Rightarrow> ('p, unit) meth \<Rightarrow> ('p, unit) meth" where
  "labelled label m p = (case m p of ((u, eo), q) \<Rightarrow> ((u, map_option (Wrapped label) eo), q))"

lemma follows_rollback:
  fixes ms :: "('s, unit) meth option" and m :: "('p, unit) meth"
  shows "follows_primary (dualWriteRollback label (Some m) ms) (labelled (label @ '' primary'') m)"
proof (rule follows_by_cases)
  fix d d1 :: "('p, 's) dual" and r e
  assume "on_primary (labelled (label @ '' primary'') m) d = ((r, Some e), d1)"
  then show "\<exists>r'. dualWriteRollback label (Some m) ms d = ((r', Some e), d1)"
    by (auto simp: dualWriteRollback_def on_primary_def labelled_def split: prod.splits option.splits)
next
  fix d d1 :: "('p, 's) dual" and r
  assume "on_primary (labelled (label @ '' primary'') m) d = ((r, None), d1)"
  then have p: "on_primary m d = ((r, None), d1)"
    by (auto simp: on_primary_def labelled_def split: prod.splits option.splits)
  show "\<exists>r' d2. dualWriteRollback label (Some m) ms d = ((r', None), d2)
      \<and> dual_primary d2 = dual_primary d1 \<and> shadow_accounted d1 d2"
  proof (cases ms)
    case None
    then show ?thesis using p by (simp add: dualWriteRollback_def same_shadow_accounted)
  next
    case (Some w)
    obtain u eo d2 where q: "on_shadow w d1 = ((u, eo), d2)"
      by (metis surj_pair)
    show ?thesis
      using p q Some on_shadow_quiet [OF q]
      by (cases eo) (auto simp: dualWriteRollback_def)
  qed
qed

lemma follows_read: "follows_primary (on_primary m) m"
  by (rule follows_by_cases) (auto simp: same_shadow_accounted)

subsection \<open>Sequences of calls\<close>

text \<open>What a client sees of a sequence of calls to an interface: the answers, in order.\<close>

primrec run_calls :: "('c \<Rightarrow> ('st, 'a) meth) \<Rightarrow> 'c list \<Rightarrow> 'st \<Rightarrow> ('a \<times> err) list \<times> 'st" where
  "run_calls f [] st = ([], st)"
| "run_calls f (c # cs) st =
     (case f c st of (a, st1) \<Rightarrow> case run_calls f cs st1 of (as, st2) \<Rightarrow> (a # as, st2))"

lemma run_calls_Cons:
  "fst (run_calls f (c # cs) st) = fst (f c st) # fst (run_calls f cs (snd (f c st)))"
  "snd (run_calls f (c # cs) st) = snd (run_calls f cs (snd (f c st)))"
  by (simp_all split: prod.splits)

declare run_calls.simps(2) [simp del] run_calls_Cons [simp]

lemma run_calls_append:
  "snd (run_calls f (cs @ ds) st) = snd (run_calls f ds (snd (run_calls f cs st)))"
  by (induction cs arbitrary: st) simp_all

locale primary_decides =
  fixes via :: "'c \<Rightarrow> (('p, 's) dual, 'a) meth"
    and direct :: "'c \<Rightarrow> ('p, 'a) meth"
  assumes answer: "fst (via c d) = fst (direct c (dual_primary d))"
    and follows: "follows_primary (via c) (direct c)"
begin

lemma run_refines:
  "fst (run_calls via cs d) = fst (run_calls direct cs (dual_primary d))
   \<and> dual_primary (snd (run_calls via cs d)) = snd (run_calls direct cs (dual_primary d))"
  by (induction cs arbitrary: d)
    (simp_all add: answer follows_primaryD(2) [OF follows])

lemma refused_run_keeps_shadow:
  assumes "\<forall>a \<in> set (fst (run_calls direct cs (dual_primary d))). snd a \<noteq> None"
  shows "same_shadow d (snd (run_calls via cs d))"
  using assms
proof (induction cs arbitrary: d)
  case (Cons c cs)
  let ?d1 = "snd (via c d)"
  have "same_shadow d ?d1"
    using Cons.prems follows_primaryD(1,3) [OF follows, of c d] by simp
  moreover have "same_shadow ?d1 (snd (run_calls via cs ?d1))"
    using Cons.prems follows_primaryD(2) [OF follows, of c d] by (intro Cons.IH) simp
  ultimately show ?case
    by (auto intro: same_shadow_trans)
qed simp

lemma run_accounts:
  "\<exists>n \<le> length cs. shadowFailures (snd (run_calls via cs d)) = shadowFailures d + of_nat n
     \<and> (if n = 0 then shadowLastErr (snd (run_calls via cs d)) = shadowLastErr d
        else shadowLastErr (snd (run_calls via cs d)) \<noteq> None)"
proof (induction cs arbitrary: d)
  case (Cons c cs)
  let ?d1 = "snd (via c d)" and ?final = "snd (run_calls via (c # cs) d)"
  obtain n where n: "n \<le> length cs" "shadowFailures ?final = shadowFailures ?d1 + of_nat n"
      "if n = 0 then shadowLastErr ?final = shadowLastErr ?d1 else shadowLastErr ?final \<noteq> None"
    using Cons [of ?d1] by auto
  have "shadow_accounted d ?d1"
    by (rule follows_primaryD(4) [OF follows])
  then consider "shadowFailures ?d1 = shadowFailures d" "shadowLastErr ?d1 = shadowLastErr d"
    | "shadowFailures ?d1 = shadowFailures d + 1" "shadowLastErr ?d1 \<noteq> None"
    by (auto simp: shadow_accounted_def ShadowStatus_def)
  then show ?case
  proof cases
    case 1
    with n show ?thesis by (intro exI [of _ n]) (auto split: if_splits)
  next
    case 2
    with n show ?thesis
      by (intro exI [of _ "Suc n"]) (auto split: if_splits)
  qed
qed simp

end

end
