(* ===== verification/Store_Types.thy ===== *)
theory Store_Types
  imports Turn_Response
begin

text \<open>
  The rows that a \<open>Store\<close> reads and writes: one record per Go struct of
  \<open>go-service/internal/store\<close> (\<open>store.go\<close>, \<open>entity_identity.go\<close>,
  \<open>precise_memory.go\<close>, \<open>memory_derivation.go\<close>, \<open>character_manual_edits.go\<close>), with the
  struct's fields in order; a field \<open>F\<close> of struct \<open>T\<close> is \<open>T_F\<close>. Pointers are options,
  slices lists, maps association lists; \<open>any\<close> is the JSON value it holds.
\<close>

type_synonym float32 = "32 word"

record ActiveState =
  ActiveState_ID :: go_int
  ActiveState_ChatSessionID :: string
  ActiveState_StateType :: string
  ActiveState_Content :: string
  ActiveState_TurnIndex :: go_int
  ActiveState_CreatedAt :: go_time

record CanonicalStateLayer =
  CanonicalStateLayer_ID :: go_int
  CanonicalStateLayer_ChatSessionID :: string
  CanonicalStateLayer_LayerType :: string
  CanonicalStateLayer_Content :: string
  CanonicalStateLayer_SourceStateType :: string
  CanonicalStateLayer_TurnIndex :: go_int
  CanonicalStateLayer_SourceTurn :: go_int
  CanonicalStateLayer_SourceRecord :: go_int
  CanonicalStateLayer_LastVerifiedTurn :: go_int
  CanonicalStateLayer_Confidence :: float64
  CanonicalStateLayer_CreatedAt :: go_time

record Storyline =
  Storyline_ID :: go_int
  Storyline_ChatSessionID :: string
  Storyline_Name :: string
  Storyline_Status :: string
  Storyline_EntitiesJSON :: string
  Storyline_CurrentContext :: string
  Storyline_KeyPointsJSON :: string
  Storyline_OngoingTensionsJSON :: string
  Storyline_Confidence :: float64
  Storyline_EvidenceCount :: go_int
  Storyline_LastEvidenceTurn :: go_int
  Storyline_FirstTurn :: go_int
  Storyline_LastTurn :: go_int
  Storyline_Pinned :: bool
  Storyline_Suppressed :: bool
  Storyline_UserCorrected :: bool
  Storyline_CreatedAt :: go_time
  Storyline_UpdatedAt :: go_time

record CharacterManualFieldEdit =
  CharacterManualFieldEdit_Path :: "string list"
  CharacterManualFieldEdit_Value :: json
  CharacterManualFieldEdit_Remove :: bool
  CharacterManualFieldEdit_Principle :: string

record CharacterState =
  CharacterState_ID :: go_int
  CharacterState_ChatSessionID :: string
  CharacterState_CharacterName :: string
  CharacterState_AppearanceJSON :: string
  CharacterState_PersonalityJSON :: string
  CharacterState_StatusJSON :: string
  CharacterState_RelationshipsJSON :: string
  CharacterState_SpeechStyleJSON :: string
  CharacterState_FieldProvenanceJSON :: string
  CharacterState_TurnIndex :: go_int
  CharacterState_CreatedAt :: go_time
  CharacterState_UpdatedAt :: go_time
  CharacterState_ManualPatch :: "CharacterManualFieldEdit list"
  CharacterState_manualEdits :: "CharacterManualFieldEdit list"

record WorldRule =
  WorldRule_ID :: go_int
  WorldRule_ChatSessionID :: string
  WorldRule_Scope :: string
  WorldRule_ScopeName :: string
  WorldRule_Category :: string
  WorldRule_Key :: string
  WorldRule_ValueJSON :: string
  WorldRule_Genre :: string
  WorldRule_SourceTurn :: go_int
  WorldRule_Pinned :: bool
  WorldRule_Suppressed :: bool
  WorldRule_UserCorrected :: bool
  WorldRule_CreatedAt :: go_time
  WorldRule_UpdatedAt :: go_time

record PendingThread =
  PendingThread_ID :: go_int
  PendingThread_ChatSessionID :: string
  PendingThread_ThreadKey :: string
  PendingThread_Description :: string
  PendingThread_Status :: string
  PendingThread_CreatedTurn :: go_int
  PendingThread_ResolvedTurn :: go_int
  PendingThread_SourceTurn :: go_int
  PendingThread_Priority :: go_int
  PendingThread_HookType :: string
  PendingThread_HookMetadataJSON :: string
  PendingThread_ThreadType :: string
  PendingThread_Title :: string
  PendingThread_Owner :: string
  PendingThread_Target :: string
  PendingThread_LastSeenTurn :: go_int
  PendingThread_Confidence :: float64
  PendingThread_DetailsJSON :: string
  PendingThread_ResolutionNote :: string
  PendingThread_Pinned :: bool
  PendingThread_Suppressed :: bool
  PendingThread_UserCorrected :: bool
  PendingThread_CreatedAt :: go_time
  PendingThread_UpdatedAt :: go_time

record CharacterEvent =
  CharacterEvent_ID :: go_int
  CharacterEvent_ChatSessionID :: string
  CharacterEvent_CharacterName :: string
  CharacterEvent_TurnIndex :: go_int
  CharacterEvent_EventType :: string
  CharacterEvent_DetailsJSON :: string
  CharacterEvent_CreatedAt :: go_time

record ChatLog =
  ChatLog_ID :: go_int
  ChatLog_ChatSessionID :: string
  ChatLog_TurnIndex :: go_int
  ChatLog_Role :: string
  ChatLog_Content :: string
  ChatLog_CreatedAt :: go_time

record SessionStateSnapshot =
  SessionStateSnapshot_ActiveStates :: "ActiveState list"
  SessionStateSnapshot_CanonicalStateLayers :: "CanonicalStateLayer list"
  SessionStateSnapshot_Storylines :: "Storyline list"
  SessionStateSnapshot_CharacterStates :: "CharacterState list"
  SessionStateSnapshot_WorldRules :: "WorldRule list"
  SessionStateSnapshot_PendingThreads :: "PendingThread list"
  SessionStateSnapshot_CharacterEvents :: "CharacterEvent list"
  SessionStateSnapshot_RecentChatLogs :: "ChatLog list"
  SessionStateSnapshot_SingleConnection :: bool
  SessionStateSnapshot_TraceMethods :: "string list"

record OptionalIntPatch =
  OptionalIntPatch_Set :: bool
  OptionalIntPatch_Value :: "go_int option"

record MemoryExplorerPatch =
  MemoryExplorerPatch_SummaryJSON :: "string option"
  MemoryExplorerPatch_Importance :: "float64 option"
  MemoryExplorerPatch_PlaceWing :: "string option"
  MemoryExplorerPatch_PlaceRoom :: "string option"

record KGTripleExplorerPatch =
  KGTripleExplorerPatch_Subject :: "string option"
  KGTripleExplorerPatch_Predicate :: "string option"
  KGTripleExplorerPatch_Object :: "string option"
  KGTripleExplorerPatch_ValidFrom :: OptionalIntPatch
  KGTripleExplorerPatch_ValidTo :: OptionalIntPatch

record DirectEvidenceExplorerPatch =
  DirectEvidenceExplorerPatch_EvidenceText :: "string option"
  DirectEvidenceExplorerPatch_ArchiveState :: "string option"
  DirectEvidenceExplorerPatch_CaptureVerification :: "string option"
  DirectEvidenceExplorerPatch_CommittedGate :: "string option"
  DirectEvidenceExplorerPatch_RepairNeeded :: "bool option"
  DirectEvidenceExplorerPatch_Tombstoned :: "bool option"
  DirectEvidenceExplorerPatch_SupersededByID :: OptionalIntPatch

record MemorySourceRevision =
  MemorySourceRevision_ID :: go_int
  MemorySourceRevision_ContractVersion :: string
  MemorySourceRevision_SourceRevision :: string
  MemorySourceRevision_ChatSessionID :: string
  MemorySourceRevision_LogicalTurnID :: string
  MemorySourceRevision_TurnIndex :: go_int
  MemorySourceRevision_SourceMessageID :: string
  MemorySourceRevision_SourceGenerationID :: string
  MemorySourceRevision_BranchID :: string
  MemorySourceRevision_BranchState :: string
  MemorySourceRevision_UserContent :: string
  MemorySourceRevision_AssistantContent :: string
  MemorySourceRevision_CombinedContentHash :: string
  MemorySourceRevision_UserObservedContentHash :: string
  MemorySourceRevision_AssistantObservedContentHash :: string
  MemorySourceRevision_HashAlgorithm :: string
  MemorySourceRevision_HostObservedAtMS :: go_int
  MemorySourceRevision_LifecycleState :: string
  MemorySourceRevision_SupersededByRevision :: string
  MemorySourceRevision_InvalidationReason :: string
  MemorySourceRevision_DerivedAdmissionState :: string
  MemorySourceRevision_DerivedAdmissionVersion :: string
  MemorySourceRevision_DerivedExtractorVersion :: string
  MemorySourceRevision_DerivedIndexVersion :: string
  MemorySourceRevision_DerivedResultHash :: string
  MemorySourceRevision_DerivedResultJSON :: string
  MemorySourceRevision_DerivedAdmittedAt :: go_time
  MemorySourceRevision_CriticInputSnapshotJSON :: string
  MemorySourceRevision_CriticInputSnapshotHash :: string
  MemorySourceRevision_CreatedAt :: go_time
  MemorySourceRevision_UpdatedAt :: go_time

record LogicalTurnReplacement =
  LogicalTurnReplacement_ChatSessionID :: string
  LogicalTurnReplacement_TurnIndex :: go_int
  LogicalTurnReplacement_UserContent :: string
  LogicalTurnReplacement_AssistantContent :: string
  LogicalTurnReplacement_CreatedAt :: go_time
  LogicalTurnReplacement_SourceRevision :: "MemorySourceRevision option"

record LogicalTurnRollback =
  LogicalTurnRollback_ChatSessionID :: string
  LogicalTurnRollback_TurnIndex :: go_int
  LogicalTurnRollback_LifecycleAction :: string
  LogicalTurnRollback_Reason :: string
  LogicalTurnRollback_CreatedAt :: go_time

record EffectiveInput =
  EffectiveInput_ID :: go_int
  EffectiveInput_ChatSessionID :: string
  EffectiveInput_TurnIndex :: go_int
  EffectiveInput_EffectiveInput :: string
  EffectiveInput_CreatedAt :: go_time

record Memory =
  Memory_ID :: go_int
  Memory_ChatSessionID :: string
  Memory_TurnIndex :: go_int
  Memory_SummaryJSON :: string
  Memory_Embedding :: string
  Memory_EmbeddingModel :: string
  Memory_Similarity :: float64
  Memory_Importance :: float64
  Memory_EmotionalBoost :: float64
  Memory_Evidence :: string
  Memory_EmotionalIntensity :: float64
  Memory_NarrativeSignificance :: float64
  Memory_PlaceWing :: string
  Memory_PlaceRoom :: string
  Memory_CreatedAt :: go_time

record DirectEvidence =
  DirectEvidence_ID :: go_int
  DirectEvidence_ChatSessionID :: string
  DirectEvidence_EvidenceKind :: string
  DirectEvidence_EvidenceText :: string
  DirectEvidence_SourceTurnStart :: go_int
  DirectEvidence_SourceTurnEnd :: go_int
  DirectEvidence_TurnAnchor :: go_int
  DirectEvidence_SourceMessageIDsJSON :: string
  DirectEvidence_SourceHash :: string
  DirectEvidence_ArchiveState :: string
  DirectEvidence_CaptureStage :: string
  DirectEvidence_CaptureVerification :: string
  DirectEvidence_CommittedGate :: string
  DirectEvidence_LineageJSON :: string
  DirectEvidence_RepairNeeded :: bool
  DirectEvidence_Tombstoned :: bool
  DirectEvidence_SupersededByID :: go_int
  DirectEvidence_CreatedAt :: go_time

record KGTriple =
  KGTriple_ID :: go_int
  KGTriple_ChatSessionID :: string
  KGTriple_Subject :: string
  KGTriple_Predicate :: string
  KGTriple_Object :: string
  KGTriple_ValidFrom :: go_int
  KGTriple_ValidTo :: go_int
  KGTriple_SourceTurn :: go_int
  KGTriple_CreatedAt :: go_time

record AuditLog =
  AuditLog_ID :: go_int
  AuditLog_CreatedAt :: go_time
  AuditLog_EventType :: string
  AuditLog_ChatSessionID :: string
  AuditLog_TargetType :: string
  AuditLog_TargetID :: go_int
  AuditLog_Summary :: string
  AuditLog_DetailsJSON :: string
  AuditLog_Source :: string

record CriticFeedback =
  CriticFeedback_ID :: go_int
  CriticFeedback_CreatedAt :: go_time
  CriticFeedback_ChatSessionID :: string
  CriticFeedback_TargetType :: string
  CriticFeedback_TargetID :: go_int
  CriticFeedback_FeedbackValue :: string
  CriticFeedback_FeedbackNote :: string
  CriticFeedback_Source :: string

record ConsequenceRecord =
  ConsequenceRecord_ID :: go_int
  ConsequenceRecord_ChatSessionID :: string
  ConsequenceRecord_SourceTurnStart :: go_int
  ConsequenceRecord_SourceTurnEnd :: go_int
  ConsequenceRecord_Decision :: string
  ConsequenceRecord_ImmediateResult :: string
  ConsequenceRecord_DelayedEffect :: string
  ConsequenceRecord_AffectedRelationsJSON :: string
  ConsequenceRecord_AffectedWorldJSON :: string
  ConsequenceRecord_Status :: string
  ConsequenceRecord_Importance :: float64
  ConsequenceRecord_Confidence :: float64
  ConsequenceRecord_ForegroundEligible :: bool
  ConsequenceRecord_QuietTurns :: go_int
  ConsequenceRecord_LastSeenTurn :: go_int
  ConsequenceRecord_PaidTurn :: go_int
  ConsequenceRecord_ExpiresAfterQuietTurns :: go_int
  ConsequenceRecord_SourceHash :: string
  ConsequenceRecord_EvidenceJSON :: string
  ConsequenceRecord_CreatedAt :: go_time
  ConsequenceRecord_UpdatedAt :: go_time

record PsychologyBranch =
  PsychologyBranch_ID :: go_int
  PsychologyBranch_ChatSessionID :: string
  PsychologyBranch_CharacterName :: string
  PsychologyBranch_BranchType :: string
  PsychologyBranch_AxisName :: string
  PsychologyBranch_Summary :: string
  PsychologyBranch_Status :: string
  PsychologyBranch_Confidence :: float64
  PsychologyBranch_ConfidenceLabel :: string
  PsychologyBranch_SourceKind :: string
  PsychologyBranch_SourceTurnStart :: go_int
  PsychologyBranch_SourceTurnEnd :: go_int
  PsychologyBranch_SourceHash :: string
  PsychologyBranch_EvidenceJSON :: string
  PsychologyBranch_QuietTurns :: go_int
  PsychologyBranch_LastSeenTurn :: go_int
  PsychologyBranch_DormantAfterQuietTurns :: go_int
  PsychologyBranch_CreatedAt :: go_time
  PsychologyBranch_UpdatedAt :: go_time

record ForkLineageRecord =
  ForkLineageRecord_ID :: go_int
  ForkLineageRecord_ContractVersion :: string
  ForkLineageRecord_LineageState :: string
  ForkLineageRecord_ChatSessionID :: string
  ForkLineageRecord_ScopeID :: string
  ForkLineageRecord_ParentScopeID :: string
  ForkLineageRecord_CopiedFromScopeID :: string
  ForkLineageRecord_CopiedFromSessionID :: string
  ForkLineageRecord_ForkTurn :: go_int
  ForkLineageRecord_ForkSourceMessageID :: string
  ForkLineageRecord_ForkSourceRole :: string
  ForkLineageRecord_IdempotencyKey :: string
  ForkLineageRecord_ImportedAt :: go_time
  ForkLineageRecord_DivergenceMarker :: string
  ForkLineageRecord_ProvenanceSource :: string
  ForkLineageRecord_InheritanceMode :: string
  ForkLineageRecord_InheritedItemsJSON :: string
  ForkLineageRecord_CreatedAt :: go_time
  ForkLineageRecord_UpdatedAt :: go_time

record WorldlineCompletedTurn =
  WorldlineCompletedTurn_ChatSessionID :: string
  WorldlineCompletedTurn_TurnIndex :: go_int

record WorldlineTopologySnapshot =
  WorldlineTopologySnapshot_StableCharacterID :: string
  WorldlineTopologySnapshot_AnchorSessionID :: string
  WorldlineTopologySnapshot_SessionIDs :: "string list"
  WorldlineTopologySnapshot_LineageRecords :: "ForkLineageRecord list"
  WorldlineTopologySnapshot_CompletedTurns :: "WorldlineCompletedTurn list"
  WorldlineTopologySnapshot_Truncated :: bool
  WorldlineTopologySnapshot_TurnsTruncated :: bool

record ThemeOffscreenCarryRecord =
  ThemeOffscreenCarryRecord_ID :: go_int
  ThemeOffscreenCarryRecord_ChatSessionID :: string
  ThemeOffscreenCarryRecord_SurfaceType :: string
  ThemeOffscreenCarryRecord_Label :: string
  ThemeOffscreenCarryRecord_Summary :: string
  ThemeOffscreenCarryRecord_Status :: string
  ThemeOffscreenCarryRecord_Confidence :: float64
  ThemeOffscreenCarryRecord_ConfidenceLabel :: string
  ThemeOffscreenCarryRecord_SourceKind :: string
  ThemeOffscreenCarryRecord_SourceTurnStart :: go_int
  ThemeOffscreenCarryRecord_SourceTurnEnd :: go_int
  ThemeOffscreenCarryRecord_SourceHash :: string
  ThemeOffscreenCarryRecord_EvidenceJSON :: string
  ThemeOffscreenCarryRecord_QuietTurns :: go_int
  ThemeOffscreenCarryRecord_LastSeenTurn :: go_int
  ThemeOffscreenCarryRecord_DormantAfterQuietTurns :: go_int
  ThemeOffscreenCarryRecord_ForegroundEligible :: bool
  ThemeOffscreenCarryRecord_ForegroundReasonJSON :: string
  ThemeOffscreenCarryRecord_CreatedAt :: go_time
  ThemeOffscreenCarryRecord_UpdatedAt :: go_time

record CaptureVerificationRecord =
  CaptureVerificationRecord_ID :: go_int
  CaptureVerificationRecord_ChatSessionID :: string
  CaptureVerificationRecord_TurnIndex :: go_int
  CaptureVerificationRecord_StageName :: string
  CaptureVerificationRecord_VerificationState :: string
  CaptureVerificationRecord_DegradedReason :: string
  CaptureVerificationRecord_CompactMetadataJSON :: string
  CaptureVerificationRecord_ContentHash :: string
  CaptureVerificationRecord_EvidenceJSON :: string
  CaptureVerificationRecord_PreviousRecordID :: go_int
  CaptureVerificationRecord_RepairedByRecordID :: go_int
  CaptureVerificationRecord_RepairAttemptCount :: go_int
  CaptureVerificationRecord_RepairEvidenceJSON :: string
  CaptureVerificationRecord_RepairedAt :: go_time
  CaptureVerificationRecord_UserInputPreserved :: bool
  CaptureVerificationRecord_PayloadRewrite :: bool
  CaptureVerificationRecord_CreatedAt :: go_time
  CaptureVerificationRecord_UpdatedAt :: go_time

record StatusSchemaProposal =
  StatusSchemaProposal_ID :: go_int
  StatusSchemaProposal_ChatSessionID :: string
  StatusSchemaProposal_InputChannel :: string
  StatusSchemaProposal_ProposalState :: string
  StatusSchemaProposal_SchemaName :: string
  StatusSchemaProposal_RulesetLabel :: string
  StatusSchemaProposal_SchemaJSON :: string
  StatusSchemaProposal_ProvenanceJSON :: string
  StatusSchemaProposal_ReviewNote :: string
  StatusSchemaProposal_Reviewer :: string
  StatusSchemaProposal_ReviewedAt :: go_time
  StatusSchemaProposal_CreatedAt :: go_time
  StatusSchemaProposal_UpdatedAt :: go_time

record StatusSchemaDefinition =
  StatusSchemaDefinition_ID :: go_int
  StatusSchemaDefinition_ChatSessionID :: string
  StatusSchemaDefinition_SourceProposalID :: go_int
  StatusSchemaDefinition_SchemaName :: string
  StatusSchemaDefinition_RulesetLabel :: string
  StatusSchemaDefinition_StatusKey :: string
  StatusSchemaDefinition_Label :: string
  StatusSchemaDefinition_OwnerScope :: string
  StatusSchemaDefinition_ValueKind :: string
  StatusSchemaDefinition_BoundsJSON :: string
  StatusSchemaDefinition_OptionsJSON :: string
  StatusSchemaDefinition_DefaultValueJSON :: string
  StatusSchemaDefinition_RegistryState :: string
  StatusSchemaDefinition_CreatedAt :: go_time
  StatusSchemaDefinition_UpdatedAt :: go_time

record StatusCurrentValue =
  StatusCurrentValue_ID :: go_int
  StatusCurrentValue_ChatSessionID :: string
  StatusCurrentValue_RegistryID :: go_int
  StatusCurrentValue_StatusKey :: string
  StatusCurrentValue_OwnerScope :: string
  StatusCurrentValue_OwnerID :: string
  StatusCurrentValue_OwnerLabel :: string
  StatusCurrentValue_ValueKind :: string
  StatusCurrentValue_ValueJSON :: string
  StatusCurrentValue_EvidenceJSON :: string
  StatusCurrentValue_SourceTurn :: go_int
  StatusCurrentValue_WriteState :: string
  StatusCurrentValue_CreatedAt :: go_time
  StatusCurrentValue_UpdatedAt :: go_time

record StatusChangeEvent =
  StatusChangeEvent_ID :: go_int
  StatusChangeEvent_ChatSessionID :: string
  StatusChangeEvent_RegistryID :: go_int
  StatusChangeEvent_StatusValueID :: go_int
  StatusChangeEvent_StatusKey :: string
  StatusChangeEvent_OwnerScope :: string
  StatusChangeEvent_OwnerID :: string
  StatusChangeEvent_EventKind :: string
  StatusChangeEvent_PreviousValueJSON :: string
  StatusChangeEvent_NewValueJSON :: string
  StatusChangeEvent_EvidenceJSON :: string
  StatusChangeEvent_SourceTurn :: go_int
  StatusChangeEvent_StoryClockJSON :: string
  StatusChangeEvent_EventState :: string
  StatusChangeEvent_CreatedAt :: go_time

record StatusEffect =
  StatusEffect_ID :: go_int
  StatusEffect_ChatSessionID :: string
  StatusEffect_RegistryID :: go_int
  StatusEffect_StatusKey :: string
  StatusEffect_OwnerScope :: string
  StatusEffect_OwnerID :: string
  StatusEffect_EffectKind :: string
  StatusEffect_EffectLabel :: string
  StatusEffect_EffectPayloadJSON :: string
  StatusEffect_EvidenceJSON :: string
  StatusEffect_SourceTurn :: go_int
  StatusEffect_StartClockJSON :: string
  StatusEffect_DurationJSON :: string
  StatusEffect_ExpiresAtClockJSON :: string
  StatusEffect_EffectState :: string
  StatusEffect_ClearedEvidenceJSON :: string
  StatusEffect_ClearedTurn :: go_int
  StatusEffect_CreatedAt :: go_time
  StatusEffect_UpdatedAt :: go_time

record StateRepairArtifactChange =
  StateRepairArtifactChange_Table :: string
  StateRepairArtifactChange_ID :: go_int
  StateRepairArtifactChange_Before :: "(string \<times> string option) list"
  StateRepairArtifactChange_After :: "(string \<times> string option) list"
  StateRepairArtifactChange_VectorIDs :: "string list"
  StateRepairArtifactChange_VectorBeforeJSON :: string
  StateRepairArtifactChange_VectorAfterJSON :: string

record ReversibleStatusTransition =
  ReversibleStatusTransition_SourceContract :: string
  ReversibleStatusTransition_SourceRevision :: string
  ReversibleStatusTransition_SourceUnitID :: string
  ReversibleStatusTransition_CurrentValue :: "StatusCurrentValue option"
  ReversibleStatusTransition_DeleteCurrent :: bool
  ReversibleStatusTransition_PendingSnapshot :: "PendingThread option"
  ReversibleStatusTransition_ArtifactChanges :: "StateRepairArtifactChange list"
  ReversibleStatusTransition_Event :: StatusChangeEvent

record ReversibleStatusTransitionResult =
  ReversibleStatusTransitionResult_CurrentValue :: StatusCurrentValue
  ReversibleStatusTransitionResult_Event :: StatusChangeEvent
  ReversibleStatusTransitionResult_Replayed :: bool

record Entity =
  Entity_ID :: go_int
  Entity_ChatSessionID :: string
  Entity_Name :: string
  Entity_EntityType :: string
  Entity_Description :: string
  Entity_AliasesJSON :: string
  Entity_FirstSeenTurn :: go_int
  Entity_LastSeenTurn :: go_int
  Entity_Confidence :: float64
  Entity_Pinned :: bool
  Entity_Suppressed :: bool
  Entity_UserCorrected :: bool
  Entity_CreatedAt :: go_time
  Entity_UpdatedAt :: go_time

record Trust =
  Trust_ID :: go_int
  Trust_ChatSessionID :: string
  Trust_TargetName :: string
  Trust_TargetType :: string
  Trust_Score :: float64
  Trust_ReasonJSON :: string
  Trust_SourceTurn :: go_int
  Trust_Pinned :: bool
  Trust_Suppressed :: bool
  Trust_UserCorrected :: bool
  Trust_CreatedAt :: go_time
  Trust_UpdatedAt :: go_time

record EpisodeSummary =
  EpisodeSummary_ID :: go_int
  EpisodeSummary_ChatSessionID :: string
  EpisodeSummary_FromTurn :: go_int
  EpisodeSummary_ToTurn :: go_int
  EpisodeSummary_SummaryText :: string
  EpisodeSummary_KeyEntities :: string
  EpisodeSummary_KeyEvents :: string
  EpisodeSummary_OpenLoopsJSON :: string
  EpisodeSummary_RelationshipChangesJSON :: string
  EpisodeSummary_EmbeddingVector :: string
  EpisodeSummary_EmbeddingModel :: string
  EpisodeSummary_CreatedAt :: go_time

record StatsResult =
  StatsResult_ChatLogs :: go_int
  StatsResult_Memories :: go_int
  StatsResult_KgTriples :: go_int

record SessionSummary =
  SessionSummary_ChatSessionID :: string
  SessionSummary_ChatLogsCount :: go_int
  SessionSummary_MemoriesCount :: go_int
  SessionSummary_KGTriplesCount :: go_int
  SessionSummary_LastActivity :: go_time

record SagaDigest =
  SagaDigest_ID :: go_int
  SagaDigest_ChatSessionID :: string
  SagaDigest_FromTurn :: go_int
  SagaDigest_ToTurn :: go_int
  SagaDigest_EraLabel :: string
  SagaDigest_SagaSummary :: string
  SagaDigest_PersistentFactsJSON :: string
  SagaDigest_NeverDropCandidatesJSON :: string
  SagaDigest_ResumePackText :: string
  SagaDigest_EmbeddingVector :: string
  SagaDigest_EmbeddingModel :: string
  SagaDigest_CreatedAt :: "go_time option"

record GuidancePlanState =
  GuidancePlanState_ID :: go_int
  GuidancePlanState_ChatSessionID :: string
  GuidancePlanState_StoryPlanJSON :: string
  GuidancePlanState_DirectorJSON :: string
  GuidancePlanState_StateStatus :: string
  GuidancePlanState_LastTurn :: go_int
  GuidancePlanState_WarningsJSON :: string
  GuidancePlanState_CreatedAt :: go_time
  GuidancePlanState_UpdatedAt :: go_time

record ArcSummary =
  ArcSummary_ID :: go_int
  ArcSummary_ChatSessionID :: string
  ArcSummary_FromTurn :: go_int
  ArcSummary_ToTurn :: go_int
  ArcSummary_ArcIndex :: go_int
  ArcSummary_ArcName :: string
  ArcSummary_ArcStatus :: string
  ArcSummary_CoreConflict :: string
  ArcSummary_KeyTurningPointsJSON :: string
  ArcSummary_ActivePromisesJSON :: string
  ArcSummary_UnresolvedDebtsJSON :: string
  ArcSummary_ResolvedPayoffsJSON :: string
  ArcSummary_CallbackCandidatesJSON :: string
  ArcSummary_FuturePayoffCandidatesJSON :: string
  ArcSummary_IrreversibleTurnsJSON :: string
  ArcSummary_CallbackDebtsJSON :: string
  ArcSummary_RelationshipPivotsJSON :: string
  ArcSummary_ArcResumeText :: string
  ArcSummary_EmbeddingVector :: string
  ArcSummary_EmbeddingModel :: string
  ArcSummary_CreatedAt :: "go_time option"

record ChapterSummary =
  ChapterSummary_ID :: go_int
  ChapterSummary_ChatSessionID :: string
  ChapterSummary_FromTurn :: go_int
  ChapterSummary_ToTurn :: go_int
  ChapterSummary_ChapterIndex :: go_int
  ChapterSummary_ChapterTitle :: string
  ChapterSummary_SummaryText :: string
  ChapterSummary_OpenLoopsJSON :: string
  ChapterSummary_RelationshipChangesJSON :: string
  ChapterSummary_WorldChangesJSON :: string
  ChapterSummary_CallbackCandidatesJSON :: string
  ChapterSummary_ResumeText :: string
  ChapterSummary_EmbeddingVector :: string
  ChapterSummary_EmbeddingModel :: string
  ChapterSummary_CreatedAt :: "go_time option"

record ResumePack =
  ResumePack_PackStatus :: string
  ResumePack_Trigger :: string
  ResumePack_SourcesUsed :: "string list"
  ResumePack_LayerCount :: go_int
  ResumePack_AssembledText :: string
  ResumePack_Saga :: "SagaDigest option"
  ResumePack_Arc :: "ArcSummary option"
  ResumePack_Chapter :: "ChapterSummary option"
  ResumePack_AssemblyNote :: string

record EntityIdentity =
  EntityIdentity_StableEntityID :: string
  EntityIdentity_ChatSessionID :: string
  EntityIdentity_IdentityNamespace :: string
  EntityIdentity_EntityKind :: string
  EntityIdentity_CanonicalLabel :: string
  EntityIdentity_LifecycleState :: string
  EntityIdentity_ReviewState :: string
  EntityIdentity_PresenceAuthority :: string
  EntityIdentity_OccurrenceAuthority :: string
  EntityIdentity_SourceContract :: string
  EntityIdentity_SourceRevision :: string
  EntityIdentity_SourceLogicalTurnID :: string
  EntityIdentity_SourceMessageID :: string
  EntityIdentity_SourceGenerationID :: string
  EntityIdentity_SourceContentHash :: string
  EntityIdentity_SourceTurn :: go_int
  EntityIdentity_SourceIndex :: go_int
  EntityIdentity_IdempotencyKey :: string
  EntityIdentity_MappingRevision :: go_int
  EntityIdentity_FirstSeenTurn :: go_int
  EntityIdentity_LastSeenTurn :: go_int
  EntityIdentity_CreatedAt :: go_time
  EntityIdentity_UpdatedAt :: go_time

record EntityIdentitySurface =
  EntityIdentitySurface_SurfaceID :: string
  EntityIdentitySurface_StableEntityID :: string
  EntityIdentitySurface_ChatSessionID :: string
  EntityIdentitySurface_IdentityNamespace :: string
  EntityIdentitySurface_SurfaceKind :: string
  EntityIdentitySurface_SurfaceText :: string
  EntityIdentitySurface_NormalizedSurface :: string
  EntityIdentitySurface_Scope :: string
  EntityIdentitySurface_ValidFromTurn :: go_int
  EntityIdentitySurface_ValidToTurn :: go_int
  EntityIdentitySurface_SourceContract :: string
  EntityIdentitySurface_SourceRevision :: string
  EntityIdentitySurface_SourceTurn :: go_int
  EntityIdentitySurface_SourceSpanStart :: go_int
  EntityIdentitySurface_SourceSpanEnd :: go_int
  EntityIdentitySurface_EvidenceExcerpt :: string
  EntityIdentitySurface_ReviewState :: string
  EntityIdentitySurface_IdempotencyKey :: string
  EntityIdentitySurface_CreatedAt :: go_time
  EntityIdentitySurface_UpdatedAt :: go_time

record EntityIdentityArtifactBinding =
  EntityIdentityArtifactBinding_BindingID :: string
  EntityIdentityArtifactBinding_StableEntityID :: string
  EntityIdentityArtifactBinding_ChatSessionID :: string
  EntityIdentityArtifactBinding_ArtifactKind :: string
  EntityIdentityArtifactBinding_ArtifactRole :: string
  EntityIdentityArtifactBinding_ArtifactOrdinal :: go_int
  EntityIdentityArtifactBinding_SurfaceText :: string
  EntityIdentityArtifactBinding_ReviewState :: string
  EntityIdentityArtifactBinding_SourceContract :: string
  EntityIdentityArtifactBinding_SourceRevision :: string
  EntityIdentityArtifactBinding_SourceTurn :: go_int
  EntityIdentityArtifactBinding_IdempotencyKey :: string
  EntityIdentityArtifactBinding_CreatedAt :: go_time

record EntityIdentityLink =
  EntityIdentityLink_LinkID :: string
  EntityIdentityLink_ChatSessionID :: string
  EntityIdentityLink_SourceEntityID :: string
  EntityIdentityLink_TargetEntityID :: string
  EntityIdentityLink_LinkKind :: string
  EntityIdentityLink_LinkState :: string
  EntityIdentityLink_EvidenceJSON :: string
  EntityIdentityLink_MappingRevision :: go_int
  EntityIdentityLink_SourceContract :: string
  EntityIdentityLink_SourceRevision :: string
  EntityIdentityLink_CreatedAt :: go_time
  EntityIdentityLink_UpdatedAt :: go_time

record SpeakerAttribution =
  SpeakerAttribution_AttributionID :: string
  SpeakerAttribution_ChatSessionID :: string
  SpeakerAttribution_SpeakerEntityID :: string
  SpeakerAttribution_IdentityNamespace :: string
  SpeakerAttribution_SourceRole :: string
  SpeakerAttribution_AttributionKind :: string
  SpeakerAttribution_AttributionState :: string
  SpeakerAttribution_ReviewState :: string
  SpeakerAttribution_Confidence :: float64
  SpeakerAttribution_SourceContract :: string
  SpeakerAttribution_SourceRevision :: string
  SpeakerAttribution_SourceLogicalTurn :: string
  SpeakerAttribution_SourceMessageID :: string
  SpeakerAttribution_SourceGeneration :: string
  SpeakerAttribution_SourceContentHash :: string
  SpeakerAttribution_SourceTurn :: go_int
  SpeakerAttribution_SourceSpanStart :: go_int
  SpeakerAttribution_SourceSpanEnd :: go_int
  SpeakerAttribution_EvidenceExcerpt :: string
  SpeakerAttribution_IdempotencyKey :: string
  SpeakerAttribution_CreatedAt :: go_time
  SpeakerAttribution_UpdatedAt :: go_time

record ResolvedEntityIdentity =
  ResolvedEntityIdentity_StableEntityID :: string
  ResolvedEntityIdentity_IdentityNamespace :: string
  ResolvedEntityIdentity_EntityKind :: string
  ResolvedEntityIdentity_CanonicalLabel :: string

record SourceRevisionRegistration =
  SourceRevisionRegistration_Inserted :: bool
  SourceRevisionRegistration_Idempotent :: bool

record MemoryReprocessingJob =
  MemoryReprocessingJob_ID :: go_int
  MemoryReprocessingJob_ContractVersion :: string
  MemoryReprocessingJob_IdempotencyKey :: string
  MemoryReprocessingJob_ChatSessionID :: string
  MemoryReprocessingJob_SourceRevision :: string
  MemoryReprocessingJob_SourceContract :: string
  MemoryReprocessingJob_DerivationVersion :: string
  MemoryReprocessingJob_ExtractorVersion :: string
  MemoryReprocessingJob_IndexVersion :: string
  MemoryReprocessingJob_Status :: string
  MemoryReprocessingJob_Attempts :: go_int
  MemoryReprocessingJob_RetryAfter :: go_time
  MemoryReprocessingJob_LeaseOwner :: string
  MemoryReprocessingJob_LeaseUntil :: go_time
  MemoryReprocessingJob_LastError :: string
  MemoryReprocessingJob_CreatedAt :: go_time
  MemoryReprocessingJob_UpdatedAt :: go_time

record MemoryVectorOutboxItem =
  MemoryVectorOutboxItem_ID :: go_int
  MemoryVectorOutboxItem_ContractVersion :: string
  MemoryVectorOutboxItem_OperationKey :: string
  MemoryVectorOutboxItem_Operation :: string
  MemoryVectorOutboxItem_ChatSessionID :: string
  MemoryVectorOutboxItem_SourceRevision :: string
  MemoryVectorOutboxItem_DocumentID :: string
  MemoryVectorOutboxItem_DocumentJSON :: string
  MemoryVectorOutboxItem_EmbeddingReady :: bool
  MemoryVectorOutboxItem_RequiredSourceState :: string
  MemoryVectorOutboxItem_Status :: string
  MemoryVectorOutboxItem_Attempts :: go_int
  MemoryVectorOutboxItem_RetryAfter :: go_time
  MemoryVectorOutboxItem_LeaseOwner :: string
  MemoryVectorOutboxItem_LeaseUntil :: go_time
  MemoryVectorOutboxItem_LastError :: string
  MemoryVectorOutboxItem_CreatedAt :: go_time
  MemoryVectorOutboxItem_UpdatedAt :: go_time

record MemoryVectorMaterialization =
  MemoryVectorMaterialization_ChatSessionID :: string
  MemoryVectorMaterialization_SourceRevision :: string
  MemoryVectorMaterialization_DocumentID :: string
  MemoryVectorMaterialization_SourceRowID :: go_int
  MemoryVectorMaterialization_EmbeddingJSON :: string
  MemoryVectorMaterialization_EmbeddingModel :: string

record PreciseMemoryUnit =
  PreciseMemoryUnit_ID :: go_int
  PreciseMemoryUnit_UnitID :: string
  PreciseMemoryUnit_ContractVersion :: string
  PreciseMemoryUnit_ChatSessionID :: string
  PreciseMemoryUnit_SourceTurnStart :: go_int
  PreciseMemoryUnit_SourceTurnEnd :: go_int
  PreciseMemoryUnit_SourceContract :: string
  PreciseMemoryUnit_SourceRevision :: string
  PreciseMemoryUnit_SourceLogicalTurnID :: string
  PreciseMemoryUnit_SourceMessageID :: string
  PreciseMemoryUnit_SourceGenerationID :: string
  PreciseMemoryUnit_SourceContentHash :: string
  PreciseMemoryUnit_SourceRole :: string
  PreciseMemoryUnit_SourceSpanStart :: go_int
  PreciseMemoryUnit_SourceSpanEnd :: go_int
  PreciseMemoryUnit_EvidenceExcerpt :: string
  PreciseMemoryUnit_EvidenceHash :: string
  PreciseMemoryUnit_RootEvidenceID :: go_int
  PreciseMemoryUnit_DirectEvidenceIDsJSON :: string
  PreciseMemoryUnit_Kind :: string
  PreciseMemoryUnit_Subtype :: string
  PreciseMemoryUnit_PayloadJSON :: string
  PreciseMemoryUnit_ActorEntityID :: string
  PreciseMemoryUnit_SubjectEntityID :: string
  PreciseMemoryUnit_AffectedEntityID :: string
  PreciseMemoryUnit_LocationEntityID :: string
  PreciseMemoryUnit_ObjectEntityID :: string
  PreciseMemoryUnit_RelationshipKey :: string
  PreciseMemoryUnit_TruthScope :: string
  PreciseMemoryUnit_EpistemicMode :: string
  PreciseMemoryUnit_AuthorityClass :: string
  PreciseMemoryUnit_AdmissionState :: string
  PreciseMemoryUnit_ReviewState :: string
  PreciseMemoryUnit_Visibility :: string
  PreciseMemoryUnit_KnowledgeHolderEntityID :: string
  PreciseMemoryUnit_RevealCondition :: string
  PreciseMemoryUnit_Confidence :: float64
  PreciseMemoryUnit_IdempotencyKey :: string
  PreciseMemoryUnit_DerivationVersion :: string
  PreciseMemoryUnit_ExtractorVersion :: string
  PreciseMemoryUnit_IndexVersion :: string
  PreciseMemoryUnit_LifecycleState :: string
  PreciseMemoryUnit_CreatedAt :: go_time
  PreciseMemoryUnit_UpdatedAt :: go_time
  PreciseMemoryUnit_VectorEmbedding :: "float32 list"
  PreciseMemoryUnit_VectorEmbeddingModel :: string
  PreciseMemoryUnit_VectorContextChunks :: "string list"
  PreciseMemoryUnit_VectorContextChunkIndex :: go_int

record MemoryAdmissionVector =
  MemoryAdmissionVector_ArtifactType :: string
  MemoryAdmissionVector_EvidenceText :: string
  MemoryAdmissionVector_Embedding :: "float32 list"
  MemoryAdmissionVector_Tier :: string
  MemoryAdmissionVector_SourceTable :: string
  MemoryAdmissionVector_SchemaVersion :: string
  MemoryAdmissionVector_DocumentText :: string
  MemoryAdmissionVector_SearchTextPolicy :: string
  MemoryAdmissionVector_RawLanguage :: string
  MemoryAdmissionVector_SummaryLanguage :: string
  MemoryAdmissionVector_SessionOutputLanguage :: string
  MemoryAdmissionVector_AliasCount :: go_int
  MemoryAdmissionVector_EmbeddingModel :: string
  MemoryAdmissionVector_ContextChunks :: "string list"
  MemoryAdmissionVector_ContextChunkIndex :: go_int

record MemoryAdmission =
  MemoryAdmission_MemoryPublicProjectionExcluded :: bool
  MemoryAdmission_ContractVersion :: string
  MemoryAdmission_ChatSessionID :: string
  MemoryAdmission_SourceRevision :: string
  MemoryAdmission_TurnIndex :: go_int
  MemoryAdmission_DerivationVersion :: string
  MemoryAdmission_ExtractorVersion :: string
  MemoryAdmission_IndexVersion :: string
  MemoryAdmission_ResultHash :: string
  MemoryAdmission_ResultJSON :: string
  MemoryAdmission_Memory :: "Memory option"
  MemoryAdmission_Evidence :: "DirectEvidence list"
  MemoryAdmission_PreciseUnits :: "PreciseMemoryUnit list"
  MemoryAdmission_Vectors :: "MemoryAdmissionVector list"
  MemoryAdmission_CreatedAt :: go_time

record MemoryAdmissionResult =
  MemoryAdmissionResult_Idempotent :: bool
  MemoryAdmissionResult_ExistingResultHash :: string
  MemoryAdmissionResult_ExistingResultJSON :: string
  MemoryAdmissionResult_MemoryInserted :: bool
  MemoryAdmissionResult_MemoryUpdated :: bool
  MemoryAdmissionResult_EvidenceInserted :: go_int
  MemoryAdmissionResult_EvidenceReactivated :: go_int
  MemoryAdmissionResult_EvidenceRetired :: go_int
  MemoryAdmissionResult_PreciseInserted :: go_int
  MemoryAdmissionResult_PreciseReactivated :: go_int
  MemoryAdmissionResult_PreciseRetired :: go_int
  MemoryAdmissionResult_VectorOperations :: go_int
  MemoryAdmissionResult_CommittedResultHash :: string
  MemoryAdmissionResult_CommittedAt :: go_time

subsection \<open>Zero values\<close>

text \<open>
  The composite literals \<open>T{}\<close> that the store decorators return.
\<close>

definition zero_StatsResult :: StatsResult where
  "zero_StatsResult = \<lparr>StatsResult_ChatLogs = 0,
     StatsResult_Memories = 0,
     StatsResult_KgTriples = 0\<rparr>"

definition zero_ResolvedEntityIdentity :: ResolvedEntityIdentity where
  "zero_ResolvedEntityIdentity = \<lparr>ResolvedEntityIdentity_StableEntityID = '''',
     ResolvedEntityIdentity_IdentityNamespace = '''',
     ResolvedEntityIdentity_EntityKind = '''',
     ResolvedEntityIdentity_CanonicalLabel = ''''\<rparr>"

definition zero_CharacterEvent :: CharacterEvent where
  "zero_CharacterEvent = \<lparr>CharacterEvent_ID = 0,
     CharacterEvent_ChatSessionID = '''',
     CharacterEvent_CharacterName = '''',
     CharacterEvent_TurnIndex = 0,
     CharacterEvent_EventType = '''',
     CharacterEvent_DetailsJSON = '''',
     CharacterEvent_CreatedAt = 0\<rparr>"

definition zero_MemoryAdmissionResult :: MemoryAdmissionResult where
  "zero_MemoryAdmissionResult = \<lparr>MemoryAdmissionResult_Idempotent = False,
     MemoryAdmissionResult_ExistingResultHash = '''',
     MemoryAdmissionResult_ExistingResultJSON = '''',
     MemoryAdmissionResult_MemoryInserted = False,
     MemoryAdmissionResult_MemoryUpdated = False,
     MemoryAdmissionResult_EvidenceInserted = 0,
     MemoryAdmissionResult_EvidenceReactivated = 0,
     MemoryAdmissionResult_EvidenceRetired = 0,
     MemoryAdmissionResult_PreciseInserted = 0,
     MemoryAdmissionResult_PreciseReactivated = 0,
     MemoryAdmissionResult_PreciseRetired = 0,
     MemoryAdmissionResult_VectorOperations = 0,
     MemoryAdmissionResult_CommittedResultHash = '''',
     MemoryAdmissionResult_CommittedAt = 0\<rparr>"

definition zero_SourceRevisionRegistration :: SourceRevisionRegistration where
  "zero_SourceRevisionRegistration = \<lparr>SourceRevisionRegistration_Inserted = False,
     SourceRevisionRegistration_Idempotent = False\<rparr>"

definition zero_WorldlineTopologySnapshot :: WorldlineTopologySnapshot where
  "zero_WorldlineTopologySnapshot = \<lparr>WorldlineTopologySnapshot_StableCharacterID = '''',
     WorldlineTopologySnapshot_AnchorSessionID = '''',
     WorldlineTopologySnapshot_SessionIDs = [],
     WorldlineTopologySnapshot_LineageRecords = [],
     WorldlineTopologySnapshot_CompletedTurns = [],
     WorldlineTopologySnapshot_Truncated = False,
     WorldlineTopologySnapshot_TurnsTruncated = False\<rparr>"

definition zero_StatusSchemaProposal :: StatusSchemaProposal where
  "zero_StatusSchemaProposal = \<lparr>StatusSchemaProposal_ID = 0,
     StatusSchemaProposal_ChatSessionID = '''',
     StatusSchemaProposal_InputChannel = '''',
     StatusSchemaProposal_ProposalState = '''',
     StatusSchemaProposal_SchemaName = '''',
     StatusSchemaProposal_RulesetLabel = '''',
     StatusSchemaProposal_SchemaJSON = '''',
     StatusSchemaProposal_ProvenanceJSON = '''',
     StatusSchemaProposal_ReviewNote = '''',
     StatusSchemaProposal_Reviewer = '''',
     StatusSchemaProposal_ReviewedAt = 0,
     StatusSchemaProposal_CreatedAt = 0,
     StatusSchemaProposal_UpdatedAt = 0\<rparr>"

definition zero_StatusSchemaDefinition :: StatusSchemaDefinition where
  "zero_StatusSchemaDefinition = \<lparr>StatusSchemaDefinition_ID = 0,
     StatusSchemaDefinition_ChatSessionID = '''',
     StatusSchemaDefinition_SourceProposalID = 0,
     StatusSchemaDefinition_SchemaName = '''',
     StatusSchemaDefinition_RulesetLabel = '''',
     StatusSchemaDefinition_StatusKey = '''',
     StatusSchemaDefinition_Label = '''',
     StatusSchemaDefinition_OwnerScope = '''',
     StatusSchemaDefinition_ValueKind = '''',
     StatusSchemaDefinition_BoundsJSON = '''',
     StatusSchemaDefinition_OptionsJSON = '''',
     StatusSchemaDefinition_DefaultValueJSON = '''',
     StatusSchemaDefinition_RegistryState = '''',
     StatusSchemaDefinition_CreatedAt = 0,
     StatusSchemaDefinition_UpdatedAt = 0\<rparr>"

definition zero_StatusChangeEvent :: StatusChangeEvent where
  "zero_StatusChangeEvent = \<lparr>StatusChangeEvent_ID = 0,
     StatusChangeEvent_ChatSessionID = '''',
     StatusChangeEvent_RegistryID = 0,
     StatusChangeEvent_StatusValueID = 0,
     StatusChangeEvent_StatusKey = '''',
     StatusChangeEvent_OwnerScope = '''',
     StatusChangeEvent_OwnerID = '''',
     StatusChangeEvent_EventKind = '''',
     StatusChangeEvent_PreviousValueJSON = '''',
     StatusChangeEvent_NewValueJSON = '''',
     StatusChangeEvent_EvidenceJSON = '''',
     StatusChangeEvent_SourceTurn = 0,
     StatusChangeEvent_StoryClockJSON = '''',
     StatusChangeEvent_EventState = '''',
     StatusChangeEvent_CreatedAt = 0\<rparr>"

definition zero_StatusCurrentValue :: StatusCurrentValue where
  "zero_StatusCurrentValue = \<lparr>StatusCurrentValue_ID = 0,
     StatusCurrentValue_ChatSessionID = '''',
     StatusCurrentValue_RegistryID = 0,
     StatusCurrentValue_StatusKey = '''',
     StatusCurrentValue_OwnerScope = '''',
     StatusCurrentValue_OwnerID = '''',
     StatusCurrentValue_OwnerLabel = '''',
     StatusCurrentValue_ValueKind = '''',
     StatusCurrentValue_ValueJSON = '''',
     StatusCurrentValue_EvidenceJSON = '''',
     StatusCurrentValue_SourceTurn = 0,
     StatusCurrentValue_WriteState = '''',
     StatusCurrentValue_CreatedAt = 0,
     StatusCurrentValue_UpdatedAt = 0\<rparr>"

definition zero_ReversibleStatusTransitionResult :: ReversibleStatusTransitionResult where
  "zero_ReversibleStatusTransitionResult = \<lparr>ReversibleStatusTransitionResult_CurrentValue = zero_StatusCurrentValue,
     ReversibleStatusTransitionResult_Event = zero_StatusChangeEvent,
     ReversibleStatusTransitionResult_Replayed = False\<rparr>"

end
