(* ===== verification/Store_Api.thy ===== *)
theory Store_Api
  imports Store_Types
begin

text \<open>
  The \<open>Store\<close> interface of \<open>go-service/internal/store/store.go\<close> and its optional extensions
  (also in \<open>entity_identity.go\<close>, \<open>precise_memory.go\<close> and \<open>memory_derivation.go\<close>). An
  interface is a record of its methods (\<open>meth\<close>): each takes its arguments and the state behind the
  interface value and returns its results, its \<open>error\<close> and the new state. An argument passed
  as a pointer to a record may be changed by the callee, so its final value is one of the
  results (the last component); pointers that callers pass are not nil. The
  \<open>context.Context\<close> argument is left out: what a cancelled context does is the store's
  choice of result.

  Go finds optional interfaces by type assertion: the field \<open>as_X\<close> is the result of
  \<open>st.(X)\<close>, for a named interface \<open>X\<close>, or for the anonymous interface with the one method
  \<open>X\<close>. The dynamic type of a store never changes, so these are fields and not part of the
  state.
\<close>

subsection \<open>Optional interfaces\<close>

record 'st LogicalTurnReplacementStore =
  ReplaceLogicalTurn :: "LogicalTurnReplacement \<Rightarrow> ('st, LogicalTurnReplacement) meth"
  RollbackCanonicalTail :: "LogicalTurnRollback \<Rightarrow> ('st, unit) meth"

record 'st PrepareTurnRangeStore =
  LatestSessionTurnIndex :: "string \<Rightarrow> ('st, go_int) meth"
  ListMemoriesRange :: "string \<Rightarrow> go_int \<Rightarrow> go_int \<Rightarrow> (go_int list) \<Rightarrow> ('st, (Memory list)) meth"
  ListEvidenceRange :: "string \<Rightarrow> go_int \<Rightarrow> go_int \<Rightarrow> (go_int list) \<Rightarrow> ('st, (DirectEvidence list)) meth"
  ListKGTriplesRange :: "string \<Rightarrow> go_int \<Rightarrow> go_int \<Rightarrow> ('st, (KGTriple list)) meth"
  ListCharacterStatesCurrentBefore :: "string \<Rightarrow> go_int \<Rightarrow> ('st, (CharacterState list)) meth"
  ListActiveStatesRange :: "string \<Rightarrow> go_int \<Rightarrow> go_int \<Rightarrow> ('st, (ActiveState list)) meth"
  ListCanonicalStateLayersRange :: "string \<Rightarrow> go_int \<Rightarrow> go_int \<Rightarrow> ('st, (CanonicalStateLayer list)) meth"

record 'st TimelineTurnIndexStore =
  LatestTimelineTurnIndex :: "string \<Rightarrow> ('st, go_int) meth"

record 'st SessionStateSnapshotReader =
  ReadSessionStateSnapshot :: "string \<Rightarrow> ('st, (SessionStateSnapshot option)) meth"

record 'st ExplorerMutationStore =
  UpdateMemoryExplorerFields :: "string \<Rightarrow> go_int \<Rightarrow> MemoryExplorerPatch \<Rightarrow> ('st, unit) meth"
  UpdateKGTripleExplorerFields :: "string \<Rightarrow> go_int \<Rightarrow> KGTripleExplorerPatch \<Rightarrow> ('st, unit) meth"
  UpdateDirectEvidenceExplorerFields :: "string \<Rightarrow> go_int \<Rightarrow> DirectEvidenceExplorerPatch \<Rightarrow> ('st, unit) meth"
  DeleteMemoryByID :: "string \<Rightarrow> go_int \<Rightarrow> ('st, unit) meth"
  DeleteDirectEvidenceByID :: "string \<Rightarrow> go_int \<Rightarrow> ('st, unit) meth"
  DeleteKGTripleByID :: "string \<Rightarrow> go_int \<Rightarrow> ('st, unit) meth"
  DeleteCharacterByName :: "string \<Rightarrow> string \<Rightarrow> ('st, unit) meth"

record 'st AuditLogCounter =
  CountAuditLogs :: "string \<Rightarrow> string \<Rightarrow> ('st, go_int) meth"

record 'st EntityIdentityLinkWriter =
  SaveEntityIdentityLink :: "EntityIdentityLink \<Rightarrow> ('st, EntityIdentityLink) meth"

record 'st EntityIdentityWriter =
  SaveEntityIdentity :: "EntityIdentity \<Rightarrow> ('st, EntityIdentity) meth"
  SaveEntityIdentitySurface :: "EntityIdentitySurface \<Rightarrow> ('st, EntityIdentitySurface) meth"
  SaveEntityIdentityArtifactBinding :: "EntityIdentityArtifactBinding \<Rightarrow> ('st, EntityIdentityArtifactBinding) meth"
  SaveSpeakerAttribution :: "SpeakerAttribution \<Rightarrow> ('st, SpeakerAttribution) meth"

record 'st ReviewedEntityIdentityResolver =
  ResolveReviewedCanonicalEntityID :: "string \<Rightarrow> string \<Rightarrow> ('st, string) meth"

record 'st EntityIdentityCatalogReader =
  ListActiveEntityIdentities :: "string \<Rightarrow> ('st, (EntityIdentity list)) meth"
  ListActiveEntityIdentitySurfaces :: "string \<Rightarrow> ('st, (EntityIdentitySurface list)) meth"
  ListReviewedEntityIdentityLinks :: "string \<Rightarrow> ('st, (EntityIdentityLink list)) meth"

record 'st UniqueActiveEntitySurfaceResolver =
  ResolveUniqueActiveEntityIDBySurface :: "string \<Rightarrow> string \<Rightarrow> ('st, string) meth"

record 'st UniqueActiveEntitySurfaceIdentityResolver =
  ResolveUniqueActiveEntityIdentityBySurface :: "string \<Rightarrow> string \<Rightarrow> ('st, ResolvedEntityIdentity) meth"

record 'st CharacterPerspectiveMemoryReader =
  ListCharacterPerspectiveMemoryUnits :: "string \<Rightarrow> string \<Rightarrow> ('st, (PreciseMemoryUnit list)) meth"

record 'st ActiveInteractionMemoryReader =
  ListActiveInteractionMemoryUnits :: "string \<Rightarrow> ('st, (PreciseMemoryUnit list)) meth"

record 'st GeneralVectorPreciseMemoryReader =
  ListGeneralVectorPreciseMemoryUnits :: "string \<Rightarrow> ('st, (PreciseMemoryUnit list)) meth"

record 'st PreciseMemoryWriter =
  SavePreciseMemoryUnit :: "PreciseMemoryUnit \<Rightarrow> ('st, bool \<times> PreciseMemoryUnit) meth"

record 'st PreciseMemoryWriteAvailability =
  PreciseMemoryWritesEnabled :: "'st \<Rightarrow> bool"

record 'st MemoryAdmissionWriter =
  CommitMemoryAdmission :: "MemoryAdmission \<Rightarrow> ('st, MemoryAdmissionResult \<times> MemoryAdmission) meth"

record 'st MemoryAdmissionWriteAvailability =
  MemoryAdmissionWritesEnabled :: "'st \<Rightarrow> bool"

record 'st SourceRevisionStore =
  RegisterAcceptedSourceRevision :: "MemorySourceRevision \<Rightarrow> ('st, SourceRevisionRegistration \<times> MemorySourceRevision) meth"
  GetSourceRevision :: "string \<Rightarrow> string \<Rightarrow> ('st, (MemorySourceRevision option)) meth"
  IsSourceRevisionActive :: "string \<Rightarrow> string \<Rightarrow> ('st, bool) meth"
  InvalidateSourceRevisions :: "string \<Rightarrow> go_int \<Rightarrow> string \<Rightarrow> string \<Rightarrow> go_time \<Rightarrow> ('st, unit) meth"

record 'st MemoryDerivationLifecycleAvailability =
  MemoryDerivationLifecycleEnabled :: "'st \<Rightarrow> bool"

record 'st CriticInputSnapshotStore =
  SaveCriticInputSnapshot :: "string \<Rightarrow> string \<Rightarrow> string \<Rightarrow> string \<Rightarrow> go_time \<Rightarrow> ('st, unit) meth"

record 'st ActiveSourceRevisionLister =
  ListActiveSourceRevisions :: "string \<Rightarrow> go_int \<Rightarrow> go_int \<Rightarrow> ('st, (MemorySourceRevision list)) meth"

record 'st SourceRevisionHistoryLister =
  ListSourceRevisions :: "string \<Rightarrow> go_int \<Rightarrow> go_int \<Rightarrow> ('st, (MemorySourceRevision list)) meth"

record 'st MemoryReprocessingJobStore =
  EnqueueMemoryReprocessingJob :: "MemoryReprocessingJob \<Rightarrow> ('st, bool \<times> MemoryReprocessingJob) meth"
  ClaimMemoryReprocessingJob :: "string \<Rightarrow> go_time \<Rightarrow> go_duration \<Rightarrow> ('st, (MemoryReprocessingJob option)) meth"
  CompleteMemoryReprocessingJob :: "go_int \<Rightarrow> string \<Rightarrow> go_time \<Rightarrow> ('st, unit) meth"
  FailMemoryReprocessingJob :: "go_int \<Rightarrow> string \<Rightarrow> go_time \<Rightarrow> go_time \<Rightarrow> bool \<Rightarrow> string \<Rightarrow> ('st, unit) meth"

record 'st MemoryReprocessingWakeScheduleStore =
  NextMemoryReprocessingWakeAt :: "('st, go_time) meth"

record 'st MemoryVectorOutboxStore =
  EnqueueMemoryVectorOperation :: "MemoryVectorOutboxItem \<Rightarrow> ('st, bool \<times> MemoryVectorOutboxItem) meth"
  ClaimMemoryVectorOperations :: "string \<Rightarrow> go_time \<Rightarrow> go_duration \<Rightarrow> ('st, (MemoryVectorOutboxItem list)) meth"
  CompleteMemoryVectorOperation :: "go_int \<Rightarrow> string \<Rightarrow> go_time \<Rightarrow> ('st, unit) meth"
  FailMemoryVectorOperation :: "go_int \<Rightarrow> string \<Rightarrow> go_time \<Rightarrow> go_time \<Rightarrow> bool \<Rightarrow> string \<Rightarrow> ('st, unit) meth"

record 'st MemoryVectorOutboxLaneStore =
  ClaimMemoryVectorOperationsByOperation :: "string \<Rightarrow> go_time \<Rightarrow> go_duration \<Rightarrow> string \<Rightarrow> ('st, (MemoryVectorOutboxItem list)) meth"

record 'st MemoryVectorMaterializedCompletionStore =
  CompleteMemoryVectorMaterializedOperation :: "go_int \<Rightarrow> string \<Rightarrow> go_time \<Rightarrow> MemoryVectorMaterialization \<Rightarrow> ('st, unit) meth"

record 'st MemoryVectorOutboxMaintenanceStore =
  CoalesceInactiveMemoryVectorDeleteOperations :: "string \<Rightarrow> go_time \<Rightarrow> ('st, go_int) meth"

record 'st CharacterStateHistoryStore =
  ListCharacterStateHistory :: "string \<Rightarrow> string \<Rightarrow> go_int \<Rightarrow> go_int \<Rightarrow> ('st, (CharacterState list)) meth"

record 'st CharacterProvenanceRepairStore =
  ApplyCharacterProvenanceRepair :: "CharacterState \<Rightarrow> CharacterState \<Rightarrow> string \<Rightarrow> ('st, CharacterEvent) meth"

record 'st GuidancePlanStateStore =
  GetGuidancePlanState :: "string \<Rightarrow> ('st, (GuidancePlanState option)) meth"
  UpsertGuidancePlanState :: "GuidancePlanState \<Rightarrow> ('st, GuidancePlanState) meth"

record 'st ConsequenceRecordStore =
  ListConsequenceRecords :: "string \<Rightarrow> go_int \<Rightarrow> ('st, (ConsequenceRecord list)) meth"
  SaveConsequenceRecord :: "ConsequenceRecord \<Rightarrow> ('st, ConsequenceRecord) meth"
  UpdateConsequenceRecordStatus :: "go_int \<Rightarrow> string \<Rightarrow> go_int \<Rightarrow> ('st, unit) meth"

record 'st PsychologyBranchStore =
  ListPsychologyBranches :: "string \<Rightarrow> go_int \<Rightarrow> ('st, (PsychologyBranch list)) meth"
  SavePsychologyBranch :: "PsychologyBranch \<Rightarrow> ('st, PsychologyBranch) meth"
  UpdatePsychologyBranchStatus :: "go_int \<Rightarrow> string \<Rightarrow> go_int \<Rightarrow> ('st, unit) meth"

record 'st ForkLineageStore =
  ListForkLineageRecords :: "string \<Rightarrow> string \<Rightarrow> go_int \<Rightarrow> ('st, (ForkLineageRecord list)) meth"
  SaveForkLineageRecord :: "ForkLineageRecord \<Rightarrow> ('st, ForkLineageRecord) meth"

record 'st WorldlineTopologySnapshotStore =
  GetWorldlineTopologySnapshot :: "string \<Rightarrow> go_int \<Rightarrow> ('st, WorldlineTopologySnapshot) meth"

record 'st ThemeOffscreenCarryStore =
  ListThemeOffscreenCarries :: "string \<Rightarrow> string \<Rightarrow> go_int \<Rightarrow> ('st, (ThemeOffscreenCarryRecord list)) meth"
  SaveThemeOffscreenCarry :: "ThemeOffscreenCarryRecord \<Rightarrow> ('st, ThemeOffscreenCarryRecord) meth"
  UpdateThemeOffscreenCarryStatus :: "go_int \<Rightarrow> string \<Rightarrow> go_int \<Rightarrow> ('st, unit) meth"

record 'st CaptureVerificationStore =
  ListCaptureVerifications :: "string \<Rightarrow> go_int \<Rightarrow> ('st, (CaptureVerificationRecord list)) meth"
  SaveCaptureVerification :: "CaptureVerificationRecord \<Rightarrow> ('st, CaptureVerificationRecord) meth"
  UpdateCaptureVerificationRepair :: "go_int \<Rightarrow> string \<Rightarrow> string \<Rightarrow> string \<Rightarrow> go_int \<Rightarrow> bool \<Rightarrow> ('st, unit) meth"

record 'st StatusSchemaProposalStore =
  GetStatusSchemaProposal :: "go_int \<Rightarrow> ('st, StatusSchemaProposal) meth"
  ListStatusSchemaProposals :: "string \<Rightarrow> string \<Rightarrow> go_int \<Rightarrow> ('st, (StatusSchemaProposal list)) meth"
  SaveStatusSchemaProposal :: "StatusSchemaProposal \<Rightarrow> ('st, StatusSchemaProposal) meth"
  UpdateStatusSchemaProposalReview :: "go_int \<Rightarrow> string \<Rightarrow> string \<Rightarrow> string \<Rightarrow> ('st, unit) meth"

record 'st StatusSchemaRegistryStore =
  GetStatusSchemaDefinitionByKey :: "string \<Rightarrow> string \<Rightarrow> string \<Rightarrow> ('st, StatusSchemaDefinition) meth"
  ListStatusSchemaDefinitions :: "string \<Rightarrow> string \<Rightarrow> go_int \<Rightarrow> ('st, (StatusSchemaDefinition list)) meth"
  SaveStatusSchemaDefinitions :: "(StatusSchemaDefinition list) \<Rightarrow> ('st, (StatusSchemaDefinition list)) meth"

record 'st StatusCurrentValueStore =
  ListStatusCurrentValues :: "string \<Rightarrow> string \<Rightarrow> string \<Rightarrow> string \<Rightarrow> go_int \<Rightarrow> ('st, (StatusCurrentValue list)) meth"
  SaveStatusCurrentValue :: "StatusCurrentValue \<Rightarrow> ('st, StatusCurrentValue) meth"

record 'st StatusLifecycleStore =
  ListStatusChangeEvents :: "string \<Rightarrow> string \<Rightarrow> string \<Rightarrow> string \<Rightarrow> go_int \<Rightarrow> ('st, (StatusChangeEvent list)) meth"
  SaveStatusChangeEvent :: "StatusChangeEvent \<Rightarrow> ('st, StatusChangeEvent) meth"
  ListStatusEffects :: "string \<Rightarrow> string \<Rightarrow> string \<Rightarrow> string \<Rightarrow> go_int \<Rightarrow> ('st, (StatusEffect list)) meth"
  SaveStatusEffect :: "StatusEffect \<Rightarrow> ('st, StatusEffect) meth"
  UpdateStatusEffectState :: "go_int \<Rightarrow> string \<Rightarrow> string \<Rightarrow> go_int \<Rightarrow> ('st, unit) meth"

record 'st StatusChangeEventSourceLookupStore =
  GetStatusChangeEventBySourceRevision :: "string \<Rightarrow> string \<Rightarrow> string \<Rightarrow> go_int \<Rightarrow> ('st, StatusChangeEvent) meth"
  GetLatestCurrentProjectionStatusChangeEvent :: "string \<Rightarrow> string \<Rightarrow> ('st, StatusChangeEvent) meth"

record 'st ReversibleStatusTransitionStore =
  ApplyReversibleStatusTransition :: "ReversibleStatusTransition \<Rightarrow> ('st, ReversibleStatusTransitionResult) meth"
  GetReversibleStatusEventBySourceUnit :: "string \<Rightarrow> string \<Rightarrow> string \<Rightarrow> ('st, StatusChangeEvent) meth"
  ListReversibleStatusCurrentValues :: "string \<Rightarrow> string \<Rightarrow> (string list) \<Rightarrow> ('st, (StatusCurrentValue list)) meth"
  ListLatestReversibleCurrentProjectionEvents :: "string \<Rightarrow> (string list) \<Rightarrow> ('st, (StatusChangeEvent list)) meth"

record 'st StateRepairArtifactReader =
  ListBodyRepairArtifacts :: "string \<Rightarrow> string \<Rightarrow> string \<Rightarrow> ('st, (StateRepairArtifactChange list)) meth"

record 'st EpisodeSummaryStore =
  SaveEpisodeSummary :: "EpisodeSummary \<Rightarrow> ('st, EpisodeSummary) meth"

record 'st RollbackStore =
  DeleteChatLogs :: "string \<Rightarrow> go_int \<Rightarrow> ('st, unit) meth"
  DeleteEffectiveInputs :: "string \<Rightarrow> go_int \<Rightarrow> ('st, unit) meth"
  DeleteMemories :: "string \<Rightarrow> go_int \<Rightarrow> ('st, unit) meth"
  DeleteEvidence :: "string \<Rightarrow> go_int \<Rightarrow> ('st, unit) meth"
  DeleteKGTriples :: "string \<Rightarrow> go_int \<Rightarrow> ('st, unit) meth"
  DeleteCriticFeedback :: "string \<Rightarrow> go_int \<Rightarrow> ('st, unit) meth"
  DeleteCharacterEvents :: "string \<Rightarrow> go_int \<Rightarrow> ('st, unit) meth"
  DeleteEntities :: "string \<Rightarrow> go_int \<Rightarrow> ('st, unit) meth"
  DeleteTrustStates :: "string \<Rightarrow> go_int \<Rightarrow> ('st, unit) meth"
  DeleteStorylines :: "string \<Rightarrow> go_int \<Rightarrow> ('st, unit) meth"
  DeleteWorldRules :: "string \<Rightarrow> go_int \<Rightarrow> ('st, unit) meth"
  DeleteCharacterStates :: "string \<Rightarrow> go_int \<Rightarrow> ('st, unit) meth"
  DeletePendingThreads :: "string \<Rightarrow> go_int \<Rightarrow> ('st, unit) meth"
  DeleteActiveStates :: "string \<Rightarrow> go_int \<Rightarrow> ('st, unit) meth"
  DeleteCanonicalStateLayers :: "string \<Rightarrow> go_int \<Rightarrow> ('st, unit) meth"
  DeleteEpisodeSummaries :: "string \<Rightarrow> go_int \<Rightarrow> ('st, unit) meth"
  DeleteGuidancePlanState :: "string \<Rightarrow> go_int \<Rightarrow> ('st, unit) meth"
  DeleteChapterSummaries :: "string \<Rightarrow> go_int \<Rightarrow> ('st, unit) meth"
  DeleteArcSummaries :: "string \<Rightarrow> go_int \<Rightarrow> ('st, unit) meth"
  DeleteSagaDigests :: "string \<Rightarrow> go_int \<Rightarrow> ('st, unit) meth"
  DeleteSessionActiveScopes :: "string \<Rightarrow> go_int \<Rightarrow> ('st, unit) meth"
  DeleteProtagonistEntityMemories :: "string \<Rightarrow> go_int \<Rightarrow> ('st, unit) meth"
  DeleteConsequenceRecords :: "string \<Rightarrow> go_int \<Rightarrow> ('st, unit) meth"
  DeletePsychologyBranches :: "string \<Rightarrow> go_int \<Rightarrow> ('st, unit) meth"
  DeleteThemeOffscreenCarries :: "string \<Rightarrow> go_int \<Rightarrow> ('st, unit) meth"
  DeleteCaptureVerificationRecords :: "string \<Rightarrow> go_int \<Rightarrow> ('st, unit) meth"
  DeleteStatusCurrentValues :: "string \<Rightarrow> go_int \<Rightarrow> ('st, unit) meth"
  DeleteStatusChangeEvents :: "string \<Rightarrow> go_int \<Rightarrow> ('st, unit) meth"
  DeleteStatusEffects :: "string \<Rightarrow> go_int \<Rightarrow> ('st, unit) meth"
  DeleteSession :: "string \<Rightarrow> ('st, unit) meth"

record 'st Pinger =
  Ping :: "('st, unit) meth"

subsection \<open>The store\<close>

record 'st Store =
  SaveChatLog :: "ChatLog \<Rightarrow> ('st, ChatLog) meth"
  ListChatLogs :: "string \<Rightarrow> go_int \<Rightarrow> go_int \<Rightarrow> ('st, (ChatLog list)) meth"
  SaveEffectiveInput :: "EffectiveInput \<Rightarrow> ('st, EffectiveInput) meth"
  GetEffectiveInput :: "string \<Rightarrow> go_int \<Rightarrow> ('st, (EffectiveInput option)) meth"
  SaveMemory :: "Memory \<Rightarrow> ('st, Memory) meth"
  ListMemories :: "string \<Rightarrow> go_int \<Rightarrow> go_int \<Rightarrow> ('st, (Memory list)) meth"
  SaveEvidence :: "DirectEvidence \<Rightarrow> ('st, DirectEvidence) meth"
  ListEvidence :: "string \<Rightarrow> ('st, (DirectEvidence list)) meth"
  SaveKGTriple :: "KGTriple \<Rightarrow> ('st, KGTriple) meth"
  ListKGTriples :: "string \<Rightarrow> ('st, (KGTriple list)) meth"
  SaveAuditLog :: "AuditLog \<Rightarrow> ('st, AuditLog) meth"
  ListAuditLogs :: "string \<Rightarrow> string \<Rightarrow> go_int \<Rightarrow> ('st, (AuditLog list)) meth"
  SaveCriticFeedback :: "CriticFeedback \<Rightarrow> ('st, CriticFeedback) meth"
  ListCriticFeedback :: "string \<Rightarrow> string \<Rightarrow> go_int \<Rightarrow> ('st, (CriticFeedback list)) meth"
  SaveCharacterEvent :: "CharacterEvent \<Rightarrow> ('st, CharacterEvent) meth"
  ListCharacterEvents :: "string \<Rightarrow> string \<Rightarrow> ('st, (CharacterEvent list)) meth"
  Stats :: "('st, StatsResult) meth"
  ListSessions :: "('st, (SessionSummary list)) meth"
  GetResumePack :: "string \<Rightarrow> string \<Rightarrow> ('st, (ResumePack option)) meth"
  ListStorylines :: "string \<Rightarrow> ('st, (Storyline list)) meth"
  ListWorldRules :: "string \<Rightarrow> ('st, (WorldRule list)) meth"
  ListInheritedWorldRules :: "string \<Rightarrow> string \<Rightarrow> string \<Rightarrow> ('st, (WorldRule list)) meth"
  ListCharacterStates :: "string \<Rightarrow> ('st, (CharacterState list)) meth"
  GetCharacterState :: "string \<Rightarrow> string \<Rightarrow> ('st, (CharacterState option)) meth"
  ListPendingThreads :: "string \<Rightarrow> string \<Rightarrow> ('st, (PendingThread list)) meth"
  ListActiveStates :: "string \<Rightarrow> string \<Rightarrow> ('st, (ActiveState list)) meth"
  ListCanonicalStateLayers :: "string \<Rightarrow> string \<Rightarrow> ('st, (CanonicalStateLayer list)) meth"
  ListEpisodeSummaries :: "string \<Rightarrow> go_int \<Rightarrow> go_int \<Rightarrow> go_int \<Rightarrow> ('st, (EpisodeSummary list)) meth"
  GetEpisodeSummary :: "go_int \<Rightarrow> ('st, (EpisodeSummary option)) meth"
  as_LogicalTurnReplacementStore :: "'st LogicalTurnReplacementStore option"
  as_PrepareTurnRangeStore :: "'st PrepareTurnRangeStore option"
  as_TimelineTurnIndexStore :: "'st TimelineTurnIndexStore option"
  as_SessionStateSnapshotReader :: "'st SessionStateSnapshotReader option"
  as_ExplorerMutationStore :: "'st ExplorerMutationStore option"
  as_AuditLogCounter :: "'st AuditLogCounter option"
  as_EntityIdentityLinkWriter :: "'st EntityIdentityLinkWriter option"
  as_EntityIdentityWriter :: "'st EntityIdentityWriter option"
  as_ReviewedEntityIdentityResolver :: "'st ReviewedEntityIdentityResolver option"
  as_EntityIdentityCatalogReader :: "'st EntityIdentityCatalogReader option"
  as_UniqueActiveEntitySurfaceResolver :: "'st UniqueActiveEntitySurfaceResolver option"
  as_UniqueActiveEntitySurfaceIdentityResolver :: "'st UniqueActiveEntitySurfaceIdentityResolver option"
  as_CharacterPerspectiveMemoryReader :: "'st CharacterPerspectiveMemoryReader option"
  as_ActiveInteractionMemoryReader :: "'st ActiveInteractionMemoryReader option"
  as_GeneralVectorPreciseMemoryReader :: "'st GeneralVectorPreciseMemoryReader option"
  as_PreciseMemoryWriter :: "'st PreciseMemoryWriter option"
  as_PreciseMemoryWriteAvailability :: "'st PreciseMemoryWriteAvailability option"
  as_MemoryAdmissionWriter :: "'st MemoryAdmissionWriter option"
  as_MemoryAdmissionWriteAvailability :: "'st MemoryAdmissionWriteAvailability option"
  as_SourceRevisionStore :: "'st SourceRevisionStore option"
  as_MemoryDerivationLifecycleAvailability :: "'st MemoryDerivationLifecycleAvailability option"
  as_CriticInputSnapshotStore :: "'st CriticInputSnapshotStore option"
  as_ActiveSourceRevisionLister :: "'st ActiveSourceRevisionLister option"
  as_SourceRevisionHistoryLister :: "'st SourceRevisionHistoryLister option"
  as_MemoryReprocessingJobStore :: "'st MemoryReprocessingJobStore option"
  as_MemoryReprocessingWakeScheduleStore :: "'st MemoryReprocessingWakeScheduleStore option"
  as_MemoryVectorOutboxStore :: "'st MemoryVectorOutboxStore option"
  as_MemoryVectorOutboxLaneStore :: "'st MemoryVectorOutboxLaneStore option"
  as_MemoryVectorMaterializedCompletionStore :: "'st MemoryVectorMaterializedCompletionStore option"
  as_MemoryVectorOutboxMaintenanceStore :: "'st MemoryVectorOutboxMaintenanceStore option"
  as_CharacterStateHistoryStore :: "'st CharacterStateHistoryStore option"
  as_CharacterProvenanceRepairStore :: "'st CharacterProvenanceRepairStore option"
  as_GuidancePlanStateStore :: "'st GuidancePlanStateStore option"
  as_ConsequenceRecordStore :: "'st ConsequenceRecordStore option"
  as_PsychologyBranchStore :: "'st PsychologyBranchStore option"
  as_ForkLineageStore :: "'st ForkLineageStore option"
  as_WorldlineTopologySnapshotStore :: "'st WorldlineTopologySnapshotStore option"
  as_ThemeOffscreenCarryStore :: "'st ThemeOffscreenCarryStore option"
  as_CaptureVerificationStore :: "'st CaptureVerificationStore option"
  as_StatusSchemaProposalStore :: "'st StatusSchemaProposalStore option"
  as_StatusSchemaRegistryStore :: "'st StatusSchemaRegistryStore option"
  as_StatusCurrentValueStore :: "'st StatusCurrentValueStore option"
  as_StatusLifecycleStore :: "'st StatusLifecycleStore option"
  as_StatusChangeEventSourceLookupStore :: "'st StatusChangeEventSourceLookupStore option"
  as_ReversibleStatusTransitionStore :: "'st ReversibleStatusTransitionStore option"
  as_StateRepairArtifactReader :: "'st StateRepairArtifactReader option"
  as_EpisodeSummaryStore :: "'st EpisodeSummaryStore option"
  as_RollbackStore :: "'st RollbackStore option"
  as_Pinger :: "'st Pinger option"
  as_UpdateMemoryImportance :: "(string \<Rightarrow> go_int \<Rightarrow> float64 \<Rightarrow> ('st, unit) meth) option"
  as_SaveEntity :: "(Entity \<Rightarrow> ('st, Entity) meth) option"
  as_SaveTrust :: "(Trust \<Rightarrow> ('st, Trust) meth) option"
  as_SaveStoryline :: "(Storyline \<Rightarrow> ('st, Storyline) meth) option"
  as_PatchStoryline :: "(go_int \<Rightarrow> (string \<times> json) list \<Rightarrow> ('st, (string list)) meth) option"
  as_PatchStorylineTrust :: "(go_int \<Rightarrow> (string \<times> json) list \<Rightarrow> ('st, (string list)) meth) option"
  as_DeleteStoryline :: "(go_int \<Rightarrow> ('st, unit) meth) option"
  as_SaveWorldRule :: "(WorldRule \<Rightarrow> ('st, WorldRule) meth) option"
  as_SaveCharacterState :: "(CharacterState \<Rightarrow> ('st, CharacterState) meth) option"
  as_SavePendingThread :: "(PendingThread \<Rightarrow> ('st, PendingThread) meth) option"
  as_PatchPendingThread :: "(go_int \<Rightarrow> (string \<times> json) list \<Rightarrow> ('st, (string list)) meth) option"
  as_PatchPendingThreadTrust :: "(go_int \<Rightarrow> (string \<times> json) list \<Rightarrow> ('st, (string list)) meth) option"
  as_DeletePendingThread :: "(go_int \<Rightarrow> ('st, unit) meth) option"
  as_SaveActiveState :: "(ActiveState \<Rightarrow> ('st, ActiveState) meth) option"
  as_SaveCanonicalStateLayer :: "(CanonicalStateLayer \<Rightarrow> ('st, CanonicalStateLayer) meth) option"
  as_DeleteEpisodeSummary :: "(go_int \<Rightarrow> ('st, unit) meth) option"
  as_DeleteEpisodeSummariesInRange :: "(string \<Rightarrow> go_int \<Rightarrow> go_int \<Rightarrow> ('st, go_int) meth) option"
  as_Close :: "(('st, unit) meth) option"

end
