(* ===== verification/Noop_Store.thy ===== *)
theory Noop_Store
  imports Store_Api
begin

text \<open>
  The store that does nothing, \<open>noopStore\<close> of \<open>go-service/internal/store/noop.go\<close>: one record per
  optional interface it has, then the store. It keeps no state, so it is a store over any state.
\<close>

definition noop_ConsequenceRecordStore :: "'st ConsequenceRecordStore" where
  "noop_ConsequenceRecordStore = \<lparr>
     ListConsequenceRecords = (\<lambda>_ _. returns []),
     SaveConsequenceRecord = (\<lambda>row. returns row),
     UpdateConsequenceRecordStatus = (\<lambda>_ _ _. returns ())\<rparr>"

definition noop_PsychologyBranchStore :: "'st PsychologyBranchStore" where
  "noop_PsychologyBranchStore = \<lparr>
     ListPsychologyBranches = (\<lambda>_ _. returns []),
     SavePsychologyBranch = (\<lambda>row. returns row),
     UpdatePsychologyBranchStatus = (\<lambda>_ _ _. returns ())\<rparr>"

definition noop_ForkLineageStore :: "'st ForkLineageStore" where
  "noop_ForkLineageStore = \<lparr>
     ListForkLineageRecords = (\<lambda>_ _ _. returns []),
     SaveForkLineageRecord = (\<lambda>row. returns row)\<rparr>"

definition noop_ThemeOffscreenCarryStore :: "'st ThemeOffscreenCarryStore" where
  "noop_ThemeOffscreenCarryStore = \<lparr>
     ListThemeOffscreenCarries = (\<lambda>_ _ _. returns []),
     SaveThemeOffscreenCarry = (\<lambda>row. returns row),
     UpdateThemeOffscreenCarryStatus = (\<lambda>_ _ _. returns ())\<rparr>"

definition noop_CaptureVerificationStore :: "'st CaptureVerificationStore" where
  "noop_CaptureVerificationStore = \<lparr>
     ListCaptureVerifications = (\<lambda>_ _. returns []),
     SaveCaptureVerification = (\<lambda>row. returns row),
     UpdateCaptureVerificationRepair = (\<lambda>_ _ _ _ _ _. returns ())\<rparr>"

definition noop_StatusSchemaProposalStore :: "'st StatusSchemaProposalStore" where
  "noop_StatusSchemaProposalStore = \<lparr>
     GetStatusSchemaProposal = (\<lambda>_. raises ErrNotFound zero_StatusSchemaProposal),
     ListStatusSchemaProposals = (\<lambda>_ _ _. returns []),
     SaveStatusSchemaProposal = (\<lambda>row. returns row),
     UpdateStatusSchemaProposalReview = (\<lambda>_ _ _ _. returns ())\<rparr>"

definition noop_StatusSchemaRegistryStore :: "'st StatusSchemaRegistryStore" where
  "noop_StatusSchemaRegistryStore = \<lparr>
     GetStatusSchemaDefinitionByKey = (\<lambda>_ _ _. raises ErrNotFound zero_StatusSchemaDefinition),
     ListStatusSchemaDefinitions = (\<lambda>_ _ _. returns []),
     SaveStatusSchemaDefinitions = (\<lambda>rows. returns rows)\<rparr>"

definition noop_StatusCurrentValueStore :: "'st StatusCurrentValueStore" where
  "noop_StatusCurrentValueStore = \<lparr>
     ListStatusCurrentValues = (\<lambda>_ _ _ _ _. returns []),
     SaveStatusCurrentValue = (\<lambda>row. returns row)\<rparr>"

definition noop_StatusLifecycleStore :: "'st StatusLifecycleStore" where
  "noop_StatusLifecycleStore = \<lparr>
     ListStatusChangeEvents = (\<lambda>_ _ _ _ _. returns []),
     SaveStatusChangeEvent = (\<lambda>row. returns row),
     ListStatusEffects = (\<lambda>_ _ _ _ _. returns []),
     SaveStatusEffect = (\<lambda>row. returns row),
     UpdateStatusEffectState = (\<lambda>_ _ _ _. returns ())\<rparr>"

definition noop_RollbackStore :: "'st RollbackStore" where
  "noop_RollbackStore = \<lparr>
     DeleteChatLogs = (\<lambda>_ _. returns ()),
     DeleteEffectiveInputs = (\<lambda>_ _. returns ()),
     DeleteMemories = (\<lambda>_ _. returns ()),
     DeleteEvidence = (\<lambda>_ _. returns ()),
     DeleteKGTriples = (\<lambda>_ _. returns ()),
     DeleteCriticFeedback = (\<lambda>_ _. returns ()),
     DeleteCharacterEvents = (\<lambda>_ _. returns ()),
     DeleteEntities = (\<lambda>_ _. returns ()),
     DeleteTrustStates = (\<lambda>_ _. returns ()),
     DeleteStorylines = (\<lambda>_ _. returns ()),
     DeleteWorldRules = (\<lambda>_ _. returns ()),
     DeleteCharacterStates = (\<lambda>_ _. returns ()),
     DeletePendingThreads = (\<lambda>_ _. returns ()),
     DeleteActiveStates = (\<lambda>_ _. returns ()),
     DeleteCanonicalStateLayers = (\<lambda>_ _. returns ()),
     DeleteEpisodeSummaries = (\<lambda>_ _. returns ()),
     DeleteGuidancePlanState = (\<lambda>_ _. returns ()),
     DeleteChapterSummaries = (\<lambda>_ _. returns ()),
     DeleteArcSummaries = (\<lambda>_ _. returns ()),
     DeleteSagaDigests = (\<lambda>_ _. returns ()),
     DeleteSessionActiveScopes = (\<lambda>_ _. returns ()),
     DeleteProtagonistEntityMemories = (\<lambda>_ _. returns ()),
     DeleteConsequenceRecords = (\<lambda>_ _. returns ()),
     DeletePsychologyBranches = (\<lambda>_ _. returns ()),
     DeleteThemeOffscreenCarries = (\<lambda>_ _. returns ()),
     DeleteCaptureVerificationRecords = (\<lambda>_ _. returns ()),
     DeleteStatusCurrentValues = (\<lambda>_ _. returns ()),
     DeleteStatusChangeEvents = (\<lambda>_ _. returns ()),
     DeleteStatusEffects = (\<lambda>_ _. returns ()),
     DeleteSession = (\<lambda>_. returns ())\<rparr>"

definition NewNoopStore :: "'st Store" where
  "NewNoopStore = \<lparr>
     SaveChatLog = (\<lambda>entry. returns entry),
     ListChatLogs = (\<lambda>_ _ _. returns []),
     SaveEffectiveInput = (\<lambda>inp. returns inp),
     GetEffectiveInput = (\<lambda>_ _. raises ErrNotFound None),
     SaveMemory = (\<lambda>m. returns m),
     ListMemories = (\<lambda>_ _ _. returns []),
     SaveEvidence = (\<lambda>e. returns e),
     ListEvidence = (\<lambda>_. returns []),
     SaveKGTriple = (\<lambda>t. returns t),
     ListKGTriples = (\<lambda>_. returns []),
     SaveAuditLog = (\<lambda>a. returns a),
     ListAuditLogs = (\<lambda>_ _ _. returns []),
     SaveCriticFeedback = (\<lambda>f. returns f),
     ListCriticFeedback = (\<lambda>_ _ _. returns []),
     SaveCharacterEvent = (\<lambda>e. returns e),
     ListCharacterEvents = (\<lambda>_ _. returns []),
     Stats = returns zero_StatsResult,
     ListSessions = returns [],
     GetResumePack = (\<lambda>_ _. returns None),
     ListStorylines = (\<lambda>_. returns []),
     ListWorldRules = (\<lambda>_. returns []),
     ListInheritedWorldRules = (\<lambda>_ _ _. returns []),
     ListCharacterStates = (\<lambda>_. returns []),
     GetCharacterState = (\<lambda>_ _. raises ErrNotFound None),
     ListPendingThreads = (\<lambda>_ _. returns []),
     ListActiveStates = (\<lambda>_ _. returns []),
     ListCanonicalStateLayers = (\<lambda>_ _. returns []),
     ListEpisodeSummaries = (\<lambda>_ _ _ _. returns []),
     GetEpisodeSummary = (\<lambda>_. raises ErrNotFound None),
     as_LogicalTurnReplacementStore = None,
     as_PrepareTurnRangeStore = None,
     as_TimelineTurnIndexStore = None,
     as_SessionStateSnapshotReader = None,
     as_ExplorerMutationStore = None,
     as_AuditLogCounter = None,
     as_EntityIdentityLinkWriter = None,
     as_EntityIdentityWriter = None,
     as_ReviewedEntityIdentityResolver = None,
     as_EntityIdentityCatalogReader = None,
     as_UniqueActiveEntitySurfaceResolver = None,
     as_UniqueActiveEntitySurfaceIdentityResolver = None,
     as_CharacterPerspectiveMemoryReader = None,
     as_ActiveInteractionMemoryReader = None,
     as_GeneralVectorPreciseMemoryReader = None,
     as_PreciseMemoryWriter = None,
     as_PreciseMemoryWriteAvailability = None,
     as_MemoryAdmissionWriter = None,
     as_MemoryAdmissionWriteAvailability = None,
     as_SourceRevisionStore = None,
     as_MemoryDerivationLifecycleAvailability = None,
     as_CriticInputSnapshotStore = None,
     as_ActiveSourceRevisionLister = None,
     as_SourceRevisionHistoryLister = None,
     as_MemoryReprocessingJobStore = None,
     as_MemoryReprocessingWakeScheduleStore = None,
     as_MemoryVectorOutboxStore = None,
     as_MemoryVectorOutboxLaneStore = None,
     as_MemoryVectorMaterializedCompletionStore = None,
     as_MemoryVectorOutboxMaintenanceStore = None,
     as_CharacterStateHistoryStore = None,
     as_CharacterProvenanceRepairStore = None,
     as_GuidancePlanStateStore = None,
     as_ConsequenceRecordStore = Some noop_ConsequenceRecordStore,
     as_PsychologyBranchStore = Some noop_PsychologyBranchStore,
     as_ForkLineageStore = Some noop_ForkLineageStore,
     as_WorldlineTopologySnapshotStore = None,
     as_ThemeOffscreenCarryStore = Some noop_ThemeOffscreenCarryStore,
     as_CaptureVerificationStore = Some noop_CaptureVerificationStore,
     as_StatusSchemaProposalStore = Some noop_StatusSchemaProposalStore,
     as_StatusSchemaRegistryStore = Some noop_StatusSchemaRegistryStore,
     as_StatusCurrentValueStore = Some noop_StatusCurrentValueStore,
     as_StatusLifecycleStore = Some noop_StatusLifecycleStore,
     as_StatusChangeEventSourceLookupStore = None,
     as_ReversibleStatusTransitionStore = None,
     as_StateRepairArtifactReader = None,
     as_EpisodeSummaryStore = None,
     as_RollbackStore = Some noop_RollbackStore,
     as_Pinger = None,
     as_UpdateMemoryImportance = None,
     as_SaveEntity = Some (\<lambda>e. returns e),
     as_SaveTrust = Some (\<lambda>t. returns t),
     as_SaveStoryline = Some (\<lambda>s. returns s),
     as_PatchStoryline = None,
     as_PatchStorylineTrust = None,
     as_DeleteStoryline = None,
     as_SaveWorldRule = Some (\<lambda>w. returns w),
     as_SaveCharacterState = Some (\<lambda>c. returns c),
     as_SavePendingThread = Some (\<lambda>p. returns p),
     as_PatchPendingThread = None,
     as_PatchPendingThreadTrust = None,
     as_DeletePendingThread = None,
     as_SaveActiveState = Some (\<lambda>a. returns a),
     as_SaveCanonicalStateLayer = Some (\<lambda>item. returns item),
     as_DeleteEpisodeSummary = None,
     as_DeleteEpisodeSummariesInRange = None,
     as_Close = None\<rparr>"

end
