(* ===== verification/Dual_Store.thy ===== *)
theory Dual_Store
  imports Dual_Write Noop_Store
begin

text \<open>
  The methods of \<open>dualWriteStore\<close> (\<open>go-service/internal/store/dualwrite.go\<close>), in the order of
  the file, each an instance of a shape of \<open>Dual_Write\<close>: \<open>P\<close> is the primary store, \<open>S\<close> the
  shadow. The 30 rollback methods, which differ in the label only, are given with the interface
  \<open>RollbackStore\<close>.
\<close>

subsection \<open>Availability of the writers\<close>

definition preciseMemoryWriterForStore :: "'st Store \<Rightarrow> 'st \<Rightarrow> 'st PreciseMemoryWriter option" where
  "preciseMemoryWriterForStore st q = (case as_PreciseMemoryWriter st of
     None \<Rightarrow> None
   | Some writer \<Rightarrow> (case as_PreciseMemoryWriteAvailability st of
       Some a \<Rightarrow> if \<not> PreciseMemoryWritesEnabled a q then None else Some writer
     | None \<Rightarrow> Some writer))"

definition memoryAdmissionWriterForStore ::
  "'st Store \<Rightarrow> 'st \<Rightarrow> 'st MemoryAdmissionWriter option" where
  "memoryAdmissionWriterForStore st q = (case as_MemoryAdmissionWriter st of
     None \<Rightarrow> None
   | Some writer \<Rightarrow> (case as_MemoryAdmissionWriteAvailability st of
       Some a \<Rightarrow> if \<not> MemoryAdmissionWritesEnabled a q then None else Some writer
     | None \<Rightarrow> Some writer))"

definition memoryLifecycleSourceStore :: "'st Store \<Rightarrow> 'st \<Rightarrow> 'st SourceRevisionStore option" where
  "memoryLifecycleSourceStore st q = (case as_SourceRevisionStore st of
     None \<Rightarrow> None
   | Some writer \<Rightarrow> (case as_MemoryDerivationLifecycleAvailability st of
       Some a \<Rightarrow> if \<not> MemoryDerivationLifecycleEnabled a q then None else Some writer
     | None \<Rightarrow> Some writer))"

definition writeEntityIdentityExtension ::
  "'p Store \<Rightarrow> 's Store \<Rightarrow> ('p EntityIdentityWriter \<Rightarrow> 'x \<Rightarrow> ('p, 'x) meth)
    \<Rightarrow> ('s EntityIdentityWriter \<Rightarrow> 'x \<Rightarrow> ('s, 'x) meth) \<Rightarrow> 'x \<Rightarrow> (('p, 's) dual, 'x) meth" where
  "writeEntityIdentityExtension P S write write' =
     write_either False
       (map_option write (as_EntityIdentityWriter P))
       (map_option write' (as_EntityIdentityWriter S))"

text \<open>
  The closure \<open>enqueue\<close> is called with each store; here it is given once for either. The gate
  is the source-revision lifecycle, not the interface that the closure asks for.
\<close>

definition dualEnqueueMemoryWork ::
  "'p Store \<Rightarrow> 's Store \<Rightarrow> ('x \<Rightarrow> ('p, bool \<times> 'x) meth) \<Rightarrow> ('x \<Rightarrow> ('s, bool \<times> 'x) meth)
    \<Rightarrow> 'x \<Rightarrow> (('p, 's) dual, bool \<times> 'x) meth" where
  "dualEnqueueMemoryWork P S enqueue enqueue' x d =
     gated_write False
       (map_option (\<lambda>_. enqueue) (memoryLifecycleSourceStore P (dual_primary d)))
       (map_option (\<lambda>_. enqueue') (memoryLifecycleSourceStore S (dual_shadow d))) x d"

subsection \<open>Methods\<close>

definition dual_SaveChatLog ::
  "'p Store \<Rightarrow> 's Store \<Rightarrow> ChatLog \<Rightarrow> (('p, 's) dual, ChatLog) meth" where
  "dual_SaveChatLog P S entry =
     write_both (SaveChatLog P) (SaveChatLog S) entry"

definition dual_ReplaceLogicalTurn ::
  "'p Store \<Rightarrow> 's Store \<Rightarrow> LogicalTurnReplacement \<Rightarrow> (('p, 's) dual, LogicalTurnReplacement) meth"
           where
  "dual_ReplaceLogicalTurn P S replacement =
     write_either True
       (map_option ReplaceLogicalTurn (as_LogicalTurnReplacementStore P))
       (map_option ReplaceLogicalTurn (as_LogicalTurnReplacementStore S)) replacement"

definition dual_RollbackCanonicalTail ::
  "'p Store \<Rightarrow> 's Store \<Rightarrow> LogicalTurnRollback \<Rightarrow> (('p, 's) dual, unit) meth" where
  "dual_RollbackCanonicalTail P S rollback =
     write_either True
       (map_option (\<lambda>w _. RollbackCanonicalTail w rollback) (as_LogicalTurnReplacementStore P))
       (map_option (\<lambda>w _. RollbackCanonicalTail w rollback) (as_LogicalTurnReplacementStore S)) ()"

definition dual_ListChatLogs ::
  "'p Store \<Rightarrow> 's Store \<Rightarrow> string \<Rightarrow> go_int \<Rightarrow> go_int \<Rightarrow> (('p, 's) dual, (ChatLog list)) meth" where
  "dual_ListChatLogs P S chatSessionID fromTurn toTurn =
     on_primary (ListChatLogs P chatSessionID fromTurn toTurn)"

definition dual_LatestSessionTurnIndex ::
  "'p Store \<Rightarrow> 's Store \<Rightarrow> string \<Rightarrow> (('p, 's) dual, go_int) meth" where
  "dual_LatestSessionTurnIndex P S chatSessionID =
     read_required 0 (map_option (\<lambda>w. LatestSessionTurnIndex w chatSessionID)
           (as_PrepareTurnRangeStore P))"

definition dual_LatestTimelineTurnIndex ::
  "'p Store \<Rightarrow> 's Store \<Rightarrow> string \<Rightarrow> (('p, 's) dual, go_int) meth" where
  "dual_LatestTimelineTurnIndex P S chatSessionID =
     read_required 0 (map_option (\<lambda>w. LatestTimelineTurnIndex w chatSessionID)
           (as_TimelineTurnIndexStore P))"

definition dual_ListMemoriesRange ::
  "'p Store \<Rightarrow> 's Store \<Rightarrow> string \<Rightarrow> go_int \<Rightarrow> go_int \<Rightarrow> (go_int list) \<Rightarrow> (('p, 's) dual, (Memory list))
           meth" where
  "dual_ListMemoriesRange P S chatSessionID fromTurn toTurn includeIDs =
     read_required [] (map_option (\<lambda>w. ListMemoriesRange w chatSessionID fromTurn toTurn
           includeIDs) (as_PrepareTurnRangeStore P))"

definition dual_ListEvidenceRange ::
  "'p Store \<Rightarrow> 's Store \<Rightarrow> string \<Rightarrow> go_int \<Rightarrow> go_int \<Rightarrow> (go_int list) \<Rightarrow> (('p, 's) dual,
           (DirectEvidence list)) meth" where
  "dual_ListEvidenceRange P S chatSessionID fromTurn toTurn includeIDs =
     read_required [] (map_option (\<lambda>w. ListEvidenceRange w chatSessionID fromTurn toTurn
           includeIDs) (as_PrepareTurnRangeStore P))"

definition dual_ListKGTriplesRange ::
  "'p Store \<Rightarrow> 's Store \<Rightarrow> string \<Rightarrow> go_int \<Rightarrow> go_int \<Rightarrow> (('p, 's) dual, (KGTriple list)) meth" where
  "dual_ListKGTriplesRange P S chatSessionID fromTurn toTurn =
     read_required [] (map_option (\<lambda>w. ListKGTriplesRange w chatSessionID fromTurn toTurn)
           (as_PrepareTurnRangeStore P))"

definition dual_ListCharacterStatesCurrentBefore ::
  "'p Store \<Rightarrow> 's Store \<Rightarrow> string \<Rightarrow> go_int \<Rightarrow> (('p, 's) dual, (CharacterState list)) meth" where
  "dual_ListCharacterStatesCurrentBefore P S chatSessionID beforeTurn =
     read_required [] (map_option (\<lambda>w. ListCharacterStatesCurrentBefore w chatSessionID
           beforeTurn) (as_PrepareTurnRangeStore P))"

definition dual_ListActiveStatesRange ::
  "'p Store \<Rightarrow> 's Store \<Rightarrow> string \<Rightarrow> go_int \<Rightarrow> go_int \<Rightarrow> (('p, 's) dual, (ActiveState list)) meth" where
  "dual_ListActiveStatesRange P S chatSessionID fromTurn toTurn =
     read_required [] (map_option (\<lambda>w. ListActiveStatesRange w chatSessionID fromTurn toTurn)
           (as_PrepareTurnRangeStore P))"

definition dual_ListCanonicalStateLayersRange ::
  "'p Store \<Rightarrow> 's Store \<Rightarrow> string \<Rightarrow> go_int \<Rightarrow> go_int \<Rightarrow> (('p, 's) dual, (CanonicalStateLayer list))
           meth" where
  "dual_ListCanonicalStateLayersRange P S chatSessionID fromTurn toTurn =
     read_required [] (map_option (\<lambda>w. ListCanonicalStateLayersRange w chatSessionID fromTurn
           toTurn) (as_PrepareTurnRangeStore P))"

definition dual_ReadSessionStateSnapshot ::
  "'p Store \<Rightarrow> 's Store \<Rightarrow> string \<Rightarrow> (('p, 's) dual, (SessionStateSnapshot option)) meth" where
  "dual_ReadSessionStateSnapshot P S chatSessionID =
     read_required None (map_option (\<lambda>w. ReadSessionStateSnapshot w chatSessionID)
           (as_SessionStateSnapshotReader P))"

definition dual_SaveEffectiveInput ::
  "'p Store \<Rightarrow> 's Store \<Rightarrow> EffectiveInput \<Rightarrow> (('p, 's) dual, EffectiveInput) meth" where
  "dual_SaveEffectiveInput P S inp =
     write_both (SaveEffectiveInput P) (SaveEffectiveInput S) inp"

definition dual_GetEffectiveInput ::
  "'p Store \<Rightarrow> 's Store \<Rightarrow> string \<Rightarrow> go_int \<Rightarrow> (('p, 's) dual, (EffectiveInput option)) meth" where
  "dual_GetEffectiveInput P S chatSessionID turnIndex =
     on_primary (GetEffectiveInput P chatSessionID turnIndex)"

definition dual_SaveMemory ::
  "'p Store \<Rightarrow> 's Store \<Rightarrow> Memory \<Rightarrow> (('p, 's) dual, Memory) meth" where
  "dual_SaveMemory P S m =
     write_both (SaveMemory P) (SaveMemory S) m"

definition dual_ListMemories ::
  "'p Store \<Rightarrow> 's Store \<Rightarrow> string \<Rightarrow> go_int \<Rightarrow> go_int \<Rightarrow> (('p, 's) dual, (Memory list)) meth" where
  "dual_ListMemories P S chatSessionID fromTurn toTurn =
     on_primary (ListMemories P chatSessionID fromTurn toTurn)"

definition dual_UpdateMemoryImportance ::
  "'p Store \<Rightarrow> 's Store \<Rightarrow> string \<Rightarrow> go_int \<Rightarrow> float64 \<Rightarrow> (('p, 's) dual, unit) meth" where
  "dual_UpdateMemoryImportance P S chatSessionID memoryID importance =
     write_required
       (map_option (\<lambda>w _. w chatSessionID memoryID importance) (as_UpdateMemoryImportance P))
       (map_option (\<lambda>w _. w chatSessionID memoryID importance) (as_UpdateMemoryImportance S)) ()"

definition dual_UpdateMemoryExplorerFields ::
  "'p Store \<Rightarrow> 's Store \<Rightarrow> string \<Rightarrow> go_int \<Rightarrow> MemoryExplorerPatch \<Rightarrow> (('p, 's) dual, unit) meth" where
  "dual_UpdateMemoryExplorerFields P S chatSessionID memoryID patch =
     write_required
       (map_option (\<lambda>w _. UpdateMemoryExplorerFields w chatSessionID memoryID patch)
           (as_ExplorerMutationStore P))
       (map_option (\<lambda>w _. UpdateMemoryExplorerFields w chatSessionID memoryID patch)
           (as_ExplorerMutationStore S)) ()"

definition dual_UpdateKGTripleExplorerFields ::
  "'p Store \<Rightarrow> 's Store \<Rightarrow> string \<Rightarrow> go_int \<Rightarrow> KGTripleExplorerPatch \<Rightarrow> (('p, 's) dual, unit) meth"
           where
  "dual_UpdateKGTripleExplorerFields P S chatSessionID tripleID patch =
     write_required
       (map_option (\<lambda>w _. UpdateKGTripleExplorerFields w chatSessionID tripleID patch)
           (as_ExplorerMutationStore P))
       (map_option (\<lambda>w _. UpdateKGTripleExplorerFields w chatSessionID tripleID patch)
           (as_ExplorerMutationStore S)) ()"

definition dual_UpdateDirectEvidenceExplorerFields ::
  "'p Store \<Rightarrow> 's Store \<Rightarrow> string \<Rightarrow> go_int \<Rightarrow> DirectEvidenceExplorerPatch \<Rightarrow> (('p, 's) dual, unit)
           meth" where
  "dual_UpdateDirectEvidenceExplorerFields P S chatSessionID recordID patch =
     write_required
       (map_option (\<lambda>w _. UpdateDirectEvidenceExplorerFields w chatSessionID recordID patch)
           (as_ExplorerMutationStore P))
       (map_option (\<lambda>w _. UpdateDirectEvidenceExplorerFields w chatSessionID recordID patch)
           (as_ExplorerMutationStore S)) ()"

definition dual_DeleteMemoryByID ::
  "'p Store \<Rightarrow> 's Store \<Rightarrow> string \<Rightarrow> go_int \<Rightarrow> (('p, 's) dual, unit) meth" where
  "dual_DeleteMemoryByID P S chatSessionID memoryID =
     write_required
       (map_option (\<lambda>w _. DeleteMemoryByID w chatSessionID memoryID) (as_ExplorerMutationStore P))
       (map_option (\<lambda>w _. DeleteMemoryByID w chatSessionID memoryID) (as_ExplorerMutationStore S))
           ()"

definition dual_DeleteDirectEvidenceByID ::
  "'p Store \<Rightarrow> 's Store \<Rightarrow> string \<Rightarrow> go_int \<Rightarrow> (('p, 's) dual, unit) meth" where
  "dual_DeleteDirectEvidenceByID P S chatSessionID recordID =
     write_required
       (map_option (\<lambda>w _. DeleteDirectEvidenceByID w chatSessionID recordID)
           (as_ExplorerMutationStore P))
       (map_option (\<lambda>w _. DeleteDirectEvidenceByID w chatSessionID recordID)
           (as_ExplorerMutationStore S)) ()"

definition dual_DeleteKGTripleByID ::
  "'p Store \<Rightarrow> 's Store \<Rightarrow> string \<Rightarrow> go_int \<Rightarrow> (('p, 's) dual, unit) meth" where
  "dual_DeleteKGTripleByID P S chatSessionID tripleID =
     write_required
       (map_option (\<lambda>w _. DeleteKGTripleByID w chatSessionID tripleID) (as_ExplorerMutationStore
           P))
       (map_option (\<lambda>w _. DeleteKGTripleByID w chatSessionID tripleID) (as_ExplorerMutationStore
           S)) ()"

definition dual_DeleteCharacterByName ::
  "'p Store \<Rightarrow> 's Store \<Rightarrow> string \<Rightarrow> string \<Rightarrow> (('p, 's) dual, unit) meth" where
  "dual_DeleteCharacterByName P S chatSessionID characterName =
     write_required
       (map_option (\<lambda>w _. DeleteCharacterByName w chatSessionID characterName)
           (as_ExplorerMutationStore P))
       (map_option (\<lambda>w _. DeleteCharacterByName w chatSessionID characterName)
           (as_ExplorerMutationStore S)) ()"

definition dual_SaveEvidence ::
  "'p Store \<Rightarrow> 's Store \<Rightarrow> DirectEvidence \<Rightarrow> (('p, 's) dual, DirectEvidence) meth" where
  "dual_SaveEvidence P S e =
     write_both (SaveEvidence P) (SaveEvidence S) e"

definition dual_ListEvidence ::
  "'p Store \<Rightarrow> 's Store \<Rightarrow> string \<Rightarrow> (('p, 's) dual, (DirectEvidence list)) meth" where
  "dual_ListEvidence P S chatSessionID =
     on_primary (ListEvidence P chatSessionID)"

definition dual_SaveKGTriple ::
  "'p Store \<Rightarrow> 's Store \<Rightarrow> KGTriple \<Rightarrow> (('p, 's) dual, KGTriple) meth" where
  "dual_SaveKGTriple P S t =
     write_both (SaveKGTriple P) (SaveKGTriple S) t"

definition dual_ListKGTriples ::
  "'p Store \<Rightarrow> 's Store \<Rightarrow> string \<Rightarrow> (('p, 's) dual, (KGTriple list)) meth" where
  "dual_ListKGTriples P S chatSessionID =
     on_primary (ListKGTriples P chatSessionID)"

definition dual_SaveAuditLog ::
  "'p Store \<Rightarrow> 's Store \<Rightarrow> AuditLog \<Rightarrow> (('p, 's) dual, AuditLog) meth" where
  "dual_SaveAuditLog P S a =
     write_both (SaveAuditLog P) (SaveAuditLog S) a"

definition dual_ListAuditLogs ::
  "'p Store \<Rightarrow> 's Store \<Rightarrow> string \<Rightarrow> string \<Rightarrow> go_int \<Rightarrow> (('p, 's) dual, (AuditLog list)) meth" where
  "dual_ListAuditLogs P S chatSessionID eventType limit =
     on_primary (ListAuditLogs P chatSessionID eventType limit)"

definition dual_CountAuditLogs ::
  "'p Store \<Rightarrow> 's Store \<Rightarrow> string \<Rightarrow> string \<Rightarrow> (('p, 's) dual, go_int) meth" where
  "dual_CountAuditLogs P S chatSessionID eventType d =
     (case as_AuditLogCounter P of
     Some w \<Rightarrow> on_primary (CountAuditLogs w chatSessionID eventType) d
   | None \<Rightarrow> (case on_primary (ListAuditLogs P chatSessionID eventType 0) d of
       ((items, Some e), d1) \<Rightarrow> ((0, Some e), d1)
     | ((items, None), d1) \<Rightarrow> ((int (length items), None), d1)))"

definition dual_SaveCriticFeedback ::
  "'p Store \<Rightarrow> 's Store \<Rightarrow> CriticFeedback \<Rightarrow> (('p, 's) dual, CriticFeedback) meth" where
  "dual_SaveCriticFeedback P S f =
     write_both (SaveCriticFeedback P) (SaveCriticFeedback S) f"

definition dual_ListCriticFeedback ::
  "'p Store \<Rightarrow> 's Store \<Rightarrow> string \<Rightarrow> string \<Rightarrow> go_int \<Rightarrow> (('p, 's) dual, (CriticFeedback list)) meth"
           where
  "dual_ListCriticFeedback P S chatSessionID targetType targetID =
     on_primary (ListCriticFeedback P chatSessionID targetType targetID)"

definition dual_SaveCharacterEvent ::
  "'p Store \<Rightarrow> 's Store \<Rightarrow> CharacterEvent \<Rightarrow> (('p, 's) dual, CharacterEvent) meth" where
  "dual_SaveCharacterEvent P S e =
     write_both (SaveCharacterEvent P) (SaveCharacterEvent S) e"

definition dual_SaveEntity ::
  "'p Store \<Rightarrow> 's Store \<Rightarrow> Entity \<Rightarrow> (('p, 's) dual, Entity) meth" where
  "dual_SaveEntity P S e =
     write_present
       (as_SaveEntity P)
       (as_SaveEntity S) e"

definition dual_SaveEntityIdentity ::
  "'p Store \<Rightarrow> 's Store \<Rightarrow> EntityIdentity \<Rightarrow> (('p, 's) dual, EntityIdentity) meth" where
  "dual_SaveEntityIdentity P S item =
     writeEntityIdentityExtension P S SaveEntityIdentity SaveEntityIdentity item"

definition dual_SaveEntityIdentitySurface ::
  "'p Store \<Rightarrow> 's Store \<Rightarrow> EntityIdentitySurface \<Rightarrow> (('p, 's) dual, EntityIdentitySurface) meth" where
  "dual_SaveEntityIdentitySurface P S item =
     writeEntityIdentityExtension P S SaveEntityIdentitySurface SaveEntityIdentitySurface item"

definition dual_SaveEntityIdentityArtifactBinding ::
  "'p Store \<Rightarrow> 's Store \<Rightarrow> EntityIdentityArtifactBinding \<Rightarrow> (('p, 's) dual,
           EntityIdentityArtifactBinding) meth" where
  "dual_SaveEntityIdentityArtifactBinding P S item =
     writeEntityIdentityExtension P S SaveEntityIdentityArtifactBinding
           SaveEntityIdentityArtifactBinding item"

definition dual_SaveSpeakerAttribution ::
  "'p Store \<Rightarrow> 's Store \<Rightarrow> SpeakerAttribution \<Rightarrow> (('p, 's) dual, SpeakerAttribution) meth" where
  "dual_SaveSpeakerAttribution P S item =
     writeEntityIdentityExtension P S SaveSpeakerAttribution SaveSpeakerAttribution item"

definition dual_SaveEntityIdentityLink ::
  "'p Store \<Rightarrow> 's Store \<Rightarrow> EntityIdentityLink \<Rightarrow> (('p, 's) dual, EntityIdentityLink) meth" where
  "dual_SaveEntityIdentityLink P S item =
     write_either False
       (map_option SaveEntityIdentityLink (as_EntityIdentityLinkWriter P))
       (map_option SaveEntityIdentityLink (as_EntityIdentityLinkWriter S)) item"

definition dual_EntityIdentityWritesEnabled ::
  "'p Store \<Rightarrow> 's Store \<Rightarrow> ('p, 's) dual \<Rightarrow> bool" where
  "dual_EntityIdentityWritesEnabled P S d \<longleftrightarrow>
     \<not> Option.is_none (as_EntityIdentityWriter P) \<or> \<not> Option.is_none (as_EntityIdentityWriter S)"

definition dual_ResolveReviewedCanonicalEntityID ::
  "'p Store \<Rightarrow> 's Store \<Rightarrow> string \<Rightarrow> string \<Rightarrow> (('p, 's) dual, string) meth" where
  "dual_ResolveReviewedCanonicalEntityID P S chatSessionID sourceEntityID =
     read_fallback ''''
       (map_option (\<lambda>w. ResolveReviewedCanonicalEntityID w chatSessionID sourceEntityID)
           (as_ReviewedEntityIdentityResolver P))
       (map_option (\<lambda>w. ResolveReviewedCanonicalEntityID w chatSessionID sourceEntityID)
           (as_ReviewedEntityIdentityResolver S))"

definition dual_ListActiveEntityIdentities ::
  "'p Store \<Rightarrow> 's Store \<Rightarrow> string \<Rightarrow> (('p, 's) dual, (EntityIdentity list)) meth" where
  "dual_ListActiveEntityIdentities P S chatSessionID =
     read_fallback []
       (map_option (\<lambda>w. ListActiveEntityIdentities w chatSessionID)
           (as_EntityIdentityCatalogReader P))
       (map_option (\<lambda>w. ListActiveEntityIdentities w chatSessionID)
           (as_EntityIdentityCatalogReader S))"

definition dual_ListActiveEntityIdentitySurfaces ::
  "'p Store \<Rightarrow> 's Store \<Rightarrow> string \<Rightarrow> (('p, 's) dual, (EntityIdentitySurface list)) meth" where
  "dual_ListActiveEntityIdentitySurfaces P S chatSessionID =
     read_fallback []
       (map_option (\<lambda>w. ListActiveEntityIdentitySurfaces w chatSessionID)
           (as_EntityIdentityCatalogReader P))
       (map_option (\<lambda>w. ListActiveEntityIdentitySurfaces w chatSessionID)
           (as_EntityIdentityCatalogReader S))"

definition dual_ListReviewedEntityIdentityLinks ::
  "'p Store \<Rightarrow> 's Store \<Rightarrow> string \<Rightarrow> (('p, 's) dual, (EntityIdentityLink list)) meth" where
  "dual_ListReviewedEntityIdentityLinks P S chatSessionID =
     read_fallback []
       (map_option (\<lambda>w. ListReviewedEntityIdentityLinks w chatSessionID)
           (as_EntityIdentityCatalogReader P))
       (map_option (\<lambda>w. ListReviewedEntityIdentityLinks w chatSessionID)
           (as_EntityIdentityCatalogReader S))"

definition dual_ResolveUniqueActiveEntityIDBySurface ::
  "'p Store \<Rightarrow> 's Store \<Rightarrow> string \<Rightarrow> string \<Rightarrow> (('p, 's) dual, string) meth" where
  "dual_ResolveUniqueActiveEntityIDBySurface P S chatSessionID normalizedSurface =
     read_fallback ''''
       (map_option (\<lambda>w. ResolveUniqueActiveEntityIDBySurface w chatSessionID normalizedSurface)
           (as_UniqueActiveEntitySurfaceResolver P))
       (map_option (\<lambda>w. ResolveUniqueActiveEntityIDBySurface w chatSessionID normalizedSurface)
           (as_UniqueActiveEntitySurfaceResolver S))"

definition dual_ResolveUniqueActiveEntityIdentityBySurface ::
  "'p Store \<Rightarrow> 's Store \<Rightarrow> string \<Rightarrow> string \<Rightarrow> (('p, 's) dual, ResolvedEntityIdentity) meth" where
  "dual_ResolveUniqueActiveEntityIdentityBySurface P S chatSessionID normalizedSurface =
     read_fallback zero_ResolvedEntityIdentity
       (map_option (\<lambda>w. ResolveUniqueActiveEntityIdentityBySurface w chatSessionID
           normalizedSurface) (as_UniqueActiveEntitySurfaceIdentityResolver P))
       (map_option (\<lambda>w. ResolveUniqueActiveEntityIdentityBySurface w chatSessionID
           normalizedSurface) (as_UniqueActiveEntitySurfaceIdentityResolver S))"

definition dual_ListCharacterPerspectiveMemoryUnits ::
  "'p Store \<Rightarrow> 's Store \<Rightarrow> string \<Rightarrow> string \<Rightarrow> (('p, 's) dual, (PreciseMemoryUnit list)) meth" where
  "dual_ListCharacterPerspectiveMemoryUnits P S chatSessionID knowledgeHolderEntityID =
     read_required [] (map_option (\<lambda>w. ListCharacterPerspectiveMemoryUnits w chatSessionID
           knowledgeHolderEntityID) (as_CharacterPerspectiveMemoryReader P))"

definition dual_ListActiveInteractionMemoryUnits ::
  "'p Store \<Rightarrow> 's Store \<Rightarrow> string \<Rightarrow> (('p, 's) dual, (PreciseMemoryUnit list)) meth" where
  "dual_ListActiveInteractionMemoryUnits P S chatSessionID =
     read_required [] (map_option (\<lambda>w. ListActiveInteractionMemoryUnits w chatSessionID)
           (as_ActiveInteractionMemoryReader P))"

definition dual_ListGeneralVectorPreciseMemoryUnits ::
  "'p Store \<Rightarrow> 's Store \<Rightarrow> string \<Rightarrow> (('p, 's) dual, (PreciseMemoryUnit list)) meth" where
  "dual_ListGeneralVectorPreciseMemoryUnits P S chatSessionID =
     read_required [] (map_option (\<lambda>w. ListGeneralVectorPreciseMemoryUnits w chatSessionID)
           (as_GeneralVectorPreciseMemoryReader P))"

definition dual_SavePreciseMemoryUnit ::
  "'p Store \<Rightarrow> 's Store \<Rightarrow> PreciseMemoryUnit \<Rightarrow> (('p, 's) dual, bool \<times> PreciseMemoryUnit) meth" where
  "dual_SavePreciseMemoryUnit P S item d =
     gated_write False
       (map_option SavePreciseMemoryUnit (preciseMemoryWriterForStore P (dual_primary d)))
       (map_option SavePreciseMemoryUnit (preciseMemoryWriterForStore S (dual_shadow d))) item d"

definition dual_PreciseMemoryWritesEnabled ::
  "'p Store \<Rightarrow> 's Store \<Rightarrow> ('p, 's) dual \<Rightarrow> bool" where
  "dual_PreciseMemoryWritesEnabled P S d \<longleftrightarrow>
     \<not> Option.is_none (preciseMemoryWriterForStore P (dual_primary d)) \<or> \<not> Option.is_none
           (preciseMemoryWriterForStore S (dual_shadow d))"

definition dual_CommitMemoryAdmission ::
  "'p Store \<Rightarrow> 's Store \<Rightarrow> MemoryAdmission \<Rightarrow> (('p, 's) dual, MemoryAdmissionResult \<times>
           MemoryAdmission) meth" where
  "dual_CommitMemoryAdmission P S admission d =
     gated_write zero_MemoryAdmissionResult
       (map_option CommitMemoryAdmission (memoryAdmissionWriterForStore P (dual_primary d)))
       (map_option CommitMemoryAdmission (memoryAdmissionWriterForStore S (dual_shadow d)))
           admission d"

definition dual_MemoryAdmissionWritesEnabled ::
  "'p Store \<Rightarrow> 's Store \<Rightarrow> ('p, 's) dual \<Rightarrow> bool" where
  "dual_MemoryAdmissionWritesEnabled P S d \<longleftrightarrow>
     \<not> Option.is_none (memoryAdmissionWriterForStore P (dual_primary d)) \<or> \<not> Option.is_none
           (memoryAdmissionWriterForStore S (dual_shadow d))"

definition dual_MemoryDerivationLifecycleEnabled ::
  "'p Store \<Rightarrow> 's Store \<Rightarrow> ('p, 's) dual \<Rightarrow> bool" where
  "dual_MemoryDerivationLifecycleEnabled P S d \<longleftrightarrow>
     \<not> Option.is_none (memoryLifecycleSourceStore P (dual_primary d)) \<or> \<not> Option.is_none
           (memoryLifecycleSourceStore S (dual_shadow d))"

definition dual_RegisterAcceptedSourceRevision ::
  "'p Store \<Rightarrow> 's Store \<Rightarrow> MemorySourceRevision \<Rightarrow> (('p, 's) dual, SourceRevisionRegistration \<times>
           MemorySourceRevision) meth" where
  "dual_RegisterAcceptedSourceRevision P S source d =
     gated_write zero_SourceRevisionRegistration
       (map_option RegisterAcceptedSourceRevision (memoryLifecycleSourceStore P (dual_primary d)))
       (map_option RegisterAcceptedSourceRevision (memoryLifecycleSourceStore S (dual_shadow d)))
           source d"

definition dual_IsSourceRevisionActive ::
  "'p Store \<Rightarrow> 's Store \<Rightarrow> string \<Rightarrow> string \<Rightarrow> (('p, 's) dual, bool) meth" where
  "dual_IsSourceRevisionActive P S sid revision d =
     read_fallback False
       (map_option (\<lambda>w. IsSourceRevisionActive w sid revision) (memoryLifecycleSourceStore P
           (dual_primary d)))
       (map_option (\<lambda>w. IsSourceRevisionActive w sid revision) (memoryLifecycleSourceStore S
           (dual_shadow d))) d"

definition dual_GetSourceRevision ::
  "'p Store \<Rightarrow> 's Store \<Rightarrow> string \<Rightarrow> string \<Rightarrow> (('p, 's) dual, (MemorySourceRevision option)) meth"
           where
  "dual_GetSourceRevision P S sid revision d =
     read_fallback None
       (map_option (\<lambda>w. GetSourceRevision w sid revision) (memoryLifecycleSourceStore P
           (dual_primary d)))
       (map_option (\<lambda>w. GetSourceRevision w sid revision) (memoryLifecycleSourceStore S
           (dual_shadow d))) d"

definition dual_SaveCriticInputSnapshot ::
  "'p Store \<Rightarrow> 's Store \<Rightarrow> string \<Rightarrow> string \<Rightarrow> string \<Rightarrow> string \<Rightarrow> go_time \<Rightarrow> (('p, 's) dual, unit) meth"
           where
  "dual_SaveCriticInputSnapshot P S sid revision snapshotJSON snapshotHash updatedAt =
     write_either False
       (map_option (\<lambda>w _. SaveCriticInputSnapshot w sid revision snapshotJSON snapshotHash
           updatedAt) (as_CriticInputSnapshotStore P))
       (map_option (\<lambda>w _. SaveCriticInputSnapshot w sid revision snapshotJSON snapshotHash
           updatedAt) (as_CriticInputSnapshotStore S)) ()"

definition dual_ListActiveSourceRevisions ::
  "'p Store \<Rightarrow> 's Store \<Rightarrow> string \<Rightarrow> go_int \<Rightarrow> go_int \<Rightarrow> (('p, 's) dual, (MemorySourceRevision list))
           meth" where
  "dual_ListActiveSourceRevisions P S sid fromTurn toTurn =
     read_fallback []
       (map_option (\<lambda>w. ListActiveSourceRevisions w sid fromTurn toTurn)
           (as_ActiveSourceRevisionLister P))
       (map_option (\<lambda>w. ListActiveSourceRevisions w sid fromTurn toTurn)
           (as_ActiveSourceRevisionLister S))"

definition dual_ListSourceRevisions ::
  "'p Store \<Rightarrow> 's Store \<Rightarrow> string \<Rightarrow> go_int \<Rightarrow> go_int \<Rightarrow> (('p, 's) dual, (MemorySourceRevision list))
           meth" where
  "dual_ListSourceRevisions P S sid fromTurn toTurn =
     read_fallback []
       (map_option (\<lambda>w. ListSourceRevisions w sid fromTurn toTurn) (as_SourceRevisionHistoryLister
           P))
       (map_option (\<lambda>w. ListSourceRevisions w sid fromTurn toTurn) (as_SourceRevisionHistoryLister
           S))"

definition dual_InvalidateSourceRevisions ::
  "'p Store \<Rightarrow> 's Store \<Rightarrow> string \<Rightarrow> go_int \<Rightarrow> string \<Rightarrow> string \<Rightarrow> go_time \<Rightarrow> (('p, 's) dual, unit) meth"
           where
  "dual_InvalidateSourceRevisions P S sid fromTurn lifecycleState reason invalidatedAt d =
     write_either False
       (map_option (\<lambda>w _. InvalidateSourceRevisions w sid fromTurn lifecycleState reason
           invalidatedAt) (memoryLifecycleSourceStore P (dual_primary d)))
       (map_option (\<lambda>w _. InvalidateSourceRevisions w sid fromTurn lifecycleState reason
           invalidatedAt) (memoryLifecycleSourceStore S (dual_shadow d))) () d"

definition dual_EnqueueMemoryReprocessingJob ::
  "'p Store \<Rightarrow> 's Store \<Rightarrow> MemoryReprocessingJob \<Rightarrow> (('p, 's) dual, bool \<times> MemoryReprocessingJob)
           meth" where
  "dual_EnqueueMemoryReprocessingJob P S job =
     dualEnqueueMemoryWork P S
       (\<lambda>job. case as_MemoryReprocessingJobStore P of None \<Rightarrow> \<lambda>q. (((False, job), Some
           ErrNotEnabled), q)
        | Some w \<Rightarrow> EnqueueMemoryReprocessingJob w job)
       (\<lambda>job. case as_MemoryReprocessingJobStore S of None \<Rightarrow> \<lambda>q. (((False, job), Some
           ErrNotEnabled), q)
        | Some w \<Rightarrow> EnqueueMemoryReprocessingJob w job) job"

definition dual_ClaimMemoryReprocessingJob ::
  "'p Store \<Rightarrow> 's Store \<Rightarrow> string \<Rightarrow> go_time \<Rightarrow> go_duration \<Rightarrow> (('p, 's) dual, (MemoryReprocessingJob
           option)) meth" where
  "dual_ClaimMemoryReprocessingJob P S lease_owner now lease =
     read_fallback None
       (map_option (\<lambda>w. ClaimMemoryReprocessingJob w lease_owner now lease)
           (as_MemoryReprocessingJobStore P))
       (map_option (\<lambda>w. ClaimMemoryReprocessingJob w lease_owner now lease)
           (as_MemoryReprocessingJobStore S))"

definition dual_NextMemoryReprocessingWakeAt ::
  "'p Store \<Rightarrow> 's Store \<Rightarrow> (('p, 's) dual, go_time) meth" where
  "dual_NextMemoryReprocessingWakeAt P S =
     read_fallback 0
       (map_option (\<lambda>w. NextMemoryReprocessingWakeAt w) (as_MemoryReprocessingWakeScheduleStore P))
       (map_option (\<lambda>w. NextMemoryReprocessingWakeAt w) (as_MemoryReprocessingWakeScheduleStore
           S))"

definition dual_CompleteMemoryReprocessingJob ::
  "'p Store \<Rightarrow> 's Store \<Rightarrow> go_int \<Rightarrow> string \<Rightarrow> go_time \<Rightarrow> (('p, 's) dual, unit) meth" where
  "dual_CompleteMemoryReprocessingJob P S row_id lease_owner now =
     read_fallback ()
       (map_option (\<lambda>w. CompleteMemoryReprocessingJob w row_id lease_owner now)
           (as_MemoryReprocessingJobStore P))
       (map_option (\<lambda>w. CompleteMemoryReprocessingJob w row_id lease_owner now)
           (as_MemoryReprocessingJobStore S))"

definition dual_FailMemoryReprocessingJob ::
  "'p Store \<Rightarrow> 's Store \<Rightarrow> go_int \<Rightarrow> string \<Rightarrow> go_time \<Rightarrow> go_time \<Rightarrow> bool \<Rightarrow> string \<Rightarrow> (('p, 's) dual,
           unit) meth" where
  "dual_FailMemoryReprocessingJob P S row_id lease_owner now retryAfter permanent failure =
     read_fallback ()
       (map_option (\<lambda>w. FailMemoryReprocessingJob w row_id lease_owner now retryAfter permanent
           failure) (as_MemoryReprocessingJobStore P))
       (map_option (\<lambda>w. FailMemoryReprocessingJob w row_id lease_owner now retryAfter permanent
           failure) (as_MemoryReprocessingJobStore S))"

definition dual_EnqueueMemoryVectorOperation ::
  "'p Store \<Rightarrow> 's Store \<Rightarrow> MemoryVectorOutboxItem \<Rightarrow> (('p, 's) dual, bool \<times> MemoryVectorOutboxItem)
           meth" where
  "dual_EnqueueMemoryVectorOperation P S item =
     dualEnqueueMemoryWork P S
       (\<lambda>job. case as_MemoryVectorOutboxStore P of None \<Rightarrow> \<lambda>q. (((False, job), Some ErrNotEnabled),
           q)
        | Some w \<Rightarrow> EnqueueMemoryVectorOperation w job)
       (\<lambda>job. case as_MemoryVectorOutboxStore S of None \<Rightarrow> \<lambda>q. (((False, job), Some ErrNotEnabled),
           q)
        | Some w \<Rightarrow> EnqueueMemoryVectorOperation w job) item"

definition dual_ClaimMemoryVectorOperations ::
  "'p Store \<Rightarrow> 's Store \<Rightarrow> string \<Rightarrow> go_time \<Rightarrow> go_duration \<Rightarrow> (('p, 's) dual, (MemoryVectorOutboxItem
           list)) meth" where
  "dual_ClaimMemoryVectorOperations P S lease_owner now lease =
     read_fallback []
       (map_option (\<lambda>w. ClaimMemoryVectorOperations w lease_owner now lease)
           (as_MemoryVectorOutboxStore P))
       (map_option (\<lambda>w. ClaimMemoryVectorOperations w lease_owner now lease)
           (as_MemoryVectorOutboxStore S))"

definition dual_ClaimMemoryVectorOperationsByOperation ::
  "'p Store \<Rightarrow> 's Store \<Rightarrow> string \<Rightarrow> go_time \<Rightarrow> go_duration \<Rightarrow> string \<Rightarrow> (('p, 's) dual,
           (MemoryVectorOutboxItem list)) meth" where
  "dual_ClaimMemoryVectorOperationsByOperation P S lease_owner now lease operation =
     read_fallback []
       (map_option (\<lambda>w. ClaimMemoryVectorOperationsByOperation w lease_owner now lease operation)
           (as_MemoryVectorOutboxLaneStore P))
       (map_option (\<lambda>w. ClaimMemoryVectorOperationsByOperation w lease_owner now lease operation)
           (as_MemoryVectorOutboxLaneStore S))"

definition dual_CompleteMemoryVectorOperation ::
  "'p Store \<Rightarrow> 's Store \<Rightarrow> go_int \<Rightarrow> string \<Rightarrow> go_time \<Rightarrow> (('p, 's) dual, unit) meth" where
  "dual_CompleteMemoryVectorOperation P S row_id lease_owner now =
     read_fallback ()
       (map_option (\<lambda>w. CompleteMemoryVectorOperation w row_id lease_owner now)
           (as_MemoryVectorOutboxStore P))
       (map_option (\<lambda>w. CompleteMemoryVectorOperation w row_id lease_owner now)
           (as_MemoryVectorOutboxStore S))"

definition dual_CompleteMemoryVectorMaterializedOperation ::
  "'p Store \<Rightarrow> 's Store \<Rightarrow> go_int \<Rightarrow> string \<Rightarrow> go_time \<Rightarrow> MemoryVectorMaterialization \<Rightarrow> (('p, 's) dual,
           unit) meth" where
  "dual_CompleteMemoryVectorMaterializedOperation P S row_id lease_owner now materialization =
     read_fallback ()
       (map_option (\<lambda>w. CompleteMemoryVectorMaterializedOperation w row_id lease_owner now
           materialization) (as_MemoryVectorMaterializedCompletionStore P))
       (map_option (\<lambda>w. CompleteMemoryVectorMaterializedOperation w row_id lease_owner now
           materialization) (as_MemoryVectorMaterializedCompletionStore S))"

definition dual_CoalesceInactiveMemoryVectorDeleteOperations ::
  "'p Store \<Rightarrow> 's Store \<Rightarrow> string \<Rightarrow> go_time \<Rightarrow> (('p, 's) dual, go_int) meth" where
  "dual_CoalesceInactiveMemoryVectorDeleteOperations P S chatSessionID now =
     read_fallback 0
       (map_option (\<lambda>w. CoalesceInactiveMemoryVectorDeleteOperations w chatSessionID now)
           (as_MemoryVectorOutboxMaintenanceStore P))
       (map_option (\<lambda>w. CoalesceInactiveMemoryVectorDeleteOperations w chatSessionID now)
           (as_MemoryVectorOutboxMaintenanceStore S))"

definition dual_FailMemoryVectorOperation ::
  "'p Store \<Rightarrow> 's Store \<Rightarrow> go_int \<Rightarrow> string \<Rightarrow> go_time \<Rightarrow> go_time \<Rightarrow> bool \<Rightarrow> string \<Rightarrow> (('p, 's) dual,
           unit) meth" where
  "dual_FailMemoryVectorOperation P S row_id lease_owner now retryAfter permanent failure =
     read_fallback ()
       (map_option (\<lambda>w. FailMemoryVectorOperation w row_id lease_owner now retryAfter permanent
           failure) (as_MemoryVectorOutboxStore P))
       (map_option (\<lambda>w. FailMemoryVectorOperation w row_id lease_owner now retryAfter permanent
           failure) (as_MemoryVectorOutboxStore S))"

definition dual_SaveTrust ::
  "'p Store \<Rightarrow> 's Store \<Rightarrow> Trust \<Rightarrow> (('p, 's) dual, Trust) meth" where
  "dual_SaveTrust P S t =
     write_present
       (as_SaveTrust P)
       (as_SaveTrust S) t"

definition dual_ListCharacterEvents ::
  "'p Store \<Rightarrow> 's Store \<Rightarrow> string \<Rightarrow> string \<Rightarrow> (('p, 's) dual, (CharacterEvent list)) meth" where
  "dual_ListCharacterEvents P S chatSessionID characterName =
     on_primary (ListCharacterEvents P chatSessionID characterName)"

definition dual_Stats ::
  "'p Store \<Rightarrow> 's Store \<Rightarrow> (('p, 's) dual, StatsResult) meth" where
  "dual_Stats P S =
     on_primary (Stats P)"

definition dual_ListSessions ::
  "'p Store \<Rightarrow> 's Store \<Rightarrow> (('p, 's) dual, (SessionSummary list)) meth" where
  "dual_ListSessions P S =
     on_primary (ListSessions P)"

definition dual_GetResumePack ::
  "'p Store \<Rightarrow> 's Store \<Rightarrow> string \<Rightarrow> string \<Rightarrow> (('p, 's) dual, (ResumePack option)) meth" where
  "dual_GetResumePack P S chatSessionID trigger =
     on_primary (GetResumePack P chatSessionID trigger)"

definition dual_ListStorylines ::
  "'p Store \<Rightarrow> 's Store \<Rightarrow> string \<Rightarrow> (('p, 's) dual, (Storyline list)) meth" where
  "dual_ListStorylines P S chatSessionID =
     on_primary (ListStorylines P chatSessionID)"

definition dual_SaveStoryline ::
  "'p Store \<Rightarrow> 's Store \<Rightarrow> Storyline \<Rightarrow> (('p, 's) dual, Storyline) meth" where
  "dual_SaveStoryline P S s =
     write_present
       (as_SaveStoryline P)
       (as_SaveStoryline S) s"

definition dual_PatchStoryline ::
  "'p Store \<Rightarrow> 's Store \<Rightarrow> go_int \<Rightarrow> (string \<times> json) list \<Rightarrow> (('p, 's) dual, (string list)) meth" where
  "dual_PatchStoryline P S storylineID updates =
     patch_required [] (\<lambda>_. [])
       (map_option (\<lambda>w. w storylineID updates) (as_PatchStoryline P))
       (map_option (\<lambda>w. w storylineID updates) (as_PatchStoryline S))"

definition dual_PatchStorylineTrust ::
  "'p Store \<Rightarrow> 's Store \<Rightarrow> go_int \<Rightarrow> (string \<times> json) list \<Rightarrow> (('p, 's) dual, (string list)) meth" where
  "dual_PatchStorylineTrust P S storylineID updates =
     patch_required [] (\<lambda>_. [])
       (map_option (\<lambda>w. w storylineID updates) (as_PatchStorylineTrust P))
       (map_option (\<lambda>w. w storylineID updates) (as_PatchStorylineTrust S))"

definition dual_DeleteStoryline ::
  "'p Store \<Rightarrow> 's Store \<Rightarrow> go_int \<Rightarrow> (('p, 's) dual, unit) meth" where
  "dual_DeleteStoryline P S storylineID =
     write_required
       (map_option (\<lambda>w _. w storylineID) (as_DeleteStoryline P))
       (map_option (\<lambda>w _. w storylineID) (as_DeleteStoryline S)) ()"

definition dual_ListWorldRules ::
  "'p Store \<Rightarrow> 's Store \<Rightarrow> string \<Rightarrow> (('p, 's) dual, (WorldRule list)) meth" where
  "dual_ListWorldRules P S chatSessionID =
     on_primary (ListWorldRules P chatSessionID)"

definition dual_SaveWorldRule ::
  "'p Store \<Rightarrow> 's Store \<Rightarrow> WorldRule \<Rightarrow> (('p, 's) dual, WorldRule) meth" where
  "dual_SaveWorldRule P S w =
     write_present
       (as_SaveWorldRule P)
       (as_SaveWorldRule S) w"

definition dual_ListInheritedWorldRules ::
  "'p Store \<Rightarrow> 's Store \<Rightarrow> string \<Rightarrow> string \<Rightarrow> string \<Rightarrow> (('p, 's) dual, (WorldRule list)) meth" where
  "dual_ListInheritedWorldRules P S chatSessionID activeScope scopeName =
     on_primary (ListInheritedWorldRules P chatSessionID activeScope scopeName)"

definition dual_ListCharacterStates ::
  "'p Store \<Rightarrow> 's Store \<Rightarrow> string \<Rightarrow> (('p, 's) dual, (CharacterState list)) meth" where
  "dual_ListCharacterStates P S chatSessionID =
     on_primary (ListCharacterStates P chatSessionID)"

definition dual_GetCharacterState ::
  "'p Store \<Rightarrow> 's Store \<Rightarrow> string \<Rightarrow> string \<Rightarrow> (('p, 's) dual, (CharacterState option)) meth" where
  "dual_GetCharacterState P S chatSessionID characterName =
     on_primary (GetCharacterState P chatSessionID characterName)"

definition dual_ListCharacterStateHistory ::
  "'p Store \<Rightarrow> 's Store \<Rightarrow> string \<Rightarrow> string \<Rightarrow> go_int \<Rightarrow> go_int \<Rightarrow> (('p, 's) dual, (CharacterState
           list)) meth" where
  "dual_ListCharacterStateHistory P S chatSessionID characterName limit offset =
     read_required [] (map_option (\<lambda>w. ListCharacterStateHistory w chatSessionID characterName
           limit offset) (as_CharacterStateHistoryStore P))"

definition dual_ApplyCharacterProvenanceRepair ::
  "'p Store \<Rightarrow> 's Store \<Rightarrow> CharacterState \<Rightarrow> CharacterState \<Rightarrow> string \<Rightarrow> (('p, 's) dual,
           CharacterEvent) meth" where
  "dual_ApplyCharacterProvenanceRepair P S before after operationID =
     patch_required zero_CharacterEvent id
       (map_option (\<lambda>w. ApplyCharacterProvenanceRepair w before after operationID)
           (as_CharacterProvenanceRepairStore P))
       (map_option (\<lambda>w. ApplyCharacterProvenanceRepair w before after operationID)
           (as_CharacterProvenanceRepairStore S))"

definition dual_SaveCharacterState ::
  "'p Store \<Rightarrow> 's Store \<Rightarrow> CharacterState \<Rightarrow> (('p, 's) dual, CharacterState) meth" where
  "dual_SaveCharacterState P S c =
     write_present
       (as_SaveCharacterState P)
       (as_SaveCharacterState S) c"

definition dual_ListPendingThreads ::
  "'p Store \<Rightarrow> 's Store \<Rightarrow> string \<Rightarrow> string \<Rightarrow> (('p, 's) dual, (PendingThread list)) meth" where
  "dual_ListPendingThreads P S chatSessionID status =
     on_primary (ListPendingThreads P chatSessionID status)"

definition dual_SavePendingThread ::
  "'p Store \<Rightarrow> 's Store \<Rightarrow> PendingThread \<Rightarrow> (('p, 's) dual, PendingThread) meth" where
  "dual_SavePendingThread P S p =
     write_present
       (as_SavePendingThread P)
       (as_SavePendingThread S) p"

definition dual_PatchPendingThread ::
  "'p Store \<Rightarrow> 's Store \<Rightarrow> go_int \<Rightarrow> (string \<times> json) list \<Rightarrow> (('p, 's) dual, (string list)) meth" where
  "dual_PatchPendingThread P S hookID updates =
     patch_required [] (\<lambda>_. [])
       (map_option (\<lambda>w. w hookID updates) (as_PatchPendingThread P))
       (map_option (\<lambda>w. w hookID updates) (as_PatchPendingThread S))"

definition dual_PatchPendingThreadTrust ::
  "'p Store \<Rightarrow> 's Store \<Rightarrow> go_int \<Rightarrow> (string \<times> json) list \<Rightarrow> (('p, 's) dual, (string list)) meth" where
  "dual_PatchPendingThreadTrust P S hookID updates =
     patch_required [] (\<lambda>_. [])
       (map_option (\<lambda>w. w hookID updates) (as_PatchPendingThreadTrust P))
       (map_option (\<lambda>w. w hookID updates) (as_PatchPendingThreadTrust S))"

definition dual_DeletePendingThread ::
  "'p Store \<Rightarrow> 's Store \<Rightarrow> go_int \<Rightarrow> (('p, 's) dual, unit) meth" where
  "dual_DeletePendingThread P S hookID =
     write_required
       (map_option (\<lambda>w _. w hookID) (as_DeletePendingThread P))
       (map_option (\<lambda>w _. w hookID) (as_DeletePendingThread S)) ()"

definition dual_ListActiveStates ::
  "'p Store \<Rightarrow> 's Store \<Rightarrow> string \<Rightarrow> string \<Rightarrow> (('p, 's) dual, (ActiveState list)) meth" where
  "dual_ListActiveStates P S chatSessionID stateType =
     on_primary (ListActiveStates P chatSessionID stateType)"

definition dual_SaveActiveState ::
  "'p Store \<Rightarrow> 's Store \<Rightarrow> ActiveState \<Rightarrow> (('p, 's) dual, ActiveState) meth" where
  "dual_SaveActiveState P S a =
     write_present
       (as_SaveActiveState P)
       (as_SaveActiveState S) a"

definition dual_ListCanonicalStateLayers ::
  "'p Store \<Rightarrow> 's Store \<Rightarrow> string \<Rightarrow> string \<Rightarrow> (('p, 's) dual, (CanonicalStateLayer list)) meth" where
  "dual_ListCanonicalStateLayers P S chatSessionID layerType =
     on_primary (ListCanonicalStateLayers P chatSessionID layerType)"

definition dual_SaveCanonicalStateLayer ::
  "'p Store \<Rightarrow> 's Store \<Rightarrow> CanonicalStateLayer \<Rightarrow> (('p, 's) dual, CanonicalStateLayer) meth" where
  "dual_SaveCanonicalStateLayer P S item =
     write_present
       (as_SaveCanonicalStateLayer P)
       (as_SaveCanonicalStateLayer S) item"

definition dual_ListEpisodeSummaries ::
  "'p Store \<Rightarrow> 's Store \<Rightarrow> string \<Rightarrow> go_int \<Rightarrow> go_int \<Rightarrow> go_int \<Rightarrow> (('p, 's) dual, (EpisodeSummary
           list)) meth" where
  "dual_ListEpisodeSummaries P S chatSessionID limit fromTurn toTurn =
     on_primary (ListEpisodeSummaries P chatSessionID limit fromTurn toTurn)"

definition dual_GetGuidancePlanState ::
  "'p Store \<Rightarrow> 's Store \<Rightarrow> string \<Rightarrow> (('p, 's) dual, (GuidancePlanState option)) meth" where
  "dual_GetGuidancePlanState P S chatSessionID =
     read_required None (map_option (\<lambda>w. GetGuidancePlanState w chatSessionID)
           (as_GuidancePlanStateStore P))"

definition dual_UpsertGuidancePlanState ::
  "'p Store \<Rightarrow> 's Store \<Rightarrow> GuidancePlanState \<Rightarrow> (('p, 's) dual, GuidancePlanState) meth" where
  "dual_UpsertGuidancePlanState P S item =
     write_required
       (map_option UpsertGuidancePlanState (as_GuidancePlanStateStore P))
       (map_option UpsertGuidancePlanState (as_GuidancePlanStateStore S)) item"

definition dual_ListConsequenceRecords ::
  "'p Store \<Rightarrow> 's Store \<Rightarrow> string \<Rightarrow> go_int \<Rightarrow> (('p, 's) dual, (ConsequenceRecord list)) meth" where
  "dual_ListConsequenceRecords P S chatSessionID limit =
     read_required [] (map_option (\<lambda>w. ListConsequenceRecords w chatSessionID limit)
           (as_ConsequenceRecordStore P))"

definition dual_SaveConsequenceRecord ::
  "'p Store \<Rightarrow> 's Store \<Rightarrow> ConsequenceRecord \<Rightarrow> (('p, 's) dual, ConsequenceRecord) meth" where
  "dual_SaveConsequenceRecord P S row =
     save_required
       (map_option SaveConsequenceRecord (as_ConsequenceRecordStore P))
       (map_option SaveConsequenceRecord (as_ConsequenceRecordStore S)) row"

definition dual_UpdateConsequenceRecordStatus ::
  "'p Store \<Rightarrow> 's Store \<Rightarrow> go_int \<Rightarrow> string \<Rightarrow> go_int \<Rightarrow> (('p, 's) dual, unit) meth" where
  "dual_UpdateConsequenceRecordStatus P S row_id status paidTurn =
     write_required
       (map_option (\<lambda>w _. UpdateConsequenceRecordStatus w row_id status paidTurn)
           (as_ConsequenceRecordStore P))
       (map_option (\<lambda>w _. UpdateConsequenceRecordStatus w row_id status paidTurn)
           (as_ConsequenceRecordStore S)) ()"

definition dual_ListPsychologyBranches ::
  "'p Store \<Rightarrow> 's Store \<Rightarrow> string \<Rightarrow> go_int \<Rightarrow> (('p, 's) dual, (PsychologyBranch list)) meth" where
  "dual_ListPsychologyBranches P S chatSessionID limit =
     read_required [] (map_option (\<lambda>w. ListPsychologyBranches w chatSessionID limit)
           (as_PsychologyBranchStore P))"

definition dual_SavePsychologyBranch ::
  "'p Store \<Rightarrow> 's Store \<Rightarrow> PsychologyBranch \<Rightarrow> (('p, 's) dual, PsychologyBranch) meth" where
  "dual_SavePsychologyBranch P S row =
     save_required
       (map_option SavePsychologyBranch (as_PsychologyBranchStore P))
       (map_option SavePsychologyBranch (as_PsychologyBranchStore S)) row"

definition dual_UpdatePsychologyBranchStatus ::
  "'p Store \<Rightarrow> 's Store \<Rightarrow> go_int \<Rightarrow> string \<Rightarrow> go_int \<Rightarrow> (('p, 's) dual, unit) meth" where
  "dual_UpdatePsychologyBranchStatus P S row_id status quietTurns =
     write_required
       (map_option (\<lambda>w _. UpdatePsychologyBranchStatus w row_id status quietTurns)
           (as_PsychologyBranchStore P))
       (map_option (\<lambda>w _. UpdatePsychologyBranchStatus w row_id status quietTurns)
           (as_PsychologyBranchStore S)) ()"

definition dual_ListForkLineageRecords ::
  "'p Store \<Rightarrow> 's Store \<Rightarrow> string \<Rightarrow> string \<Rightarrow> go_int \<Rightarrow> (('p, 's) dual, (ForkLineageRecord list))
           meth" where
  "dual_ListForkLineageRecords P S chatSessionID scopeID limit =
     read_required [] (map_option (\<lambda>w. ListForkLineageRecords w chatSessionID scopeID limit)
           (as_ForkLineageStore P))"

definition dual_GetWorldlineTopologySnapshot ::
  "'p Store \<Rightarrow> 's Store \<Rightarrow> string \<Rightarrow> go_int \<Rightarrow> (('p, 's) dual, WorldlineTopologySnapshot) meth" where
  "dual_GetWorldlineTopologySnapshot P S anchorSessionID limit =
     read_required zero_WorldlineTopologySnapshot (map_option (\<lambda>w. GetWorldlineTopologySnapshot w
           anchorSessionID limit) (as_WorldlineTopologySnapshotStore P))"

definition dual_SaveForkLineageRecord ::
  "'p Store \<Rightarrow> 's Store \<Rightarrow> ForkLineageRecord \<Rightarrow> (('p, 's) dual, ForkLineageRecord) meth" where
  "dual_SaveForkLineageRecord P S row =
     save_required
       (map_option SaveForkLineageRecord (as_ForkLineageStore P))
       (map_option SaveForkLineageRecord (as_ForkLineageStore S)) row"

definition dual_ListThemeOffscreenCarries ::
  "'p Store \<Rightarrow> 's Store \<Rightarrow> string \<Rightarrow> string \<Rightarrow> go_int \<Rightarrow> (('p, 's) dual, (ThemeOffscreenCarryRecord
           list)) meth" where
  "dual_ListThemeOffscreenCarries P S chatSessionID surfaceType limit =
     read_required [] (map_option (\<lambda>w. ListThemeOffscreenCarries w chatSessionID surfaceType
           limit) (as_ThemeOffscreenCarryStore P))"

definition dual_SaveThemeOffscreenCarry ::
  "'p Store \<Rightarrow> 's Store \<Rightarrow> ThemeOffscreenCarryRecord \<Rightarrow> (('p, 's) dual, ThemeOffscreenCarryRecord)
           meth" where
  "dual_SaveThemeOffscreenCarry P S row =
     save_required
       (map_option SaveThemeOffscreenCarry (as_ThemeOffscreenCarryStore P))
       (map_option SaveThemeOffscreenCarry (as_ThemeOffscreenCarryStore S)) row"

definition dual_UpdateThemeOffscreenCarryStatus ::
  "'p Store \<Rightarrow> 's Store \<Rightarrow> go_int \<Rightarrow> string \<Rightarrow> go_int \<Rightarrow> (('p, 's) dual, unit) meth" where
  "dual_UpdateThemeOffscreenCarryStatus P S row_id status quietTurns =
     write_required
       (map_option (\<lambda>w _. UpdateThemeOffscreenCarryStatus w row_id status quietTurns)
           (as_ThemeOffscreenCarryStore P))
       (map_option (\<lambda>w _. UpdateThemeOffscreenCarryStatus w row_id status quietTurns)
           (as_ThemeOffscreenCarryStore S)) ()"

definition dual_ListCaptureVerifications ::
  "'p Store \<Rightarrow> 's Store \<Rightarrow> string \<Rightarrow> go_int \<Rightarrow> (('p, 's) dual, (CaptureVerificationRecord list)) meth"
           where
  "dual_ListCaptureVerifications P S chatSessionID limit =
     read_required [] (map_option (\<lambda>w. ListCaptureVerifications w chatSessionID limit)
           (as_CaptureVerificationStore P))"

definition dual_SaveCaptureVerification ::
  "'p Store \<Rightarrow> 's Store \<Rightarrow> CaptureVerificationRecord \<Rightarrow> (('p, 's) dual, CaptureVerificationRecord)
           meth" where
  "dual_SaveCaptureVerification P S row =
     save_required
       (map_option SaveCaptureVerification (as_CaptureVerificationStore P))
       (map_option SaveCaptureVerification (as_CaptureVerificationStore S)) row"

definition dual_UpdateCaptureVerificationRepair ::
  "'p Store \<Rightarrow> 's Store \<Rightarrow> go_int \<Rightarrow> string \<Rightarrow> string \<Rightarrow> string \<Rightarrow> go_int \<Rightarrow> bool \<Rightarrow> (('p, 's) dual, unit)
           meth" where
  "dual_UpdateCaptureVerificationRepair P S row_id state degradedReason repairEvidenceJSON
           repairedByID userInputPreserved =
     write_required
       (map_option (\<lambda>w _. UpdateCaptureVerificationRepair w row_id state degradedReason
           repairEvidenceJSON repairedByID userInputPreserved) (as_CaptureVerificationStore P))
       (map_option (\<lambda>w _. UpdateCaptureVerificationRepair w row_id state degradedReason
           repairEvidenceJSON repairedByID userInputPreserved) (as_CaptureVerificationStore S)) ()"

definition dual_ListStatusSchemaProposals ::
  "'p Store \<Rightarrow> 's Store \<Rightarrow> string \<Rightarrow> string \<Rightarrow> go_int \<Rightarrow> (('p, 's) dual, (StatusSchemaProposal list))
           meth" where
  "dual_ListStatusSchemaProposals P S chatSessionID proposalState limit =
     read_required [] (map_option (\<lambda>w. ListStatusSchemaProposals w chatSessionID proposalState
           limit) (as_StatusSchemaProposalStore P))"

definition dual_GetStatusSchemaProposal ::
  "'p Store \<Rightarrow> 's Store \<Rightarrow> go_int \<Rightarrow> (('p, 's) dual, StatusSchemaProposal) meth" where
  "dual_GetStatusSchemaProposal P S row_id =
     read_required zero_StatusSchemaProposal (map_option (\<lambda>w. GetStatusSchemaProposal w row_id)
           (as_StatusSchemaProposalStore P))"

definition dual_SaveStatusSchemaProposal ::
  "'p Store \<Rightarrow> 's Store \<Rightarrow> StatusSchemaProposal \<Rightarrow> (('p, 's) dual, StatusSchemaProposal) meth" where
  "dual_SaveStatusSchemaProposal P S row =
     save_required
       (map_option SaveStatusSchemaProposal (as_StatusSchemaProposalStore P))
       (map_option SaveStatusSchemaProposal (as_StatusSchemaProposalStore S)) row"

definition dual_UpdateStatusSchemaProposalReview ::
  "'p Store \<Rightarrow> 's Store \<Rightarrow> go_int \<Rightarrow> string \<Rightarrow> string \<Rightarrow> string \<Rightarrow> (('p, 's) dual, unit) meth" where
  "dual_UpdateStatusSchemaProposalReview P S row_id proposalState reviewNote reviewer =
     write_required
       (map_option (\<lambda>w _. UpdateStatusSchemaProposalReview w row_id proposalState reviewNote
           reviewer) (as_StatusSchemaProposalStore P))
       (map_option (\<lambda>w _. UpdateStatusSchemaProposalReview w row_id proposalState reviewNote
           reviewer) (as_StatusSchemaProposalStore S)) ()"

definition dual_ListStatusSchemaDefinitions ::
  "'p Store \<Rightarrow> 's Store \<Rightarrow> string \<Rightarrow> string \<Rightarrow> go_int \<Rightarrow> (('p, 's) dual, (StatusSchemaDefinition list))
           meth" where
  "dual_ListStatusSchemaDefinitions P S chatSessionID registryState limit =
     read_required [] (map_option (\<lambda>w. ListStatusSchemaDefinitions w chatSessionID registryState
           limit) (as_StatusSchemaRegistryStore P))"

definition dual_SaveStatusSchemaDefinitions ::
  "'p Store \<Rightarrow> 's Store \<Rightarrow> (StatusSchemaDefinition list) \<Rightarrow> (('p, 's) dual, (StatusSchemaDefinition
           list)) meth" where
  "dual_SaveStatusSchemaDefinitions P S rows =
     save_required
       (map_option SaveStatusSchemaDefinitions (as_StatusSchemaRegistryStore P))
       (map_option SaveStatusSchemaDefinitions (as_StatusSchemaRegistryStore S)) rows"

definition dual_GetStatusSchemaDefinitionByKey ::
  "'p Store \<Rightarrow> 's Store \<Rightarrow> string \<Rightarrow> string \<Rightarrow> string \<Rightarrow> (('p, 's) dual, StatusSchemaDefinition) meth"
           where
  "dual_GetStatusSchemaDefinitionByKey P S chatSessionID statusKey ownerScope =
     read_required zero_StatusSchemaDefinition (map_option (\<lambda>w. GetStatusSchemaDefinitionByKey w
           chatSessionID statusKey ownerScope) (as_StatusSchemaRegistryStore P))"

definition dual_ListStatusCurrentValues ::
  "'p Store \<Rightarrow> 's Store \<Rightarrow> string \<Rightarrow> string \<Rightarrow> string \<Rightarrow> string \<Rightarrow> go_int \<Rightarrow> (('p, 's) dual,
           (StatusCurrentValue list)) meth" where
  "dual_ListStatusCurrentValues P S chatSessionID ownerScope ownerID statusKey limit =
     read_required [] (map_option (\<lambda>w. ListStatusCurrentValues w chatSessionID ownerScope ownerID
           statusKey limit) (as_StatusCurrentValueStore P))"

definition dual_SaveStatusCurrentValue ::
  "'p Store \<Rightarrow> 's Store \<Rightarrow> StatusCurrentValue \<Rightarrow> (('p, 's) dual, StatusCurrentValue) meth" where
  "dual_SaveStatusCurrentValue P S row =
     save_required
       (map_option SaveStatusCurrentValue (as_StatusCurrentValueStore P))
       (map_option SaveStatusCurrentValue (as_StatusCurrentValueStore S)) row"

definition dual_ListStatusChangeEvents ::
  "'p Store \<Rightarrow> 's Store \<Rightarrow> string \<Rightarrow> string \<Rightarrow> string \<Rightarrow> string \<Rightarrow> go_int \<Rightarrow> (('p, 's) dual,
           (StatusChangeEvent list)) meth" where
  "dual_ListStatusChangeEvents P S chatSessionID ownerScope ownerID statusKey limit =
     read_required [] (map_option (\<lambda>w. ListStatusChangeEvents w chatSessionID ownerScope ownerID
           statusKey limit) (as_StatusLifecycleStore P))"

definition dual_SaveStatusChangeEvent ::
  "'p Store \<Rightarrow> 's Store \<Rightarrow> StatusChangeEvent \<Rightarrow> (('p, 's) dual, StatusChangeEvent) meth" where
  "dual_SaveStatusChangeEvent P S row =
     save_required
       (map_option SaveStatusChangeEvent (as_StatusLifecycleStore P))
       (map_option SaveStatusChangeEvent (as_StatusLifecycleStore S)) row"

definition dual_GetStatusChangeEventBySourceRevision ::
  "'p Store \<Rightarrow> 's Store \<Rightarrow> string \<Rightarrow> string \<Rightarrow> string \<Rightarrow> go_int \<Rightarrow> (('p, 's) dual, StatusChangeEvent)
           meth" where
  "dual_GetStatusChangeEventBySourceRevision P S chatSessionID statusKey sourceRevision sourceTurn
           =
     read_required zero_StatusChangeEvent (map_option (\<lambda>w. GetStatusChangeEventBySourceRevision w
           chatSessionID statusKey sourceRevision sourceTurn)
           (as_StatusChangeEventSourceLookupStore P))"

definition dual_GetLatestCurrentProjectionStatusChangeEvent ::
  "'p Store \<Rightarrow> 's Store \<Rightarrow> string \<Rightarrow> string \<Rightarrow> (('p, 's) dual, StatusChangeEvent) meth" where
  "dual_GetLatestCurrentProjectionStatusChangeEvent P S chatSessionID statusKey =
     read_required zero_StatusChangeEvent (map_option (\<lambda>w.
           GetLatestCurrentProjectionStatusChangeEvent w chatSessionID statusKey)
           (as_StatusChangeEventSourceLookupStore P))"

definition dual_ApplyReversibleStatusTransition ::
  "'p Store \<Rightarrow> 's Store \<Rightarrow> ReversibleStatusTransition \<Rightarrow> (('p, 's) dual,
           ReversibleStatusTransitionResult) meth" where
  "dual_ApplyReversibleStatusTransition P S transition =
     (case as_ReversibleStatusTransitionStore P of
     None \<Rightarrow> read_fallback zero_ReversibleStatusTransitionResult None
       (map_option (\<lambda>w. ApplyReversibleStatusTransition w transition)
           (as_ReversibleStatusTransitionStore S))
   | Some p \<Rightarrow> patch_required zero_ReversibleStatusTransitionResult id
       (Some (ApplyReversibleStatusTransition p transition))
       (map_option (\<lambda>w. ApplyReversibleStatusTransition w transition)
           (as_ReversibleStatusTransitionStore S)))"

definition dual_ListBodyRepairArtifacts ::
  "'p Store \<Rightarrow> 's Store \<Rightarrow> string \<Rightarrow> string \<Rightarrow> string \<Rightarrow> (('p, 's) dual, (StateRepairArtifactChange
           list)) meth" where
  "dual_ListBodyRepairArtifacts P S sid entityID name =
     read_fallback []
       (map_option (\<lambda>w. ListBodyRepairArtifacts w sid entityID name) (as_StateRepairArtifactReader
           P))
       (map_option (\<lambda>w. ListBodyRepairArtifacts w sid entityID name) (as_StateRepairArtifactReader
           S))"

definition dual_GetReversibleStatusEventBySourceUnit ::
  "'p Store \<Rightarrow> 's Store \<Rightarrow> string \<Rightarrow> string \<Rightarrow> string \<Rightarrow> (('p, 's) dual, StatusChangeEvent) meth" where
  "dual_GetReversibleStatusEventBySourceUnit P S chatSessionID sourceRevision sourceUnitID =
     read_fallback zero_StatusChangeEvent
       (map_option (\<lambda>w. GetReversibleStatusEventBySourceUnit w chatSessionID sourceRevision
           sourceUnitID) (as_ReversibleStatusTransitionStore P))
       (map_option (\<lambda>w. GetReversibleStatusEventBySourceUnit w chatSessionID sourceRevision
           sourceUnitID) (as_ReversibleStatusTransitionStore S))"

definition dual_ListReversibleStatusCurrentValues ::
  "'p Store \<Rightarrow> 's Store \<Rightarrow> string \<Rightarrow> string \<Rightarrow> (string list) \<Rightarrow> (('p, 's) dual, (StatusCurrentValue
           list)) meth" where
  "dual_ListReversibleStatusCurrentValues P S chatSessionID ownerScope statusKeys =
     read_fallback []
       (map_option (\<lambda>w. ListReversibleStatusCurrentValues w chatSessionID ownerScope statusKeys)
           (as_ReversibleStatusTransitionStore P))
       (map_option (\<lambda>w. ListReversibleStatusCurrentValues w chatSessionID ownerScope statusKeys)
           (as_ReversibleStatusTransitionStore S))"

definition dual_ListLatestReversibleCurrentProjectionEvents ::
  "'p Store \<Rightarrow> 's Store \<Rightarrow> string \<Rightarrow> (string list) \<Rightarrow> (('p, 's) dual, (StatusChangeEvent list)) meth"
           where
  "dual_ListLatestReversibleCurrentProjectionEvents P S chatSessionID statusKeys =
     read_fallback []
       (map_option (\<lambda>w. ListLatestReversibleCurrentProjectionEvents w chatSessionID statusKeys)
           (as_ReversibleStatusTransitionStore P))
       (map_option (\<lambda>w. ListLatestReversibleCurrentProjectionEvents w chatSessionID statusKeys)
           (as_ReversibleStatusTransitionStore S))"

definition dual_ListStatusEffects ::
  "'p Store \<Rightarrow> 's Store \<Rightarrow> string \<Rightarrow> string \<Rightarrow> string \<Rightarrow> string \<Rightarrow> go_int \<Rightarrow> (('p, 's) dual,
           (StatusEffect list)) meth" where
  "dual_ListStatusEffects P S chatSessionID ownerScope ownerID effectState limit =
     read_required [] (map_option (\<lambda>w. ListStatusEffects w chatSessionID ownerScope ownerID
           effectState limit) (as_StatusLifecycleStore P))"

definition dual_SaveStatusEffect ::
  "'p Store \<Rightarrow> 's Store \<Rightarrow> StatusEffect \<Rightarrow> (('p, 's) dual, StatusEffect) meth" where
  "dual_SaveStatusEffect P S row =
     save_required
       (map_option SaveStatusEffect (as_StatusLifecycleStore P))
       (map_option SaveStatusEffect (as_StatusLifecycleStore S)) row"

definition dual_UpdateStatusEffectState ::
  "'p Store \<Rightarrow> 's Store \<Rightarrow> go_int \<Rightarrow> string \<Rightarrow> string \<Rightarrow> go_int \<Rightarrow> (('p, 's) dual, unit) meth" where
  "dual_UpdateStatusEffectState P S row_id effectState clearedEvidenceJSON clearedTurn =
     write_required
       (map_option (\<lambda>w _. UpdateStatusEffectState w row_id effectState clearedEvidenceJSON
           clearedTurn) (as_StatusLifecycleStore P))
       (map_option (\<lambda>w _. UpdateStatusEffectState w row_id effectState clearedEvidenceJSON
           clearedTurn) (as_StatusLifecycleStore S)) ()"

definition dual_GetEpisodeSummary ::
  "'p Store \<Rightarrow> 's Store \<Rightarrow> go_int \<Rightarrow> (('p, 's) dual, (EpisodeSummary option)) meth" where
  "dual_GetEpisodeSummary P S episodeID =
     on_primary (GetEpisodeSummary P episodeID)"

definition dual_SaveEpisodeSummary ::
  "'p Store \<Rightarrow> 's Store \<Rightarrow> EpisodeSummary \<Rightarrow> (('p, 's) dual, EpisodeSummary) meth" where
  "dual_SaveEpisodeSummary P S item =
     write_required_copy
       (map_option SaveEpisodeSummary (as_EpisodeSummaryStore P))
       (map_option SaveEpisodeSummary (as_EpisodeSummaryStore S)) item"

definition dual_DeleteEpisodeSummary ::
  "'p Store \<Rightarrow> 's Store \<Rightarrow> go_int \<Rightarrow> (('p, 's) dual, unit) meth" where
  "dual_DeleteEpisodeSummary P S episodeID =
     write_required
       (map_option (\<lambda>w _. w episodeID) (as_DeleteEpisodeSummary P))
       (map_option (\<lambda>w _. w episodeID) (as_DeleteEpisodeSummary S)) ()"

definition dual_DeleteEpisodeSummariesInRange ::
  "'p Store \<Rightarrow> 's Store \<Rightarrow> string \<Rightarrow> go_int \<Rightarrow> go_int \<Rightarrow> (('p, 's) dual, go_int) meth" where
  "dual_DeleteEpisodeSummariesInRange P S sid fromTurn toTurn =
     patch_required 0 (\<lambda>_. 0)
       (map_option (\<lambda>w. w sid fromTurn toTurn) (as_DeleteEpisodeSummariesInRange P))
       (map_option (\<lambda>w. w sid fromTurn toTurn) (as_DeleteEpisodeSummariesInRange S))"

subsection \<open>The store\<close>

definition dual_RollbackStore :: "'p Store \<Rightarrow> 's Store \<Rightarrow> ('p, 's) dual RollbackStore" where
  "dual_RollbackStore P S = \<lparr>
     DeleteChatLogs = (\<lambda>sid fromTurn. dualWriteRollback ''DeleteChatLogs''
       (map_option (\<lambda>w. DeleteChatLogs w sid fromTurn) (as_RollbackStore P))
       (map_option (\<lambda>w. DeleteChatLogs w sid fromTurn) (as_RollbackStore S))),
     DeleteEffectiveInputs = (\<lambda>sid fromTurn. dualWriteRollback ''DeleteEffectiveInputs''
       (map_option (\<lambda>w. DeleteEffectiveInputs w sid fromTurn) (as_RollbackStore P))
       (map_option (\<lambda>w. DeleteEffectiveInputs w sid fromTurn) (as_RollbackStore S))),
     DeleteMemories = (\<lambda>sid fromTurn. dualWriteRollback ''DeleteMemories''
       (map_option (\<lambda>w. DeleteMemories w sid fromTurn) (as_RollbackStore P))
       (map_option (\<lambda>w. DeleteMemories w sid fromTurn) (as_RollbackStore S))),
     DeleteEvidence = (\<lambda>sid fromTurn. dualWriteRollback ''DeleteEvidence''
       (map_option (\<lambda>w. DeleteEvidence w sid fromTurn) (as_RollbackStore P))
       (map_option (\<lambda>w. DeleteEvidence w sid fromTurn) (as_RollbackStore S))),
     DeleteKGTriples = (\<lambda>sid fromTurn. dualWriteRollback ''DeleteKGTriples''
       (map_option (\<lambda>w. DeleteKGTriples w sid fromTurn) (as_RollbackStore P))
       (map_option (\<lambda>w. DeleteKGTriples w sid fromTurn) (as_RollbackStore S))),
     DeleteCriticFeedback = (\<lambda>sid fromTurn. dualWriteRollback ''DeleteCriticFeedback''
       (map_option (\<lambda>w. DeleteCriticFeedback w sid fromTurn) (as_RollbackStore P))
       (map_option (\<lambda>w. DeleteCriticFeedback w sid fromTurn) (as_RollbackStore S))),
     DeleteCharacterEvents = (\<lambda>sid fromTurn. dualWriteRollback ''DeleteCharacterEvents''
       (map_option (\<lambda>w. DeleteCharacterEvents w sid fromTurn) (as_RollbackStore P))
       (map_option (\<lambda>w. DeleteCharacterEvents w sid fromTurn) (as_RollbackStore S))),
     DeleteEntities = (\<lambda>sid fromTurn. dualWriteRollback ''DeleteEntities''
       (map_option (\<lambda>w. DeleteEntities w sid fromTurn) (as_RollbackStore P))
       (map_option (\<lambda>w. DeleteEntities w sid fromTurn) (as_RollbackStore S))),
     DeleteTrustStates = (\<lambda>sid fromTurn. dualWriteRollback ''DeleteTrustStates''
       (map_option (\<lambda>w. DeleteTrustStates w sid fromTurn) (as_RollbackStore P))
       (map_option (\<lambda>w. DeleteTrustStates w sid fromTurn) (as_RollbackStore S))),
     DeleteStorylines = (\<lambda>sid fromTurn. dualWriteRollback ''DeleteStorylines''
       (map_option (\<lambda>w. DeleteStorylines w sid fromTurn) (as_RollbackStore P))
       (map_option (\<lambda>w. DeleteStorylines w sid fromTurn) (as_RollbackStore S))),
     DeleteWorldRules = (\<lambda>sid fromTurn. dualWriteRollback ''DeleteWorldRules''
       (map_option (\<lambda>w. DeleteWorldRules w sid fromTurn) (as_RollbackStore P))
       (map_option (\<lambda>w. DeleteWorldRules w sid fromTurn) (as_RollbackStore S))),
     DeleteCharacterStates = (\<lambda>sid fromTurn. dualWriteRollback ''DeleteCharacterStates''
       (map_option (\<lambda>w. DeleteCharacterStates w sid fromTurn) (as_RollbackStore P))
       (map_option (\<lambda>w. DeleteCharacterStates w sid fromTurn) (as_RollbackStore S))),
     DeletePendingThreads = (\<lambda>sid fromTurn. dualWriteRollback ''DeletePendingThreads''
       (map_option (\<lambda>w. DeletePendingThreads w sid fromTurn) (as_RollbackStore P))
       (map_option (\<lambda>w. DeletePendingThreads w sid fromTurn) (as_RollbackStore S))),
     DeleteActiveStates = (\<lambda>sid fromTurn. dualWriteRollback ''DeleteActiveStates''
       (map_option (\<lambda>w. DeleteActiveStates w sid fromTurn) (as_RollbackStore P))
       (map_option (\<lambda>w. DeleteActiveStates w sid fromTurn) (as_RollbackStore S))),
     DeleteCanonicalStateLayers = (\<lambda>sid fromTurn. dualWriteRollback ''DeleteCanonicalStateLayers''
       (map_option (\<lambda>w. DeleteCanonicalStateLayers w sid fromTurn) (as_RollbackStore P))
       (map_option (\<lambda>w. DeleteCanonicalStateLayers w sid fromTurn) (as_RollbackStore S))),
     DeleteEpisodeSummaries = (\<lambda>sid fromTurn. dualWriteRollback ''DeleteEpisodeSummaries''
       (map_option (\<lambda>w. DeleteEpisodeSummaries w sid fromTurn) (as_RollbackStore P))
       (map_option (\<lambda>w. DeleteEpisodeSummaries w sid fromTurn) (as_RollbackStore S))),
     DeleteGuidancePlanState = (\<lambda>sid fromTurn. dualWriteRollback ''DeleteGuidancePlanState''
       (map_option (\<lambda>w. DeleteGuidancePlanState w sid fromTurn) (as_RollbackStore P))
       (map_option (\<lambda>w. DeleteGuidancePlanState w sid fromTurn) (as_RollbackStore S))),
     DeleteChapterSummaries = (\<lambda>sid fromTurn. dualWriteRollback ''DeleteChapterSummaries''
       (map_option (\<lambda>w. DeleteChapterSummaries w sid fromTurn) (as_RollbackStore P))
       (map_option (\<lambda>w. DeleteChapterSummaries w sid fromTurn) (as_RollbackStore S))),
     DeleteArcSummaries = (\<lambda>sid fromTurn. dualWriteRollback ''DeleteArcSummaries''
       (map_option (\<lambda>w. DeleteArcSummaries w sid fromTurn) (as_RollbackStore P))
       (map_option (\<lambda>w. DeleteArcSummaries w sid fromTurn) (as_RollbackStore S))),
     DeleteSagaDigests = (\<lambda>sid fromTurn. dualWriteRollback ''DeleteSagaDigests''
       (map_option (\<lambda>w. DeleteSagaDigests w sid fromTurn) (as_RollbackStore P))
       (map_option (\<lambda>w. DeleteSagaDigests w sid fromTurn) (as_RollbackStore S))),
     DeleteSessionActiveScopes = (\<lambda>sid fromTurn. dualWriteRollback ''DeleteSessionActiveScopes''
       (map_option (\<lambda>w. DeleteSessionActiveScopes w sid fromTurn) (as_RollbackStore P))
       (map_option (\<lambda>w. DeleteSessionActiveScopes w sid fromTurn) (as_RollbackStore S))),
     DeleteProtagonistEntityMemories = (\<lambda>sid fromTurn. dualWriteRollback
           ''DeleteProtagonistEntityMemories''
       (map_option (\<lambda>w. DeleteProtagonistEntityMemories w sid fromTurn) (as_RollbackStore P))
       (map_option (\<lambda>w. DeleteProtagonistEntityMemories w sid fromTurn) (as_RollbackStore S))),
     DeleteConsequenceRecords = (\<lambda>sid fromTurn. dualWriteRollback ''DeleteConsequenceRecords''
       (map_option (\<lambda>w. DeleteConsequenceRecords w sid fromTurn) (as_RollbackStore P))
       (map_option (\<lambda>w. DeleteConsequenceRecords w sid fromTurn) (as_RollbackStore S))),
     DeletePsychologyBranches = (\<lambda>sid fromTurn. dualWriteRollback ''DeletePsychologyBranches''
       (map_option (\<lambda>w. DeletePsychologyBranches w sid fromTurn) (as_RollbackStore P))
       (map_option (\<lambda>w. DeletePsychologyBranches w sid fromTurn) (as_RollbackStore S))),
     DeleteThemeOffscreenCarries = (\<lambda>sid fromTurn. dualWriteRollback
           ''DeleteThemeOffscreenCarries''
       (map_option (\<lambda>w. DeleteThemeOffscreenCarries w sid fromTurn) (as_RollbackStore P))
       (map_option (\<lambda>w. DeleteThemeOffscreenCarries w sid fromTurn) (as_RollbackStore S))),
     DeleteCaptureVerificationRecords = (\<lambda>sid fromTurn. dualWriteRollback
           ''DeleteCaptureVerificationRecords''
       (map_option (\<lambda>w. DeleteCaptureVerificationRecords w sid fromTurn) (as_RollbackStore P))
       (map_option (\<lambda>w. DeleteCaptureVerificationRecords w sid fromTurn) (as_RollbackStore S))),
     DeleteStatusCurrentValues = (\<lambda>sid fromTurn. dualWriteRollback ''DeleteStatusCurrentValues''
       (map_option (\<lambda>w. DeleteStatusCurrentValues w sid fromTurn) (as_RollbackStore P))
       (map_option (\<lambda>w. DeleteStatusCurrentValues w sid fromTurn) (as_RollbackStore S))),
     DeleteStatusChangeEvents = (\<lambda>sid fromTurn. dualWriteRollback ''DeleteStatusChangeEvents''
       (map_option (\<lambda>w. DeleteStatusChangeEvents w sid fromTurn) (as_RollbackStore P))
       (map_option (\<lambda>w. DeleteStatusChangeEvents w sid fromTurn) (as_RollbackStore S))),
     DeleteStatusEffects = (\<lambda>sid fromTurn. dualWriteRollback ''DeleteStatusEffects''
       (map_option (\<lambda>w. DeleteStatusEffects w sid fromTurn) (as_RollbackStore P))
       (map_option (\<lambda>w. DeleteStatusEffects w sid fromTurn) (as_RollbackStore S))),
     DeleteSession = (\<lambda>sid. dualWriteRollback ''DeleteSession''
       (map_option (\<lambda>w. DeleteSession w sid) (as_RollbackStore P))
       (map_option (\<lambda>w. DeleteSession w sid) (as_RollbackStore S)))\<rparr>"

definition dual_store :: "'p Store \<Rightarrow> 's Store \<Rightarrow> ('p, 's) dual Store" where
  "dual_store P S = \<lparr>
     SaveChatLog = dual_SaveChatLog P S,
     ListChatLogs = dual_ListChatLogs P S,
     SaveEffectiveInput = dual_SaveEffectiveInput P S,
     GetEffectiveInput = dual_GetEffectiveInput P S,
     SaveMemory = dual_SaveMemory P S,
     ListMemories = dual_ListMemories P S,
     SaveEvidence = dual_SaveEvidence P S,
     ListEvidence = dual_ListEvidence P S,
     SaveKGTriple = dual_SaveKGTriple P S,
     ListKGTriples = dual_ListKGTriples P S,
     SaveAuditLog = dual_SaveAuditLog P S,
     ListAuditLogs = dual_ListAuditLogs P S,
     SaveCriticFeedback = dual_SaveCriticFeedback P S,
     ListCriticFeedback = dual_ListCriticFeedback P S,
     SaveCharacterEvent = dual_SaveCharacterEvent P S,
     ListCharacterEvents = dual_ListCharacterEvents P S,
     Stats = dual_Stats P S,
     ListSessions = dual_ListSessions P S,
     GetResumePack = dual_GetResumePack P S,
     ListStorylines = dual_ListStorylines P S,
     ListWorldRules = dual_ListWorldRules P S,
     ListInheritedWorldRules = dual_ListInheritedWorldRules P S,
     ListCharacterStates = dual_ListCharacterStates P S,
     GetCharacterState = dual_GetCharacterState P S,
     ListPendingThreads = dual_ListPendingThreads P S,
     ListActiveStates = dual_ListActiveStates P S,
     ListCanonicalStateLayers = dual_ListCanonicalStateLayers P S,
     ListEpisodeSummaries = dual_ListEpisodeSummaries P S,
     GetEpisodeSummary = dual_GetEpisodeSummary P S,
     as_LogicalTurnReplacementStore = Some \<lparr>ReplaceLogicalTurn = dual_ReplaceLogicalTurn P S,
       RollbackCanonicalTail = dual_RollbackCanonicalTail P S\<rparr>,
     as_PrepareTurnRangeStore = Some \<lparr>LatestSessionTurnIndex = dual_LatestSessionTurnIndex P S,
       ListMemoriesRange = dual_ListMemoriesRange P S,
       ListEvidenceRange = dual_ListEvidenceRange P S,
       ListKGTriplesRange = dual_ListKGTriplesRange P S,
       ListCharacterStatesCurrentBefore = dual_ListCharacterStatesCurrentBefore P S,
       ListActiveStatesRange = dual_ListActiveStatesRange P S,
       ListCanonicalStateLayersRange = dual_ListCanonicalStateLayersRange P S\<rparr>,
     as_TimelineTurnIndexStore = Some \<lparr>LatestTimelineTurnIndex = dual_LatestTimelineTurnIndex P S\<rparr>,
     as_SessionStateSnapshotReader = Some \<lparr>ReadSessionStateSnapshot =
           dual_ReadSessionStateSnapshot P S\<rparr>,
     as_ExplorerMutationStore = Some \<lparr>UpdateMemoryExplorerFields = dual_UpdateMemoryExplorerFields
           P S,
       UpdateKGTripleExplorerFields = dual_UpdateKGTripleExplorerFields P S,
       UpdateDirectEvidenceExplorerFields = dual_UpdateDirectEvidenceExplorerFields P S,
       DeleteMemoryByID = dual_DeleteMemoryByID P S,
       DeleteDirectEvidenceByID = dual_DeleteDirectEvidenceByID P S,
       DeleteKGTripleByID = dual_DeleteKGTripleByID P S,
       DeleteCharacterByName = dual_DeleteCharacterByName P S\<rparr>,
     as_AuditLogCounter = Some \<lparr>CountAuditLogs = dual_CountAuditLogs P S\<rparr>,
     as_EntityIdentityLinkWriter = Some \<lparr>SaveEntityIdentityLink = dual_SaveEntityIdentityLink P S\<rparr>,
     as_EntityIdentityWriter = Some \<lparr>SaveEntityIdentity = dual_SaveEntityIdentity P S,
       SaveEntityIdentitySurface = dual_SaveEntityIdentitySurface P S,
       SaveEntityIdentityArtifactBinding = dual_SaveEntityIdentityArtifactBinding P S,
       SaveSpeakerAttribution = dual_SaveSpeakerAttribution P S\<rparr>,
     as_ReviewedEntityIdentityResolver = Some \<lparr>ResolveReviewedCanonicalEntityID =
           dual_ResolveReviewedCanonicalEntityID P S\<rparr>,
     as_EntityIdentityCatalogReader = Some \<lparr>ListActiveEntityIdentities =
           dual_ListActiveEntityIdentities P S,
       ListActiveEntityIdentitySurfaces = dual_ListActiveEntityIdentitySurfaces P S,
       ListReviewedEntityIdentityLinks = dual_ListReviewedEntityIdentityLinks P S\<rparr>,
     as_UniqueActiveEntitySurfaceResolver = Some \<lparr>ResolveUniqueActiveEntityIDBySurface =
           dual_ResolveUniqueActiveEntityIDBySurface P S\<rparr>,
     as_UniqueActiveEntitySurfaceIdentityResolver = Some
           \<lparr>ResolveUniqueActiveEntityIdentityBySurface =
           dual_ResolveUniqueActiveEntityIdentityBySurface P S\<rparr>,
     as_CharacterPerspectiveMemoryReader = Some \<lparr>ListCharacterPerspectiveMemoryUnits =
           dual_ListCharacterPerspectiveMemoryUnits P S\<rparr>,
     as_ActiveInteractionMemoryReader = Some \<lparr>ListActiveInteractionMemoryUnits =
           dual_ListActiveInteractionMemoryUnits P S\<rparr>,
     as_GeneralVectorPreciseMemoryReader = Some \<lparr>ListGeneralVectorPreciseMemoryUnits =
           dual_ListGeneralVectorPreciseMemoryUnits P S\<rparr>,
     as_PreciseMemoryWriter = Some \<lparr>SavePreciseMemoryUnit = dual_SavePreciseMemoryUnit P S\<rparr>,
     as_PreciseMemoryWriteAvailability = Some \<lparr>PreciseMemoryWritesEnabled =
           dual_PreciseMemoryWritesEnabled P S\<rparr>,
     as_MemoryAdmissionWriter = Some \<lparr>CommitMemoryAdmission = dual_CommitMemoryAdmission P S\<rparr>,
     as_MemoryAdmissionWriteAvailability = Some \<lparr>MemoryAdmissionWritesEnabled =
           dual_MemoryAdmissionWritesEnabled P S\<rparr>,
     as_SourceRevisionStore = Some \<lparr>RegisterAcceptedSourceRevision =
           dual_RegisterAcceptedSourceRevision P S,
       GetSourceRevision = dual_GetSourceRevision P S,
       IsSourceRevisionActive = dual_IsSourceRevisionActive P S,
       InvalidateSourceRevisions = dual_InvalidateSourceRevisions P S\<rparr>,
     as_MemoryDerivationLifecycleAvailability = Some \<lparr>MemoryDerivationLifecycleEnabled =
           dual_MemoryDerivationLifecycleEnabled P S\<rparr>,
     as_CriticInputSnapshotStore = Some \<lparr>SaveCriticInputSnapshot = dual_SaveCriticInputSnapshot P
           S\<rparr>,
     as_ActiveSourceRevisionLister = Some \<lparr>ListActiveSourceRevisions =
           dual_ListActiveSourceRevisions P S\<rparr>,
     as_SourceRevisionHistoryLister = Some \<lparr>ListSourceRevisions = dual_ListSourceRevisions P S\<rparr>,
     as_MemoryReprocessingJobStore = Some \<lparr>EnqueueMemoryReprocessingJob =
           dual_EnqueueMemoryReprocessingJob P S,
       ClaimMemoryReprocessingJob = dual_ClaimMemoryReprocessingJob P S,
       CompleteMemoryReprocessingJob = dual_CompleteMemoryReprocessingJob P S,
       FailMemoryReprocessingJob = dual_FailMemoryReprocessingJob P S\<rparr>,
     as_MemoryReprocessingWakeScheduleStore = Some \<lparr>NextMemoryReprocessingWakeAt =
           dual_NextMemoryReprocessingWakeAt P S\<rparr>,
     as_MemoryVectorOutboxStore = Some \<lparr>EnqueueMemoryVectorOperation =
           dual_EnqueueMemoryVectorOperation P S,
       ClaimMemoryVectorOperations = dual_ClaimMemoryVectorOperations P S,
       CompleteMemoryVectorOperation = dual_CompleteMemoryVectorOperation P S,
       FailMemoryVectorOperation = dual_FailMemoryVectorOperation P S\<rparr>,
     as_MemoryVectorOutboxLaneStore = Some \<lparr>ClaimMemoryVectorOperationsByOperation =
           dual_ClaimMemoryVectorOperationsByOperation P S\<rparr>,
     as_MemoryVectorMaterializedCompletionStore = Some \<lparr>CompleteMemoryVectorMaterializedOperation
           = dual_CompleteMemoryVectorMaterializedOperation P S\<rparr>,
     as_MemoryVectorOutboxMaintenanceStore = Some \<lparr>CoalesceInactiveMemoryVectorDeleteOperations =
           dual_CoalesceInactiveMemoryVectorDeleteOperations P S\<rparr>,
     as_CharacterStateHistoryStore = Some \<lparr>ListCharacterStateHistory =
           dual_ListCharacterStateHistory P S\<rparr>,
     as_CharacterProvenanceRepairStore = Some \<lparr>ApplyCharacterProvenanceRepair =
           dual_ApplyCharacterProvenanceRepair P S\<rparr>,
     as_GuidancePlanStateStore = Some \<lparr>GetGuidancePlanState = dual_GetGuidancePlanState P S,
       UpsertGuidancePlanState = dual_UpsertGuidancePlanState P S\<rparr>,
     as_ConsequenceRecordStore = Some \<lparr>ListConsequenceRecords = dual_ListConsequenceRecords P S,
       SaveConsequenceRecord = dual_SaveConsequenceRecord P S,
       UpdateConsequenceRecordStatus = dual_UpdateConsequenceRecordStatus P S\<rparr>,
     as_PsychologyBranchStore = Some \<lparr>ListPsychologyBranches = dual_ListPsychologyBranches P S,
       SavePsychologyBranch = dual_SavePsychologyBranch P S,
       UpdatePsychologyBranchStatus = dual_UpdatePsychologyBranchStatus P S\<rparr>,
     as_ForkLineageStore = Some \<lparr>ListForkLineageRecords = dual_ListForkLineageRecords P S,
       SaveForkLineageRecord = dual_SaveForkLineageRecord P S\<rparr>,
     as_WorldlineTopologySnapshotStore = Some \<lparr>GetWorldlineTopologySnapshot =
           dual_GetWorldlineTopologySnapshot P S\<rparr>,
     as_ThemeOffscreenCarryStore = Some \<lparr>ListThemeOffscreenCarries =
           dual_ListThemeOffscreenCarries P S,
       SaveThemeOffscreenCarry = dual_SaveThemeOffscreenCarry P S,
       UpdateThemeOffscreenCarryStatus = dual_UpdateThemeOffscreenCarryStatus P S\<rparr>,
     as_CaptureVerificationStore = Some \<lparr>ListCaptureVerifications = dual_ListCaptureVerifications
           P S,
       SaveCaptureVerification = dual_SaveCaptureVerification P S,
       UpdateCaptureVerificationRepair = dual_UpdateCaptureVerificationRepair P S\<rparr>,
     as_StatusSchemaProposalStore = Some \<lparr>GetStatusSchemaProposal = dual_GetStatusSchemaProposal P
           S,
       ListStatusSchemaProposals = dual_ListStatusSchemaProposals P S,
       SaveStatusSchemaProposal = dual_SaveStatusSchemaProposal P S,
       UpdateStatusSchemaProposalReview = dual_UpdateStatusSchemaProposalReview P S\<rparr>,
     as_StatusSchemaRegistryStore = Some \<lparr>GetStatusSchemaDefinitionByKey =
           dual_GetStatusSchemaDefinitionByKey P S,
       ListStatusSchemaDefinitions = dual_ListStatusSchemaDefinitions P S,
       SaveStatusSchemaDefinitions = dual_SaveStatusSchemaDefinitions P S\<rparr>,
     as_StatusCurrentValueStore = Some \<lparr>ListStatusCurrentValues = dual_ListStatusCurrentValues P S,
       SaveStatusCurrentValue = dual_SaveStatusCurrentValue P S\<rparr>,
     as_StatusLifecycleStore = Some \<lparr>ListStatusChangeEvents = dual_ListStatusChangeEvents P S,
       SaveStatusChangeEvent = dual_SaveStatusChangeEvent P S,
       ListStatusEffects = dual_ListStatusEffects P S,
       SaveStatusEffect = dual_SaveStatusEffect P S,
       UpdateStatusEffectState = dual_UpdateStatusEffectState P S\<rparr>,
     as_StatusChangeEventSourceLookupStore = Some \<lparr>GetStatusChangeEventBySourceRevision =
           dual_GetStatusChangeEventBySourceRevision P S,
       GetLatestCurrentProjectionStatusChangeEvent =
           dual_GetLatestCurrentProjectionStatusChangeEvent P S\<rparr>,
     as_ReversibleStatusTransitionStore = Some \<lparr>ApplyReversibleStatusTransition =
           dual_ApplyReversibleStatusTransition P S,
       GetReversibleStatusEventBySourceUnit = dual_GetReversibleStatusEventBySourceUnit P S,
       ListReversibleStatusCurrentValues = dual_ListReversibleStatusCurrentValues P S,
       ListLatestReversibleCurrentProjectionEvents =
           dual_ListLatestReversibleCurrentProjectionEvents P S\<rparr>,
     as_StateRepairArtifactReader = Some \<lparr>ListBodyRepairArtifacts = dual_ListBodyRepairArtifacts P
           S\<rparr>,
     as_EpisodeSummaryStore = Some \<lparr>SaveEpisodeSummary = dual_SaveEpisodeSummary P S\<rparr>,
     as_RollbackStore = Some (dual_RollbackStore P S),
     as_Pinger = None,
     as_UpdateMemoryImportance = Some (dual_UpdateMemoryImportance P S),
     as_SaveEntity = Some (dual_SaveEntity P S),
     as_SaveTrust = Some (dual_SaveTrust P S),
     as_SaveStoryline = Some (dual_SaveStoryline P S),
     as_PatchStoryline = Some (dual_PatchStoryline P S),
     as_PatchStorylineTrust = Some (dual_PatchStorylineTrust P S),
     as_DeleteStoryline = Some (dual_DeleteStoryline P S),
     as_SaveWorldRule = Some (dual_SaveWorldRule P S),
     as_SaveCharacterState = Some (dual_SaveCharacterState P S),
     as_SavePendingThread = Some (dual_SavePendingThread P S),
     as_PatchPendingThread = Some (dual_PatchPendingThread P S),
     as_PatchPendingThreadTrust = Some (dual_PatchPendingThreadTrust P S),
     as_DeletePendingThread = Some (dual_DeletePendingThread P S),
     as_SaveActiveState = Some (dual_SaveActiveState P S),
     as_SaveCanonicalStateLayer = Some (dual_SaveCanonicalStateLayer P S),
     as_DeleteEpisodeSummary = Some (dual_DeleteEpisodeSummary P S),
     as_DeleteEpisodeSummariesInRange = Some (dual_DeleteEpisodeSummariesInRange P S),
     as_Close = None\<rparr>"

text \<open>A nil store is replaced by the no-op store.\<close>

definition or_noop :: "'st Store option \<Rightarrow> 'st Store" where
  "or_noop st = (case st of None \<Rightarrow> NewNoopStore | Some s \<Rightarrow> s)"

definition NewDualWriteStore ::
  "'p Store option \<Rightarrow> 's Store option \<Rightarrow> ('p, 's) dual Store" where
  "NewDualWriteStore primary shadow = dual_store (or_noop primary) (or_noop shadow)"

definition new_dual :: "'p \<Rightarrow> 's \<Rightarrow> ('p, 's) dual" where
  "new_dual p s = \<lparr>dual_primary = p, dual_shadow = s, shadowFailures = 0, shadowLastErr = None\<rparr>"

end
