(* ===== verification/Read_Only.thy ===== *)
theory Read_Only
  imports Store_Api
begin

text \<open>
  The read-only store, \<open>readOnlyStore\<close> of \<open>go-service/internal/store/readonly.go\<close>: reads go to the
  delegate \<open>R\<close>, writes return \<open>ErrNotEnabled\<close>. Its state is the delegate's.
\<close>

text \<open>\<open>s, ok := r.delegate.(I); if !ok { return zero, ErrNotEnabled }; return s.M(...)\<close>.\<close>

fun delegated :: "'r \<Rightarrow> ('st, 'r) meth option \<Rightarrow> ('st, 'r) meth" where
  "delegated zero None = raises ErrNotEnabled zero"
| "delegated zero (Some m) = m"

definition readonly_CountAuditLogs :: "'st Store \<Rightarrow> string \<Rightarrow> string \<Rightarrow> ('st, go_int) meth" where
  "readonly_CountAuditLogs R chatSessionID eventType st = (case as_AuditLogCounter R of
     Some w \<Rightarrow> CountAuditLogs w chatSessionID eventType st
   | None \<Rightarrow> (case ListAuditLogs R chatSessionID eventType 0 st of
       ((items, Some e), st1) \<Rightarrow> ((0, Some e), st1)
     | ((items, None), st1) \<Rightarrow> ((int (length items), None), st1)))"

definition readonly_PrepareTurnRangeStore :: "'st Store \<Rightarrow> 'st PrepareTurnRangeStore" where
  "readonly_PrepareTurnRangeStore R = \<lparr>
     LatestSessionTurnIndex = (\<lambda>chatSessionID. delegated 0 (map_option (\<lambda>w. LatestSessionTurnIndex
           w chatSessionID) (as_PrepareTurnRangeStore R))),
     ListMemoriesRange = (\<lambda>chatSessionID fromTurn toTurn includeIDs. delegated [] (map_option (\<lambda>w.
           ListMemoriesRange w chatSessionID fromTurn toTurn includeIDs) (as_PrepareTurnRangeStore
           R))),
     ListEvidenceRange = (\<lambda>chatSessionID fromTurn toTurn includeIDs. delegated [] (map_option (\<lambda>w.
           ListEvidenceRange w chatSessionID fromTurn toTurn includeIDs) (as_PrepareTurnRangeStore
           R))),
     ListKGTriplesRange = (\<lambda>chatSessionID fromTurn toTurn. delegated [] (map_option (\<lambda>w.
           ListKGTriplesRange w chatSessionID fromTurn toTurn) (as_PrepareTurnRangeStore R))),
     ListCharacterStatesCurrentBefore = (\<lambda>chatSessionID beforeTurn. delegated [] (map_option (\<lambda>w.
           ListCharacterStatesCurrentBefore w chatSessionID beforeTurn) (as_PrepareTurnRangeStore
           R))),
     ListActiveStatesRange = (\<lambda>chatSessionID fromTurn toTurn. delegated [] (map_option (\<lambda>w.
           ListActiveStatesRange w chatSessionID fromTurn toTurn) (as_PrepareTurnRangeStore R))),
     ListCanonicalStateLayersRange = (\<lambda>chatSessionID fromTurn toTurn. delegated [] (map_option
           (\<lambda>w. ListCanonicalStateLayersRange w chatSessionID fromTurn toTurn)
           (as_PrepareTurnRangeStore R)))\<rparr>"

definition readonly_TimelineTurnIndexStore :: "'st Store \<Rightarrow> 'st TimelineTurnIndexStore" where
  "readonly_TimelineTurnIndexStore R = \<lparr>
     LatestTimelineTurnIndex = (\<lambda>chatSessionID. delegated 0 (map_option (\<lambda>w.
           LatestTimelineTurnIndex w chatSessionID) (as_TimelineTurnIndexStore R)))\<rparr>"

definition readonly_SessionStateSnapshotReader :: "'st Store \<Rightarrow> 'st SessionStateSnapshotReader"
           where
  "readonly_SessionStateSnapshotReader R = \<lparr>
     ReadSessionStateSnapshot = (\<lambda>chatSessionID. delegated None (map_option (\<lambda>w.
           ReadSessionStateSnapshot w chatSessionID) (as_SessionStateSnapshotReader R)))\<rparr>"

definition readonly_AuditLogCounter :: "'st Store \<Rightarrow> 'st AuditLogCounter" where
  "readonly_AuditLogCounter R = \<lparr>
     CountAuditLogs = readonly_CountAuditLogs R\<rparr>"

definition readonly_ReviewedEntityIdentityResolver :: "'st Store \<Rightarrow> 'st
           ReviewedEntityIdentityResolver" where
  "readonly_ReviewedEntityIdentityResolver R = \<lparr>
     ResolveReviewedCanonicalEntityID = (\<lambda>chatSessionID sourceEntityID. delegated '''' (map_option
           (\<lambda>w. ResolveReviewedCanonicalEntityID w chatSessionID sourceEntityID)
           (as_ReviewedEntityIdentityResolver R)))\<rparr>"

definition readonly_EntityIdentityCatalogReader :: "'st Store \<Rightarrow> 'st EntityIdentityCatalogReader"
           where
  "readonly_EntityIdentityCatalogReader R = \<lparr>
     ListActiveEntityIdentities = (\<lambda>chatSessionID. delegated [] (map_option (\<lambda>w.
           ListActiveEntityIdentities w chatSessionID) (as_EntityIdentityCatalogReader R))),
     ListActiveEntityIdentitySurfaces = (\<lambda>chatSessionID. delegated [] (map_option (\<lambda>w.
           ListActiveEntityIdentitySurfaces w chatSessionID) (as_EntityIdentityCatalogReader R))),
     ListReviewedEntityIdentityLinks = (\<lambda>chatSessionID. delegated [] (map_option (\<lambda>w.
           ListReviewedEntityIdentityLinks w chatSessionID) (as_EntityIdentityCatalogReader R)))\<rparr>"

definition readonly_UniqueActiveEntitySurfaceResolver :: "'st Store \<Rightarrow> 'st
           UniqueActiveEntitySurfaceResolver" where
  "readonly_UniqueActiveEntitySurfaceResolver R = \<lparr>
     ResolveUniqueActiveEntityIDBySurface = (\<lambda>chatSessionID normalizedSurface. delegated ''''
           (map_option (\<lambda>w. ResolveUniqueActiveEntityIDBySurface w chatSessionID
           normalizedSurface) (as_UniqueActiveEntitySurfaceResolver R)))\<rparr>"

definition readonly_UniqueActiveEntitySurfaceIdentityResolver :: "'st Store \<Rightarrow> 'st
           UniqueActiveEntitySurfaceIdentityResolver" where
  "readonly_UniqueActiveEntitySurfaceIdentityResolver R = \<lparr>
     ResolveUniqueActiveEntityIdentityBySurface = (\<lambda>chatSessionID normalizedSurface. delegated
           zero_ResolvedEntityIdentity (map_option (\<lambda>w. ResolveUniqueActiveEntityIdentityBySurface
           w chatSessionID normalizedSurface) (as_UniqueActiveEntitySurfaceIdentityResolver R)))\<rparr>"

definition readonly_CharacterPerspectiveMemoryReader :: "'st Store \<Rightarrow> 'st
           CharacterPerspectiveMemoryReader" where
  "readonly_CharacterPerspectiveMemoryReader R = \<lparr>
     ListCharacterPerspectiveMemoryUnits = (\<lambda>chatSessionID knowledgeHolderEntityID. delegated []
           (map_option (\<lambda>w. ListCharacterPerspectiveMemoryUnits w chatSessionID
           knowledgeHolderEntityID) (as_CharacterPerspectiveMemoryReader R)))\<rparr>"

definition readonly_ActiveInteractionMemoryReader :: "'st Store \<Rightarrow> 'st
           ActiveInteractionMemoryReader" where
  "readonly_ActiveInteractionMemoryReader R = \<lparr>
     ListActiveInteractionMemoryUnits = (\<lambda>chatSessionID. delegated [] (map_option (\<lambda>w.
           ListActiveInteractionMemoryUnits w chatSessionID) (as_ActiveInteractionMemoryReader
           R)))\<rparr>"

definition readonly_GeneralVectorPreciseMemoryReader :: "'st Store \<Rightarrow> 'st
           GeneralVectorPreciseMemoryReader" where
  "readonly_GeneralVectorPreciseMemoryReader R = \<lparr>
     ListGeneralVectorPreciseMemoryUnits = (\<lambda>chatSessionID. delegated [] (map_option (\<lambda>w.
           ListGeneralVectorPreciseMemoryUnits w chatSessionID)
           (as_GeneralVectorPreciseMemoryReader R)))\<rparr>"

definition readonly_CharacterStateHistoryStore :: "'st Store \<Rightarrow> 'st CharacterStateHistoryStore"
           where
  "readonly_CharacterStateHistoryStore R = \<lparr>
     ListCharacterStateHistory = (\<lambda>chatSessionID characterName limit offset. delegated []
           (map_option (\<lambda>w. ListCharacterStateHistory w chatSessionID characterName limit offset)
           (as_CharacterStateHistoryStore R)))\<rparr>"

definition readonly_GuidancePlanStateStore :: "'st Store \<Rightarrow> 'st GuidancePlanStateStore" where
  "readonly_GuidancePlanStateStore R = \<lparr>
     GetGuidancePlanState = (\<lambda>chatSessionID. delegated None (map_option (\<lambda>w. GetGuidancePlanState
           w chatSessionID) (as_GuidancePlanStateStore R))),
     UpsertGuidancePlanState = (\<lambda>item. raises ErrNotEnabled item)\<rparr>"

definition readonly_ConsequenceRecordStore :: "'st Store \<Rightarrow> 'st ConsequenceRecordStore" where
  "readonly_ConsequenceRecordStore R = \<lparr>
     ListConsequenceRecords = (\<lambda>chatSessionID limit. delegated [] (map_option (\<lambda>w.
           ListConsequenceRecords w chatSessionID limit) (as_ConsequenceRecordStore R))),
     SaveConsequenceRecord = (\<lambda>row. raises ErrNotEnabled row),
     UpdateConsequenceRecordStatus = (\<lambda>_ _ _. raises ErrNotEnabled ())\<rparr>"

definition readonly_PsychologyBranchStore :: "'st Store \<Rightarrow> 'st PsychologyBranchStore" where
  "readonly_PsychologyBranchStore R = \<lparr>
     ListPsychologyBranches = (\<lambda>chatSessionID limit. delegated [] (map_option (\<lambda>w.
           ListPsychologyBranches w chatSessionID limit) (as_PsychologyBranchStore R))),
     SavePsychologyBranch = (\<lambda>row. raises ErrNotEnabled row),
     UpdatePsychologyBranchStatus = (\<lambda>_ _ _. raises ErrNotEnabled ())\<rparr>"

definition readonly_ForkLineageStore :: "'st Store \<Rightarrow> 'st ForkLineageStore" where
  "readonly_ForkLineageStore R = \<lparr>
     ListForkLineageRecords = (\<lambda>chatSessionID scopeID limit. delegated [] (map_option (\<lambda>w.
           ListForkLineageRecords w chatSessionID scopeID limit) (as_ForkLineageStore R))),
     SaveForkLineageRecord = (\<lambda>row. raises ErrNotEnabled row)\<rparr>"

definition readonly_WorldlineTopologySnapshotStore :: "'st Store \<Rightarrow> 'st
           WorldlineTopologySnapshotStore" where
  "readonly_WorldlineTopologySnapshotStore R = \<lparr>
     GetWorldlineTopologySnapshot = (\<lambda>anchorSessionID limit. delegated
           zero_WorldlineTopologySnapshot (map_option (\<lambda>w. GetWorldlineTopologySnapshot w
           anchorSessionID limit) (as_WorldlineTopologySnapshotStore R)))\<rparr>"

definition readonly_ThemeOffscreenCarryStore :: "'st Store \<Rightarrow> 'st ThemeOffscreenCarryStore" where
  "readonly_ThemeOffscreenCarryStore R = \<lparr>
     ListThemeOffscreenCarries = (\<lambda>chatSessionID surfaceType limit. delegated [] (map_option (\<lambda>w.
           ListThemeOffscreenCarries w chatSessionID surfaceType limit)
           (as_ThemeOffscreenCarryStore R))),
     SaveThemeOffscreenCarry = (\<lambda>row. raises ErrNotEnabled row),
     UpdateThemeOffscreenCarryStatus = (\<lambda>_ _ _. raises ErrNotEnabled ())\<rparr>"

definition readonly_CaptureVerificationStore :: "'st Store \<Rightarrow> 'st CaptureVerificationStore" where
  "readonly_CaptureVerificationStore R = \<lparr>
     ListCaptureVerifications = (\<lambda>chatSessionID limit. delegated [] (map_option (\<lambda>w.
           ListCaptureVerifications w chatSessionID limit) (as_CaptureVerificationStore R))),
     SaveCaptureVerification = (\<lambda>row. raises ErrNotEnabled row),
     UpdateCaptureVerificationRepair = (\<lambda>_ _ _ _ _ _. raises ErrNotEnabled ())\<rparr>"

definition readonly_StatusSchemaProposalStore :: "'st Store \<Rightarrow> 'st StatusSchemaProposalStore" where
  "readonly_StatusSchemaProposalStore R = \<lparr>
     GetStatusSchemaProposal = (\<lambda>row_id. delegated zero_StatusSchemaProposal (map_option (\<lambda>w.
           GetStatusSchemaProposal w row_id) (as_StatusSchemaProposalStore R))),
     ListStatusSchemaProposals = (\<lambda>chatSessionID proposalState limit. delegated [] (map_option
           (\<lambda>w. ListStatusSchemaProposals w chatSessionID proposalState limit)
           (as_StatusSchemaProposalStore R))),
     SaveStatusSchemaProposal = (\<lambda>row. raises ErrNotEnabled row),
     UpdateStatusSchemaProposalReview = (\<lambda>_ _ _ _. raises ErrNotEnabled ())\<rparr>"

definition readonly_StatusSchemaRegistryStore :: "'st Store \<Rightarrow> 'st StatusSchemaRegistryStore" where
  "readonly_StatusSchemaRegistryStore R = \<lparr>
     GetStatusSchemaDefinitionByKey = (\<lambda>chatSessionID statusKey ownerScope. delegated
           zero_StatusSchemaDefinition (map_option (\<lambda>w. GetStatusSchemaDefinitionByKey w
           chatSessionID statusKey ownerScope) (as_StatusSchemaRegistryStore R))),
     ListStatusSchemaDefinitions = (\<lambda>chatSessionID registryState limit. delegated [] (map_option
           (\<lambda>w. ListStatusSchemaDefinitions w chatSessionID registryState limit)
           (as_StatusSchemaRegistryStore R))),
     SaveStatusSchemaDefinitions = (\<lambda>rows. raises ErrNotEnabled rows)\<rparr>"

definition readonly_StatusCurrentValueStore :: "'st Store \<Rightarrow> 'st StatusCurrentValueStore" where
  "readonly_StatusCurrentValueStore R = \<lparr>
     ListStatusCurrentValues = (\<lambda>chatSessionID ownerScope ownerID statusKey limit. delegated []
           (map_option (\<lambda>w. ListStatusCurrentValues w chatSessionID ownerScope ownerID statusKey
           limit) (as_StatusCurrentValueStore R))),
     SaveStatusCurrentValue = (\<lambda>row. raises ErrNotEnabled row)\<rparr>"

definition readonly_StatusLifecycleStore :: "'st Store \<Rightarrow> 'st StatusLifecycleStore" where
  "readonly_StatusLifecycleStore R = \<lparr>
     ListStatusChangeEvents = (\<lambda>chatSessionID ownerScope ownerID statusKey limit. delegated []
           (map_option (\<lambda>w. ListStatusChangeEvents w chatSessionID ownerScope ownerID statusKey
           limit) (as_StatusLifecycleStore R))),
     SaveStatusChangeEvent = (\<lambda>row. raises ErrNotEnabled row),
     ListStatusEffects = (\<lambda>chatSessionID ownerScope ownerID effectState limit. delegated []
           (map_option (\<lambda>w. ListStatusEffects w chatSessionID ownerScope ownerID effectState
           limit) (as_StatusLifecycleStore R))),
     SaveStatusEffect = (\<lambda>row. raises ErrNotEnabled row),
     UpdateStatusEffectState = (\<lambda>_ _ _ _. raises ErrNotEnabled ())\<rparr>"

definition readonly_StatusChangeEventSourceLookupStore :: "'st Store \<Rightarrow> 'st
           StatusChangeEventSourceLookupStore" where
  "readonly_StatusChangeEventSourceLookupStore R = \<lparr>
     GetStatusChangeEventBySourceRevision = (\<lambda>chatSessionID statusKey sourceRevision sourceTurn.
           delegated zero_StatusChangeEvent (map_option (\<lambda>w. GetStatusChangeEventBySourceRevision
           w chatSessionID statusKey sourceRevision sourceTurn)
           (as_StatusChangeEventSourceLookupStore R))),
     GetLatestCurrentProjectionStatusChangeEvent = (\<lambda>chatSessionID statusKey. delegated
           zero_StatusChangeEvent (map_option (\<lambda>w. GetLatestCurrentProjectionStatusChangeEvent w
           chatSessionID statusKey) (as_StatusChangeEventSourceLookupStore R)))\<rparr>"

definition readonly_ReversibleStatusTransitionStore :: "'st Store \<Rightarrow> 'st
           ReversibleStatusTransitionStore" where
  "readonly_ReversibleStatusTransitionStore R = \<lparr>
     ApplyReversibleStatusTransition = (\<lambda>_. raises ErrNotEnabled
           zero_ReversibleStatusTransitionResult),
     GetReversibleStatusEventBySourceUnit = (\<lambda>chatSessionID sourceRevision sourceUnitID. delegated
           zero_StatusChangeEvent (map_option (\<lambda>w. GetReversibleStatusEventBySourceUnit w
           chatSessionID sourceRevision sourceUnitID) (as_ReversibleStatusTransitionStore R))),
     ListReversibleStatusCurrentValues = (\<lambda>chatSessionID ownerScope statusKeys. delegated []
           (map_option (\<lambda>w. ListReversibleStatusCurrentValues w chatSessionID ownerScope
           statusKeys) (as_ReversibleStatusTransitionStore R))),
     ListLatestReversibleCurrentProjectionEvents = (\<lambda>chatSessionID statusKeys. delegated []
           (map_option (\<lambda>w. ListLatestReversibleCurrentProjectionEvents w chatSessionID
           statusKeys) (as_ReversibleStatusTransitionStore R)))\<rparr>"

definition readonly_RollbackStore :: "'st Store \<Rightarrow> 'st RollbackStore" where
  "readonly_RollbackStore R = \<lparr>
     DeleteChatLogs = (\<lambda>_ _. raises ErrNotEnabled ()),
     DeleteEffectiveInputs = (\<lambda>_ _. raises ErrNotEnabled ()),
     DeleteMemories = (\<lambda>_ _. raises ErrNotEnabled ()),
     DeleteEvidence = (\<lambda>_ _. raises ErrNotEnabled ()),
     DeleteKGTriples = (\<lambda>_ _. raises ErrNotEnabled ()),
     DeleteCriticFeedback = (\<lambda>_ _. raises ErrNotEnabled ()),
     DeleteCharacterEvents = (\<lambda>_ _. raises ErrNotEnabled ()),
     DeleteEntities = (\<lambda>_ _. raises ErrNotEnabled ()),
     DeleteTrustStates = (\<lambda>_ _. raises ErrNotEnabled ()),
     DeleteStorylines = (\<lambda>_ _. raises ErrNotEnabled ()),
     DeleteWorldRules = (\<lambda>_ _. raises ErrNotEnabled ()),
     DeleteCharacterStates = (\<lambda>_ _. raises ErrNotEnabled ()),
     DeletePendingThreads = (\<lambda>_ _. raises ErrNotEnabled ()),
     DeleteActiveStates = (\<lambda>_ _. raises ErrNotEnabled ()),
     DeleteCanonicalStateLayers = (\<lambda>_ _. raises ErrNotEnabled ()),
     DeleteEpisodeSummaries = (\<lambda>_ _. raises ErrNotEnabled ()),
     DeleteGuidancePlanState = (\<lambda>_ _. raises ErrNotEnabled ()),
     DeleteChapterSummaries = (\<lambda>_ _. raises ErrNotEnabled ()),
     DeleteArcSummaries = (\<lambda>_ _. raises ErrNotEnabled ()),
     DeleteSagaDigests = (\<lambda>_ _. raises ErrNotEnabled ()),
     DeleteSessionActiveScopes = (\<lambda>_ _. raises ErrNotEnabled ()),
     DeleteProtagonistEntityMemories = (\<lambda>_ _. raises ErrNotEnabled ()),
     DeleteConsequenceRecords = (\<lambda>_ _. raises ErrNotEnabled ()),
     DeletePsychologyBranches = (\<lambda>_ _. raises ErrNotEnabled ()),
     DeleteThemeOffscreenCarries = (\<lambda>_ _. raises ErrNotEnabled ()),
     DeleteCaptureVerificationRecords = (\<lambda>_ _. raises ErrNotEnabled ()),
     DeleteStatusCurrentValues = (\<lambda>_ _. raises ErrNotEnabled ()),
     DeleteStatusChangeEvents = (\<lambda>_ _. raises ErrNotEnabled ()),
     DeleteStatusEffects = (\<lambda>_ _. raises ErrNotEnabled ()),
     DeleteSession = (\<lambda>_. raises ErrNotEnabled ())\<rparr>"

definition readonly_Pinger :: "'st Store \<Rightarrow> 'st Pinger" where
  "readonly_Pinger R = \<lparr>
     Ping = delegated () (map_option Ping (as_Pinger R))\<rparr>"

definition NewReadOnlyStore :: "'st Store \<Rightarrow> 'st Store" where
  "NewReadOnlyStore R = \<lparr>
     SaveChatLog = (\<lambda>entry. raises ErrNotEnabled entry),
     ListChatLogs = ListChatLogs R,
     SaveEffectiveInput = (\<lambda>inp. raises ErrNotEnabled inp),
     GetEffectiveInput = GetEffectiveInput R,
     SaveMemory = (\<lambda>m. raises ErrNotEnabled m),
     ListMemories = ListMemories R,
     SaveEvidence = (\<lambda>e. raises ErrNotEnabled e),
     ListEvidence = ListEvidence R,
     SaveKGTriple = (\<lambda>t. raises ErrNotEnabled t),
     ListKGTriples = ListKGTriples R,
     SaveAuditLog = (\<lambda>a. raises ErrNotEnabled a),
     ListAuditLogs = ListAuditLogs R,
     SaveCriticFeedback = (\<lambda>f. raises ErrNotEnabled f),
     ListCriticFeedback = ListCriticFeedback R,
     SaveCharacterEvent = (\<lambda>e. raises ErrNotEnabled e),
     ListCharacterEvents = ListCharacterEvents R,
     Stats = Stats R,
     ListSessions = ListSessions R,
     GetResumePack = GetResumePack R,
     ListStorylines = ListStorylines R,
     ListWorldRules = ListWorldRules R,
     ListInheritedWorldRules = ListInheritedWorldRules R,
     ListCharacterStates = ListCharacterStates R,
     GetCharacterState = GetCharacterState R,
     ListPendingThreads = ListPendingThreads R,
     ListActiveStates = ListActiveStates R,
     ListCanonicalStateLayers = ListCanonicalStateLayers R,
     ListEpisodeSummaries = ListEpisodeSummaries R,
     GetEpisodeSummary = GetEpisodeSummary R,
     as_LogicalTurnReplacementStore = None,
     as_PrepareTurnRangeStore = Some (readonly_PrepareTurnRangeStore R),
     as_TimelineTurnIndexStore = Some (readonly_TimelineTurnIndexStore R),
     as_SessionStateSnapshotReader = Some (readonly_SessionStateSnapshotReader R),
     as_ExplorerMutationStore = None,
     as_AuditLogCounter = Some (readonly_AuditLogCounter R),
     as_EntityIdentityLinkWriter = None,
     as_EntityIdentityWriter = None,
     as_ReviewedEntityIdentityResolver = Some (readonly_ReviewedEntityIdentityResolver R),
     as_EntityIdentityCatalogReader = Some (readonly_EntityIdentityCatalogReader R),
     as_UniqueActiveEntitySurfaceResolver = Some (readonly_UniqueActiveEntitySurfaceResolver R),
     as_UniqueActiveEntitySurfaceIdentityResolver = Some
           (readonly_UniqueActiveEntitySurfaceIdentityResolver R),
     as_CharacterPerspectiveMemoryReader = Some (readonly_CharacterPerspectiveMemoryReader R),
     as_ActiveInteractionMemoryReader = Some (readonly_ActiveInteractionMemoryReader R),
     as_GeneralVectorPreciseMemoryReader = Some (readonly_GeneralVectorPreciseMemoryReader R),
     as_PreciseMemoryWriter = None,
     as_PreciseMemoryWriteAvailability = None,
     as_MemoryAdmissionWriter = None,
     as_MemoryAdmissionWriteAvailability = None,
     as_SourceRevisionStore = None,
     as_MemoryDerivationLifecycleAvailability = None,
     as_CriticInputSnapshotStore = None,
     as_ActiveSourceRevisionLister = None,
     as_SourceRevisionHistoryLister = None,
     as_MemoryReprocessingJobStore = None,
     as_MemoryReprocessingWakeScheduleStore = None,
     as_MemoryVectorOutboxStore = None,
     as_MemoryVectorOutboxLaneStore = None,
     as_MemoryVectorMaterializedCompletionStore = None,
     as_MemoryVectorOutboxMaintenanceStore = None,
     as_CharacterStateHistoryStore = Some (readonly_CharacterStateHistoryStore R),
     as_CharacterProvenanceRepairStore = None,
     as_GuidancePlanStateStore = Some (readonly_GuidancePlanStateStore R),
     as_ConsequenceRecordStore = Some (readonly_ConsequenceRecordStore R),
     as_PsychologyBranchStore = Some (readonly_PsychologyBranchStore R),
     as_ForkLineageStore = Some (readonly_ForkLineageStore R),
     as_WorldlineTopologySnapshotStore = Some (readonly_WorldlineTopologySnapshotStore R),
     as_ThemeOffscreenCarryStore = Some (readonly_ThemeOffscreenCarryStore R),
     as_CaptureVerificationStore = Some (readonly_CaptureVerificationStore R),
     as_StatusSchemaProposalStore = Some (readonly_StatusSchemaProposalStore R),
     as_StatusSchemaRegistryStore = Some (readonly_StatusSchemaRegistryStore R),
     as_StatusCurrentValueStore = Some (readonly_StatusCurrentValueStore R),
     as_StatusLifecycleStore = Some (readonly_StatusLifecycleStore R),
     as_StatusChangeEventSourceLookupStore = Some (readonly_StatusChangeEventSourceLookupStore R),
     as_ReversibleStatusTransitionStore = Some (readonly_ReversibleStatusTransitionStore R),
     as_StateRepairArtifactReader = None,
     as_EpisodeSummaryStore = None,
     as_RollbackStore = Some (readonly_RollbackStore R),
     as_Pinger = Some (readonly_Pinger R),
     as_UpdateMemoryImportance = None,
     as_SaveEntity = Some (\<lambda>e. raises ErrNotEnabled e),
     as_SaveTrust = Some (\<lambda>t. raises ErrNotEnabled t),
     as_SaveStoryline = Some (\<lambda>s. raises ErrNotEnabled s),
     as_PatchStoryline = None,
     as_PatchStorylineTrust = None,
     as_DeleteStoryline = None,
     as_SaveWorldRule = Some (\<lambda>w. raises ErrNotEnabled w),
     as_SaveCharacterState = Some (\<lambda>c. raises ErrNotEnabled c),
     as_SavePendingThread = Some (\<lambda>p. raises ErrNotEnabled p),
     as_PatchPendingThread = None,
     as_PatchPendingThreadTrust = None,
     as_DeletePendingThread = None,
     as_SaveActiveState = Some (\<lambda>a. raises ErrNotEnabled a),
     as_SaveCanonicalStateLayer = Some (\<lambda>item. raises ErrNotEnabled item),
     as_DeleteEpisodeSummary = None,
     as_DeleteEpisodeSummariesInRange = None,
     as_Close = Some (case as_Close R of None \<Rightarrow> returns () | Some m \<Rightarrow> m)\<rparr>"

end
