(* ===== verification/Store_Calls.thy ===== *)
theory Store_Calls
  imports Store_Api
begin

text \<open>
  Calls to a store as values, so that sequences of calls can be quantified over: the 29 methods of
  the interface \<open>Store\<close> (\<open>call\<close>), the 30 of \<open>RollbackStore\<close> (\<open>rollback_call\<close>), and the table list
  of the rollback handler. A write answers \<open>Saved\<close>: what a store leaves in the caller's record is
  not part of the answer.
\<close>

datatype store_call =
    Call_SaveChatLog ChatLog
  | Call_ListChatLogs string go_int go_int
  | Call_SaveEffectiveInput EffectiveInput
  | Call_GetEffectiveInput string go_int
  | Call_SaveMemory Memory
  | Call_ListMemories string go_int go_int
  | Call_SaveEvidence DirectEvidence
  | Call_ListEvidence string
  | Call_SaveKGTriple KGTriple
  | Call_ListKGTriples string
  | Call_SaveAuditLog AuditLog
  | Call_ListAuditLogs string string go_int
  | Call_SaveCriticFeedback CriticFeedback
  | Call_ListCriticFeedback string string go_int
  | Call_SaveCharacterEvent CharacterEvent
  | Call_ListCharacterEvents string string
  | Call_Stats
  | Call_ListSessions
  | Call_GetResumePack string string
  | Call_ListStorylines string
  | Call_ListWorldRules string
  | Call_ListInheritedWorldRules string string string
  | Call_ListCharacterStates string
  | Call_GetCharacterState string string
  | Call_ListPendingThreads string string
  | Call_ListActiveStates string string
  | Call_ListCanonicalStateLayers string string
  | Call_ListEpisodeSummaries string go_int go_int go_int
  | Call_GetEpisodeSummary go_int

datatype store_reply =
    Saved
  | Got_ListChatLogs "ChatLog list"
  | Got_GetEffectiveInput "EffectiveInput option"
  | Got_ListMemories "Memory list"
  | Got_ListEvidence "DirectEvidence list"
  | Got_ListKGTriples "KGTriple list"
  | Got_ListAuditLogs "AuditLog list"
  | Got_ListCriticFeedback "CriticFeedback list"
  | Got_ListCharacterEvents "CharacterEvent list"
  | Got_Stats "StatsResult"
  | Got_ListSessions "SessionSummary list"
  | Got_GetResumePack "ResumePack option"
  | Got_ListStorylines "Storyline list"
  | Got_ListWorldRules "WorldRule list"
  | Got_ListInheritedWorldRules "WorldRule list"
  | Got_ListCharacterStates "CharacterState list"
  | Got_GetCharacterState "CharacterState option"
  | Got_ListPendingThreads "PendingThread list"
  | Got_ListActiveStates "ActiveState list"
  | Got_ListCanonicalStateLayers "CanonicalStateLayer list"
  | Got_ListEpisodeSummaries "EpisodeSummary list"
  | Got_GetEpisodeSummary "EpisodeSummary option"

definition answered :: "('r \<Rightarrow> 'a) \<Rightarrow> ('st, 'r) meth \<Rightarrow> ('st, 'a) meth" where
  "answered f m st = (case m st of ((r, e), st1) \<Rightarrow> ((f r, e), st1))"

fun call :: "'st Store \<Rightarrow> store_call \<Rightarrow> ('st, store_reply) meth" where
  "call st (Call_SaveChatLog entry) = answered (\<lambda>_. Saved) (SaveChatLog st entry)"
| "call st (Call_ListChatLogs chatSessionID fromTurn toTurn) = answered Got_ListChatLogs
           (ListChatLogs st chatSessionID fromTurn toTurn)"
| "call st (Call_SaveEffectiveInput inp) = answered (\<lambda>_. Saved) (SaveEffectiveInput st inp)"
| "call st (Call_GetEffectiveInput chatSessionID turnIndex) = answered Got_GetEffectiveInput
           (GetEffectiveInput st chatSessionID turnIndex)"
| "call st (Call_SaveMemory m) = answered (\<lambda>_. Saved) (SaveMemory st m)"
| "call st (Call_ListMemories chatSessionID fromTurn toTurn) = answered Got_ListMemories
           (ListMemories st chatSessionID fromTurn toTurn)"
| "call st (Call_SaveEvidence e) = answered (\<lambda>_. Saved) (SaveEvidence st e)"
| "call st (Call_ListEvidence chatSessionID) = answered Got_ListEvidence (ListEvidence st
           chatSessionID)"
| "call st (Call_SaveKGTriple t) = answered (\<lambda>_. Saved) (SaveKGTriple st t)"
| "call st (Call_ListKGTriples chatSessionID) = answered Got_ListKGTriples (ListKGTriples st
           chatSessionID)"
| "call st (Call_SaveAuditLog a) = answered (\<lambda>_. Saved) (SaveAuditLog st a)"
| "call st (Call_ListAuditLogs chatSessionID eventType limit) = answered Got_ListAuditLogs
           (ListAuditLogs st chatSessionID eventType limit)"
| "call st (Call_SaveCriticFeedback f) = answered (\<lambda>_. Saved) (SaveCriticFeedback st f)"
| "call st (Call_ListCriticFeedback chatSessionID targetType targetID) = answered
           Got_ListCriticFeedback (ListCriticFeedback st chatSessionID targetType targetID)"
| "call st (Call_SaveCharacterEvent e) = answered (\<lambda>_. Saved) (SaveCharacterEvent st e)"
| "call st (Call_ListCharacterEvents chatSessionID characterName) = answered
           Got_ListCharacterEvents (ListCharacterEvents st chatSessionID characterName)"
| "call st Call_Stats = answered Got_Stats (Stats st)"
| "call st Call_ListSessions = answered Got_ListSessions (ListSessions st)"
| "call st (Call_GetResumePack chatSessionID trigger) = answered Got_GetResumePack (GetResumePack
           st chatSessionID trigger)"
| "call st (Call_ListStorylines chatSessionID) = answered Got_ListStorylines (ListStorylines st
           chatSessionID)"
| "call st (Call_ListWorldRules chatSessionID) = answered Got_ListWorldRules (ListWorldRules st
           chatSessionID)"
| "call st (Call_ListInheritedWorldRules chatSessionID activeScope scopeName) = answered
           Got_ListInheritedWorldRules (ListInheritedWorldRules st chatSessionID activeScope
           scopeName)"
| "call st (Call_ListCharacterStates chatSessionID) = answered Got_ListCharacterStates
           (ListCharacterStates st chatSessionID)"
| "call st (Call_GetCharacterState chatSessionID characterName) = answered Got_GetCharacterState
           (GetCharacterState st chatSessionID characterName)"
| "call st (Call_ListPendingThreads chatSessionID status) = answered Got_ListPendingThreads
           (ListPendingThreads st chatSessionID status)"
| "call st (Call_ListActiveStates chatSessionID stateType) = answered Got_ListActiveStates
           (ListActiveStates st chatSessionID stateType)"
| "call st (Call_ListCanonicalStateLayers chatSessionID layerType) = answered
           Got_ListCanonicalStateLayers (ListCanonicalStateLayers st chatSessionID layerType)"
| "call st (Call_ListEpisodeSummaries chatSessionID limit fromTurn toTurn) = answered
           Got_ListEpisodeSummaries (ListEpisodeSummaries st chatSessionID limit fromTurn toTurn)"
| "call st (Call_GetEpisodeSummary episodeID) = answered Got_GetEpisodeSummary (GetEpisodeSummary
           st episodeID)"

fun is_write :: "store_call \<Rightarrow> bool" where
  "is_write (Call_SaveChatLog x) = True"
| "is_write (Call_SaveEffectiveInput x) = True"
| "is_write (Call_SaveMemory x) = True"
| "is_write (Call_SaveEvidence x) = True"
| "is_write (Call_SaveKGTriple x) = True"
| "is_write (Call_SaveAuditLog x) = True"
| "is_write (Call_SaveCriticFeedback x) = True"
| "is_write (Call_SaveCharacterEvent x) = True"
| "is_write _ = False"

datatype rollback_step =
    Rollback_DeleteChatLogs string go_int
  | Rollback_DeleteEffectiveInputs string go_int
  | Rollback_DeleteMemories string go_int
  | Rollback_DeleteEvidence string go_int
  | Rollback_DeleteKGTriples string go_int
  | Rollback_DeleteCriticFeedback string go_int
  | Rollback_DeleteCharacterEvents string go_int
  | Rollback_DeleteEntities string go_int
  | Rollback_DeleteTrustStates string go_int
  | Rollback_DeleteStorylines string go_int
  | Rollback_DeleteWorldRules string go_int
  | Rollback_DeleteCharacterStates string go_int
  | Rollback_DeletePendingThreads string go_int
  | Rollback_DeleteActiveStates string go_int
  | Rollback_DeleteCanonicalStateLayers string go_int
  | Rollback_DeleteEpisodeSummaries string go_int
  | Rollback_DeleteGuidancePlanState string go_int
  | Rollback_DeleteChapterSummaries string go_int
  | Rollback_DeleteArcSummaries string go_int
  | Rollback_DeleteSagaDigests string go_int
  | Rollback_DeleteSessionActiveScopes string go_int
  | Rollback_DeleteProtagonistEntityMemories string go_int
  | Rollback_DeleteConsequenceRecords string go_int
  | Rollback_DeletePsychologyBranches string go_int
  | Rollback_DeleteThemeOffscreenCarries string go_int
  | Rollback_DeleteCaptureVerificationRecords string go_int
  | Rollback_DeleteStatusCurrentValues string go_int
  | Rollback_DeleteStatusChangeEvents string go_int
  | Rollback_DeleteStatusEffects string go_int
  | Rollback_DeleteSession string

fun rollback_call :: "'st RollbackStore \<Rightarrow> rollback_step \<Rightarrow> ('st, unit) meth" where
  "rollback_call r (Rollback_DeleteChatLogs sid fromTurn) = DeleteChatLogs r sid fromTurn"
| "rollback_call r (Rollback_DeleteEffectiveInputs sid fromTurn) = DeleteEffectiveInputs r sid
           fromTurn"
| "rollback_call r (Rollback_DeleteMemories sid fromTurn) = DeleteMemories r sid fromTurn"
| "rollback_call r (Rollback_DeleteEvidence sid fromTurn) = DeleteEvidence r sid fromTurn"
| "rollback_call r (Rollback_DeleteKGTriples sid fromTurn) = DeleteKGTriples r sid fromTurn"
| "rollback_call r (Rollback_DeleteCriticFeedback sid fromTurn) = DeleteCriticFeedback r sid
           fromTurn"
| "rollback_call r (Rollback_DeleteCharacterEvents sid fromTurn) = DeleteCharacterEvents r sid
           fromTurn"
| "rollback_call r (Rollback_DeleteEntities sid fromTurn) = DeleteEntities r sid fromTurn"
| "rollback_call r (Rollback_DeleteTrustStates sid fromTurn) = DeleteTrustStates r sid fromTurn"
| "rollback_call r (Rollback_DeleteStorylines sid fromTurn) = DeleteStorylines r sid fromTurn"
| "rollback_call r (Rollback_DeleteWorldRules sid fromTurn) = DeleteWorldRules r sid fromTurn"
| "rollback_call r (Rollback_DeleteCharacterStates sid fromTurn) = DeleteCharacterStates r sid
           fromTurn"
| "rollback_call r (Rollback_DeletePendingThreads sid fromTurn) = DeletePendingThreads r sid
           fromTurn"
| "rollback_call r (Rollback_DeleteActiveStates sid fromTurn) = DeleteActiveStates r sid fromTurn"
| "rollback_call r (Rollback_DeleteCanonicalStateLayers sid fromTurn) = DeleteCanonicalStateLayers
           r sid fromTurn"
| "rollback_call r (Rollback_DeleteEpisodeSummaries sid fromTurn) = DeleteEpisodeSummaries r sid
           fromTurn"
| "rollback_call r (Rollback_DeleteGuidancePlanState sid fromTurn) = DeleteGuidancePlanState r sid
           fromTurn"
| "rollback_call r (Rollback_DeleteChapterSummaries sid fromTurn) = DeleteChapterSummaries r sid
           fromTurn"
| "rollback_call r (Rollback_DeleteArcSummaries sid fromTurn) = DeleteArcSummaries r sid fromTurn"
| "rollback_call r (Rollback_DeleteSagaDigests sid fromTurn) = DeleteSagaDigests r sid fromTurn"
| "rollback_call r (Rollback_DeleteSessionActiveScopes sid fromTurn) = DeleteSessionActiveScopes r
           sid fromTurn"
| "rollback_call r (Rollback_DeleteProtagonistEntityMemories sid fromTurn) =
           DeleteProtagonistEntityMemories r sid fromTurn"
| "rollback_call r (Rollback_DeleteConsequenceRecords sid fromTurn) = DeleteConsequenceRecords r
           sid fromTurn"
| "rollback_call r (Rollback_DeletePsychologyBranches sid fromTurn) = DeletePsychologyBranches r
           sid fromTurn"
| "rollback_call r (Rollback_DeleteThemeOffscreenCarries sid fromTurn) =
           DeleteThemeOffscreenCarries r sid fromTurn"
| "rollback_call r (Rollback_DeleteCaptureVerificationRecords sid fromTurn) =
           DeleteCaptureVerificationRecords r sid fromTurn"
| "rollback_call r (Rollback_DeleteStatusCurrentValues sid fromTurn) = DeleteStatusCurrentValues r
           sid fromTurn"
| "rollback_call r (Rollback_DeleteStatusChangeEvents sid fromTurn) = DeleteStatusChangeEvents r
           sid fromTurn"
| "rollback_call r (Rollback_DeleteStatusEffects sid fromTurn) = DeleteStatusEffects r sid
           fromTurn"
| "rollback_call r (Rollback_DeleteSession sid) = DeleteSession r sid"

fun rollback_label :: "rollback_step \<Rightarrow> string" where
  "rollback_label (Rollback_DeleteChatLogs _ _) = ''DeleteChatLogs''"
| "rollback_label (Rollback_DeleteEffectiveInputs _ _) = ''DeleteEffectiveInputs''"
| "rollback_label (Rollback_DeleteMemories _ _) = ''DeleteMemories''"
| "rollback_label (Rollback_DeleteEvidence _ _) = ''DeleteEvidence''"
| "rollback_label (Rollback_DeleteKGTriples _ _) = ''DeleteKGTriples''"
| "rollback_label (Rollback_DeleteCriticFeedback _ _) = ''DeleteCriticFeedback''"
| "rollback_label (Rollback_DeleteCharacterEvents _ _) = ''DeleteCharacterEvents''"
| "rollback_label (Rollback_DeleteEntities _ _) = ''DeleteEntities''"
| "rollback_label (Rollback_DeleteTrustStates _ _) = ''DeleteTrustStates''"
| "rollback_label (Rollback_DeleteStorylines _ _) = ''DeleteStorylines''"
| "rollback_label (Rollback_DeleteWorldRules _ _) = ''DeleteWorldRules''"
| "rollback_label (Rollback_DeleteCharacterStates _ _) = ''DeleteCharacterStates''"
| "rollback_label (Rollback_DeletePendingThreads _ _) = ''DeletePendingThreads''"
| "rollback_label (Rollback_DeleteActiveStates _ _) = ''DeleteActiveStates''"
| "rollback_label (Rollback_DeleteCanonicalStateLayers _ _) = ''DeleteCanonicalStateLayers''"
| "rollback_label (Rollback_DeleteEpisodeSummaries _ _) = ''DeleteEpisodeSummaries''"
| "rollback_label (Rollback_DeleteGuidancePlanState _ _) = ''DeleteGuidancePlanState''"
| "rollback_label (Rollback_DeleteChapterSummaries _ _) = ''DeleteChapterSummaries''"
| "rollback_label (Rollback_DeleteArcSummaries _ _) = ''DeleteArcSummaries''"
| "rollback_label (Rollback_DeleteSagaDigests _ _) = ''DeleteSagaDigests''"
| "rollback_label (Rollback_DeleteSessionActiveScopes _ _) = ''DeleteSessionActiveScopes''"
| "rollback_label (Rollback_DeleteProtagonistEntityMemories _ _) =
           ''DeleteProtagonistEntityMemories''"
| "rollback_label (Rollback_DeleteConsequenceRecords _ _) = ''DeleteConsequenceRecords''"
| "rollback_label (Rollback_DeletePsychologyBranches _ _) = ''DeletePsychologyBranches''"
| "rollback_label (Rollback_DeleteThemeOffscreenCarries _ _) = ''DeleteThemeOffscreenCarries''"
| "rollback_label (Rollback_DeleteCaptureVerificationRecords _ _) =
           ''DeleteCaptureVerificationRecords''"
| "rollback_label (Rollback_DeleteStatusCurrentValues _ _) = ''DeleteStatusCurrentValues''"
| "rollback_label (Rollback_DeleteStatusChangeEvents _ _) = ''DeleteStatusChangeEvents''"
| "rollback_label (Rollback_DeleteStatusEffects _ _) = ''DeleteStatusEffects''"
| "rollback_label (Rollback_DeleteSession _) = ''DeleteSession''"

text \<open>
  The tables that \<open>handleRollback\<close> (\<open>httpapi/group_turn_rollback.go\<close>) deletes from, in its order,
           with
  the names it reports them under.
\<close>

definition rollback_tables :: "string \<Rightarrow> go_int \<Rightarrow> (string \<times> rollback_step) list" where
  "rollback_tables sid turnIndex =
    [(''chat_logs'', Rollback_DeleteChatLogs sid turnIndex),
     (''effective_inputs'', Rollback_DeleteEffectiveInputs sid turnIndex),
     (''memories'', Rollback_DeleteMemories sid turnIndex),
     (''direct_evidence'', Rollback_DeleteEvidence sid turnIndex),
     (''kg_triples'', Rollback_DeleteKGTriples sid turnIndex),
     (''critic_feedback'', Rollback_DeleteCriticFeedback sid turnIndex),
     (''character_events'', Rollback_DeleteCharacterEvents sid turnIndex),
     (''entities'', Rollback_DeleteEntities sid turnIndex),
     (''trust_states'', Rollback_DeleteTrustStates sid turnIndex),
     (''storylines'', Rollback_DeleteStorylines sid turnIndex),
     (''world_rules'', Rollback_DeleteWorldRules sid turnIndex),
     (''character_states'', Rollback_DeleteCharacterStates sid turnIndex),
     (''pending_threads'', Rollback_DeletePendingThreads sid turnIndex),
     (''active_states'', Rollback_DeleteActiveStates sid turnIndex),
     (''canonical_state_layers'', Rollback_DeleteCanonicalStateLayers sid turnIndex),
     (''episode_summaries'', Rollback_DeleteEpisodeSummaries sid turnIndex),
     (''guidance_plan_states'', Rollback_DeleteGuidancePlanState sid turnIndex),
     (''chapter_summaries'', Rollback_DeleteChapterSummaries sid turnIndex),
     (''arc_summaries'', Rollback_DeleteArcSummaries sid turnIndex),
     (''saga_digests'', Rollback_DeleteSagaDigests sid turnIndex),
     (''session_active_scopes'', Rollback_DeleteSessionActiveScopes sid turnIndex),
     (''subjective_entity_memories'', Rollback_DeleteProtagonistEntityMemories sid turnIndex),
     (''consequence_records'', Rollback_DeleteConsequenceRecords sid turnIndex),
     (''psychology_branches'', Rollback_DeletePsychologyBranches sid turnIndex),
     (''theme_offscreen_carries'', Rollback_DeleteThemeOffscreenCarries sid turnIndex),
     (''capture_verification_records'', Rollback_DeleteCaptureVerificationRecords sid turnIndex),
     (''status_current_values'', Rollback_DeleteStatusCurrentValues sid turnIndex),
     (''status_change_events'', Rollback_DeleteStatusChangeEvents sid turnIndex),
     (''status_effects'', Rollback_DeleteStatusEffects sid turnIndex)]"

end
