(* ===== verification/Store_Contracts.thy ===== *)
theory Store_Contracts
  imports Dual_Store Read_Only Store_Calls
begin

text \<open>
  What a client can rely on, whichever of the three store decorators is behind the interface:
  the dual-write store answers as its primary does, for whole sequences of calls; over a no-op
  primary every write still reaches the shadow; the read-only store changes nothing.
\<close>

subsection \<open>The methods of the three stores\<close>

lemma dual_methods [simp]:
  "SaveChatLog (dual_store P S) = dual_SaveChatLog P S"
  "ListChatLogs (dual_store P S) = dual_ListChatLogs P S"
  "SaveEffectiveInput (dual_store P S) = dual_SaveEffectiveInput P S"
  "GetEffectiveInput (dual_store P S) = dual_GetEffectiveInput P S"
  "SaveMemory (dual_store P S) = dual_SaveMemory P S"
  "ListMemories (dual_store P S) = dual_ListMemories P S"
  "SaveEvidence (dual_store P S) = dual_SaveEvidence P S"
  "ListEvidence (dual_store P S) = dual_ListEvidence P S"
  "SaveKGTriple (dual_store P S) = dual_SaveKGTriple P S"
  "ListKGTriples (dual_store P S) = dual_ListKGTriples P S"
  "SaveAuditLog (dual_store P S) = dual_SaveAuditLog P S"
  "ListAuditLogs (dual_store P S) = dual_ListAuditLogs P S"
  "SaveCriticFeedback (dual_store P S) = dual_SaveCriticFeedback P S"
  "ListCriticFeedback (dual_store P S) = dual_ListCriticFeedback P S"
  "SaveCharacterEvent (dual_store P S) = dual_SaveCharacterEvent P S"
  "ListCharacterEvents (dual_store P S) = dual_ListCharacterEvents P S"
  "Stats (dual_store P S) = dual_Stats P S"
  "ListSessions (dual_store P S) = dual_ListSessions P S"
  "GetResumePack (dual_store P S) = dual_GetResumePack P S"
  "ListStorylines (dual_store P S) = dual_ListStorylines P S"
  "ListWorldRules (dual_store P S) = dual_ListWorldRules P S"
  "ListInheritedWorldRules (dual_store P S) = dual_ListInheritedWorldRules P S"
  "ListCharacterStates (dual_store P S) = dual_ListCharacterStates P S"
  "GetCharacterState (dual_store P S) = dual_GetCharacterState P S"
  "ListPendingThreads (dual_store P S) = dual_ListPendingThreads P S"
  "ListActiveStates (dual_store P S) = dual_ListActiveStates P S"
  "ListCanonicalStateLayers (dual_store P S) = dual_ListCanonicalStateLayers P S"
  "ListEpisodeSummaries (dual_store P S) = dual_ListEpisodeSummaries P S"
  "GetEpisodeSummary (dual_store P S) = dual_GetEpisodeSummary P S"
  by (simp_all add: dual_store_def)

lemma readonly_methods [simp]:
  "SaveChatLog (NewReadOnlyStore R) = (\<lambda>x. raises ErrNotEnabled x)"
  "ListChatLogs (NewReadOnlyStore R) = ListChatLogs R"
  "SaveEffectiveInput (NewReadOnlyStore R) = (\<lambda>x. raises ErrNotEnabled x)"
  "GetEffectiveInput (NewReadOnlyStore R) = GetEffectiveInput R"
  "SaveMemory (NewReadOnlyStore R) = (\<lambda>x. raises ErrNotEnabled x)"
  "ListMemories (NewReadOnlyStore R) = ListMemories R"
  "SaveEvidence (NewReadOnlyStore R) = (\<lambda>x. raises ErrNotEnabled x)"
  "ListEvidence (NewReadOnlyStore R) = ListEvidence R"
  "SaveKGTriple (NewReadOnlyStore R) = (\<lambda>x. raises ErrNotEnabled x)"
  "ListKGTriples (NewReadOnlyStore R) = ListKGTriples R"
  "SaveAuditLog (NewReadOnlyStore R) = (\<lambda>x. raises ErrNotEnabled x)"
  "ListAuditLogs (NewReadOnlyStore R) = ListAuditLogs R"
  "SaveCriticFeedback (NewReadOnlyStore R) = (\<lambda>x. raises ErrNotEnabled x)"
  "ListCriticFeedback (NewReadOnlyStore R) = ListCriticFeedback R"
  "SaveCharacterEvent (NewReadOnlyStore R) = (\<lambda>x. raises ErrNotEnabled x)"
  "ListCharacterEvents (NewReadOnlyStore R) = ListCharacterEvents R"
  "Stats (NewReadOnlyStore R) = Stats R"
  "ListSessions (NewReadOnlyStore R) = ListSessions R"
  "GetResumePack (NewReadOnlyStore R) = GetResumePack R"
  "ListStorylines (NewReadOnlyStore R) = ListStorylines R"
  "ListWorldRules (NewReadOnlyStore R) = ListWorldRules R"
  "ListInheritedWorldRules (NewReadOnlyStore R) = ListInheritedWorldRules R"
  "ListCharacterStates (NewReadOnlyStore R) = ListCharacterStates R"
  "GetCharacterState (NewReadOnlyStore R) = GetCharacterState R"
  "ListPendingThreads (NewReadOnlyStore R) = ListPendingThreads R"
  "ListActiveStates (NewReadOnlyStore R) = ListActiveStates R"
  "ListCanonicalStateLayers (NewReadOnlyStore R) = ListCanonicalStateLayers R"
  "ListEpisodeSummaries (NewReadOnlyStore R) = ListEpisodeSummaries R"
  "GetEpisodeSummary (NewReadOnlyStore R) = GetEpisodeSummary R"
  by (simp_all add: NewReadOnlyStore_def)

lemmas dual_method_defs =
  dual_SaveChatLog_def dual_ListChatLogs_def dual_SaveEffectiveInput_def
           dual_GetEffectiveInput_def dual_SaveMemory_def dual_ListMemories_def
           dual_SaveEvidence_def dual_ListEvidence_def dual_SaveKGTriple_def
           dual_ListKGTriples_def dual_SaveAuditLog_def dual_ListAuditLogs_def
           dual_SaveCriticFeedback_def dual_ListCriticFeedback_def dual_SaveCharacterEvent_def
           dual_ListCharacterEvents_def dual_Stats_def dual_ListSessions_def
           dual_GetResumePack_def dual_ListStorylines_def dual_ListWorldRules_def
           dual_ListInheritedWorldRules_def dual_ListCharacterStates_def
           dual_GetCharacterState_def dual_ListPendingThreads_def dual_ListActiveStates_def
           dual_ListCanonicalStateLayers_def dual_ListEpisodeSummaries_def
           dual_GetEpisodeSummary_def

subsection \<open>The dual-write store follows its primary\<close>

lemma answered_eqs [simp]:
  "snd (fst (answered f m st)) = snd (fst (m st))"
  "snd (answered f m st) = snd (m st)"
  by (simp_all add: answered_def split: prod.splits)

lemma answered_follows: "follows_primary f m \<Longrightarrow> follows_primary (answered g f) (answered h m)"
  by (simp add: follows_primary_def)

lemma answer_saved: "fst (answered (\<lambda>_. Saved) m st) = (Saved, snd (fst (m st)))"
  by (simp add: answered_def split: prod.splits)

lemma answer_read: "fst (answered g (on_primary m) d) = fst (answered g m (dual_primary d))"
  by (simp add: answered_def on_primary_def split: prod.splits)

lemma dual_call_follows: "follows_primary (call (dual_store P S) c) (call P c)"
  by (cases c) (simp_all add: dual_method_defs answered_follows follows_write_both follows_read)

lemma dual_call_answer: "fst (call (dual_store P S) c d) = fst (call P c (dual_primary d))"
  by (cases c)
    (simp_all add: dual_method_defs answer_saved answer_read follows_primaryD(1) [OF follows_write_both])

interpretation dual_calls: primary_decides "call (NewDualWriteStore P S)" "call (or_noop P)" for P S
  by unfold_locales (simp_all add: NewDualWriteStore_def dual_call_follows dual_call_answer)

text \<open>Rollback steps differ only in the label that is put on the primary's error.\<close>

lemma dual_rollback_shape:
  "rollback_call (dual_RollbackStore P S) c = dualWriteRollback (rollback_label c)
     (map_option (\<lambda>r. rollback_call r c) (as_RollbackStore P))
     (map_option (\<lambda>r. rollback_call r c) (as_RollbackStore S))"
  by (cases c) (simp_all add: dual_RollbackStore_def)

interpretation dual_rollbacks: primary_decides
    "rollback_call (dual_RollbackStore (P\<lparr>as_RollbackStore := Some r\<rparr>) S)"
    "\<lambda>c. labelled (rollback_label c @ '' primary'') (rollback_call r c)" for P r S
proof unfold_locales
  fix c d
  show "follows_primary (rollback_call (dual_RollbackStore (P\<lparr>as_RollbackStore := Some r\<rparr>) S) c)
      (labelled (rollback_label c @ '' primary'') (rollback_call r c))"
    by (simp add: dual_rollback_shape follows_rollback)
  from follows_primaryD(1) [OF this, of d]
  show "fst (rollback_call (dual_RollbackStore (P\<lparr>as_RollbackStore := Some r\<rparr>) S) c d)
      = fst (labelled (rollback_label c @ '' primary'') (rollback_call r c) (dual_primary d))"
    by (simp add: prod_eq_iff)
qed

lemma store_with_rollback: "as_RollbackStore P = Some r \<Longrightarrow> P\<lparr>as_RollbackStore := Some r\<rparr> = P"
  by (cases P) simp

lemma run_labelled:
  "run_calls (\<lambda>c. labelled (rollback_label c @ '' primary'') (rollback_call r c)) cs p
    = (map (\<lambda>(c, (u, e)). (u, map_option (Wrapped (rollback_label c @ '' primary'')) e))
         (zip cs (fst (run_calls (rollback_call r) cs p))), snd (run_calls (rollback_call r) cs p))"
  by (induction cs arbitrary: p) (auto simp: prod_eq_iff labelled_def split: prod.splits)

lemma dual_rollback_run:
  assumes "as_RollbackStore P = Some r"
  shows "fst (run_calls (rollback_call (dual_RollbackStore P S)) cs d)
      = map (\<lambda>(c, (u, e)). (u, map_option (Wrapped (rollback_label c @ '' primary'')) e))
          (zip cs (fst (run_calls (rollback_call r) cs (dual_primary d))))
    \<and> dual_primary (snd (run_calls (rollback_call (dual_RollbackStore P S)) cs d))
      = snd (run_calls (rollback_call r) cs (dual_primary d))"
  using dual_rollbacks.run_refines [where P = P and r = r and S = S and cs = cs and d = d]
  by (simp add: store_with_rollback [OF assms] run_labelled)

subsection \<open>The shadow behind a no-op primary\<close>

text \<open>The store of the modes \<open>dual_shadow\<close> and \<open>mariadb_shadow\<close>: the primary does nothing.\<close>

abbreviation behind_noop :: "'s Store \<Rightarrow> (unit, 's) dual Store" where
  "behind_noop M \<equiv> NewDualWriteStore (Some NewNoopStore) (Some M)"

lemma noop_methods [simp]:
  assumes "is_write c"
  shows "call NewNoopStore c q = ((Saved, None), q)"
  using assms by (cases c) (simp_all add: NewNoopStore_def answered_def archive_eval)

lemma noop_reads [simp]: "snd (call NewNoopStore c q) = q"
  by (cases c) (simp_all add: NewNoopStore_def archive_eval)

lemma noop_errors: "snd (fst (call NewNoopStore c q)) \<in> {None, Some ErrNotFound}"
  by (cases c) (simp_all add: NewNoopStore_def archive_eval)

lemma write_behind_noop:
  "dual_shadow (snd (write_both returns ms x d)) = snd (ms x (dual_shadow d))"
  "ShadowStatus (snd (write_both returns ms x d)) = (case snd (fst (ms x (dual_shadow d))) of
     None \<Rightarrow> ShadowStatus d | Some e \<Rightarrow> (shadowFailures d + 1, Some e))"
  using shadow_quietly_eqs [of "ms x" d]
  by (cases "shadow_quietly (ms x) d"; simp add: write_both_def on_primary_def archive_eval)+

lemma on_primary_returns [simp]:
  "on_primary (returns r) d = ((r, None), d)"
  "on_primary (raises e r) d = ((r, Some e), d)"
  by (simp_all add: on_primary_def archive_eval)

lemma noop_saves:
  "SaveChatLog NewNoopStore = returns"
  "SaveEffectiveInput NewNoopStore = returns"
  "SaveMemory NewNoopStore = returns"
  "SaveEvidence NewNoopStore = returns"
  "SaveKGTriple NewNoopStore = returns"
  "SaveAuditLog NewNoopStore = returns"
  "SaveCriticFeedback NewNoopStore = returns"
  "SaveCharacterEvent NewNoopStore = returns"
  by (rule ext, simp add: NewNoopStore_def)+

lemma behind_noop_write:
  assumes "is_write c"
  shows "dual_shadow (snd (call (behind_noop M) c d)) = snd (call M c (dual_shadow d))"
    and "ShadowStatus (snd (call (behind_noop M) c d)) = (case snd (fst (call M c (dual_shadow d))) of
      None \<Rightarrow> ShadowStatus d | Some e \<Rightarrow> (shadowFailures d + 1, Some e))"
  using assms
  by (cases c; simp add: NewDualWriteStore_def or_noop_def dual_method_defs noop_saves
      write_behind_noop)+

lemma behind_noop_read:
  assumes "\<not> is_write c"
  shows "snd (call (behind_noop M) c d) = d"
  using assms
  by (cases c) (simp_all add: NewDualWriteStore_def or_noop_def dual_method_defs NewNoopStore_def)

lemma behind_noop_run:
  "dual_shadow (snd (run_calls (call (behind_noop M)) cs d))
   = snd (run_calls (call M) (filter is_write cs) (dual_shadow d))"
  by (induction cs arbitrary: d) (simp_all add: behind_noop_write behind_noop_read)

lemma behind_noop_failures:
  "shadowFailures (snd (run_calls (call (behind_noop M)) cs d)) = shadowFailures d
   + of_nat (length (filter (\<lambda>a. snd a \<noteq> None)
       (fst (run_calls (call M) (filter is_write cs) (dual_shadow d)))))"
proof (induction cs arbitrary: d)
  case (Cons c cs)
  let ?d1 = "snd (call (behind_noop M) c d)"
  show ?case
  proof (cases "is_write c")
    case True
    have "shadowFailures ?d1 = shadowFailures d
        + (if snd (fst (call M c (dual_shadow d))) = None then 0 else 1)"
      using behind_noop_write(2) [OF True, of M d]
      by (auto simp: ShadowStatus_def split: option.splits)
    then show ?thesis
      using Cons [of ?d1] True by (simp add: behind_noop_write(1))
  qed (simp add: Cons behind_noop_read)
qed simp

lemma behind_noop_errors:
  "\<forall>a \<in> set (fst (run_calls (call (behind_noop M)) cs d)). snd a \<in> {None, Some ErrNotFound}"
proof -
  have "\<forall>a \<in> set (fst (run_calls (call NewNoopStore) cs q)). snd a \<in> {None, Some ErrNotFound}"
    for q :: unit
  proof (induction cs arbitrary: q)
    case (Cons c cs)
    then show ?case using noop_errors [of c q] by auto
  qed simp
  then show ?thesis
    using dual_calls.run_refines [where P = "Some NewNoopStore" and S = "Some M" and cs = cs and d = d]
    by (simp add: or_noop_def)
qed

subsection \<open>Stores whose reads have no effect\<close>

locale reading_store =
  fixes st :: "'st Store"
  assumes reads_pure: "\<not> is_write c \<Longrightarrow> snd (call st c q) = q"
begin

lemma readonly_call:
  "snd (call (NewReadOnlyStore st) c q) = q
   \<and> fst (call (NewReadOnlyStore st) c q) =
       (if is_write c then (Saved, Some ErrNotEnabled) else fst (call st c q))"
proof (cases "is_write c")
  case True
  then show ?thesis
    by (cases c) (simp_all add: answered_def raises_def)
next
  case False
  then have "call (NewReadOnlyStore st) c = call st c"
    by (cases c) simp_all
  with False show ?thesis by (simp add: reads_pure)
qed

lemma readonly_run:
  "run_calls (call (NewReadOnlyStore st)) cs q
   = (map (\<lambda>c. if is_write c then (Saved, Some ErrNotEnabled) else fst (call st c q)) cs, q)"
  by (induction cs) (simp_all add: prod_eq_iff readonly_call)

lemma readonly_reads_pure: "reading_store (NewReadOnlyStore st)"
  by unfold_locales (simp add: readonly_call)

lemma dual_reads_pure: "reading_store (dual_store st S)"
proof
  fix c and d :: "('st, 'a) dual"
  assume w: "\<not> is_write c"
  have "call (dual_store st S) c d = on_primary (call st c) d"
    using w by (cases c) (simp_all add: dual_method_defs answered_def on_primary_def fun_eq_iff
        split: prod.splits)
  moreover have "snd (on_primary (call st c) d) = d"
    using reads_pure [OF w, of "dual_primary d"]
    by (cases d) (auto simp: on_primary_def split: prod.splits)
  ultimately show "snd (call (dual_store st S) c d) = d" by simp
qed

end

interpretation noop_reads: reading_store NewNoopStore
  by unfold_locales simp

interpretation noop_dual_reads: reading_store "dual_store NewNoopStore S" for S
  by (rule noop_reads.dual_reads_pure)

text \<open>A write through the read-only store is refused, whatever the delegate does on a read.\<close>

lemma readonly_write:
  assumes "is_write c"
  shows "call (NewReadOnlyStore R) c q = ((Saved, Some ErrNotEnabled), q)"
  using assms by (cases c) (simp_all add: answered_def raises_def)

lemma readonly_rollback:
  "as_RollbackStore (NewReadOnlyStore R) = Some (readonly_RollbackStore R)
   \<and> rollback_call (readonly_RollbackStore R) c q = (((), Some ErrNotEnabled), q)"
  by (cases c) (simp_all add: NewReadOnlyStore_def readonly_RollbackStore_def raises_def)

end
