(* ===== verification/Shared_Caches.thy ===== *)
theory Shared_Caches
  imports Archive_Prelude
begin

text \<open>
  The process-wide mutable objects of \<open>go-service/internal/concurrency\<close>: the fixed-window rate
  limiter, the session cache, the token cache and the shared settings. Each method holds the
  object's mutex for its whole body, so a method is one step; \<open>now\<close> is what the call of
  \<open>time.Now\<close> inside it returns.
\<close>

subsection \<open>Go's clock arithmetic\<close>

text \<open>
  \<open>t.Sub(u)\<close> saturates at the ends of the 64-bit range of \<open>time.Duration\<close>; the product
  \<open>time.Duration(n) * time.Second\<close> wraps around in it, and so does an \<open>int\<close> counter.
\<close>

definition time_sub :: "go_time \<Rightarrow> go_time \<Rightarrow> go_duration" where
  "time_sub t u = max (- (2 ^ 63)) (min (2 ^ 63 - 1) (t - u))"

definition seconds :: "go_int \<Rightarrow> go_duration" where
  "seconds n = int64 (n * second)"

subsection \<open>The rate limiter\<close>

record RateLimiter =
  rl_limit :: go_int
  rl_windowSeconds :: go_int
  rl_count :: go_int
  rl_windowStart :: go_time

definition NewRateLimiter :: "go_int \<Rightarrow> go_int \<Rightarrow> go_time \<Rightarrow> RateLimiter" where
  "NewRateLimiter limit windowSeconds now =
     \<lparr>rl_limit = limit, rl_windowSeconds = windowSeconds, rl_count = 0, rl_windowStart = now\<rparr>"

definition IsAllowed :: "go_time \<Rightarrow> RateLimiter \<Rightarrow> bool \<times> RateLimiter" where
  "IsAllowed now r =
     (if seconds (rl_windowSeconds r) \<le> time_sub now (rl_windowStart r)
        then (True, r\<lparr>rl_windowStart := now, rl_count := 1\<rparr>)
      else (let n = int64 (rl_count r + 1) in (n \<le> rl_limit r, r\<lparr>rl_count := n\<rparr>)))"

definition rl_Reset :: "RateLimiter \<Rightarrow> RateLimiter" where
  "rl_Reset r = r\<lparr>rl_count := 0, rl_windowStart := 0\<rparr>"

definition rl_State :: "RateLimiter \<Rightarrow> go_int \<times> go_time" where
  "rl_State r = (rl_count r, rl_windowStart r)"

text \<open>The answers to a sequence of requests, given the times at which they come.\<close>

primrec answers :: "go_time list \<Rightarrow> RateLimiter \<Rightarrow> bool list \<times> RateLimiter" where
  "answers [] r = ([], r)"
| "answers (t # ts) r =
     (case IsAllowed t r of (b, r1) \<Rightarrow> case answers ts r1 of (bs, r2) \<Rightarrow> (b # bs, r2))"

definition in_window :: "RateLimiter \<Rightarrow> go_time \<Rightarrow> bool" where
  "in_window r t \<longleftrightarrow> time_sub t (rl_windowStart r) < seconds (rl_windowSeconds r)"

lemma allowed_in_window:
  assumes "in_window r t" and "0 \<le> rl_count r" and "rl_count r < 2 ^ 63 - 1"
  shows "IsAllowed t r = (rl_count r < rl_limit r, r\<lparr>rl_count := rl_count r + 1\<rparr>)"
  using assms int64_small [of "rl_count r + 1"]
  by (auto simp: IsAllowed_def in_window_def Let_def not_le)

lemma allowed_new_window:
  "\<not> in_window r t \<Longrightarrow> IsAllowed t r = (True, r\<lparr>rl_windowStart := t, rl_count := 1\<rparr>)"
  by (auto simp: IsAllowed_def in_window_def)

lemma answers_in_window:
  assumes "\<forall>t \<in> set ts. in_window r t" and "0 \<le> rl_count r" and "rl_count r + int (length ts) < 2 ^ 63"
  shows "fst (answers ts r) = map (\<lambda>i. rl_count r + int i < rl_limit r) [0..<length ts]
    \<and> snd (answers ts r) = r\<lparr>rl_count := rl_count r + int (length ts)\<rparr>"
  using assms
proof (induction ts arbitrary: r)
  case (Cons t ts)
  let ?r = "r\<lparr>rl_count := rl_count r + 1\<rparr>"
  have head: "IsAllowed t r = (rl_count r < rl_limit r, ?r)"
    using Cons.prems by (intro allowed_in_window) auto
  have "\<forall>t \<in> set ts. in_window ?r t" using Cons.prems(1) by (simp add: in_window_def)
  from Cons.IH [OF this] Cons.prems(2,3)
  have tail: "fst (answers ts ?r) = map (\<lambda>i. rl_count r + 1 + int i < rl_limit r) [0..<length ts]"
      "snd (answers ts ?r) = r\<lparr>rl_count := rl_count r + 1 + int (length ts)\<rparr>"
    by simp_all
  have "[0..<length (t # ts)] = 0 # map Suc [0..<length ts]"
    by (simp add: map_Suc_upt upt_conv_Cons del: upt_Suc)
  with head tail show ?case
    by (simp add: prod_eq_iff split: prod.splits) (simp add: algebra_simps comp_def)
qed simp

lemma count_below: "length (filter (\<lambda>i. c + int i < m) [0..<n]) = min n (nat (m - c))"
proof (induction n)
  case (Suc n)
  then show ?case by (cases "c + int n < m") auto
qed simp

subsection \<open>Expiring caches\<close>

text \<open>
  The contract of a keyed cache whose entries expire: \<open>find c k now\<close> is a lookup, \<open>put\<close> and
  \<open>del\<close> change one key, and an entry that is no longer live never becomes live again.
\<close>

locale expiring_cache =
  fixes find :: "'c \<Rightarrow> string \<Rightarrow> go_time \<Rightarrow> 'v option"
    and put :: "string \<Rightarrow> 'e \<Rightarrow> 'c \<Rightarrow> 'c"
    and del :: "string \<Rightarrow> 'c \<Rightarrow> 'c"
    and live :: "'e \<Rightarrow> go_time \<Rightarrow> bool"
    and content :: "'e \<Rightarrow> 'v"
  assumes find_put: "find (put k e c) k' now =
      (if k' = k then if live e now then Some (content e) else None else find c k' now)"
    and find_del: "find (del k c) k' now = (if k' = k then None else find c k' now)"
    and live_mono: "live e later \<Longrightarrow> now \<le> later \<Longrightarrow> live e now"
begin

text \<open>A history of writes: \<open>Some e\<close> stores an entry, \<open>None\<close> deletes the key.\<close>

primrec apply_writes :: "(string \<times> 'e option) list \<Rightarrow> 'c \<Rightarrow> 'c" where
  "apply_writes [] c = c"
| "apply_writes (w # ws) c = apply_writes ws
     (case w of (k, None) \<Rightarrow> del k c | (k, Some e) \<Rightarrow> put k e c)"

lemma find_after_writes:
  "find (apply_writes ws c) k now =
     (case map_of (rev ws) k of
        None \<Rightarrow> find c k now
      | Some None \<Rightarrow> None
      | Some (Some e) \<Rightarrow> if live e now then Some (content e) else None)"
  by (induction ws arbitrary: c) (auto simp: find_put find_del map_add_def split: option.splits)

lemma miss_stays:
  assumes "k \<in> fst ` set ws" and "find (apply_writes ws c) k now = None" and "now \<le> later"
  shows "find (apply_writes ws c) k later = None"
proof -
  obtain w where w: "map_of (rev ws) k = Some w"
    using assms(1) by (metis list.set_map map_of_eq_None_iff not_Some_eq rev_map set_rev)
  with assms(2,3) show ?thesis
    by (auto simp: find_after_writes split: option.splits if_splits dest: live_mono)
qed

end

subsection \<open>The session cache\<close>

record 'a SessionValue =
  sv_Data :: 'a
  sv_CreatedAt :: go_time
  sv_TTL :: go_duration

type_synonym 'a SessionCache = "(string \<times> 'a SessionValue) list"

definition NewSessionCache :: "'a SessionCache" where
  "NewSessionCache = []"

definition session_Get :: "'a SessionCache \<Rightarrow> string \<Rightarrow> go_time \<Rightarrow> 'a option" where
  "session_Get items sessionID now = (case map_of items sessionID of
     None \<Rightarrow> None
   | Some v \<Rightarrow> if sv_TTL v < time_sub now (sv_CreatedAt v) then None else Some (sv_Data v))"

definition session_put :: "string \<Rightarrow> 'a SessionValue \<Rightarrow> 'a SessionCache \<Rightarrow> 'a SessionCache" where
  "session_put sessionID v items = map_put sessionID v items"

definition session_Set ::
  "string \<Rightarrow> 'a \<Rightarrow> go_duration \<Rightarrow> go_time \<Rightarrow> 'a SessionCache \<Rightarrow> 'a SessionCache" where
  "session_Set sessionID data ttl now =
     session_put sessionID \<lparr>sv_Data = data, sv_CreatedAt = now, sv_TTL = ttl\<rparr>"

definition session_Delete :: "string \<Rightarrow> 'a SessionCache \<Rightarrow> 'a SessionCache" where
  "session_Delete sessionID items = map_remove sessionID items"

definition session_Len :: "'a SessionCache \<Rightarrow> nat" where
  "session_Len items = length items"

definition session_live :: "'a SessionValue \<Rightarrow> go_time \<Rightarrow> bool" where
  "session_live v now \<longleftrightarrow> time_sub now (sv_CreatedAt v) \<le> sv_TTL v"

interpretation sessions: expiring_cache session_Get session_put session_Delete session_live sv_Data
proof unfold_locales
  fix v :: "'a SessionValue" and now later :: go_time
  assume "session_live v later" and "now \<le> later"
  then show "session_live v now" by (auto simp: session_live_def time_sub_def)
qed (auto simp: session_Get_def session_put_def session_Delete_def session_live_def)

subsection \<open>The token cache\<close>

text \<open>
  The map holds pointers; \<open>None\<close> is a nil pointer, which \<open>Set\<close> accepts and \<open>Get\<close> dereferences.
\<close>

record CachedToken =
  ct_Token :: string
  ct_ExpiresAt :: go_time

type_synonym TokenCache = "(string \<times> CachedToken option) list"

definition NewTokenCache :: TokenCache where
  "NewTokenCache = []"

datatype token_lookup = Token_hit CachedToken | Token_miss | Token_nil_dereference

definition token_Get :: "TokenCache \<Rightarrow> string \<Rightarrow> go_time \<Rightarrow> token_lookup" where
  "token_Get cache key now = (case map_of cache key of
     None \<Rightarrow> Token_miss
   | Some None \<Rightarrow> Token_nil_dereference
   | Some (Some t) \<Rightarrow> if ct_ExpiresAt t < now then Token_miss else Token_hit t)"

definition token_Set :: "string \<Rightarrow> CachedToken option \<Rightarrow> TokenCache \<Rightarrow> TokenCache" where
  "token_Set key token cache = map_put key token cache"

definition token_Delete :: "string \<Rightarrow> TokenCache \<Rightarrow> TokenCache" where
  "token_Delete key cache = map_remove key cache"

text \<open>
  \<open>GetOrFetch\<close>: the fetcher acts on a world of its own. The result is \<open>None\<close> when the lookup
  dereferences a nil token; otherwise the token (a fetcher may return nil) and the error.
\<close>

definition GetOrFetch ::
  "string \<Rightarrow> go_time \<Rightarrow> (string \<Rightarrow> ('w, CachedToken option) meth) \<Rightarrow> TokenCache \<Rightarrow> 'w
    \<Rightarrow> (CachedToken option \<times> err) option \<times> TokenCache \<times> 'w" where
  "GetOrFetch key now fetcher cache world = (case token_Get cache key now of
     Token_nil_dereference \<Rightarrow> (None, cache, world)
   | Token_hit t \<Rightarrow> (Some (Some t, None), cache, world)
   | Token_miss \<Rightarrow> (case fetcher key world of
       ((t, Some e), world1) \<Rightarrow> (Some (None, Some e), cache, world1)
     | ((t, None), world1) \<Rightarrow> (Some (t, None), token_Set key t cache, world1)))"

definition token_find :: "TokenCache \<Rightarrow> string \<Rightarrow> go_time \<Rightarrow> CachedToken option" where
  "token_find cache key now = (case token_Get cache key now of Token_hit t \<Rightarrow> Some t | _ \<Rightarrow> None)"

definition token_put :: "string \<Rightarrow> CachedToken \<Rightarrow> TokenCache \<Rightarrow> TokenCache" where
  "token_put key t = token_Set key (Some t)"

definition token_live :: "CachedToken \<Rightarrow> go_time \<Rightarrow> bool" where
  "token_live t now \<longleftrightarrow> now \<le> ct_ExpiresAt t"

interpretation tokens: expiring_cache token_find token_put token_Delete token_live id
  by unfold_locales
    (auto simp: token_find_def token_Get_def token_put_def token_Set_def token_Delete_def token_live_def)

subsection \<open>The shared settings\<close>

record SharedState =
  OperatorToken :: string
  MariaDBReady :: bool
  EmbeddingModel :: string
  EmbeddingEndpoint :: string

definition NewSharedState :: SharedState where
  "NewSharedState =
     \<lparr>OperatorToken = [], MariaDBReady = False, EmbeddingModel = [], EmbeddingEndpoint = []\<rparr>"

definition SetOperatorToken :: "string \<Rightarrow> SharedState \<Rightarrow> SharedState" where
  "SetOperatorToken token s = s\<lparr>OperatorToken := token\<rparr>"

definition GetOperatorToken :: "SharedState \<Rightarrow> string" where
  "GetOperatorToken s = OperatorToken s"

definition SetMariaDBReady :: "bool \<Rightarrow> SharedState \<Rightarrow> SharedState" where
  "SetMariaDBReady ready s = s\<lparr>MariaDBReady := ready\<rparr>"

definition IsMariaDBReady :: "SharedState \<Rightarrow> bool" where
  "IsMariaDBReady s = MariaDBReady s"

definition SetEmbeddingConfig :: "string \<Rightarrow> string \<Rightarrow> SharedState \<Rightarrow> SharedState" where
  "SetEmbeddingConfig model endpoint s = s\<lparr>EmbeddingModel := model, EmbeddingEndpoint := endpoint\<rparr>"

definition GetEmbeddingConfig :: "SharedState \<Rightarrow> string \<times> string" where
  "GetEmbeddingConfig s = (EmbeddingModel s, EmbeddingEndpoint s)"

text \<open>
  The session cache answers with the last value written under the session's id, for as long
  as its time to live has not passed; a write or a deletion under another id changes nothing.
\<close>

lemma session_cache_is_a_map:
  "session_Get (session_Set sid v ttl written c) k now =
     (if k = sid then (if time_sub now written \<le> ttl then Some v else None) else session_Get c k now)
   \<and> session_Get (session_Delete sid c) k now = (if k = sid then None else session_Get c k now)"
  using sessions.find_put [of sid "\<lparr>sv_Data = v, sv_CreatedAt = written, sv_TTL = ttl\<rparr>" c k now]
    sessions.find_del [of sid c k now]
  by (simp add: session_Set_def session_live_def)

end
