(* ===== verification/Vector_Fence.thy ===== *)
theory Vector_Fence
  imports Turn_Response
begin

text \<open>
  The process-wide vector store of \<open>go-service/internal/vector\<close>: the in-memory store that is used
  when no ChromaDB is configured (\<open>fake.go\<close>) and the wrapper that serializes mutations
  (\<open>mutation_fence.go\<close>). The wrapper is a protocol on a read-write lock, so it is modelled as
  processes: between two steps of one process any other may run. The locale \<open>fenced\<close> holds the
  atomicity argument for any delegate; it is interpreted on the in-memory store.
\<close>

subsection \<open>The interfaces\<close>

type_synonym embedding = "32 word list"

record VectorDocument =
  vd_ID :: string
  vd_Embedding :: embedding
  vd_Distance :: float64
  vd_Similarity :: float64
  vd_SimilarityAvailable :: bool
  vd_SimilaritySource :: string
  vd_Tier :: string
  vd_ChatSessionID :: string
  vd_SourceTable :: string
  vd_SourceRowID :: string
  vd_SchemaVersion :: string
  vd_DocumentText :: string
  vd_SearchTextPolicy :: string
  vd_RawLanguage :: string
  vd_SummaryLanguage :: string
  vd_SessionOutputLanguage :: string
  vd_AliasCount :: go_int
  vd_MigrationID :: go_int
  vd_MigratedFromSessionID :: string
  vd_Metadata :: "(string \<times> json) list"

record HealthSnapshot =
  hs_Status :: string
  hs_Collection :: string
  hs_PersistDir :: string
  hs_TotalCount :: go_int
  hs_ProjectModel :: string
  hs_ModelReady :: bool
  hs_PreflightIssues :: "string list"

record ExactQuery =
  eq_Embedding :: embedding
  eq_Limit :: go_int
  eq_Where :: "(string \<times> json) list"

record ExactQueryResult =
  er_Document :: VectorDocument
  er_ChromaRank :: go_int
  er_Distance :: float64
  er_DistanceAvailable :: bool
  er_CosineSimilarity :: float64
  er_CosineAvailable :: bool

text \<open>\<open>vector.ErrNotFound\<close> and \<open>vector.ErrNotEnabled\<close> are errors of their own, not those of the store package.\<close>

definition vector_ErrNotFound :: go_error where
  "vector_ErrNotFound = Failure ''no vector results found''"

definition vector_ErrNotEnabled :: go_error where
  "vector_ErrNotEnabled = Failure ''vector store is not enabled''"

text \<open>
  The interface \<open>VectorStore\<close> and what a type assertion to the optional interfaces gives. The
  rebuild callback of \<open>RecoverIndex\<close> is a state transformer.
\<close>

record 'd IndexRecovery =
  RecoverIndex :: "string \<Rightarrow> ('d, unit) meth \<Rightarrow> ('d, string) meth"
  ResumeIndexRecovery :: "string \<Rightarrow> ('d, unit) meth"
  RecoverySnapshot :: "string \<Rightarrow> ('d, VectorDocument list \<times> go_int) meth"

record 'd VectorStore =
  Search :: "string \<Rightarrow> embedding \<Rightarrow> go_int \<Rightarrow> string \<Rightarrow> ('d, VectorDocument list) meth"
  Upsert :: "string \<Rightarrow> VectorDocument list \<Rightarrow> ('d, unit) meth"
  DeleteVectorSession :: "string \<Rightarrow> ('d, unit) meth"
  Rebuild :: "string \<Rightarrow> ('d, unit) meth"
  Health :: "('d, HealthSnapshot) meth"
  VectorCount :: "string \<Rightarrow> ('d, go_int) meth"
  VectorClose :: "('d, unit) meth"
  as_DocumentDeleter :: "(string list \<Rightarrow> ('d, unit) meth) option"
  as_DocumentLister :: "(string \<Rightarrow> ('d, VectorDocument list) meth) option"
  as_ExactDocumentReader :: "(string list \<Rightarrow> ('d, VectorDocument list) meth) option"
  as_ExactMetadataQuerier :: "(ExactQuery \<Rightarrow> ('d, ExactQueryResult list) meth) option"
  as_CollectionResetter :: "(('d, unit) meth) option"
  as_IndexRecovery :: "'d IndexRecovery option"

subsection \<open>The in-memory store\<close>

record fakeVectorStore =
  searchCalled :: bool
  searchSessionID :: string
  searchVectorLen :: nat
  searchLimit :: go_int
  searchFilter :: string
  upsertCalled :: bool
  upsertSessionID :: string
  upsertDocCount :: nat
  docs :: "VectorDocument list"
  deleteCalled :: bool
  deleteSessionID :: string
  deleteDocumentIDs :: "string list"
  resetAllCalled :: bool
  rebuildCalled :: bool
  rebuildSessionID :: string
  healthCalled :: bool
  countCalled :: bool
  countSessionID :: string

definition NewFakeVectorStore :: fakeVectorStore where
  "NewFakeVectorStore =
     \<lparr>searchCalled = False, searchSessionID = [], searchVectorLen = 0, searchLimit = 0,
      searchFilter = [], upsertCalled = False, upsertSessionID = [], upsertDocCount = 0, docs = [],
      deleteCalled = False, deleteSessionID = [], deleteDocumentIDs = [], resetAllCalled = False,
      rebuildCalled = False, rebuildSessionID = [], healthCalled = False, countCalled = False,
      countSessionID = []\<rparr>"

definition fake_Search ::
  "string \<Rightarrow> embedding \<Rightarrow> go_int \<Rightarrow> string \<Rightarrow> (fakeVectorStore, VectorDocument list) meth" where
  "fake_Search sessionID vector limit filt f =
     (([], Some vector_ErrNotFound),
      f\<lparr>searchCalled := True, searchSessionID := sessionID, searchVectorLen := length vector,
        searchLimit := limit, searchFilter := filt\<rparr>)"

definition fake_Upsert :: "string \<Rightarrow> VectorDocument list \<Rightarrow> (fakeVectorStore, unit) meth" where
  "fake_Upsert sessionID ds f =
     (((), None),
      f\<lparr>upsertCalled := True, upsertSessionID := sessionID, upsertDocCount := length ds,
        docs := docs f @ map (\<lambda>doc. if vd_ChatSessionID doc = []
          then doc\<lparr>vd_ChatSessionID := sessionID\<rparr> else doc) ds\<rparr>)"

definition fake_DeleteSession :: "string \<Rightarrow> (fakeVectorStore, unit) meth" where
  "fake_DeleteSession sessionID f =
     (((), None),
      f\<lparr>deleteCalled := True, deleteSessionID := sessionID,
        docs := filter (\<lambda>doc. vd_ChatSessionID doc \<noteq> sessionID) (docs f)\<rparr>)"

definition fake_DeleteDocuments :: "string list \<Rightarrow> (fakeVectorStore, unit) meth" where
  "fake_DeleteDocuments ids f =
     (((), None),
      f\<lparr>deleteDocumentIDs := deleteDocumentIDs f @ ids,
        docs := filter (\<lambda>doc. vd_ID doc \<notin> set ids) (docs f)\<rparr>)"

definition fake_ResetAll :: "(fakeVectorStore, unit) meth" where
  "fake_ResetAll f = (((), None), f\<lparr>resetAllCalled := True\<rparr>)"

definition fake_Rebuild :: "string \<Rightarrow> (fakeVectorStore, unit) meth" where
  "fake_Rebuild sessionID f = (((), None), f\<lparr>rebuildCalled := True, rebuildSessionID := sessionID\<rparr>)"

definition fake_Count :: "string \<Rightarrow> (fakeVectorStore, go_int) meth" where
  "fake_Count sessionID f =
     ((if sessionID = [] then int (length (docs f))
       else int (length (filter (\<lambda>doc. vd_ChatSessionID doc = sessionID) (docs f))), None),
      f\<lparr>countCalled := True, countSessionID := sessionID\<rparr>)"

definition fake_ListDocuments :: "string \<Rightarrow> (fakeVectorStore, VectorDocument list) meth" where
  "fake_ListDocuments sessionID f =
     ((filter (\<lambda>doc. sessionID = [] \<or> vd_ChatSessionID doc = sessionID) (docs f), None), f)"

definition fake_QueryExact :: "ExactQuery \<Rightarrow> (fakeVectorStore, ExactQueryResult list) meth" where
  "fake_QueryExact query = raises vector_ErrNotEnabled []"

definition fake_Health :: "(fakeVectorStore, HealthSnapshot) meth" where
  "fake_Health f =
     ((\<lparr>hs_Status = ''shadow'', hs_Collection = ''archive_center_lite'', hs_PersistDir = [],
        hs_TotalCount = 0, hs_ProjectModel = [], hs_ModelReady = False,
        hs_PreflightIssues = [''shadow_mode'']\<rparr>, None), f\<lparr>healthCalled := True\<rparr>)"

definition fake_Close :: "(fakeVectorStore, unit) meth" where
  "fake_Close = returns ()"

definition fake_store :: "fakeVectorStore VectorStore" where
  "fake_store = \<lparr>Search = fake_Search, Upsert = fake_Upsert, DeleteVectorSession = fake_DeleteSession,
     Rebuild = fake_Rebuild, Health = fake_Health, VectorCount = fake_Count, VectorClose = fake_Close,
     as_DocumentDeleter = Some fake_DeleteDocuments, as_DocumentLister = Some fake_ListDocuments,
     as_ExactDocumentReader = None, as_ExactMetadataQuerier = Some fake_QueryExact,
     as_CollectionResetter = Some fake_ResetAll, as_IndexRecovery = None\<rparr>"

subsection \<open>The calls through the fence\<close>

datatype 'd vector_op =
    Op_Search string embedding go_int string
  | Op_Upsert string "VectorDocument list"
  | Op_DeleteSession string
  | Op_Rebuild string
  | Op_RecoverIndex string "('d, unit) meth"
  | Op_ResumeIndexRecovery string
  | Op_RecoverySnapshot string
  | Op_Health
  | Op_Count string
  | Op_Close
  | Op_DeleteDocuments "string list"
  | Op_ListDocuments string
  | Op_GetDocuments "string list"
  | Op_QueryExact ExactQuery
  | Op_ResetAll

datatype vector_reply =
    Reply err
  | Reply_docs "VectorDocument list" err
  | Reply_path string err
  | Reply_snapshot "VectorDocument list" go_int err
  | Reply_health HealthSnapshot err
  | Reply_count go_int err
  | Reply_rows "ExactQueryResult list" err

datatype lock_mode = Shared | Exclusive

text \<open>Which side of the lock each method of \<open>mutationFencedStore\<close> takes.\<close>

fun fence_mode :: "'d vector_op \<Rightarrow> lock_mode" where
  "fence_mode (Op_Search _ _ _ _) = Shared"
| "fence_mode Op_Health = Shared"
| "fence_mode (Op_Count _) = Shared"
| "fence_mode (Op_ListDocuments _) = Shared"
| "fence_mode (Op_GetDocuments _) = Shared"
| "fence_mode (Op_QueryExact _) = Shared"
| "fence_mode _ = Exclusive"

definition replied :: "('r \<Rightarrow> err \<Rightarrow> vector_reply) \<Rightarrow> ('d, 'r) meth \<Rightarrow> 'd \<Rightarrow> vector_reply \<times> 'd" where
  "replied f m d = (case m d of ((r, e), d1) \<Rightarrow> (f r e, d1))"

definition absent :: "vector_reply \<Rightarrow> 'd \<Rightarrow> vector_reply \<times> 'd" where
  "absent r d = (r, d)"

text \<open>What a method does with the delegate \<open>D\<close> once it has the lock.\<close>

fun fenced_call :: "'d VectorStore \<Rightarrow> 'd vector_op \<Rightarrow> 'd \<Rightarrow> vector_reply \<times> 'd" where
  "fenced_call D (Op_Search sid e n flt) = replied Reply_docs (Search D sid e n flt)"
| "fenced_call D (Op_Upsert sid ds) = replied (\<lambda>_. Reply) (Upsert D sid ds)"
| "fenced_call D (Op_DeleteSession sid) = replied (\<lambda>_. Reply) (DeleteVectorSession D sid)"
| "fenced_call D (Op_Rebuild sid) = replied (\<lambda>_. Reply) (Rebuild D sid)"
| "fenced_call D (Op_RecoverIndex path rebuild) = (case as_IndexRecovery D of
     Some r \<Rightarrow> replied Reply_path (RecoverIndex r path rebuild)
   | None \<Rightarrow> absent (Reply_path [] (Some vector_ErrNotEnabled)))"
| "fenced_call D (Op_ResumeIndexRecovery path) = (case as_IndexRecovery D of
     Some r \<Rightarrow> replied (\<lambda>_. Reply) (ResumeIndexRecovery r path)
   | None \<Rightarrow> absent (Reply None))"
| "fenced_call D (Op_RecoverySnapshot path) = (case as_IndexRecovery D of
     Some r \<Rightarrow> replied (\<lambda>(ds, n). Reply_snapshot ds n) (RecoverySnapshot r path)
   | None \<Rightarrow> absent (Reply_snapshot [] 0 (Some vector_ErrNotEnabled)))"
| "fenced_call D Op_Health = replied Reply_health (Health D)"
| "fenced_call D (Op_Count sid) = replied Reply_count (VectorCount D sid)"
| "fenced_call D Op_Close = replied (\<lambda>_. Reply) (VectorClose D)"
| "fenced_call D (Op_DeleteDocuments ids) = (case as_DocumentDeleter D of
     Some m \<Rightarrow> replied (\<lambda>_. Reply) (m ids)
   | None \<Rightarrow> absent (Reply (Some vector_ErrNotEnabled)))"
| "fenced_call D (Op_ListDocuments sid) = (case as_DocumentLister D of
     Some m \<Rightarrow> replied Reply_docs (m sid)
   | None \<Rightarrow> absent (Reply_docs [] (Some vector_ErrNotEnabled)))"
| "fenced_call D (Op_GetDocuments ids) = (case as_ExactDocumentReader D of
     Some m \<Rightarrow> replied Reply_docs (m ids)
   | None \<Rightarrow> absent (Reply_docs [] (Some vector_ErrNotEnabled)))"
| "fenced_call D (Op_QueryExact query) = (case as_ExactMetadataQuerier D of
     Some m \<Rightarrow> replied Reply_rows (m query)
   | None \<Rightarrow> absent (Reply_rows [] (Some vector_ErrNotEnabled)))"
| "fenced_call D Op_ResetAll = (case as_CollectionResetter D of
     Some m \<Rightarrow> replied (\<lambda>_. Reply) m
   | None \<Rightarrow> absent (Reply (Some vector_ErrNotEnabled)))"

text \<open>Five methods look for their optional interface before they take the lock.\<close>

fun answers_unlocked :: "'d VectorStore \<Rightarrow> 'd vector_op \<Rightarrow> bool" where
  "answers_unlocked D (Op_DeleteDocuments _) = Option.is_none (as_DocumentDeleter D)"
| "answers_unlocked D (Op_ListDocuments _) = Option.is_none (as_DocumentLister D)"
| "answers_unlocked D (Op_GetDocuments _) = Option.is_none (as_ExactDocumentReader D)"
| "answers_unlocked D (Op_QueryExact _) = Option.is_none (as_ExactMetadataQuerier D)"
| "answers_unlocked D Op_ResetAll = Option.is_none (as_CollectionResetter D)"
| "answers_unlocked D _ = False"

subsection \<open>The lock protocol\<close>

text \<open>
  What a process does under the lock: from the replies so far it chooses the next call on the
  delegate, or returns. A method of the wrapper makes one call and returns its reply; the
  callback of \<open>WithExclusiveMutationFence\<close> is any deterministic code that uses the delegate and
  returns an error or nil.
\<close>

type_synonym 'd fence_program = "vector_reply list \<Rightarrow> 'd vector_op + vector_reply"

fun method_body :: "'d vector_op \<Rightarrow> 'd fence_program" where
  "method_body op [] = Inl op"
| "method_body op (r # _) = Inr r"

definition callback_body :: "(vector_reply list \<Rightarrow> 'd vector_op + err) \<Rightarrow> 'd fence_program" where
  "callback_body fn rs = (case fn rs of Inl op \<Rightarrow> Inl op | Inr e \<Rightarrow> Inr (Reply e))"

text \<open>The first \<open>n\<close> calls of a program run alone, from a delegate: the replies and the delegate it leaves.\<close>

primrec run_alone ::
  "'d VectorStore \<Rightarrow> 'd fence_program \<Rightarrow> 'd \<Rightarrow> nat \<Rightarrow> vector_reply list \<times> 'd" where
  "run_alone D prog start 0 = ([], start)"
| "run_alone D prog start (Suc n) =
     (case run_alone D prog start n of (rs, d) \<Rightarrow>
        (case prog rs of
           Inr _ \<Rightarrow> (rs, d)
         | Inl op \<Rightarrow> (case fenced_call D op d of (r, d1) \<Rightarrow> (rs @ [r], d1))))"

text \<open>
  \<open>Queued\<close> waits for the lock, and knows whether it is a callback, whose context is checked once
  more after the lock is taken. \<open>Inside mode start replies prog\<close> holds the lock; \<open>start\<close> (the
  delegate when the lock was taken) is history.
\<close>

datatype 'd fence_pc =
    Queued bool lock_mode "'d fence_program"
  | Inside lock_mode 'd "vector_reply list" "'d fence_program"
  | Answered vector_reply

record 'd fence_system =
  fs_delegate :: 'd
  fs_writer :: "nat option"
  fs_readers :: "nat set"
  fs_pcs :: "nat \<Rightarrow> 'd fence_pc option"

definition initial_fence :: "'d \<Rightarrow> 'd fence_system" where
  "initial_fence d = \<lparr>fs_delegate = d, fs_writer = None, fs_readers = {}, fs_pcs = (\<lambda>_. None)\<rparr>"

definition at_pc :: "nat \<Rightarrow> 'd fence_pc \<Rightarrow> 'd fence_system \<Rightarrow> 'd fence_system" where
  "at_pc t pc s = s\<lparr>fs_pcs := (fs_pcs s)(t \<mapsto> pc)\<rparr>"

inductive fence_step :: "'d VectorStore \<Rightarrow> 'd fence_system \<Rightarrow> 'd fence_system \<Rightarrow> bool"
  for D :: "'d VectorStore" where
  call_unlocked: "fs_pcs s t = None \<Longrightarrow> answers_unlocked D op \<Longrightarrow>
    fence_step D s (at_pc t (Answered (fst (fenced_call D op (fs_delegate s)))) s)"
| call_method: "fs_pcs s t = None \<Longrightarrow> \<not> answers_unlocked D op \<Longrightarrow>
    fence_step D s (at_pc t (Queued False (fence_mode op) (method_body op)) s)"
| call_fence: "fs_pcs s t = None \<Longrightarrow> fence_step D s (at_pc t (Queued True Exclusive (callback_body fn)) s)"
| fence_refused: "fs_pcs s t = None \<Longrightarrow>
    fence_step D s (at_pc t (Answered (Reply (Some ErrContextCanceled))) s)"
| fence_cancelled: "fs_pcs s t = Some (Queued True Exclusive prog) \<Longrightarrow>
    fs_writer s = None \<Longrightarrow> fs_readers s = {} \<Longrightarrow>
    fence_step D s (at_pc t (Answered (Reply (Some ErrContextCanceled))) s)"
| lock_shared: "fs_pcs s t = Some (Queued b Shared prog) \<Longrightarrow> fs_writer s = None \<Longrightarrow>
    fence_step D s (at_pc t (Inside Shared (fs_delegate s) [] prog)
      (s\<lparr>fs_readers := insert t (fs_readers s)\<rparr>))"
| lock_exclusive: "fs_pcs s t = Some (Queued b Exclusive prog) \<Longrightarrow> fs_writer s = None \<Longrightarrow>
    fs_readers s = {} \<Longrightarrow>
    fence_step D s (at_pc t (Inside Exclusive (fs_delegate s) [] prog) (s\<lparr>fs_writer := Some t\<rparr>))"
| act: "fs_pcs s t = Some (Inside m start rs prog) \<Longrightarrow> prog rs = Inl op \<Longrightarrow>
    fenced_call D op (fs_delegate s) = (r, d) \<Longrightarrow>
    fence_step D s (at_pc t (Inside m start (rs @ [r]) prog) (s\<lparr>fs_delegate := d\<rparr>))"
| unlock_shared: "fs_pcs s t = Some (Inside Shared start rs prog) \<Longrightarrow> prog rs = Inr r \<Longrightarrow>
    fence_step D s (at_pc t (Answered r) (s\<lparr>fs_readers := fs_readers s - {t}\<rparr>))"
| unlock_exclusive: "fs_pcs s t = Some (Inside Exclusive start rs prog) \<Longrightarrow> prog rs = Inr r \<Longrightarrow>
    fence_step D s (at_pc t (Answered r) (s\<lparr>fs_writer := None\<rparr>))"

inductive_cases fence_stepE: "fence_step D s s'"

inductive reachable_fence :: "'d VectorStore \<Rightarrow> 'd \<Rightarrow> 'd fence_system \<Rightarrow> bool"
  for D :: "'d VectorStore" and d0 :: 'd where
  fence_initial: "reachable_fence D d0 (initial_fence d0)"
| fence_next: "reachable_fence D d0 s \<Longrightarrow> fence_step D s s' \<Longrightarrow> reachable_fence D d0 s'"

fun holds :: "lock_mode \<Rightarrow> 'd fence_pc option \<Rightarrow> bool" where
  "holds m (Some (Inside m' _ _ _)) = (m' = m)"
| "holds m _ = False"

text \<open>The lock's own state agrees with who is inside, and a writer is alone.\<close>

definition lock_ok :: "'d fence_system \<Rightarrow> bool" where
  "lock_ok s \<longleftrightarrow> (\<forall>t. holds Exclusive (fs_pcs s t) \<longleftrightarrow> fs_writer s = Some t)
     \<and> (\<forall>t. holds Shared (fs_pcs s t) \<longleftrightarrow> t \<in> fs_readers s)
     \<and> (fs_writer s \<noteq> None \<longrightarrow> fs_readers s = {})"

definition exclusive_ok :: "'d VectorStore \<Rightarrow> 'd fence_system \<Rightarrow> bool" where
  "exclusive_ok D s \<longleftrightarrow> (\<forall>t start rs prog. fs_pcs s t = Some (Inside Exclusive start rs prog)
     \<longrightarrow> run_alone D prog start (length rs) = (rs, fs_delegate s))"

lemma at_pc_simps [simp]:
  "fs_delegate (at_pc t pc s) = fs_delegate s" "fs_writer (at_pc t pc s) = fs_writer s"
  "fs_readers (at_pc t pc s) = fs_readers s" "fs_pcs (at_pc t pc s) = (fs_pcs s)(t \<mapsto> pc)"
  by (simp_all add: at_pc_def)

lemma lock_ok_outside:
  assumes "lock_ok s" and "\<And>m. \<not> holds m (fs_pcs s t)" and "\<And>m. \<not> holds m (Some pc)"
  shows "lock_ok (at_pc t pc s)"
proof -
  have "holds m (fs_pcs (at_pc t pc s) u) = holds m (fs_pcs s u)" for m u
    using assms(2,3) by simp
  with assms(1) show ?thesis by (simp add: lock_ok_def del: at_pc_simps(4))
qed

lemma lock_ok_step:
  assumes "fence_step D s s'" and "lock_ok s"
  shows "lock_ok s'"
  using assms(1)
proof cases
  case (act t m start rs prog op r d)
  then have "holds k (fs_pcs s' u) = holds k (fs_pcs s u)" for k u by simp
  with act assms(2) show ?thesis by (simp add: lock_ok_def)
next
  case (lock_shared t b prog)
  with assms(2) show ?thesis by (auto simp: lock_ok_def)
next
  case (lock_exclusive t b prog)
  with assms(2) show ?thesis by (auto simp: lock_ok_def)
next
  case (unlock_shared t start rs prog r)
  with assms(2) have "t \<in> fs_readers s" unfolding lock_ok_def by (metis holds.simps(1))
  with unlock_shared assms(2) show ?thesis by (auto simp: lock_ok_def)
next
  case (unlock_exclusive t start rs prog r)
  with assms(2) have "fs_writer s = Some t" by (auto simp: lock_ok_def)
  with unlock_exclusive assms(2) show ?thesis by (auto simp: lock_ok_def)
qed (use assms(2) in \<open>simp_all add: lock_ok_outside\<close>)

lemma lock_ok_alone:
  assumes "lock_ok s" and "holds Exclusive (fs_pcs s t)" and "holds m (fs_pcs s u)"
  shows "u = t"
  using assms by (cases m) (auto simp: lock_ok_def)

lemma exclusive_ok_step:
  assumes step: "fence_step D s s'" and lock: "lock_ok s" and ok: "exclusive_ok D s"
  shows "exclusive_ok D s'"
  using step
proof cases
  case (act t m start rs prog op r d)
  show ?thesis
    unfolding exclusive_ok_def
  proof (intro allI impI)
    fix u start' rs' prog'
    assume u: "fs_pcs s' u = Some (Inside Exclusive start' rs' prog')"
    have "u = t"
    proof (rule ccontr)
      assume "u \<noteq> t"
      with u act have "holds Exclusive (fs_pcs s u)" "holds m (fs_pcs s t)" by auto
      with lock_ok_alone [OF lock] \<open>u \<noteq> t\<close> show False by metis
    qed
    with u act(1) have "m = Exclusive" by auto
    with ok act(2) have "run_alone D prog start (length rs) = (rs, fs_delegate s)"
      unfolding exclusive_ok_def by blast
    with u act \<open>u = t\<close> show "run_alone D prog' start' (length rs') = (rs', fs_delegate s')"
      by auto
  qed
qed (use ok in \<open>auto simp: exclusive_ok_def\<close>)

lemma reachable_lock_ok: "reachable_fence D d0 s \<Longrightarrow> lock_ok s"
proof (induction rule: reachable_fence.induct)
  case fence_initial
  show ?case by (simp add: initial_fence_def lock_ok_def)
qed (rule lock_ok_step)

lemma reachable_exclusive_ok: "reachable_fence D d0 s \<Longrightarrow> exclusive_ok D s"
proof (induction rule: reachable_fence.induct)
  case fence_initial
  show ?case by (simp add: initial_fence_def exclusive_ok_def)
next
  case (fence_next s s')
  from exclusive_ok_step [OF fence_next(2) reachable_lock_ok [OF fence_next(1)] fence_next(3)]
  show ?case .
qed

subsection \<open>What a reader sees\<close>

text \<open>
  The contract of a delegate: the methods that run under the shared lock leave \<open>view\<close> alone.
  Then the view is constant from the moment a reader has the lock until it gives it back.
\<close>

locale fenced =
  fixes D :: "'d VectorStore" and view :: "'d \<Rightarrow> 'v"
  assumes shared_pure: "fence_mode op = Shared \<Longrightarrow> view (snd (fenced_call D op d)) = view d"
begin

definition shared_ok :: "'d fence_system \<Rightarrow> bool" where
  "shared_ok s \<longleftrightarrow>
     (\<forall>t b prog. fs_pcs s t = Some (Queued b Shared prog)
       \<longrightarrow> (\<forall>rs op. prog rs = Inl op \<longrightarrow> fence_mode op = Shared))
   \<and> (\<forall>t start rs prog. fs_pcs s t = Some (Inside Shared start rs prog)
       \<longrightarrow> (\<forall>rs op. prog rs = Inl op \<longrightarrow> fence_mode op = Shared) \<and> view start = view (fs_delegate s))"

lemma method_body_calls: "method_body op rs = Inl op' \<Longrightarrow> op' = op"
  by (cases rs) auto

lemma shared_ok_step:
  assumes step: "fence_step D s s'" and lock: "lock_ok s" and ok: "shared_ok s"
  shows "shared_ok s'"
  using step
proof cases
  case (act t m start rs prog op r d)
  have same: "view d = view (fs_delegate s)" if "holds Shared (fs_pcs s u)" for u
  proof (cases m)
    case Shared
    with ok act(2,3) have "fence_mode op = Shared" unfolding shared_ok_def by blast
    with shared_pure act(4) show ?thesis by (metis snd_conv)
  next
    case Exclusive
    with act(2) that lock_ok_alone [OF lock, of t Shared u] show ?thesis by auto
  qed
  show ?thesis
    unfolding shared_ok_def
  proof (intro conjI allI impI)
    fix u b prog' rs' op'
    assume "fs_pcs s' u = Some (Queued b Shared prog')" and "prog' rs' = Inl op'"
    with act(1) ok show "fence_mode op' = Shared"
      by (auto simp: shared_ok_def split: if_splits)
  next
    fix u start' rs' prog'
    assume u: "fs_pcs s' u = Some (Inside Shared start' rs' prog')"
    then obtain rs0 where old: "fs_pcs s u = Some (Inside Shared start' rs0 prog')"
      using act(1,2) by (cases "u = t") auto
    with ok have "(\<forall>rs op. prog' rs = Inl op \<longrightarrow> fence_mode op = Shared) \<and> view start' = view (fs_delegate s)"
      unfolding shared_ok_def by blast
    with old same [of u] act(1)
    show "\<And>rs op. prog' rs = Inl op \<Longrightarrow> fence_mode op = Shared" and "view start' = view (fs_delegate s')"
      by auto
  qed
qed (use ok in \<open>auto simp: shared_ok_def dest: method_body_calls\<close>)

lemma reachable_shared_ok: "reachable_fence D d0 s \<Longrightarrow> shared_ok s"
proof (induction rule: reachable_fence.induct)
  case fence_initial
  show ?case by (simp add: initial_fence_def shared_ok_def)
next
  case (fence_next s s')
  from shared_ok_step [OF fence_next(2) reachable_lock_ok [OF fence_next(1)] fence_next(3)]
  show ?case .
qed

lemma reader_view:
  "reachable_fence D d0 s \<Longrightarrow> fs_pcs s t = Some (Inside Shared start rs prog)
    \<Longrightarrow> view start = view (fs_delegate s)"
  using reachable_shared_ok unfolding shared_ok_def by blast

end

interpretation fake_fence: fenced fake_store docs
proof
  fix op :: "fakeVectorStore vector_op" and d
  assume "fence_mode op = Shared"
  then show "docs (snd (fenced_call fake_store op d)) = docs d"
    by (cases op) (simp_all add: fake_store_def replied_def absent_def fake_Search_def fake_Health_def
        fake_Count_def fake_ListDocuments_def fake_QueryExact_def raises_def)
qed

text \<open>
  The in-memory store: a session's documents are counted after an upsert and gone after its
  deletion, other sessions' documents are untouched by the deletion, an upsert of a document
  already stored adds a second copy, and \<open>ResetAll\<close> removes nothing.
\<close>

lemma in_memory_documents:
  "docs (snd (fake_DeleteSession sid f)) = filter (\<lambda>doc. vd_ChatSessionID doc \<noteq> sid) (docs f)
   \<and> fst (fst (fake_Count sid (snd (fake_DeleteSession sid f))))
       = (if sid = [] then int (length (filter (\<lambda>doc. vd_ChatSessionID doc \<noteq> []) (docs f))) else 0)
   \<and> fst (fst (fake_Count [] (snd (fake_Upsert sid ds f)))) = int (length (docs f) + length ds)
   \<and> docs (snd (fake_ResetAll f)) = docs f"
  by (simp add: fake_DeleteSession_def fake_Count_def fake_Upsert_def fake_ResetAll_def)

end
