(* ===== verification/Rollback_Decision.thy ===== *)
theory Rollback_Decision
  imports Turn_Response
begin

text \<open>
  Deciding whether a chat may be rolled back
  (\<open>go-service/internal/httpapi/group_turn_range_decision.go\<close>): the calculation of a decision
  from what the browser plugin and the store observed, and the ledger of one-use tokens that
  carry a decision from \<open>POST /rollback/decision\<close> to the rollback itself.
\<close>

subsection \<open>The request and the response\<close>

text \<open>
  The fields of \<open>rollbackDecisionRequest\<close> in order. The observation of pending input is passed
  through, so its type is a parameter.
\<close>

record routingTurnBaseline =
  rb_BackendTurnAtRoute :: go_int
  rb_LocalPairsAtRoute :: go_int
  rb_Reason :: string
  rb_durableSourceID :: string
  rb_durableVerified :: bool
  rb_durableSourceIDs :: "string list"
  rb_durableInputGroupAliases :: "(string \<times> string list) list"

record rollbackAssistantObservation =
  ao_MessageID :: string
  ao_GenerationID :: string
  ao_ContentHash :: string
  ao_MessageIndex :: go_int
  ao_DisabledState :: string
  ao_StreamingState :: string
  ao_FinalState :: string

record rollbackAssistantObservationDiagnostic =
  ad_ObservationIndex :: go_int
  ad_MessageIndex :: go_int
  ad_Reason :: string

record 'pending rollbackDecisionRequest =
  rq_ChatSessionID :: string
  rq_StableCharacterID :: string
  rq_StableCharacterIDState :: string
  rq_HostChatID :: string
  rq_HostChatIDState :: string
  rq_RequestSource :: string
  rq_Reason :: string
  rq_CandidateFromTurn :: go_int
  rq_PreviousTurnIndex :: go_int
  rq_FirstRemovedTurn :: go_int
  rq_LedgerAnchorTurn :: go_int
  rq_RemovedAssistantCount :: go_int
  rq_RemovedUserCount :: go_int
  rq_RemovedMessageCount :: go_int
  rq_VisibleCompletedTurns :: go_int
  rq_BackendLatestTurn :: go_int
  rq_DeletionObserved :: bool
  rq_LedgerVerified :: bool
  rq_IncompleteTailCandidate :: bool
  rq_BackendIncompleteTailVerified :: bool
  rq_HistoryTrimGuard :: bool
  rq_DuplicateBlocked :: bool
  rq_HostLifecycleObservation :: string
  rq_LifecycleActionObservation :: string
  rq_AllowManualCandidate :: bool
  rq_AssistantObservationScope :: string
  rq_AssistantObservations :: "rollbackAssistantObservation list"
  rq_PendingInputObservation :: "'pending option"
  rq_Baseline :: "routingTurnBaseline option"
  rq_ManualTargetOwnershipObserved :: bool
  rq_ManualTargetOwned :: bool
  rq_AssistantEvidenceRequired :: bool
  rq_AssistantEvidenceVerified :: bool
  rq_AssistantOutputRemoved :: bool
  rq_AssistantEvidenceReason :: string
  rq_RouteBindingRevision :: uint64
  rq_AssistantObservationDigest :: string
  rq_IncompleteAssistantObservations :: "rollbackAssistantObservationDiagnostic list"

record rollbackDecisionResponse =
  rp_Status :: string
  rp_ContractVersion :: string
  rp_Allowed :: bool
  rp_Decision :: string
  rp_Reason :: string
  rp_ChatSessionID :: string
  rp_RequestedFromTurn :: go_int
  rp_FromTurn :: go_int
  rp_ProtectedBeforeTurn :: go_int
  rp_MinFromTurn :: go_int
  rp_EffectiveCompleted :: go_int
  rp_BaselineApplied :: bool
  rp_DecisionToken :: string
  rp_LifecycleAction :: string
  rp_TurnWorkflowHUD :: json
  rp_RouteBindingRevision :: uint64
  rp_AssistantObservationDigest :: string
  rp_IncompleteAssistantObservations :: "rollbackAssistantObservationDiagnostic list"

definition blocked_response :: "string \<Rightarrow> string \<Rightarrow> go_int \<Rightarrow> rollbackDecisionResponse" where
  "blocked_response reason sid candidate =
     \<lparr>rp_Status = ''ok'', rp_ContractVersion = ''rollback.decision.v2'', rp_Allowed = False,
      rp_Decision = ''blocked'', rp_Reason = reason, rp_ChatSessionID = sid,
      rp_RequestedFromTurn = candidate, rp_FromTurn = 0, rp_ProtectedBeforeTurn = 0,
      rp_MinFromTurn = 0, rp_EffectiveCompleted = 0, rp_BaselineApplied = False,
      rp_DecisionToken = [], rp_LifecycleAction = [], rp_TurnWorkflowHUD = JNull,
      rp_RouteBindingRevision = 0, rp_AssistantObservationDigest = [],
      rp_IncompleteAssistantObservations = []\<rparr>"

subsection \<open>The calculation\<close>

definition routingBaselineReasonSupported :: "string \<Rightarrow> bool" where
  "routingBaselineReasonSupported reason \<longleftrightarrow> trim_space reason \<in>
     {''timeline_copy'', ''timeline_migrate'', ''timeline_attach'', ''timeline_stitch''}"

fun firstPositive :: "go_int list \<Rightarrow> go_int" where
  "firstPositive [] = 0"
| "firstPositive (v # vs) = (if 0 < v then v else firstPositive vs)"

definition is_manual :: "'pending rollbackDecisionRequest \<Rightarrow> bool" where
  "is_manual req \<longleftrightarrow> equal_fold_ascii (trim_space (rq_RequestSource req)) ''manual''"

text \<open>
  \<open>LogicalTurnLifecycleDeleted\<close> and \<open>LogicalTurnLifecycleSuperseded\<close>; an empty observation means
  a deletion, \<open>None\<close> is the refusal of any other word.
\<close>

definition lifecycle_action :: "'pending rollbackDecisionRequest \<Rightarrow> string option" where
  "lifecycle_action req =
     (let action = ascii_lower (trim_space (rq_LifecycleActionObservation req))
      in if action = [] then Some ''deleted''
         else if action = ''deleted'' \<or> action = ''superseded'' then Some action
         else None)"

text \<open>The reasons to refuse before a range is looked for, in the order of the code.\<close>

definition evidence_refusal :: "'pending rollbackDecisionRequest \<Rightarrow> string option" where
  "evidence_refusal req =
     (if \<not> is_manual req \<and> rq_AssistantEvidenceRequired req then
        (if \<not> rq_AssistantEvidenceVerified req then
           (let reason = trim_space (rq_AssistantEvidenceReason req)
            in Some (if reason = [] then ''assistant_output_verification_unavailable'' else reason))
         else if \<not> rq_AssistantOutputRemoved req then Some ''assistant_output_not_removed''
         else None)
      else None)"

definition candidate_refusal :: "'pending rollbackDecisionRequest \<Rightarrow> string option" where
  "candidate_refusal req =
     (let manual_candidate = is_manual req \<and> rq_AllowManualCandidate req
      in if \<not> rq_DeletionObserved req \<and> \<not> manual_candidate then Some ''deletion_not_verified''
         else if manual_candidate \<and> rq_CandidateFromTurn req \<le> 0 then Some ''missing_delete_anchor''
         else if manual_candidate \<and> \<not> rq_ManualTargetOwnershipObserved req
           then Some ''manual_target_ownership_unavailable''
         else if manual_candidate \<and> \<not> rq_ManualTargetOwned req then Some ''manual_target_not_owned''
         else if rq_IncompleteTailCandidate req \<and> \<not> rq_BackendIncompleteTailVerified req
           then Some ''incomplete_tail_not_verified''
         else None)"

definition refusal :: "'pending rollbackDecisionRequest \<Rightarrow> string option" where
  "refusal req =
     (let sid = trim_space (rq_ChatSessionID req)
      in if sid = [] \<or> sid = ''default'' then Some ''invalid_session''
         else if rq_HistoryTrimGuard req then Some ''history_trim_guard''
         else if rq_DuplicateBlocked req then Some ''duplicate_rollback_blocked''
         else case lifecycle_action req of
             None \<Rightarrow> Some ''lifecycle_action_observation_invalid''
           | Some _ \<Rightarrow>
               (case evidence_refusal req of
                  Some reason \<Rightarrow> Some reason
                | None \<Rightarrow> candidate_refusal req))"

text \<open>The turns that belong to another session: completed turns, the protected boundary, the first turn after it, and whether a baseline was applied.\<close>

definition baseline_turns ::
    "'pending rollbackDecisionRequest \<Rightarrow> go_int \<times> go_int \<times> go_int \<times> bool" where
  "baseline_turns req =
     (case rq_Baseline req of
        Some baseline \<Rightarrow>
          (if \<not> is_manual req \<and> routingBaselineReasonSupported (rb_Reason baseline)
              \<and> 0 < rb_BackendTurnAtRoute baseline
           then
             (let localBase = max 0 (rb_LocalPairsAtRoute baseline);
                  backendBase = max 0 (rb_BackendTurnAtRoute baseline)
              in (int64 (backendBase + max 0 (int64 (rq_VisibleCompletedTurns req - localBase))),
                  backendBase, int64 (backendBase + 1), True))
           else (max 0 (rq_VisibleCompletedTurns req), 0, 0, False))
      | None \<Rightarrow> (max 0 (rq_VisibleCompletedTurns req), 0, 0, False))"

text \<open>The first turn to delete, before it is moved past the protected boundary; 0 is none. \<open>Inl\<close> is a refusal.\<close>

definition delete_anchor ::
    "'pending rollbackDecisionRequest \<Rightarrow> go_int \<Rightarrow> string + go_int" where
  "delete_anchor req effectiveCompleted =
     (let found =
        (if rq_BackendIncompleteTailVerified req \<and> 0 < rq_BackendLatestTurn req
           then Inr (rq_BackendLatestTurn req)
         else if rq_LedgerVerified req \<and> 0 < rq_RemovedAssistantCount req \<and> 0 < rq_BackendLatestTurn req
           then (if rq_BackendLatestTurn req < rq_RemovedAssistantCount req
                   then Inl ''ledger_removed_count_exceeds_backend_tail''
                 else Inr (rq_BackendLatestTurn req - rq_RemovedAssistantCount req + 1))
         else Inr (firstPositive [rq_FirstRemovedTurn req, rq_LedgerAnchorTurn req]))
      in case found of
           Inl reason \<Rightarrow> Inl reason
         | Inr t \<Rightarrow>
             (let t = (if t = 0 \<and> rq_LedgerVerified req \<and> 0 \<le> effectiveCompleted
                         then int64 (effectiveCompleted + 1) else t);
                  t = (if t = 0 \<and> 0 < rq_RemovedAssistantCount req \<and> 0 < rq_PreviousTurnIndex req
                         then max 1 (rq_PreviousTurnIndex req - rq_RemovedAssistantCount req + 1) else t)
              in Inr (if t = 0 then rq_CandidateFromTurn req else t)))"

text \<open>A range that reaches into the protected turns starts after them.\<close>

definition clamp_anchor :: "go_int \<Rightarrow> go_int \<Rightarrow> go_int" where
  "clamp_anchor minFrom anchor = (if 0 < minFrom \<and> anchor < minFrom then minFrom else anchor)"

definition calculateRollbackDecision ::
    "'pending rollbackDecisionRequest \<Rightarrow> rollbackDecisionResponse" where
  "calculateRollbackDecision req =
     (let sid = trim_space (rq_ChatSessionID req);
          blocked = (\<lambda>reason. blocked_response reason sid (rq_CandidateFromTurn req))
      in case refusal req of
           Some reason \<Rightarrow> blocked reason
         | None \<Rightarrow>
             (let (effectiveCompleted, protectedBefore, minFrom, baselineApplied) = baseline_turns req
              in case delete_anchor req effectiveCompleted of
                   Inl reason \<Rightarrow> blocked reason
                 | Inr anchor \<Rightarrow>
                     (if anchor \<le> 0 then blocked ''missing_delete_anchor''
                      else
                        (let fromTurn = clamp_anchor minFrom anchor
                         in if 0 < rq_BackendLatestTurn req \<and> rq_BackendLatestTurn req < fromTurn
                              then (blocked ''delete_anchor_after_backend_tail'')\<lparr>rp_FromTurn := fromTurn\<rparr>
                            else
                              (blocked ''verified_delete_range'')
                                \<lparr>rp_Allowed := True, rp_Decision := ''execute'', rp_FromTurn := fromTurn,
                                 rp_ProtectedBeforeTurn := protectedBefore, rp_MinFromTurn := minFrom,
                                 rp_EffectiveCompleted := effectiveCompleted,
                                 rp_BaselineApplied := baselineApplied,
                                 rp_LifecycleAction := the (lifecycle_action req)\<rparr>))))"

lemmas decision_parts =
  calculateRollbackDecision_def refusal_def evidence_refusal_def candidate_refusal_def Let_def

lemma blocked_response_simps [simp]:
  "rp_Allowed (blocked_response reason sid n) = False"
  "rp_FromTurn (blocked_response reason sid n) = 0"
  by (simp_all add: blocked_response_def)

text \<open>
  An allowed decision is one whose parts all allow it.
\<close>

lemma refused_decision: "refusal req = Some reason \<Longrightarrow> \<not> rp_Allowed (calculateRollbackDecision req)"
  by (simp add: calculateRollbackDecision_def Let_def)

lemma accepted_decision:
  assumes "refusal req = None" and "baseline_turns req = (completed, before, minFrom, applied)"
  shows "rp_Allowed (calculateRollbackDecision req) \<longleftrightarrow>
      (case delete_anchor req completed of
         Inl reason \<Rightarrow> False
       | Inr anchor \<Rightarrow> 0 < anchor \<and>
           (0 < rq_BackendLatestTurn req \<longrightarrow> clamp_anchor minFrom anchor \<le> rq_BackendLatestTurn req))"
    and "delete_anchor req completed = Inr anchor \<Longrightarrow> rp_Allowed (calculateRollbackDecision req)
      \<Longrightarrow> rp_FromTurn (calculateRollbackDecision req) = clamp_anchor minFrom anchor
        \<and> rp_LifecycleAction (calculateRollbackDecision req) = the (lifecycle_action req)
        \<and> rp_EffectiveCompleted (calculateRollbackDecision req) = completed
        \<and> rp_MinFromTurn (calculateRollbackDecision req) = minFrom"
proof -
  show accepted: "rp_Allowed (calculateRollbackDecision req) \<longleftrightarrow>
      (case delete_anchor req completed of
         Inl reason \<Rightarrow> False
       | Inr anchor \<Rightarrow> 0 < anchor \<and>
           (0 < rq_BackendLatestTurn req \<longrightarrow> clamp_anchor minFrom anchor \<le> rq_BackendLatestTurn req))"
    by (cases "delete_anchor req completed")
      (simp_all add: calculateRollbackDecision_def assms Let_def not_less)
  assume anchor: "delete_anchor req completed = Inr anchor" and "rp_Allowed (calculateRollbackDecision req)"
  with accepted have early: "\<not> anchor \<le> 0"
    "\<not> (0 < rq_BackendLatestTurn req \<and> rq_BackendLatestTurn req < clamp_anchor minFrom anchor)"
    by auto
  show "rp_FromTurn (calculateRollbackDecision req) = clamp_anchor minFrom anchor
        \<and> rp_LifecycleAction (calculateRollbackDecision req) = the (lifecycle_action req)
        \<and> rp_EffectiveCompleted (calculateRollbackDecision req) = completed
        \<and> rp_MinFromTurn (calculateRollbackDecision req) = minFrom"
    unfolding calculateRollbackDecision_def Let_def assms by (simp add: anchor early)
qed

lemma allowed_cases:
  assumes "rp_Allowed (calculateRollbackDecision req)"
    and "baseline_turns req = (completed, before, minFrom, applied)"
  obtains anchor where "refusal req = None" and "delete_anchor req completed = Inr anchor"
    and "0 < anchor" and "rp_FromTurn (calculateRollbackDecision req) = clamp_anchor minFrom anchor"
    and "0 < rq_BackendLatestTurn req \<Longrightarrow> clamp_anchor minFrom anchor \<le> rq_BackendLatestTurn req"
    and "rp_LifecycleAction (calculateRollbackDecision req) = the (lifecycle_action req)"
proof -
  have none: "refusal req = None"
    using assms(1) refused_decision by fastforce
  note eqs = accepted_decision [OF none assms(2)]
  obtain anchor where "delete_anchor req completed = Inr anchor"
    using assms(1) eqs(1) by (cases "delete_anchor req completed") auto
  with assms(1) eqs none that show thesis by auto
qed

lemma refusal_none:
  assumes "refusal req = None"
  shows "trim_space (rq_ChatSessionID req) \<notin> {[], ''default''}"
    and "\<not> rq_HistoryTrimGuard req" and "\<not> rq_DuplicateBlocked req"
    and "evidence_refusal req = None" and "candidate_refusal req = None"
    and "lifecycle_action req \<in> {Some ''deleted'', Some ''superseded''}"
  using assms
  by (auto simp: refusal_def lifecycle_action_def Let_def split: option.splits if_splits)

text \<open>What a decision does not look at.\<close>

lemma manual_turns:
  "is_manual req \<Longrightarrow> baseline_turns req = (max 0 (rq_VisibleCompletedTurns req), 0, 0, False)"
  by (simp add: baseline_turns_def split: option.splits)

lemma manual_ignores_evidence:
  assumes "is_manual req"
  shows "calculateRollbackDecision (req\<lparr>rq_Baseline := baseline, rq_AssistantEvidenceRequired := required,
      rq_AssistantEvidenceVerified := verified, rq_AssistantOutputRemoved := removed\<rparr>)
    = calculateRollbackDecision req"
proof -
  let ?req = "req\<lparr>rq_Baseline := baseline, rq_AssistantEvidenceRequired := required,
      rq_AssistantEvidenceVerified := verified, rq_AssistantOutputRemoved := removed\<rparr>"
  have same: "is_manual ?req = is_manual req" by (simp add: is_manual_def)
  have "lifecycle_action ?req = lifecycle_action req" "evidence_refusal ?req = None"
    "evidence_refusal req = None" "candidate_refusal ?req = candidate_refusal req"
    using assms same by (simp_all add: lifecycle_action_def evidence_refusal_def candidate_refusal_def Let_def)
  note parts = this
  have fields: "rq_ChatSessionID ?req = rq_ChatSessionID req" "rq_HistoryTrimGuard ?req = rq_HistoryTrimGuard req"
    "rq_DuplicateBlocked ?req = rq_DuplicateBlocked req" "rq_CandidateFromTurn ?req = rq_CandidateFromTurn req"
    "rq_BackendLatestTurn ?req = rq_BackendLatestTurn req"
    "rq_BackendIncompleteTailVerified ?req = rq_BackendIncompleteTailVerified req"
    "rq_LedgerVerified ?req = rq_LedgerVerified req" "rq_RemovedAssistantCount ?req = rq_RemovedAssistantCount req"
    "rq_FirstRemovedTurn ?req = rq_FirstRemovedTurn req" "rq_LedgerAnchorTurn ?req = rq_LedgerAnchorTurn req"
    "rq_PreviousTurnIndex ?req = rq_PreviousTurnIndex req"
    by simp_all
  have refusals: "refusal ?req = refusal req"
    unfolding refusal_def fields parts by (rule refl)
  have turns: "baseline_turns ?req = baseline_turns req"
    using manual_turns [of req] manual_turns [of ?req] assms same by simp
  have anchors: "delete_anchor ?req n = delete_anchor req n" for n
    unfolding delete_anchor_def fields by (rule refl)
  show ?thesis
    unfolding calculateRollbackDecision_def fields parts refusals turns anchors by (rule refl)
qed

subsection \<open>The ledger of decision tokens\<close>

record rollbackDecisionRecord =
  dr_Token :: string
  dr_SessionID :: string
  dr_FromTurn :: go_int
  dr_RequestSource :: string
  dr_LifecycleAction :: string
  dr_StableCharacterID :: string
  dr_HostChatID :: string
  dr_CanonicalSessionID :: string
  dr_RouteBindingRevision :: uint64
  dr_AssistantObservationDigest :: string
  dr_Sequence :: uint64

record rollbackDecisionLedger =
  dl_records :: "(string \<times> rollbackDecisionRecord) list"
  dl_nextSequence :: uint64

definition rollbackDecisionMax :: nat where
  "rollbackDecisionMax = 1024"

definition newRollbackDecisionLedger :: rollbackDecisionLedger where
  "newRollbackDecisionLedger = \<lparr>dl_records = [], dl_nextSequence = 0\<rparr>"

fun oldest_scan ::
    "(string \<times> rollbackDecisionRecord) list \<Rightarrow> string \<Rightarrow> uint64 \<Rightarrow> string \<times> uint64" where
  "oldest_scan [] oldestToken oldestSequence = (oldestToken, oldestSequence)"
| "oldest_scan ((token, record) # rest) oldestToken oldestSequence =
     (if oldestToken = [] \<or> dr_Sequence record < oldestSequence
        then oldest_scan rest token (dr_Sequence record)
      else oldest_scan rest oldestToken oldestSequence)"

definition evictOldestLocked :: "rollbackDecisionLedger \<Rightarrow> rollbackDecisionLedger" where
  "evictOldestLocked l =
     (let (oldestToken, _) = oldest_scan (dl_records l) [] 0
      in if oldestToken \<noteq> [] then l\<lparr>dl_records := map_remove oldestToken (dl_records l)\<rparr> else l)"

text \<open>\<open>token\<close> is the hexadecimal text of 18 random bytes (or of the time, if there are none); it is never empty.\<close>

definition issue ::
    "string \<Rightarrow> rollbackDecisionRecord \<Rightarrow> rollbackDecisionLedger \<Rightarrow>
     rollbackDecisionRecord \<times> rollbackDecisionLedger" where
  "issue token record l =
     (let l = (if rollbackDecisionMax \<le> length (dl_records l) then evictOldestLocked l else l);
          seq = dl_nextSequence l + 1;
          record = record\<lparr>dr_Token := token, dr_Sequence := seq\<rparr>
      in (record, l\<lparr>dl_nextSequence := seq, dl_records := map_put token record (dl_records l)\<rparr>))"

definition consume ::
    "string \<Rightarrow> string \<Rightarrow> go_int \<Rightarrow> string \<Rightarrow> rollbackDecisionLedger \<Rightarrow>
     rollbackDecisionRecord option \<times> rollbackDecisionLedger" where
  "consume token sessionID fromTurn digest l =
     (case map_of (dl_records l) token of
        None \<Rightarrow> (None, l)
      | Some record \<Rightarrow>
          (let l = l\<lparr>dl_records := map_remove token (dl_records l)\<rparr>
           in if dr_SessionID record \<noteq> sessionID \<or> dr_FromTurn record \<noteq> fromTurn
                 \<or> trim_space (dr_AssistantObservationDigest record) \<noteq> trim_space digest
                then (None, l) else (Some record, l)))"

lemma oldest_scan_member:
  "oldest_scan rs tok s = (tok', s') \<Longrightarrow>
    (tok', s') = (tok, s) \<or> (\<exists>r. (tok', r) \<in> set rs \<and> s' = dr_Sequence r)"
proof (induction rs tok s rule: oldest_scan.induct)
  case (2 token rec rest oldestToken oldestSequence)
  then show ?case by (cases "oldestToken = [] \<or> dr_Sequence rec < oldestSequence") auto
qed simp

lemma oldest_scan_none:
  "[] \<notin> fst ` set rs \<Longrightarrow> oldest_scan rs tok s = (tok', s') \<Longrightarrow> tok' = [] \<longleftrightarrow> tok = [] \<and> rs = []"
proof (induction rs tok s rule: oldest_scan.induct)
  case (2 token rec rest oldestToken oldestSequence)
  then show ?case by (cases "oldestToken = [] \<or> dr_Sequence rec < oldestSequence") auto
qed auto

lemma oldest_scan_min:
  "[] \<notin> fst ` set rs \<Longrightarrow> oldest_scan rs tok s = (tok', s') \<Longrightarrow>
    (tok \<noteq> [] \<longrightarrow> s' \<le> s) \<and> (\<forall>kr \<in> set rs. s' \<le> dr_Sequence (snd kr))"
proof (induction rs tok s rule: oldest_scan.induct)
  case (2 token rec rest oldestToken oldestSequence)
  show ?case
  proof (cases "oldestToken = [] \<or> dr_Sequence rec < oldestSequence")
    case True
    with 2 have "s' \<le> dr_Sequence rec" and "\<forall>kr \<in> set rest. s' \<le> dr_Sequence (snd kr)" by auto
    with True show ?thesis by auto
  next
    case False
    with 2 have "s' \<le> oldestSequence" and "\<forall>kr \<in> set rest. s' \<le> dr_Sequence (snd kr)" by auto
    with False show ?thesis by auto
  qed
qed auto

definition decisions_ok :: "rollbackDecisionLedger \<Rightarrow> bool" where
  "decisions_ok l \<longleftrightarrow> go_map (dl_records l) \<and> [] \<notin> fst ` set (dl_records l)
     \<and> length (dl_records l) \<le> rollbackDecisionMax"

lemma evict_oldest:
  assumes "decisions_ok l" and "dl_records l \<noteq> []"
  obtains token rec where "map_of (dl_records l) token = Some rec"
    and "evictOldestLocked l = l\<lparr>dl_records := map_remove token (dl_records l)\<rparr>"
    and "\<And>k r. map_of (dl_records l) k = Some r \<Longrightarrow> dr_Sequence rec \<le> dr_Sequence r"
proof -
  obtain tok s where scan: "oldest_scan (dl_records l) [] 0 = (tok, s)" by (metis surj_pair)
  have keys: "[] \<notin> fst ` set (dl_records l)" and "go_map (dl_records l)"
    using assms(1) by (auto simp: decisions_ok_def)
  have "tok \<noteq> []" using oldest_scan_none [OF keys scan] assms(2) by simp
  then obtain r where r: "(tok, r) \<in> set (dl_records l)" "s = dr_Sequence r"
    using oldest_scan_member [OF scan] by auto
  have "map_of (dl_records l) tok = Some r" using r(1) \<open>go_map (dl_records l)\<close> by simp
  moreover have "evictOldestLocked l = l\<lparr>dl_records := map_remove tok (dl_records l)\<rparr>"
    using scan \<open>tok \<noteq> []\<close> by (simp add: evictOldestLocked_def)
  moreover have "dr_Sequence r \<le> dr_Sequence r'" if "map_of (dl_records l) k = Some r'" for k r'
    using oldest_scan_min [OF keys scan] map_of_SomeD [OF that] r(2) by force
  ultimately show thesis by (rule that)
qed

subsection \<open>Histories of the ledger\<close>

text \<open>
  A history of calls, the last one first; \<open>Issue token record\<close> is a decision that was allowed and
  the token drawn for it, \<open>Consume\<close> a rollback that presents a token. The ledger's mutex makes each
  call one step.
\<close>

datatype decision_call =
    Issue string rollbackDecisionRecord
  | Consume string string go_int string

fun decision_step :: "decision_call \<Rightarrow> rollbackDecisionLedger \<Rightarrow> rollbackDecisionLedger" where
  "decision_step (Issue token record) l = snd (issue token record l)"
| "decision_step (Consume token sessionID fromTurn digest) l = snd (consume token sessionID fromTurn digest l)"

primrec after_calls :: "decision_call list \<Rightarrow> rollbackDecisionLedger" where
  "after_calls [] = newRollbackDecisionLedger"
| "after_calls (c # h) = decision_step c (after_calls h)"

text \<open>The decision a token stands for: issued with it last, and not presented since.\<close>

fun standing :: "decision_call list \<Rightarrow> string \<Rightarrow> rollbackDecisionRecord option" where
  "standing [] tok = None"
| "standing (Issue u r # h) tok = (if u = tok then Some r else standing h tok)"
| "standing (Consume u _ _ _ # h) tok = (if u = tok then None else standing h tok)"

fun issued :: "decision_call list \<Rightarrow> nat" where
  "issued [] = 0"
| "issued (Issue _ _ # h) = Suc (issued h)"
| "issued (Consume _ _ _ _ # h) = issued h"

fun issued_since :: "decision_call list \<Rightarrow> string \<Rightarrow> nat" where
  "issued_since [] tok = 0"
| "issued_since (Issue u _ # h) tok = (if u = tok then 0 else Suc (issued_since h tok))"
| "issued_since (Consume _ _ _ _ # h) tok = issued_since h tok"

definition drawn_tokens :: "decision_call list \<Rightarrow> bool" where
  "drawn_tokens h \<longleftrightarrow> (\<forall>c \<in> set h. case c of Issue tok _ \<Rightarrow> tok \<noteq> [] | Consume _ _ _ _ \<Rightarrow> True)"

lemma drawn_tokens_simps [simp]:
  "drawn_tokens []" "drawn_tokens (Issue tok r # h) \<longleftrightarrow> tok \<noteq> [] \<and> drawn_tokens h"
  "drawn_tokens (Consume tok sid n dg # h) \<longleftrightarrow> drawn_tokens h"
  by (auto simp: drawn_tokens_def)

lemma issued_le: "issued h \<le> length h"
  by (induction h rule: issued.induct) auto

text \<open>What a call leaves in the map.\<close>

definition room :: "rollbackDecisionLedger \<Rightarrow> rollbackDecisionLedger" where
  "room l = (if rollbackDecisionMax \<le> length (dl_records l) then evictOldestLocked l else l)"

definition stamped :: "string \<Rightarrow> uint64 \<Rightarrow> rollbackDecisionRecord \<Rightarrow> rollbackDecisionRecord" where
  "stamped tok seq r = r\<lparr>dr_Token := tok, dr_Sequence := seq\<rparr>"

lemma stamped_simps [simp]:
  "dr_Sequence (stamped tok seq r) = seq" "dr_SessionID (stamped tok seq r) = dr_SessionID r"
  "dr_FromTurn (stamped tok seq r) = dr_FromTurn r"
  "dr_AssistantObservationDigest (stamped tok seq r) = dr_AssistantObservationDigest r"
  "dr_LifecycleAction (stamped tok seq r) = dr_LifecycleAction r"
  by (simp_all add: stamped_def)

lemma room_cases:
  assumes "decisions_ok l"
  obtains (kept) "room l = l" and "length (dl_records l) < rollbackDecisionMax"
  | (evicted) token rec where "map_of (dl_records l) token = Some rec"
      and "room l = l\<lparr>dl_records := map_remove token (dl_records l)\<rparr>"
      and "length (dl_records l) = rollbackDecisionMax"
      and "\<And>k r. map_of (dl_records l) k = Some r \<Longrightarrow> dr_Sequence rec \<le> dr_Sequence r"
proof (cases "rollbackDecisionMax \<le> length (dl_records l)")
  case True
  then have full: "length (dl_records l) = rollbackDecisionMax" "dl_records l \<noteq> []"
    using assms by (auto simp: decisions_ok_def rollbackDecisionMax_def)
  obtain token rec where "map_of (dl_records l) token = Some rec"
    "evictOldestLocked l = l\<lparr>dl_records := map_remove token (dl_records l)\<rparr>"
    "\<And>k r. map_of (dl_records l) k = Some r \<Longrightarrow> dr_Sequence rec \<le> dr_Sequence r"
    using evict_oldest [OF assms full(2)] by blast
  with evicted full(1) True show thesis by (simp add: room_def)
next
  case False
  with kept show thesis by (simp add: room_def)
qed

lemma issue_state:
  assumes "decisions_ok l"
  shows "dl_nextSequence (snd (issue tok r l)) = dl_nextSequence l + 1"
    and "map_of (dl_records (snd (issue tok r l))) =
      (map_of (dl_records (room l)))(tok \<mapsto> stamped tok (dl_nextSequence l + 1) r)"
    and "tok \<noteq> [] \<Longrightarrow> decisions_ok (snd (issue tok r l))"
proof -
  have next_seq: "dl_nextSequence (room l) = dl_nextSequence l"
    using assms by (cases rule: room_cases) auto
  have state: "snd (issue tok r l) = (room l)\<lparr>dl_nextSequence := dl_nextSequence l + 1,
      dl_records := map_put tok (stamped tok (dl_nextSequence l + 1) r) (dl_records (room l))\<rparr>"
    using next_seq by (simp add: issue_def Let_def room_def stamped_def)
  then show "dl_nextSequence (snd (issue tok r l)) = dl_nextSequence l + 1"
    and "map_of (dl_records (snd (issue tok r l))) =
      (map_of (dl_records (room l)))(tok \<mapsto> stamped tok (dl_nextSequence l + 1) r)"
    by simp_all
  have "go_map (dl_records (room l)) \<and> [] \<notin> fst ` set (dl_records (room l))
      \<and> length (dl_records (room l)) < rollbackDecisionMax"
    using assms
  proof (cases rule: room_cases)
    case (evicted token rec)
    with assms length_map_remove_present [of "dl_records l" token rec] show ?thesis
      by (auto simp: decisions_ok_def set_map_remove)
  qed (use assms in \<open>auto simp: decisions_ok_def\<close>)
  then show "decisions_ok (snd (issue tok r l))" if "tok \<noteq> []"
    using that
    by (auto simp: state decisions_ok_def map_put_def set_map_remove
        intro: Suc_leI [OF le_less_trans [OF length_map_remove_le]])
qed

lemma consume_state:
  "dl_nextSequence (snd (consume tok sid n dg l)) = dl_nextSequence l"
  "map_of (dl_records (snd (consume tok sid n dg l))) = (map_of (dl_records l))(tok := None)"
  "decisions_ok l \<Longrightarrow> decisions_ok (snd (consume tok sid n dg l))"
  by (auto simp: consume_def Let_def decisions_ok_def set_map_remove fun_upd_idem split: option.splits
      intro: le_trans [OF length_map_remove_le])

lemma after_calls_ok: "drawn_tokens h \<Longrightarrow> decisions_ok (after_calls h)"
proof (induction h)
  case Nil
  show ?case by (simp add: decisions_ok_def newRollbackDecisionLedger_def)
next
  case (Cons c h)
  then show ?case by (cases c) (simp_all add: issue_state(3) consume_state(3))
qed

text \<open>Whatever the map holds under a token is the decision the token stands for.\<close>

lemma held_stands:
  "drawn_tokens h \<Longrightarrow> map_of (dl_records (after_calls h)) tok = Some rec \<Longrightarrow>
    \<exists>r. standing h tok = Some r \<and> rec = stamped tok (dr_Sequence rec) r"
proof (induction h arbitrary: rec)
  case Nil
  then show ?case by (simp add: newRollbackDecisionLedger_def)
next
  case (Cons c h)
  have ok: "decisions_ok (after_calls h)" using Cons.prems(1) by (cases c) (simp_all add: after_calls_ok)
  show ?case
  proof (cases c)
    case (Issue u r)
    have "map_of (dl_records (after_calls h)) tok = Some rec" if "u \<noteq> tok"
      using ok Cons.prems(2) that unfolding Issue
      by (cases rule: room_cases) (auto simp: issue_state(2) [OF ok] split: if_splits)
    with Cons Issue show ?thesis by (auto simp: issue_state(2) [OF ok] stamped_def)
  next
    case (Consume u sid n dg)
    with Cons show ?thesis by (auto simp: consume_state(2) split: if_splits)
  qed
qed

text \<open>
  Sequence numbers are drawn in order (until the counter wraps), so the record that is evicted is
  the one with the most issues since.
\<close>

definition in_sequence :: "decision_call list \<Rightarrow> bool" where
  "in_sequence h \<longleftrightarrow> unat (dl_nextSequence (after_calls h)) = issued h
     \<and> (\<forall>tok rec. map_of (dl_records (after_calls h)) tok = Some rec
          \<longrightarrow> unat (dr_Sequence rec) + issued_since h tok = issued h)
     \<and> inj_on (\<lambda>tok. dr_Sequence (the (map_of (dl_records (after_calls h)) tok)))
          (dom (map_of (dl_records (after_calls h))))"

lemma room_submap:
  assumes "decisions_ok l"
  shows "map_of (dl_records (room l)) \<subseteq>\<^sub>m map_of (dl_records l)"
  using assms by (cases rule: room_cases) (auto simp: map_le_def)

lemma in_sequence_after:
  "drawn_tokens h \<Longrightarrow> length h < 2 ^ 64 \<Longrightarrow> in_sequence h"
proof (induction h)
  case Nil
  show ?case by (simp add: in_sequence_def newRollbackDecisionLedger_def)
next
  case (Cons c h)
  then have IH: "in_sequence h" and drawn: "drawn_tokens h" by (cases c; simp)+
  have ok: "decisions_ok (after_calls h)" by (rule after_calls_ok [OF drawn])
  let ?m = "map_of (dl_records (after_calls h))"
  have inj: "inj_on (\<lambda>k. dr_Sequence (the (?m k))) (dom ?m)"
    and seq: "\<And>k r. ?m k = Some r \<Longrightarrow> unat (dr_Sequence r) + issued_since h k = issued h"
    and last: "unat (dl_nextSequence (after_calls h)) = issued h"
    using IH by (auto simp: in_sequence_def)
  show ?case
  proof (cases c)
    case (Consume u sid n dg)
    have "inj_on (\<lambda>k. dr_Sequence (the ((?m(u := None)) k))) (dom ?m - {u})"
      using inj by (rule inj_on_subset [THEN inj_on_cong [THEN iffD1, rotated]]) auto
    with Consume seq last show ?thesis
      by (simp add: in_sequence_def consume_state)
  next
    case (Issue u r)
    let ?n = "dl_nextSequence (after_calls h)" and ?m' = "map_of (dl_records (room (after_calls h)))"
    have sub: "?m' \<subseteq>\<^sub>m ?m" by (rule room_submap [OF ok])
    have "issued h < 2 ^ 64 - 1" using issued_le [of h] Cons.prems(2) by simp
    then have next_seq: "unat (?n + 1) = Suc (issued h)"
      using last by (simp add: unat_word_ariths)
    have old: "?m k = Some rec" "dr_Sequence rec \<noteq> ?n + 1" if "?m' k = Some rec" for k rec
    proof -
      show "?m k = Some rec" using sub that by (auto simp: map_le_def dom_def)
      from seq [OF this] next_seq show "dr_Sequence rec \<noteq> ?n + 1" by auto
    qed
    have "inj_on (\<lambda>k. dr_Sequence (the ((?m'(u \<mapsto> stamped u (?n + 1) r)) k)))
        (dom (?m'(u \<mapsto> stamped u (?n + 1) r)))"
    proof (rule inj_onI)
      fix j k
      assume "j \<in> dom (?m'(u \<mapsto> stamped u (?n + 1) r))" "k \<in> dom (?m'(u \<mapsto> stamped u (?n + 1) r))"
        and eq: "dr_Sequence (the ((?m'(u \<mapsto> stamped u (?n + 1) r)) j))
          = dr_Sequence (the ((?m'(u \<mapsto> stamped u (?n + 1) r)) k))"
      then have "j = u \<or> (\<exists>x. ?m' j = Some x)" "k = u \<or> (\<exists>y. ?m' k = Some y)" by (auto split: if_splits)
      with eq old inj show "j = k"
        by (cases "j = u"; cases "k = u") (auto simp: inj_on_def dom_def, metis)
    qed
    moreover have "unat (dr_Sequence rec) + issued_since (c # h) k = issued (c # h)"
      if "(?m'(u \<mapsto> stamped u (?n + 1) r)) k = Some rec" for k rec
      using that seq old(1) next_seq by (cases "k = u") (fastforce simp: Issue)+
    ultimately show ?thesis
      using Issue next_seq by (simp add: in_sequence_def issue_state [OF ok])
  qed
qed

text \<open>
  A record is evicted only when all 1024 records have later numbers, so the 1023 decisions issued
  after it cannot remove it.
\<close>

lemma evicted_is_old:
  assumes ok: "decisions_ok l" and at: "map_of (dl_records l) tok = Some rec"
    and gone: "map_of (dl_records (room l)) tok = None"
    and inj: "inj_on (\<lambda>k. dr_Sequence (the (map_of (dl_records l) k))) (dom (map_of (dl_records l)))"
    and bound: "\<And>k r. map_of (dl_records l) k = Some r \<Longrightarrow> unat (dr_Sequence r) \<le> n"
  shows "unat (dr_Sequence rec) + rollbackDecisionMax \<le> Suc n"
  using ok
proof (cases rule: room_cases)
  case kept
  with at gone show ?thesis by simp
next
  case (evicted token old)
  let ?m = "map_of (dl_records l)" and ?s = "unat (dr_Sequence rec)"
  let ?seq = "\<lambda>k. unat (dr_Sequence (the (?m k)))"
  have "token = tok" using evicted(2) at gone by (auto split: if_splits)
  then have "old = rec" using evicted(1) at by simp
  have "?seq ` dom ?m \<subseteq> {?s..n}"
    using evicted(4) bound by (force simp: \<open>old = rec\<close> word_le_nat_alt)
  moreover have "inj_on ?seq (dom ?m)"
    using inj by (simp add: inj_on_def word_unat_eq_iff)
  ultimately have "card (dom ?m) \<le> card {?s..n}"
    by (metis card_image card_mono finite_atLeastAtMost)
  moreover have "card (dom ?m) = rollbackDecisionMax"
    using ok evicted(3) distinct_card [of "map fst (dl_records l)"]
    by (simp add: decisions_ok_def dom_map_of_conv_image_fst)
  ultimately show ?thesis using bound [OF at] by simp
qed

lemma standing_held:
  "drawn_tokens h \<Longrightarrow> length h < 2 ^ 64 \<Longrightarrow> standing h tok = Some r \<Longrightarrow>
    issued_since h tok < rollbackDecisionMax \<Longrightarrow>
    \<exists>rec. map_of (dl_records (after_calls h)) tok = Some rec"
proof (induction h)
  case (Cons c h)
  then have drawn: "drawn_tokens h" and small: "length h < 2 ^ 64" by (cases c; simp)+
  have ok: "decisions_ok (after_calls h)" by (rule after_calls_ok [OF drawn])
  have numbers: "in_sequence h" by (rule in_sequence_after [OF drawn small])
  show ?case
  proof (cases c)
    case (Consume u sid n dg)
    with Cons show ?thesis by (auto simp: consume_state split: if_splits)
  next
    case (Issue u r')
    show ?thesis
    proof (cases "u = tok")
      case True
      then show ?thesis by (simp add: Issue issue_state(2) [OF ok])
    next
      case False
      with Issue Cons obtain rec where rec: "map_of (dl_records (after_calls h)) tok = Some rec"
        by auto
      have "map_of (dl_records (room (after_calls h))) tok \<noteq> None"
      proof
        assume "map_of (dl_records (room (after_calls h))) tok = None"
        from evicted_is_old [OF ok rec this, of "issued h"] numbers
        have "unat (dr_Sequence rec) + rollbackDecisionMax \<le> Suc (issued h)"
          by (force simp: in_sequence_def)
        moreover have "unat (dr_Sequence rec) + issued_since h tok = issued h"
          using numbers rec by (simp add: in_sequence_def)
        ultimately show False using Cons.prems(4) False Issue by simp
      qed
      with False show ?thesis by (simp add: Issue issue_state(2) [OF ok])
    qed
  qed
qed simp

end
