(* ===== verification/Deletion_Evidence.thy ===== *)
theory Deletion_Evidence
  imports Rollback_Decision Store_Api "HOL-Library.List_Lexorder" "HOL-Library.Char_ord"
    "HOL-Library.Product_Lexorder" "HOL-Library.Multiset"
begin

text \<open>
  Has a reply been deleted from the chat? The evidence is what the plugin sees of the replies
  (\<open>rollbackAssistantObservation\<close>), compared with the replies the store has accepted
  (\<open>verifyRollbackAssistantDeletionEvidence\<close> and its helpers in
  \<open>go-service/internal/httpapi/group_turn_range_decision.go\<close>), and the content hash both sides
  compute (\<open>prepareOR1CHash\<close> in \<open>prepare_turn_source_contract.go\<close>).
\<close>

subsection \<open>The content hash\<close>

definition utf16_units :: "nat \<Rightarrow> nat list" where
  "utf16_units r =
     (if r < 0x10000 then [r]
      else [0xD800 + (r - 0x10000) div 0x400, 0xDC00 + (r - 0x10000) mod 0x400])"

text \<open>The running hash stays below 2^31, so the 64-bit arithmetic of the code does not wrap.\<close>

definition or1c_step :: "nat \<Rightarrow> nat \<Rightarrow> nat" where
  "or1c_step hash u = (hash * 32 + hash + u) mod 2 ^ 31"

definition base36_digit :: "nat \<Rightarrow> char" where
  "base36_digit d = ''0123456789abcdefghijklmnopqrstuvwxyz'' ! d"

fun base36_reversed :: "nat \<Rightarrow> string" where
  "base36_reversed v = (if v = 0 then [] else base36_digit (v mod 36) # base36_reversed (v div 36))"

declare base36_reversed.simps [simp del]

definition base36 :: "nat \<Rightarrow> string" where
  "base36 v = (if v = 0 then ''0'' else rev (base36_reversed v))"

definition or1c_units :: "string \<Rightarrow> nat list" where
  "or1c_units s = concat (map utf16_units (runes (map byte_at s)))"

definition prepareOR1CHash :: "string \<Rightarrow> string" where
  "prepareOR1CHash s =
     (if s = [] then [] else ''or1c_'' @ ascii_lower (base36 (foldl or1c_step 5381 (or1c_units s))))"

text \<open>Base 36 is read back by the usual evaluation of digits.\<close>

definition base36_value :: "char \<Rightarrow> nat" where
  "base36_value c = (if byte_at c < 0x60 then byte_at c - 0x30 else byte_at c - 0x60 + 9)"

definition base36_read :: "string \<Rightarrow> nat" where
  "base36_read s = foldl (\<lambda>acc c. acc * 36 + base36_value c) 0 s"

lemma base36_value_digit: "d < 36 \<Longrightarrow> base36_value (base36_digit d) = d"
proof -
  have "\<forall>d \<in> set [0..<36]. base36_value (base36_digit d) = d" by code_simp
  then show "d < 36 \<Longrightarrow> base36_value (base36_digit d) = d" by simp
qed

lemma base36_read_reversed: "base36_read (rev (base36_reversed v)) = v"
proof (induction v rule: base36_reversed.induct)
  case (1 v)
  show ?case
  proof (cases "v = 0")
    case False
    with 1 show ?thesis
      by (simp add: base36_reversed.simps [of v] base36_read_def base36_value_digit)
  qed (simp add: base36_reversed.simps base36_read_def)
qed

lemma base36_read_base36: "base36_read (base36 v) = v"
  using base36_read_reversed [of v] base36_value_digit [of 0]
  by (auto simp: base36_def base36_read_def base36_digit_def)

lemma length_base36_reversed: "v < 36 ^ n \<Longrightarrow> length (base36_reversed v) \<le> n"
proof (induction n arbitrary: v)
  case 0
  then show ?case by (simp add: base36_reversed.simps)
next
  case (Suc n)
  then have "v div 36 < 36 ^ n" by (simp add: less_mult_imp_div_less mult.commute)
  with Suc.IH [of "v div 36"] show ?case by (simp add: base36_reversed.simps [of v])
qed

text \<open>Texts of ASCII bytes: their units are their bytes.\<close>

definition ascii_text :: "string \<Rightarrow> bool" where
  "ascii_text s \<longleftrightarrow> list_all (\<lambda>c. byte_at c < 0x80) s"

lemma or1c_units_ascii: "ascii_text s \<Longrightarrow> or1c_units (s @ t) = map byte_at s @ or1c_units t"
  by (induction s) (auto simp: ascii_text_def or1c_units_def decode_rune_def utf16_units_def)

lemma or1c_hash_below: "foldl or1c_step 5381 us < 2 ^ 31"
  by (cases us rule: rev_cases) (simp_all add: or1c_step_def)

text \<open>Two units that weigh the same: the first counts 33 times as much as the second.\<close>

lemma or1c_swap:
  assumes "33 * a + b = 33 * c + d"
  shows "or1c_step (or1c_step h a) b = or1c_step (or1c_step h c) d"
proof -
  have step: "or1c_step (or1c_step h x) y = (1089 * h + (33 * x + y)) mod 2 ^ 31" for x y
  proof -
    have "or1c_step (or1c_step h x) y = (33 * ((33 * h + x) mod 2 ^ 31) + y) mod 2 ^ 31"
      unfolding or1c_step_def by (simp add: algebra_simps)
    also have "\<dots> = (33 * (33 * h + x) + y) mod 2 ^ 31"
      by (metis mod_add_left_eq mod_mult_right_eq)
    finally show ?thesis by (simp add: algebra_simps)
  qed
  show ?thesis by (simp add: step assms)
qed

lemma or1c_hash_swap:
  assumes "33 * a + b = 33 * c + d"
  shows "foldl or1c_step h (us @ [a, b] @ vs) = foldl or1c_step h (us @ [c, d] @ vs)"
  using or1c_swap [OF assms] by simp

lemma base36_lower [simp]: "ascii_lower (base36 v) = base36 v"
proof (rule ascii_lower_keeps)
  let ?low = "\<lambda>c. c \<noteq> CHR 0xE2 \<and> c \<noteq> CHR 0xC4 \<and> lower_byte c = c"
  have "\<forall>d \<in> set [0..<36]. ?low (base36_digit d)" by code_simp
  then have "?low (base36_digit (v mod 36))" for v by simp
  then have "list_all ?low (base36_reversed v)"
    by (induction v rule: base36_reversed.induct) (subst base36_reversed.simps, simp)
  moreover have "?low (CHR ''0'')" by code_simp
  ultimately show "list_all ?low (base36 v)" by (simp add: base36_def)
qed

lemma or1c_hash_reads: "t \<noteq> [] \<Longrightarrow> base36_read (drop 5 (prepareOR1CHash t)) = foldl or1c_step 5381 (or1c_units t)"
  by (simp add: prepareOR1CHash_def base36_read_base36)

lemma or1c_hash_length: "length (prepareOR1CHash t) \<le> 11"
proof -
  have "foldl or1c_step 5381 (or1c_units t) < 36 ^ 6"
    by (rule less_le_trans [OF or1c_hash_below]) simp
  from length_base36_reversed [OF this] show ?thesis
    by (simp add: prepareOR1CHash_def) (simp add: base36_def)
qed

text \<open>The replies \<open>before @ ''Ab'' @ rest\<close> and \<open>before @ ''BA'' @ rest\<close> have one hash.\<close>

lemma or1c_hash_ascii_swap:
  assumes "ascii_text before" and "ascii_text [a, b]" and "ascii_text [c, d]"
    and "33 * byte_at a + byte_at b = 33 * byte_at c + byte_at d"
  shows "prepareOR1CHash (before @ [a, b] @ rest) = prepareOR1CHash (before @ [c, d] @ rest)"
  using or1c_hash_swap [OF assms(4)] or1c_units_ascii [OF assms(1)] or1c_units_ascii [OF assms(2)]
    or1c_units_ascii [OF assms(3)]
  by (simp add: prepareOR1CHash_def)

subsection \<open>Normalising the observations\<close>

text \<open>
  The state words are lower-cased with \<open>ascii_lower\<close>: a letter outside ASCII keeps its case, which
  no state word of the host contains. \<open>sort.Slice\<close> leaves the order of equal elements open; two
  observations with the same index and the same joined text are kept in the order given.
  \<open>digest\<close> is the SHA-256 of the JSON text of its arguments.
\<close>

definition normalize_observation :: "rollbackAssistantObservation \<Rightarrow> rollbackAssistantObservation" where
  "normalize_observation item = item\<lparr>
     ao_MessageID := trim_space (ao_MessageID item), ao_GenerationID := trim_space (ao_GenerationID item),
     ao_ContentHash := trim_space (ao_ContentHash item),
     ao_DisabledState := ascii_lower (trim_space (ao_DisabledState item)),
     ao_StreamingState := ascii_lower (trim_space (ao_StreamingState item)),
     ao_FinalState := ascii_lower (trim_space (ao_FinalState item))\<rparr>"

definition incomplete_reason :: "rollbackAssistantObservation \<Rightarrow> string" where
  "incomplete_reason item =
     (let reason = (if ao_MessageIndex item < 0 then ''message_index_missing'' else [])
      in if ao_MessageID item = [] \<and> ao_GenerationID item = [] \<and> ao_ContentHash item = []
         then (if reason = [] then ''assistant_identity_missing'' else reason @ ''+assistant_identity_missing'')
         else reason)"

fun split_observations ::
    "nat \<Rightarrow> rollbackAssistantObservation list \<Rightarrow>
     rollbackAssistantObservation list \<times> rollbackAssistantObservationDiagnostic list" where
  "split_observations i [] = ([], [])"
| "split_observations i (raw # rest) =
     (let item = normalize_observation raw; reason = incomplete_reason item;
          (complete, incomplete) = split_observations (Suc i) rest
      in if reason \<noteq> []
         then (complete, \<lparr>ad_ObservationIndex = int i, ad_MessageIndex = ao_MessageIndex item,
                 ad_Reason = reason\<rparr> # incomplete)
         else (item # complete, incomplete))"

definition canonical_key :: "rollbackAssistantObservation \<Rightarrow> go_int \<times> string" where
  "canonical_key item = (ao_MessageIndex item,
     ao_MessageID item @ [CHR 0x00] @ ao_GenerationID item @ [CHR 0x00] @ ao_ContentHash item @ [CHR 0x00]
       @ ao_DisabledState item @ [CHR 0x00] @ ao_StreamingState item @ [CHR 0x00] @ ao_FinalState item)"

definition normalizeRollbackAssistantObservations ::
    "(string \<Rightarrow> rollbackAssistantObservation list \<Rightarrow> string) \<Rightarrow> string \<Rightarrow> rollbackAssistantObservation list \<Rightarrow>
     rollbackAssistantObservation list \<times> string \<times> rollbackAssistantObservationDiagnostic list" where
  "normalizeRollbackAssistantObservations digest scope observations =
     (let (complete, incomplete) = split_observations 0 observations
      in (complete, digest (trim_space scope) (sort_key canonical_key complete), incomplete))"

definition rollbackAssistantObservationEligible :: "rollbackAssistantObservation \<Rightarrow> bool" where
  "rollbackAssistantObservationEligible ob =
     (if trim_space (ao_DisabledState ob) = ''disabled'' \<or> trim_space (ao_StreamingState ob) = ''streaming''
        then False
      else trim_space (ao_FinalState ob) \<notin> {''inactive'', ''pending''})"

subsection \<open>Matching an observation with a stored reply\<close>

definition same_identity :: "string \<Rightarrow> string \<Rightarrow> bool" where
  "same_identity stored observed \<longleftrightarrow>
     trim_space stored \<noteq> [] \<and> trim_space observed \<noteq> [] \<and> trim_space stored = trim_space observed"

definition rollbackAssistantObservationMatchesSource ::
    "MemorySourceRevision \<Rightarrow> rollbackAssistantObservation \<Rightarrow> bool \<Rightarrow> bool" where
  "rollbackAssistantObservationMatchesSource source ob identityOnly =
     (if same_identity (MemorySourceRevision_SourceMessageID source) (ao_MessageID ob)
         \<or> same_identity (MemorySourceRevision_SourceGenerationID source) (ao_GenerationID ob) then True
      else if identityOnly then False
      else
        (let observedHash = trim_space (ao_ContentHash ob)
         in observedHash \<noteq> [] \<and>
            (observedHash = trim_space (MemorySourceRevision_AssistantObservedContentHash source)
             \<or> observedHash = prepareOR1CHash (MemorySourceRevision_AssistantContent source))))"

lemma matches_either:
  "rollbackAssistantObservationMatchesSource source ob True
    \<Longrightarrow> rollbackAssistantObservationMatchesSource source ob False"
  by (auto simp: rollbackAssistantObservationMatchesSource_def split: if_splits)

subsection \<open>The evidence\<close>

record rollbackAssistantDeletionEvidence =
  ev_Verified :: bool
  ev_RemovedCount :: go_int
  ev_FirstRemovedTurn :: go_int
  ev_Reason :: string

definition no_evidence :: "string \<Rightarrow> rollbackAssistantDeletionEvidence" where
  "no_evidence reason = \<lparr>ev_Verified = False, ev_RemovedCount = 0, ev_FirstRemovedTurn = 0, ev_Reason = reason\<rparr>"

definition nothing_removed :: "string \<Rightarrow> rollbackAssistantDeletionEvidence" where
  "nothing_removed reason = (no_evidence reason)\<lparr>ev_Verified := True\<rparr>"

definition stitch_boundary :: "routingTurnBaseline option \<Rightarrow> go_int option" where
  "stitch_boundary baseline = (case baseline of
     Some b \<Rightarrow> if rb_Reason b = ''timeline_stitch'' then Some (rb_BackendTurnAtRoute b) else None
   | None \<Rightarrow> None)"

definition active_sources ::
    "routingTurnBaseline option \<Rightarrow> MemorySourceRevision list \<Rightarrow> MemorySourceRevision list" where
  "active_sources baseline sources =
     sort_key (\<lambda>s. (MemorySourceRevision_TurnIndex s, MemorySourceRevision_ID s))
       (filter (\<lambda>s. (case stitch_boundary baseline of
            Some b \<Rightarrow> b < MemorySourceRevision_TurnIndex s | None \<Rightarrow> True)
          \<and> MemorySourceRevision_LifecycleState s = ''active'' \<and> 0 < MemorySourceRevision_TurnIndex s
          \<and> trim_space (MemorySourceRevision_AssistantContent s) \<noteq> []) sources)"

fun adjacent_equal :: "rollbackAssistantObservation list \<Rightarrow> bool" where
  "adjacent_equal (a # b # rest) = (ao_MessageIndex a = ao_MessageIndex b \<or> adjacent_equal (b # rest))"
| "adjacent_equal _ = False"

fun prefix_matches :: "MemorySourceRevision list \<Rightarrow> rollbackAssistantObservation list \<Rightarrow> bool" where
  "prefix_matches (s # ss) (ob # obs) =
     ((rollbackAssistantObservationMatchesSource s ob True \<or> rollbackAssistantObservationMatchesSource s ob False)
      \<and> prefix_matches ss obs)"
| "prefix_matches _ _ = True"

text \<open>
  The input group of a reply that is being generated again: the identities of the pending input
  (\<open>group_ids sid\<close> is what \<open>completeTurnInputGroupLogicalIDs\<close> gives for it in session \<open>sid\<close>),
  and the acceptance state recorded for a turn: its logical turn and the members of its group.
\<close>

type_synonym acceptance = "string \<times> string list"

definition completeTurnInputGroupMatches :: "acceptance \<Rightarrow> string list \<Rightarrow> bool" where
  "completeTurnInputGroupMatches candidate ids =
     list_ex (\<lambda>i. fst candidate = i \<or> List.member (snd candidate) i) ids"

fun stitch_aliases :: "(string \<times> string list) list \<Rightarrow> string list \<Rightarrow> string list" where
  "stitch_aliases [] ids = ids"
| "stitch_aliases ((logicalID, aliases) # rest) ids =
     stitch_aliases rest
       (if completeTurnInputGroupMatches (logicalID, aliases) ids then ids @ [logicalID] else ids)"

definition stitchedInputGroupLogicalIDs ::
    "string list \<Rightarrow> (string \<Rightarrow> string list) \<Rightarrow> routingTurnBaseline \<Rightarrow> string list" where
  "stitchedInputGroupLogicalIDs ids group_ids baseline =
     stitch_aliases (rb_durableInputGroupAliases baseline)
       (ids @ concat (map group_ids (rb_durableSourceID baseline # rb_durableSourceIDs baseline)))"

definition pending_ids ::
    "string \<Rightarrow> (string \<Rightarrow> string list) \<Rightarrow> routingTurnBaseline option \<Rightarrow> string list" where
  "pending_ids sid group_ids baseline =
     (case baseline of
        Some b \<Rightarrow> (if rb_Reason b = ''timeline_stitch''
                    then stitchedInputGroupLogicalIDs (group_ids sid) group_ids b else group_ids sid)
      | None \<Rightarrow> group_ids sid)"

text \<open>Whether the first missing reply belongs to the input that is pending.\<close>

definition replaced_reply ::
    "string \<Rightarrow> MemorySourceRevision \<Rightarrow> (string \<Rightarrow> string list) option \<Rightarrow> (go_int \<Rightarrow> acceptance) \<Rightarrow>
     routingTurnBaseline option \<Rightarrow> bool" where
  "replaced_reply sid missing pending journal baseline =
     (case pending of
        None \<Rightarrow> False
      | Some group_ids \<Rightarrow>
          (let ids = pending_ids sid group_ids baseline
           in completeTurnInputGroupMatches (MemorySourceRevision_LogicalTurnID missing, []) ids
              \<or> completeTurnInputGroupMatches (journal (MemorySourceRevision_TurnIndex missing)) ids))"

lemma replaced_pending: "replaced_reply sid missing pending journal baseline \<Longrightarrow> pending \<noteq> None"
  by (cases pending) (simp_all add: replaced_reply_def)

text \<open>
  The decision from the listed sources. \<open>pending\<close> is \<open>group_ids\<close> of the pending input, if there is
  one; \<open>journal\<close> the recorded acceptance of a turn.
\<close>

definition deletion_evidence ::
    "string \<Rightarrow> MemorySourceRevision list \<Rightarrow> rollbackAssistantObservation list \<Rightarrow>
     (string \<Rightarrow> string list) option \<Rightarrow> (go_int \<Rightarrow> acceptance) \<Rightarrow> routingTurnBaseline option \<Rightarrow>
     rollbackAssistantDeletionEvidence" where
  "deletion_evidence sid sources observations pending journal baseline =
     (let filtered = active_sources baseline sources;
          ordered = sort_key ao_MessageIndex observations
      in if filtered = [] then nothing_removed ''no_active_completed_source_revisions''
         else if adjacent_equal ordered then no_evidence ''historical_revision_conflict''
         else if \<not> prefix_matches filtered ordered then no_evidence ''historical_revision_conflict''
         else if length filtered \<le> length ordered then nothing_removed ''verified_no_assistant_output_removed''
         else
           (let firstMissing = length ordered
                  + (if replaced_reply sid (filtered ! length ordered) pending journal baseline then 1 else 0)
            in if firstMissing = length filtered then nothing_removed ''pending_same_user_replacement''
               else \<lparr>ev_Verified = True, ev_RemovedCount = int (length filtered - firstMissing),
                      ev_FirstRemovedTurn = MemorySourceRevision_TurnIndex (filtered ! firstMissing),
                      ev_Reason = ''verified_assistant_output_removed''\<rparr>))"

text \<open>
  The store lists the sources; the journal is read from its audit log (\<open>load_journal\<close>) only when
  the stored logical turn does not decide.
\<close>

definition journal_needed ::
    "string \<Rightarrow> MemorySourceRevision list \<Rightarrow> rollbackAssistantObservation list \<Rightarrow>
     (string \<Rightarrow> string list) option \<Rightarrow> routingTurnBaseline option \<Rightarrow> bool" where
  "journal_needed sid sources observations pending baseline =
     (let filtered = active_sources baseline sources;
          ordered = sort_key ao_MessageIndex observations
      in filtered \<noteq> [] \<and> \<not> adjacent_equal ordered \<and> prefix_matches filtered ordered
         \<and> length ordered < length filtered
         \<and> (case pending of
              None \<Rightarrow> False
            | Some group_ids \<Rightarrow>
                \<not> completeTurnInputGroupMatches
                    (MemorySourceRevision_LogicalTurnID (filtered ! length ordered), [])
                    (pending_ids sid group_ids baseline)))"

definition verifyRollbackAssistantDeletionEvidence ::
    "'st Store \<Rightarrow> (string \<Rightarrow> 'st \<Rightarrow> (go_int \<Rightarrow> acceptance) \<times> 'st) \<Rightarrow> string \<Rightarrow>
     rollbackAssistantObservation list \<Rightarrow> (string \<Rightarrow> string list) option \<Rightarrow> routingTurnBaseline option \<Rightarrow>
     ('st, rollbackAssistantDeletionEvidence) meth" where
  "verifyRollbackAssistantDeletionEvidence S load_journal sid observations pending baseline st =
     (case as_ActiveSourceRevisionLister S of
        None \<Rightarrow> ((no_evidence ''active_source_revision_lister_unavailable'', None), st)
      | Some lister \<Rightarrow>
          (case ListActiveSourceRevisions lister (trim_space sid) 0 0 st of
             ((sources, Some e), st) \<Rightarrow> ((no_evidence ''active_source_revision_list_failed'', Some e), st)
           | ((sources, None), st) \<Rightarrow>
               (let (journal, st) = (if journal_needed sid sources observations pending baseline
                                     then load_journal sid st else (\<lambda>_. ([], []), st))
                in ((deletion_evidence sid sources observations pending journal baseline, None), st))))"

subsection \<open>What the evidence says\<close>

lemma no_evidence_simps [simp]:
  "\<not> ev_Verified (no_evidence reason)" "ev_Verified (nothing_removed reason)"
  "ev_RemovedCount (no_evidence reason) = 0" "ev_RemovedCount (nothing_removed reason) = 0"
  by (simp_all add: no_evidence_def nothing_removed_def)

lemma prefix_matches_nth:
  "prefix_matches ss obs \<longleftrightarrow> (\<forall>i < min (length ss) (length obs).
     rollbackAssistantObservationMatchesSource (ss ! i) (obs ! i) False)"
proof (induction ss obs rule: prefix_matches.induct)
  case (1 s ss ob obs)
  from 1 matches_either [of s ob] show ?case by (auto simp: All_less_Suc2)
qed auto

lemma adjacent_equal_distinct:
  "sorted (map ao_MessageIndex obs) \<Longrightarrow> adjacent_equal obs \<longleftrightarrow> \<not> distinct (map ao_MessageIndex obs)"
proof (induction obs rule: adjacent_equal.induct)
  case (1 a b rest)
  then show ?case by (fastforce simp: antisym)
qed auto

text \<open>Verified removal: the observed replies are a proper prefix of the accepted ones, and exactly the rest is gone, except a reply that is being generated again.\<close>

lemma evidence_removed:
  assumes "ev_Verified (deletion_evidence sid sources obs pending journal baseline)"
    and "0 < ev_RemovedCount (deletion_evidence sid sources obs pending journal baseline)"
  obtains k where "k < length (active_sources baseline sources)"
    and "k = length obs \<or> k = Suc (length obs) \<and> pending \<noteq> None"
    and "distinct (map ao_MessageIndex obs)"
    and "\<And>i. i < length obs \<Longrightarrow> rollbackAssistantObservationMatchesSource
           (active_sources baseline sources ! i) (sort_key ao_MessageIndex obs ! i) False"
    and "deletion_evidence sid sources obs pending journal baseline =
      \<lparr>ev_Verified = True, ev_RemovedCount = int (length (active_sources baseline sources) - k),
       ev_FirstRemovedTurn = MemorySourceRevision_TurnIndex (active_sources baseline sources ! k),
       ev_Reason = ''verified_assistant_output_removed''\<rparr>"
proof -
  let ?act = "active_sources baseline sources" and ?ord = "sort_key ao_MessageIndex obs"
  have ne: "?act \<noteq> []" and adj: "\<not> adjacent_equal ?ord" and pre: "prefix_matches ?act ?ord"
    and less: "length ?ord < length ?act"
    using assms by (auto simp: deletion_evidence_def Let_def split: if_splits)
  have "distinct (map ao_MessageIndex obs)"
    using adj adjacent_equal_distinct [of ?ord] mset_eq_imp_distinct_iff [of "map ao_MessageIndex ?ord"]
    by (simp add: sorted_sort_key)
  moreover have "rollbackAssistantObservationMatchesSource (?act ! i) (?ord ! i) False" if "i < length obs" for i
    using pre less that by (simp add: prefix_matches_nth)
  moreover
  let ?k = "length obs + (if replaced_reply sid (?act ! length obs) pending journal baseline then 1 else 0)"
  have ev: "deletion_evidence sid sources obs pending journal baseline =
      (if ?k = length ?act then nothing_removed ''pending_same_user_replacement''
       else \<lparr>ev_Verified = True, ev_RemovedCount = int (length ?act - ?k),
         ev_FirstRemovedTurn = MemorySourceRevision_TurnIndex (?act ! ?k),
         ev_Reason = ''verified_assistant_output_removed''\<rparr>)"
    using ne adj pre less by (simp add: deletion_evidence_def Let_def)
  with assms(2) have "?k \<noteq> length ?act" by auto
  with ev less have "?k < length ?act" "deletion_evidence sid sources obs pending journal baseline =
      \<lparr>ev_Verified = True, ev_RemovedCount = int (length ?act - ?k),
         ev_FirstRemovedTurn = MemorySourceRevision_TurnIndex (?act ! ?k),
         ev_Reason = ''verified_assistant_output_removed''\<rparr>"
    by auto
  moreover have "?k = length obs \<or> ?k = Suc (length obs) \<and> pending \<noteq> None"
    using replaced_pending by auto
  ultimately show thesis using that [of ?k] by blast
qed

lemma sort_key_permuted:
  fixes f :: "'a \<Rightarrow> 'b :: linorder"
  assumes "mset xs = mset ys" and "distinct (map f xs)"
  shows "sort_key f xs = sort_key f ys"
proof (rule sort_key_inj_key_eq)
  show "mset xs = mset (sort_key f ys)" using assms(1) by simp
  show "inj_on f (set xs)" using assms(2) by (simp add: distinct_map)
  show "sorted (map f (sort_key f ys))" by (rule sorted_sort_key)
qed

text \<open>Neither the order in which the plugin lists the replies nor the order of the store's rows matters.\<close>

lemma evidence_permuted:
  assumes "mset obs = mset obs'" and "mset sources = mset sources'"
    and "distinct (map (\<lambda>s. (MemorySourceRevision_TurnIndex s, MemorySourceRevision_ID s)) sources)"
  shows "deletion_evidence sid sources obs pending journal baseline
    = deletion_evidence sid sources' obs' pending journal baseline"
proof -
  let ?key = "\<lambda>s. (MemorySourceRevision_TurnIndex s, MemorySourceRevision_ID s)"
  have act: "active_sources baseline sources = active_sources baseline sources'"
    unfolding active_sources_def
    by (rule sort_key_permuted) (use assms(2,3) in \<open>auto simp: distinct_map intro: inj_on_subset\<close>)
  show ?thesis
  proof (cases "distinct (map ao_MessageIndex obs)")
    case True
    from sort_key_permuted [OF assms(1) this] act show ?thesis by (simp add: deletion_evidence_def Let_def)
  next
    case False
    have "distinct (map ao_MessageIndex obs') \<longleftrightarrow> distinct (map ao_MessageIndex obs)"
      using assms(1) by (intro mset_eq_imp_distinct_iff) simp
    with False have "adjacent_equal (sort_key ao_MessageIndex obs)" "adjacent_equal (sort_key ao_MessageIndex obs')"
      using mset_eq_imp_distinct_iff [of "map ao_MessageIndex (sort_key ao_MessageIndex obs)" "map ao_MessageIndex obs"]
        mset_eq_imp_distinct_iff [of "map ao_MessageIndex (sort_key ao_MessageIndex obs')" "map ao_MessageIndex obs'"]
      by (simp_all add: adjacent_equal_distinct sorted_sort_key)
    with act show ?thesis by (simp add: deletion_evidence_def Let_def)
  qed
qed

lemma active_sources_sorted:
  "sorted (map (\<lambda>s. (MemorySourceRevision_TurnIndex s, MemorySourceRevision_ID s)) (active_sources baseline sources))"
  by (simp add: active_sources_def sorted_sort_key)

lemma active_sources_turns:
  assumes "distinct (map MemorySourceRevision_TurnIndex (active_sources baseline sources))"
    and "i < j" and "j < length (active_sources baseline sources)"
  shows "MemorySourceRevision_TurnIndex (active_sources baseline sources ! i)
    < MemorySourceRevision_TurnIndex (active_sources baseline sources ! j)"
proof -
  let ?a = "active_sources baseline sources"
  have "MemorySourceRevision_TurnIndex (?a ! i) \<le> MemorySourceRevision_TurnIndex (?a ! j)"
    using sorted_nth_mono [OF active_sources_sorted [of baseline sources], of i j] assms(2,3) by auto
  moreover have "MemorySourceRevision_TurnIndex (?a ! i) \<noteq> MemorySourceRevision_TurnIndex (?a ! j)"
    using assms by (simp add: distinct_conv_nth)
  ultimately show ?thesis by simp
qed

end
