(* ===== verification/Rollback_Routes.thy ===== *)
theory Rollback_Routes
  imports Deletion_Evidence
begin

text \<open>
  The routes around a rollback decision: \<open>handleRollbackDecision\<close> gathers what the store knows,
  decides, and issues a token (\<open>go-service/internal/httpapi/group_turn_range_decision.go\<close>); the head
  of \<open>handleRollback\<close> redeems it (\<open>group_turn_rollback.go\<close>).
\<close>

subsection \<open>What the routes use of the store\<close>

text \<open>
  \<open>SessionRouteBindingStore\<close> and \<open>SessionRoutingBaselineStore\<close> of \<open>internal/store\<close>, and the method
  \<open>LatestSessionTurnIndex\<close> that is asked for on its own. \<open>ext_load_journal\<close> reads the acceptance
  journal from the audit log.
\<close>

record SessionRouteBinding =
  SessionRouteBinding_ContractVersion :: string
  SessionRouteBinding_StableCharacterID :: string
  SessionRouteBinding_HostChatID :: string
  SessionRouteBinding_CanonicalSessionID :: string
  SessionRouteBinding_BindingState :: string
  SessionRouteBinding_BindingReason :: string
  SessionRouteBinding_RedirectedFromSessionID :: string
  SessionRouteBinding_RedirectMigrationID :: go_int
  SessionRouteBinding_Revision :: uint64
  SessionRouteBinding_CreatedAt :: go_time
  SessionRouteBinding_UpdatedAt :: go_time

record SessionRouteBindingRequest =
  SessionRouteBindingRequest_StableCharacterID :: string
  SessionRouteBindingRequest_HostChatID :: string
  SessionRouteBindingRequest_RequestedSessionID :: string
  SessionRouteBindingRequest_Mode :: string

record SessionRouteBindingResult =
  SessionRouteBindingResult_Binding :: SessionRouteBinding
  SessionRouteBindingResult_Created :: bool
  SessionRouteBindingResult_Updated :: bool
  SessionRouteBindingResult_ReadbackVerified :: bool
  SessionRouteBindingResult_LockedSourceRedirect :: bool

record SessionRoutingBaseline =
  SessionRoutingBaseline_MigrationID :: go_int
  SessionRoutingBaseline_SourceSessionID :: string
  SessionRoutingBaseline_TargetSessionID :: string
  SessionRoutingBaseline_Mode :: string
  SessionRoutingBaseline_ImportedThroughTurn :: go_int
  SessionRoutingBaseline_SourceSessionIDs :: "string list"
  SessionRoutingBaseline_InputGroupAliases :: "(string \<times> string list) list"

record 'st rollback_extensions =
  BindSessionRoute :: "(SessionRouteBindingRequest \<Rightarrow> ('st, SessionRouteBindingResult option) meth) option"
  GetSessionRoutingBaseline :: "(string \<Rightarrow> ('st, SessionRoutingBaseline option) meth) option"
  ext_LatestSessionTurnIndex :: "(string \<Rightarrow> ('st, go_int) meth) option"
  ext_load_journal :: "string \<Rightarrow> 'st \<Rightarrow> (go_int \<Rightarrow> acceptance) \<times> 'st"

definition resolveExistingRollbackRoute ::
    "'st rollback_extensions \<Rightarrow> string \<Rightarrow> string \<Rightarrow> 'st \<Rightarrow> (go_error + SessionRouteBinding) \<times> 'st" where
  "resolveExistingRollbackRoute X stableCharacterID hostChatID st =
     (case BindSessionRoute X of
        None \<Rightarrow> (Inl (Failure ''session route binding store is unavailable''), st)
      | Some bind \<Rightarrow>
          (case bind \<lparr>SessionRouteBindingRequest_StableCharacterID = trim_space stableCharacterID,
                     SessionRouteBindingRequest_HostChatID = trim_space hostChatID,
                     SessionRouteBindingRequest_RequestedSessionID = [],
                     SessionRouteBindingRequest_Mode = ''resolve_existing''\<rparr> st of
             ((_, Some e), st) \<Rightarrow> (Inl e, st)
           | ((None, None), st) \<Rightarrow> (Inl (Failure ''session route binding readback mismatch''), st)
           | ((Some result, None), st) \<Rightarrow>
               (let b = SessionRouteBindingResult_Binding result
                in if \<not> SessionRouteBindingResult_ReadbackVerified result
                      \<or> trim_space (SessionRouteBinding_StableCharacterID b) \<noteq> trim_space stableCharacterID
                      \<or> trim_space (SessionRouteBinding_HostChatID b) \<noteq> trim_space hostChatID
                      \<or> trim_space (SessionRouteBinding_CanonicalSessionID b) = []
                      \<or> trim_space (SessionRouteBinding_BindingState b) \<noteq> ''active''
                   then (Inl (Failure ''session route binding readback mismatch''), st)
                   else (Inr b, st))))"

definition resolveDurableSessionRoutingBaseline ::
    "'st rollback_extensions \<Rightarrow> string \<Rightarrow> routingTurnBaseline option \<Rightarrow> 'st \<Rightarrow>
     routingTurnBaseline option \<times> 'st" where
  "resolveDurableSessionRoutingBaseline X sessionID clientBaseline st =
     (case GetSessionRoutingBaseline X of
        None \<Rightarrow> (clientBaseline, st)
      | Some get \<Rightarrow>
          (if trim_space sessionID = [] then (clientBaseline, st)
           else case get (trim_space sessionID) st of
               ((Some durable, None), st) \<Rightarrow>
                 (if SessionRoutingBaseline_ImportedThroughTurn durable \<le> 0 then (clientBaseline, st)
                  else
                    (let stitched = SessionRoutingBaseline_Mode durable = ''stitch_keep_sources'';
                         reason = (if stitched then ''timeline_stitch''
                                   else if SessionRoutingBaseline_Mode durable = ''copy_keep_source''
                                     then ''timeline_copy'' else ''timeline_migrate'');
                         pairs = (case clientBaseline of
                             Some c \<Rightarrow> (if routingBaselineReasonSupported (rb_Reason c)
                                          then max 0 (rb_LocalPairsAtRoute c) else 0)
                           | None \<Rightarrow> 0)
                     in (Some \<lparr>rb_BackendTurnAtRoute = SessionRoutingBaseline_ImportedThroughTurn durable,
                           rb_LocalPairsAtRoute = (if stitched then 0 else pairs), rb_Reason = reason,
                           rb_durableSourceID = trim_space (SessionRoutingBaseline_SourceSessionID durable),
                           rb_durableVerified = True,
                           rb_durableSourceIDs = SessionRoutingBaseline_SourceSessionIDs durable,
                           rb_durableInputGroupAliases = SessionRoutingBaseline_InputGroupAliases durable\<rparr>, st)))
             | (_, st) \<Rightarrow> (clientBaseline, st)))"

subsection \<open>Deciding\<close>

text \<open>
  The handler in the order of its code: identify the session, find the imported boundary, and add
  to the request what the store knows. \<open>digest\<close> is the hash of the observations, \<open>group_ids\<close> what
  \<open>completeTurnInputGroupLogicalIDs\<close> gives for a pending input in a session; \<open>S\<close> is nil when the
  server has no store.
\<close>

definition manual_candidate :: "'pending rollbackDecisionRequest \<Rightarrow> bool" where
  "manual_candidate req \<longleftrightarrow> is_manual req \<and> rq_AllowManualCandidate req"

definition identify_session ::
    "(string \<Rightarrow> rollbackAssistantObservation list \<Rightarrow> string) \<Rightarrow> 'st rollback_extensions \<Rightarrow>
     'pending rollbackDecisionRequest \<Rightarrow> 'st \<Rightarrow>
     (rollbackDecisionResponse + 'pending rollbackDecisionRequest) \<times> 'st" where
  "identify_session digest X req st =
     (if manual_candidate req then (Inr req, st)
      else
        (let (complete, dg, incomplete) = normalizeRollbackAssistantObservations digest
               (rq_AssistantObservationScope req) (rq_AssistantObservations req);
             req = req\<lparr>rq_AssistantObservations := complete, rq_AssistantObservationDigest := dg,
               rq_IncompleteAssistantObservations := incomplete\<rparr>;
             blocked = (\<lambda>reason sid. (blocked_response reason sid (rq_CandidateFromTurn req))
               \<lparr>rp_AssistantObservationDigest := dg, rp_IncompleteAssistantObservations := incomplete\<rparr>)
         in if trim_space (rq_StableCharacterIDState req) \<noteq> ''observed''
               \<or> trim_space (rq_HostChatIDState req) \<noteq> ''observed''
               \<or> trim_space (rq_StableCharacterID req) = [] \<or> trim_space (rq_HostChatID req) = []
            then (Inl (blocked ''session_route_identity_unobserved'' (trim_space (rq_ChatSessionID req))), st)
            else case resolveExistingRollbackRoute X (rq_StableCharacterID req) (rq_HostChatID req) st of
                (Inl e, st) \<Rightarrow>
                  (Inl (blocked (if error_is e ErrNotFound then ''session_route_binding_not_found''
                                 else ''session_route_binding_failed'') (trim_space (rq_ChatSessionID req))), st)
              | (Inr b, st) \<Rightarrow>
                  (let canonical = trim_space (SessionRouteBinding_CanonicalSessionID b)
                   in if canonical \<noteq> trim_space (rq_ChatSessionID req)
                      then (Inl ((blocked ''session_route_canonical_mismatch'' canonical)
                              \<lparr>rp_RouteBindingRevision := SessionRouteBinding_Revision b\<rparr>), st)
                      else (Inr (req\<lparr>rq_ChatSessionID := canonical,
                              rq_RouteBindingRevision := SessionRouteBinding_Revision b\<rparr>), st))))"

definition observe_latest_turn ::
    "'st rollback_extensions \<Rightarrow> 'pending rollbackDecisionRequest \<Rightarrow> 'st \<Rightarrow>
     ('pending rollbackDecisionRequest \<times> bool) \<times> 'st" where
  "observe_latest_turn X req st =
     (case ext_LatestSessionTurnIndex X of
        None \<Rightarrow> ((req, False), st)
      | Some latest \<Rightarrow>
          (case latest (trim_space (rq_ChatSessionID req)) st of
             ((turn, None), st) \<Rightarrow> ((req\<lparr>rq_BackendLatestTurn := turn\<rparr>, True), st)
           | ((_, Some _), st) \<Rightarrow> ((req, False), st)))"

definition observe_ownership ::
    "'st Store option \<Rightarrow> 'pending rollbackDecisionRequest \<Rightarrow> 'st \<Rightarrow> 'pending rollbackDecisionRequest \<times> 'st" where
  "observe_ownership S req st =
     (case S of
        None \<Rightarrow> (req, st)
      | Some S \<Rightarrow>
          (if manual_candidate req \<and> 0 < rq_CandidateFromTurn req then
             (case ListChatLogs S (trim_space (rq_ChatSessionID req)) (rq_CandidateFromTurn req)
                     (rq_CandidateFromTurn req) st of
                ((logs, None), st) \<Rightarrow>
                  (let owned = list_ex (\<lambda>item. ChatLog_TurnIndex item = rq_CandidateFromTurn req
                         \<and> trim_space (ChatLog_ChatSessionID item) = trim_space (rq_ChatSessionID req)) logs
                   in (req\<lparr>rq_ManualTargetOwnershipObserved := True,
                          rq_ManualTargetOwned := (rq_ManualTargetOwned req \<or> owned)\<rparr>, st))
              | ((_, Some _), st) \<Rightarrow> (req, st))
           else (req, st)))"

definition observe_evidence ::
    "('pending \<Rightarrow> string \<Rightarrow> string list) \<Rightarrow> 'st Store option \<Rightarrow> 'st rollback_extensions \<Rightarrow>
     'pending rollbackDecisionRequest \<Rightarrow> 'st \<Rightarrow> 'pending rollbackDecisionRequest \<times> 'st" where
  "observe_evidence group_ids S X req st =
     (if manual_candidate req \<or> rq_IncompleteTailCandidate req
         \<or> trim_space (rq_AssistantObservationScope req) = []
         \<or> trim_space (rq_LifecycleActionObservation req) = ''superseded'' then (req, st)
      else
        (let req = req\<lparr>rq_AssistantEvidenceRequired := True\<rparr>
         in if trim_space (rq_AssistantObservationScope req) \<noteq> ''full_active_chat''
              then (req\<lparr>rq_AssistantEvidenceReason := ''assistant_observation_scope_invalid''\<rparr>, st)
            else if rq_IncompleteAssistantObservations req \<noteq> [] \<and> rq_AssistantObservations req = []
              then (req\<lparr>rq_AssistantEvidenceReason := ''assistant_observations_incomplete''\<rparr>, st)
            else
              (case (case S of
                       None \<Rightarrow> ((no_evidence ''active_source_revision_lister_unavailable'', None), st)
                     | Some S \<Rightarrow> verifyRollbackAssistantDeletionEvidence S (ext_load_journal X)
                         (rq_ChatSessionID req) (rq_AssistantObservations req)
                         (map_option group_ids (rq_PendingInputObservation req)) (rq_Baseline req) st) of
                 ((evidence, Some _), st) \<Rightarrow> (req\<lparr>rq_AssistantEvidenceReason := ev_Reason evidence\<rparr>, st)
               | ((evidence, None), st) \<Rightarrow>
                   (let req = req\<lparr>rq_AssistantEvidenceVerified := ev_Verified evidence,
                          rq_AssistantOutputRemoved := 0 < ev_RemovedCount evidence,
                          rq_AssistantEvidenceReason := ev_Reason evidence\<rparr>
                    in (if ev_Verified evidence
                        then req\<lparr>rq_RemovedAssistantCount := ev_RemovedCount evidence,
                               rq_FirstRemovedTurn := ev_FirstRemovedTurn evidence,
                               rq_LedgerVerified := False, rq_DeletionObserved := 0 < ev_RemovedCount evidence\<rparr>
                        else req, st)))))"

definition observe_incomplete_tail ::
    "'st Store option \<Rightarrow> bool \<Rightarrow> 'pending rollbackDecisionRequest \<Rightarrow> 'st \<Rightarrow>
     'pending rollbackDecisionRequest \<times> 'st" where
  "observe_incomplete_tail S authoritative req st =
     (case S of
        None \<Rightarrow> (req, st)
      | Some S \<Rightarrow>
          (if rq_IncompleteTailCandidate req \<and> rq_DeletionObserved req \<and> rq_RemovedAssistantCount req = 0
              \<and> rq_RemovedUserCount req = 1 \<and> rq_RemovedMessageCount req = 1 \<and> 0 < rq_BackendLatestTurn req
              \<and> rq_CandidateFromTurn req = rq_BackendLatestTurn req
           then
             (let bound = (if authoritative then rq_BackendLatestTurn req else 0)
              in case ListChatLogs S (trim_space (rq_ChatSessionID req)) bound bound st of
                   ((logs, None), st) \<Rightarrow>
                     (if logs = [] then (req, st)
                      else
                        (let latest = foldl (\<lambda>t item. max t (ChatLog_TurnIndex item)) bound logs;
                             rows = filter (\<lambda>item. ChatLog_TurnIndex item = latest) logs
                         in (req\<lparr>rq_BackendIncompleteTailVerified := latest = rq_BackendLatestTurn req
                               \<and> list_all (\<lambda>item. equal_fold_ascii (trim_space (ChatLog_Role item)) ''user'') rows
                               \<and> rows \<noteq> []\<rparr>, st)))
                 | ((_, Some _), st) \<Rightarrow> (req, st))
           else (req, st)))"

text \<open>What the store knows of a request whose session is identified.\<close>

definition observe_request ::
    "('pending \<Rightarrow> string \<Rightarrow> string list) \<Rightarrow> 'st Store option \<Rightarrow> 'st rollback_extensions \<Rightarrow>
     'pending rollbackDecisionRequest \<Rightarrow> 'st \<Rightarrow> 'pending rollbackDecisionRequest \<times> 'st" where
  "observe_request group_ids S X req st =
     (let (baseline, st) = resolveDurableSessionRoutingBaseline X (rq_ChatSessionID req) (rq_Baseline req) st;
          ((req, authoritative), st) = observe_latest_turn X (req\<lparr>rq_Baseline := baseline\<rparr>) st;
          (req, st) = observe_ownership S req st;
          (req, st) = observe_evidence group_ids S X req st
      in observe_incomplete_tail S authoritative req st)"

record 'st rollback_server =
  rv_decisions :: rollbackDecisionLedger
  rv_store :: 'st

text \<open>\<open>token\<close> is the token drawn if one is issued, \<open>notice\<close> the display notice of the detected deletion (of session, turn and source).\<close>

definition decide_and_issue ::
    "string \<Rightarrow> (string \<Rightarrow> go_int \<Rightarrow> string \<Rightarrow> json) \<Rightarrow> 'pending rollbackDecisionRequest \<Rightarrow>
     rollbackDecisionLedger \<Rightarrow> rollbackDecisionResponse \<times> rollbackDecisionLedger" where
  "decide_and_issue token notice req l =
     (let resp = (calculateRollbackDecision req)
            \<lparr>rp_RouteBindingRevision := rq_RouteBindingRevision req,
             rp_AssistantObservationDigest := rq_AssistantObservationDigest req,
             rp_IncompleteAssistantObservations := rq_IncompleteAssistantObservations req\<rparr>
      in if rp_Allowed resp then
           (let source = trim_space (rq_RequestSource req);
                source = (if source = [] then ''auto'' else source);
                (record, l) = issue token
                  \<lparr>dr_Token = [], dr_SessionID = rp_ChatSessionID resp, dr_FromTurn = rp_FromTurn resp,
                   dr_RequestSource = source, dr_LifecycleAction = rp_LifecycleAction resp,
                   dr_StableCharacterID = trim_space (rq_StableCharacterID req),
                   dr_HostChatID = trim_space (rq_HostChatID req),
                   dr_CanonicalSessionID = rp_ChatSessionID resp,
                   dr_RouteBindingRevision = rq_RouteBindingRevision req,
                   dr_AssistantObservationDigest = rq_AssistantObservationDigest req, dr_Sequence = 0\<rparr> l
            in (resp\<lparr>rp_DecisionToken := dr_Token record,
                     rp_TurnWorkflowHUD := notice (rp_ChatSessionID resp) (rp_FromTurn resp) source\<rparr>, l))
         else (resp, l))"

text \<open>\<open>None\<close> is a body that does not decode; the route answers 400.\<close>

definition handleRollbackDecision ::
    "(string \<Rightarrow> rollbackAssistantObservation list \<Rightarrow> string) \<Rightarrow> ('pending \<Rightarrow> string \<Rightarrow> string list) \<Rightarrow> string \<Rightarrow>
     (string \<Rightarrow> go_int \<Rightarrow> string \<Rightarrow> json) \<Rightarrow> 'st Store option \<Rightarrow> 'st rollback_extensions \<Rightarrow>
     'pending rollbackDecisionRequest option \<Rightarrow> 'st rollback_server \<Rightarrow>
     rollbackDecisionResponse option \<times> 'st rollback_server" where
  "handleRollbackDecision digest group_ids token notice S X request server =
     (case request of
        None \<Rightarrow> (None, server)
      | Some req \<Rightarrow>
          (case identify_session digest X req (rv_store server) of
             (Inl resp, st) \<Rightarrow> (Some resp, server\<lparr>rv_store := st\<rparr>)
           | (Inr req, st) \<Rightarrow>
               (let (req, st) = observe_request group_ids S X req st;
                    (resp, l) = decide_and_issue token notice req (rv_decisions server)
                in (Some resp, server\<lparr>rv_decisions := l, rv_store := st\<rparr>))))"

subsection \<open>Automatic decisions rest on the evidence\<close>

lemma clamp_anchor_ge: "anchor \<le> clamp_anchor minFrom anchor" "0 < minFrom \<Longrightarrow> minFrom \<le> clamp_anchor minFrom anchor"
  by (simp_all add: clamp_anchor_def)

lemma active_turn_pos: "s \<in> set (active_sources baseline sources) \<Longrightarrow> 0 < MemorySourceRevision_TurnIndex s"
  by (auto simp: active_sources_def)

text \<open>With a verified first removed turn and nothing else to go by, the range starts there or later.\<close>

lemma decision_from_evidence:
  assumes "rp_Allowed (calculateRollbackDecision req)"
    and "\<not> rq_BackendIncompleteTailVerified req" and "\<not> rq_LedgerVerified req" and "0 < rq_FirstRemovedTurn req"
  shows "rq_FirstRemovedTurn req \<le> rp_FromTurn (calculateRollbackDecision req)"
proof -
  obtain completed before minFrom applied where turns: "baseline_turns req = (completed, before, minFrom, applied)"
    by (metis surj_pair)
  have "delete_anchor req completed = Inr (rq_FirstRemovedTurn req)"
    using assms(2-4) by (simp add: delete_anchor_def Let_def)
  with allowed_cases [OF assms(1) turns] clamp_anchor_ge(1) show ?thesis by (metis sum.inject(2))
qed

lemma required_evidence:
  assumes "rp_Allowed (calculateRollbackDecision req)" and "\<not> is_manual req" and "rq_AssistantEvidenceRequired req"
  shows "rq_AssistantEvidenceVerified req \<and> rq_AssistantOutputRemoved req"
proof -
  have "refusal req = None" using assms(1) refused_decision by fastforce
  then have "evidence_refusal req = None" by (rule refusal_none(4))
  with assms(2,3) show ?thesis by (simp add: evidence_refusal_def Let_def split: if_splits)
qed

lemma keep_latest: "req\<lparr>rq_BackendLatestTurn := rq_BackendLatestTurn req\<rparr> = req"
  by simp

lemma observe_latest_shape:
  obtains turn auth st' where "observe_latest_turn X req st = ((req\<lparr>rq_BackendLatestTurn := turn\<rparr>, auth), st')"
proof (cases "ext_LatestSessionTurnIndex X")
  case None
  then have "observe_latest_turn X req st = ((req\<lparr>rq_BackendLatestTurn := rq_BackendLatestTurn req\<rparr>, False), st)"
    unfolding keep_latest by (simp add: observe_latest_turn_def)
  with that show thesis .
next
  case (Some f)
  obtain turn e st2 where f: "f (trim_space (rq_ChatSessionID req)) st = ((turn, e), st2)" by (metis surj_pair)
  show thesis
  proof (cases e)
    case None
    with f Some that show thesis by (simp add: observe_latest_turn_def)
  next
    case (Some err)
    with f \<open>ext_LatestSessionTurnIndex X = Some f\<close>
    have "observe_latest_turn X req st = ((req\<lparr>rq_BackendLatestTurn := rq_BackendLatestTurn req\<rparr>, False), st2)"
      unfolding keep_latest by (simp add: observe_latest_turn_def)
    with that show thesis .
  qed
qed

lemma observe_automatic:
  assumes "\<not> is_manual req" and "\<not> rq_IncompleteTailCandidate req"
  obtains latest st1 where "observe_request group_ids S X req st =
    observe_evidence group_ids S X (req\<lparr>rq_Baseline := fst (resolveDurableSessionRoutingBaseline X
      (rq_ChatSessionID req) (rq_Baseline req) st), rq_BackendLatestTurn := latest\<rparr>) st1"
proof -
  obtain baseline st0 where b: "resolveDurableSessionRoutingBaseline X (rq_ChatSessionID req) (rq_Baseline req) st
      = (baseline, st0)" by (metis surj_pair)
  obtain latest auth st1 where l: "observe_latest_turn X (req\<lparr>rq_Baseline := baseline\<rparr>) st0 =
      ((req\<lparr>rq_Baseline := baseline, rq_BackendLatestTurn := latest\<rparr>, auth), st1)"
    by (rule observe_latest_shape)
  let ?req1 = "req\<lparr>rq_Baseline := baseline, rq_BackendLatestTurn := latest\<rparr>"
  have manual: "\<not> manual_candidate ?req1" using assms(1) by (simp add: manual_candidate_def is_manual_def)
  then have own: "observe_ownership S ?req1 st1 = (?req1, st1)"
    by (simp add: observe_ownership_def split: option.splits)
  obtain req2 st2 where e: "observe_evidence group_ids S X ?req1 st1 = (req2, st2)" by (metis surj_pair)
  have "rq_IncompleteTailCandidate req2 = rq_IncompleteTailCandidate req"
    using e by (auto simp: observe_evidence_def Let_def split: if_splits prod.splits option.splits)
  then have "observe_incomplete_tail S auth req2 st2 = (req2, st2)"
    using assms(2) by (simp add: observe_incomplete_tail_def split: option.splits)
  with that [of latest st1] show thesis
    using b l own e by (simp add: observe_request_def)
qed

lemma evidence_decision:
  assumes "observe_evidence group_ids S X req st = (req', st')" and "rq_AssistantEvidenceVerified req'"
    and "\<not> rq_AssistantEvidenceVerified req"
  obtains S0 ev st1 where "S = Some S0"
    and "verifyRollbackAssistantDeletionEvidence S0 (ext_load_journal X) (rq_ChatSessionID req)
      (rq_AssistantObservations req) (map_option group_ids (rq_PendingInputObservation req)) (rq_Baseline req) st
      = ((ev, None), st1)"
    and "ev_Verified ev"
    and "req' = req\<lparr>rq_AssistantEvidenceRequired := True, rq_AssistantEvidenceVerified := True,
      rq_AssistantOutputRemoved := 0 < ev_RemovedCount ev, rq_AssistantEvidenceReason := ev_Reason ev,
      rq_RemovedAssistantCount := ev_RemovedCount ev, rq_FirstRemovedTurn := ev_FirstRemovedTurn ev,
      rq_LedgerVerified := False, rq_DeletionObserved := 0 < ev_RemovedCount ev\<rparr>"
proof (cases S)
  case None
  with assms show thesis
    by (auto simp: observe_evidence_def Let_def split: if_splits)
next
  case (Some S0)
  obtain ev e st1 where v: "verifyRollbackAssistantDeletionEvidence S0 (ext_load_journal X) (rq_ChatSessionID req)
      (rq_AssistantObservations req) (map_option group_ids (rq_PendingInputObservation req)) (rq_Baseline req) st
      = ((ev, e), st1)" by (metis surj_pair)
  have e: "e = None" and ev: "ev_Verified ev"
    using assms Some v by (auto simp: observe_evidence_def Let_def split: if_splits option.splits)
  with assms Some v have "req' = req\<lparr>rq_AssistantEvidenceRequired := True, rq_AssistantEvidenceVerified := True,
      rq_AssistantOutputRemoved := 0 < ev_RemovedCount ev, rq_AssistantEvidenceReason := ev_Reason ev,
      rq_RemovedAssistantCount := ev_RemovedCount ev, rq_FirstRemovedTurn := ev_FirstRemovedTurn ev,
      rq_LedgerVerified := False, rq_DeletionObserved := 0 < ev_RemovedCount ev\<rparr>"
    by (auto simp: observe_evidence_def Let_def split: if_splits)
  with that Some v e ev show thesis by blast
qed

text \<open>When the store lists the same sources at all times, the evidence is computed from them.\<close>

lemma verify_from_list:
  assumes "as_ActiveSourceRevisionLister S = Some lister"
    and "\<And>st. fst (ListActiveSourceRevisions lister (trim_space sid) 0 0 st) = (sources, None)"
    and "verifyRollbackAssistantDeletionEvidence S load_journal sid obs pending baseline st = ((ev, e), st')"
  obtains journal where "ev = deletion_evidence sid sources obs pending journal baseline"
proof -
  obtain st1 where "ListActiveSourceRevisions lister (trim_space sid) 0 0 st = ((sources, None), st1)"
    using assms(2) [of st] by (metis prod.collapse)
  with assms that show thesis
    by (auto simp: verifyRollbackAssistantDeletionEvidence_def Let_def split: prod.splits if_splits)
qed

text \<open>
  All of it: an automatic decision from a full observation of the chat allows a range only if the
  replies on view are a proper prefix of the accepted ones, and the range begins at the first
  reply not on view or later.
\<close>

lemma automatic_decision:
  assumes handled: "observe_request group_ids S X req st = (req', st')"
    and allowed: "rp_Allowed (calculateRollbackDecision req')"
    and automatic: "\<not> is_manual req" "\<not> rq_IncompleteTailCandidate req"
    and fresh: "\<not> rq_BackendIncompleteTailVerified req" "\<not> rq_AssistantEvidenceVerified req"
    and scope: "trim_space (rq_AssistantObservationScope req) \<noteq> []"
      "trim_space (rq_LifecycleActionObservation req) \<noteq> ''superseded''"
    and store: "S = Some S0" "as_ActiveSourceRevisionLister S0 = Some lister"
      "\<And>st. fst (ListActiveSourceRevisions lister (trim_space (rq_ChatSessionID req)) 0 0 st) = (sources, None)"
    and baseline: "baseline = fst (resolveDurableSessionRoutingBaseline X (rq_ChatSessionID req) (rq_Baseline req) st)"
  obtains ev journal where
    "ev = deletion_evidence (rq_ChatSessionID req) sources (rq_AssistantObservations req)
       (map_option group_ids (rq_PendingInputObservation req)) journal baseline"
    and "ev_Verified ev" and "0 < ev_RemovedCount ev"
    and "0 < ev_FirstRemovedTurn ev \<Longrightarrow> ev_FirstRemovedTurn ev \<le> rp_FromTurn (calculateRollbackDecision req')"
proof -
  obtain latest st1 where obs: "observe_evidence group_ids S X
      (req\<lparr>rq_Baseline := baseline, rq_BackendLatestTurn := latest\<rparr>) st1 = (req', st')"
    using observe_automatic [OF automatic, of group_ids S X st] handled unfolding baseline by metis
  let ?req = "req\<lparr>rq_Baseline := baseline, rq_BackendLatestTurn := latest\<rparr>"
  have "\<not> manual_candidate ?req" using automatic by (simp add: manual_candidate_def is_manual_def)
  then have "rq_AssistantEvidenceRequired req' \<and> rq_RequestSource req' = rq_RequestSource req"
    using obs scope automatic
    by (auto simp: observe_evidence_def Let_def split: if_splits prod.splits option.splits)
  with required_evidence [OF allowed] automatic have ver: "rq_AssistantEvidenceVerified req'"
    and removed: "rq_AssistantOutputRemoved req'" by (auto simp: is_manual_def)
  obtain ev st2 where v: "verifyRollbackAssistantDeletionEvidence S0 (ext_load_journal X) (rq_ChatSessionID ?req)
      (rq_AssistantObservations ?req) (map_option group_ids (rq_PendingInputObservation ?req)) (rq_Baseline ?req) st1
      = ((ev, None), st2)"
    and ev: "ev_Verified ev"
    and req': "req' = ?req\<lparr>rq_AssistantEvidenceRequired := True, rq_AssistantEvidenceVerified := True,
      rq_AssistantOutputRemoved := 0 < ev_RemovedCount ev, rq_AssistantEvidenceReason := ev_Reason ev,
      rq_RemovedAssistantCount := ev_RemovedCount ev, rq_FirstRemovedTurn := ev_FirstRemovedTurn ev,
      rq_LedgerVerified := False, rq_DeletionObserved := 0 < ev_RemovedCount ev\<rparr>"
    by (rule evidence_decision [OF obs ver]) (use fresh store(1) in auto)
  have count: "0 < ev_RemovedCount ev" using removed req' by simp
  have list: "\<And>st. fst (ListActiveSourceRevisions lister (trim_space (rq_ChatSessionID ?req)) 0 0 st) = (sources, None)"
    using store(3) by simp
  obtain journal where "ev = deletion_evidence (rq_ChatSessionID ?req) sources (rq_AssistantObservations ?req)
      (map_option group_ids (rq_PendingInputObservation ?req)) journal (rq_Baseline ?req)"
    by (rule verify_from_list [OF store(2) list v])
  moreover have "ev_FirstRemovedTurn ev \<le> rp_FromTurn (calculateRollbackDecision req')"
    if "0 < ev_FirstRemovedTurn ev"
    using decision_from_evidence [OF allowed] fresh that req' by simp
  ultimately show thesis using that ev count by simp
qed

text \<open>An identified session is the one requested, and a refused identification decides nothing.\<close>

lemma identify_refuses: "fst (identify_session digest X req st) = Inl resp \<Longrightarrow> \<not> rp_Allowed resp"
  by (auto simp: identify_session_def Let_def split: if_splits prod.splits sum.splits)

lemma identify_accepts:
  assumes "identify_session digest X req st = (Inr req1, st1)" and "\<not> is_manual req"
  obtains dg incomplete revision where "req1 = req\<lparr>
      rq_AssistantObservations := fst (normalizeRollbackAssistantObservations digest
        (rq_AssistantObservationScope req) (rq_AssistantObservations req)),
      rq_AssistantObservationDigest := dg, rq_IncompleteAssistantObservations := incomplete,
      rq_ChatSessionID := trim_space (rq_ChatSessionID req), rq_RouteBindingRevision := revision\<rparr>"
proof -
  obtain complete dg incomplete where n: "normalizeRollbackAssistantObservations digest
      (rq_AssistantObservationScope req) (rq_AssistantObservations req) = (complete, dg, incomplete)"
    by (metis surj_pair)
  have "\<not> manual_candidate req" using assms(2) by (simp add: manual_candidate_def)
  with assms n obtain revision where "req1 = req\<lparr>rq_AssistantObservations := complete,
      rq_AssistantObservationDigest := dg, rq_IncompleteAssistantObservations := incomplete,
      rq_ChatSessionID := trim_space (rq_ChatSessionID req), rq_RouteBindingRevision := revision\<rparr>"
    by (auto simp: identify_session_def Let_def split: if_splits prod.splits sum.splits)
  with n that show thesis by simp
qed

lemma decided_response:
  assumes "decide_and_issue token notice req l = (resp, l')"
  shows "rp_Allowed resp = rp_Allowed (calculateRollbackDecision req)"
    and "rp_FromTurn resp = rp_FromTurn (calculateRollbackDecision req)"
  using assms by (auto simp: decide_and_issue_def Let_def split: if_splits prod.splits)

subsection \<open>Redeeming a token\<close>

text \<open>
  The head of \<open>handleRollback\<close>, after the query parameters are read and trimmed: a token is
  consumed and the route it was issued for is resolved again. \<open>Inl\<close> is the code of a 409 answer;
  \<open>Inr (verified, action, source)\<close> lets the rollback go on. Without a token it goes on unverified.
\<close>

definition authorise_rollback ::
    "'st rollback_extensions \<Rightarrow> string \<Rightarrow> go_int \<Rightarrow> string \<Rightarrow> string \<Rightarrow> string \<Rightarrow> 'st rollback_server \<Rightarrow>
     (string + bool \<times> string \<times> string) \<times> 'st rollback_server" where
  "authorise_rollback X sid turnIndex token digest reqSource server =
     (if token = [] then (Inr (False, ''deleted'', reqSource), server)
      else case consume token sid turnIndex digest (rv_decisions server) of
          (None, l) \<Rightarrow> (Inl ''rollback_decision_token_invalid'', server\<lparr>rv_decisions := l\<rparr>)
        | (Some record, l) \<Rightarrow>
            (let decided = trim_space (dr_RequestSource record);
                 granted = Inr (True, dr_LifecycleAction record, if decided = [] then reqSource else decided)
             in if trim_space (dr_StableCharacterID record) \<noteq> [] \<or> trim_space (dr_HostChatID record) \<noteq> []
                then (case resolveExistingRollbackRoute X (dr_StableCharacterID record) (dr_HostChatID record)
                            (rv_store server) of
                        (Inl _, st) \<Rightarrow> (Inl ''rollback_session_route_changed'',
                                        server\<lparr>rv_decisions := l, rv_store := st\<rparr>)
                      | (Inr b, st) \<Rightarrow>
                          (if trim_space (SessionRouteBinding_CanonicalSessionID b)
                                \<noteq> trim_space (dr_CanonicalSessionID record)
                              \<or> trim_space (SessionRouteBinding_CanonicalSessionID b) \<noteq> sid
                              \<or> SessionRouteBinding_Revision b \<noteq> dr_RouteBindingRevision record
                           then (Inl ''rollback_session_route_changed'',
                                 server\<lparr>rv_decisions := l, rv_store := st\<rparr>)
                           else (granted, server\<lparr>rv_decisions := l, rv_store := st\<rparr>)))
                else (granted, server\<lparr>rv_decisions := l\<rparr>)))"

text \<open>The first turn that is really deleted, from the query parameters \<open>protected_before_turn\<close> and \<open>min_from_turn\<close>.\<close>

definition rollback_start :: "go_int \<Rightarrow> go_int \<Rightarrow> go_int \<Rightarrow> go_int" where
  "rollback_start turnIndex protectedBeforeTurn minFromTurn =
     (let minFromTurn = (if minFromTurn \<le> 0 \<and> 0 < protectedBeforeTurn
                         then int64 (protectedBeforeTurn + 1) else minFromTurn)
      in if 0 < minFromTurn \<and> turnIndex < minFromTurn then minFromTurn else turnIndex)"

lemma authorised_consumes:
  assumes "authorise_rollback X sid turnIndex token digest reqSource server = (Inr (True, action, source), server')"
  obtains rec where "consume token sid turnIndex digest (rv_decisions server) = (Some rec, rv_decisions server')"
    and "dr_LifecycleAction rec = action"
proof -
  obtain found l where c: "consume token sid turnIndex digest (rv_decisions server) = (found, l)"
    by (metis surj_pair)
  with assms obtain rec where "found = Some rec" "rv_decisions server' = l" "dr_LifecycleAction rec = action"
    by (auto simp: authorise_rollback_def Let_def split: if_splits option.splits prod.splits sum.splits)
  with c that show thesis by blast
qed

lemma consumed_facts:
  assumes "consume token sid n digest l = (Some rec, l')"
  shows "map_of (dl_records l) token = Some rec" and "dr_SessionID rec = sid" and "dr_FromTurn rec = n"
    and "trim_space (dr_AssistantObservationDigest rec) = trim_space digest"
    and "map_of (dl_records l') = (map_of (dl_records l))(token := None)"
  using assms by (auto simp: consume_def Let_def split: option.splits if_splits)

lemma consume_held:
  assumes "map_of (dl_records l) token = Some rec"
  shows "fst (consume token (dr_SessionID rec) (dr_FromTurn rec) (dr_AssistantObservationDigest rec) l) = Some rec"
  using assms by (simp add: consume_def Let_def)

lemma consume_absent: "map_of (dl_records l) token = None \<Longrightarrow> consume token sid n digest l = (None, l)"
  by (simp add: consume_def)

end
