(* ===== verification/Package_Paths.thy ===== *)
theory Package_Paths
  imports Archive_Prelude "HOL-Library.List_Lexorder" "HOL-Library.Char_ord" "HOL-Library.Product_Lexorder"
begin

text \<open>
  The text side of the package updater, \<open>go-service/internal/packageupdate/update.go\<close>: which relative
  paths a package may manage, the names of archive entries, versions and their order. The system is
  one whose path separator is the slash (Linux, macOS): \<open>filepath.FromSlash\<close> and \<open>ToSlash\<close> do
  nothing and no path has a volume name.
\<close>

subsection \<open>Slashes\<close>

text \<open>\<open>strings.Split(s, "/")\<close> and \<open>strings.Join(parts, "/")\<close>.\<close>

fun split_slash :: "string \<Rightarrow> string list" where
  "split_slash [] = [[]]"
| "split_slash (c # cs) =
     (if c = CHR ''/'' then [] # split_slash cs
      else (case split_slash cs of [] \<Rightarrow> [[c]] | p # ps \<Rightarrow> (c # p) # ps))"

fun join_slash :: "string list \<Rightarrow> string" where
  "join_slash [] = []"
| "join_slash [p] = p"
| "join_slash (p # q # ps) = p @ CHR ''/'' # join_slash (q # ps)"

text \<open>\<open>strings.ReplaceAll(s, "\", "/")\<close>.\<close>

definition backslashes :: "string \<Rightarrow> string" where
  "backslashes s = map (\<lambda>c. if c = CHR 0x5C then CHR ''/'' else c) s"

lemma split_slash_nonempty [simp]: "split_slash s \<noteq> []"
  by (induction s) (auto split: list.splits)

lemma join_slash_Cons: "join_slash ((c # p) # ps) = c # join_slash (p # ps)"
  by (cases ps) simp_all

lemma join_split [simp]: "join_slash (split_slash s) = s"
proof (induction s)
  case (Cons c cs)
  obtain p ps where "split_slash cs = p # ps" by (cases "split_slash cs") auto
  with Cons show ?case by (simp add: join_slash_Cons)
qed simp

lemma split_slash_inj: "split_slash s = split_slash t \<Longrightarrow> s = t"
  by (metis join_split)

lemma split_no_slash: "CHR ''/'' \<notin> set p \<Longrightarrow> split_slash p = [p]"
  by (induction p) auto

lemma split_slash_append: "CHR ''/'' \<notin> set p \<Longrightarrow> split_slash (p @ CHR ''/'' # s) = p # split_slash s"
  by (induction p) auto

lemma split_join [simp]: "ps \<noteq> [] \<Longrightarrow> \<forall>p \<in> set ps. CHR ''/'' \<notin> set p \<Longrightarrow> split_slash (join_slash ps) = ps"
  by (induction ps rule: join_slash.induct) (simp_all add: split_no_slash split_slash_append)

lemma split_parts: "p \<in> set (split_slash s) \<Longrightarrow> CHR ''/'' \<notin> set p"
  by (induction s arbitrary: p) (auto split: if_splits list.splits)

subsection \<open>Paths a package may manage\<close>

definition canonicalRelativePath :: "string \<Rightarrow> string" where
  "canonicalRelativePath v = backslashes (trim_space v)"

definition hasDrivePrefix :: "string \<Rightarrow> bool" where
  "hasDrivePrefix v \<longleftrightarrow> 2 \<le> length v
     \<and> (CHR ''a'' \<le> v ! 0 \<and> v ! 0 \<le> CHR ''z'' \<or> CHR ''A'' \<le> v ! 0 \<and> v ! 0 \<le> CHR ''Z'') \<and> v ! 1 = CHR '':''"

definition protected_dirs :: "string list" where
  "protected_dirs = [''.runtime'', ''.updates'', ''data'', ''cache'', ''caches'', ''database'', ''databases'',
     ''db'', ''vector'', ''vectors'', ''chromadb'', ''mariadb'', ''secrets'']"

definition is_suffix :: "'a list \<Rightarrow> 'a list \<Rightarrow> bool" where
  "is_suffix p s \<longleftrightarrow> is_prefix (rev p) (rev s)"

lemma refusal_eq_None: "(if c then Some e else r) = None \<longleftrightarrow> \<not> c \<and> r = None"
  by simp

text \<open>The message of \<open>validateManagedPath\<close>'s error, \<open>None\<close> if there is none.\<close>

definition validateManagedPath :: "string \<Rightarrow> string option" where
  "validateManagedPath rel0 =
     (if rel0 = [] \<or> CHR 0x00 \<in> set rel0 then Some ''empty or NUL path''
      else
        (let rel = backslashes rel0
         in if is_prefix ''/'' rel \<or> hasDrivePrefix rel then Some ''absolute path''
            else
              (let parts = split_slash rel
               in if list_ex (\<lambda>p. p = [] \<or> p = ''.'' \<or> p = ''..'') parts then Some ''unclean path''
                  else if List.member protected_dirs (ascii_lower (hd parts)) then Some ''protected path''
                  else
                    (let base = ascii_lower (last parts);
                         managedEnvironmentTemplate = length parts = 1
                           \<and> (base = ''.env.full.example'' \<or> base = ''.env.source.example'')
                     in if \<not> managedEnvironmentTemplate \<and> (base = ''.env'' \<or> is_prefix ''.env.'' base)
                          then Some ''protected environment file''
                        else if list_ex (\<lambda>s. is_suffix s base) [''.db'', ''.sqlite'', ''.sqlite3'', ''.pem'', ''.key'']
                          then Some ''protected data or secret file''
                        else None))))"

text \<open>
  What an accepted path is on disk. The code checks the path with its backslashes read as slashes
  and uses it (in \<open>rollback\<close>) as it stands: the parts of the path itself are proper names too, and
  the first of them is not the update directory.
\<close>

lemma backslashes_simps [simp]:
  "backslashes [] = []"
  "backslashes (c # cs) = (if c = CHR 0x5C then CHR ''/'' else c) # backslashes cs"
  by (simp_all add: backslashes_def)

lemma backslashes_plain: "CHR 0x5C \<notin> set p \<Longrightarrow> backslashes p = p"
  by (induction p) auto

lemma split_backslashes:
  "split_slash (backslashes s) = concat (map (\<lambda>p. split_slash (backslashes p)) (split_slash s))"
proof (induction s)
  case (Cons c cs)
  obtain p ps where p: "split_slash cs = p # ps" by (cases "split_slash cs") auto
  obtain q qs where q: "split_slash (backslashes p) = q # qs" by (cases "split_slash (backslashes p)") auto
  show ?case using Cons p q by simp
qed simp

lemma plain_part:
  assumes "p \<in> set (split_slash s)" and "CHR 0x5C \<notin> set p"
  shows "p \<in> set (split_slash (backslashes s))"
proof -
  have "p \<in> set (split_slash (backslashes p))"
    using split_no_slash [OF split_parts [OF assms(1)]] by (simp add: backslashes_plain assms(2))
  with assms(1) show ?thesis unfolding split_backslashes [of s] by auto
qed

lemma plain_first_part:
  assumes "CHR 0x5C \<notin> set (hd (split_slash s))"
  shows "hd (split_slash (backslashes s)) = hd (split_slash s)"
proof -
  obtain p ps where p: "split_slash s = p # ps" by (cases "split_slash s") auto
  then have "split_slash p = [p]" using split_parts [of p s] by (simp add: split_no_slash)
  with p assms show ?thesis unfolding split_backslashes [of s] by (simp add: backslashes_plain)
qed

definition proper_parts :: "string list \<Rightarrow> bool" where
  "proper_parts ps \<longleftrightarrow> ps \<noteq> [] \<and> [] \<notin> set ps \<and> ''.'' \<notin> set ps \<and> ''..'' \<notin> set ps"

lemma managed_parts:
  assumes "validateManagedPath rel = None"
  shows "proper_parts (split_slash rel)"
    and "\<not> List.member protected_dirs (ascii_lower (hd (split_slash rel))) \<or> CHR 0x5C \<in> set (hd (split_slash rel))"
proof -
  have parts: "\<not> list_ex (\<lambda>p. p = [] \<or> p = ''.'' \<or> p = ''..'') (split_slash (backslashes rel))"
    using assms unfolding validateManagedPath_def Let_def refusal_eq_None by blast
  have first: "\<not> List.member protected_dirs (ascii_lower (hd (split_slash (backslashes rel))))"
    using assms unfolding validateManagedPath_def Let_def refusal_eq_None by blast
  have "p \<noteq> [] \<and> p \<noteq> ''.'' \<and> p \<noteq> ''..''" if "p \<in> set (split_slash rel)" for p
  proof (cases "CHR 0x5C \<in> set p")
    case False
    with plain_part [OF that] parts show ?thesis unfolding list_ex_iff by blast
  qed auto
  then show "proper_parts (split_slash rel)" by (auto simp: proper_parts_def)
  show "\<not> List.member protected_dirs (ascii_lower (hd (split_slash rel))) \<or> CHR 0x5C \<in> set (hd (split_slash rel))"
    using first plain_first_part [of rel] by (cases "CHR 0x5C \<in> set (hd (split_slash rel))") simp_all
qed

lemma managed_outside_updates:
  assumes "validateManagedPath rel = None"
  shows "hd (split_slash rel) \<noteq> ''.updates''"
proof
  assume first: "hd (split_slash rel) = ''.updates''"
  have "List.member protected_dirs (ascii_lower ''.updates'')" "CHR 0x5C \<notin> set ''.updates''" by code_simp+
  with managed_parts(2) [OF assms] first show False by simp
qed

subsection \<open>Names of archive entries\<close>

text \<open>\<open>Inl\<close> is the message of the error.\<close>

definition validateZipName :: "string \<Rightarrow> string + string" where
  "validateZipName name0 =
     (if name0 = [] \<or> CHR 0x00 \<in> set name0 then Inl ''invalid empty or NUL zip path''
      else
        (let name = backslashes name0
         in if is_prefix ''/'' name \<or> hasDrivePrefix name then Inl ''absolute zip path''
            else
              (let parts = filter (\<lambda>p. p \<noteq> [] \<and> p \<noteq> ''.'') (split_slash name)
               in if List.member parts ''..'' then Inl ''traversal zip path''
                  else if parts = [] then Inl ''invalid zip path''
                  else Inr (join_slash parts))))"

lemma zip_name_parts:
  assumes "validateZipName name = Inr rel"
  shows "proper_parts (split_slash rel)"
    and "split_slash rel = filter (\<lambda>p. p \<noteq> [] \<and> p \<noteq> ''.'') (split_slash (backslashes name))"
proof -
  let ?parts = "filter (\<lambda>p. p \<noteq> [] \<and> p \<noteq> ''.'') (split_slash (backslashes name))"
  have parts: "''..'' \<notin> set ?parts" "?parts \<noteq> []" "rel = join_slash ?parts"
    using assms by (simp_all add: validateZipName_def Let_def split: if_splits)
  moreover have "split_slash (join_slash ?parts) = ?parts"
    using parts(2) split_parts by (intro split_join) auto
  ultimately show "split_slash rel = ?parts" by simp
  with parts(1,2) show "proper_parts (split_slash rel)" by (auto simp: proper_parts_def)
qed

subsection \<open>Versions\<close>

definition trim_prefix :: "string \<Rightarrow> string \<Rightarrow> string" where
  "trim_prefix p s = (if is_prefix p s then drop (length p) s else s)"

definition sameVersion :: "string \<Rightarrow> string \<Rightarrow> bool" where
  "sameVersion left right =
     (let normalize = (\<lambda>value. trim_prefix ''v'' (ascii_lower (trim_space value)))
      in normalize left \<noteq> [] \<and> normalize left = normalize right)"

definition before_char :: "char \<Rightarrow> string \<Rightarrow> string" where
  "before_char c s = takeWhile (\<lambda>x. x \<noteq> c) s"

fun split_dots :: "string \<Rightarrow> string list" where
  "split_dots [] = [[]]"
| "split_dots (c # cs) =
     (if c = CHR ''.'' then [] # split_dots cs
      else (case split_dots cs of [] \<Rightarrow> [[c]] | p # ps \<Rightarrow> (c # p) # ps))"

definition parsePackageVersion :: "string \<Rightarrow> (int \<times> int \<times> int) \<times> string" where
  "parsePackageVersion value =
     (let clean = before_char (CHR ''+'') (trim_prefix ''V'' (trim_prefix ''v'' (trim_space value)));
          pre = (if List.member clean (CHR ''-'')
                   then ascii_lower (trim_space (tl (dropWhile (\<lambda>x. x \<noteq> CHR ''-'') clean))) else []);
          parts = split_dots (before_char (CHR ''-'') clean);
          number = (\<lambda>i. if i < length parts then Atoi_value (trim_space (parts ! i)) else 0)
      in ((number 0, number 1, number 2), pre))"

definition comparePackageVersions :: "string \<Rightarrow> string \<Rightarrow> int" where
  "comparePackageVersions left right =
     (case (parsePackageVersion left, parsePackageVersion right) of
        (((a, b, c), lp), ((x, y, z), rp)) \<Rightarrow>
          (if a > x then 1 else if a < x then -1
           else if b > y then 1 else if b < y then -1
           else if c > z then 1 else if c < z then -1
           else if lp = rp then 0 else if lp = [] then 1 else if rp = [] then -1
           else if lp > rp then 1 else -1))"

text \<open>
  The order it computes: three numbers, then a release after its pre-releases, then the text of
  the pre-release, byte by byte.
\<close>

definition version_key :: "string \<Rightarrow> (int \<times> int \<times> int) \<times> bool \<times> string" where
  "version_key v = (case parsePackageVersion v of (numbers, pre) \<Rightarrow> (numbers, pre = [], pre))"

lemma compare_versions:
  "comparePackageVersions l r =
     (if version_key l = version_key r then 0 else if version_key l < version_key r then -1 else 1)"
proof -
  obtain a b c lp where l: "parsePackageVersion l = ((a, b, c), lp)" by (metis surj_pair)
  obtain x y z rp where r: "parsePackageVersion r = ((x, y, z), rp)" by (metis surj_pair)
  show ?thesis
    by (auto simp: comparePackageVersions_def version_key_def l r less_prod_def')
qed

subsection \<open>Modes and names\<close>

text \<open>\<open>archived\<close> has the permission bits only; \<open>goos\<close> is not Windows here.\<close>

definition managedInstallMode :: "string \<Rightarrow> nat \<Rightarrow> nat" where
  "managedInstallMode rel archived =
     (let rel = ascii_lower (canonicalRelativePath rel)
      in if is_prefix ''bin/'' rel \<or> is_suffix ''.sh'' rel \<or> is_suffix ''.command'' rel then 493
         else if archived = 0 then 420 else archived)"

definition safe_rune :: "nat \<Rightarrow> char" where
  "safe_rune r =
     (if 97 \<le> r \<and> r \<le> 122 \<or> 65 \<le> r \<and> r \<le> 90 \<or> 48 \<le> r \<and> r \<le> 57 \<or> r = 46 \<or> r = 45 \<or> r = 95
      then char_of r else CHR ''_'')"

definition safeSegment :: "string \<Rightarrow> string" where
  "safeSegment v = (if v = [] then ''update'' else map safe_rune (runes (map byte_at v)))"

lemma safeSegment_no_slash: "CHR ''/'' \<notin> set (safeSegment v)"
proof -
  have "safe_rune r \<noteq> CHR ''/''" for r
  proof
    assume eq: "safe_rune r = CHR ''/''"
    then have "char_of r = CHR ''/''" "r < 128" by (auto simp: safe_rune_def split: if_splits)
    then have "of_char (char_of r) = (47 :: nat)" by simp
    with \<open>r < 128\<close> have "r = 47" by (simp add: of_char_of)
    with eq show False by (simp add: safe_rune_def)
  qed
  then show ?thesis unfolding safeSegment_def by (simp add: image_iff) metis
qed

end
