(* ===== verification/Update_Disk.thy ===== *)
theory Update_Disk
  imports Package_Paths "HOL-Library.State_Monad"
begin

text \<open>
  The disk under the package updater (\<open>go-service/internal/packageupdate/update.go\<close>) and its file
  operations. A disk maps absolute paths (lists of names) to files, directories and symbolic links;
  a file's content is the document its bytes decode as. Every operation that changes the disk is a
  \<open>step\<close>, and a list of faults says what becomes of the steps of a run: a step runs, is refused
  (the system call returns an error and does nothing), or the process is killed, after which
  nothing reaches the disk. Steps reach the disk in the order of the code.
\<close>

subsection \<open>Documents\<close>

record Pending =
  pu_ContractVersion :: string
  pu_CurrentVersion :: string
  pu_TargetVersion :: string
  pu_AssetPath :: string
  pu_RequiredFiles :: "string list"

record JournalEntry =
  je_Path :: string
  je_Existed :: bool
  je_BackupPath :: string

record UpdateState =
  us_ContractVersion :: string
  us_Status :: string
  us_CurrentVersion :: string
  us_TargetVersion :: string
  us_RunnerPath :: string
  us_BackupDir :: string
  us_Journal :: "JournalEntry list"
  us_UpdatedAt :: string

record manifestFile =
  mf_Path :: string
  mf_SHA256 :: string
  mf_SizeBytes :: go_int

record packageManifest =
  pm_SchemaVersion :: string
  pm_PackageVersion :: string
  pm_Files :: "manifestFile list"

record packageReleaseManifest =
  pr_ContractVersion :: string
  pr_TargetVersion :: string
  pr_ReleaseReady :: bool
  pr_AutomaticUpdateApply :: "bool option"

text \<open>
  \<open>Torn\<close> is the content of a file whose writing has not been completed; it decodes as nothing.
  \<open>Archive\<close> is a zip archive: its entries with name, kind, declared size, permissions and content.
\<close>

datatype content =
    Bytes string
  | Torn
  | State_doc UpdateState
  | Pending_doc Pending
  | Manifest_doc packageManifest
  | Release_doc packageReleaseManifest
  | Archive "zip_entry list"
and zip_entry = ZipEntry (ze_Name: string) (ze_IsDir: bool) (ze_Regular: bool) (ze_Size: int) (ze_Mode: nat)
    (ze_Content: content)

subsection \<open>Disks\<close>

type_synonym disk_path = "string list"

datatype disk_node = File content nat | Directory | Link

type_synonym disk = "(disk_path \<times> disk_node) list"

definition file_at :: "disk \<Rightarrow> disk_path \<Rightarrow> (content \<times> nat) option" where
  "file_at d p = (case map_of d p of Some (File c m) \<Rightarrow> Some (c, m) | _ \<Rightarrow> None)"

definition is_dir :: "disk \<Rightarrow> disk_path \<Rightarrow> bool" where
  "is_dir d p \<longleftrightarrow> p = [] \<or> map_of d p = Some Directory"

definition with_suffix :: "disk_path \<Rightarrow> string \<Rightarrow> disk_path" where
  "with_suffix p s = butlast p @ [last p @ s]"

text \<open>
  The changes one system call (or one library call of them, where the parts in between leave no
  trace in any file) makes to a disk; \<open>None\<close> is an error. \<open>remove_act\<close> counts a missing file as
  removed, as every caller of \<open>os.Remove\<close> does. A link is never followed.
\<close>

definition mkdir_all_act :: "disk_path \<Rightarrow> disk \<Rightarrow> disk option" where
  "mkdir_all_act p d =
     (let ps = map (\<lambda>n. take n p) [1..<Suc (length p)]
      in if list_ex (\<lambda>q. \<not> is_dir d q \<and> map_of d q \<noteq> None) ps then None
         else Some (fold (\<lambda>q d. if is_dir d q then d else map_put q Directory d) ps d))"

definition below_file :: "disk \<Rightarrow> disk_path \<Rightarrow> bool" where
  "below_file d p \<longleftrightarrow> list_ex (\<lambda>n. file_at d (take n p) \<noteq> None) [1..<length p]"

definition remove_act :: "disk_path \<Rightarrow> disk \<Rightarrow> disk option" where
  "remove_act p d =
     (if below_file d p then None
      else case map_of d p of
          None \<Rightarrow> Some d
        | Some Directory \<Rightarrow>
            (if list_ex (\<lambda>kv. is_prefix p (fst kv) \<and> fst kv \<noteq> p) d then None else Some (map_remove p d))
        | Some _ \<Rightarrow> Some (map_remove p d))"

text \<open>Creating a file that must not exist, truncating or creating one, and writing what was opened.\<close>

definition create_act :: "disk_path \<Rightarrow> nat \<Rightarrow> disk \<Rightarrow> disk option" where
  "create_act p mode d =
     (if map_of d p \<noteq> None \<or> \<not> is_dir d (butlast p) then None else Some (map_put p (File Torn mode) d))"

definition truncate_act :: "disk_path \<Rightarrow> nat \<Rightarrow> disk \<Rightarrow> disk option" where
  "truncate_act p mode d =
     (case map_of d p of
        None \<Rightarrow> (if is_dir d (butlast p) then Some (map_put p (File Torn mode) d) else None)
      | Some (File _ m) \<Rightarrow> Some (map_put p (File Torn m) d)
      | Some _ \<Rightarrow> None)"

definition write_act :: "disk_path \<Rightarrow> content \<Rightarrow> disk \<Rightarrow> disk option" where
  "write_act p c d = (case map_of d p of Some (File _ m) \<Rightarrow> Some (map_put p (File c m) d) | _ \<Rightarrow> None)"

definition rename_act :: "disk_path \<Rightarrow> disk_path \<Rightarrow> disk \<Rightarrow> disk option" where
  "rename_act a b d =
     (case map_of d a of
        Some (File c m) \<Rightarrow>
          (if is_dir d b \<or> \<not> is_dir d (butlast b) then None
           else Some (map_put b (File c m) (map_remove a d)))
      | _ \<Rightarrow> None)"

subsection \<open>Runs\<close>

datatype fault = Runs | Refused | Killed

record world =
  wd_disk :: disk
  wd_faults :: "fault list"

definition attempt :: "(disk \<Rightarrow> disk option) \<Rightarrow> world \<Rightarrow> bool \<times> world" where
  "attempt act w = (case act (wd_disk w) of Some d \<Rightarrow> (True, w\<lparr>wd_disk := d\<rparr>) | None \<Rightarrow> (False, w))"

text \<open>Without an entry in the list every step runs. A killed process stays killed.\<close>

definition step :: "(disk \<Rightarrow> disk option) \<Rightarrow> (world, bool) state" where
  "step act = State (\<lambda>w. case wd_faults w of
       [] \<Rightarrow> attempt act w
     | Runs # fs \<Rightarrow> attempt act (w\<lparr>wd_faults := fs\<rparr>)
     | Refused # fs \<Rightarrow> (False, w\<lparr>wd_faults := fs\<rparr>)
     | Killed # fs \<Rightarrow> (False, w))"

definition disk_now :: "(world, disk) state" where
  "disk_now = State (\<lambda>w. (wd_disk w, w))"

abbreviation ret :: "'a \<Rightarrow> (world, 'a) state" where
  "ret \<equiv> State_Monad.return"

subsection \<open>The file operations of the updater\<close>

fun remove_each :: "disk_path list \<Rightarrow> (world, bool) state" where
  "remove_each [] = ret True"
| "remove_each (p # ps) = do {
     this \<leftarrow> step (\<lambda>d. Some (map_remove p d));
     others \<leftarrow> remove_each ps;
     ret (this \<and> others)
   }"

text \<open>\<open>os.RemoveAll\<close>, file by file.\<close>

definition remove_all :: "disk_path \<Rightarrow> (world, bool) state" where
  "remove_all p = do {
     d \<leftarrow> disk_now;
     remove_each (filter (is_prefix p) (map fst d))
   }"

definition copyFile :: "disk_path \<Rightarrow> disk_path \<Rightarrow> nat \<Rightarrow> (world, bool) state" where
  "copyFile src dst mode = do {
     made \<leftarrow> step (mkdir_all_act (butlast dst));
     d \<leftarrow> disk_now;
     (case (made, file_at d src) of
        (True, Some (c, _)) \<Rightarrow> do {
          created \<leftarrow> step (create_act dst mode);
          if created then do {
            copied \<leftarrow> step (write_act dst c);
            if copied then ret True
            else do { _ \<leftarrow> step (remove_act dst); ret False }
          } else ret False
        }
      | _ \<Rightarrow> ret False)
   }"

text \<open>The hash function is SHA-256 of the bytes and their number.\<close>

definition verifyFileIntegrity ::
    "(content \<Rightarrow> string \<times> int) \<Rightarrow> disk \<Rightarrow> disk_path \<Rightarrow> manifestFile \<Rightarrow> bool" where
  "verifyFileIntegrity hash d p expected =
     (case file_at d p of
        None \<Rightarrow> False
      | Some (c, _) \<Rightarrow> snd (hash c) = mf_SizeBytes expected \<and> equal_fold_ascii (mf_SHA256 expected) (fst (hash c)))"

definition replaceFile ::
    "(content \<Rightarrow> string \<times> int) \<Rightarrow> disk_path \<Rightarrow> disk_path \<Rightarrow> nat \<Rightarrow> manifestFile option \<Rightarrow> (world, bool) state" where
  "replaceFile hash src target mode integrity = do {
     made \<leftarrow> step (mkdir_all_act (butlast target));
     if \<not> made then ret False
     else do {
       let tmp = with_suffix target ''.update-tmp'';
       _ \<leftarrow> step (remove_act tmp);
       copied \<leftarrow> copyFile src tmp mode;
       d \<leftarrow> disk_now;
       if \<not> copied then ret False
       else if (case integrity of Some mf \<Rightarrow> \<not> verifyFileIntegrity hash d tmp mf | None \<Rightarrow> False)
         then do { _ \<leftarrow> step (remove_act tmp); ret False }
       else do {
         removed \<leftarrow> step (remove_act target);
         if \<not> removed then do { _ \<leftarrow> step (remove_act tmp); ret False }
         else do {
           renamed \<leftarrow> step (rename_act tmp target);
           if renamed then ret True
           else do { _ \<leftarrow> step (remove_act tmp); ret False }
         }
       }
     }
   }"

definition writeJSONAtomic :: "disk_path \<Rightarrow> content \<Rightarrow> (world, bool) state" where
  "writeJSONAtomic path value = do {
     made \<leftarrow> step (mkdir_all_act (butlast path));
     if \<not> made then ret False
     else do {
       let tmp = with_suffix path ''.tmp'';
       let previous = with_suffix path ''.previous'';
       _ \<leftarrow> step (remove_act tmp);
       opened \<leftarrow> step (truncate_act tmp 384);
       if \<not> opened then ret False
       else do {
         written \<leftarrow> step (write_act tmp value);
         if \<not> written then ret False
         else do {
           _ \<leftarrow> step (remove_act previous);
           kept \<leftarrow> step (\<lambda>d. if map_of d path = None then Some d else rename_act path previous d);
           if \<not> kept then do { _ \<leftarrow> step (remove_act tmp); ret False }
           else do {
             renamed \<leftarrow> step (rename_act tmp path);
             if \<not> renamed then do {
               _ \<leftarrow> step (rename_act previous path);
               _ \<leftarrow> step (remove_act tmp);
               ret False
             } else do {
               _ \<leftarrow> step (remove_act previous);
               ret True
             }
           }
         }
       }
     }
   }"

subsection \<open>What the changes do to the files\<close>

lemma file_at_put [simp]:
  "file_at (map_put p (File c m) d) = (file_at d)(p \<mapsto> (c, m))"
  by (rule ext) (simp add: file_at_def)

lemma file_at_remove [simp]: "file_at (map_remove p d) = (file_at d)(p := None)"
  by (rule ext) (simp add: file_at_def)

lemma file_at_directory: "file_at d p = None \<Longrightarrow> file_at (map_put p Directory d) = file_at d"
  by (rule ext) (simp add: file_at_def)

lemma mkdir_files: "mkdir_all_act p d = Some d' \<Longrightarrow> file_at d' = file_at d"
proof -
  assume mk: "mkdir_all_act p d = Some d'"
  let ?ps = "map (\<lambda>n. take n p) [1..<Suc (length p)]"
  let ?f = "\<lambda>q d. if is_dir d q then d else map_put q Directory d"
  have "file_at (fold ?f qs d) = file_at d" if "\<forall>q \<in> set qs. is_dir d q \<or> map_of d q = None" for qs d
    using that
  proof (induction qs arbitrary: d)
    case (Cons q qs)
    have "file_at (?f q d) = file_at d"
      using Cons.prems by (auto simp: file_at_def intro!: file_at_directory)
    moreover have "\<forall>r \<in> set qs. is_dir (?f q d) r \<or> map_of (?f q d) r = None"
      using Cons.prems by (auto simp: is_dir_def)
    ultimately show ?case using Cons.IH [of "?f q d"] by simp
  qed simp
  with mk show ?thesis
    by (auto simp: mkdir_all_act_def Let_def list_ex_iff simp del: upt_Suc split: if_splits)
qed

lemma remove_files: "remove_act p d = Some d' \<Longrightarrow> file_at d' = (file_at d)(p := None)"
  by (auto simp: remove_act_def file_at_def split: if_splits option.splits disk_node.splits)

lemma create_files:
  "create_act p mode d = Some d' \<Longrightarrow> file_at d' = (file_at d)(p \<mapsto> (Torn, mode)) \<and> file_at d p = None"
  by (auto simp: create_act_def file_at_def split: if_splits)

lemma truncate_files: "truncate_act p mode d = Some d' \<Longrightarrow> \<exists>m. file_at d' = (file_at d)(p \<mapsto> (Torn, m))"
  by (auto simp: truncate_act_def split: option.splits disk_node.splits if_splits)

lemma write_files:
  "write_act p c d = Some d' \<Longrightarrow> \<exists>c' m. file_at d p = Some (c', m) \<and> file_at d' = (file_at d)(p \<mapsto> (c, m))"
  by (auto simp: write_act_def file_at_def split: option.splits disk_node.splits)

lemma rename_files:
  "rename_act a b d = Some d' \<Longrightarrow> \<exists>x. file_at d a = Some x \<and> file_at d' = (file_at d)(a := None, b \<mapsto> x)"
  by (auto simp: rename_act_def file_at_def split: option.splits disk_node.splits if_splits)

subsection \<open>Which files an operation can change, whatever the faults\<close>

definition same_outside :: "disk_path set \<Rightarrow> world \<Rightarrow> world \<Rightarrow> bool" where
  "same_outside S w w' \<longleftrightarrow> (\<forall>p. p \<notin> S \<longrightarrow> file_at (wd_disk w') p = file_at (wd_disk w) p)"

definition touches :: "disk_path set \<Rightarrow> (world, 'a) state \<Rightarrow> bool" where
  "touches S m \<longleftrightarrow> state_io_rel (same_outside S) m"

named_theorems touching \<open>what each operation can change\<close>

lemma touches_mono: "touches S m \<Longrightarrow> S \<subseteq> T \<Longrightarrow> touches T m"
  by (auto simp: touches_def state_io_rel_def same_outside_def)

lemma touches_ret [touching]: "touches S (ret x)"
  by (simp add: touches_def state_io_rel_def same_outside_def)

lemma touches_now [touching]: "touches S disk_now"
  by (simp add: touches_def state_io_rel_def same_outside_def disk_now_def)

lemma touches_bind [touching]:
  assumes "touches S m" and "\<And>x. touches S (f x)"
  shows "touches S (State_Monad.bind m f)"
proof -
  have "same_outside S w (snd (run_state (State_Monad.bind m f) w))" for w
  proof -
    obtain x w1 where 1: "run_state m w = (x, w1)" by (metis surj_pair)
    obtain y w2 where 2: "run_state (f x) w1 = (y, w2)" by (metis surj_pair)
    have "same_outside S w w1" "same_outside S w1 w2"
      using assms(1) assms(2) [of x] 1 2 unfolding touches_def state_io_rel_def by (metis snd_conv)+
    with 1 2 show ?thesis by (simp add: same_outside_def)
  qed
  then show ?thesis by (simp add: touches_def state_io_rel_def)
qed

lemma step_result:
  assumes "run_state (step act) w = (ok, w')"
  shows "\<not> ok \<and> wd_disk w' = wd_disk w \<or> ok \<and> act (wd_disk w) = Some (wd_disk w')"
  using assms
  by (auto simp: step_def attempt_def split: list.splits fault.splits option.splits)

lemma touches_step:
  assumes "\<And>d d' p. act d = Some d' \<Longrightarrow> p \<notin> S \<Longrightarrow> file_at d' p = file_at d p"
  shows "touches S (step act)"
proof -
  have "same_outside S w (snd (run_state (step act) w))" for w
    using step_result [of act w] assms unfolding same_outside_def by (metis prod.collapse)
  then show ?thesis by (simp add: touches_def state_io_rel_def)
qed

lemma touches_mkdir [touching]: "touches S (step (mkdir_all_act p))"
  by (rule touches_step) (simp add: mkdir_files)

lemma touches_remove [touching]: "p \<in> S \<Longrightarrow> touches S (step (remove_act p))"
  by (rule touches_step) (auto simp: remove_files)

lemma touches_drop [touching]: "p \<in> S \<Longrightarrow> touches S (step (\<lambda>d. Some (map_remove p d)))"
  by (rule touches_step) auto

lemma touches_create [touching]: "p \<in> S \<Longrightarrow> touches S (step (create_act p mode))"
  by (rule touches_step) (auto dest!: create_files)

lemma touches_truncate [touching]: "p \<in> S \<Longrightarrow> touches S (step (truncate_act p mode))"
  by (rule touches_step) (auto dest!: truncate_files)

lemma touches_write [touching]: "p \<in> S \<Longrightarrow> touches S (step (write_act p c))"
  by (rule touches_step) (auto dest!: write_files)

lemma touches_rename [touching]: "a \<in> S \<Longrightarrow> b \<in> S \<Longrightarrow> touches S (step (rename_act a b))"
  by (rule touches_step) (auto dest!: rename_files)

lemma touches_keep [touching]:
  "a \<in> S \<Longrightarrow> b \<in> S \<Longrightarrow> touches S (step (\<lambda>d. if map_of d a = None then Some d else rename_act a b d))"
  by (rule touches_step) (auto dest!: rename_files split: if_splits)

lemma touches_if [touching]:
  "(c \<Longrightarrow> touches S m) \<Longrightarrow> (\<not> c \<Longrightarrow> touches S n) \<Longrightarrow> touches S (if c then m else n)"
  by simp

lemma touches_let [touching]: "touches S (f x) \<Longrightarrow> touches S (let y = x in f y)"
  by simp

lemma touches_option [touching]:
  "(x = None \<Longrightarrow> touches S m) \<Longrightarrow> (\<And>y. x = Some y \<Longrightarrow> touches S (f y))
    \<Longrightarrow> touches S (case x of None \<Rightarrow> m | Some y \<Rightarrow> f y)"
  by (cases x) simp_all

lemma touches_prod [touching]:
  "(\<And>a b. x = (a, b) \<Longrightarrow> touches S (f a b)) \<Longrightarrow> touches S (case x of (a, b) \<Rightarrow> f a b)"
  by (cases x) simp

lemma touches_bool [touching]:
  "(b \<Longrightarrow> touches S m) \<Longrightarrow> (\<not> b \<Longrightarrow> touches S n) \<Longrightarrow> touches S (case b of True \<Rightarrow> m | False \<Rightarrow> n)"
  by (cases b) simp_all

lemma touches_remove_each: "set ps \<subseteq> S \<Longrightarrow> touches S (remove_each ps)"
  by (induction ps) (auto intro!: touching)

lemma touches_remove_all [touching]: "{q. is_prefix p q} \<subseteq> S \<Longrightarrow> touches S (remove_all p)"
  unfolding remove_all_def by (auto intro!: touching touches_remove_each)

lemma touches_copyFile [touching]: "dst \<in> S \<Longrightarrow> touches S (copyFile src dst mode)"
  unfolding copyFile_def by (intro touching)

lemma touches_replaceFile [touching]:
  "target \<in> S \<Longrightarrow> with_suffix target ''.update-tmp'' \<in> S \<Longrightarrow> touches S (replaceFile hash src target mode integrity)"
  unfolding replaceFile_def Let_def by (intro touching)

lemma touches_writeJSON [touching]:
  "p \<in> S \<Longrightarrow> with_suffix p ''.tmp'' \<in> S \<Longrightarrow> with_suffix p ''.previous'' \<in> S \<Longrightarrow> touches S (writeJSONAtomic p v)"
  unfolding writeJSONAtomic_def Let_def by (intro touching)

subsection \<open>What an operation achieves, whatever the faults\<close>

text \<open>
  \<open>after P m Q\<close>: started on a disk with \<open>P\<close>, a run of \<open>m\<close> with any faults ends with a result and
  a disk related by \<open>Q\<close>. A killed run ends too, on the disk it leaves behind.
\<close>

definition after :: "(disk \<Rightarrow> bool) \<Rightarrow> (world, 'a) state \<Rightarrow> ('a \<Rightarrow> disk \<Rightarrow> bool) \<Rightarrow> bool" where
  "after P m Q \<longleftrightarrow>
     (\<forall>w. P (wd_disk w) \<longrightarrow> Q (fst (run_state m w)) (wd_disk (snd (run_state m w))))"

lemma after_apply:
  "after P m Q \<Longrightarrow> P (wd_disk w) \<Longrightarrow> run_state m w = (x, w') \<Longrightarrow> Q x (wd_disk w')"
  by (auto simp: after_def)

lemma after_ret: "(\<And>d. P d \<Longrightarrow> Q x d) \<Longrightarrow> after P (ret x) Q"
  by (simp add: after_def)

lemma after_now: "after P disk_now (\<lambda>d0 d. d0 = d \<and> P d)"
  by (simp add: after_def disk_now_def)

lemma after_bind:
  assumes "after P m R" and "\<And>x. after (R x) (f x) Q"
  shows "after P (State_Monad.bind m f) Q"
  unfolding after_def
proof (intro allI impI)
  fix w :: world assume "P (wd_disk w)"
  moreover obtain x w1 where 1: "run_state m w = (x, w1)" by (metis surj_pair)
  ultimately have "R x (wd_disk w1)" using after_apply [OF assms(1)] by blast
  with assms(2) [of x] 1 show "Q (fst (run_state (State_Monad.bind m f) w))
      (wd_disk (snd (run_state (State_Monad.bind m f) w)))"
    by (simp add: after_def)
qed

lemma after_step:
  assumes "\<And>d. P d \<Longrightarrow> Q False d" and "\<And>d d'. P d \<Longrightarrow> act d = Some d' \<Longrightarrow> Q True d'"
  shows "after P (step act) Q"
  unfolding after_def
proof (intro allI impI)
  fix w :: world assume "P (wd_disk w)"
  moreover obtain ok w' where "run_state (step act) w = (ok, w')" by (metis surj_pair)
  ultimately show "Q (fst (run_state (step act) w)) (wd_disk (snd (run_state (step act) w)))"
    using step_result [of act w ok w'] assms by (cases ok) auto
qed

lemma after_weaken:
  "after P m Q \<Longrightarrow> (\<And>d. P' d \<Longrightarrow> P d) \<Longrightarrow> (\<And>x d. Q x d \<Longrightarrow> Q' x d) \<Longrightarrow> after P' m Q'"
  by (auto simp: after_def)

text \<open>A property of files that \<open>m\<close> cannot change holds afterwards if it held before.\<close>

lemma after_touches:
  assumes "touches S m" and "\<And>d d'. P d \<Longrightarrow> (\<And>p. p \<notin> S \<Longrightarrow> file_at d' p = file_at d p) \<Longrightarrow> P d'"
  shows "after P m (\<lambda>_. P)"
  using assms unfolding after_def touches_def state_io_rel_def same_outside_def by metis

lemma after_if:
  "(c \<Longrightarrow> after P m Q) \<Longrightarrow> (\<not> c \<Longrightarrow> after P n Q) \<Longrightarrow> after P (if c then m else n) Q"
  by simp

lemma after_fail: "after P (ret False) (\<lambda>ok d. ok \<longrightarrow> R d)"
  by (simp add: after_def)

lemma after_cleanup: "after P (do { _ \<leftarrow> m; ret False }) (\<lambda>ok d. ok \<longrightarrow> R d)"
  by (simp add: after_def split: prod.splits)

lemma after_both: "after P m Q \<Longrightarrow> after P m R \<Longrightarrow> after P m (\<lambda>x d. Q x d \<and> R x d)"
  by (simp add: after_def)

lemma copyFile_copies:
  assumes "src \<noteq> dst"
  shows "after (\<lambda>d. file_at d src = Some (c, m)) (copyFile src dst mode)
    (\<lambda>ok d. ok \<longrightarrow> file_at d dst = Some (c, mode))"
  unfolding copyFile_def
proof (rule after_bind)
  show "after (\<lambda>d. file_at d src = Some (c, m)) (step (mkdir_all_act (butlast dst)))
      (\<lambda>_ d. file_at d src = Some (c, m))"
    by (rule after_step) (simp_all add: mkdir_files)
  fix made
  show "after (\<lambda>d. file_at d src = Some (c, m)) (do { d \<leftarrow> disk_now; (case (made, file_at d src) of
        (True, Some (c, _)) \<Rightarrow> do { created \<leftarrow> step (create_act dst mode);
          if created then do { copied \<leftarrow> step (write_act dst c);
            if copied then ret True else do { _ \<leftarrow> step (remove_act dst); ret False } } else ret False }
      | _ \<Rightarrow> ret False) }) (\<lambda>ok d. ok \<longrightarrow> file_at d dst = Some (c, mode))"
  proof (rule after_bind [OF after_now])
    fix d0
    let ?P = "\<lambda>d. d0 = d \<and> file_at d src = Some (c, m)"
    let ?Q = "\<lambda>ok d. ok \<longrightarrow> file_at d dst = Some (c, mode)"
    have copy: "after ?P (do { created \<leftarrow> step (create_act dst mode);
          if created then do { copied \<leftarrow> step (write_act dst c);
            if copied then ret True else do { _ \<leftarrow> step (remove_act dst); ret False } } else ret False }) ?Q"
    proof (rule after_bind [where R = "\<lambda>ok d. ok \<longrightarrow> file_at d dst = Some (Torn, mode)"], goal_cases)
      case 1 show ?case by (rule after_step) (auto dest: create_files)
    next
      case (2 created)
      show ?case
      proof (rule after_if, goal_cases)
        case 1
        show ?case
        proof (rule after_bind [where R = ?Q])
          show "after (\<lambda>d. created \<longrightarrow> file_at d dst = Some (Torn, mode)) (step (write_act dst c)) ?Q"
            by (rule after_step) (use 1 in \<open>auto dest!: write_files\<close>)
        qed (auto intro: after_if after_cleanup after_ret)
      qed (rule after_fail)
    qed
    show "after ?P (case (made, file_at d0 src) of
        (True, Some (c, _)) \<Rightarrow> do { created \<leftarrow> step (create_act dst mode);
          if created then do { copied \<leftarrow> step (write_act dst c);
            if copied then ret True else do { _ \<leftarrow> step (remove_act dst); ret False } } else ret False }
      | _ \<Rightarrow> ret False) ?Q"
    proof (cases "made \<and> file_at d0 src = Some (c, m)")
      case True
      with copy show ?thesis by simp
    next
      case False
      then show ?thesis by (auto simp: after_def split: bool.splits option.splits)
    qed
  qed
qed

lemma with_suffix_neq: "s \<noteq> [] \<Longrightarrow> with_suffix p s \<noteq> p" "s \<noteq> [] \<Longrightarrow> p \<noteq> with_suffix p s"
  by (cases p rule: rev_cases; auto simp: with_suffix_def)+

lemma with_suffix_inj: "with_suffix p s = with_suffix p t \<longleftrightarrow> s = t"
  by (simp add: with_suffix_def)

lemma replaceFile_installs:
  assumes "src \<noteq> target" and "src \<noteq> with_suffix target ''.update-tmp''"
  shows "after (\<lambda>d. file_at d src = Some (c, m)) (replaceFile hash src target mode integrity)
    (\<lambda>ok d. ok \<longrightarrow> file_at d target = Some (c, mode)
       \<and> (\<forall>mf. integrity = Some mf \<longrightarrow> snd (hash c) = mf_SizeBytes mf \<and> equal_fold_ascii (mf_SHA256 mf) (fst (hash c))))"
    (is "after ?P _ ?Q")
proof -
  let ?tmp = "with_suffix target ''.update-tmp''"
  let ?fits = "\<forall>mf. integrity = Some mf \<longrightarrow> snd (hash c) = mf_SizeBytes mf \<and> equal_fold_ascii (mf_SHA256 mf) (fst (hash c))"
  let ?T = "\<lambda>d. file_at d ?tmp = Some (c, mode)"
  have tmp: "?tmp \<noteq> target" by (simp add: with_suffix_neq)
  have install: "after ?T (do { removed \<leftarrow> step (remove_act target);
         if \<not> removed then do { _ \<leftarrow> step (remove_act ?tmp); ret False }
         else do { renamed \<leftarrow> step (rename_act ?tmp target);
           if renamed then ret True else do { _ \<leftarrow> step (remove_act ?tmp); ret False } } })
      (\<lambda>ok d. ok \<longrightarrow> file_at d target = Some (c, mode))"
  proof (rule after_bind [where R = "\<lambda>_. ?T"])
    show "after ?T (step (remove_act target)) (\<lambda>_. ?T)"
      by (rule after_step) (use tmp in \<open>auto dest!: remove_files\<close>)
    fix removed
    have "after ?T (step (rename_act ?tmp target)) (\<lambda>ok d. ok \<longrightarrow> file_at d target = Some (c, mode))"
      by (rule after_step) (use tmp in \<open>auto dest!: rename_files\<close>)
    then show "after ?T (if \<not> removed then do { _ \<leftarrow> step (remove_act ?tmp); ret False }
         else do { renamed \<leftarrow> step (rename_act ?tmp target);
           if renamed then ret True else do { _ \<leftarrow> step (remove_act ?tmp); ret False } })
      (\<lambda>ok d. ok \<longrightarrow> file_at d target = Some (c, mode))"
      by (intro after_if after_cleanup) (erule after_bind, auto intro: after_if after_cleanup after_ret)
  qed
  have check: "after (\<lambda>d. copied \<longrightarrow> ?T d) (do { d \<leftarrow> disk_now;
       if \<not> copied then ret False
       else if (case integrity of Some mf \<Rightarrow> \<not> verifyFileIntegrity hash d ?tmp mf | None \<Rightarrow> False)
         then do { _ \<leftarrow> step (remove_act ?tmp); ret False }
       else do { removed \<leftarrow> step (remove_act target);
         if \<not> removed then do { _ \<leftarrow> step (remove_act ?tmp); ret False }
         else do { renamed \<leftarrow> step (rename_act ?tmp target);
           if renamed then ret True else do { _ \<leftarrow> step (remove_act ?tmp); ret False } } } }) ?Q" for copied
  proof (rule after_bind [OF after_now], intro after_if after_fail after_cleanup)
    fix d
    assume "\<not> \<not> copied" and ok: "\<not> (case integrity of Some mf \<Rightarrow> \<not> verifyFileIntegrity hash d ?tmp mf | None \<Rightarrow> False)"
    then have "after (\<lambda>d'. d = d' \<and> (copied \<longrightarrow> ?T d')) (do { removed \<leftarrow> step (remove_act target);
         if \<not> removed then do { _ \<leftarrow> step (remove_act ?tmp); ret False }
         else do { renamed \<leftarrow> step (rename_act ?tmp target);
           if renamed then ret True else do { _ \<leftarrow> step (remove_act ?tmp); ret False } } })
      (\<lambda>okay d'. okay \<longrightarrow> file_at d' target = Some (c, mode) \<and> (?T d \<longrightarrow> ?fits))"
      by (intro after_weaken [OF install]) (auto simp: verifyFileIntegrity_def split: option.splits)
    then show "after (\<lambda>d'. d = d' \<and> (copied \<longrightarrow> ?T d')) (do { removed \<leftarrow> step (remove_act target);
         if \<not> removed then do { _ \<leftarrow> step (remove_act ?tmp); ret False }
         else do { renamed \<leftarrow> step (rename_act ?tmp target);
           if renamed then ret True else do { _ \<leftarrow> step (remove_act ?tmp); ret False } } }) ?Q"
      using \<open>\<not> \<not> copied\<close> unfolding after_def by blast
  qed
  show ?thesis
    unfolding replaceFile_def Let_def
  proof (rule after_bind [where R = "\<lambda>_. ?P"], goal_cases)
    case 1 show ?case by (rule after_step) (simp_all add: mkdir_files)
  next
    case (2 made)
    show ?case
      by (intro after_if after_fail)
        (rule after_bind [where R = "\<lambda>_. ?P", OF after_step], use assms in \<open>auto dest!: remove_files\<close>,
         rule after_bind [OF copyFile_copies check], use assms in auto)
  qed
qed

subsection \<open>Documents that are replaced as a whole\<close>

text \<open>
  What a reader finds who falls back to the previous version (\<open>readState\<close>). A failed or interrupted
  \<open>writeJSONAtomic\<close> leaves the old document or the new one; if the document was missing already
  (so that the previous version was the only copy), it may be lost.
\<close>

definition latest :: "disk_path \<Rightarrow> disk \<Rightarrow> content option" where
  "latest p d = (case file_at d p of
     Some (c, _) \<Rightarrow> Some c
   | None \<Rightarrow> map_option fst (file_at d (with_suffix p ''.previous'')))"

definition versions_in :: "content set \<Rightarrow> disk_path \<Rightarrow> disk \<Rightarrow> bool" where
  "versions_in C p d \<longleftrightarrow> (\<forall>c m. file_at d p = Some (c, m) \<or> file_at d (with_suffix p ''.previous'') = Some (c, m) \<longrightarrow> c \<in> C)"

lemma writeJSON_replaces:
  assumes "value \<in> C"
  shows "after (\<lambda>d. versions_in C p d \<and> latest p d = old \<and> (present \<longrightarrow> file_at d p \<noteq> None)) (writeJSONAtomic p value)
    (\<lambda>ok d. versions_in C p d \<and>
       (if ok then \<exists>m. file_at d p = Some (value, m) else latest p d = old \<or> \<not> present \<and> latest p d = None))"
    (is "after ?J _ ?Q")
proof -
  let ?tmp = "with_suffix p ''.tmp''" and ?prev = "with_suffix p ''.previous''"
  let ?W = "\<lambda>d. \<exists>m. file_at d ?tmp = Some (value, m)"
  let ?L = "\<lambda>d. versions_in C p d \<and> (latest p d = old \<or> \<not> present \<and> latest p d = None)"
  let ?K = "\<lambda>d. ?L d \<and> (present \<longrightarrow> file_at d p \<noteq> None)"
  let ?M = "\<lambda>d. ?L d \<and> file_at d p = None \<and> ?W d"
  let ?N = "\<lambda>d. versions_in C p d \<and> (\<exists>m. file_at d p = Some (value, m))"
  note sep = with_suffix_neq with_suffix_inj
  note defs = latest_def versions_in_def
  have cleanup: "after ?L (do { _ \<leftarrow> step (remove_act ?tmp); ret False }) ?Q"
    by (rule after_bind [where R = "\<lambda>_. ?L", OF after_step after_ret])
      (auto dest!: remove_files simp: defs sep split: option.splits)
  have undo: "after ?M (do { _ \<leftarrow> step (rename_act ?prev p); _ \<leftarrow> step (remove_act ?tmp); ret False }) ?Q"
    by (rule after_bind [where R = "\<lambda>_. ?L", OF after_step cleanup])
      (auto dest!: rename_files simp: defs sep split: option.splits)
  have finished: "after ?N (do { _ \<leftarrow> step (remove_act ?prev); ret True }) ?Q"
    by (rule after_bind [where R = "\<lambda>_. ?N", OF after_step after_ret])
      (auto dest!: remove_files simp: defs sep split: option.splits)
  have install: "after ?M (do { renamed \<leftarrow> step (rename_act ?tmp p);
         if \<not> renamed then do { _ \<leftarrow> step (rename_act ?prev p); _ \<leftarrow> step (remove_act ?tmp); ret False }
         else do { _ \<leftarrow> step (remove_act ?prev); ret True } }) ?Q"
  proof (rule after_bind [where R = "\<lambda>ok d. if ok then ?N d else ?M d"], goal_cases)
    case 1
    show ?case by (rule after_step) (use assms in \<open>auto dest!: rename_files simp: versions_in_def sep\<close>)
  next
    case (2 renamed)
    then show ?case using undo finished by (cases renamed) simp_all
  qed
  have keep: "after (\<lambda>d. ?K d \<and> ?W d)
      (step (\<lambda>d. if map_of d p = None then Some d else rename_act p ?prev d)) (\<lambda>ok d. if ok then ?M d else ?L d)"
  proof (rule after_step)
    fix d d' assume d: "?K d \<and> ?W d" and upd: "(if map_of d p = None then Some d else rename_act p ?prev d) = Some d'"
    from upd consider "map_of d p = None" "d' = d" | "rename_act p ?prev d = Some d'" by (metis option.inject)
    then show "if True then ?M d' else ?L d'"
    proof cases
      case 1
      then have "file_at d p = None" by (simp add: file_at_def)
      with d 1 show ?thesis by auto
    next
      case 2
      then obtain c m where "file_at d p = Some (c, m)" "file_at d' = (file_at d)(p := None, ?prev \<mapsto> (c, m))"
        by (metis rename_files surj_pair)
      with d show ?thesis by (simp add: defs sep)
    qed
  qed auto
  have swap: "after (\<lambda>d. ?K d \<and> ?W d)
      (do { kept \<leftarrow> step (\<lambda>d. if map_of d p = None then Some d else rename_act p ?prev d);
         if \<not> kept then do { _ \<leftarrow> step (remove_act ?tmp); ret False }
         else do { renamed \<leftarrow> step (rename_act ?tmp p);
           if \<not> renamed then do { _ \<leftarrow> step (rename_act ?prev p); _ \<leftarrow> step (remove_act ?tmp); ret False }
           else do { _ \<leftarrow> step (remove_act ?prev); ret True } } }) ?Q"
    by (rule after_bind [OF keep]) (use cleanup install in \<open>auto split: if_splits\<close>)
  have give_up: "after ?K (ret False) ?Q" by (rule after_ret) auto
  show ?thesis
    unfolding writeJSONAtomic_def Let_def
  proof (rule after_bind [where R = "\<lambda>_. ?K"], goal_cases)
    case 1 show ?case by (rule after_step) (auto dest!: mkdir_files simp: defs split: option.splits)
  next
    case (2 made)
    have "after ?K (do { _ \<leftarrow> step (remove_act ?tmp); opened \<leftarrow> step (truncate_act ?tmp 384);
       if \<not> opened then ret False
       else do { written \<leftarrow> step (write_act ?tmp value);
         if \<not> written then ret False
         else do { _ \<leftarrow> step (remove_act ?prev);
           kept \<leftarrow> step (\<lambda>d. if map_of d p = None then Some d else rename_act p ?prev d);
           if \<not> kept then do { _ \<leftarrow> step (remove_act ?tmp); ret False }
           else do { renamed \<leftarrow> step (rename_act ?tmp p);
             if \<not> renamed then do { _ \<leftarrow> step (rename_act ?prev p); _ \<leftarrow> step (remove_act ?tmp); ret False }
             else do { _ \<leftarrow> step (remove_act ?prev); ret True } } } } }) ?Q"
    proof (rule after_bind [where R = "\<lambda>_. ?K"], goal_cases)
      case 1 show ?case by (rule after_step) (auto dest!: remove_files simp: defs sep split: option.splits)
    next
      case 2
      show ?case
      proof (rule after_bind [where R = "\<lambda>_. ?K"], goal_cases)
        case 1 show ?case by (rule after_step) (auto dest!: truncate_files simp: defs sep split: option.splits)
      next
        case (2 opened)
        have "after ?K (step (write_act ?tmp value)) (\<lambda>ok d. ?K d \<and> (ok \<longrightarrow> ?W d))"
          by (rule after_step) (auto dest!: write_files simp: defs sep split: option.splits)
        then have "after ?K (do { written \<leftarrow> step (write_act ?tmp value);
           if \<not> written then ret False
           else do { _ \<leftarrow> step (remove_act ?prev);
             kept \<leftarrow> step (\<lambda>d. if map_of d p = None then Some d else rename_act p ?prev d);
             if \<not> kept then do { _ \<leftarrow> step (remove_act ?tmp); ret False }
             else do { renamed \<leftarrow> step (rename_act ?tmp p);
               if \<not> renamed then do { _ \<leftarrow> step (rename_act ?prev p); _ \<leftarrow> step (remove_act ?tmp); ret False }
               else do { _ \<leftarrow> step (remove_act ?prev); ret True } } } }) ?Q"
        proof (rule after_bind, intro after_if, goal_cases)
          case (1 written)
          then show ?case by (intro after_weaken [OF give_up]) auto
        next
          case (2 written)
          then show ?case
            by (intro after_bind [where R = "\<lambda>_ d. ?K d \<and> ?W d", OF after_step swap])
              (auto dest!: remove_files simp: defs sep split: option.splits)
        qed
        with give_up show ?case by (intro after_if) auto
      qed
    qed
    with give_up show ?case by (intro after_if) auto
  qed
qed

end
