(* ===== verification/Package_Update.thy ===== *)
theory Package_Update
  imports Update_Disk
begin

text \<open>
  The package updater, \<open>go-service/internal/packageupdate/update.go\<close>: reading its documents, checking
  a candidate package, and the operations \<open>ApplyPending\<close>, \<open>Commit\<close>, \<open>Rollback\<close> and \<open>Status\<close> as
  programs over the disk. An error is the code of the \<open>UpdateError\<close> (or a message, where the code has
  only that); \<open>now\<close> is the text of the current time, which is stored and never read.
\<close>

subsection \<open>Paths\<close>

text \<open>\<open>filepath.Join\<close> of an absolute path with a text, and \<open>inside\<close>.\<close>

fun clean_onto :: "disk_path \<Rightarrow> string list \<Rightarrow> disk_path" where
  "clean_onto p [] = p"
| "clean_onto p (x # xs) =
     (if x = [] \<or> x = ''.'' then clean_onto p xs
      else if x = ''..'' then clean_onto (butlast p) xs
      else clean_onto (p @ [x]) xs)"

definition join_path :: "disk_path \<Rightarrow> string \<Rightarrow> disk_path" where
  "join_path p rel = clean_onto p (split_slash rel)"

definition inside :: "disk_path \<Rightarrow> disk_path \<Rightarrow> bool" where
  "inside p root \<longleftrightarrow> is_prefix root p"

definition is_abs :: "string \<Rightarrow> bool" where
  "is_abs v \<longleftrightarrow> is_prefix ''/'' v"

definition updates_dir :: "disk_path \<Rightarrow> disk_path" where
  "updates_dir root = root @ [''.updates'']"

definition pending_path :: "disk_path \<Rightarrow> disk_path" where
  "pending_path root = updates_dir root @ [''pending-update.json'']"

definition state_path :: "disk_path \<Rightarrow> disk_path" where
  "state_path root = updates_dir root @ [''update-state.json'']"

definition ManifestName :: string where
  "ManifestName = ''PACKAGE_FILE_MANIFEST.json''"

definition PackageReleaseStatusName :: string where
  "PackageReleaseStatusName = ''PACKAGE_RELEASE_STATUS.json''"

subsection \<open>Reading documents\<close>

fun as_state :: "content \<Rightarrow> UpdateState option" where
  "as_state (State_doc s) = Some s"
| "as_state _ = None"

fun as_pending :: "content \<Rightarrow> Pending option" where
  "as_pending (Pending_doc p) = Some p"
| "as_pending _ = None"

fun as_manifest :: "content \<Rightarrow> packageManifest option" where
  "as_manifest (Manifest_doc m) = Some m"
| "as_manifest _ = None"

fun as_release :: "content \<Rightarrow> packageReleaseManifest option" where
  "as_release (Release_doc r) = Some r"
| "as_release _ = None"

text \<open>\<open>Inr None\<close> is a file that does not exist.\<close>

definition readJSON :: "(content \<Rightarrow> 'a option) \<Rightarrow> disk \<Rightarrow> disk_path \<Rightarrow> string + 'a option" where
  "readJSON decode d p =
     (case map_of d p of
        None \<Rightarrow> Inr None
      | Some (File c _) \<Rightarrow> (case decode c of Some x \<Rightarrow> Inr (Some x) | None \<Rightarrow> Inl ''invalid JSON'')
      | Some _ \<Rightarrow> Inl ''not a file'')"

definition readPending :: "disk \<Rightarrow> disk_path \<Rightarrow> string + Pending option" where
  "readPending d root = readJSON as_pending d (pending_path root)"

text \<open>The first problem of a journal, given the lower-cased paths already seen.\<close>

fun journal_problem :: "disk_path \<Rightarrow> string list \<Rightarrow> JournalEntry list \<Rightarrow> string option" where
  "journal_problem updates seen [] = None"
| "journal_problem updates seen (e # es) =
     (if validateManagedPath (je_Path e) \<noteq> None then Some ''journal path''
      else
        (let key = ascii_lower (je_Path e)
         in if List.member seen key then Some ''duplicate journal path''
            else if je_Existed e
              then (if je_BackupPath e = [] \<or> \<not> inside (join_path updates (je_BackupPath e)) (updates @ [''backups''])
                      then Some ''journal backup path escapes backups''
                    else journal_problem updates (key # seen) es)
            else if je_BackupPath e \<noteq> [] then Some ''new journal entry has backup path''
            else journal_problem updates (key # seen) es))"

definition validateState :: "disk_path \<Rightarrow> UpdateState \<Rightarrow> string option" where
  "validateState root s =
     (let updates = updates_dir root
      in if us_Status s \<notin> {''applying'', ''applied_pending_health'', ''committed'', ''rolled_back''}
           then Some ''unsupported state status''
         else if us_RunnerPath s \<noteq> [] \<and> (is_abs (us_RunnerPath s)
             \<or> \<not> inside (join_path root (us_RunnerPath s)) (updates @ [''runner'']))
           then Some ''runner_path escapes .updates/runner''
         else if us_BackupDir s \<noteq> [] \<and> (is_abs (us_BackupDir s)
             \<or> \<not> inside (join_path updates (us_BackupDir s)) (updates @ [''backups'']))
           then Some ''backup_dir escapes backups''
         else journal_problem updates [] (us_Journal s))"

definition read_latest :: "disk \<Rightarrow> disk_path \<Rightarrow> string + UpdateState option" where
  "read_latest d p =
     (case readJSON as_state d p of
        Inr (Some s) \<Rightarrow> Inr (Some s)
      | other \<Rightarrow>
          (case readJSON as_state d (with_suffix p ''.previous'') of
             Inr (Some s) \<Rightarrow> Inr (Some s)
           | _ \<Rightarrow> other))"

definition readState :: "disk \<Rightarrow> disk_path \<Rightarrow> string + UpdateState option" where
  "readState d root =
     (case read_latest d (state_path root) of
        Inr (Some s) \<Rightarrow>
          (if us_ContractVersion s \<noteq> ''archive-center.update-state.v1'' then Inl ''unsupported state contract''
           else case validateState root s of Some e \<Rightarrow> Inl e | None \<Rightarrow> Inr (Some s))
      | other \<Rightarrow> other)"

definition validatePending :: "Pending \<Rightarrow> string option" where
  "validatePending p =
     (if pu_ContractVersion p \<noteq> ''archive-center.pending-update.v1'' then Some ''unsupported contract''
      else if trim_space (pu_CurrentVersion p) = [] \<or> trim_space (pu_TargetVersion p) = []
        then Some ''current_version and target_version are required''
      else if trim_space (pu_AssetPath p) = [] then Some ''asset_path is required''
      else if list_ex (\<lambda>rel. validateManagedPath rel \<noteq> None) (pu_RequiredFiles p) then Some ''required file''
      else None)"

text \<open>A relative asset path is taken from the package root.\<close>

definition resolveAsset :: "disk \<Rightarrow> disk_path \<Rightarrow> string \<Rightarrow> string + disk_path" where
  "resolveAsset d root value =
     (let p = (if is_abs value then join_path [] value else join_path root value)
      in if \<not> inside p (updates_dir root) then Inl ''asset must be under .updates''
         else if file_at d p = None then Inl ''asset is not a regular file''
         else Inr p)"

subsection \<open>The archive\<close>

definition archiveLimit_files :: nat where
  "archiveLimit_files = 20000"

definition archiveLimit_bytes :: int where
  "archiveLimit_bytes = 4 * 1024 * 1024 * 1024"

fun check_entries :: "string list \<Rightarrow> int \<Rightarrow> zip_entry list \<Rightarrow> string option" where
  "check_entries seen used [] = None"
| "check_entries seen used (zf # rest) =
     (case validateZipName (ze_Name zf) of
        Inl e \<Rightarrow> Some e
      | Inr rel \<Rightarrow>
          (let key = ascii_lower rel
           in if List.member seen key then Some ''duplicate zip path''
              else if \<not> ze_IsDir zf \<and> \<not> ze_Regular zf then Some ''non-regular zip entry''
              else if ze_Size zf > archiveLimit_bytes \<or> used > archiveLimit_bytes - ze_Size zf
                then Some ''zip extracted size exceeds limit''
              else check_entries (key # seen) (used + ze_Size zf) rest))"

text \<open>False if the entry cannot be extracted.\<close>

definition extract_entry :: "(content \<Rightarrow> string \<times> int) \<Rightarrow> disk_path \<Rightarrow> zip_entry \<Rightarrow> (world, bool) state" where
  "extract_entry hash dir zf =
     (case validateZipName (ze_Name zf) of
        Inl _ \<Rightarrow> ret False
      | Inr rel \<Rightarrow>
          (let target = join_path dir rel
           in if \<not> inside target dir then ret False
              else if ze_IsDir zf then step (mkdir_all_act target)
              else do {
                made \<leftarrow> step (mkdir_all_act (butlast target));
                if \<not> made then ret False
                else do {
                  created \<leftarrow> step (create_act target (ze_Mode zf));
                  if \<not> created then ret False
                  else do {
                    copied \<leftarrow> step (write_act target (ze_Content zf));
                    ret (copied \<and> snd (hash (ze_Content zf)) = ze_Size zf)
                  }
                }
              }))"

primrec extract_entries :: "(content \<Rightarrow> string \<times> int) \<Rightarrow> disk_path \<Rightarrow> zip_entry list \<Rightarrow> (world, bool) state" where
  "extract_entries hash dir [] = ret True"
| "extract_entries hash dir (zf # rest) = do {
     ok \<leftarrow> extract_entry hash dir zf;
     if ok then extract_entries hash dir rest else ret False
   }"

text \<open>\<open>name\<close> is the name \<open>os.MkdirTemp\<close> makes up; making the directory fails if it exists.\<close>

definition make_dir_act :: "disk_path \<Rightarrow> disk \<Rightarrow> disk option" where
  "make_dir_act p d =
     (if map_of d p \<noteq> None \<or> \<not> is_dir d (butlast p) then None else Some (map_put p Directory d))"

definition extractVerifiedArchive ::
    "(content \<Rightarrow> string \<times> int) \<Rightarrow> disk_path \<Rightarrow> disk_path \<Rightarrow> string \<Rightarrow> (world, disk_path option) state" where
  "extractVerifiedArchive hash asset extractedRoot name = do {
     made \<leftarrow> step (mkdir_all_act extractedRoot);
     if \<not> made then ret None
     else do {
       let dir = extractedRoot @ [name];
       fresh \<leftarrow> step (make_dir_act dir);
       if \<not> fresh then ret None
       else do {
         d \<leftarrow> disk_now;
         extracted \<leftarrow> (case file_at d asset of
             Some (Archive es, _) \<Rightarrow>
               (if archiveLimit_files < length es \<or> check_entries [] 0 es \<noteq> None then ret False
                else extract_entries hash dir es)
           | _ \<Rightarrow> ret False);
         if extracted then ret (Some dir)
         else do { _ \<leftarrow> remove_all dir; ret None }
       }
     }
   }"

text \<open>The directory of the only package manifest under the extraction.\<close>

definition findPackageRoot :: "disk \<Rightarrow> disk_path \<Rightarrow> disk_path option" where
  "findPackageRoot d extracted =
     (case filter (\<lambda>p. is_prefix extracted p \<and> p \<noteq> [] \<and> last p = ManifestName \<and> \<not> is_dir d p) (map fst d) of
        [p] \<Rightarrow> Some (butlast p)
      | _ \<Rightarrow> None)"

subsection \<open>Checking a candidate\<close>

record installFile =
  if_Rel :: string
  if_Src :: disk_path
  if_Mode :: nat
  if_Remove :: bool
  if_Integrity :: "manifestFile option"

definition readPackageManifest :: "disk \<Rightarrow> disk_path \<Rightarrow> packageManifest option" where
  "readPackageManifest d p =
     (case readJSON as_manifest d p of
        Inr (Some m) \<Rightarrow>
          (if pm_SchemaVersion m \<noteq> ''archive-center.package-file-manifest.v1'' \<or> pm_Files m = [] then None
           else Some m)
      | _ \<Rightarrow> None)"

text \<open>The files of a package in the order of its manifest, and the lower-cased paths seen.\<close>

fun verify_files ::
    "(content \<Rightarrow> string \<times> int) \<Rightarrow> disk \<Rightarrow> disk_path \<Rightarrow> string list \<Rightarrow> manifestFile list \<Rightarrow>
     (installFile list \<times> string list) option" where
  "verify_files hash d root seen [] = Some ([], seen)"
| "verify_files hash d root seen (mf # rest) =
     (let rel = canonicalRelativePath (mf_Path mf); key = ascii_lower rel; path = join_path root rel
      in if validateManagedPath rel \<noteq> None \<or> List.member seen key then None
         else case file_at d path of
             None \<Rightarrow> None
           | Some (_, mode) \<Rightarrow>
               (if \<not> verifyFileIntegrity hash d path mf then None
                else case verify_files hash d root (key # seen) rest of
                    None \<Rightarrow> None
                  | Some (files, seen) \<Rightarrow>
                      Some (\<lparr>if_Rel = rel, if_Src = path, if_Mode = managedInstallMode rel mode,
                             if_Remove = False, if_Integrity = Some mf\<rparr> # files, seen)))"

definition verifyNewPackage ::
    "(content \<Rightarrow> string \<times> int) \<Rightarrow> disk \<Rightarrow> disk_path \<Rightarrow> packageManifest \<Rightarrow> string list \<Rightarrow> installFile list option" where
  "verifyNewPackage hash d root m required =
     (case verify_files hash d root [] (pm_Files m) of
        None \<Rightarrow> None
      | Some (files, seen) \<Rightarrow>
          (if list_all (\<lambda>req. List.member seen (ascii_lower (canonicalRelativePath req))) required
             then Some (sort_key if_Rel files) else None))"

fun target_ancestors_ok :: "disk \<Rightarrow> disk_path \<Rightarrow> string list \<Rightarrow> bool" where
  "target_ancestors_ok d current [] = True"
| "target_ancestors_ok d current (part # parts) =
     (let current = join_path current part
      in case map_of d current of
           None \<Rightarrow> True
         | Some Directory \<Rightarrow> target_ancestors_ok d current parts
         | Some _ \<Rightarrow> False)"

definition validateInstallTarget :: "disk \<Rightarrow> disk_path \<Rightarrow> string \<Rightarrow> bool" where
  "validateInstallTarget d root rel =
     target_ancestors_ok d root (butlast (split_slash (canonicalRelativePath rel)))"

text \<open>The managed files of the installed package by their lower-cased paths.\<close>

fun current_files ::
    "disk \<Rightarrow> disk_path \<Rightarrow> (string \<times> manifestFile) list \<Rightarrow> manifestFile list \<Rightarrow>
     (string \<times> manifestFile) list option" where
  "current_files d root seen [] = Some seen"
| "current_files d root seen (mf # rest) =
     (let rel = canonicalRelativePath (mf_Path mf); key = ascii_lower rel
      in if validateManagedPath rel \<noteq> None \<or> map_of seen key \<noteq> None \<or> \<not> validateInstallTarget d root rel
           then None
         else case map_of d (join_path root rel) of
             Some Directory \<Rightarrow> None
           | Some Link \<Rightarrow> None
           | _ \<Rightarrow> current_files d root (map_put key (mf\<lparr>mf_Path := rel\<rparr>) seen) rest)"

definition verifyCurrentPackage :: "disk \<Rightarrow> disk_path \<Rightarrow> ((string \<times> manifestFile) list \<times> string) option" where
  "verifyCurrentPackage d root =
     (case readPackageManifest d (root @ [ManifestName]) of
        None \<Rightarrow> None
      | Some m \<Rightarrow> map_option (\<lambda>seen. (seen, pm_PackageVersion m)) (current_files d root [] (pm_Files m)))"

definition managedFileRemovals ::
    "(string \<times> manifestFile) list \<Rightarrow> (string \<times> manifestFile) list \<Rightarrow> string list" where
  "managedFileRemovals current next =
     sort (map (\<lambda>kv. canonicalRelativePath (mf_Path (snd kv)))
       (filter (\<lambda>kv. map_of next (fst kv) = None) current))"

definition validatePackageReleaseReadiness ::
    "disk \<Rightarrow> disk_path \<Rightarrow> string \<Rightarrow> (string \<times> manifestFile) list \<Rightarrow> bool" where
  "validatePackageReleaseReadiness d packageRoot targetVersion managed =
     (if map_of managed (ascii_lower PackageReleaseStatusName) = None then False
      else case readJSON as_release d (packageRoot @ [PackageReleaseStatusName]) of
          Inr (Some release) \<Rightarrow> pr_ReleaseReady release
            \<and> pr_ContractVersion release = ''archive-center.package-release-status.v1''
            \<and> sameVersion (pr_TargetVersion release) targetVersion
            \<and> pr_AutomaticUpdateApply release \<noteq> Some False
        | _ \<Rightarrow> False)"

definition new_managed :: "packageManifest \<Rightarrow> (string \<times> manifestFile) list" where
  "new_managed m = fold (\<lambda>mf managed.
     (let rel = canonicalRelativePath (mf_Path mf) in map_put (ascii_lower rel) (mf\<lparr>mf_Path := rel\<rparr>) managed))
     (pm_Files m) []"

definition validateExtractedCandidate ::
    "(content \<Rightarrow> string \<times> int) \<Rightarrow> disk \<Rightarrow> disk_path \<Rightarrow> disk_path \<Rightarrow> string \<Rightarrow> string \<Rightarrow> string list \<Rightarrow> bool \<Rightarrow>
     string + installFile list \<times> string list" where
  "validateExtractedCandidate hash d root packageRoot currentVersion targetVersion requiredFiles requireDirect =
     (case readPackageManifest d (packageRoot @ [ManifestName]) of
        None \<Rightarrow> Inl ''package_manifest_invalid''
      | Some m \<Rightarrow>
          (if \<not> sameVersion (pm_PackageVersion m) targetVersion then Inl ''package_manifest_invalid''
           else case verifyNewPackage hash d packageRoot m requiredFiles of
               None \<Rightarrow> Inl ''package_verification_failed''
             | Some files \<Rightarrow>
                 (case verifyCurrentPackage d root of
                    None \<Rightarrow> Inl ''managed_target_modified''
                  | Some (currentManaged, currentPackageVersion) \<Rightarrow>
                      (if \<not> sameVersion currentPackageVersion currentVersion then Inl ''managed_target_modified''
                       else if requireDirect \<and> comparePackageVersions currentVersion ''3.9.9'' < 0
                         then Inl ''source_version_unsupported''
                       else if requireDirect \<and> comparePackageVersions targetVersion currentVersion \<le> 0
                         then Inl ''target_version_not_newer''
                       else
                         (let managed = new_managed m
                          in if requireDirect \<and> \<not> validatePackageReleaseReadiness d packageRoot targetVersion managed
                               then Inl ''package_release_unverified''
                             else if \<not> list_all (\<lambda>f. validateInstallTarget d root (if_Rel f)) files
                               then Inl ''managed_target_unsafe''
                             else Inr (files, managedFileRemovals currentManaged managed))))))"

end
