(* ===== verification/Update_Transaction.thy ===== *)
theory Update_Transaction
  imports Package_Update
begin

text \<open>
  The operations of the package updater (\<open>ApplyPending\<close>, \<open>Commit\<close>, \<open>Rollback\<close>, \<open>Status\<close> of
  \<open>go-service/internal/packageupdate/update.go\<close>) as programs over the disk, and why an interrupted
  update can be undone.
\<close>

subsection \<open>Results\<close>

record UpdateResult =
  ur_Action :: string
  ur_Status :: string
  ur_CurrentVersion :: string
  ur_TargetVersion :: string
  ur_HealthRequired :: bool
  ur_Message :: string

type_synonym outcome = "string + UpdateResult"

definition result :: "string \<Rightarrow> string \<Rightarrow> string \<Rightarrow> string \<Rightarrow> bool \<Rightarrow> string \<Rightarrow> UpdateResult" where
  "result action status current target health message =
     \<lparr>ur_Action = action, ur_Status = status, ur_CurrentVersion = current, ur_TargetVersion = target,
      ur_HealthRequired = health, ur_Message = message\<rparr>"

subsection \<open>Undoing\<close>

text \<open>One entry of the journal; \<open>False\<close> is an error.\<close>

definition restore_entry ::
    "(content \<Rightarrow> string \<times> int) \<Rightarrow> disk_path \<Rightarrow> JournalEntry \<Rightarrow> (world, bool) state" where
  "restore_entry hash root e =
     (if validateManagedPath (je_Path e) \<noteq> None then ret False
      else
        (let target = join_path root (je_Path e)
         in if je_Existed e then do {
              let backup = join_path (updates_dir root) (je_BackupPath e);
              d \<leftarrow> disk_now;
              (case file_at d backup of
                 None \<Rightarrow> ret False
               | Some (_, mode) \<Rightarrow> replaceFile hash backup target mode None)
            }
            else step (remove_act target)))"

primrec restore_entries ::
    "(content \<Rightarrow> string \<times> int) \<Rightarrow> disk_path \<Rightarrow> JournalEntry list \<Rightarrow> (world, bool) state" where
  "restore_entries hash root [] = ret True"
| "restore_entries hash root (e # es) = do {
     ok \<leftarrow> restore_entry hash root e;
     if ok then restore_entries hash root es else ret False
   }"

text \<open>\<open>s\<close> is the state that has just been marked as rolled back.\<close>

definition rollback_cleanup :: "disk_path \<Rightarrow> UpdateState \<Rightarrow> bool \<Rightarrow> (world, outcome) state" where
  "rollback_cleanup root s clearPending = do {
     _ \<leftarrow> (if clearPending then step (remove_act (pending_path root)) else ret True);
     _ \<leftarrow> (if us_BackupDir s \<noteq> [] then remove_all (join_path (updates_dir root) (us_BackupDir s)) else ret True);
     cleared \<leftarrow> writeJSONAtomic (state_path root) (State_doc (s\<lparr>us_BackupDir := [], us_Journal := []\<rparr>));
     ret (if cleared
          then Inr (result ''rollback'' ''rolled_back'' (us_CurrentVersion s) [] False ''update rolled back'')
          else Inl ''state write failed'')
   }"

definition mark_rolled_back :: "string \<Rightarrow> UpdateState \<Rightarrow> UpdateState" where
  "mark_rolled_back now s = s\<lparr>us_Status := ''rolled_back'', us_TargetVersion := [], us_UpdatedAt := now\<rparr>"

definition rollback_update ::
    "(content \<Rightarrow> string \<times> int) \<Rightarrow> string \<Rightarrow> disk_path \<Rightarrow> UpdateState \<Rightarrow> bool \<Rightarrow> (world, outcome) state" where
  "rollback_update hash now root s clearPending = do {
     restored \<leftarrow> restore_entries hash root (rev (us_Journal s));
     if \<not> restored then ret (Inl ''restore failed'')
     else do {
       marked \<leftarrow> writeJSONAtomic (state_path root) (State_doc (mark_rolled_back now s));
       if \<not> marked then ret (Inl ''state write failed'')
       else rollback_cleanup root (mark_rolled_back now s) clearPending
     }
   }"

subsection \<open>Installing\<close>

text \<open>The journal entries of the files, with a backup of each file that exists.\<close>

definition backup_entry :: "string \<Rightarrow> installFile \<Rightarrow> bool \<Rightarrow> JournalEntry" where
  "backup_entry backupDir f existed = \<lparr>je_Path = if_Rel f, je_Existed = existed,
     je_BackupPath = (if existed then backupDir @ ''/'' @ if_Rel f else [])\<rparr>"

definition backup_file ::
    "disk_path \<Rightarrow> string \<Rightarrow> installFile \<Rightarrow> (world, string + JournalEntry) state" where
  "backup_file root backupDir f = do {
     d \<leftarrow> disk_now;
     let target = join_path root (if_Rel f);
     (case map_of d target of
        None \<Rightarrow> ret (if below_file d target then Inl ''backup_failed'' else Inr (backup_entry backupDir f False))
      | Some (File _ mode) \<Rightarrow> do {
          let entry = backup_entry backupDir f True;
          copied \<leftarrow> copyFile target (join_path (updates_dir root) (je_BackupPath entry)) mode;
          ret (if copied then Inr entry else Inl ''backup_failed'')
        }
      | Some _ \<Rightarrow> ret (Inl ''target_not_regular''))
   }"

primrec backup_files ::
    "disk_path \<Rightarrow> string \<Rightarrow> installFile list \<Rightarrow> (world, string + JournalEntry list) state" where
  "backup_files root backupDir [] = ret (Inr [])"
| "backup_files root backupDir (f # fs) = do {
     this \<leftarrow> backup_file root backupDir f;
     (case this of
        Inl e \<Rightarrow> ret (Inl e)
      | Inr entry \<Rightarrow> do {
          others \<leftarrow> backup_files root backupDir fs;
          ret (case others of Inl e \<Rightarrow> Inl e | Inr entries \<Rightarrow> Inr (entry # entries))
        })
   }"

definition install_file ::
    "(content \<Rightarrow> string \<times> int) \<Rightarrow> disk_path \<Rightarrow> installFile \<Rightarrow> (world, bool) state" where
  "install_file hash root f =
     (let target = join_path root (if_Rel f)
      in if if_Remove f then step (remove_act target)
         else replaceFile hash (if_Src f) target (if_Mode f) (if_Integrity f))"

primrec install_files ::
    "(content \<Rightarrow> string \<times> int) \<Rightarrow> disk_path \<Rightarrow> installFile list \<Rightarrow> (world, bool) state" where
  "install_files hash root [] = ret True"
| "install_files hash root (f # fs) = do {
     ok \<leftarrow> install_file hash root f;
     if ok then install_files hash root fs else ret False
   }"

text \<open>The transaction: backups, journal, files, state. \<open>s\<close> is the state with an empty journal.\<close>

definition transact ::
    "(content \<Rightarrow> string \<times> int) \<Rightarrow> string \<Rightarrow> disk_path \<Rightarrow> UpdateState \<Rightarrow> installFile list \<Rightarrow> (world, outcome) state" where
  "transact hash now root s files = do {
     let backupAbs = join_path (updates_dir root) (us_BackupDir s);
     made \<leftarrow> step (mkdir_all_act backupAbs);
     if \<not> made then ret (Inl ''backup_failed'')
     else do {
       journal \<leftarrow> backup_files root (us_BackupDir s) files;
       (case journal of
          Inl e \<Rightarrow> do { _ \<leftarrow> remove_all backupAbs; ret (Inl e) }
        | Inr entries \<Rightarrow> do {
            let s = s\<lparr>us_Journal := entries\<rparr>;
            written \<leftarrow> writeJSONAtomic (state_path root) (State_doc s);
            if \<not> written then do { _ \<leftarrow> remove_all backupAbs; ret (Inl ''journal_write_failed'') }
            else do {
              installed \<leftarrow> install_files hash root files;
              if \<not> installed then do {
                undone \<leftarrow> rollback_update hash now root s False;
                ret (case undone of Inl _ \<Rightarrow> Inl ''apply_and_rollback_failed'' | Inr _ \<Rightarrow> Inl ''apply_failed'')
              } else do {
                let s = s\<lparr>us_Status := ''applied_pending_health'', us_UpdatedAt := now\<rparr>;
                marked \<leftarrow> writeJSONAtomic (state_path root) (State_doc s);
                if \<not> marked then do {
                  undone \<leftarrow> rollback_update hash now root s False;
                  ret (case undone of Inl _ \<Rightarrow> Inl ''apply_and_rollback_failed'' | Inr _ \<Rightarrow> Inl ''state_write_failed'')
                } else ret (Inr (result ''apply-pending'' ''applied_pending_health'' (us_CurrentVersion s)
                    (us_TargetVersion s) True ''update applied; health commit required''))
              }
            }
          })
     }
   }"

text \<open>
  The part of \<open>applyPending\<close> after the pending update is accepted. \<open>runner\<close> is the path of the
  running updater and \<open>cwd\<close> the working directory, \<open>name\<close> the name of the extraction directory,
  \<open>stamp\<close> the time in the name of the backup directory.
\<close>

definition new_state :: "string \<Rightarrow> string \<Rightarrow> string \<Rightarrow> Pending \<Rightarrow> UpdateState" where
  "new_state now stamp runnerPath p =
     \<lparr>us_ContractVersion = ''archive-center.update-state.v1'', us_Status = ''applying'',
      us_CurrentVersion = pu_CurrentVersion p, us_TargetVersion = pu_TargetVersion p, us_RunnerPath = runnerPath,
      us_BackupDir = ''backups/'' @ safeSegment (pu_TargetVersion p) @ ''-'' @ stamp,
      us_Journal = [], us_UpdatedAt = now\<rparr>"

definition install_list :: "disk_path \<Rightarrow> installFile list \<Rightarrow> string list \<Rightarrow> installFile list" where
  "install_list packageRoot files removed =
     files @ \<lparr>if_Rel = ManifestName, if_Src = packageRoot @ [ManifestName], if_Mode = 420, if_Remove = False,
              if_Integrity = None\<rparr>
       # map (\<lambda>rel. \<lparr>if_Rel = rel, if_Src = [], if_Mode = 0, if_Remove = True, if_Integrity = None\<rparr>) removed"

definition install_candidate ::
    "(content \<Rightarrow> string \<times> int) \<Rightarrow> string \<Rightarrow> string \<Rightarrow> string \<Rightarrow> disk_path \<Rightarrow> disk_path \<Rightarrow> Pending \<Rightarrow>
     (world, outcome) state" where
  "install_candidate hash now stamp runnerPath root extracted p = do {
     d \<leftarrow> disk_now;
     (case findPackageRoot d extracted of
        None \<Rightarrow> ret (Inl ''package_root_invalid'')
      | Some packageRoot \<Rightarrow>
          (case validateExtractedCandidate hash d root packageRoot (pu_CurrentVersion p) (pu_TargetVersion p)
                  (pu_RequiredFiles p) (comparePackageVersions (pu_CurrentVersion p) ''3.9.9'' \<ge> 0) of
             Inl e \<Rightarrow> ret (Inl e)
           | Inr (files, removed) \<Rightarrow>
               (if \<not> list_all (validateInstallTarget d root) removed then ret (Inl ''managed_target_unsafe'')
                else transact hash now root (new_state now stamp runnerPath p) (install_list packageRoot files removed))))
   }"

definition resolveRunnerIdentity :: "disk \<Rightarrow> disk_path \<Rightarrow> disk_path \<Rightarrow> string \<Rightarrow> string + string" where
  "resolveRunnerIdentity d root cwd runner =
     (if trim_space runner = [] then Inr []
      else
        (let p = (if is_abs runner then join_path [] runner else join_path cwd runner)
         in if \<not> inside p (updates_dir root @ [''runner'']) then Inl ''runner must be preserved under .updates/runner''
            else if file_at d p = None then Inl ''runner is not a regular file''
            else Inr (join_slash (drop (length root) p))))"

definition begin_update ::
    "(content \<Rightarrow> string \<times> int) \<Rightarrow> string \<Rightarrow> string \<Rightarrow> disk_path \<Rightarrow> string \<Rightarrow> string \<Rightarrow> disk_path \<Rightarrow> Pending \<Rightarrow>
     (world, outcome) state" where
  "begin_update hash now stamp cwd runner name root p =
     (if validatePending p \<noteq> None then ret (Inl ''pending_invalid'')
      else do {
        d \<leftarrow> disk_now;
        (case resolveRunnerIdentity d root cwd runner of
           Inl _ \<Rightarrow> ret (Inl ''runner_identity_invalid'')
         | Inr runnerPath \<Rightarrow>
            (case resolveAsset d root (pu_AssetPath p) of
               Inl _ \<Rightarrow> ret (Inl ''asset_path_invalid'')
             | Inr asset \<Rightarrow> do {
                 dir \<leftarrow> extractVerifiedArchive hash asset (updates_dir root @ [''extracted'']) name;
                 (case dir of
                    None \<Rightarrow> ret (Inl ''archive_rejected'')
                  | Some extracted \<Rightarrow> do {
                      answer \<leftarrow> install_candidate hash now stamp runnerPath root extracted p;
                      _ \<leftarrow> remove_all extracted;
                      ret answer
                    })
               }))
      })"

subsection \<open>The exported operations\<close>

definition commit_cleanup :: "string \<Rightarrow> disk_path \<Rightarrow> UpdateState \<Rightarrow> (world, outcome) state" where
  "commit_cleanup now root s = do {
     d \<leftarrow> disk_now;
     (case readPending d root of
        Inl _ \<Rightarrow> ret (Inl ''commit_cleanup_failed'')
      | Inr pending \<Rightarrow> do {
          removed \<leftarrow> (case pending of
              Some p \<Rightarrow> (if equal_fold_ascii (trim_space (pu_TargetVersion p)) (trim_space (us_TargetVersion s))
                          then step (remove_act (pending_path root)) else ret True)
            | None \<Rightarrow> ret True);
          if \<not> removed then ret (Inl ''commit_cleanup_failed'')
          else do {
            dropped \<leftarrow> (if us_BackupDir s \<noteq> [] then remove_all (join_path (updates_dir root) (us_BackupDir s))
                        else ret True);
            if \<not> dropped then ret (Inl ''commit_cleanup_failed'')
            else do {
              cleared \<leftarrow> writeJSONAtomic (state_path root)
                (State_doc (s\<lparr>us_BackupDir := [], us_Journal := [], us_UpdatedAt := now\<rparr>));
              ret (if cleared then Inr (result ''commit'' ''committed'' (us_CurrentVersion s) (us_TargetVersion s) False
                                          ''update committed'')
                   else Inl ''state_write_failed'')
            }
          }
        })
   }"

definition Commit :: "string \<Rightarrow> disk_path \<Rightarrow> (world, outcome) state" where
  "Commit now root = do {
     d \<leftarrow> disk_now;
     if \<not> is_dir d root then ret (Inl ''invalid_root'')
     else (case readState d root of
        Inl _ \<Rightarrow> ret (Inl ''state_invalid'')
      | Inr None \<Rightarrow> ret (Inl ''commit_not_ready'')
      | Inr (Some s) \<Rightarrow>
          (if us_Status s = ''applied_pending_health'' then do {
             let s = s\<lparr>us_Status := ''committed'', us_CurrentVersion := us_TargetVersion s, us_UpdatedAt := now\<rparr>;
             written \<leftarrow> writeJSONAtomic (state_path root) (State_doc s);
             if \<not> written then ret (Inl ''state_write_failed'') else commit_cleanup now root s
           }
           else if us_Status s = ''committed'' then commit_cleanup now root s
           else ret (Inl ''commit_not_ready'')))
   }"

definition Rollback :: "(content \<Rightarrow> string \<times> int) \<Rightarrow> string \<Rightarrow> disk_path \<Rightarrow> (world, outcome) state" where
  "Rollback hash now root = do {
     d \<leftarrow> disk_now;
     if \<not> is_dir d root then ret (Inl ''invalid_root'')
     else (case readState d root of
        Inl _ \<Rightarrow> ret (Inl ''state_invalid'')
      | Inr (Some s) \<Rightarrow>
          (if us_Status s = ''applying'' \<or> us_Status s = ''applied_pending_health''
             then rollback_update hash now root s True
           else ret (Inr (result ''rollback'' ''nothing_to_rollback'' [] [] False ''no active update journal'')))
      | Inr None \<Rightarrow> ret (Inr (result ''rollback'' ''nothing_to_rollback'' [] [] False ''no active update journal'')))
   }"

definition update_Status :: "disk_path \<Rightarrow> (world, outcome) state" where
  "update_Status root = do {
     d \<leftarrow> disk_now;
     ret (if \<not> is_dir d root then Inl ''invalid_root''
          else case readState d root of
             Inl _ \<Rightarrow> Inl ''state_invalid''
           | Inr None \<Rightarrow> Inr (result ''status'' ''no_state'' [] [] False ''no update state'')
           | Inr (Some s) \<Rightarrow> Inr (result ''status'' (us_Status s) (us_CurrentVersion s) (us_TargetVersion s)
               (us_Status s = ''applied_pending_health'') []))
   }"

definition pending_health :: "disk \<Rightarrow> disk_path \<Rightarrow> UpdateState \<Rightarrow> outcome" where
  "pending_health d root s =
     (case readPending d root of
        Inr (Some p) \<Rightarrow>
          (if validatePending p \<noteq> None \<or> \<not> sameVersion (pu_CurrentVersion p) (us_CurrentVersion s)
              \<or> \<not> sameVersion (pu_TargetVersion p) (us_TargetVersion s)
           then Inl ''pending_health_state_invalid''
           else Inr (result ''apply-pending'' ''applied_pending_health'' (us_CurrentVersion s) (us_TargetVersion s) True
                  ''update already applied; health commit required''))
      | _ \<Rightarrow> Inl ''pending_health_state_invalid'')"

definition finish_commit :: "string \<Rightarrow> disk_path \<Rightarrow> UpdateState \<Rightarrow> (world, outcome) state" where
  "finish_commit now root s = do {
     committed \<leftarrow> Commit now root;
     ret (case committed of
        Inl e \<Rightarrow> Inl e
      | Inr _ \<Rightarrow> Inr (result ''apply-pending'' ''no_pending'' (us_CurrentVersion s) (us_TargetVersion s) False
          ''committed update cleanup complete''))
   }"

definition continue_update ::
    "(content \<Rightarrow> string \<times> int) \<Rightarrow> string \<Rightarrow> string \<Rightarrow> disk_path \<Rightarrow> string \<Rightarrow> string \<Rightarrow> disk_path \<Rightarrow> UpdateState option \<Rightarrow>
     (world, outcome) state" where
  "continue_update hash now stamp cwd runner name root state = do {
     d \<leftarrow> disk_now;
     (case readPending d root of
        Inl _ \<Rightarrow> ret (Inl ''pending_invalid'')
      | Inr pending \<Rightarrow>
          (case (state, pending) of
             (Some s, Some p) \<Rightarrow>
               (if us_Status s \<noteq> ''committed'' then begin_update hash now stamp cwd runner name root p
                else if validatePending p \<noteq> None then ret (Inl ''pending_invalid'')
                else if equal_fold_ascii (trim_space (pu_TargetVersion p)) (trim_space (us_TargetVersion s))
                  then finish_commit now root s
                else if \<not> sameVersion (pu_CurrentVersion p) (us_CurrentVersion s) then ret (Inl ''pending_invalid'')
                else begin_update hash now stamp cwd runner name root p)
           | (Some s, None) \<Rightarrow>
               (if us_Status s = ''committed'' then finish_commit now root s
                else ret (Inr (result ''apply-pending'' ''no_pending'' [] [] False ''no pending update'')))
           | (None, Some p) \<Rightarrow> begin_update hash now stamp cwd runner name root p
           | (None, None) \<Rightarrow> ret (Inr (result ''apply-pending'' ''no_pending'' [] [] False ''no pending update''))))
   }"

definition applyPending ::
    "(content \<Rightarrow> string \<times> int) \<Rightarrow> string \<Rightarrow> string \<Rightarrow> disk_path \<Rightarrow> string \<Rightarrow> string \<Rightarrow> disk_path \<Rightarrow> (world, outcome) state" where
  "applyPending hash now stamp cwd runner name root = do {
     d \<leftarrow> disk_now;
     if \<not> is_dir d root then ret (Inl ''invalid_root'')
     else (case readState d root of
        Inl _ \<Rightarrow> ret (Inl ''state_invalid'')
      | Inr None \<Rightarrow> continue_update hash now stamp cwd runner name root None
      | Inr (Some s) \<Rightarrow>
          (if us_Status s = ''applying'' then do {
             recovered \<leftarrow> rollback_update hash now root s False;
             (case recovered of
                Inl _ \<Rightarrow> ret (Inl ''interrupted_recovery_failed'')
              | Inr _ \<Rightarrow> continue_update hash now stamp cwd runner name root (Some s))
           }
           else if us_Status s = ''applied_pending_health'' then ret (pending_health d root s)
           else continue_update hash now stamp cwd runner name root (Some s)))
   }"

end
