(* ===== verification/Update_Recovery.thy ===== *)
theory Update_Recovery
  imports Update_Transaction
begin

text \<open>
  Why an interrupted package update can be undone. Whatever faults meet the steps of
  \<open>applyPending\<close> and \<open>Rollback\<close>, the disk stays recoverable: either no update is under way and the
  package is what it was, or the state names a journal whose backups are intact and outside of
  which nothing has changed.
\<close>

subsection \<open>Where the updater's files are\<close>

lemma clean_onto_proper: "[] \<notin> set ps \<Longrightarrow> ''.'' \<notin> set ps \<Longrightarrow> ''..'' \<notin> set ps \<Longrightarrow> clean_onto p ps = p @ ps"
  by (induction ps arbitrary: p) auto

lemma join_proper: "proper_parts (split_slash rel) \<Longrightarrow> join_path p rel = p @ split_slash rel"
  by (simp add: join_path_def proper_parts_def clean_onto_proper)

lemma join_managed: "validateManagedPath rel = None \<Longrightarrow> join_path p rel = p @ split_slash rel"
  by (rule join_proper [OF managed_parts(1)])

lemma is_prefix_append [simp]: "is_prefix p (p @ q)"
  by (simp add: is_prefix_def)

lemma is_prefix_obtain: "is_prefix p s \<Longrightarrow> \<exists>q. s = p @ q"
  by (metis append_take_drop_id is_prefix_def)

lemma is_prefix_append_iff [simp]: "is_prefix (p @ q) (p @ r) \<longleftrightarrow> is_prefix q r"
  by (simp add: is_prefix_def)

lemma is_prefix_Cons [simp]: "is_prefix [] s" "is_prefix (x # p) (y # s) \<longleftrightarrow> x = y \<and> is_prefix p s"
    "\<not> is_prefix (x # p) []"
  by (auto simp: is_prefix_def)

definition is_temp :: "disk_path \<Rightarrow> bool" where
  "is_temp p \<longleftrightarrow> p \<noteq> [] \<and> is_suffix ''.update-tmp'' (last p)"

lemma is_suffix_append [simp]: "is_suffix s (t @ s)"
  by (simp add: is_suffix_def)

lemma temp_is_temp [simp]: "is_temp (with_suffix p ''.update-tmp'')"
  by (simp add: is_temp_def with_suffix_def)

lemma target_outside:
  assumes "validateManagedPath rel = None"
  shows "\<not> is_prefix (updates_dir root) (join_path root rel)"
proof -
  obtain x xs where "split_slash rel = x # xs" by (cases "split_slash rel") auto
  with managed_outside_updates [OF assms] show ?thesis
    by (simp add: join_managed [OF assms] updates_dir_def)
qed

lemma not_temp_updates: "x @ ''.update-tmp'' \<noteq> ''.updates''"
proof
  assume "x @ ''.update-tmp'' = ''.updates''"
  then have "length (x @ ''.update-tmp'') = length ''.updates''" by simp
  then show False by simp
qed

lemma temp_outside:
  assumes "validateManagedPath rel = None"
  shows "\<not> is_prefix (updates_dir root) (with_suffix (join_path root rel) ''.update-tmp'')"
proof -
  obtain x xs where x: "split_slash rel = x # xs" by (cases "split_slash rel") auto
  with managed_outside_updates [OF assms] have "x \<noteq> ''.updates''" by simp
  then have first: "\<not> is_prefix (updates_dir root) (root @ [x] @ zs)" for zs by (simp add: updates_dir_def)
  show ?thesis
  proof (cases xs rule: rev_cases)
    case Nil
    with x not_temp_updates [of x] show ?thesis
      by (simp add: join_managed [OF assms] updates_dir_def with_suffix_def)
  next
    case (snoc ys y)
    with x first [of "ys @ [y @ ''.update-tmp'']"] show ?thesis
      by (simp add: join_managed [OF assms] with_suffix_def butlast_append)
  qed
qed

lemma target_inj:
  "validateManagedPath a = None \<Longrightarrow> validateManagedPath b = None \<Longrightarrow> join_path root a = join_path root b \<Longrightarrow> a = b"
  by (simp add: join_managed) (rule split_slash_inj)

text \<open>Everything that is neither the updater's own nor the temporary copy of a file being replaced.\<close>

definition own :: "disk_path \<Rightarrow> disk_path \<Rightarrow> bool" where
  "own root p \<longleftrightarrow> \<not> is_prefix (updates_dir root) p \<and> \<not> is_temp p"

definition target :: "disk_path \<Rightarrow> JournalEntry \<Rightarrow> disk_path" where
  "target root e = join_path root (je_Path e)"

definition backup :: "disk_path \<Rightarrow> JournalEntry \<Rightarrow> disk_path" where
  "backup root e = join_path (updates_dir root) (je_BackupPath e)"

subsection \<open>Recoverable disks\<close>

definition state_docs :: "content set" where
  "state_docs = range State_doc"

definition plain_name :: "string \<Rightarrow> bool" where
  "plain_name rel \<longleftrightarrow> \<not> is_temp (split_slash rel)"

text \<open>What \<open>readState\<close> accepts, and that no journaled name is one of a temporary copy.\<close>

definition valid_state :: "disk_path \<Rightarrow> UpdateState \<Rightarrow> bool" where
  "valid_state root s \<longleftrightarrow> us_ContractVersion s = ''archive-center.update-state.v1'' \<and> validateState root s = None
     \<and> (\<forall>e \<in> set (us_Journal s). plain_name (je_Path e))"

definition under_way :: "UpdateState \<Rightarrow> bool" where
  "under_way s \<longleftrightarrow> us_Status s = ''applying'' \<or> us_Status s = ''applied_pending_health''"

type_synonym files = "disk_path \<Rightarrow> (content \<times> nat) option"

definition unchanged :: "disk_path \<Rightarrow> files \<Rightarrow> JournalEntry list \<Rightarrow> disk \<Rightarrow> bool" where
  "unchanged root orig journal d \<longleftrightarrow>
     (\<forall>p. own root p \<and> p \<notin> target root ` set journal \<longrightarrow> file_at d p = orig p)"

definition backed_up :: "disk_path \<Rightarrow> files \<Rightarrow> JournalEntry list \<Rightarrow> disk \<Rightarrow> bool" where
  "backed_up root orig journal d \<longleftrightarrow>
     (\<forall>e \<in> set journal.
        if je_Existed e then orig (target root e) \<noteq> None \<and> file_at d (backup root e) = orig (target root e)
        else orig (target root e) = None)"

definition docs_ok :: "disk_path \<Rightarrow> disk \<Rightarrow> bool" where
  "docs_ok root d \<longleftrightarrow> versions_in state_docs (state_path root) d"

text \<open>An update is under way; or none is.\<close>

definition active_disk :: "disk_path \<Rightarrow> files \<Rightarrow> UpdateState \<Rightarrow> disk \<Rightarrow> bool" where
  "active_disk root orig s d \<longleftrightarrow>
     docs_ok root d \<and> latest (state_path root) d = Some (State_doc s) \<and> valid_state root s \<and> under_way s
     \<and> unchanged root orig (us_Journal s) d \<and> backed_up root orig (us_Journal s) d"

definition idle_disk :: "disk_path \<Rightarrow> files \<Rightarrow> disk \<Rightarrow> bool" where
  "idle_disk root orig d \<longleftrightarrow>
     docs_ok root d \<and> unchanged root orig [] d
     \<and> (case latest (state_path root) d of
          None \<Rightarrow> True
        | Some c \<Rightarrow> \<exists>s. c = State_doc s \<and> valid_state root s \<and> \<not> under_way s)"

definition recoverable :: "disk_path \<Rightarrow> files \<Rightarrow> disk \<Rightarrow> bool" where
  "recoverable root orig d \<longleftrightarrow> idle_disk root orig d \<or> (\<exists>s. active_disk root orig s d)"

text \<open>What holds of the entries of a valid journal.\<close>

lemma journal_problem_Cons:
  "journal_problem updates seen (e # es) = None \<longleftrightarrow>
     validateManagedPath (je_Path e) = None \<and> ascii_lower (je_Path e) \<notin> set seen
     \<and> (if je_Existed e
        then je_BackupPath e \<noteq> [] \<and> is_prefix (updates @ [''backups'']) (join_path updates (je_BackupPath e))
        else je_BackupPath e = [])
     \<and> journal_problem updates (ascii_lower (je_Path e) # seen) es = None"
  unfolding journal_problem.simps Let_def inside_def by (simp only: refusal_eq_None split: if_split) simp

declare journal_problem.simps(2) [simp del]

lemma journal_entries:
  assumes "journal_problem updates seen es = None"
  shows "\<forall>e \<in> set es. validateManagedPath (je_Path e) = None
      \<and> (je_Existed e \<longrightarrow> is_prefix (updates @ [''backups'']) (join_path updates (je_BackupPath e)))
      \<and> ascii_lower (je_Path e) \<notin> set seen"
    and "distinct (map (\<lambda>e. ascii_lower (je_Path e)) es)"
  using assms
proof (induction es arbitrary: seen)
  case (Cons e es)
  { case 1
    then show ?case using Cons(1) [of "ascii_lower (je_Path e) # seen"] by (auto simp: journal_problem_Cons split: if_splits)
  next
    case 2
    then show ?case using Cons(1,2) [of "ascii_lower (je_Path e) # seen"] by (auto simp: journal_problem_Cons)
  }
qed simp_all

lemma distinct_paths: "distinct (map (\<lambda>e. ascii_lower (je_Path e)) es) \<Longrightarrow> distinct (map je_Path es)"
  by (induction es) (auto simp: image_iff)

lemma valid_journal:
  assumes "valid_state root s"
  shows "journal_problem (updates_dir root) [] (us_Journal s) = None"
  using assms by (simp add: valid_state_def validateState_def Let_def split: if_splits)

lemma valid_entry:
  assumes "valid_state root s" and "e \<in> set (us_Journal s)"
  shows "validateManagedPath (je_Path e) = None" and "plain_name (je_Path e)"
    and "je_Existed e \<Longrightarrow> is_prefix (updates_dir root @ [''backups'']) (backup root e)"
  using journal_entries(1) [OF valid_journal [OF assms(1)]] assms by (auto simp: valid_state_def backup_def)

lemma target_own: "validateManagedPath (je_Path e) = None \<Longrightarrow> plain_name (je_Path e) \<Longrightarrow> own root (target root e)"
  using target_outside [of "je_Path e" root]
  by (simp add: own_def target_def plain_name_def join_managed is_temp_def)

lemma targets_distinct:
  assumes "validateManagedPath (je_Path e) = None" "validateManagedPath (je_Path e') = None" "target root e = target root e'"
  shows "je_Path e = je_Path e'"
  using target_inj assms by (simp add: target_def)

lemma state_files:
  "is_prefix (updates_dir root) (state_path root)"
  "is_prefix (updates_dir root) (with_suffix (state_path root) t)"
  "is_prefix (updates_dir root) (pending_path root)"
  by (simp_all add: state_path_def pending_path_def with_suffix_def butlast_append)

lemma state_not_backup:
  "\<not> is_prefix (updates_dir root @ ''backups'' # bs) (state_path root)"
  "\<not> is_prefix (updates_dir root @ ''backups'' # bs) (with_suffix (state_path root) ''.previous'')"
  "\<not> is_prefix (updates_dir root @ ''extracted'' # bs) (state_path root)"
  "\<not> is_prefix (updates_dir root @ ''extracted'' # bs) (with_suffix (state_path root) ''.previous'')"
  by (simp_all add: state_path_def with_suffix_def butlast_append)

lemma state_not_pending:
  "pending_path root \<noteq> state_path root" "pending_path root \<noteq> with_suffix (state_path root) ''.previous''"
  by (simp_all add: state_path_def pending_path_def with_suffix_def butlast_append)

subsection \<open>Frames\<close>

lemma latest_same:
  assumes "file_at d' p = file_at d p" and "file_at d' (with_suffix p ''.previous'') = file_at d (with_suffix p ''.previous'')"
  shows "latest p d' = latest p d" and "versions_in C p d' = versions_in C p d"
  using assms by (simp_all add: latest_def versions_in_def split: option.splits)

lemma active_frame:
  assumes "active_disk root orig s d" and "\<And>p. p \<notin> S \<Longrightarrow> file_at d' p = file_at d p"
    and "\<And>p. p \<in> S \<Longrightarrow> \<not> is_prefix (updates_dir root) p"
    and "\<And>p. p \<in> S \<Longrightarrow> own root p \<Longrightarrow> p \<in> target root ` set (us_Journal s)"
  shows "active_disk root orig s d'"
proof -
  have upd: "file_at d' p = file_at d p" if "is_prefix (updates_dir root) p" for p
    using assms(2,3) that by blast
  note state = latest_same [OF upd [OF state_files(1)] upd [OF state_files(2)]]
  have valid: "valid_state root s" using assms(1) by (simp add: active_disk_def)
  have "file_at d' (backup root e) = file_at d (backup root e)" if "e \<in> set (us_Journal s)" "je_Existed e" for e
    using valid_entry(3) [OF valid that] by (intro upd) (metis is_prefix_append is_prefix_obtain append_assoc)
  then have "backed_up root orig (us_Journal s) d'"
    using assms(1) by (auto simp: active_disk_def backed_up_def)
  moreover have "unchanged root orig (us_Journal s) d'"
    using assms(1,2,4) unfolding active_disk_def unchanged_def by metis
  ultimately show ?thesis using assms(1) state by (simp add: active_disk_def docs_ok_def)
qed

lemma idle_frame:
  assumes "idle_disk root orig d" and "\<And>p. p \<notin> S \<Longrightarrow> file_at d' p = file_at d p"
    and "\<And>p. p \<in> S \<Longrightarrow> \<not> own root p"
    and "state_path root \<notin> S" and "with_suffix (state_path root) ''.previous'' \<notin> S"
  shows "idle_disk root orig d'"
  using assms(1-3) latest_same [OF assms(2) [OF assms(4)] assms(2) [OF assms(5)]]
  unfolding idle_disk_def docs_ok_def unchanged_def by metis

lemma not_own_updates: "is_prefix (updates_dir root) p \<Longrightarrow> \<not> own root p"
  by (simp add: own_def)

lemma prefix_trans: "is_prefix a b \<Longrightarrow> is_prefix b c \<Longrightarrow> is_prefix a c"
  by (metis is_prefix_append is_prefix_obtain append_assoc)

subsection \<open>Undoing an update\<close>

definition journal_files :: "disk_path \<Rightarrow> JournalEntry list \<Rightarrow> disk_path set" where
  "journal_files root es =
     target root ` set es \<union> (\<lambda>e. with_suffix (target root e) ''.update-tmp'') ` set es"

lemma touches_restore_entry:
  "e \<in> set es \<Longrightarrow> touches (journal_files root es) (restore_entry hash root e)"
  unfolding restore_entry_def Let_def target_def [symmetric]
  by (intro touching) (auto simp: journal_files_def)

lemma touches_restore: "set es \<subseteq> set fs \<Longrightarrow> touches (journal_files root fs) (restore_entries hash root es)"
  by (induction es) (auto intro!: touching touches_restore_entry)

lemma journal_files_outside:
  assumes "\<forall>e \<in> set es. validateManagedPath (je_Path e) = None" and "p \<in> journal_files root es"
  shows "\<not> is_prefix (updates_dir root) p" and "own root p \<Longrightarrow> p \<in> target root ` set es"
  using assms target_outside temp_outside by (auto simp: journal_files_def target_def own_def)

lemma active_restore:
  assumes "valid_state root s" and "set es = set (us_Journal s)"
  shows "after (active_disk root orig s) (restore_entries hash root es) (\<lambda>_. active_disk root orig s)"
proof (rule after_touches)
  show "touches (journal_files root (us_Journal s)) (restore_entries hash root es)"
    by (rule touches_restore) (simp add: assms(2))
  fix d d'
  assume "active_disk root orig s d" and "\<And>p. p \<notin> journal_files root (us_Journal s) \<Longrightarrow> file_at d' p = file_at d p"
  then show "active_disk root orig s d'"
    by (rule active_frame) (use journal_files_outside valid_entry(1) [OF assms(1)] in blast)+
qed

text \<open>An entry that is restored without an error has its original file again.\<close>

lemma entry_restored:
  assumes valid: "valid_state root s" and e: "e \<in> set (us_Journal s)"
  shows "after (active_disk root orig s) (restore_entry hash root e)
    (\<lambda>ok d. ok \<longrightarrow> file_at d (target root e) = orig (target root e))"
proof (cases "je_Existed e")
  case True
  let ?b = "backup root e" and ?t = "target root e"
  have b: "is_prefix (updates_dir root) ?b"
    using valid_entry(3) [OF valid e True] by (metis is_prefix_append prefix_trans)
  then have sep: "?b \<noteq> ?t" "?b \<noteq> with_suffix ?t ''.update-tmp''"
    using target_outside temp_outside valid_entry(1) [OF valid e] by (auto simp: target_def)
  have replace: "after (\<lambda>d'. d = d' \<and> active_disk root orig s d') (case file_at d ?b of None \<Rightarrow> ret False
      | Some (_, mode) \<Rightarrow> replaceFile hash ?b ?t mode None) (\<lambda>ok d. ok \<longrightarrow> file_at d ?t = orig ?t)" for d
  proof (cases "file_at d ?b")
    case None
    then show ?thesis by (simp add: after_fail)
  next
    case (Some x)
    obtain c m where x: "x = (c, m)" by (cases x)
    have "after (\<lambda>d'. d = d' \<and> active_disk root orig s d') (replaceFile hash ?b ?t m None)
        (\<lambda>ok d'. (ok \<longrightarrow> file_at d' ?t = Some (c, m)) \<and> (active_disk root orig s d \<longrightarrow> orig ?t = Some (c, m)))"
      using Some x e True
      by (intro after_both after_weaken [OF replaceFile_installs [OF sep, of c m]])
        (auto simp: active_disk_def backed_up_def after_def)
    then show ?thesis using Some x unfolding after_def by auto
  qed
  have entry: "restore_entry hash root e = do { d \<leftarrow> disk_now; (case file_at d ?b of None \<Rightarrow> ret False
      | Some (_, mode) \<Rightarrow> replaceFile hash ?b ?t mode None) }"
    unfolding restore_entry_def Let_def target_def backup_def using valid_entry(1) [OF valid e] True by simp
  show ?thesis unfolding entry by (rule after_bind [OF after_now replace])
next
  case False
  have "restore_entry hash root e = step (remove_act (target root e))"
    using valid_entry(1) [OF valid e] False by (simp add: restore_entry_def Let_def target_def)
  then show ?thesis
    using e False by (auto intro!: after_step dest!: remove_files simp: active_disk_def backed_up_def)
qed

lemma entries_restored:
  assumes valid: "valid_state root s" and "set es \<subseteq> set (us_Journal s)" and "distinct (map je_Path es)"
  shows "after (active_disk root orig s) (restore_entries hash root es)
    (\<lambda>ok d. ok \<longrightarrow> (\<forall>e \<in> set es. file_at d (target root e) = orig (target root e)))"
  using assms(2,3)
proof (induction es)
  case Nil
  then show ?case by (simp add: after_def)
next
  case (Cons e es)
  let ?A = "active_disk root orig s" and ?R = "\<lambda>e d. file_at d (target root e) = orig (target root e)"
  have e: "e \<in> set (us_Journal s)" using Cons.prems by simp
  note managed = valid_entry(1,2) [OF valid]
  have single: "after ?A (restore_entry hash root e) (\<lambda>_. ?A)"
  proof (rule after_touches [OF touches_restore_entry [of e "us_Journal s", OF e]])
    fix d d'
    assume "?A d" and "\<And>p. p \<notin> journal_files root (us_Journal s) \<Longrightarrow> file_at d' p = file_at d p"
    then show "?A d'"
      by (rule active_frame) (use journal_files_outside managed(1) in blast)+
  qed
  have "target root e \<notin> journal_files root es"
  proof
    assume "target root e \<in> journal_files root es"
    then obtain f where f: "f \<in> set es" and "target root e = target root f
        \<or> target root e = with_suffix (target root f) ''.update-tmp''"
      by (auto simp: journal_files_def)
    moreover have "\<not> is_temp (target root e)" using target_own managed [OF e] by (auto simp: own_def)
    ultimately have "target root e = target root f" by auto
    moreover have "f \<in> set (us_Journal s)" using f Cons.prems by auto
    ultimately have "je_Path e = je_Path f" using targets_distinct managed(1) e by blast
    with f Cons.prems(2) show False by (auto simp: image_iff)
  qed
  then have keep: "after (?R e) (restore_entries hash root es) (\<lambda>_. ?R e)"
    by (intro after_touches [OF touches_restore [of es es]]) auto
  show ?case
    unfolding restore_entries.simps
  proof (rule after_bind [OF after_both [OF single entry_restored [OF valid e]]], intro after_if after_fail)
    fix ok :: bool assume ok
    then show "after (\<lambda>d. ?A d \<and> (ok \<longrightarrow> ?R e d)) (restore_entries hash root es)
        (\<lambda>ok d. ok \<longrightarrow> (\<forall>e \<in> set (e # es). ?R e d))"
      using Cons keep unfolding after_def by auto
  qed
qed

lemma restored_unchanged:
  assumes "active_disk root orig s d" and "\<forall>e \<in> set (us_Journal s). file_at d (target root e) = orig (target root e)"
  shows "unchanged root orig [] d"
  using assms by (auto simp: active_disk_def unchanged_def)

definition state_family :: "disk_path \<Rightarrow> disk_path set" where
  "state_family root = {state_path root, with_suffix (state_path root) ''.tmp'', with_suffix (state_path root) ''.previous''}"

lemma state_family_not:
  "p \<in> state_family root \<Longrightarrow> is_prefix (updates_dir root) p"
  "p \<in> state_family root \<Longrightarrow> \<not> is_prefix (updates_dir root @ [''backups'']) p"
  by (auto simp: state_family_def state_path_def with_suffix_def butlast_append)

lemma write_state:
  assumes "\<And>d d'. F d \<Longrightarrow> (\<And>p. p \<notin> state_family root \<Longrightarrow> file_at d' p = file_at d p) \<Longrightarrow> F d'"
  shows "after (\<lambda>d. docs_ok root d \<and> latest (state_path root) d = old \<and> (present \<longrightarrow> file_at d (state_path root) \<noteq> None) \<and> F d)
    (writeJSONAtomic (state_path root) (State_doc s))
    (\<lambda>ok d. docs_ok root d \<and> F d \<and>
       (if ok then latest (state_path root) d = Some (State_doc s) \<and> file_at d (state_path root) \<noteq> None
        else latest (state_path root) d = old \<or> \<not> present \<and> latest (state_path root) d = None))"
proof -
  let ?w = "writeJSONAtomic (state_path root) (State_doc s)"
  have keep: "after F ?w (\<lambda>_. F)"
    by (rule after_touches [where S = "state_family root"], rule touches_writeJSON)
      (use assms in \<open>auto simp: state_family_def\<close>)
  have "State_doc s \<in> state_docs" by (simp add: state_docs_def)
  from writeJSON_replaces [OF this, of "state_path root" old present]
  have "after (\<lambda>d. docs_ok root d \<and> latest (state_path root) d = old \<and> (present \<longrightarrow> file_at d (state_path root) \<noteq> None)) ?w
    (\<lambda>ok d. docs_ok root d \<and>
       (if ok then latest (state_path root) d = Some (State_doc s) \<and> file_at d (state_path root) \<noteq> None
        else latest (state_path root) d = old \<or> \<not> present \<and> latest (state_path root) d = None))"
    unfolding docs_ok_def by (rule after_weaken) (auto simp: latest_def split: if_splits)
  with keep show ?thesis unfolding after_def by blast
qed

lemma unchanged_stable:
  "unchanged root orig journal d \<Longrightarrow> (\<And>p. p \<notin> S \<Longrightarrow> file_at d' p = file_at d p)
    \<Longrightarrow> (\<And>p. p \<in> S \<Longrightarrow> \<not> own root p) \<Longrightarrow> unchanged root orig journal d'"
  unfolding unchanged_def by metis

lemma backed_up_stable:
  assumes "backed_up root orig journal d" and "\<And>p. p \<notin> S \<Longrightarrow> file_at d' p = file_at d p"
    and "\<And>e. e \<in> set journal \<Longrightarrow> je_Existed e \<Longrightarrow> backup root e \<notin> S"
  shows "backed_up root orig journal d'"
  using assms unfolding backed_up_def by metis

lemma unchanged_family:
  "unchanged root orig journal d \<Longrightarrow> (\<And>p. p \<notin> state_family root \<Longrightarrow> file_at d' p = file_at d p)
    \<Longrightarrow> unchanged root orig journal d'"
  by (erule unchanged_stable [where S = "state_family root"]) (use state_family_not(1) not_own_updates in blast)+

lemma backed_up_family:
  assumes "backed_up root orig (us_Journal s) d" and "\<And>p. p \<notin> state_family root \<Longrightarrow> file_at d' p = file_at d p"
    and "valid_state root s"
  shows "backed_up root orig (us_Journal s) d'"
  by (rule backed_up_stable [where S = "state_family root", OF assms(1)])
    (use assms(2) state_family_not(2) valid_entry(3) [OF assms(3)] in blast)+

lemma valid_undone:
  assumes "valid_state root s"
  shows "valid_state root (mark_rolled_back now s)"
    and "valid_state root (s\<lparr>us_BackupDir := [], us_Journal := []\<rparr>)"
  using assms by (auto simp: valid_state_def validateState_def mark_rolled_back_def Let_def split: if_splits)

lemma not_under_way [simp]: "\<not> under_way (mark_rolled_back now s)"
  "under_way (s\<lparr>us_BackupDir := x, us_Journal := y\<rparr>) = under_way s"
  by (simp_all add: under_way_def mark_rolled_back_def)

lemma backup_dir_valid:
  assumes "valid_state root s" and "us_BackupDir s \<noteq> []"
  shows "is_prefix (updates_dir root @ [''backups'']) (join_path (updates_dir root) (us_BackupDir s))"
  using assms by (simp add: valid_state_def validateState_def Let_def inside_def split: if_splits)

text \<open>An idle disk with a given state, and the tail of a rollback on it.\<close>

definition settled_disk :: "disk_path \<Rightarrow> files \<Rightarrow> UpdateState \<Rightarrow> disk \<Rightarrow> bool" where
  "settled_disk root orig s d \<longleftrightarrow> docs_ok root d \<and> latest (state_path root) d = Some (State_doc s)
     \<and> file_at d (state_path root) \<noteq> None \<and> unchanged root orig [] d"

lemma settled_idle: "settled_disk root orig s d \<Longrightarrow> valid_state root s \<Longrightarrow> \<not> under_way s \<Longrightarrow> idle_disk root orig d"
  by (auto simp: settled_disk_def idle_disk_def)

lemma settled_touches:
  assumes "touches S m" and "\<And>p. p \<in> S \<Longrightarrow> \<not> own root p"
    and "state_path root \<notin> S" and "with_suffix (state_path root) ''.previous'' \<notin> S"
  shows "after (settled_disk root orig s) m (\<lambda>_. settled_disk root orig s)"
proof (rule after_touches [OF assms(1)])
  fix d d' assume "settled_disk root orig s d" and same: "\<And>p. p \<notin> S \<Longrightarrow> file_at d' p = file_at d p"
  then show "settled_disk root orig s d'"
    using latest_same [OF same [OF assms(3)] same [OF assms(4)]] same [OF assms(3)] unchanged_stable [OF _ same assms(2)]
    by (auto simp: settled_disk_def docs_ok_def)
qed

lemma settled_write:
  assumes "valid_state root s" "\<not> under_way s" "valid_state root s'" "\<not> under_way s'"
  shows "after (settled_disk root orig s) (writeJSONAtomic (state_path root) (State_doc s'))
    (\<lambda>_. idle_disk root orig)"
proof -
  show ?thesis
    by (rule after_weaken [OF write_state [where F = "unchanged root orig []" and old = "Some (State_doc s)" and present = True, OF unchanged_family]])
      (use assms in \<open>auto simp: settled_disk_def idle_disk_def split: if_splits\<close>)
qed

lemma own_files:
  "state_path root \<notin> {q. is_prefix (updates_dir root @ [''backups'']) q}"
  "with_suffix (state_path root) ''.previous'' \<notin> {q. is_prefix (updates_dir root @ [''backups'']) q}"
  using state_family_not(2) [of _ root] by (auto simp: state_family_def)

lemma backups_not_own: "is_prefix (updates_dir root @ x) p \<Longrightarrow> \<not> own root p"
  by (metis is_prefix_append not_own_updates prefix_trans)

lemma touches_backups:
  assumes "is_prefix (updates_dir root @ [''backups'']) p"
  shows "touches {q. is_prefix (updates_dir root @ [''backups'']) q} (remove_all p)"
  by (rule touches_remove_all) (use assms prefix_trans in blast)

text \<open>
  A rollback keeps the disk recoverable and, if it reports no error, leaves it idle. \<open>s0\<close> is the
  state on disk, \<open>s\<close> the caller's, which has the same journal.
\<close>

lemma cleanup_settles:
  assumes "valid_state root s" and "\<not> under_way s"
  shows "after (settled_disk root orig s) (rollback_cleanup root s clear) (\<lambda>_. idle_disk root orig)"
proof -
  let ?S = "settled_disk root orig s"
  have 1: "after ?S (if clear then step (remove_act (pending_path root)) else ret True) (\<lambda>_. ?S)"
    by (rule settled_touches [where S = "{pending_path root}"])
      (auto intro!: touching simp: state_not_pending [symmetric] not_own_updates state_files)
  have 2: "after ?S (if us_BackupDir s \<noteq> [] then remove_all (join_path (updates_dir root) (us_BackupDir s)) else ret True)
      (\<lambda>_. ?S)"
    by (rule settled_touches [where S = "{q. is_prefix (updates_dir root @ [''backups'']) q}"])
      (use own_files backups_not_own in \<open>auto intro!: touches_if touches_ret touches_backups backup_dir_valid [OF assms(1)]\<close>)
  have 3: "after ?S (writeJSONAtomic (state_path root) (State_doc (s\<lparr>us_BackupDir := [], us_Journal := []\<rparr>)))
      (\<lambda>_. idle_disk root orig)"
    by (rule settled_write) (use assms valid_undone in simp_all)
  show ?thesis
    unfolding rollback_cleanup_def by (intro after_bind [OF 1] after_bind [OF 2] after_bind [OF 3] after_ret)
qed

lemma rollback_recovers:
  assumes valid: "valid_state root s" and valid0: "valid_state root s0" and journal: "us_Journal s = us_Journal s0"
  shows "after (active_disk root orig s0) (rollback_update hash now root s clear)
    (\<lambda>r d. recoverable root orig d \<and> (case r of Inl _ \<Rightarrow> True | Inr _ \<Rightarrow> idle_disk root orig d))"
    (is "after _ _ ?Q")
proof -
  let ?A = "active_disk root orig s0" and ?u = "mark_rolled_back now s"
  let ?all = "\<lambda>d. \<forall>e \<in> set (us_Journal s0). file_at d (target root e) = orig (target root e)"
  let ?F = "\<lambda>d. unchanged root orig [] d \<and> unchanged root orig (us_Journal s0) d
    \<and> backed_up root orig (us_Journal s0) d"
  have stable: "?F d'" if "?F d" and same: "\<And>p. p \<notin> state_family root \<Longrightarrow> file_at d' p = file_at d p" for d d'
    using that(1) unchanged_family [OF _ same] backed_up_family [OF _ same valid0] by simp
  have pre: "docs_ok root d \<and> latest (state_path root) d = Some (State_doc s0)
      \<and> (False \<longrightarrow> file_at d (state_path root) \<noteq> None) \<and> ?F d" if "?A d \<and> ?all d" for d
    using that restored_unchanged [of root orig s0 d] by (auto simp: active_disk_def)
  have post: "if ok then settled_disk root orig ?u d else recoverable root orig d"
    if "docs_ok root d \<and> ?F d \<and> (if ok
        then latest (state_path root) d = Some (State_doc ?u) \<and> file_at d (state_path root) \<noteq> None
        else latest (state_path root) d = Some (State_doc s0) \<or> \<not> False \<and> latest (state_path root) d = None)" for ok d
    using that valid0
    by (cases "under_way s0"; auto simp: settled_disk_def recoverable_def idle_disk_def active_disk_def split: if_splits)
  have mark: "after (\<lambda>d. ?A d \<and> ?all d) (writeJSONAtomic (state_path root) (State_doc ?u))
      (\<lambda>ok d. if ok then settled_disk root orig ?u d else recoverable root orig d)"
    by (rule after_weaken [OF write_state [where F = ?F and old = "Some (State_doc s0)" and present = False, OF stable]])
      (use pre post in blast)+
  have rest: "after (\<lambda>d. ?A d \<and> ?all d) (do { marked \<leftarrow> writeJSONAtomic (state_path root) (State_doc ?u);
      if \<not> marked then ret (Inl ''state write failed'') else rollback_cleanup root ?u clear }) ?Q"
  proof (rule after_bind [OF mark])
    fix marked
    have "after (settled_disk root orig ?u) (rollback_cleanup root ?u clear) ?Q"
      by (rule after_weaken [OF cleanup_settles]) (use valid_undone(1) [OF valid] in \<open>auto simp: recoverable_def split: sum.split\<close>)
    then show "after (\<lambda>d. if marked then settled_disk root orig ?u d else recoverable root orig d)
        (if \<not> marked then ret (Inl ''state write failed'') else rollback_cleanup root ?u clear) ?Q"
      by (cases marked) (simp_all add: after_def)
  qed
  show ?thesis
    unfolding rollback_update_def journal
  proof (rule after_bind [OF after_both [OF active_restore entries_restored]])
    show "distinct (map je_Path (rev (us_Journal s0)))"
      using distinct_paths [OF journal_entries(2) [OF valid_journal [OF valid0]]] by (simp add: rev_map [symmetric])
    fix restored
    show "after (\<lambda>d. ?A d \<and> (restored \<longrightarrow>
          (\<forall>e\<in>set (rev (us_Journal s0)). file_at d (target root e) = orig (target root e))))
        (if \<not> restored then ret (Inl ''restore failed'')
         else do { marked \<leftarrow> writeJSONAtomic (state_path root) (State_doc ?u);
           if \<not> marked then ret (Inl ''state write failed'') else rollback_cleanup root ?u clear }) ?Q"
      using rest by (cases restored) (auto simp: after_def recoverable_def)
  qed (use valid0 in simp_all)
qed

subsection \<open>What the operations read\<close>

lemma docs_cases:
  assumes "docs_ok root d"
  shows "file_at d (state_path root) = None \<or> (\<exists>s m. file_at d (state_path root) = Some (State_doc s, m))"
    and "file_at d (with_suffix (state_path root) ''.previous'') = None
      \<or> (\<exists>s m. file_at d (with_suffix (state_path root) ''.previous'') = Some (State_doc s, m))"
  using assms unfolding docs_ok_def versions_in_def state_docs_def image_def
  by ((cases "file_at d (state_path root)"; force),
      (cases "file_at d (with_suffix (state_path root) ''.previous'')"; force))

lemma readJSON_file:
  "file_at d p = Some (c, m) \<Longrightarrow> readJSON f d p = (case f c of Some x \<Rightarrow> Inr (Some x) | None \<Rightarrow> Inl ''invalid JSON'')"
  "file_at d p = None \<Longrightarrow> readJSON f d p = Inr None \<or> readJSON f d p = Inl ''not a file''"
  by (auto simp: file_at_def readJSON_def split: option.splits disk_node.splits)

lemma read_latest_state:
  assumes "docs_ok root d"
  shows "read_latest d (state_path root) = Inr (Some s) \<longleftrightarrow> latest (state_path root) d = Some (State_doc s)"
  using docs_cases [OF assms]
  by (auto simp: read_latest_def latest_def readJSON_file(1)
      dest: readJSON_file(2) [where f = as_state] split: sum.splits option.splits)

lemma read_state:
  assumes "docs_ok root d"
  shows "readState d root = Inr (Some s) \<Longrightarrow> latest (state_path root) d = Some (State_doc s)"
    and "latest (state_path root) d = Some (State_doc s) \<Longrightarrow> valid_state root s \<Longrightarrow> readState d root = Inr (Some s)"
  using read_latest_state [OF assms, of s]
  by (auto simp: readState_def valid_state_def split: sum.splits option.splits if_splits)

lemma recoverable_docs: "recoverable root orig d \<Longrightarrow> docs_ok root d"
  by (auto simp: recoverable_def idle_disk_def active_disk_def)

lemma recoverable_read:
  assumes "recoverable root orig d" and "readState d root = Inr (Some s)"
  shows "if under_way s then active_disk root orig s d else idle_disk root orig d"
    and "valid_state root s"
proof -
  have l: "latest (state_path root) d = Some (State_doc s)"
    by (rule read_state(1) [OF recoverable_docs [OF assms(1)] assms(2)])
  with assms(1) show "if under_way s then active_disk root orig s d else idle_disk root orig d"
    by (auto simp: recoverable_def idle_disk_def active_disk_def)
  from l assms(1) show "valid_state root s"
    by (auto simp: recoverable_def idle_disk_def active_disk_def)
qed

lemma recoverable_no_state:
  assumes "recoverable root orig d" and "readState d root = Inr None"
  shows "idle_disk root orig d"
  using assms read_state(2) [OF recoverable_docs [OF assms(1)]]
  by (auto simp: recoverable_def active_disk_def)

text \<open>The public \<open>Rollback\<close>.\<close>

lemma Rollback_recovers:
  "after (recoverable root orig) (Rollback hash now root)
    (\<lambda>r d. recoverable root orig d \<and> (case r of Inl _ \<Rightarrow> True | Inr _ \<Rightarrow> idle_disk root orig d))"
    (is "after ?P _ ?Q")
  unfolding Rollback_def
proof (rule after_bind [OF after_now], intro after_if)
  fix d
  let ?D = "\<lambda>d'. d = d' \<and> recoverable root orig d'"
  have stop: "after ?D (ret (Inl e)) ?Q" for e by (auto simp: after_def)
  show "after ?D (ret (Inl ''invalid_root'')) ?Q" by (rule stop)
  have nothing: "after ?D (ret (Inr x)) ?Q" if "idle_disk root orig d" for x
    using that by (auto simp: after_def)
  show "after ?D (case readState d root of Inl _ \<Rightarrow> ret (Inl ''state_invalid'')
      | Inr (Some s) \<Rightarrow>
          (if us_Status s = ''applying'' \<or> us_Status s = ''applied_pending_health''
             then rollback_update hash now root s True
           else ret (Inr (result ''rollback'' ''nothing_to_rollback'' [] [] False ''no active update journal'')))
      | Inr None \<Rightarrow> ret (Inr (result ''rollback'' ''nothing_to_rollback'' [] [] False ''no active update journal''))) ?Q"
  proof (cases "recoverable root orig d")
    case False
    then show ?thesis by (auto simp: after_def)
  next
    case rec: True
    show ?thesis
    proof (cases "readState d root")
      case (Inl e)
      then show ?thesis using stop by simp
    next
      case (Inr found)
      show ?thesis
      proof (cases found)
        case None
        with Inr show ?thesis using recoverable_no_state [OF rec] by (auto simp: after_def)
      next
        case (Some s)
        note read = recoverable_read [OF rec, of s]
        show ?thesis
        proof (cases "under_way s")
          case True
          with read Inr Some have "after ?D (rollback_update hash now root s True) ?Q"
            by (intro after_weaken [OF rollback_recovers [where s = s and ?s0.0 = s]]) auto
          with True Inr Some show ?thesis by (simp add: under_way_def)
        next
          case False
          with read Inr Some have "idle_disk root orig d" by simp
          with False Inr Some show ?thesis by (auto simp: under_way_def after_def)
        qed
      qed
    qed
  qed
qed

end
