(* ===== verification/Update_Apply.thy ===== *)
theory Update_Apply
  imports Update_Recovery
begin

text \<open>
  Applying an update (\<open>applyPending\<close> of \<open>go-service/internal/packageupdate/update.go\<close>) keeps the disk
  recoverable: the backups and the journal are complete before the first file is changed, and every
  failure is followed by an undo. With \<open>Update_Recovery\<close> this gives the history theorem: after any
  calls, however they were interrupted, a rollback that reports no error brings back every file.
\<close>

subsection \<open>Backups\<close>

lemma clean_onto_append: "clean_onto p (xs @ ys) = clean_onto (clean_onto p xs) ys"
  by (induction xs arbitrary: p) auto

lemma split_slash_at: "split_slash (a @ CHR ''/'' # b) = split_slash a @ split_slash b"
  by (induction a) (auto split: list.splits)

lemma join_slash_path: "join_path p (a @ CHR ''/'' # b) = join_path (join_path p a) b"
  by (simp add: join_path_def split_slash_at clean_onto_append)

definition backup_place :: "disk_path \<Rightarrow> string \<Rightarrow> string \<Rightarrow> disk_path" where
  "backup_place root dir rel = join_path (updates_dir root) dir @ split_slash rel"

lemma backup_entry_path:
  "validateManagedPath rel = None \<Longrightarrow> join_path (updates_dir root) (dir @ ''/'' @ rel) = backup_place root dir rel"
  by (simp add: join_slash_path join_managed backup_place_def)

lemma backup_place_inj: "backup_place root dir a = backup_place root dir b \<longleftrightarrow> a = b"
  by (auto simp: backup_place_def dest: split_slash_inj)

text \<open>The files of a transaction: managed, plain and different names.\<close>

definition good_names :: "string list \<Rightarrow> bool" where
  "good_names rels \<longleftrightarrow> (\<forall>rel \<in> set rels. validateManagedPath rel = None \<and> plain_name rel)
     \<and> distinct (map ascii_lower rels)"

definition entry_made :: "string \<Rightarrow> JournalEntry \<Rightarrow> bool" where
  "entry_made dir e \<longleftrightarrow> je_BackupPath e = (if je_Existed e then dir @ ''/'' @ je_Path e else [])"

lemma backup_entry_simps [simp]:
  "je_Path (backup_entry dir f x) = if_Rel f" "je_Existed (backup_entry dir f x) = x"
  "entry_made dir (backup_entry dir f x)"
  by (simp_all add: backup_entry_def entry_made_def)

lemma touches_backup_file:
  assumes "validateManagedPath (if_Rel f) = None"
  shows "touches {backup_place root dir (if_Rel f)} (backup_file root dir f)"
  unfolding backup_file_def Let_def
  by (intro touching) (auto simp: backup_entry_def backup_entry_path [OF assms, simplified] intro!: touching split: disk_node.split)

lemma touches_sum: "(\<And>x. y = Inl x \<Longrightarrow> touches S (f x)) \<Longrightarrow> (\<And>x. y = Inr x \<Longrightarrow> touches S (g x))
    \<Longrightarrow> touches S (case y of Inl x \<Rightarrow> f x | Inr x \<Rightarrow> g x)"
  by (cases y) simp_all

lemma touches_backup_files:
  "\<forall>f \<in> set fs. validateManagedPath (if_Rel f) = None
    \<Longrightarrow> touches ((\<lambda>f. backup_place root dir (if_Rel f)) ` set fs) (backup_files root dir fs)"
proof (induction fs)
  case (Cons f fs)
  then show ?case
    unfolding backup_files.simps
    by (intro touching touches_sum)
      (auto intro: touches_mono [OF touches_backup_file] touches_mono [OF Cons.IH] touches_ret)
qed (simp add: touches_ret)

definition in_backups :: "disk_path \<Rightarrow> string \<Rightarrow> bool" where
  "in_backups root dir \<longleftrightarrow> is_prefix (updates_dir root @ [''backups'']) (join_path (updates_dir root) dir)"

lemma backup_place_in: "in_backups root dir \<Longrightarrow> is_prefix (updates_dir root @ [''backups'']) (backup_place root dir rel)"
  unfolding in_backups_def backup_place_def by (metis is_prefix_append prefix_trans)

lemma idle_backups:
  assumes "touches S m" and "\<And>p. p \<in> S \<Longrightarrow> is_prefix (updates_dir root @ [''backups'']) p"
  shows "after (idle_disk root orig) m (\<lambda>_. idle_disk root orig)"
proof (rule after_touches [OF assms(1)])
  fix d d' assume "idle_disk root orig d" and "\<And>p. p \<notin> S \<Longrightarrow> file_at d' p = file_at d p"
  then show "idle_disk root orig d'"
    by (rule idle_frame) (use assms(2) backups_not_own own_files in blast)+
qed

text \<open>A file that has been backed up, and what a later backup does to it.\<close>

lemma file_backed_up:
  assumes "validateManagedPath (if_Rel f) = None" and "plain_name (if_Rel f)" and "in_backups root dir"
  shows "after (idle_disk root orig) (backup_file root dir f)
    (\<lambda>r d. \<forall>e. r = Inr e \<longrightarrow> backed_up root orig [e] d \<and> je_Path e = if_Rel f \<and> entry_made dir e)"
  unfolding backup_file_def Let_def
proof (rule after_bind [OF after_now])
  fix d
  let ?t = "join_path root (if_Rel f)" and ?b = "backup_place root dir (if_Rel f)"
  let ?P = "\<lambda>d'. d = d' \<and> idle_disk root orig d'"
  let ?Q = "\<lambda>r d. \<forall>e. r = Inr e \<longrightarrow> backed_up root orig [e] d \<and> je_Path e = if_Rel f \<and> entry_made dir e"
  have t: "target root (backup_entry dir f x) = ?t" for x by (simp add: target_def)
  have b: "backup root (backup_entry dir f True) = ?b"
    using backup_entry_path [OF assms(1)] by (simp add: backup_def backup_entry_def)
  have own_t: "own root ?t" using target_own [of "backup_entry dir f True" root] assms(1,2) by (simp add: t)
  have orig: "file_at d ?t = orig ?t" if "idle_disk root orig d"
    using that own_t by (simp add: idle_disk_def unchanged_def)
  have "?t \<noteq> ?b" using backups_not_own [OF backup_place_in [OF assms(3)]] own_t by metis
  note copied = copyFile_copies [OF this]
  show "after ?P (case map_of d ?t of
        None \<Rightarrow> ret (if below_file d ?t then Inl ''backup_failed'' else Inr (backup_entry dir f False))
      | Some (File _ mode) \<Rightarrow> do {
          copied \<leftarrow> copyFile ?t (join_path (updates_dir root) (je_BackupPath (backup_entry dir f True))) mode;
          ret (if copied then Inr (backup_entry dir f True) else Inl ''backup_failed'') }
      | Some _ \<Rightarrow> ret (Inl ''target_not_regular'')) ?Q"
  proof (cases "map_of d ?t")
    case None
    then have "file_at d ?t = None" by (simp add: file_at_def)
    with None orig show ?thesis by (auto simp: after_def backed_up_def t)
  next
    case (Some node)
    show ?thesis
    proof (cases node)
      case (File c m)
      with Some have now: "file_at d ?t = Some (c, m)" by (simp add: file_at_def)
      have "after ?P (copyFile ?t ?b m) (\<lambda>ok d'. (ok \<longrightarrow> file_at d' ?b = Some (c, m)) \<and> orig ?t = Some (c, m))"
      proof (rule after_both)
        show "after ?P (copyFile ?t ?b m) (\<lambda>ok d'. ok \<longrightarrow> file_at d' ?b = Some (c, m))"
          by (rule after_weaken [OF copied]) (use now in auto)
        show "after ?P (copyFile ?t ?b m) (\<lambda>_ _. orig ?t = Some (c, m))" using now orig by (auto simp: after_def)
      qed
      then have "after ?P (do { copied \<leftarrow> copyFile ?t ?b m;
          ret (if copied then Inr (backup_entry dir f True) else Inl ''backup_failed'') }) ?Q"
        by (rule after_bind) (auto simp: after_def backed_up_def t b)
      with Some File b show ?thesis by (simp add: backup_def)
    qed (use Some in \<open>simp_all add: after_def\<close>)
  qed
qed

lemma backed_up_add: "backed_up root orig [e] d \<Longrightarrow> backed_up root orig es d \<Longrightarrow> backed_up root orig (e # es) d"
  by (simp add: backed_up_def)

lemma good_names_Cons:
  "good_names (rel # rels) \<longleftrightarrow> validateManagedPath rel = None \<and> plain_name rel \<and> ascii_lower rel \<notin> ascii_lower ` set rels
     \<and> good_names rels"
  by (auto simp: good_names_def)

lemma files_backed_up:
  assumes "good_names (map if_Rel fs)" and "in_backups root dir"
  shows "after (idle_disk root orig) (backup_files root dir fs)
    (\<lambda>r d. \<forall>es. r = Inr es \<longrightarrow> backed_up root orig es d \<and> map je_Path es = map if_Rel fs
       \<and> (\<forall>e \<in> set es. entry_made dir e))"
  using assms(1)
proof (induction fs)
  case Nil
  then show ?case by (simp add: after_def backed_up_def)
next
  case (Cons f fs)
  let ?I = "idle_disk root orig"
  let ?one = "\<lambda>e d. backed_up root orig [e] d \<and> je_Path e = if_Rel f \<and> entry_made dir e"
  let ?all = "\<lambda>es d. backed_up root orig es d \<and> map je_Path es = map if_Rel fs \<and> (\<forall>e \<in> set es. entry_made dir e)"
  have f: "validateManagedPath (if_Rel f) = None" "plain_name (if_Rel f)" and fs: "good_names (map if_Rel fs)"
    and fresh: "if_Rel f \<notin> if_Rel ` set fs"
    using Cons.prems by (auto simp: good_names_Cons image_iff)
  have fs_managed: "\<forall>f \<in> set fs. validateManagedPath (if_Rel f) = None" using fs by (simp add: good_names_def)
  let ?S = "(\<lambda>f. backup_place root dir (if_Rel f)) ` set fs"
  note idle1 = idle_backups [OF touches_backup_file [OF f(1), where dir = dir and root = root], where root = root and orig = orig]
  have keep: "after (?one e) (backup_files root dir fs) (\<lambda>_. ?one e)" for e
  proof (rule after_touches [OF touches_backup_files [OF fs_managed]])
    fix d d' assume "?one e d" and same: "\<And>p. p \<notin> ?S \<Longrightarrow> file_at d' p = file_at d p"
    moreover have "backup root e = backup_place root dir (if_Rel f)" if "je_Path e = if_Rel f" "entry_made dir e" "je_Existed e"
      using that backup_entry_path [OF f(1)] by (simp add: backup_def entry_made_def)
    ultimately have "je_Existed e \<Longrightarrow> backup root e \<notin> ?S" using fresh by (auto simp: backup_place_inj)
    with \<open>?one e d\<close> same show "?one e d'" by (auto simp: backed_up_def)
  qed
  show ?case
    unfolding backup_files.simps
  proof (rule after_bind [OF after_both [OF idle1 file_backed_up [OF f assms(2)]]], goal_cases)
    case 1
    then show ?case using backup_place_in [OF assms(2)] by simp
  next
    case (2 this)
    show ?case
    proof (cases this)
      case (Inl x)
      then show ?thesis by (simp add: after_def)
    next
      case (Inr e)
      have "after (\<lambda>d. ?I d \<and> ?one e d) (backup_files root dir fs)
          (\<lambda>r d. ?one e d \<and> (\<forall>es. r = Inr es \<longrightarrow> ?all es d))"
        using keep [of e] Cons.IH [OF fs] unfolding after_def by blast
      then have "after (\<lambda>d. ?I d \<and> ?one e d) (do { others \<leftarrow> backup_files root dir fs;
          ret (case others of Inl e \<Rightarrow> Inl e | Inr entries \<Rightarrow> Inr (e # entries)) })
          (\<lambda>r d. \<forall>es. r = Inr es \<longrightarrow> backed_up root orig es d \<and> map je_Path es = map if_Rel (f # fs)
             \<and> (\<forall>e \<in> set es. entry_made dir e))"
        by (rule after_bind, intro after_ret) (auto intro: backed_up_add split: sum.splits)
      with Inr show ?thesis by simp
    qed
  qed
qed

text \<open>The journal of the backups is valid.\<close>

lemma made_journal:
  assumes "good_names (map je_Path es)" and "\<forall>e \<in> set es. entry_made dir e" and "in_backups root dir"
    and "set (map (ascii_lower \<circ> je_Path) es) \<inter> set seen = {}"
  shows "journal_problem (updates_dir root) seen es = None"
  using assms(1,2,4)
proof (induction es arbitrary: seen)
  case (Cons e es)
  then have "journal_problem (updates_dir root) (ascii_lower (je_Path e) # seen) es = None"
    by (intro Cons.IH) (auto simp: good_names_Cons image_iff)
  moreover have "is_prefix (updates_dir root @ [''backups'']) (join_path (updates_dir root) (je_BackupPath e))" if "je_Existed e"
    using Cons.prems that backup_place_in [OF assms(3)] backup_entry_path by (auto simp: entry_made_def good_names_Cons)
  ultimately show ?case using Cons.prems by (auto simp: journal_problem_Cons good_names_Cons entry_made_def)
qed simp

subsection \<open>The transaction\<close>

definition startable :: "disk_path \<Rightarrow> UpdateState \<Rightarrow> bool" where
  "startable root s \<longleftrightarrow> valid_state root s \<and> us_Status s = ''applying'' \<and> us_Journal s = [] \<and> in_backups root (us_BackupDir s)"

lemma journaled_valid:
  assumes "startable root s" and "journal_problem (updates_dir root) [] es = None" and "\<forall>e \<in> set es. plain_name (je_Path e)"
  shows "valid_state root (s\<lparr>us_Journal := es\<rparr>)" and "under_way (s\<lparr>us_Journal := es\<rparr>)"
    and "valid_state root (s\<lparr>us_Journal := es, us_Status := ''applied_pending_health'', us_UpdatedAt := now\<rparr>)"
  using assms by (auto simp: startable_def valid_state_def validateState_def under_way_def Let_def split: if_splits)

lemma touches_install:
  "set fs \<subseteq> set gs \<Longrightarrow> map je_Path es = map if_Rel gs \<Longrightarrow> touches (journal_files root es) (install_files hash root fs)"
proof (induction fs)
  case (Cons f fs)
  then have "if_Rel f \<in> je_Path ` set es" by (metis image_eqI list.set_intros(1) list.set_map subset_code(1))
  then have "join_path root (if_Rel f) \<in> journal_files root es"
    and "with_suffix (join_path root (if_Rel f)) ''.update-tmp'' \<in> journal_files root es"
    by (auto simp: journal_files_def target_def)
  then have "touches (journal_files root es) (install_file hash root f)"
    unfolding install_file_def Let_def by (intro touching)
  with Cons show ?case by (auto intro!: touching)
qed (simp add: touches_ret)

lemma active_install:
  assumes "valid_state root s" and "map je_Path (us_Journal s) = map if_Rel fs"
  shows "after (\<lambda>d. active_disk root orig s d \<and> file_at d (state_path root) \<noteq> None) (install_files hash root fs)
    (\<lambda>_ d. active_disk root orig s d \<and> file_at d (state_path root) \<noteq> None)"
proof (rule after_touches [OF touches_install [OF subset_refl assms(2)]])
  let ?J = "journal_files root (us_Journal s)"
  note out = journal_files_outside [where root = root and es = "us_Journal s"]
  fix d d'
  assume d: "active_disk root orig s d \<and> file_at d (state_path root) \<noteq> None"
    and same: "\<And>p. p \<notin> ?J \<Longrightarrow> file_at d' p = file_at d p"
  have managed: "\<forall>e \<in> set (us_Journal s). validateManagedPath (je_Path e) = None"
    using valid_entry(1) [OF assms(1)] by blast
  have "active_disk root orig s d'"
    by (rule active_frame [OF conjunct1 [OF d] same]) (use out managed in blast)+
  moreover have "file_at d' (state_path root) = file_at d (state_path root)"
    by (rule same) (use out(1) [OF managed] state_files(1) in blast)
  ultimately show "active_disk root orig s d' \<and> file_at d' (state_path root) \<noteq> None" using d by simp
qed

text \<open>Changing the state on disk from one with a journal to another with the same journal.\<close>

lemma active_write:
  assumes "valid_state root s" "under_way s" "valid_state root s'" "under_way s'" "us_Journal s' = us_Journal s"
  shows "after (\<lambda>d. active_disk root orig s d \<and> file_at d (state_path root) \<noteq> None)
    (writeJSONAtomic (state_path root) (State_doc s'))
    (\<lambda>ok. active_disk root orig (if ok then s' else s))"
proof -
  let ?F = "\<lambda>d. unchanged root orig (us_Journal s) d \<and> backed_up root orig (us_Journal s) d"
  have stable: "?F d'" if "?F d" and same: "\<And>p. p \<notin> state_family root \<Longrightarrow> file_at d' p = file_at d p" for d d'
    using that(1) unchanged_family [OF _ same] backed_up_family [OF _ same assms(1)] by simp
  show ?thesis
    by (rule after_weaken [OF write_state [where F = ?F and old = "Some (State_doc s)" and present = True, OF stable]])
      (use assms in \<open>auto simp: active_disk_def\<close>)
qed

text \<open>Writing the journal makes an idle disk an active one, or leaves it idle.\<close>

lemma journal_write:
  assumes "valid_state root s" "under_way s"
  shows "after (\<lambda>d. idle_disk root orig d \<and> backed_up root orig (us_Journal s) d)
    (writeJSONAtomic (state_path root) (State_doc s))
    (\<lambda>ok d. if ok then active_disk root orig s d \<and> file_at d (state_path root) \<noteq> None else idle_disk root orig d)"
  unfolding after_def
proof (intro allI impI)
  fix w :: world
  let ?d = "wd_disk w" and ?m = "writeJSONAtomic (state_path root) (State_doc s)"
  let ?F = "\<lambda>d. unchanged root orig [] d \<and> backed_up root orig (us_Journal s) d"
  assume d: "idle_disk root orig ?d \<and> backed_up root orig (us_Journal s) ?d"
  obtain ok w' where run: "run_state ?m w = (ok, w')" by (metis surj_pair)
  have stable: "?F d'" if "?F d" and same: "\<And>p. p \<notin> state_family root \<Longrightarrow> file_at d' p = file_at d p" for d d'
    using that(1) unchanged_family [OF _ same] backed_up_family [OF _ same assms(1)] by simp
  have "docs_ok root (wd_disk w') \<and> ?F (wd_disk w') \<and>
      (if ok then latest (state_path root) (wd_disk w') = Some (State_doc s) \<and> file_at (wd_disk w') (state_path root) \<noteq> None
       else latest (state_path root) (wd_disk w') = latest (state_path root) ?d
         \<or> \<not> False \<and> latest (state_path root) (wd_disk w') = None)"
    by (rule after_apply [OF write_state [where F = ?F and present = False, OF stable] _ run])
      (use d in \<open>auto simp: idle_disk_def\<close>)
  moreover have "unchanged root orig (us_Journal s) (wd_disk w')" if "unchanged root orig [] (wd_disk w')"
    using that by (auto simp: unchanged_def)
  ultimately show "if fst (run_state ?m w) then active_disk root orig s (wd_disk (snd (run_state ?m w)))
      \<and> file_at (wd_disk (snd (run_state ?m w))) (state_path root) \<noteq> None
    else idle_disk root orig (wd_disk (snd (run_state ?m w)))"
    using d assms run by (auto simp: active_disk_def idle_disk_def)
qed

lemma after_ret_of: "after P m Q \<Longrightarrow> after P (do { x \<leftarrow> m; ret (f x) }) (\<lambda>_ d. \<exists>x. Q x d)"
  by (rule after_bind) (auto intro: after_ret)

lemma idle_cleanup:
  assumes "in_backups root dir"
  shows "after (idle_disk root orig) (do { _ \<leftarrow> remove_all (join_path (updates_dir root) dir); ret x }) (\<lambda>_. idle_disk root orig)"
  by (rule after_bind [OF idle_backups [OF touches_backups] after_ret]) (use assms in \<open>auto simp: in_backups_def\<close>)

lemma undo_recovers:
  assumes "valid_state root s" "valid_state root s0" "us_Journal s = us_Journal s0"
  shows "after (active_disk root orig s0) (do { undone \<leftarrow> rollback_update hash now root s clear; ret (f undone) })
    (\<lambda>_. recoverable root orig)"
  by (rule after_weaken [OF after_ret_of [OF rollback_recovers [OF assms]]]) auto

text \<open>The steps once the journal is on disk.\<close>

lemma installed_recovers:
  assumes s: "valid_state root s" "under_way s" and names: "map je_Path (us_Journal s) = map if_Rel files"
    and s': "valid_state root (s\<lparr>us_Status := ''applied_pending_health'', us_UpdatedAt := now\<rparr>)"
  shows "after (\<lambda>d. active_disk root orig s d \<and> file_at d (state_path root) \<noteq> None) (do {
      installed \<leftarrow> install_files hash root files;
      if \<not> installed then do { undone \<leftarrow> rollback_update hash now root s False; ret (f undone) }
      else do {
        marked \<leftarrow> writeJSONAtomic (state_path root)
          (State_doc (s\<lparr>us_Status := ''applied_pending_health'', us_UpdatedAt := now\<rparr>));
        if \<not> marked then do {
          undone \<leftarrow> rollback_update hash now root (s\<lparr>us_Status := ''applied_pending_health'', us_UpdatedAt := now\<rparr>) False;
          ret (g undone)
        } else ret x
      } })
    (\<lambda>_. recoverable root orig)"
    (is "after ?A (State_Monad.bind _ ?rest) _")
proof (rule after_bind [OF active_install [OF s(1) names]])
  let ?s = "s\<lparr>us_Status := ''applied_pending_health'', us_UpdatedAt := now\<rparr>"
  have under: "under_way ?s" by (simp add: under_way_def)
  have active: "after (active_disk root orig t) (ret y) (\<lambda>_. recoverable root orig)" for t y
    by (rule after_ret) (auto simp: recoverable_def)
  have undo: "after ?A (do { undone \<leftarrow> rollback_update hash now root s False; ret (f undone) }) (\<lambda>_. recoverable root orig)"
    by (rule after_weaken [OF undo_recovers [OF s(1) s(1) refl]]) auto
  have undo': "after (active_disk root orig s) (do { undone \<leftarrow> rollback_update hash now root ?s False; ret (g undone) })
      (\<lambda>_. recoverable root orig)"
    by (rule undo_recovers [OF s' s(1)]) simp
  have finish: "after ?A (do {
        marked \<leftarrow> writeJSONAtomic (state_path root) (State_doc ?s);
        if \<not> marked then do { undone \<leftarrow> rollback_update hash now root ?s False; ret (g undone) } else ret x })
      (\<lambda>_. recoverable root orig)"
  proof (rule after_bind [OF active_write [OF s s' under]])
    fix marked
    show "after (active_disk root orig (if marked then ?s else s))
        (if \<not> marked then do { undone \<leftarrow> rollback_update hash now root ?s False; ret (g undone) } else ret x)
        (\<lambda>_. recoverable root orig)"
      using undo' active [of ?s x] by (cases marked) simp_all
  qed simp
  show "after ?A (?rest installed) (\<lambda>_. recoverable root orig)" for installed
    using undo finish by (intro after_if) simp_all
qed

lemma transact_recovers:
  assumes s: "startable root s" and names: "good_names (map if_Rel files)"
  shows "after (idle_disk root orig) (transact hash now root s files) (\<lambda>_. recoverable root orig)"
proof -
  let ?I = "idle_disk root orig" and ?dir = "us_BackupDir s"
  have dir: "in_backups root ?dir" using s by (simp add: startable_def)
  have managed: "\<forall>f \<in> set files. validateManagedPath (if_Rel f) = None" using names by (simp add: good_names_def)
  have idle: "recoverable root orig d" if "?I d" for d using that by (simp add: recoverable_def)
  have mkdir: "after ?I (step (mkdir_all_act (join_path (updates_dir root) ?dir))) (\<lambda>_. ?I)"
    by (rule idle_backups [where S = "{}"]) (auto intro: touching)
  have cleanup: "after ?I (do { _ \<leftarrow> remove_all (join_path (updates_dir root) ?dir); ret x }) (\<lambda>_. recoverable root orig)" for x
    by (rule after_weaken [OF idle_cleanup [OF dir]]) (auto simp: idle)
  let ?made = "\<lambda>r d. ?I d \<and> (\<forall>es. r = Inr es \<longrightarrow> backed_up root orig es d \<and> map je_Path es = map if_Rel files
       \<and> (\<forall>e \<in> set es. entry_made ?dir e))"
  have backups: "after ?I (backup_files root ?dir files) ?made"
    by (rule after_both [OF idle_backups [OF touches_backup_files [OF managed]] files_backed_up [OF names dir]])
      (use backup_place_in [OF dir] in auto)
  show ?thesis
    unfolding transact_def Let_def
  proof (rule after_bind [OF mkdir], rule after_if, goal_cases)
    case (1 made)
    show ?case by (rule after_ret) (rule idle)
  next
    case (2 made)
    show ?case
    proof (rule after_bind [OF backups], goal_cases)
      case (1 journal)
      show ?case
      proof (cases journal)
        case (Inl e)
        with cleanup [of "Inl e"] show ?thesis by simp
      next
        case (Inr es)
        let ?s = "s\<lparr>us_Journal := es\<rparr>"
        show ?thesis
        proof (cases "map je_Path es = map if_Rel files \<and> (\<forall>e \<in> set es. entry_made ?dir e)")
          case False
          then show ?thesis unfolding Inr by (auto simp: after_def)
        next
          case True
          then have "good_names (map je_Path es)" using names by simp
          moreover from this have "\<forall>e \<in> set es. plain_name (je_Path e)" by (simp add: good_names_def)
          ultimately have valid: "valid_state root ?s" "under_way ?s"
              "valid_state root (?s\<lparr>us_Status := ''applied_pending_health'', us_UpdatedAt := now\<rparr>)"
            using journaled_valid [OF s made_journal [OF _ _ dir]] True by auto
          have wr: "after (?made (Inr es)) (writeJSONAtomic (state_path root) (State_doc ?s))
              (\<lambda>ok d. if ok then active_disk root orig ?s d \<and> file_at d (state_path root) \<noteq> None else ?I d)"
            by (rule after_weaken [OF journal_write [OF valid(1,2)]]) (auto split: if_splits)
          note install = installed_recovers [OF valid(1,2) _ valid(3), where files = files]
          show ?thesis
            unfolding Inr sum.case
          proof (rule after_bind [OF wr])
            fix written
            show "after (\<lambda>d. if written then active_disk root orig ?s d \<and> file_at d (state_path root) \<noteq> None else ?I d)
              (if \<not> written then do { _ \<leftarrow> remove_all (join_path (updates_dir root) (us_BackupDir s)); ret (Inl ''journal_write_failed'') }
               else do {
                installed \<leftarrow> install_files hash root files;
                if \<not> installed then do {
                  undone \<leftarrow> rollback_update hash now root ?s False;
                  ret (case undone of Inl _ \<Rightarrow> Inl ''apply_and_rollback_failed'' | Inr _ \<Rightarrow> Inl ''apply_failed'')
                } else do {
                  marked \<leftarrow> writeJSONAtomic (state_path root)
                    (State_doc (?s\<lparr>us_Status := ''applied_pending_health'', us_UpdatedAt := now\<rparr>));
                  if \<not> marked then do {
                    undone \<leftarrow> rollback_update hash now root (?s\<lparr>us_Status := ''applied_pending_health'', us_UpdatedAt := now\<rparr>) False;
                    ret (case undone of Inl _ \<Rightarrow> Inl ''apply_and_rollback_failed'' | Inr _ \<Rightarrow> Inl ''state_write_failed'')
                  } else ret (Inr (result ''apply-pending'' ''applied_pending_health'' (us_CurrentVersion (?s\<lparr>us_Status := ''applied_pending_health'', us_UpdatedAt := now\<rparr>))
                      (us_TargetVersion (?s\<lparr>us_Status := ''applied_pending_health'', us_UpdatedAt := now\<rparr>)) True ''update applied; health commit required''))
                }
              }) (\<lambda>_. recoverable root orig)"
              using cleanup install True by (cases written) simp_all
          qed
        qed
      qed
    qed
  qed
qed

subsection \<open>What a finished transaction has installed\<close>

text \<open>The file of the package is at its place, with the content it had in \<open>d0\<close>.\<close>

definition installed :: "disk \<Rightarrow> disk_path \<Rightarrow> installFile \<Rightarrow> disk \<Rightarrow> bool" where
  "installed d0 root f d \<longleftrightarrow>
     (if if_Remove f then file_at d (join_path root (if_Rel f)) = None
      else map_option fst (file_at d (join_path root (if_Rel f))) = map_option fst (file_at d0 (if_Src f))
        \<and> map_option snd (file_at d (join_path root (if_Rel f))) = Some (if_Mode f))"

definition extracted_source :: "disk_path \<Rightarrow> disk \<Rightarrow> installFile \<Rightarrow> bool" where
  "extracted_source root d f \<longleftrightarrow>
     if_Remove f \<or> is_prefix (updates_dir root @ [''extracted'']) (if_Src f) \<and> file_at d (if_Src f) \<noteq> None"

lemma extracted_not_own:
  "is_prefix (updates_dir root @ [''extracted'']) p \<Longrightarrow> is_prefix (updates_dir root) p"
  "is_prefix (updates_dir root @ [''extracted'']) p \<Longrightarrow> \<not> is_prefix (updates_dir root @ [''backups'']) p"
  by (auto dest!: is_prefix_obtain)

definition same_sources :: "disk \<Rightarrow> installFile list \<Rightarrow> disk \<Rightarrow> bool" where
  "same_sources d0 fs d \<longleftrightarrow> (\<forall>f \<in> set fs. \<not> if_Remove f \<longrightarrow> file_at d (if_Src f) = file_at d0 (if_Src f))"

lemma same_sources_touches:
  assumes "touches S m" and "\<forall>f \<in> set fs. extracted_source root d0 f"
    and "\<And>p. p \<in> S \<Longrightarrow> \<not> is_prefix (updates_dir root @ [''extracted'']) p"
  shows "after (same_sources d0 fs) m (\<lambda>_. same_sources d0 fs)"
proof (rule after_touches [OF assms(1)])
  fix d d' assume d: "same_sources d0 fs d" and same: "\<And>p. p \<notin> S \<Longrightarrow> file_at d' p = file_at d p"
  have "file_at d' (if_Src f) = file_at d (if_Src f)" if "f \<in> set fs" "\<not> if_Remove f" for f
    by (rule same) (use assms(2,3) that in \<open>auto simp: extracted_source_def\<close>)
  with d show "same_sources d0 fs d'" by (simp add: same_sources_def)
qed

definition install_place :: "disk_path \<Rightarrow> installFile \<Rightarrow> disk_path set" where
  "install_place root f = {join_path root (if_Rel f), with_suffix (join_path root (if_Rel f)) ''.update-tmp''}"

lemma touches_install_file: "touches (install_place root f) (install_file hash root f)"
  unfolding install_file_def Let_def install_place_def by (intro touching) auto

lemma touches_install_files: "touches (\<Union> (install_place root ` set fs)) (install_files hash root fs)"
  by (induction fs) (auto intro!: touching intro: touches_mono [OF touches_install_file] touches_mono)

lemma install_place_outside:
  "validateManagedPath (if_Rel f) = None \<Longrightarrow> p \<in> install_place root f \<Longrightarrow> \<not> is_prefix (updates_dir root) p"
  using target_outside temp_outside by (auto simp: install_place_def)

lemma file_installed:
  assumes "validateManagedPath (if_Rel f) = None" and "extracted_source root d0 f" and "f \<in> set fs"
  shows "after (same_sources d0 fs) (install_file hash root f) (\<lambda>ok d. ok \<longrightarrow> installed d0 root f d)"
proof (cases "if_Remove f")
  case True
  then show ?thesis by (auto simp: install_file_def installed_def dest!: remove_files intro!: after_step)
next
  case False
  with assms(2) obtain c m where src: "file_at d0 (if_Src f) = Some (c, m)"
    and place: "is_prefix (updates_dir root) (if_Src f)"
    by (auto simp: extracted_source_def dest: extracted_not_own(1))
  from place have sep: "if_Src f \<noteq> join_path root (if_Rel f)" "if_Src f \<noteq> with_suffix (join_path root (if_Rel f)) ''.update-tmp''"
    using target_outside temp_outside assms(1) by auto
  show ?thesis
    unfolding install_file_def Let_def
    by (rule after_weaken [where P = "\<lambda>d. file_at d (if_Src f) = Some (c, m)", OF _ _ ])
      (use False src assms(3) in \<open>auto simp: same_sources_def installed_def intro!: after_weaken [OF replaceFile_installs [OF sep]]\<close>)
qed

text \<open>Later files of the transaction leave earlier ones alone.\<close>

lemma install_places_apart:
  assumes "good_names (if_Rel f # map if_Rel fs)" and "g \<in> set fs"
  shows "join_path root (if_Rel f) \<notin> install_place root g"
proof
  assume in_place: "join_path root (if_Rel f) \<in> install_place root g"
  have f: "validateManagedPath (if_Rel f) = None" "plain_name (if_Rel f)"
    and g: "validateManagedPath (if_Rel g) = None" and differ: "ascii_lower (if_Rel f) \<noteq> ascii_lower (if_Rel g)"
    using assms by (auto simp: good_names_def)
  have "\<not> is_temp (join_path root (if_Rel f))" using f by (simp add: plain_name_def join_managed is_temp_def)
  then have "join_path root (if_Rel f) \<noteq> with_suffix (join_path root (if_Rel g)) ''.update-tmp''"
    by (metis temp_is_temp)
  with in_place have "if_Rel f = if_Rel g" using target_inj f(1) g by (auto simp: install_place_def)
  with differ show False by simp
qed

lemma files_installed:
  assumes "good_names (map if_Rel gs)" and "\<forall>f \<in> set fs. extracted_source root d0 f" and "set gs \<subseteq> set fs"
  shows "after (same_sources d0 fs) (install_files hash root gs)
    (\<lambda>ok d. ok \<longrightarrow> (\<forall>f \<in> set gs. installed d0 root f d))"
  using assms(1,3)
proof (induction gs)
  case Nil
  then show ?case by (simp add: after_def)
next
  case (Cons f gs)
  have f: "validateManagedPath (if_Rel f) = None" using Cons.prems(1) by (simp add: good_names_def)
  have keep_src: "after (same_sources d0 fs) (install_file hash root f) (\<lambda>_. same_sources d0 fs)"
    by (rule same_sources_touches [OF touches_install_file assms(2)])
      (use install_place_outside [OF f] extracted_not_own(1) in blast)
  have keep: "after (installed d0 root f) (install_files hash root gs) (\<lambda>_. installed d0 root f)"
    by (rule after_touches [OF touches_install_files])
      (use install_places_apart [of f gs] Cons.prems(1) in \<open>auto simp: installed_def\<close>)
  have rest: "after (same_sources d0 fs) (install_files hash root gs) (\<lambda>ok d. ok \<longrightarrow> (\<forall>f \<in> set gs. installed d0 root f d))"
    by (rule Cons.IH) (use Cons.prems in \<open>simp_all add: good_names_Cons\<close>)
  have one: "after (same_sources d0 fs) (install_file hash root f)
      (\<lambda>ok d. same_sources d0 fs d \<and> (ok \<longrightarrow> installed d0 root f d))"
    by (rule after_both [OF keep_src file_installed [OF f]]) (use assms(2) Cons.prems(2) in auto)
  show ?case
    unfolding install_files.simps
  proof (rule after_bind [OF one], intro after_if after_fail)
    fix ok :: bool assume ok
    then show "after (\<lambda>d. same_sources d0 fs d \<and> (ok \<longrightarrow> installed d0 root f d)) (install_files hash root gs)
        (\<lambda>ok d. ok \<longrightarrow> (\<forall>f \<in> set (f # gs). installed d0 root f d))"
      using rest keep unfolding after_def by auto
  qed
qed

definition if_success :: "(disk \<Rightarrow> bool) \<Rightarrow> outcome \<Rightarrow> disk \<Rightarrow> bool" where
  "if_success A r d \<longleftrightarrow> (case r of Inl _ \<Rightarrow> True | Inr _ \<Rightarrow> A d)"

lemma if_success_simps [simp]: "if_success A (Inl e) d" "if_success A (Inr x) d = A d"
  by (simp_all add: if_success_def)

lemma after_failure: "(\<And>y d. if_success A (g y) d) \<Longrightarrow> after P (do { y \<leftarrow> m; ret (g y) }) (if_success A)"
  by (rule after_bind [where R = "\<lambda>_ _. True"]) (simp_all add: after_def)

lemma after_refusal: "after P (ret (Inl e)) (if_success A)"
  by (simp add: after_def)

text \<open>A transaction that reports no error has installed every file and removed every file to remove.\<close>

lemma transact_installs:
  assumes s: "startable root s" and names: "good_names (map if_Rel files)"
    and src: "\<forall>f \<in> set files. extracted_source root d0 f"
  shows "after (same_sources d0 files) (transact hash now root s files)
    (if_success (\<lambda>d. \<forall>f \<in> set files. installed d0 root f d))"
proof -
  let ?K = "same_sources d0 files" and ?dir = "us_BackupDir s"
  let ?all = "\<lambda>d. \<forall>f \<in> set files. installed d0 root f d"
  have dir: "in_backups root ?dir" using s by (simp add: startable_def)
  have managed: "\<forall>f \<in> set files. validateManagedPath (if_Rel f) = None" using names by (simp add: good_names_def)
  have mkdir: "after ?K (step (mkdir_all_act (join_path (updates_dir root) ?dir))) (\<lambda>_. ?K)"
    by (rule same_sources_touches [where S = "{}", OF _ src]) (auto intro: touching)
  have backups: "after ?K (backup_files root ?dir files) (\<lambda>_. ?K)"
    by (rule same_sources_touches [OF touches_backup_files [OF managed] src])
      (use backup_place_in [OF dir] extracted_not_own(2) in blast)
  have state_outside: "p \<in> state_family root \<Longrightarrow> \<not> is_prefix (updates_dir root @ [''extracted'']) p" for p
    by (auto simp: state_family_def state_path_def with_suffix_def butlast_append)
  have write_touches: "touches (state_family root) (writeJSONAtomic (state_path root) c)" for c
    by (rule touches_writeJSON) (simp_all add: state_family_def)
  have journal: "after ?K (writeJSONAtomic (state_path root) c) (\<lambda>_. ?K)" for c
    by (rule same_sources_touches [OF write_touches src state_outside])
  have "join_path root (if_Rel f) \<notin> state_family root" if "f \<in> set files" for f
    using target_outside managed that state_family_not(1) by blast
  then have mark: "after ?all (writeJSONAtomic (state_path root) c) (\<lambda>_. ?all)" for c
    by (intro after_touches [OF write_touches]) (auto simp: installed_def)
  note install = files_installed [OF names src subset_refl, of hash]
  have install': "after (\<lambda>d. ok \<longrightarrow> ?all d) (if \<not> ok then m else n) (if_success ?all)"
    if "after (\<lambda>_. True) m (if_success ?all)" "after ?all n (if_success ?all)" for ok m n
    using that by (cases ok) (simp_all add: after_def)
  show ?thesis
    unfolding transact_def Let_def
  proof (rule after_bind [OF mkdir], rule after_if [OF after_refusal], rule after_bind [OF backups])
    fix journal_found
    show "after ?K (case journal_found of
          Inl e \<Rightarrow> do { _ \<leftarrow> remove_all (join_path (updates_dir root) ?dir); ret (Inl e) }
        | Inr entries \<Rightarrow> do {
            written \<leftarrow> writeJSONAtomic (state_path root) (State_doc (s\<lparr>us_Journal := entries\<rparr>));
            if \<not> written then do { _ \<leftarrow> remove_all (join_path (updates_dir root) ?dir); ret (Inl ''journal_write_failed'') }
            else do {
              installed \<leftarrow> install_files hash root files;
              if \<not> installed then do {
                undone \<leftarrow> rollback_update hash now root (s\<lparr>us_Journal := entries\<rparr>) False;
                ret (case undone of Inl _ \<Rightarrow> Inl ''apply_and_rollback_failed'' | Inr _ \<Rightarrow> Inl ''apply_failed'')
              } else do {
                marked \<leftarrow> writeJSONAtomic (state_path root)
                  (State_doc (s\<lparr>us_Journal := entries, us_Status := ''applied_pending_health'', us_UpdatedAt := now\<rparr>));
                if \<not> marked then do {
                  undone \<leftarrow> rollback_update hash now root
                    (s\<lparr>us_Journal := entries, us_Status := ''applied_pending_health'', us_UpdatedAt := now\<rparr>) False;
                  ret (case undone of Inl _ \<Rightarrow> Inl ''apply_and_rollback_failed'' | Inr _ \<Rightarrow> Inl ''state_write_failed'')
                } else ret (Inr (result ''apply-pending'' ''applied_pending_health''
                    (us_CurrentVersion (s\<lparr>us_Journal := entries, us_Status := ''applied_pending_health'', us_UpdatedAt := now\<rparr>))
                    (us_TargetVersion (s\<lparr>us_Journal := entries, us_Status := ''applied_pending_health'', us_UpdatedAt := now\<rparr>))
                    True ''update applied; health commit required''))
              }
            }
          }) (if_success ?all)"
    proof (cases journal_found)
      case (Inl e)
      then show ?thesis by (simp add: after_failure)
    next
      case (Inr entries)
      show ?thesis
        unfolding Inr sum.case
        by (rule after_bind [OF journal], rule after_if, rule after_failure, simp, rule after_bind [OF install], rule install')
          (auto intro!: after_failure after_bind [OF mark] after_ret split: sum.split)
    qed
  qed
qed

end
