(* ===== verification/Update_Contents.thy ===== *)
theory Update_Contents
  imports Update_Transaction
begin

text \<open>
  What can stand in a file after the package updater (\<open>go-service/internal/packageupdate/update.go\<close>)
  has run: nothing it did not find in a file or an archive, or write as a state. The law is a locale,
  so it holds of every property of contents that passes from an archive to its entries; here it
  is used for the names that manifests list.
\<close>

definition sound :: "(content \<Rightarrow> bool) \<Rightarrow> (disk_path \<Rightarrow> (content \<times> nat) option) \<Rightarrow> bool" where
  "sound fine f \<longleftrightarrow> (\<forall>p c m. f p = Some (c, m) \<longrightarrow> fine c)"

lemma soundD: "sound fine f \<Longrightarrow> f p = Some (c, m) \<Longrightarrow> fine c"
  unfolding sound_def by blast

lemma sound_update: "sound fine f \<Longrightarrow> (\<And>c m. x = Some (c, m) \<Longrightarrow> fine c) \<Longrightarrow> sound fine (f(p := x))"
  unfolding sound_def by (metis fun_upd_apply)

definition all_files :: "(content \<Rightarrow> bool) \<Rightarrow> disk \<Rightarrow> bool" where
  "all_files fine d \<longleftrightarrow> sound fine (file_at d)"

definition keeps :: "(content \<Rightarrow> bool) \<Rightarrow> (world, 'a) state \<Rightarrow> bool" where
  "keeps fine m \<longleftrightarrow> after (all_files fine) m (\<lambda>_. all_files fine)"

named_theorems keeping \<open>operations that bring no new contents\<close>

lemma keeps_ret [keeping]: "keeps fine (ret x)"
  by (simp add: keeps_def after_ret)

lemma keeps_bind [keeping]: "keeps fine m \<Longrightarrow> (\<And>x. keeps fine (f x)) \<Longrightarrow> keeps fine (State_Monad.bind m f)"
  unfolding keeps_def by (rule after_bind)

lemma keeps_now:
  assumes "\<And>d. all_files fine d \<Longrightarrow> keeps fine (f d)"
  shows "keeps fine (State_Monad.bind disk_now f)"
  unfolding keeps_def
proof (rule after_bind [OF after_now])
  fix d
  show "after (\<lambda>d'. d = d' \<and> all_files fine d') (f d) (\<lambda>_. all_files fine)"
    using assms [of d] by (auto simp: keeps_def after_def)
qed

lemma keeps_if [keeping]: "(c \<Longrightarrow> keeps fine m) \<Longrightarrow> (\<not> c \<Longrightarrow> keeps fine n) \<Longrightarrow> keeps fine (if c then m else n)"
  by simp

lemma keeps_let [keeping]: "keeps fine (f x) \<Longrightarrow> keeps fine (let y = x in f y)"
  by simp

lemma keeps_option [keeping]:
  "(x = None \<Longrightarrow> keeps fine m) \<Longrightarrow> (\<And>y. x = Some y \<Longrightarrow> keeps fine (f y))
    \<Longrightarrow> keeps fine (case x of None \<Rightarrow> m | Some y \<Rightarrow> f y)"
  by (cases x) simp_all

lemma keeps_sum [keeping]:
  "(\<And>y. x = Inl y \<Longrightarrow> keeps fine (f y)) \<Longrightarrow> (\<And>y. x = Inr y \<Longrightarrow> keeps fine (g y))
    \<Longrightarrow> keeps fine (case x of Inl y \<Rightarrow> f y | Inr y \<Rightarrow> g y)"
  by (cases x) simp_all

lemma keeps_prod [keeping]:
  "(\<And>a b. x = (a, b) \<Longrightarrow> keeps fine (f a b)) \<Longrightarrow> keeps fine (case x of (a, b) \<Rightarrow> f a b)"
  by (cases x) simp

lemma keeps_bool [keeping]:
  "(b \<Longrightarrow> keeps fine m) \<Longrightarrow> (\<not> b \<Longrightarrow> keeps fine n) \<Longrightarrow> keeps fine (case b of True \<Rightarrow> m | False \<Rightarrow> n)"
  by (cases b) simp_all

lemma keeps_step:
  "(\<And>d d'. all_files fine d \<Longrightarrow> act d = Some d' \<Longrightarrow> all_files fine d') \<Longrightarrow> keeps fine (step act)"
  unfolding keeps_def by (rule after_step)

lemma keeps_mkdir [keeping]: "keeps fine (step (mkdir_all_act p))"
  by (rule keeps_step) (simp add: mkdir_files all_files_def)

lemma keeps_remove [keeping]: "keeps fine (step (remove_act p))"
  by (rule keeps_step) (auto simp: all_files_def dest!: remove_files intro: sound_update)

lemma keeps_drop [keeping]: "keeps fine (step (\<lambda>d. Some (map_remove p d)))"
  by (rule keeps_step) (auto simp: all_files_def intro: sound_update)

lemma keeps_rename [keeping]: "keeps fine (step (rename_act a b))"
  by (rule keeps_step) (auto simp: all_files_def dest!: rename_files split: if_splits intro!: sound_update dest: soundD)

lemma keeps_aside [keeping]: "keeps fine (step (\<lambda>d. if map_of d a = None then Some d else rename_act a b d))"
  by (rule keeps_step) (auto simp: all_files_def dest!: rename_files split: if_splits intro!: sound_update dest: soundD)

lemma keeps_make_dir [keeping]: "keeps fine (step (make_dir_act p))"
  proof (rule keeps_step)
  fix d d' assume d: "all_files fine d" and made: "make_dir_act p d = Some d'"
  then have "file_at d' = file_at d"
    by (auto simp: make_dir_act_def file_at_def split: if_splits intro!: file_at_directory [unfolded file_at_def])
  with d show "all_files fine d'" by (simp add: all_files_def)
qed

lemma keeps_remove_each [keeping]: "keeps fine (remove_each ps)"
  by (induction ps) (auto intro!: keeping)

lemma keeps_remove_all [keeping]: "keeps fine (remove_all p)"
  unfolding remove_all_def by (intro keeps_now keeping)

lemma keeps_write [keeping]: "fine c \<Longrightarrow> keeps fine (step (write_act p c))"
  by (rule keeps_step) (auto simp: all_files_def dest!: write_files intro!: sound_update)

lemma all_files_content: "all_files fine d \<Longrightarrow> file_at d p = Some (c, m) \<Longrightarrow> fine c"
  unfolding all_files_def by (rule soundD)

subsection \<open>The law\<close>

locale content_law =
  fixes fine :: "content \<Rightarrow> bool"
  assumes torn: "fine Torn"
    and state_doc: "fine (State_doc s)"
    and unpacked: "fine (Archive es) \<Longrightarrow> e \<in> set es \<Longrightarrow> fine (ze_Content e)"
begin

lemma create [keeping]: "keeps fine (step (create_act p mode))"
  by (rule keeps_step) (auto simp: all_files_def torn dest!: create_files intro!: sound_update)

lemma truncate [keeping]: "keeps fine (step (truncate_act p mode))"
  by (rule keeps_step) (auto simp: all_files_def torn dest!: truncate_files intro!: sound_update)

lemma copy_file [keeping]: "keeps fine (copyFile src dst mode)"
  unfolding copyFile_def by (rule keeps_bind, rule keeping, rule keeps_now, intro keeping) (use all_files_content in auto)

lemma replace_file [keeping]: "keeps fine (replaceFile hash src dst mode integrity)"
  unfolding replaceFile_def Let_def by (intro keeping keeps_now)

lemma write_JSON [keeping]: "fine c \<Longrightarrow> keeps fine (writeJSONAtomic p c)"
  unfolding writeJSONAtomic_def Let_def by (intro keeping)

lemma extract_one [keeping]: "fine (ze_Content zf) \<Longrightarrow> keeps fine (extract_entry hash dir zf)"
  unfolding extract_entry_def Let_def by (intro keeping)

lemma extract_all: "\<forall>e \<in> set es. fine (ze_Content e) \<Longrightarrow> keeps fine (extract_entries hash dir es)"
  by (induction es) (auto intro!: keeping)

lemma unpack [keeping]: "keeps fine (extractVerifiedArchive hash asset extractedRoot name)"
proof -
  have *: "keeps fine (case x of Some (Archive es, _) \<Rightarrow>
        (if archiveLimit_files < length es \<or> check_entries [] 0 es \<noteq> None then ret False else extract_entries hash dir es)
      | _ \<Rightarrow> ret False)" if "\<And>c m. x = Some (c, m) \<Longrightarrow> fine c" for x dir
    using that unpacked by (cases x) (auto intro!: keeping extract_all split: content.split)
  show ?thesis
    unfolding extractVerifiedArchive_def Let_def
    by (rule keeps_bind keeps_mkdir keeps_if keeps_ret keeps_make_dir keeps_now * keeps_remove_all | rule all_files_content, assumption+)+
qed

lemma restore_one [keeping]: "keeps fine (restore_entry hash root e)"
  unfolding restore_entry_def Let_def by (intro keeping keeps_now)

lemma restore_all [keeping]: "keeps fine (restore_entries hash root es)"
  by (induction es) (auto intro!: keeping)

lemma undo_cleanup [keeping]: "keeps fine (rollback_cleanup root s clear)"
  unfolding rollback_cleanup_def by (intro keeping state_doc)

lemma undo [keeping]: "keeps fine (rollback_update hash now root s clear)"
  unfolding rollback_update_def by (intro keeping state_doc)

lemma backup_one [keeping]: "keeps fine (backup_file root dir f)"
  unfolding backup_file_def Let_def by (intro keeping keeps_now) (auto split: disk_node.split intro!: keeping)

lemma backup_all [keeping]: "keeps fine (backup_files root dir fs)"
  by (induction fs) (auto intro!: keeping)

lemma install_one [keeping]: "keeps fine (install_file hash root f)"
  unfolding install_file_def Let_def by (intro keeping)

lemma install_all [keeping]: "keeps fine (install_files hash root fs)"
  by (induction fs) (auto intro!: keeping)

lemma transaction [keeping]: "keeps fine (transact hash now root s fs)"
  unfolding transact_def Let_def by (intro keeping state_doc)

lemma candidate [keeping]: "keeps fine (install_candidate hash now stamp runnerPath root extracted p)"
  unfolding install_candidate_def by (intro keeping keeps_now)

lemma begin_one [keeping]: "keeps fine (begin_update hash now stamp cwd runner name root p)"
  unfolding begin_update_def by (intro keeping keeps_now)

lemma clean_commit [keeping]: "keeps fine (commit_cleanup now root s)"
  unfolding commit_cleanup_def by (intro keeping keeps_now state_doc)

lemma commit [keeping]: "keeps fine (Commit now root)"
  unfolding Commit_def Let_def by (intro keeping keeps_now state_doc)

lemma roll_back [keeping]: "keeps fine (Rollback hash now root)"
  unfolding Rollback_def by (intro keeping keeps_now)

lemma commit_again [keeping]: "keeps fine (finish_commit now root s)"
  unfolding finish_commit_def by (intro keeping)

lemma continue [keeping]: "keeps fine (continue_update hash now stamp cwd runner name root state)"
  unfolding continue_update_def by (intro keeping keeps_now)

lemma apply_update: "keeps fine (applyPending hash now stamp cwd runner name root)"
  unfolding applyPending_def by (intro keeping keeps_now)

end

end
