(* ===== verification/Update_Candidate.thy ===== *)
theory Update_Candidate
  imports Update_Apply Update_Contents "HOL-Library.Multiset"
begin

text \<open>
  What a candidate that \<open>validateExtractedCandidate\<close> accepts can make the package updater do
  (\<open>go-service/internal/packageupdate/update.go\<close>): its files and the files to remove have managed
  names, all different, provided that no manifest lists the manifest itself or a temporary name. With
  the transaction of \<open>Update_Apply\<close> and the law of \<open>Update_Contents\<close>, a history of calls
  stays recoverable.
\<close>

subsection \<open>Canonical names\<close>

definition fixes_bytes :: "(char \<Rightarrow> char) \<Rightarrow> string list \<Rightarrow> bool" where
  "fixes_bytes f encs \<longleftrightarrow> (\<forall>p \<in> set encs. \<forall>c \<in> set p. \<forall>x. f x = c \<longleftrightarrow> x = c)"

lemma is_prefix_map: "\<forall>c \<in> set p. \<forall>x. f x = c \<longleftrightarrow> x = c \<Longrightarrow> is_prefix p (map f s) \<longleftrightarrow> is_prefix p s"
proof (induction p arbitrary: s)
  case (Cons c p)
  then have "f x = c \<longleftrightarrow> x = c" "is_prefix p (map f xs) \<longleftrightarrow> is_prefix p xs" for x xs by simp_all
  then show ?case by (cases s) (simp_all add: eq_commute [of c])
qed simp

lemma drop_space_map:
  assumes "fixes_bytes f encs"
  shows "drop_space encs (map f s) = map_option (map f) (drop_space encs s)"
proof -
  have "filter (\<lambda>p. is_prefix p (map f s)) encs = filter (\<lambda>p. is_prefix p s) encs"
  proof (rule filter_cong [OF refl])
    fix p assume "p \<in> set encs"
    with assms show "is_prefix p (map f s) = is_prefix p s" by (intro is_prefix_map) (simp add: fixes_bytes_def)
  qed
  then show ?thesis by (simp add: drop_space_def drop_map split: list.split)
qed

lemma trim_left_map:
  assumes "fixes_bytes f encs"
  shows "trim_left encs (map f s) = map f (trim_left encs s)"
proof -
  have "trim_left_fuel n encs (map f s) = map f (trim_left_fuel n encs s)" for n
    by (induction n arbitrary: s) (auto simp: drop_space_map [OF assms] split: option.split)
  then show ?thesis by (simp add: trim_left_def)
qed

lemma space_bytes: "fixes_bytes (\<lambda>c. if c = CHR 0x5C then CHR ''/'' else c) space_encodings"
  by (simp add: fixes_bytes_def space_encodings_def)

lemma fixes_bytes_rev: "fixes_bytes f encs \<Longrightarrow> fixes_bytes f (map rev encs)"
  by (auto simp: fixes_bytes_def)

lemma trim_backslashes: "trim_space (backslashes s) = backslashes (trim_space s)"
  unfolding trim_space_def backslashes_def
  by (simp add: trim_left_map [OF space_bytes] trim_left_map [OF fixes_bytes_rev [OF space_bytes]] rev_map)

lemma backslashes_idem [simp]: "backslashes (backslashes s) = backslashes s"
  by (induction s) auto

lemma canonical_idem [simp]: "canonicalRelativePath (canonicalRelativePath v) = canonicalRelativePath v"
  by (simp add: canonicalRelativePath_def trim_backslashes)

subsection \<open>Names that manifests list\<close>

definition manifest_name :: "manifestFile \<Rightarrow> string" where
  "manifest_name mf = canonicalRelativePath (mf_Path mf)"

definition fine_manifest :: "packageManifest \<Rightarrow> bool" where
  "fine_manifest m \<longleftrightarrow> (\<forall>mf \<in> set (pm_Files m).
     plain_name (manifest_name mf) \<and> ascii_lower (manifest_name mf) \<noteq> ascii_lower ManifestName)"

fun fine_content :: "content \<Rightarrow> bool" and fine_entry :: "zip_entry \<Rightarrow> bool" where
  "fine_content (Manifest_doc m) = fine_manifest m"
| "fine_content (Archive es) = (\<forall>e \<in> set es. fine_entry e)"
| "fine_content _ = True"
| "fine_entry (ZipEntry name dir regular n mode c) = fine_content c"

lemma fine_entry_content: "fine_entry e = fine_content (ze_Content e)"
  by (cases e) simp

interpretation fine: content_law fine_content
  by unfold_locales (auto simp: fine_entry_content)

lemma manifest_read:
  assumes "all_files fine_content d" and "readPackageManifest d p = Some m"
  shows "fine_manifest m"
proof -
  have "readJSON as_manifest d p = Inr (Some m)"
    using assms(2) by (simp add: readPackageManifest_def split: sum.splits option.splits if_splits)
  then obtain c mode where c: "file_at d p = Some (c, mode)" "as_manifest c = Some m"
    by (auto simp: readJSON_def file_at_def split: option.splits disk_node.splits)
  then have "c = Manifest_doc m" by (cases c) auto
  with all_files_content [OF assms(1) c(1)] show ?thesis by simp
qed

text \<open>The files of the new package.\<close>

lemma verified_names:
  assumes "verify_files hash d root seen ms = Some (files, seen')"
  shows "map if_Rel files = map manifest_name ms
    \<and> (\<forall>mf \<in> set ms. validateManagedPath (manifest_name mf) = None)
    \<and> distinct (map (ascii_lower \<circ> manifest_name) ms)
    \<and> set (map (ascii_lower \<circ> manifest_name) ms) \<inter> set seen = {}"
  using assms
proof (induction ms arbitrary: seen files seen')
  case (Cons mf ms)
  obtain fs where fs: "verify_files hash d root (ascii_lower (manifest_name mf) # seen) ms = Some (fs, seen')"
    and files: "map if_Rel files = manifest_name mf # map if_Rel fs"
    and mf: "validateManagedPath (manifest_name mf) = None" "ascii_lower (manifest_name mf) \<notin> set seen"
    using Cons.prems by (auto simp: Let_def manifest_name_def split: if_splits option.splits)
  from Cons.IH [OF fs] files mf show ?case by auto
qed auto

lemma good_names_mset: "mset a = mset b \<Longrightarrow> good_names a \<Longrightarrow> good_names b"
proof -
  assume "mset a = mset b" and a: "good_names a"
  then have "set a = set b" "mset (map ascii_lower a) = mset (map ascii_lower b)"
    by (auto dest: mset_eq_setD)
  with a show "good_names b" unfolding good_names_def by (metis mset_eq_imp_distinct_iff)
qed

lemma package_names:
  assumes "verifyNewPackage hash d root m required = Some files" and "fine_manifest m"
  shows "good_names (map if_Rel files)"
    and "if_Rel ` set files = manifest_name ` set (pm_Files m)"
proof -
  obtain fs seen where fs: "verify_files hash d root [] (pm_Files m) = Some (fs, seen)"
    and files: "files = sort_key if_Rel fs"
    using assms(1) by (auto simp: verifyNewPackage_def split: option.splits if_splits)
  have "good_names (map if_Rel fs)"
    using verified_names [OF fs] assms(2) by (auto simp: good_names_def fine_manifest_def comp_def)
  then show "good_names (map if_Rel files)"
    by (rule good_names_mset [rotated]) (simp add: files mset_map)
  have "set (map if_Rel fs) = set (map manifest_name (pm_Files m))" using verified_names [OF fs] by simp
  then show "if_Rel ` set files = manifest_name ` set (pm_Files m)" by (simp add: files)
qed

text \<open>The files of the installed package.\<close>

definition good_record :: "(string \<times> manifestFile) list \<Rightarrow> bool" where
  "good_record recs \<longleftrightarrow> distinct (map fst recs)
     \<and> (\<forall>kv \<in> set recs. fst kv = ascii_lower (manifest_name (snd kv))
          \<and> validateManagedPath (manifest_name (snd kv)) = None \<and> plain_name (manifest_name (snd kv))
          \<and> fst kv \<noteq> ascii_lower ManifestName)"

lemma good_record_put:
  assumes "good_record recs" and "kv = (ascii_lower (manifest_name mf), mf)"
    and "validateManagedPath (manifest_name mf) = None" "plain_name (manifest_name mf)"
    and "ascii_lower (manifest_name mf) \<noteq> ascii_lower ManifestName"
  shows "good_record (map_put (ascii_lower (manifest_name mf)) mf recs)"
  using assms go_map_put [of recs "ascii_lower (manifest_name mf)" mf]
  by (auto simp: good_record_def map_put_def set_map_remove)

lemma current_record:
  assumes "current_files d root seen ms = Some recs" and "good_record seen"
    and "\<forall>mf \<in> set ms. plain_name (manifest_name mf) \<and> ascii_lower (manifest_name mf) \<noteq> ascii_lower ManifestName"
  shows "good_record recs"
  using assms
proof (induction ms arbitrary: seen)
  case (Cons mf ms)
  let ?mf = "mf\<lparr>mf_Path := manifest_name mf\<rparr>"
  have name: "manifest_name ?mf = manifest_name mf" by (simp add: manifest_name_def)
  have step: "current_files d root (map_put (ascii_lower (manifest_name mf)) ?mf seen) ms = Some recs"
    and managed: "validateManagedPath (manifest_name mf) = None"
    using Cons.prems(1) by (auto simp: Let_def manifest_name_def split: if_splits option.splits disk_node.splits)
  have "good_record (map_put (ascii_lower (manifest_name mf)) ?mf seen)"
    using good_record_put [OF Cons.prems(2) refl, of ?mf] managed Cons.prems(3) by (simp add: name)
  with Cons.IH [OF step] Cons.prems(3) show ?case by simp
qed simp

lemma new_managed_keys: "map_of (new_managed m) k \<noteq> None \<longleftrightarrow> k \<in> (ascii_lower \<circ> manifest_name) ` set (pm_Files m)"
proof -
  let ?f = "\<lambda>mf managed. (let rel = canonicalRelativePath (mf_Path mf) in map_put (ascii_lower rel) (mf\<lparr>mf_Path := rel\<rparr>) managed)"
  have "map_of (fold ?f ms acc) k \<noteq> None \<longleftrightarrow> k \<in> (ascii_lower \<circ> manifest_name) ` set ms \<or> map_of acc k \<noteq> None" for ms acc
    by (induction ms arbitrary: acc) (auto simp: Let_def manifest_name_def)
  from this [of "pm_Files m" "[]"] show ?thesis by (simp add: new_managed_def)
qed

lemma removed_names:
  fixes recs next_files :: "(string \<times> manifestFile) list"
  assumes "good_record recs"
  defines "removed \<equiv> managedFileRemovals recs next_files"
  shows "good_names removed"
    and "rel \<in> set removed \<Longrightarrow> map_of next_files (ascii_lower rel) = None \<and> ascii_lower rel \<noteq> ascii_lower ManifestName"
proof -
  let ?gone = "filter (\<lambda>kv. map_of next_files (fst kv) = None) recs"
  have mset: "mset removed = mset (map (\<lambda>kv. manifest_name (snd kv)) ?gone)"
    by (simp add: removed_def managedFileRemovals_def manifest_name_def)
  have keys: "map (\<lambda>kv. ascii_lower (manifest_name (snd kv))) ?gone = map fst ?gone"
    using assms(1) by (simp add: good_record_def)
  have "distinct (map (\<lambda>kv. ascii_lower (manifest_name (snd kv))) ?gone)"
    unfolding keys using assms(1) by (simp add: good_record_def distinct_map_filter)
  then have "good_names (map (\<lambda>kv. manifest_name (snd kv)) ?gone)"
    using assms(1) by (auto simp: good_names_def good_record_def comp_def)
  then show "good_names removed" by (rule good_names_mset [OF mset [symmetric]])
  assume "rel \<in> set removed"
  then have "rel \<in> (\<lambda>kv. manifest_name (snd kv)) ` set ?gone" using mset_eq_setD [OF mset] by simp
  then show "map_of next_files (ascii_lower rel) = None \<and> ascii_lower rel \<noteq> ascii_lower ManifestName"
    using assms(1) by (auto simp: good_record_def)
qed

lemma manifest_managed: "validateManagedPath ManifestName = None \<and> plain_name ManifestName"
  by code_simp

lemma good_names_append:
  "good_names (xs @ ys) \<longleftrightarrow> good_names xs \<and> good_names ys \<and> ascii_lower ` set xs \<inter> ascii_lower ` set ys = {}"
  by (auto simp: good_names_def)

lemma candidate_names:
  assumes "all_files fine_content d"
    and "validateExtractedCandidate hash d root packageRoot current version required direct = Inr (files, removed)"
  shows "good_names (map if_Rel (install_list packageRoot files removed))"
proof -
  obtain m recs v where m: "readPackageManifest d (packageRoot @ [ManifestName]) = Some m"
    and files: "verifyNewPackage hash d packageRoot m required = Some files"
    and recs: "verifyCurrentPackage d root = Some (recs, v)"
    and removed: "removed = managedFileRemovals recs (new_managed m)"
    using assms(2) unfolding validateExtractedCandidate_def by (auto simp: Let_def split: option.splits if_splits)
  obtain m0 where m0: "readPackageManifest d (root @ [ManifestName]) = Some m0"
    and seen: "current_files d root [] (pm_Files m0) = Some recs"
    using recs by (auto simp: verifyCurrentPackage_def split: option.splits)
  have fine: "fine_manifest m" "fine_manifest m0" using manifest_read [OF assms(1)] m m0 by blast+
  have "good_record recs"
    by (rule current_record [OF seen]) (use fine(2) in \<open>auto simp: good_record_def fine_manifest_def\<close>)
  note gone = removed_names [OF this, where next_files = "new_managed m", folded removed]
  note new = package_names [OF files fine(1)]
  have apart: "ascii_lower ` if_Rel ` set files \<inter> ascii_lower ` set removed = {}"
  proof -
    have "map_of (new_managed m) (ascii_lower (if_Rel f)) \<noteq> None" if "f \<in> set files" for f
      unfolding new_managed_keys using imageI [OF that, of if_Rel] unfolding new(2) by auto
    with gone(2) show ?thesis by fastforce
  qed
  have "ascii_lower ManifestName \<notin> ascii_lower ` set removed" using gone(2) by (metis imageE)
  moreover have "ascii_lower ManifestName \<notin> ascii_lower ` if_Rel ` set files"
    using fine(1) unfolding new(2) fine_manifest_def by (metis imageE)
  ultimately have "good_names (map if_Rel files @ ManifestName # removed)"
    using new(1) gone(1) apart manifest_managed by (simp add: good_names_append good_names_Cons)
  moreover have "map if_Rel (install_list packageRoot files removed) = map if_Rel files @ ManifestName # removed"
    by (simp add: install_list_def comp_def)
  ultimately show ?thesis by simp
qed

subsection \<open>The state of a new update\<close>

definition proper_part :: "string \<Rightarrow> bool" where
  "proper_part x \<longleftrightarrow> x \<noteq> [] \<and> x \<noteq> ''.'' \<and> x \<noteq> ''..'' \<and> CHR ''/'' \<notin> set x"

lemma clean_onto_clean:
  "list_all proper_part p \<Longrightarrow> \<forall>x \<in> set xs. CHR ''/'' \<notin> set x \<Longrightarrow> list_all proper_part (clean_onto p xs)"
proof (induction xs arbitrary: p)
  case (Cons x xs)
  have "list_all proper_part (butlast p)" using Cons.prems(1) by (auto simp: list_all_iff dest: in_set_butlastD)
  moreover have "list_all proper_part (p @ [x])" if "x \<noteq> []" "x \<noteq> ''.''" "x \<noteq> ''..''"
    using Cons.prems that by (simp add: proper_part_def [of x])
  ultimately show ?case using Cons.IH Cons.prems by simp
qed simp

lemma join_clean: "list_all proper_part p \<Longrightarrow> list_all proper_part (join_path p v)"
  unfolding join_path_def by (rule clean_onto_clean) (auto dest: split_parts)

definition good_runner :: "disk_path \<Rightarrow> string \<Rightarrow> bool" where
  "good_runner root r \<longleftrightarrow> r = [] \<or> \<not> is_abs r \<and> inside (join_path root r) (updates_dir root @ [''runner''])"

lemma runner_good:
  assumes "resolveRunnerIdentity d root cwd runner = Inr r" and "list_all proper_part cwd"
  shows "good_runner root r"
proof (cases "trim_space runner = []")
  case True
  with assms(1) show ?thesis by (simp add: resolveRunnerIdentity_def good_runner_def)
next
  case False
  define p where "p = (if is_abs runner then join_path [] runner else join_path cwd runner)"
  have p: "is_prefix (updates_dir root @ [''runner'']) p" and r: "r = join_slash (drop (length root) p)"
    using assms(1) False by (auto simp: resolveRunnerIdentity_def Let_def p_def inside_def split: if_splits)
  have clean: "list_all proper_part p" unfolding p_def using assms(2) by (auto intro: join_clean)
  obtain q where q: "p = updates_dir root @ [''runner''] @ q" using is_prefix_obtain [OF p] by auto
  let ?parts = "''.updates'' # ''runner'' # q"
  have parts: "drop (length root) p = ?parts" "list_all proper_part ?parts" using clean by (auto simp: q updates_dir_def)
  have "split_slash (join_slash ?parts) = ?parts"
    using parts(2) by (intro split_join) (auto simp: list_all_iff proper_part_def)
  moreover have "clean_onto root ?parts = root @ ?parts"
    using parts(2) by (intro clean_onto_proper) (auto simp: list_all_iff proper_part_def)
  ultimately have "join_path root r = p" by (simp add: join_path_def r parts(1) q updates_dir_def)
  moreover have "\<not> is_abs r" by (simp add: r parts(1) is_abs_def)
  ultimately show ?thesis using p by (simp add: good_runner_def inside_def)
qed

lemma new_state_startable:
  assumes "good_runner root r" and "CHR ''/'' \<notin> set stamp"
  shows "startable root (new_state now stamp r p)"
proof -
  let ?s = "new_state now stamp r p"
  let ?seg = "safeSegment (pu_TargetVersion p) @ CHR ''-'' # stamp"
  have dir: "us_BackupDir ?s = ''backups'' @ CHR ''/'' # ?seg" by (simp add: new_state_def)
  have noslash: "CHR ''/'' \<notin> set ?seg" using assms(2) by (simp add: safeSegment_no_slash)
  have differs: "?seg \<noteq> x" if "CHR ''-'' \<notin> set x" for x
  proof
    assume "?seg = x"
    then have "CHR ''-'' \<in> set x" by (metis in_set_conv_decomp)
    with that show False by simp
  qed
  have names: "?seg \<noteq> []" "?seg \<noteq> ''.''" "?seg \<noteq> ''..''" by (rule differs, simp)+
  have "split_slash (us_BackupDir ?s) = [''backups'', ?seg]"
    unfolding dir using split_slash_append [of "''backups''" ?seg] split_no_slash [OF noslash] by simp
  then have "join_path (updates_dir root) (us_BackupDir ?s) = updates_dir root @ [''backups'', ?seg]"
    unfolding join_path_def by (simp only:) (subst clean_onto_proper; use names in simp)
  then have "in_backups root (us_BackupDir ?s)"
    by (simp add: in_backups_def)
  moreover have "\<not> is_abs (us_BackupDir ?s)" by (simp add: dir is_abs_def)
  moreover have "us_RunnerPath ?s = r" "us_Journal ?s = []" "us_Status ?s = ''applying''"
    "us_ContractVersion ?s = ''archive-center.update-state.v1''" by (simp_all add: new_state_def)
  ultimately show ?thesis
    using assms(1) by (auto simp: startable_def valid_state_def validateState_def in_backups_def good_runner_def inside_def Let_def)
qed

end
