(* ===== verification/Update_History.thy ===== *)
theory Update_History
  imports Update_Candidate
begin

text \<open>
  Histories of the package updater (\<open>go-service/internal/packageupdate/update.go\<close>): each of its
  operations, with any faults, takes a recoverable disk to a recoverable disk.
\<close>

subsection \<open>What stays as it is outside the journal's reach\<close>

lemma recoverable_frame:
  assumes "touches S m" and "\<And>p. p \<in> S \<Longrightarrow> is_prefix (updates_dir root @ [''extracted'']) p"
  shows "after (recoverable root orig) m (\<lambda>_. recoverable root orig)"
proof (rule after_touches [OF assms(1)])
  fix d d'
  assume rec: "recoverable root orig d" and same: "\<And>p. p \<notin> S \<Longrightarrow> file_at d' p = file_at d p"
  have not_own: "\<not> own root p" if "p \<in> S" for p using backups_not_own assms(2) that by blast
  have outside: "state_path root \<notin> S" "with_suffix (state_path root) ''.previous'' \<notin> S"
    using assms(2) state_not_backup(3,4) by blast+
  have no_backup: "p \<notin> S" if "is_prefix (updates_dir root @ [''backups'']) p" for p
  proof
    assume "p \<in> S"
    from is_prefix_obtain [OF that] is_prefix_obtain [OF assms(2) [OF this]] show False by auto
  qed
  have idle: "idle_disk root orig d'" if "idle_disk root orig d"
    by (rule idle_frame [OF that same not_own outside])
  have active: "active_disk root orig s d'" if act: "active_disk root orig s d" for s
  proof -
    have valid: "valid_state root s" using act by (simp add: active_disk_def)
    have "backed_up root orig (us_Journal s) d'"
      by (rule backed_up_stable [where S = S])
        (use act same no_backup valid_entry(3) [OF valid] in \<open>auto simp: active_disk_def\<close>)
    moreover have "unchanged root orig (us_Journal s) d'"
      by (rule unchanged_stable [where S = S]) (use act same not_own in \<open>auto simp: active_disk_def\<close>)
    ultimately show ?thesis
      using act latest_same [OF same [OF outside(1)] same [OF outside(2)]] by (simp add: active_disk_def docs_ok_def)
  qed
  from rec idle active show "recoverable root orig d'" by (auto simp: recoverable_def)
qed

lemma idle_extracted:
  assumes "touches S m" and "\<And>p. p \<in> S \<Longrightarrow> is_prefix (updates_dir root @ [''extracted'']) p"
  shows "after (idle_disk root orig) m (\<lambda>_. idle_disk root orig)"
proof (rule after_touches [OF assms(1)])
  fix d d' assume "idle_disk root orig d" and "\<And>p. p \<notin> S \<Longrightarrow> file_at d' p = file_at d p"
  then show "idle_disk root orig d'"
    by (rule idle_frame) (use assms(2) backups_not_own state_not_backup(3,4) in blast)+
qed

subsection \<open>Extraction\<close>

lemma touches_extract_entry: "touches {q. is_prefix dir q} (extract_entry hash dir zf)"
proof (cases "validateZipName (ze_Name zf)")
  case (Inr rel)
  then have "is_prefix dir (join_path dir rel)" using join_proper [OF zip_name_parts(1) [OF Inr]] by simp
  with Inr show ?thesis unfolding extract_entry_def Let_def by (simp add: touching)
qed (simp add: extract_entry_def touching)

lemma touches_extract_entries: "touches {q. is_prefix dir q} (extract_entries hash dir es)"
  by (induction es) (auto intro!: touching touches_extract_entry)

lemma touches_make_dir [touching]: "touches S (step (make_dir_act p))"
  by (rule touches_step) (auto simp: make_dir_act_def file_at_def split: if_splits)

text \<open>Whatever an archive holds and whatever faults meet its extraction, no file outside the new directory changes.\<close>

lemma touches_extract:
  "touches {q. is_prefix (extractedRoot @ [name]) q} (extractVerifiedArchive hash asset extractedRoot name)"
proof -
  let ?dir = "extractedRoot @ [name]"
  have all: "touches {q. is_prefix ?dir q} (case x of Some (Archive es, _) \<Rightarrow>
        (if archiveLimit_files < length es \<or> check_entries [] 0 es \<noteq> None then ret False else extract_entries hash ?dir es)
      | _ \<Rightarrow> ret False)" for x
    using touches_extract_entries
    by (auto intro!: touching split: option.split prod.split content.split)
  show ?thesis
    unfolding extractVerifiedArchive_def Let_def
    by (intro touching all subset_refl)
qed

lemma extracted_name:
  "after P (extractVerifiedArchive hash asset extractedRoot name)
    (\<lambda>r _. \<forall>dir. r = Some dir \<longrightarrow> dir = extractedRoot @ [name])"
  unfolding extractVerifiedArchive_def Let_def after_def
  by (simp split: prod.splits)

subsection \<open>Applying a pending update\<close>

lemma after_look: "(\<And>d. after P (f d) Q) \<Longrightarrow> after P (State_Monad.bind disk_now f) Q"
  by (rule after_bind [where R = "\<lambda>_. P"]) (auto simp: after_def disk_now_def)

definition sound_disk :: "disk_path \<Rightarrow> files \<Rightarrow> disk \<Rightarrow> bool" where
  "sound_disk root orig d \<longleftrightarrow> recoverable root orig d \<and> all_files fine_content d"

lemma install_recovers:
  assumes "good_runner root r" and "CHR ''/'' \<notin> set stamp"
  shows "after (\<lambda>d. idle_disk root orig d \<and> all_files fine_content d)
    (install_candidate hash now stamp r root extracted p) (\<lambda>_. recoverable root orig)"
  unfolding install_candidate_def
proof (rule after_bind [OF after_now])
  fix d
  let ?P = "\<lambda>d'. d = d' \<and> idle_disk root orig d' \<and> all_files fine_content d'"
  let ?direct = "comparePackageVersions (pu_CurrentVersion p) ''3.9.9'' \<ge> 0"
  have stop: "after ?P (ret x) (\<lambda>_. recoverable root orig)" for x :: outcome by (auto simp: after_def recoverable_def)
  show "after ?P (case findPackageRoot d extracted of
        None \<Rightarrow> ret (Inl ''package_root_invalid'')
      | Some packageRoot \<Rightarrow>
          (case validateExtractedCandidate hash d root packageRoot (pu_CurrentVersion p) (pu_TargetVersion p)
                  (pu_RequiredFiles p) ?direct of
             Inl e \<Rightarrow> ret (Inl e)
           | Inr (files, removed) \<Rightarrow>
               (if \<not> list_all (validateInstallTarget d root) removed then ret (Inl ''managed_target_unsafe'')
                else transact hash now root (new_state now stamp r p) (install_list packageRoot files removed))))
      (\<lambda>_. recoverable root orig)"
  proof (cases "all_files fine_content d")
    case False
    then show ?thesis by (auto simp: after_def)
  next
    case True
    have run: "after ?P (transact hash now root (new_state now stamp r p) (install_list packageRoot files removed))
        (\<lambda>_. recoverable root orig)"
      if "validateExtractedCandidate hash d root packageRoot (pu_CurrentVersion p) (pu_TargetVersion p)
                  (pu_RequiredFiles p) ?direct = Inr (files, removed)" for packageRoot files removed
      by (rule after_weaken [OF transact_recovers [OF new_state_startable [OF assms] candidate_names [OF True that]]]) auto
    show ?thesis by (auto simp: stop run split: option.split sum.split)
  qed
qed

text \<open>\<open>begin_update\<close> refuses, or unpacks the archive, installs and removes the unpacked files.\<close>

lemma begin_shape:
  fixes root name
  defines "dir \<equiv> updates_dir root @ [''extracted'', name]"
  assumes cwd: "list_all proper_part cwd" and refused: "\<And>e d. I d \<Longrightarrow> Q (Inl e) d"
    and extraction: "\<And>asset. after I (extractVerifiedArchive hash asset (updates_dir root @ [''extracted'']) name) (\<lambda>_. I)"
    and candidate: "\<And>r. good_runner root r \<Longrightarrow>
      after I (do { answer \<leftarrow> install_candidate hash now stamp r root dir p; _ \<leftarrow> remove_all dir; ret answer }) Q"
  shows "after I (begin_update hash now stamp cwd runner name root p) Q"
  unfolding begin_update_def
proof (intro after_if)
  let ?ex = "updates_dir root @ [''extracted'']"
  have refuse: "after I (ret (Inl e)) Q" for e by (rule after_ret) (rule refused)
  then show "after I (ret (Inl e)) Q" for e .
  have unpacked: "after I (extractVerifiedArchive hash asset ?ex name) (\<lambda>x d. I d \<and> (\<forall>e. x = Some e \<longrightarrow> e = dir))" for asset
    using after_both [OF extraction [of asset] extracted_name [of I hash asset ?ex name]] by (simp add: dir_def)
  have run: "after I (do { found \<leftarrow> extractVerifiedArchive hash asset ?ex name;
      (case found of
         None \<Rightarrow> ret (Inl ''archive_rejected'')
       | Some extracted \<Rightarrow> do { answer \<leftarrow> install_candidate hash now stamp r root extracted p;
           _ \<leftarrow> remove_all extracted; ret answer }) }) Q" if r: "good_runner root r" for asset r
  proof (rule after_bind [OF unpacked])
    show "after (\<lambda>d. I d \<and> (\<forall>e. x = Some e \<longrightarrow> e = dir))
        (case x of None \<Rightarrow> ret (Inl ''archive_rejected'')
         | Some extracted \<Rightarrow> do { answer \<leftarrow> install_candidate hash now stamp r root extracted p;
             _ \<leftarrow> remove_all extracted; ret answer }) Q" for x
    proof (cases x)
      case None
      then show ?thesis by (auto simp: after_def refused)
    next
      case (Some e)
      then show ?thesis using candidate [OF r] by (cases "e = dir") (simp_all add: after_def)
    qed
  qed
  show "after I (do { d \<leftarrow> disk_now;
      (case resolveRunnerIdentity d root cwd runner of
         Inl _ \<Rightarrow> ret (Inl ''runner_identity_invalid'')
       | Inr runnerPath \<Rightarrow>
          (case resolveAsset d root (pu_AssetPath p) of
             Inl _ \<Rightarrow> ret (Inl ''asset_path_invalid'')
           | Inr asset \<Rightarrow> do {
               found \<leftarrow> extractVerifiedArchive hash asset ?ex name;
               (case found of
                  None \<Rightarrow> ret (Inl ''archive_rejected'')
                | Some extracted \<Rightarrow> do {
                    answer \<leftarrow> install_candidate hash now stamp runnerPath root extracted p;
                    _ \<leftarrow> remove_all extracted;
                    ret answer })
             })) }) Q"
    by (rule after_look) (use refuse run runner_good [OF _ cwd] in \<open>auto split: sum.split\<close>)
qed

lemma begin_recovers:
  assumes "list_all proper_part cwd" and "CHR ''/'' \<notin> set stamp"
  shows "after (\<lambda>d. idle_disk root orig d \<and> all_files fine_content d)
    (begin_update hash now stamp cwd runner name root p) (\<lambda>_. recoverable root orig)"
proof (rule begin_shape [OF assms(1)])
  let ?I = "\<lambda>d. idle_disk root orig d \<and> all_files fine_content d" and ?ex = "updates_dir root @ [''extracted'']"
  let ?dir = "updates_dir root @ [''extracted'', name]"
  have below: "is_prefix ?ex q" if "is_prefix ?dir q" for q using that prefix_trans [of ?ex ?dir q] by simp
  show "after ?I (extractVerifiedArchive hash asset ?ex name) (\<lambda>_. ?I)" for asset
  proof -
    have "after (idle_disk root orig) (extractVerifiedArchive hash asset ?ex name) (\<lambda>_. idle_disk root orig)"
      by (rule idle_extracted [OF touches_extract]) (use below in simp)
    then show ?thesis using fine.unpack unfolding keeps_def after_def by blast
  qed
  fix r assume r: "good_runner root r"
  show "after ?I (do { answer \<leftarrow> install_candidate hash now stamp r root ?dir p; _ \<leftarrow> remove_all ?dir; ret answer })
      (\<lambda>_. recoverable root orig)"
  proof (rule after_bind [OF install_recovers [OF r assms(2)]], rule after_bind)
    show "after (recoverable root orig) (remove_all ?dir) (\<lambda>_. recoverable root orig)"
      by (rule recoverable_frame [OF touches_remove_all [OF subset_refl]]) (use below in simp)
  qed (rule after_ret)
qed (simp add: recoverable_def)

subsection \<open>Committing\<close>

lemma idle_touches:
  assumes "touches S m" and "\<And>p. p \<in> S \<Longrightarrow> \<not> own root p"
    and "state_path root \<notin> S" and "with_suffix (state_path root) ''.previous'' \<notin> S"
  shows "after (idle_disk root orig) m (\<lambda>_. idle_disk root orig)"
  by (rule after_touches [OF assms(1)]) (use idle_frame assms(2-4) in blast)

lemma idle_write:
  assumes "valid_state root s" and "\<not> under_way s"
  shows "after (idle_disk root orig) (writeJSONAtomic (state_path root) (State_doc s)) (\<lambda>_. idle_disk root orig)"
  unfolding after_def
proof (intro allI impI)
  fix w :: world
  let ?d = "wd_disk w" and ?m = "writeJSONAtomic (state_path root) (State_doc s)"
  assume d: "idle_disk root orig ?d"
  obtain ok w' where run: "run_state ?m w = (ok, w')" by (metis surj_pair)
  have "docs_ok root (wd_disk w') \<and> unchanged root orig [] (wd_disk w') \<and>
      (if ok then latest (state_path root) (wd_disk w') = Some (State_doc s) \<and> file_at (wd_disk w') (state_path root) \<noteq> None
       else latest (state_path root) (wd_disk w') = latest (state_path root) ?d
         \<or> \<not> False \<and> latest (state_path root) (wd_disk w') = None)"
    by (rule after_apply [OF write_state [where F = "unchanged root orig []" and present = False, OF unchanged_family] _ run])
      (use d in \<open>auto simp: idle_disk_def\<close>)
  then show "idle_disk root orig (wd_disk (snd (run_state ?m w)))"
    using d assms run by (auto simp: idle_disk_def split: if_splits)
qed

lemma valid_committed:
  assumes "valid_state root s"
  shows "valid_state root (s\<lparr>us_BackupDir := [], us_Journal := [], us_UpdatedAt := now\<rparr>)"
    and "valid_state root (s\<lparr>us_Status := ''committed'', us_CurrentVersion := v, us_UpdatedAt := now\<rparr>)"
  using assms by (auto simp: valid_state_def validateState_def Let_def split: if_splits)

lemma commit_cleanup_idle:
  assumes "valid_state root s" and "\<not> under_way s"
  shows "after (idle_disk root orig) (commit_cleanup now root s) (\<lambda>_. idle_disk root orig)"
proof -
  let ?I = "idle_disk root orig"
  have stop: "after ?I (ret x) (\<lambda>_. ?I)" for x :: outcome by (rule after_ret)
  have pending: "after ?I (step (remove_act (pending_path root))) (\<lambda>_. ?I)"
    by (rule idle_touches [where S = "{pending_path root}"])
      (auto intro!: touching simp: state_not_pending [symmetric] not_own_updates state_files)
  have backups: "after ?I (if us_BackupDir s \<noteq> [] then remove_all (join_path (updates_dir root) (us_BackupDir s)) else ret True)
      (\<lambda>_. ?I)"
    by (rule idle_touches [where S = "{q. is_prefix (updates_dir root @ [''backups'']) q}"])
      (use own_files backups_not_own in \<open>auto intro!: touches_if touches_ret touches_backups backup_dir_valid [OF assms(1)]\<close>)
  have state: "after ?I (writeJSONAtomic (state_path root)
      (State_doc (s\<lparr>us_BackupDir := [], us_Journal := [], us_UpdatedAt := now\<rparr>))) (\<lambda>_. ?I)"
    by (rule idle_write) (use assms valid_committed in \<open>simp_all add: under_way_def\<close>)
  show ?thesis
    unfolding commit_cleanup_def
  proof (rule after_look)
    fix d
    have drop: "after ?I (case x of Some p \<Rightarrow> (if c p then step (remove_act (pending_path root)) else ret True)
        | None \<Rightarrow> ret True) (\<lambda>_. ?I)" for x :: "Pending option" and c
      using pending by (auto intro: after_ret split: option.split)
    show "after ?I (case readPending d root of
        Inl _ \<Rightarrow> ret (Inl ''commit_cleanup_failed'')
      | Inr pending \<Rightarrow> do {
          removed \<leftarrow> (case pending of
              Some p \<Rightarrow> (if equal_fold_ascii (trim_space (pu_TargetVersion p)) (trim_space (us_TargetVersion s))
                          then step (remove_act (pending_path root)) else ret True)
            | None \<Rightarrow> ret True);
          if \<not> removed then ret (Inl ''commit_cleanup_failed'')
          else do {
            dropped \<leftarrow> (if us_BackupDir s \<noteq> [] then remove_all (join_path (updates_dir root) (us_BackupDir s))
                        else ret True);
            if \<not> dropped then ret (Inl ''commit_cleanup_failed'')
            else do {
              cleared \<leftarrow> writeJSONAtomic (state_path root)
                (State_doc (s\<lparr>us_BackupDir := [], us_Journal := [], us_UpdatedAt := now\<rparr>));
              ret (if cleared then Inr (result ''commit'' ''committed'' (us_CurrentVersion s) (us_TargetVersion s) False
                                          ''update committed'')
                   else Inl ''state_write_failed'')
            }
          }
        }) (\<lambda>_. ?I)"
    proof (cases "readPending d root")
      case (Inl e)
      then show ?thesis by (simp add: stop)
    next
      case (Inr x)
      show ?thesis
        unfolding Inr sum.case
        by (intro after_bind [OF drop] after_if stop after_bind [OF backups] after_bind [OF state])
    qed
  qed
qed

lemma idle_state:
  assumes "idle_disk root orig d" and "readState d root = Inr (Some s)"
  shows "valid_state root s" and "\<not> under_way s"
proof -
  have rec: "recoverable root orig d" using assms(1) by (simp add: recoverable_def)
  show "valid_state root s" by (rule recoverable_read(2) [OF rec assms(2)])
  have "latest (state_path root) d = Some (State_doc s)"
    by (rule read_state(1) [OF recoverable_docs [OF rec] assms(2)])
  with assms(1) show "\<not> under_way s" by (auto simp: idle_disk_def)
qed

lemma Commit_idle: "after (idle_disk root orig) (Commit now root) (\<lambda>_. idle_disk root orig)"
  unfolding Commit_def Let_def
proof (rule after_bind [OF after_now], rule after_if)
  fix d
  let ?I = "idle_disk root orig" and ?P = "\<lambda>d'. d = d' \<and> idle_disk root orig d'"
  have stop: "after ?P (ret x) (\<lambda>_. ?I)" for x :: outcome by (simp add: after_def)
  show "after ?P (ret (Inl ''invalid_root'')) (\<lambda>_. ?I)" by (simp add: after_def)
  show "after ?P (case readState d root of
        Inl _ \<Rightarrow> ret (Inl ''state_invalid'')
      | Inr None \<Rightarrow> ret (Inl ''commit_not_ready'')
      | Inr (Some s) \<Rightarrow>
          (if us_Status s = ''applied_pending_health'' then do {
             written \<leftarrow> writeJSONAtomic (state_path root)
               (State_doc (s\<lparr>us_Status := ''committed'', us_CurrentVersion := us_TargetVersion s, us_UpdatedAt := now\<rparr>));
             if \<not> written then ret (Inl ''state_write_failed'')
             else commit_cleanup now root (s\<lparr>us_Status := ''committed'', us_CurrentVersion := us_TargetVersion s, us_UpdatedAt := now\<rparr>)
           }
           else if us_Status s = ''committed'' then commit_cleanup now root s
           else ret (Inl ''commit_not_ready''))) (\<lambda>_. ?I)"
  proof (cases "?I d")
    case False
    then show ?thesis by (auto simp: after_def)
  next
    case idle: True
    have cleanup: "after ?P (commit_cleanup now root s) (\<lambda>_. ?I)" if "readState d root = Inr (Some s)" for s
      by (rule after_weaken [OF commit_cleanup_idle [OF idle_state [OF idle that]]]) auto
    show ?thesis
    proof (cases "\<exists>s. readState d root = Inr (Some s)")
      case True
      then obtain s where s: "readState d root = Inr (Some s)" by blast
      with idle_state(2) [OF idle s] cleanup [OF s] stop show ?thesis by (simp add: under_way_def)
    next
      case False
      with stop show ?thesis by (auto split: sum.split option.split)
    qed
  qed
qed

subsection \<open>ApplyPending\<close>

lemma continue_recovers:
  assumes "list_all proper_part cwd" and "CHR ''/'' \<notin> set stamp"
  shows "after (\<lambda>d. idle_disk root orig d \<and> all_files fine_content d)
    (continue_update hash now stamp cwd runner name root state) (\<lambda>_. recoverable root orig)"
  unfolding continue_update_def
proof (rule after_look)
  fix d
  let ?I = "\<lambda>d. idle_disk root orig d \<and> all_files fine_content d" and ?R = "\<lambda>_. recoverable root orig"
  note new = begin_recovers [OF assms, where root = root and orig = orig]
  have stop: "after ?I (ret x) ?R" for x :: outcome by (rule after_ret) (simp add: recoverable_def)
  have finish_: "after ?I (finish_commit now root s) ?R" for s
    unfolding finish_commit_def
    by (rule after_bind [OF after_weaken [OF Commit_idle [where root = root and orig = orig]] after_ret])
      (auto simp: recoverable_def)
  show "after ?I (case readPending d root of
        Inl _ \<Rightarrow> ret (Inl ''pending_invalid'')
      | Inr pending \<Rightarrow>
          (case (state, pending) of
             (Some s, Some p) \<Rightarrow>
               (if us_Status s \<noteq> ''committed'' then begin_update hash now stamp cwd runner name root p
                else if validatePending p \<noteq> None then ret (Inl ''pending_invalid'')
                else if equal_fold_ascii (trim_space (pu_TargetVersion p)) (trim_space (us_TargetVersion s))
                  then finish_commit now root s
                else if \<not> sameVersion (pu_CurrentVersion p) (us_CurrentVersion s) then ret (Inl ''pending_invalid'')
                else begin_update hash now stamp cwd runner name root p)
           | (Some s, None) \<Rightarrow>
               (if us_Status s = ''committed'' then finish_commit now root s
                else ret (Inr (result ''apply-pending'' ''no_pending'' [] [] False ''no pending update'')))
           | (None, Some p) \<Rightarrow> begin_update hash now stamp cwd runner name root p
           | (None, None) \<Rightarrow> ret (Inr (result ''apply-pending'' ''no_pending'' [] [] False ''no pending update'')))) ?R"
    using stop finish_ new by (simp split: sum.split option.split)
qed

lemma applyPending_recovers:
  assumes "list_all proper_part cwd" and "CHR ''/'' \<notin> set stamp"
  shows "after (sound_disk root orig) (applyPending hash now stamp cwd runner name root) (\<lambda>_. sound_disk root orig)"
proof -
  let ?R = "\<lambda>_. recoverable root orig"
  let ?I = "\<lambda>d. idle_disk root orig d \<and> all_files fine_content d"
  let ?go = "continue_update hash now stamp cwd runner name root"
  have go: "after ?I (?go state) ?R" for state by (rule continue_recovers [OF assms])
  have recover: "after (sound_disk root orig) (applyPending hash now stamp cwd runner name root) ?R"
    unfolding applyPending_def
  proof (rule after_bind [OF after_now], rule after_if)
    fix d
    let ?P = "\<lambda>d'. d = d' \<and> sound_disk root orig d'"
    have stop: "after ?P (ret x) ?R" for x :: outcome by (simp add: after_def sound_disk_def)
    show "after ?P (ret (Inl ''invalid_root'')) ?R" by (simp add: after_def sound_disk_def)
    show "after ?P (case readState d root of
          Inl _ \<Rightarrow> ret (Inl ''state_invalid'')
        | Inr None \<Rightarrow> ?go None
        | Inr (Some s) \<Rightarrow>
            (if us_Status s = ''applying'' then do {
               recovered \<leftarrow> rollback_update hash now root s False;
               (case recovered of
                  Inl _ \<Rightarrow> ret (Inl ''interrupted_recovery_failed'')
                | Inr _ \<Rightarrow> ?go (Some s))
             }
             else if us_Status s = ''applied_pending_health'' then ret (pending_health d root s)
             else ?go (Some s))) ?R"
    proof (cases "sound_disk root orig d")
      case False
      then show ?thesis by (auto simp: after_def)
    next
      case True
      then have rec: "recoverable root orig d" by (simp add: sound_disk_def)
      have idle: "after ?P (?go state) ?R" if "idle_disk root orig d" for state
        by (rule after_weaken [OF go]) (use that True in \<open>auto simp: sound_disk_def\<close>)
      have undo: "after ?P (do { recovered \<leftarrow> rollback_update hash now root s False;
          (case recovered of Inl _ \<Rightarrow> ret (Inl ''interrupted_recovery_failed'') | Inr _ \<Rightarrow> ?go (Some s)) }) ?R"
        if s: "readState d root = Inr (Some s)" and st: "us_Status s = ''applying''" for s
      proof (rule after_bind)
        have "active_disk root orig s d" "valid_state root s"
          using recoverable_read [OF rec s] st by (simp_all add: under_way_def)
        then show "after ?P (rollback_update hash now root s False)
            (\<lambda>r d. recoverable root orig d \<and> (case r of Inl _ \<Rightarrow> True | Inr _ \<Rightarrow> ?I d))"
          using rollback_recovers [of root s s orig hash now False] fine.undo [of hash now root s False] True
          unfolding after_def keeps_def sound_disk_def by (auto split: sum.splits)
        fix r
        show "after (\<lambda>d. recoverable root orig d \<and> (case r of Inl _ \<Rightarrow> True | Inr _ \<Rightarrow> ?I d))
            (case r of Inl _ \<Rightarrow> ret (Inl ''interrupted_recovery_failed'') | Inr _ \<Rightarrow> ?go (Some s)) ?R"
          by (cases r) (auto intro: after_ret after_weaken [OF go [of "Some s"]])
      qed
      show ?thesis
      proof (cases "readState d root")
        case (Inl e)
        with stop show ?thesis by simp
      next
        case (Inr found)
        show ?thesis
        proof (cases found)
          case None
          with Inr idle recoverable_no_state [OF rec] show ?thesis by simp
        next
          case (Some s)
          with Inr have s: "readState d root = Inr (Some s)" by simp
          show ?thesis
            using recoverable_read(1) [OF rec s] idle [of "Some s"] undo [OF s] stop
            by (simp add: s under_way_def split: if_splits)
        qed
      qed
    qed
  qed
  have "keeps fine_content (applyPending hash now stamp cwd runner name root)" by (rule fine.apply_update)
  with recover show ?thesis unfolding after_def keeps_def sound_disk_def by blast
qed

subsection \<open>Sequences of calls\<close>

text \<open>
  A call is one process with its faults: the updater is started, runs until it ends or is killed, and
  is started again.
\<close>

datatype update_call =
    Call_apply (call_now: string) (call_stamp: string) (call_runner: string) (call_name: string)
  | Call_rollback string
  | Call_commit string
  | Call_status

fun updater_call ::
    "(content \<Rightarrow> string \<times> int) \<Rightarrow> disk_path \<Rightarrow> disk_path \<Rightarrow> update_call \<Rightarrow> (world, outcome) state" where
  "updater_call hash cwd root (Call_apply now stamp runner name) = applyPending hash now stamp cwd runner name root"
| "updater_call hash cwd root (Call_rollback now) = Rollback hash now root"
| "updater_call hash cwd root (Call_commit now) = Commit now root"
| "updater_call hash cwd root Call_status = update_Status root"

primrec updater_calls ::
    "(content \<Rightarrow> string \<times> int) \<Rightarrow> disk_path \<Rightarrow> disk_path \<Rightarrow> (update_call \<times> fault list) list \<Rightarrow> disk \<Rightarrow> disk" where
  "updater_calls hash cwd root [] d = d"
| "updater_calls hash cwd root (c # cs) d =
     updater_calls hash cwd root cs
       (wd_disk (snd (run_state (updater_call hash cwd root (fst c)) \<lparr>wd_disk = d, wd_faults = snd c\<rparr>)))"

definition undoable :: "update_call \<Rightarrow> bool" where
  "undoable c \<longleftrightarrow> (case c of Call_apply _ stamp _ _ \<Rightarrow> CHR ''/'' \<notin> set stamp | Call_commit _ \<Rightarrow> False | _ \<Rightarrow> True)"

lemma call_recovers:
  assumes "list_all proper_part cwd" and "undoable c"
  shows "after (sound_disk root orig) (updater_call hash cwd root c) (\<lambda>_. sound_disk root orig)"
proof (cases c)
  case (Call_apply now stamp runner name)
  with assms applyPending_recovers show ?thesis by (simp add: undoable_def)
next
  case (Call_rollback now)
  then show ?thesis
    using Rollback_recovers [of root orig hash now] fine.roll_back [of hash now root]
    unfolding after_def keeps_def sound_disk_def by simp
next
  case Call_status
  then show ?thesis by (simp add: update_Status_def after_def disk_now_def)
qed (use assms(2) in \<open>simp add: undoable_def\<close>)

lemma calls_recover:
  assumes "list_all proper_part cwd" and "\<forall>c \<in> set cs. undoable (fst c)" and "sound_disk root orig d"
  shows "sound_disk root orig (updater_calls hash cwd root cs d)"
  using assms(2,3)
proof (induction cs arbitrary: d)
  case (Cons c cs)
  let ?w = "\<lparr>wd_disk = d, wd_faults = snd c\<rparr>"
  have "sound_disk root orig (wd_disk (snd (run_state (updater_call hash cwd root (fst c)) ?w)))"
    using call_recovers [OF assms(1), of "fst c" root orig hash] Cons.prems
    unfolding after_def by (metis (no_types, lifting) list.set_intros(1) world.select_convs(1))
  with Cons show ?case by simp
qed simp

lemma fresh_sound:
  assumes "file_at d (state_path root) = None" and "file_at d (with_suffix (state_path root) ''.previous'') = None"
    and "all_files fine_content d"
  shows "sound_disk root (file_at d) d"
  using assms
  by (auto simp: sound_disk_def recoverable_def idle_disk_def docs_ok_def versions_in_def latest_def unchanged_def)

text \<open>Committing: no file of the package is touched, and an update stays undoable or becomes final.\<close>

lemma committed_state:
  assumes "validateState root s = None"
  shows "us_BackupDir s \<noteq> [] \<Longrightarrow> is_prefix (updates_dir root) (join_path (updates_dir root) (us_BackupDir s))"
    and "validateState root (s\<lparr>us_BackupDir := [], us_Journal := [], us_UpdatedAt := now\<rparr>) = None"
    and "validateState root (s\<lparr>us_Status := ''committed'', us_CurrentVersion := v, us_UpdatedAt := now\<rparr>) = None"
  using assms
  by (auto simp: validateState_def Let_def inside_def split: if_splits dest: prefix_trans [OF is_prefix_append])

lemma touches_commit_cleanup:
  assumes "validateState root s = None"
  shows "touches {p. is_prefix (updates_dir root) p} (commit_cleanup now root s)"
proof -
  have "{q. is_prefix (join_path (updates_dir root) (us_BackupDir s)) q} \<subseteq> {p. is_prefix (updates_dir root) p}"
    if "us_BackupDir s \<noteq> []"
    using committed_state(1) [OF assms that] by (auto dest: prefix_trans)
  then show ?thesis
    unfolding commit_cleanup_def
    by (intro touching touches_sum) (use state_files in auto)
qed

lemma read_valid: "readState d root = Inr (Some s) \<Longrightarrow>
    validateState root s = None \<and> us_ContractVersion s = ''archive-center.update-state.v1''"
  by (auto simp: readState_def split: sum.splits option.splits if_splits)

lemma Commit_keeps_files:
  "own root p \<Longrightarrow> file_at (wd_disk (snd (run_state (Commit now root) w))) p = file_at (wd_disk w) p"
proof -
  assume own: "own root p"
  let ?P = "\<lambda>d. file_at d p = file_at (wd_disk w) p"
  have keep: "after ?P m (\<lambda>_. ?P)" if "touches {p. is_prefix (updates_dir root) p} m" for m :: "(world, 'a) state"
    by (rule after_touches [OF that]) (use own in \<open>auto simp: own_def\<close>)
  have "after ?P (Commit now root) (\<lambda>_. ?P)"
    unfolding Commit_def Let_def
  proof (rule after_look, rule after_if)
    fix d
    have cleanup: "after ?P (commit_cleanup now root s) (\<lambda>_. ?P)" if "validateState root s = None" for s
      by (rule after_touches [OF touches_commit_cleanup [OF that]]) (use own in \<open>auto simp: own_def\<close>)
    have wr: "after ?P (writeJSONAtomic (state_path root) c) (\<lambda>_. ?P)" for c
      by (rule after_touches [where S = "{p. is_prefix (updates_dir root) p}"])
        (use own state_files in \<open>auto intro!: touching simp: own_def\<close>)
    show "after ?P (case readState d root of
        Inl _ \<Rightarrow> ret (Inl ''state_invalid'')
      | Inr None \<Rightarrow> ret (Inl ''commit_not_ready'')
      | Inr (Some s) \<Rightarrow>
          (if us_Status s = ''applied_pending_health'' then do {
             written \<leftarrow> writeJSONAtomic (state_path root)
               (State_doc (s\<lparr>us_Status := ''committed'', us_CurrentVersion := us_TargetVersion s, us_UpdatedAt := now\<rparr>));
             if \<not> written then ret (Inl ''state_write_failed'')
             else commit_cleanup now root (s\<lparr>us_Status := ''committed'', us_CurrentVersion := us_TargetVersion s, us_UpdatedAt := now\<rparr>)
           }
           else if us_Status s = ''committed'' then commit_cleanup now root s
           else ret (Inl ''commit_not_ready''))) (\<lambda>_. ?P)"
      using read_valid [of d root] cleanup committed_state(3)
      by (auto split: sum.split option.split intro!: after_ret after_bind [OF wr])
  qed (rule after_ret)
  then show ?thesis by (simp add: after_def)
qed

text \<open>A commit that reports no error has left a state without a journal, which nothing rolls back.\<close>

definition settled_state :: "disk_path \<Rightarrow> disk \<Rightarrow> bool" where
  "settled_state root d \<longleftrightarrow> (\<exists>s. readState d root = Inr (Some s) \<and> us_Status s = ''committed'' \<and> us_Journal s = [])"

lemma read_back:
  assumes "file_at d (state_path root) = Some (State_doc s, m)" and "validateState root s = None"
    and "us_ContractVersion s = ''archive-center.update-state.v1''"
  shows "readState d root = Inr (Some s)"
  using assms readJSON_file(1) [OF assms(1), of as_state] by (simp add: readState_def read_latest_def)

lemma write_readable:
  assumes "validateState root s = None" "us_ContractVersion s = ''archive-center.update-state.v1''"
  shows "after P (writeJSONAtomic (state_path root) (State_doc s)) (\<lambda>ok d. ok \<longrightarrow> readState d root = Inr (Some s))"
  unfolding after_def
proof (intro allI impI)
  fix w :: world
  assume ok: "fst (run_state (writeJSONAtomic (state_path root) (State_doc s)) w)"
  then have "\<exists>m. file_at (wd_disk (snd (run_state (writeJSONAtomic (state_path root) (State_doc s)) w))) (state_path root)
      = Some (State_doc s, m)"
    using writeJSON_replaces [of "State_doc s" UNIV "state_path root" "latest (state_path root) (wd_disk w)" False]
    by (auto simp: after_def versions_in_def)
  then show "readState (wd_disk (snd (run_state (writeJSONAtomic (state_path root) (State_doc s)) w))) root = Inr (Some s)"
    using read_back [OF _ assms] by blast
qed

lemma cleanup_settled:
  assumes "validateState root s = None" "us_ContractVersion s = ''archive-center.update-state.v1''" "us_Status s = ''committed''"
  shows "after P (commit_cleanup now root s) (\<lambda>r d. \<forall>x. r = Inr x \<longrightarrow> settled_state root d)"
proof -
  let ?s = "s\<lparr>us_BackupDir := [], us_Journal := [], us_UpdatedAt := now\<rparr>"
  let ?Q = "\<lambda>r d. \<forall>x. r = Inr x \<longrightarrow> settled_state root d"
  have last: "after Q (do { cleared \<leftarrow> writeJSONAtomic (state_path root) (State_doc ?s);
      ret (if cleared then Inr y else Inl e) }) ?Q" for y Q and e :: string
    by (rule after_bind [OF write_readable])
      (use assms committed_state(2) in \<open>auto simp: after_def settled_state_def\<close>)
  have any: "after Q m (\<lambda>_ _. True)" for Q and m :: "(world, bool) state" by (simp add: after_def)
  show ?thesis
    unfolding commit_cleanup_def
  proof (rule after_look)
    fix d
    show "after P (case readPending d root of
        Inl _ \<Rightarrow> ret (Inl ''commit_cleanup_failed'')
      | Inr pending \<Rightarrow> do {
          removed \<leftarrow> (case pending of
              Some p \<Rightarrow> (if equal_fold_ascii (trim_space (pu_TargetVersion p)) (trim_space (us_TargetVersion s))
                          then step (remove_act (pending_path root)) else ret True)
            | None \<Rightarrow> ret True);
          if \<not> removed then ret (Inl ''commit_cleanup_failed'')
          else do {
            dropped \<leftarrow> (if us_BackupDir s \<noteq> [] then remove_all (join_path (updates_dir root) (us_BackupDir s))
                        else ret True);
            if \<not> dropped then ret (Inl ''commit_cleanup_failed'')
            else do {
              cleared \<leftarrow> writeJSONAtomic (state_path root) (State_doc ?s);
              ret (if cleared then Inr (result ''commit'' ''committed'' (us_CurrentVersion s) (us_TargetVersion s) False
                                          ''update committed'')
                   else Inl ''state_write_failed'')
            }
          }
        }) ?Q"
    proof (cases "readPending d root")
      case (Inl e)
      then show ?thesis by (simp add: after_def)
    next
      case (Inr x)
      show ?thesis
        unfolding Inr sum.case
        by (rule after_bind [OF any], rule after_if, simp add: after_def, rule after_bind [OF any], rule after_if,
            simp add: after_def, rule last)
    qed
  qed
qed

lemma Commit_settles:
  "after P (Commit now root) (\<lambda>r d. \<forall>x. r = Inr x \<longrightarrow> settled_state root d)"
  unfolding Commit_def Let_def
proof (rule after_look, rule after_if)
  fix d
  let ?Q = "\<lambda>r d. \<forall>x. r = Inr x \<longrightarrow> settled_state root d"
  let ?c = "\<lambda>s. s\<lparr>us_Status := ''committed'', us_CurrentVersion := us_TargetVersion s, us_UpdatedAt := now\<rparr>"
  have cleanup: "after Q (commit_cleanup now root s) ?Q"
    if "readState d root = Inr (Some s0)" "s = s0 \<or> s = ?c s0" "us_Status s = ''committed''" for s s0 Q
    by (rule cleanup_settled) (use read_valid [OF that(1)] that(2,3) committed_state(3) in auto)
  have wr: "after P (writeJSONAtomic (state_path root) c) (\<lambda>_ _. True)" for c by (simp add: after_def)
  have commit: "after P (do { written \<leftarrow> writeJSONAtomic (state_path root) (State_doc (?c s));
      if \<not> written then ret (Inl e) else commit_cleanup now root (?c s) }) ?Q"
    if "readState d root = Inr (Some s)" for s e
    by (rule after_bind [OF wr], rule after_if, simp add: after_def, rule cleanup [OF that]) simp_all
  show "after P (case readState d root of
        Inl _ \<Rightarrow> ret (Inl ''state_invalid'')
      | Inr None \<Rightarrow> ret (Inl ''commit_not_ready'')
      | Inr (Some s) \<Rightarrow>
          (if us_Status s = ''applied_pending_health'' then do {
             written \<leftarrow> writeJSONAtomic (state_path root) (State_doc (?c s));
             if \<not> written then ret (Inl ''state_write_failed'') else commit_cleanup now root (?c s)
           }
           else if us_Status s = ''committed'' then commit_cleanup now root s
           else ret (Inl ''commit_not_ready''))) ?Q"
    using commit cleanup by (auto simp: after_def [of _ "ret _"] split: sum.split option.split)
qed (simp add: after_def)

lemma settled_rollback:
  assumes "settled_state root (wd_disk w)"
  shows "wd_disk (snd (run_state (Rollback hash now root) w)) = wd_disk w"
  using assms by (auto simp: settled_state_def Rollback_def disk_now_def)

end
