(* ===== verification/Update_Outcome.thy ===== *)
theory Update_Outcome
  imports Update_History
begin

text \<open>
  What the package updater (\<open>go-service/internal/packageupdate/update.go\<close>) has done when it reports
  success: the installed package passes the integrity check of its own manifest. And what becomes of
  a package whose manifest lists itself.
\<close>

subsection \<open>A package that passes its own manifest\<close>

definition package_ok :: "(content \<Rightarrow> string \<times> int) \<Rightarrow> disk_path \<Rightarrow> disk \<Rightarrow> bool" where
  "package_ok hash root d \<longleftrightarrow>
     (\<exists>m mode. file_at d (root @ [ManifestName]) = Some (Manifest_doc m, mode)
        \<and> (\<forall>mf \<in> set (pm_Files m). validateManagedPath (manifest_name mf) = None
             \<and> verifyFileIntegrity hash d (join_path root (manifest_name mf)) mf))"

lemma integrity_content:
  "map_option fst (file_at d p) = map_option fst (file_at d' p') \<Longrightarrow> verifyFileIntegrity hash d p = verifyFileIntegrity hash d' p'"
  by (rule ext) (cases "file_at d p"; cases "file_at d' p'"; auto simp: verifyFileIntegrity_def)

lemma verified_sources:
  assumes "verify_files hash d root seen ms = Some (files, seen')"
  shows "(\<forall>mf \<in> set ms. \<exists>f \<in> set files. if_Rel f = manifest_name mf \<and> verifyFileIntegrity hash d (if_Src f) mf)
    \<and> (\<forall>f \<in> set files. \<not> if_Remove f \<and> validateManagedPath (if_Rel f) = None
         \<and> if_Src f = join_path root (if_Rel f) \<and> file_at d (if_Src f) \<noteq> None)"
  using assms
proof (induction ms arbitrary: seen files seen')
  case (Cons mf ms)
  let ?p = "join_path root (manifest_name mf)"
  obtain fs where fs: "verify_files hash d root (ascii_lower (manifest_name mf) # seen) ms = Some (fs, seen')"
    and "validateManagedPath (manifest_name mf) = None" "file_at d ?p \<noteq> None" "verifyFileIntegrity hash d ?p mf"
    and "\<exists>f. files = f # fs \<and> if_Rel f = manifest_name mf \<and> if_Src f = ?p \<and> \<not> if_Remove f"
    using Cons.prems by (auto simp: Let_def manifest_name_def split: if_splits option.splits)
  with Cons.IH [OF fs] show ?case by auto
qed simp

lemma found_root:
  assumes "findPackageRoot d (dir @ [name]) = Some packageRoot"
  shows "is_prefix dir packageRoot"
proof -
  obtain p where p: "is_prefix (dir @ [name]) p" "packageRoot = butlast p"
  proof -
    let ?found = "filter (\<lambda>p. is_prefix (dir @ [name]) p \<and> p \<noteq> [] \<and> last p = ManifestName \<and> \<not> is_dir d p) (map fst d)"
    obtain p where "?found = [p]" "packageRoot = butlast p"
      using assms by (auto simp: findPackageRoot_def split: list.splits)
    then have "p \<in> set ?found" by simp
    then have "is_prefix (dir @ [name]) p" by simp
    with \<open>packageRoot = butlast p\<close> that [of p] show ?thesis by simp
  qed
  obtain q where "p = dir @ [name] @ q" using is_prefix_obtain [OF p(1)] by auto
  with p(2) show ?thesis by (cases q rule: rev_cases) (simp_all add: butlast_append is_prefix_def)
qed

lemma manifest_file:
  assumes "readPackageManifest d p = Some m"
  shows "\<exists>mode. file_at d p = Some (Manifest_doc m, mode)"
proof -
  have "readJSON as_manifest d p = Inr (Some m)"
    using assms by (simp add: readPackageManifest_def split: sum.splits option.splits if_splits)
  then obtain c mode where "file_at d p = Some (c, mode)" "as_manifest c = Some m"
    by (auto simp: readJSON_def file_at_def split: option.splits disk_node.splits)
  then show ?thesis by (cases c) auto
qed

lemma manifest_place: "join_path root ManifestName = root @ [ManifestName]"
proof -
  have "split_slash ManifestName = [ManifestName]" by code_simp
  then show ?thesis using join_managed [of ManifestName root] manifest_managed by simp
qed

lemma candidate_sources:
  assumes "validateExtractedCandidate hash d root packageRoot current version required direct = Inr (files, removed)"
  obtains m mode where "file_at d (packageRoot @ [ManifestName]) = Some (Manifest_doc m, mode)"
    and "\<forall>mf \<in> set (pm_Files m). \<exists>f \<in> set files. if_Rel f = manifest_name mf \<and> verifyFileIntegrity hash d (if_Src f) mf"
    and "\<forall>f \<in> set files. \<not> if_Remove f \<and> validateManagedPath (if_Rel f) = None
         \<and> if_Src f = join_path packageRoot (if_Rel f) \<and> file_at d (if_Src f) \<noteq> None"
proof -
  obtain m where m: "readPackageManifest d (packageRoot @ [ManifestName]) = Some m"
    and files: "verifyNewPackage hash d packageRoot m required = Some files"
    using assms unfolding validateExtractedCandidate_def by (auto simp: Let_def split: option.splits if_splits)
  obtain fs seen where fs: "verify_files hash d packageRoot [] (pm_Files m) = Some (fs, seen)"
    and "files = sort_key if_Rel fs"
    using files by (auto simp: verifyNewPackage_def split: option.splits if_splits)
  then have same: "set files = set fs" by simp
  obtain mode where mode: "file_at d (packageRoot @ [ManifestName]) = Some (Manifest_doc m, mode)"
    using manifest_file [OF m] by blast
  note sources = verified_sources [OF fs, folded same]
  show ?thesis by (rule that [OF mode conjunct1 [OF sources] conjunct2 [OF sources]])
qed

lemma installed_package:
  assumes "file_at d (packageRoot @ [ManifestName]) = Some (Manifest_doc m, mode)"
    and "\<forall>mf \<in> set (pm_Files m). \<exists>f \<in> set files. if_Rel f = manifest_name mf \<and> verifyFileIntegrity hash d (if_Src f) mf"
    and "\<forall>f \<in> set files. \<not> if_Remove f \<and> validateManagedPath (if_Rel f) = None"
    and "\<forall>f \<in> set (install_list packageRoot files removed). installed d root f d'"
  shows "package_ok hash root d'"
proof -
  have f: "map_option fst (file_at d' (join_path root (if_Rel f))) = map_option fst (file_at d (if_Src f))" if "f \<in> set files" for f
    using assms(3,4) that by (auto simp: installed_def install_list_def)
  have "map_option fst (file_at d' (root @ [ManifestName])) = Some (Manifest_doc m)"
    using assms(1,4) by (simp add: installed_def install_list_def manifest_place)
  then obtain mode' where "file_at d' (root @ [ManifestName]) = Some (Manifest_doc m, mode')" by auto
  moreover have "validateManagedPath (manifest_name mf) = None \<and> verifyFileIntegrity hash d' (join_path root (manifest_name mf)) mf"
    if mf: "mf \<in> set (pm_Files m)" for mf
  proof -
    obtain f where "f \<in> set files" "if_Rel f = manifest_name mf" "verifyFileIntegrity hash d (if_Src f) mf"
      using assms(2) mf by blast
    with integrity_content [OF f [OF this(1)], of hash] assms(3) show ?thesis by auto
  qed
  ultimately show ?thesis by (auto simp: package_ok_def)
qed

lemma candidate_installs:
  assumes "good_runner root r" and "CHR ''/'' \<notin> set stamp"
  shows "after (all_files fine_content)
    (install_candidate hash now stamp r root (updates_dir root @ [''extracted'', name]) p) (if_success (package_ok hash root))"
  unfolding install_candidate_def
proof (rule after_bind [OF after_now])
  fix d
  let ?P = "\<lambda>d'. d = d' \<and> all_files fine_content d'" and ?dir = "updates_dir root @ [''extracted'', name]"
  let ?direct = "comparePackageVersions (pu_CurrentVersion p) ''3.9.9'' \<ge> 0"
  have run: "after ?P (transact hash now root (new_state now stamp r p) (install_list packageRoot files removed))
      (if_success (package_ok hash root))"
    if fine: "all_files fine_content d" and root: "findPackageRoot d ?dir = Some packageRoot"
      and candidate: "validateExtractedCandidate hash d root packageRoot (pu_CurrentVersion p) (pu_TargetVersion p)
                  (pu_RequiredFiles p) ?direct = Inr (files, removed)" for packageRoot files removed
  proof -
    let ?files = "install_list packageRoot files removed"
    obtain m mode where m: "file_at d (packageRoot @ [ManifestName]) = Some (Manifest_doc m, mode)"
      and listed: "\<forall>mf \<in> set (pm_Files m). \<exists>f \<in> set files. if_Rel f = manifest_name mf \<and> verifyFileIntegrity hash d (if_Src f) mf"
      and src: "\<forall>f \<in> set files. \<not> if_Remove f \<and> validateManagedPath (if_Rel f) = None
         \<and> if_Src f = join_path packageRoot (if_Rel f) \<and> file_at d (if_Src f) \<noteq> None"
      by (rule candidate_sources [OF candidate])
    have "is_prefix (updates_dir root @ [''extracted'']) packageRoot"
      using found_root [of d "updates_dir root @ [''extracted'']" name] root by simp
    then have "is_prefix (updates_dir root @ [''extracted'']) (packageRoot @ q)" for q
      by (metis is_prefix_append prefix_trans)
    then have "\<forall>f \<in> set ?files. extracted_source root d f"
      using src m by (auto simp: install_list_def extracted_source_def join_managed)
    from transact_installs [OF new_state_startable [OF assms] candidate_names [OF fine candidate] this]
    show ?thesis
      by (rule after_weaken)
        (use installed_package [OF m listed] src in \<open>auto simp: same_sources_def if_success_def split: sum.splits\<close>)
  qed
  show "after ?P (case findPackageRoot d ?dir of
        None \<Rightarrow> ret (Inl ''package_root_invalid'')
      | Some packageRoot \<Rightarrow>
          (case validateExtractedCandidate hash d root packageRoot (pu_CurrentVersion p) (pu_TargetVersion p)
                  (pu_RequiredFiles p) ?direct of
             Inl e \<Rightarrow> ret (Inl e)
           | Inr (files, removed) \<Rightarrow>
               (if \<not> list_all (validateInstallTarget d root) removed then ret (Inl ''managed_target_unsafe'')
                else transact hash now root (new_state now stamp r p) (install_list packageRoot files removed))))
      (if_success (package_ok hash root))"
  proof (cases "all_files fine_content d")
    case False
    then show ?thesis by (auto simp: after_def)
  next
    case True
    then show ?thesis by (auto intro: after_refusal run split: option.split sum.split)
  qed
qed

lemma package_frame:
  assumes "touches S m" and "\<And>p. p \<in> S \<Longrightarrow> is_prefix (updates_dir root) p"
  shows "after (package_ok hash root) m (\<lambda>_. package_ok hash root)"
proof (rule after_touches [OF assms(1)])
  fix d d'
  assume ok: "package_ok hash root d" and same: "\<And>p. p \<notin> S \<Longrightarrow> file_at d' p = file_at d p"
  have same_file: "file_at d' (join_path root rel) = file_at d (join_path root rel)" if "validateManagedPath rel = None" for rel
    by (rule same) (use target_outside [OF that] assms(2) in blast)
  obtain m mode where m: "file_at d (root @ [ManifestName]) = Some (Manifest_doc m, mode)"
    and files: "\<forall>mf \<in> set (pm_Files m). validateManagedPath (manifest_name mf) = None
      \<and> verifyFileIntegrity hash d (join_path root (manifest_name mf)) mf"
    using ok by (auto simp: package_ok_def)
  have "file_at d' (root @ [ManifestName]) = Some (Manifest_doc m, mode)"
    using same_file [of ManifestName] manifest_managed m by (simp add: manifest_place)
  moreover have "\<forall>mf \<in> set (pm_Files m). validateManagedPath (manifest_name mf) = None
      \<and> verifyFileIntegrity hash d' (join_path root (manifest_name mf)) mf"
    using files same_file by (simp add: verifyFileIntegrity_def)
  ultimately show "package_ok hash root d'" by (auto simp: package_ok_def)
qed

subsection \<open>The answer of an update\<close>

definition says_applied :: "outcome \<Rightarrow> bool" where
  "says_applied r \<longleftrightarrow> (\<exists>x. r = Inr x \<and> ur_Message x = ''update applied; health commit required'')"

definition applied_ok :: "(content \<Rightarrow> string \<times> int) \<Rightarrow> disk_path \<Rightarrow> outcome \<Rightarrow> disk \<Rightarrow> bool" where
  "applied_ok hash root r d \<longleftrightarrow> (says_applied r \<longrightarrow> package_ok hash root d)"

lemma applied_other [simp]:
  "applied_ok hash root (Inl e) d"
  "msg \<noteq> ''update applied; health commit required'' \<Longrightarrow> applied_ok hash root (Inr (result a st v t h msg)) d"
  by (simp_all add: applied_ok_def says_applied_def result_def)

lemma begin_installs:
  assumes "list_all proper_part cwd" and "CHR ''/'' \<notin> set stamp"
  shows "after (all_files fine_content) (begin_update hash now stamp cwd runner name root p) (applied_ok hash root)"
proof (rule begin_shape [OF assms(1)])
  let ?dir = "updates_dir root @ [''extracted'', name]"
  show "after (all_files fine_content) (extractVerifiedArchive hash asset (updates_dir root @ [''extracted'']) name)
      (\<lambda>_. all_files fine_content)" for asset
    using fine.unpack unfolding keeps_def by blast
  fix r assume r: "good_runner root r"
  show "after (all_files fine_content) (do { answer \<leftarrow> install_candidate hash now stamp r root ?dir p;
      _ \<leftarrow> remove_all ?dir; ret answer }) (applied_ok hash root)"
  proof (rule after_bind [OF candidate_installs [OF r assms(2)]])
    fix answer
    have "after (package_ok hash root) (remove_all ?dir) (\<lambda>_. package_ok hash root)"
      by (rule package_frame [OF touches_remove_all [OF subset_refl]])
        (use prefix_trans [of "updates_dir root" ?dir] in auto)
    then show "after (if_success (package_ok hash root) answer) (do { _ \<leftarrow> remove_all ?dir; ret answer }) (applied_ok hash root)"
      by (cases answer) (auto simp: after_def applied_ok_def says_applied_def split: prod.splits)
  qed
qed simp

lemma continue_installs:
  assumes "list_all proper_part cwd" and "CHR ''/'' \<notin> set stamp"
  shows "after (all_files fine_content) (continue_update hash now stamp cwd runner name root state) (applied_ok hash root)"
  unfolding continue_update_def
proof (rule after_look)
  fix d
  let ?F = "all_files fine_content" and ?A = "applied_ok hash root"
  note new = begin_installs [OF assms, where root = root and hash = hash]
  have finish_: "after ?F (finish_commit now root s) ?A" for s
    unfolding finish_commit_def
    by (rule after_bind [where R = "\<lambda>_ _. True"]) (simp_all add: after_def split: sum.split)
  have stop: "after ?F (ret (Inl e)) ?A" "after ?F (ret (Inr (result a st v t h ''no pending update''))) ?A" for e a st v t h
    by (simp_all add: after_def)
  show "after ?F (case readPending d root of
        Inl _ \<Rightarrow> ret (Inl ''pending_invalid'')
      | Inr pending \<Rightarrow>
          (case (state, pending) of
             (Some s, Some p) \<Rightarrow>
               (if us_Status s \<noteq> ''committed'' then begin_update hash now stamp cwd runner name root p
                else if validatePending p \<noteq> None then ret (Inl ''pending_invalid'')
                else if equal_fold_ascii (trim_space (pu_TargetVersion p)) (trim_space (us_TargetVersion s))
                  then finish_commit now root s
                else if \<not> sameVersion (pu_CurrentVersion p) (us_CurrentVersion s) then ret (Inl ''pending_invalid'')
                else begin_update hash now stamp cwd runner name root p)
           | (Some s, None) \<Rightarrow>
               (if us_Status s = ''committed'' then finish_commit now root s
                else ret (Inr (result ''apply-pending'' ''no_pending'' [] [] False ''no pending update'')))
           | (None, Some p) \<Rightarrow> begin_update hash now stamp cwd runner name root p
           | (None, None) \<Rightarrow> ret (Inr (result ''apply-pending'' ''no_pending'' [] [] False ''no pending update'')))) ?A"
    using stop finish_ new by (simp split: sum.split option.split)
qed

lemma apply_installs:
  assumes "list_all proper_part cwd" and "CHR ''/'' \<notin> set stamp"
  shows "after (all_files fine_content) (applyPending hash now stamp cwd runner name root) (applied_ok hash root)"
  unfolding applyPending_def
proof (rule after_look, rule after_if)
  fix d
  let ?F = "all_files fine_content" and ?A = "applied_ok hash root"
  let ?go = "continue_update hash now stamp cwd runner name root"
  have go: "after ?F (?go state) ?A" for state by (rule continue_installs [OF assms])
  have undo: "after ?F (do { recovered \<leftarrow> rollback_update hash now root s False;
      (case recovered of Inl _ \<Rightarrow> ret (Inl e) | Inr _ \<Rightarrow> ?go (Some s)) }) ?A" for s e
    by (rule after_bind [OF fine.undo [unfolded keeps_def]]) (simp add: go after_def [of _ "ret _"] split: sum.split)
  have pending: "after ?F (ret (pending_health d root s)) ?A" for s
    by (rule after_ret) (auto simp: pending_health_def split: sum.split option.split)
  show "after ?F (case readState d root of
        Inl _ \<Rightarrow> ret (Inl ''state_invalid'')
      | Inr None \<Rightarrow> ?go None
      | Inr (Some s) \<Rightarrow>
          (if us_Status s = ''applying'' then do {
             recovered \<leftarrow> rollback_update hash now root s False;
             (case recovered of
                Inl _ \<Rightarrow> ret (Inl ''interrupted_recovery_failed'')
              | Inr _ \<Rightarrow> ?go (Some s))
           }
           else if us_Status s = ''applied_pending_health'' then ret (pending_health d root s)
           else ?go (Some s))) ?A"
    using go undo pending by (auto simp: after_def [of _ "ret (Inl _)"] split: sum.split option.split)
qed (simp add: after_def)

subsection \<open>Names that collide\<close>

lemma backup_names:
  "after (\<lambda>_. True) (backup_files root dir fs) (\<lambda>r _. \<forall>es. r = Inr es \<longrightarrow> map je_Path es = map if_Rel fs)"
proof (induction fs)
  case (Cons f fs)
  have one: "after (\<lambda>_. True) (backup_file root dir f) (\<lambda>r _. \<forall>e. r = Inr e \<longrightarrow> je_Path e = if_Rel f)"
    unfolding backup_file_def Let_def
    by (rule after_look) (auto simp: after_def split: option.split disk_node.split prod.splits)
  show ?case
    unfolding backup_files.simps
  proof (rule after_bind [OF one])
    fix this
    show "after (\<lambda>_. \<forall>e. this = Inr e \<longrightarrow> je_Path e = if_Rel f)
        (case this of Inl e \<Rightarrow> ret (Inl e)
         | Inr entry \<Rightarrow> do { others \<leftarrow> backup_files root dir fs;
             ret (case others of Inl e \<Rightarrow> Inl e | Inr entries \<Rightarrow> Inr (entry # entries)) })
        (\<lambda>r _. \<forall>es. r = Inr es \<longrightarrow> map je_Path es = map if_Rel (f # fs))"
    proof -
      have "map je_Path es = map if_Rel fs" if "run_state (backup_files root dir fs) w = (Inr es, w')" for w es w'
        using after_apply [OF Cons.IH _ that] by simp
      then show ?thesis by (cases this) (auto simp: after_def split: prod.splits sum.splits)
    qed
  qed
qed (simp add: after_def)

lemma transact_state:
  "after (\<lambda>_. True) (transact hash now root s files)
    (if_success (\<lambda>d. \<exists>t m. file_at d (state_path root) = Some (State_doc t, m) \<and> map je_Path (us_Journal t) = map if_Rel files))"
proof -
  let ?A = "\<lambda>d. \<exists>t m. file_at d (state_path root) = Some (State_doc t, m) \<and> map je_Path (us_Journal t) = map if_Rel files"
  have any: "after P m (\<lambda>_ _. True)" for P and m :: "(world, bool) state" by (simp add: after_def)
  have mark: "after P (writeJSONAtomic (state_path root) (State_doc t)) (\<lambda>ok d. ok \<longrightarrow> ?A d)"
    if "map je_Path (us_Journal t) = map if_Rel files" for t P
    unfolding after_def
  proof (intro allI impI)
    fix w :: world
    let ?m = "writeJSONAtomic (state_path root) (State_doc t)"
    assume ok: "fst (run_state ?m w)"
    have "\<exists>m. file_at (wd_disk (snd (run_state ?m w))) (state_path root) = Some (State_doc t, m)"
      using ok writeJSON_replaces [of "State_doc t" UNIV "state_path root" "latest (state_path root) (wd_disk w)" False]
      by (auto simp: after_def versions_in_def)
    with that show "?A (wd_disk (snd (run_state ?m w)))" by blast
  qed
  have marked: "after (\<lambda>d. ok \<longrightarrow> ?A d) (if \<not> ok then m else ret (Inr x)) (if_success ?A)"
    if "after (\<lambda>_. True) m (if_success ?A)" for ok m x
    using that by (cases ok) (simp_all add: after_def)
  show ?thesis
    unfolding transact_def Let_def
  proof (rule after_bind [OF any], rule after_if [OF after_refusal], rule after_bind)
    show "after (\<lambda>_. True) (backup_files root (us_BackupDir s) files)
        (\<lambda>r _. \<forall>es. r = Inr es \<longrightarrow> map je_Path es = map if_Rel files)" by (rule backup_names)
    fix found :: "string + JournalEntry list"
    show "after (\<lambda>_. \<forall>es. found = Inr es \<longrightarrow> map je_Path es = map if_Rel files)
        (case found of
          Inl e \<Rightarrow> do { _ \<leftarrow> remove_all (join_path (updates_dir root) (us_BackupDir s)); ret (Inl e) }
        | Inr entries \<Rightarrow> do {
            written \<leftarrow> writeJSONAtomic (state_path root) (State_doc (s\<lparr>us_Journal := entries\<rparr>));
            if \<not> written then do { _ \<leftarrow> remove_all (join_path (updates_dir root) (us_BackupDir s)); ret (Inl ''journal_write_failed'') }
            else do {
              installed \<leftarrow> install_files hash root files;
              if \<not> installed then do {
                undone \<leftarrow> rollback_update hash now root (s\<lparr>us_Journal := entries\<rparr>) False;
                ret (case undone of Inl _ \<Rightarrow> Inl ''apply_and_rollback_failed'' | Inr _ \<Rightarrow> Inl ''apply_failed'')
              } else do {
                marked \<leftarrow> writeJSONAtomic (state_path root)
                  (State_doc (s\<lparr>us_Journal := entries, us_Status := ''applied_pending_health'', us_UpdatedAt := now\<rparr>));
                if \<not> marked then do {
                  undone \<leftarrow> rollback_update hash now root
                    (s\<lparr>us_Journal := entries, us_Status := ''applied_pending_health'', us_UpdatedAt := now\<rparr>) False;
                  ret (case undone of Inl _ \<Rightarrow> Inl ''apply_and_rollback_failed'' | Inr _ \<Rightarrow> Inl ''state_write_failed'')
                } else ret (Inr (result ''apply-pending'' ''applied_pending_health''
                    (us_CurrentVersion (s\<lparr>us_Journal := entries, us_Status := ''applied_pending_health'', us_UpdatedAt := now\<rparr>))
                    (us_TargetVersion (s\<lparr>us_Journal := entries, us_Status := ''applied_pending_health'', us_UpdatedAt := now\<rparr>))
                    True ''update applied; health commit required''))
              }
            }
          }) (if_success ?A)"
    proof (cases found)
      case (Inl e)
      then show ?thesis by (simp add: after_failure)
    next
      case (Inr es)
      show ?thesis
      proof (cases "map je_Path es = map if_Rel files")
        case False
        then show ?thesis by (simp add: Inr after_def)
      next
        case True
        then show ?thesis
          unfolding Inr sum.case
          by (intro after_bind [OF any] after_if after_failure after_bind [OF mark] marked) (auto split: sum.split)
      qed
    qed
  qed
qed

lemma colliding_state:
  assumes "file_at d (state_path root) = Some (State_doc t, m)" and "\<not> distinct (map (\<lambda>e. ascii_lower (je_Path e)) (us_Journal t))"
  shows "\<exists>e. readState d root = Inl e"
proof -
  have "journal_problem (updates_dir root) [] (us_Journal t) \<noteq> None" using journal_entries(2) assms(2) by blast
  then have "validateState root t \<noteq> None" by (auto simp: validateState_def Let_def)
  then show ?thesis
    using readJSON_file(1) [OF assms(1), of as_state] by (auto simp: readState_def read_latest_def)
qed

lemma refused_call:
  assumes "readState (wd_disk w) root = Inl e"
  shows "run_state (updater_call hash cwd root c) w
    = (Inl (if is_dir (wd_disk w) root then ''state_invalid'' else ''invalid_root''), w)"
  using assms
  by (cases c) (simp_all add: applyPending_def Rollback_def Commit_def update_Status_def disk_now_def)

end
