(* ===== verification/Update_Checks.thy ===== *)
theory Update_Checks
  imports Update_Outcome
begin

text \<open>
  The checks of the package updater (\<open>go-service/internal/packageupdate/update.go\<close>) that other parts of
  the service call: \<open>PreflightCandidate\<close>, which tries a downloaded archive in a temporary directory,
  and \<open>ValidateInstalledApplyHelper\<close>, which looks for the program that will apply an update.
\<close>

record Candidate =
  cd_CurrentVersion :: string
  cd_TargetVersion :: string
  cd_AssetPath :: string
  cd_RequiredFiles :: "string list"

definition absolute :: "disk_path \<Rightarrow> string \<Rightarrow> disk_path" where
  "absolute cwd v = (if is_abs v then join_path [] v else join_path cwd v)"

text \<open>
  \<open>tempRoot\<close> is the directory \<open>os.MkdirTemp\<close> makes up, \<open>name\<close> the one below it; \<open>None\<close> is no error.
\<close>

definition PreflightCandidate ::
    "(content \<Rightarrow> string \<times> int) \<Rightarrow> disk_path \<Rightarrow> disk_path \<Rightarrow> disk_path \<Rightarrow> string \<Rightarrow> Candidate \<Rightarrow> (world, string option) state" where
  "PreflightCandidate hash cwd root tempRoot name c = do {
     d \<leftarrow> disk_now;
     let asset = absolute cwd (trim_space (cd_AssetPath c));
     if \<not> is_dir d root then ret (Some ''invalid_root'')
     else if trim_space (cd_CurrentVersion c) = [] \<or> trim_space (cd_TargetVersion c) = [] then ret (Some ''candidate_invalid'')
     else if file_at d asset = None then ret (Some ''asset_path_invalid'')
     else do {
       made \<leftarrow> step (make_dir_act tempRoot);
       if \<not> made then ret (Some ''preflight_temp_failed'')
       else do {
         dir \<leftarrow> extractVerifiedArchive hash asset tempRoot name;
         d \<leftarrow> disk_now;
         _ \<leftarrow> remove_all tempRoot;
         ret (case dir of
             None \<Rightarrow> Some ''archive_rejected''
           | Some extracted \<Rightarrow>
               (case findPackageRoot d extracted of
                  None \<Rightarrow> Some ''package_root_invalid''
                | Some packageRoot \<Rightarrow>
                    (case validateExtractedCandidate hash d root packageRoot (cd_CurrentVersion c) (cd_TargetVersion c)
                            (cd_RequiredFiles c) True of
                       Inl e \<Rightarrow> Some e
                     | Inr _ \<Rightarrow> None)))
       }
     }
   }"

lemma touches_preflight: "touches {q. is_prefix tempRoot q} (PreflightCandidate hash cwd root tempRoot name c)"
proof -
  have below: "{q. is_prefix (tempRoot @ [name]) q} \<subseteq> {q. is_prefix tempRoot q}"
    by (auto dest: prefix_trans [OF is_prefix_append])
  show ?thesis
    unfolding PreflightCandidate_def Let_def
    by (intro touching touches_mono [OF touches_extract below] subset_refl)
qed

text \<open>A candidate that passes is at least a newer version of a package that is up to the baseline.\<close>

lemma checked_versions:
  assumes "validateExtractedCandidate hash d root packageRoot current new required True = Inr r"
  shows "comparePackageVersions new current > 0 \<and> comparePackageVersions current ''3.9.9'' \<ge> 0"
  using assms unfolding validateExtractedCandidate_def
  by (auto simp: Let_def not_le split: option.splits if_splits)

lemma preflight_versions:
  assumes "run_state (PreflightCandidate hash cwd root tempRoot name c) w = (None, w')"
  shows "comparePackageVersions (cd_TargetVersion c) (cd_CurrentVersion c) > 0
    \<and> comparePackageVersions (cd_CurrentVersion c) ''3.9.9'' \<ge> 0"
  using assms checked_versions unfolding PreflightCandidate_def Let_def
  by (auto simp: disk_now_def split: if_splits prod.splits option.splits sum.splits)

text \<open>The entry of the helper program in the manifest.\<close>

fun find_helper :: "string \<Rightarrow> manifestFile option \<Rightarrow> manifestFile list \<Rightarrow> string + manifestFile option" where
  "find_helper rel entry [] = Inr entry"
| "find_helper rel entry (mf # rest) =
     (let candidate = canonicalRelativePath (mf_Path mf)
      in if validateManagedPath candidate \<noteq> None then Inl ''manifest path''
         else if \<not> equal_fold_ascii candidate rel then find_helper rel entry rest
         else if entry \<noteq> None then Inl ''duplicate apply helper manifest entry''
         else find_helper rel (Some mf) rest)"

definition ValidateInstalledApplyHelper :: "disk \<Rightarrow> disk_path \<Rightarrow> string option" where
  "ValidateInstalledApplyHelper d root =
     (let rel = ''bin/archive-center-updater''; path = join_path root rel
      in if \<not> is_dir d root then Some ''package root is not a directory''
         else case readPackageManifest d (root @ [ManifestName]) of
             None \<Rightarrow> Some ''current package manifest''
           | Some manifest \<Rightarrow>
               (if trim_space (pm_PackageVersion manifest) = [] then Some ''current package manifest has no package_version''
                else case find_helper rel None (pm_Files manifest) of
                    Inl e \<Rightarrow> Some e
                  | Inr None \<Rightarrow> Some ''apply helper is not manifest-managed''
                  | Inr (Some _) \<Rightarrow>
                      (if \<not> validateInstallTarget d root rel then Some ''apply helper target is unsafe''
                       else if \<not> inside path root then Some ''apply helper escaped package root''
                       else case file_at d path of
                           None \<Rightarrow> Some ''apply helper is not a regular file''
                         | Some (_, mode) \<Rightarrow> (if and mode 73 = 0 then Some ''apply helper is not executable'' else None))))"

lemma helper_found:
  assumes "ValidateInstalledApplyHelper d root = None"
  shows "\<exists>c mode. file_at d (join_path root ''bin/archive-center-updater'') = Some (c, mode) \<and> and mode 73 \<noteq> 0"
  using assms by (auto simp: ValidateInstalledApplyHelper_def Let_def split: if_splits option.splits sum.splits)

end
