(* ===== verification/Dynamic_Values.thy ===== *)
theory Dynamic_Values
  imports Archive_Prelude
begin

text \<open>
  Values of Go's \<open>any\<close> and the maps \<open>map[string]any\<close> in which the administration routes of
  \<open>go-service/internal/httpapi\<close> keep requests, progress reports and results, with the readers
  \<open>stringFromAny\<close>, \<open>intFromAny\<close>, \<open>uint64FromAny\<close> and \<open>nilIfEmpty\<close>, the conversions of
  \<open>strconv\<close> they use, and the text of a time (\<open>time.RFC3339\<close>).
\<close>

subsection \<open>Values\<close>

text \<open>
  A value carries its dynamic type. A \<open>float64\<close> is its bit pattern, a \<open>json.Number\<close> its text.
  A map is \<open>None\<close> when it is nil; a slice of any element type is a list of values.
\<close>

datatype any =
    Any_nil
  | Any_bool bool
  | Any_int int
  | Any_int64 int
  | Any_uint uint64
  | Any_uint64 uint64
  | Any_float float64
  | Any_number string
  | Any_text string
  | Any_list "any list"
  | Any_map "(string \<times> any) list option"

type_synonym any_map = "(string \<times> any) list"

text \<open>Reading a key of a map that may be nil: an absent key reads as nil.\<close>

definition lookup :: "any_map option \<Rightarrow> string \<Rightarrow> any" where
  "lookup m k =
     (case m of None \<Rightarrow> Any_nil
      | Some kvs \<Rightarrow> (case map_of kvs k of None \<Rightarrow> Any_nil | Some v \<Rightarrow> v))"

definition has_key :: "any_map option \<Rightarrow> string \<Rightarrow> bool" where
  "has_key m k \<longleftrightarrow> (case m of None \<Rightarrow> False | Some kvs \<Rightarrow> map_of kvs k \<noteq> None)"

text \<open>\<open>for k, v := range src { dst[k] = v }\<close>; the iteration order does not change the lookups.\<close>

fun merge_into :: "any_map \<Rightarrow> any_map \<Rightarrow> any_map" where
  "merge_into dst [] = dst"
| "merge_into dst ((k, v) # src) = merge_into (map_put k v dst) src"

definition entries :: "any_map option \<Rightarrow> any_map" where
  "entries m = (case m of None \<Rightarrow> [] | Some kvs \<Rightarrow> kvs)"

text \<open>
  Copies are values here; only the entry list is copied, and nested maps are shared in Go. No code
  modelled here writes into a nested map.
\<close>

definition cloneMapAny :: "any_map option \<Rightarrow> any_map option" where
  "cloneMapAny m = (case m of None \<Rightarrow> None | Some kvs \<Rightarrow> Some (merge_into [] kvs))"

lemma map_of_merge_into:
  assumes "go_map src"
  shows "map_of (merge_into dst src) = map_of dst ++ map_of src"
  using assms
proof (induction src arbitrary: dst)
  case (Cons kv src)
  obtain k v where kv: "kv = (k, v)" by (cases kv)
  with Cons.prems have "map_of src k = None" "go_map src" by (auto simp: map_of_eq_None_iff)
  then show ?case
    by (auto simp: kv Cons.IH map_add_def split: option.splits)
qed simp

lemma go_map_merge_into: "go_map dst \<Longrightarrow> go_map (merge_into dst src)"
  by (induction dst src rule: merge_into.induct) simp_all

text \<open>A copy of a map is the same list of entries when its keys are distinct.\<close>

lemma merge_into_fresh:
  assumes "go_map (dst @ src)"
  shows "merge_into dst src = dst @ src"
  using assms
proof (induction src arbitrary: dst)
  case (Cons kv src)
  obtain k v where kv: "kv = (k, v)" by (cases kv)
  with Cons.prems have "k \<notin> fst ` set dst" by auto
  then have "map_put k v dst = dst @ [(k, v)]"
    by (simp add: map_put_def map_remove_absent map_of_eq_None_iff)
  with Cons kv show ?case by simp
qed simp

lemma clone_entries: "go_map kvs \<Longrightarrow> cloneMapAny (Some kvs) = Some kvs"
  by (simp add: cloneMapAny_def merge_into_fresh)

subsection \<open>Numbers in text\<close>

definition Atoi :: "string \<Rightarrow> int option" where
  "Atoi s =
     (let negative = is_prefix ''-'' s;
          digits = (if negative \<or> is_prefix ''+'' s then tl s else s);
          n = (if negative then - digits_value digits else digits_value digits)
      in if digits = [] \<or> \<not> list_all is_digit digits \<or> n < - (2 ^ 63) \<or> 2 ^ 63 \<le> n then None else Some n)"

text \<open>\<open>strconv.ParseUint(s, 10, 64)\<close>: its number, and whether it reports an error.\<close>

definition ParseUint :: "string \<Rightarrow> uint64 \<times> bool" where
  "ParseUint s =
     (if s = [] \<or> \<not> list_all is_digit s then (0, True)
      else if 2 ^ 64 \<le> digits_value s then (- 1, True)
      else (word_of_int (digits_value s), False))"

text \<open>
  A \<open>float64\<close> cut to an integer: \<open>None\<close> for infinities and NaN. What Go's conversion gives outside
  the range of the integer type is up to the implementation; the definitions below take the value
  with only the top bit set.
\<close>

definition float_trunc :: "float64 \<Rightarrow> int option" where
  "float_trunc w =
     (let e = nat (uint (drop_bit 52 w) mod 2048);
          m = 2 ^ 52 + uint w mod 2 ^ 52;
          n = (if e < 1023 then 0 else if e < 1075 then m div 2 ^ (1075 - e) else m * 2 ^ (e - 1075))
      in if e = 2047 then None else Some (if bit w 63 then - n else n))"

definition float_to_int :: "float64 \<Rightarrow> int" where
  "float_to_int w =
     (case float_trunc w of
        None \<Rightarrow> - (2 ^ 63)
      | Some n \<Rightarrow> (if - (2 ^ 63) \<le> n \<and> n < 2 ^ 63 then n else - (2 ^ 63)))"

definition float_positive :: "float64 \<Rightarrow> bool" where
  "float_positive w \<longleftrightarrow> 0 < sint w \<and> uint w \<le> 0x7FF0000000000000"

text \<open>\<open>strings.Contains\<close>.\<close>

fun contains :: "string \<Rightarrow> string \<Rightarrow> bool" where
  "contains s p = (is_prefix p s \<or> (case s of [] \<Rightarrow> False | _ # cs \<Rightarrow> contains cs p))"

declare contains.simps [simp del]

text \<open>\<open>strings.Compare(s, t) < 0\<close>, byte by byte.\<close>

fun byte_less :: "string \<Rightarrow> string \<Rightarrow> bool" where
  "byte_less s [] = False"
| "byte_less [] (c # cs) = True"
| "byte_less (b # bs) (c # cs) = (byte_at b < byte_at c \<or> b = c \<and> byte_less bs cs)"

subsection \<open>Readers\<close>

definition stringFromAny_value :: "any \<Rightarrow> string" where
  "stringFromAny_value v = (case v of Any_text s \<Rightarrow> s | _ \<Rightarrow> [])"

definition intFromAny :: "any \<Rightarrow> int \<Rightarrow> int" where
  "intFromAny v fallback =
     (case v of
        Any_int t \<Rightarrow> t
      | Any_int64 t \<Rightarrow> t
      | Any_float t \<Rightarrow> float_to_int t
      | Any_number t \<Rightarrow> (case Atoi t of Some n \<Rightarrow> n | None \<Rightarrow> fallback)
      | Any_text t \<Rightarrow> (case Atoi (trim_space t) of Some n \<Rightarrow> n | None \<Rightarrow> fallback)
      | _ \<Rightarrow> fallback)"

definition uint64FromAny :: "any \<Rightarrow> uint64" where
  "uint64FromAny v =
     (case v of
        Any_uint64 value \<Rightarrow> value
      | Any_uint value \<Rightarrow> value
      | Any_int value \<Rightarrow> (if 0 < value then word_of_int value else 0)
      | Any_int64 value \<Rightarrow> (if 0 < value then word_of_int value else 0)
      | Any_float value \<Rightarrow>
          (if float_positive value
             then (case float_trunc value of
                     Some n \<Rightarrow> (if n < 2 ^ 64 then word_of_int n else 2 ^ 63)
                   | None \<Rightarrow> 2 ^ 63)
             else 0)
      | Any_text value \<Rightarrow> fst (ParseUint (trim_space value))
      | _ \<Rightarrow> 0)"

definition nilIfEmpty :: "string \<Rightarrow> any" where
  "nilIfEmpty text = (if trim_space text = [] then Any_nil else Any_text text)"

text \<open>A few conversions, evaluated: 1.5, -2.75 and 2^62 as bit patterns.\<close>

lemma float_to_int_samples:
  "float_to_int 0x3FF8000000000000 = 1 \<and> float_to_int 0xC006000000000000 = - 2
    \<and> float_to_int 0x43D0000000000000 = 2 ^ 62 \<and> float_to_int 0x7FF0000000000000 = - (2 ^ 63)"
  by code_simp

subsection \<open>The text of a time\<close>

text \<open>
  \<open>t.Format(time.RFC3339)\<close> of a UTC time: nanoseconds since year 1 are cut to seconds, the day
  number is turned into the proleptic Gregorian date (years are counted from March, so that the
  leap day is the last day of a year).
\<close>

definition pad_left :: "nat \<Rightarrow> string \<Rightarrow> string" where
  "pad_left n s = replicate (n - length s) (CHR ''0'') @ s"

definition civil_date :: "int \<Rightarrow> int \<times> int \<times> int" where
  "civil_date days =
     (let z = days + 306;
          era = z div 146097;
          doe = z mod 146097;
          yoe = (doe - doe div 1460 + doe div 36524 - doe div 146096) div 365;
          doy = doe - (365 * yoe + yoe div 4 - yoe div 100);
          mp = (5 * doy + 2) div 153;
          d = doy - (153 * mp + 2) div 5 + 1;
          m = (if mp < 10 then mp + 3 else mp - 9)
      in (yoe + era * 400 + (if m \<le> 2 then 1 else 0), m, d))"

definition rfc3339 :: "go_time \<Rightarrow> string" where
  "rfc3339 t =
     (let seconds = t div second;
          (y, m, d) = civil_date (seconds div 86400);
          rest = seconds mod 86400
      in pad_left 4 (decimal y) @ ''-'' @ pad_left 2 (decimal m) @ ''-'' @ pad_left 2 (decimal d) @ ''T''
         @ pad_left 2 (decimal (rest div 3600)) @ '':'' @ pad_left 2 (decimal (rest div 60 mod 60)) @ '':''
         @ pad_left 2 (decimal (rest mod 60)) @ ''Z'')"

text \<open>\<open>UnixNano\<close>: 1970-01-01 is 719162 days after 0001-01-01.\<close>

definition unix_nano :: "go_time \<Rightarrow> int" where
  "unix_nano t = int64 (t - 719162 * 86400 * second)"

lemma rfc3339_samples:
  "rfc3339 0 = ''0001-01-01T00:00:00Z'' \<and> rfc3339 (719162 * 86400 * second) = ''1970-01-01T00:00:00Z''
    \<and> rfc3339 (719162 * 86400 * second + 951782399 * second + 5) = ''2000-02-28T23:59:59Z''
    \<and> rfc3339 (719162 * 86400 * second + 951868799 * second) = ''2000-02-29T23:59:59Z''
    \<and> rfc3339 (719162 * 86400 * second + 951868800 * second) = ''2000-03-01T00:00:00Z''"
  by code_simp

end
