(* ===== verification/Admin_Jobs.thy ===== *)
theory Admin_Jobs
  imports Dynamic_Values
begin

text \<open>
  The manager of background jobs of the administration routes
  (\<open>go-service/internal/httpapi/admin_jobs.go\<close>): starting a job or joining the one that is already
  running, progress, the end of a job, cancelling, pruning, snapshots, and the routes that read them.
  Every operation holds the manager's mutex from its first to its last access, so each is one step; the
  clock is an argument. A nil manager answers every operation as an empty manager does (nothing
  found, nothing listed, nothing changed), so nil is not a value of its own.
\<close>

subsection \<open>Jobs\<close>

text \<open>
  The channel \<open>changed\<close> is a number; closed channels are listed in the manager. It is never nil:
  \<open>start\<close> makes it and \<open>publishChangeLocked\<close> replaces it. \<open>cancel\<close> only says whether the
  function is still there. Jobs are reached only through the map, so they are values in it.
\<close>

record admin_job =
  aj_ID :: string
  aj_Kind :: string
  aj_SessionID :: string
  aj_Status :: string
  aj_Request :: "any_map option"
  aj_Progress :: "any_map option"
  aj_Result :: "any_map option"
  aj_Error :: string
  aj_StartedAt :: go_time
  aj_UpdatedAt :: go_time
  aj_FinishedAt :: "go_time option"
  aj_Revision :: uint64
  aj_changed :: nat
  aj_cancel :: bool

record admin_jobs =
  am_nextID :: uint64
  am_jobs :: "(string \<times> admin_job) list"
  am_order :: "string list"
  am_maxJobs :: int
  am_channels :: nat
  am_closed :: "nat list"

definition newAdminJobManager :: admin_jobs where
  "newAdminJobManager =
     \<lparr>am_nextID = 0, am_jobs = [], am_order = [], am_maxJobs = 80, am_channels = 0, am_closed = []\<rparr>"

definition the_job :: "admin_jobs \<Rightarrow> string \<Rightarrow> admin_job option" where
  "the_job m jid = map_of (am_jobs m) jid"

definition adminJobTerminal :: "string \<Rightarrow> bool" where
  "adminJobTerminal status \<longleftrightarrow>
     trim_space status \<in> {''completed'', ''deferred'', ''partial_error'', ''failed'', ''cancelled''}"

definition finished :: "admin_job \<Rightarrow> bool" where
  "finished j \<longleftrightarrow> adminJobTerminal (aj_Status j)"

definition job_snapshot :: "admin_job \<Rightarrow> any_map" where
  "job_snapshot j =
     [(''job_id'', Any_text (aj_ID j)), (''kind'', Any_text (aj_Kind j)),
      (''chat_session_id'', Any_text (aj_SessionID j)), (''status'', Any_text (aj_Status j)),
      (''request'', Any_map (cloneMapAny (aj_Request j))),
      (''progress'', Any_map (cloneMapAny (aj_Progress j))),
      (''result'', Any_map (cloneMapAny (aj_Result j))), (''error'', nilIfEmpty (aj_Error j)),
      (''started_at'', Any_text (rfc3339 (aj_StartedAt j))),
      (''updated_at'', Any_text (rfc3339 (aj_UpdatedAt j))), (''background'', Any_bool True),
      (''contract_version'', Any_text ''admin_background_job.v1''),
      (''revision'', Any_uint64 (aj_Revision j)), (''terminal'', Any_bool (adminJobTerminal (aj_Status j)))]
     @ (case aj_FinishedAt j of None \<Rightarrow> [] | Some t \<Rightarrow> [(''finished_at'', Any_text (rfc3339 t))])"

lemma snapshot_reads [simp]:
  "lookup (Some (job_snapshot j)) ''status'' = Any_text (aj_Status j)"
  "lookup (Some (job_snapshot j)) ''job_id'' = Any_text (aj_ID j)"
  "lookup (Some (job_snapshot j)) ''revision'' = Any_uint64 (aj_Revision j)"
  "lookup (Some (job_snapshot j)) ''terminal'' = Any_bool (finished j)"
  "lookup (Some (job_snapshot j)) ''started_at'' = Any_text (rfc3339 (aj_StartedAt j))"
  "lookup (Some (job_snapshot j)) ''request'' = Any_map (cloneMapAny (aj_Request j))"
  by (simp_all add: job_snapshot_def lookup_def finished_def)

definition secret_key :: "string \<Rightarrow> bool" where
  "secret_key k \<longleftrightarrow>
     (let lower = ascii_lower k
      in contains lower ''key'' \<or> contains lower ''secret'' \<or> contains lower ''password'' \<or> contains lower ''token'')"

definition redact :: "string \<times> any \<Rightarrow> string \<times> any" where
  "redact kv = (if secret_key (fst kv) then (fst kv, Any_text ''[redacted]'') else kv)"

definition sanitizeAdminJobRequest :: "any_map option \<Rightarrow> any_map" where
  "sanitizeAdminJobRequest req = merge_into [] (map redact (entries req))"

definition adminJobProgressPercent :: "int \<Rightarrow> int \<Rightarrow> int" where
  "adminJobProgressPercent processed goal_count =
     (if goal_count \<le> 0 then (if 0 < processed then 100 else 0)
      else
        let pct = (let n = int64 (processed * 100) in if n < 0 then - ((- n) div goal_count) else n div goal_count)
        in if pct < 0 then 0 else if 100 < pct then 100 else pct)"

subsection \<open>Starting a job\<close>

definition queued_progress :: any_map where
  "queued_progress =
     [(''status'', Any_text ''queued''), (''processed'', Any_int 0), (''candidate_count'', Any_int 0),
      (''display_total'', Any_int 0), (''failed_count'', Any_int 0), (''skipped_count'', Any_int 0),
      (''progress_percent'', Any_int 0), (''processed_turns'', Any_list []), (''failed_turns'', Any_list []),
      (''failed_ids'', Any_list []), (''last_processed'', Any_nil), (''foreground_timeout'', Any_bool False)]"

text \<open>\<open>fmt.Sprintf("%s-%d-%06d", ...)\<close>.\<close>

definition job_id :: "string \<Rightarrow> go_time \<Rightarrow> uint64 \<Rightarrow> string" where
  "job_id kind now counter =
     ascii_lower kind @ ''-'' @ decimal (unix_nano now) @ ''-'' @ pad_left 6 (decimal_nat (unat counter))"

definition same_work :: "string \<Rightarrow> string \<Rightarrow> admin_job \<Rightarrow> bool" where
  "same_work kind sid j \<longleftrightarrow>
     equal_fold_ascii (trim_space (aj_Kind j)) kind \<and> trim_space (aj_SessionID j) = sid"

definition still_open :: "admin_job \<Rightarrow> bool" where
  "still_open j \<longleftrightarrow> aj_Status j \<in> {''queued'', ''running'', ''cancelling''}"

fun reusable :: "admin_jobs \<Rightarrow> string \<Rightarrow> string \<Rightarrow> string list \<Rightarrow> admin_job option" where
  "reusable m kind sid [] = None"
| "reusable m kind sid (jid # ids) =
     (case the_job m jid of
        None \<Rightarrow> reusable m kind sid ids
      | Some existing \<Rightarrow>
          (if \<not> same_work kind sid existing then reusable m kind sid ids
           else if \<not> still_open existing then reusable m kind sid ids
           else Some existing))"

fun prune_scan :: "admin_jobs \<Rightarrow> int \<Rightarrow> string list \<Rightarrow> string list \<Rightarrow> admin_jobs" where
  "prune_scan m remaining kept [] = m\<lparr>am_order := kept\<rparr>"
| "prune_scan m remaining kept (jid # ids) =
     (case the_job m jid of
        Some job \<Rightarrow>
          (if 0 < remaining \<and> adminJobTerminal (aj_Status job)
             then prune_scan (m\<lparr>am_jobs := map_remove jid (am_jobs m)\<rparr>) (remaining - 1) kept ids
           else prune_scan m remaining (kept @ [jid]) ids)
      | None \<Rightarrow> prune_scan m remaining (kept @ [jid]) ids)"

definition pruneLocked :: "admin_jobs \<Rightarrow> admin_jobs" where
  "pruneLocked m =
     (let m = (if am_maxJobs m \<le> 0 then m\<lparr>am_maxJobs := 80\<rparr> else m)
      in if int (length (am_order m)) \<le> am_maxJobs m then m
         else prune_scan m (int (length (am_order m)) - am_maxJobs m) [] (am_order m))"

definition queued_job :: "string \<Rightarrow> string \<Rightarrow> string \<Rightarrow> any_map option \<Rightarrow> go_time \<Rightarrow> nat \<Rightarrow> admin_job" where
  "queued_job jid kind sid request now channel =
     \<lparr>aj_ID = jid, aj_Kind = kind, aj_SessionID = sid, aj_Status = ''queued'',
      aj_Request = Some (sanitizeAdminJobRequest request), aj_Progress = Some queued_progress,
      aj_Result = None, aj_Error = [], aj_StartedAt = now, aj_UpdatedAt = now, aj_FinishedAt = None,
      aj_Revision = 1, aj_changed = channel, aj_cancel = True\<rparr>"

text \<open>
  The answer, the manager, and the id and kind of the worker goroutine when one is spawned.
\<close>

definition job_start ::
    "admin_jobs \<Rightarrow> string \<Rightarrow> string \<Rightarrow> any_map option \<Rightarrow> go_time \<Rightarrow> any_map \<times> admin_jobs \<times> (string \<times> string) option" where
  "job_start m kind sid request now =
     (let normalizedKind = trim_space kind;
          normalizedSID = trim_space sid
      in case reusable m normalizedKind normalizedSID (rev (am_order m)) of
           Some existing \<Rightarrow>
             (map_put ''reused_running_job'' (Any_bool True) (job_snapshot existing), m, None)
         | None \<Rightarrow>
             (let counter = am_nextID m + 1;
                  jid = job_id normalizedKind now counter;
                  job = queued_job jid normalizedKind normalizedSID request now (am_channels m);
                  m = m\<lparr>am_nextID := counter, am_jobs := map_put jid job (am_jobs m),
                        am_order := am_order m @ [jid], am_channels := Suc (am_channels m)\<rparr>
              in (job_snapshot job, pruneLocked m, Some (jid, normalizedKind))))"

subsection \<open>Progress and the end of a job\<close>

text \<open>
  \<open>publishChangeLocked\<close>: closes the channel that observers wait for and makes a new one. The job is
  stored under its key again, since a job is a value here.
\<close>

definition publishChangeLocked :: "admin_jobs \<Rightarrow> string \<Rightarrow> admin_job \<Rightarrow> admin_jobs" where
  "publishChangeLocked m jid j =
     m\<lparr>am_jobs := map (\<lambda>kv. if fst kv = jid
                               then (jid, j\<lparr>aj_Revision := aj_Revision j + 1, aj_changed := am_channels m\<rparr>)
                             else kv) (am_jobs m),
       am_closed := aj_changed j # am_closed m, am_channels := Suc (am_channels m)\<rparr>"

text \<open>The counts a report may carry, in the order in which they are looked for.\<close>

definition total_keys :: "string list" where
  "total_keys = [''candidate_count'', ''total_candidates'', ''total'']"

fun first_count :: "any_map option \<Rightarrow> string list \<Rightarrow> any option" where
  "first_count progress [] = None"
| "first_count progress (k # ks) =
     (if has_key progress k then Some (lookup progress k) else first_count progress ks)"

definition merge_progress :: "any_map option \<Rightarrow> any_map option \<Rightarrow> any_map" where
  "merge_progress old progress =
     (let p0 = entries old;
          previousStage = trim_space (stringFromAny_value (lookup (Some p0) ''stage''));
          incomingStage = trim_space (stringFromAny_value (lookup progress ''stage''));
          p1 = (if incomingStage \<noteq> [] \<and> incomingStage \<noteq> previousStage
                   \<and> \<not> has_key progress ''display_total'' \<and> \<not> has_key progress ''candidate_count''
                   \<and> \<not> has_key progress ''total_candidates'' \<and> \<not> has_key progress ''total''
                then map_put ''display_total'' (Any_int 0) p0 else p0);
          p2 = merge_into p1 (entries progress)
      in if has_key progress ''display_total'' then p2
         else case first_count progress total_keys of
                None \<Rightarrow> p2
              | Some value \<Rightarrow> map_put ''display_total'' (Any_int (intFromAny value 0)) p2)"

definition job_update :: "admin_jobs \<Rightarrow> string \<Rightarrow> string \<Rightarrow> any_map option \<Rightarrow> go_time \<Rightarrow> admin_jobs" where
  "job_update m jid status progress now =
     (case the_job m jid of
        None \<Rightarrow> m
      | Some job \<Rightarrow>
          (if adminJobTerminal (aj_Status job) then m
           else publishChangeLocked m jid
                  (job\<lparr>aj_Status := (if trim_space status \<noteq> [] then trim_space status else aj_Status job),
                       aj_Progress := Some (merge_progress (aj_Progress job) progress),
                       aj_UpdatedAt := now\<rparr>)))"

definition closing_progress :: "any_map option \<Rightarrow> string \<Rightarrow> string \<Rightarrow> go_time \<Rightarrow> any_map" where
  "closing_progress old status errText now =
     (let p = map_put ''status'' (Any_text status) (entries old);
          p = map_put ''done'' (Any_bool (status = ''completed'')) p;
          p = map_put ''error'' (nilIfEmpty errText) p;
          p = map_put ''finished_at'' (Any_text (rfc3339 now)) p;
          p = (if has_key (Some p) ''progress_percent'' then p
               else map_put ''progress_percent'' (Any_int 100) p)
      in if status = ''completed'' then map_put ''progress_percent'' (Any_int 100) p
         else if status = ''deferred'' \<and> 100 \<le> intFromAny (lookup (Some p) ''progress_percent'') 0
           then map_put ''progress_percent'' (Any_int 99) p
         else p)"

definition job_finish ::
    "admin_jobs \<Rightarrow> string \<Rightarrow> string \<Rightarrow> any_map option \<Rightarrow> string \<Rightarrow> go_time \<Rightarrow> admin_jobs" where
  "job_finish m jid status result errText now =
     (case the_job m jid of
        None \<Rightarrow> m
      | Some job \<Rightarrow>
          (if adminJobTerminal (aj_Status job) then m
           else publishChangeLocked m jid
                  (job\<lparr>aj_Status := status, aj_UpdatedAt := now, aj_FinishedAt := Some now,
                       aj_Result := result, aj_Error := trim_space errText, aj_cancel := False,
                       aj_Progress := Some (closing_progress (aj_Progress job) status (trim_space errText) now)\<rparr>)))"

text \<open>\<open>context.Canceled.Error()\<close>.\<close>

definition canceled_text :: string where
  "canceled_text = ''context canceled''"

text \<open>The answer, the manager, and whether the cancel function is called (after the mutex is released).\<close>

definition cancelJob :: "admin_jobs \<Rightarrow> string \<Rightarrow> go_time \<Rightarrow> any_map option \<times> admin_jobs \<times> bool" where
  "cancelJob m rawID now =
     (let jid = trim_space rawID
      in case the_job m jid of
           None \<Rightarrow> (None, m, False)
         | Some job \<Rightarrow>
             (if adminJobTerminal (aj_Status job) then (Some (job_snapshot job), m, False)
              else
                let p = map_put ''status'' (Any_text ''cancelled'') (entries (aj_Progress job));
                    p = map_put ''done'' (Any_bool False) p;
                    p = map_put ''error'' (Any_text canceled_text) p;
                    p = map_put ''finished_at'' (Any_text (rfc3339 now)) p;
                    m = publishChangeLocked m jid
                          (job\<lparr>aj_Status := ''cancelled'', aj_UpdatedAt := now, aj_FinishedAt := Some now,
                               aj_Error := canceled_text, aj_cancel := False, aj_Progress := Some p\<rparr>)
                in (map_option job_snapshot (the_job m jid), m, aj_cancel job)))"

text \<open>
  How a worker goroutine ends its job: \<open>err\<close> is the error of the work function with its text, \<open>result\<close>
  its map (which may be nil).
\<close>

definition work_status :: "string \<Rightarrow> any_map option \<Rightarrow> string" where
  "work_status kind result =
     (let status = stringFromAny_value (lookup result ''status'');
          terminalStatus =
            (if is_prefix ''worldline_source_recovery_'' kind
                \<and> status \<in> {''processing'', ''queued_existing_reprocessing''}
             then ''deferred'' else ''completed'')
      in if equal_fold_ascii kind ''session_normalize''
         then (let s = ascii_lower (trim_space status)
               in if s \<in> {''deferred'', ''partial_deferred''} then ''deferred''
                  else if s = ''partial_error'' then ''partial_error''
                  else if s \<in> {''failed'', ''error'', ''blocked''} then ''failed''
                  else terminalStatus)
         else terminalStatus)"

definition work_end :: "string \<Rightarrow> any_map option \<Rightarrow> (go_error \<times> string) option \<Rightarrow> string \<times> string" where
  "work_end kind result err =
     (case err of
        Some (e, text) \<Rightarrow> (if error_is e ErrContextCanceled then (''cancelled'', text) else (''failed'', text))
      | None \<Rightarrow> (work_status kind result, []))"

subsection \<open>Reading jobs\<close>

definition job_get :: "admin_jobs \<Rightarrow> string \<Rightarrow> any_map option" where
  "job_get m rawID = map_option job_snapshot (the_job m (trim_space rawID))"

fun list_scan :: "admin_jobs \<Rightarrow> int \<Rightarrow> any_map list \<Rightarrow> string list \<Rightarrow> any_map list" where
  "list_scan m limit out [] = out"
| "list_scan m limit out (jid # ids) =
     (if int (length out) < limit
        then (case the_job m jid of
                Some job \<Rightarrow> list_scan m limit (out @ [job_snapshot job]) ids
              | None \<Rightarrow> list_scan m limit out ids)
      else out)"

definition job_list :: "admin_jobs \<Rightarrow> int \<Rightarrow> any_map list" where
  "job_list m limit = list_scan m (if limit \<le> 0 then 20 else limit) [] (rev (am_order m))"

text \<open>
  \<open>observe\<close>: whether the job is there, its snapshot if its revision is newer than the given one or the
  job is finished, and the channel that its next change closes.
\<close>

definition job_observe :: "admin_jobs \<Rightarrow> string \<Rightarrow> uint64 \<Rightarrow> (any_map option \<times> nat) option" where
  "job_observe m rawID afterRevision =
     (case the_job m (trim_space rawID) of
        None \<Rightarrow> None
      | Some job \<Rightarrow>
          Some (if afterRevision < aj_Revision job \<or> adminJobTerminal (aj_Status job)
                  then Some (job_snapshot job) else None, aj_changed job))"

subsection \<open>The routes\<close>

datatype answer = Answer int any_map | Bad_request string

definition not_found :: "string \<Rightarrow> answer" where
  "not_found jid = Answer 404 [(''status'', Any_text ''not_found''), (''job_id'', Any_text jid)]"

text \<open>\<open>sort.SliceStable\<close> with the newest start first.\<close>

definition started_text :: "any_map \<Rightarrow> string" where
  "started_text job = stringFromAny_value (lookup (Some job) ''started_at'')"

fun place_by_start :: "any_map \<Rightarrow> any_map list \<Rightarrow> any_map list" where
  "place_by_start x [] = [x]"
| "place_by_start x (y # ys) =
     (if byte_less (started_text x) (started_text y) then y # place_by_start x ys else x # y # ys)"

definition newest_first :: "any_map list \<Rightarrow> any_map list" where
  "newest_first jobs = foldr place_by_start jobs []"

definition handleAdminJobs :: "admin_jobs option \<Rightarrow> string \<Rightarrow> answer" where
  "handleAdminJobs mgr limitText =
     (let limit = intFromAny (Any_text limitText) 20;
          jobs = (case mgr of None \<Rightarrow> [] | Some m \<Rightarrow> job_list m limit)
      in Answer 200 [(''status'', Any_text ''ok''),
                     (''jobs'', Any_list (map (\<lambda>j. Any_map (Some j)) (newest_first jobs)))])"

definition handleAdminJob ::
    "admin_jobs option \<Rightarrow> string \<Rightarrow> string \<Rightarrow> go_time \<Rightarrow> answer \<times> admin_jobs option \<times> bool" where
  "handleAdminJob mgr verb rawID now =
     (let jid = trim_space rawID
      in if jid = [] then (Bad_request ''job_id is required'', mgr, False)
         else case mgr of
                None \<Rightarrow> (not_found jid, mgr, False)
              | Some m \<Rightarrow>
                  (if verb = ''DELETE''
                     then (case cancelJob m jid now of
                             (None, m', c) \<Rightarrow> (not_found jid, Some m', c)
                           | (Some job, m', c) \<Rightarrow> (Answer 200 job, Some m', c))
                   else (case job_get m jid of
                           None \<Rightarrow> (not_found jid, mgr, False)
                         | Some job \<Rightarrow> (Answer 200 job, mgr, False))))"

text \<open>
  \<open>handleAdminJobEvents\<close> up to its loop: either an answer, or the id and the revision with which the
  loop starts. \<open>flushes\<close> says whether the writer is an \<open>http.Flusher\<close>.
\<close>

definition open_events ::
    "admin_jobs option \<Rightarrow> string \<Rightarrow> string \<Rightarrow> bool \<Rightarrow> answer + (string \<times> uint64)" where
  "open_events mgr rawID afterText flushes =
     (let jid = trim_space rawID
      in if jid = [] then Inl (Bad_request ''job_id is required'')
         else case mgr of
                None \<Rightarrow> Inl (not_found jid)
              | Some m \<Rightarrow>
                  (case ParseUint (trim_space afterText) of
                     (afterRevision, bad) \<Rightarrow>
                       (if bad \<and> trim_space afterText \<noteq> []
                          then Inl (Bad_request ''after_revision must be a non-negative integer'')
                        else if job_observe m jid afterRevision = None then Inl (not_found jid)
                        else if \<not> flushes
                          then Inl (Answer 501 [(''status'', Any_text ''stream_transport_unavailable''),
                                 (''reason_code'', Any_text ''http_flusher_unavailable''), (''job_id'', Any_text jid)])
                        else Inr (jid, afterRevision))))"

text \<open>
  The loop: it is about to observe, or waits for a channel, or has returned; with the snapshots it
  has written. A turn of the loop that writes may fail (\<open>wrote = False\<close>), which ends the stream.
  \<open>snapshot["terminal"]\<close> is a \<open>bool\<close>, the first branch of \<open>boolFromAny\<close>.
\<close>

datatype event_stream =
    Observing string uint64 "any_map list"
  | Sleeping string uint64 nat "any_map list"
  | Closed "any_map list"

definition snapshot_terminal :: "any_map \<Rightarrow> bool" where
  "snapshot_terminal s = (case lookup (Some s) ''terminal'' of Any_bool b \<Rightarrow> b | _ \<Rightarrow> False)"

fun events_turn :: "admin_jobs \<Rightarrow> bool \<Rightarrow> event_stream \<Rightarrow> event_stream" where
  "events_turn m wrote (Observing jid current sent) =
     (case job_observe m jid current of
        None \<Rightarrow> Closed sent
      | Some (None, changed) \<Rightarrow> Sleeping jid current changed sent
      | Some (Some snapshot, changed) \<Rightarrow>
          (if \<not> wrote then Closed sent
           else if snapshot_terminal snapshot then Closed (sent @ [snapshot])
           else Observing jid (uint64FromAny (lookup (Some snapshot) ''revision'')) (sent @ [snapshot])))"
| "events_turn m wrote (Sleeping jid current changed sent) =
     (if changed \<in> set (am_closed m) then Observing jid current sent else Sleeping jid current changed sent)"
| "events_turn m wrote (Closed sent) = Closed sent"

end
