(* ===== verification/Admin_Job_Runs.thy ===== *)
theory Admin_Job_Runs
  imports Admin_Jobs
begin

text \<open>
  Runs of the job manager: requests that start and cancel jobs, the worker goroutines that
  \<open>start\<close> spawns, and event streams, in any interleaving. The invariants behind the properties: the
  order list and the map name the same jobs, at most one open job per kind and session, every open
  job has a worker that will still report, and a stream that sleeps has nothing to read.
\<close>

subsection \<open>What an operation does to a job\<close>

definition job_statuses :: "string set" where
  "job_statuses = {''queued'', ''running'', ''completed'', ''deferred'', ''partial_error'', ''failed'', ''cancelled''}"

definition same_job_identity :: "admin_job \<Rightarrow> admin_job \<Rightarrow> bool" where
  "same_job_identity j j' \<longleftrightarrow> aj_ID j' = aj_ID j \<and> aj_Kind j' = aj_Kind j \<and> aj_SessionID j' = aj_SessionID j
     \<and> aj_Revision j' = aj_Revision j \<and> aj_changed j' = aj_changed j \<and> aj_Request j' = aj_Request j
     \<and> aj_StartedAt j' = aj_StartedAt j"

text \<open>Updating, finishing and cancelling all leave the manager alone or publish a change of an open job.\<close>

definition touched :: "admin_jobs \<Rightarrow> string \<Rightarrow> admin_jobs \<Rightarrow> bool" where
  "touched m jid m' \<longleftrightarrow> m' = m \<or>
     (\<exists>j j'. the_job m jid = Some j \<and> \<not> finished j \<and> same_job_identity j j' \<and> aj_Status j' \<in> job_statuses
        \<and> m' = publishChangeLocked m jid j')"

lemma touched_same [simp]: "touched m jid m"
  by (simp add: touched_def)

lemma touched_publish:
  "the_job m jid = Some j \<Longrightarrow> \<not> finished j \<Longrightarrow> same_job_identity j j' \<Longrightarrow> aj_Status j' \<in> job_statuses \<Longrightarrow>
    touched m jid (publishChangeLocked m jid j')"
  unfolding touched_def by blast

lemma running_text: "trim_space ''running'' = ''running''" "''running'' \<in> job_statuses"
  by (code_simp, simp add: job_statuses_def)

lemma touched_update: "touched m jid (job_update m jid ''running'' progress now)"
  by (cases "the_job m jid")
    (auto simp: job_update_def running_text same_job_identity_def finished_def intro!: touched_publish)

lemma touched_finish: "status \<in> job_statuses \<Longrightarrow> touched m jid (job_finish m jid status result text now)"
  by (cases "the_job m jid")
    (auto simp: job_finish_def same_job_identity_def finished_def intro!: touched_publish)

lemma touched_cancel:
  assumes "cancelJob m rawID now = (snap, m', c)"
  shows "touched m (trim_space rawID) m'"
proof (cases "the_job m (trim_space rawID)")
  case None
  with assms show ?thesis by (simp add: cancelJob_def)
next
  case (Some j)
  show ?thesis
  proof (cases "finished j")
    case True
    with assms Some show ?thesis by (simp add: cancelJob_def finished_def)
  next
    case False
    define j' where "j' = j\<lparr>aj_Status := ''cancelled'', aj_UpdatedAt := now, aj_FinishedAt := Some now,
      aj_Error := canceled_text, aj_cancel := False,
      aj_Progress := Some (map_put ''finished_at'' (Any_text (rfc3339 now))
        (map_put ''error'' (Any_text canceled_text) (map_put ''done'' (Any_bool False)
          (map_put ''status'' (Any_text ''cancelled'') (entries (aj_Progress j))))))\<rparr>"
    have "m' = publishChangeLocked m (trim_space rawID) j'"
      using assms Some False by (simp add: cancelJob_def finished_def Let_def j'_def)
    moreover have "same_job_identity j j'" "aj_Status j' \<in> job_statuses"
      by (simp_all add: j'_def same_job_identity_def job_statuses_def)
    ultimately show ?thesis using touched_publish [OF Some False] by simp
  qed
qed

lemma work_end_status: "fst (work_end kind result err) \<in> job_statuses"
  by (auto simp: work_end_def work_status_def Let_def job_statuses_def split: option.splits)

text \<open>A change is visible at its job only.\<close>

lemma map_of_replace:
  "map_of (map (\<lambda>kv. if fst kv = k then (k, v) else kv) kvs) x =
     (if x = k then (if map_of kvs k = None then None else Some v) else map_of kvs x)"
  by (induction kvs) auto

lemma the_job_publish:
  "the_job (publishChangeLocked m jid j) x =
     (if x = jid then (if the_job m jid = None then None
                       else Some (j\<lparr>aj_Revision := aj_Revision j + 1, aj_changed := am_channels m\<rparr>))
      else the_job m x)"
  by (simp add: publishChangeLocked_def the_job_def map_of_replace)

lemma publish_fields [simp]:
  "am_order (publishChangeLocked m jid j) = am_order m"
  "am_nextID (publishChangeLocked m jid j) = am_nextID m"
  "am_maxJobs (publishChangeLocked m jid j) = am_maxJobs m"
  "am_closed (publishChangeLocked m jid j) = aj_changed j # am_closed m"
  "am_channels (publishChangeLocked m jid j) = Suc (am_channels m)"
  "map fst (am_jobs (publishChangeLocked m jid j)) = map fst (am_jobs m)"
  by (simp_all add: publishChangeLocked_def comp_def cong: map_cong)

subsection \<open>What pruning does\<close>

definition done_in :: "admin_jobs \<Rightarrow> string \<Rightarrow> bool" where
  "done_in m jid \<longleftrightarrow> (case the_job m jid of None \<Rightarrow> False | Some j \<Rightarrow> finished j)"

text \<open>The ids that a scan drops: the oldest finished ones, as many as there are too many entries.\<close>

definition dropped :: "admin_jobs \<Rightarrow> int \<Rightarrow> string list \<Rightarrow> string list" where
  "dropped m remaining ids = take (nat remaining) (filter (done_in m) ids)"

lemma the_job_remove:
  "the_job (m\<lparr>am_jobs := map_remove jid (am_jobs m)\<rparr>) x = (if x = jid then None else the_job m x)"
  by (simp add: the_job_def)

lemma prune_scan_fields [simp]:
  "am_nextID (prune_scan m r kept ids) = am_nextID m" "am_maxJobs (prune_scan m r kept ids) = am_maxJobs m"
  "am_closed (prune_scan m r kept ids) = am_closed m" "am_channels (prune_scan m r kept ids) = am_channels m"
  by (induction m r kept ids rule: prune_scan.induct) (simp_all split: option.split)

lemma prune_scan_go_map: "go_map (am_jobs m) \<Longrightarrow> go_map (am_jobs (prune_scan m r kept ids))"
  by (induction m r kept ids rule: prune_scan.induct) (auto split: option.split)

lemma dropped_Cons:
  "dropped m r (i # ids) =
     (if 0 < r \<and> done_in m i then i # dropped m (r - 1) ids else dropped m r ids)"
  by (cases "nat r") (auto simp: dropped_def nat_diff_distrib' take_Cons')

lemma prune_scan_spec:
  assumes "distinct ids"
  shows "am_order (prune_scan m r kept ids) = kept @ filter (\<lambda>i. i \<notin> set (dropped m r ids)) ids
    \<and> (\<forall>x. the_job (prune_scan m r kept ids) x = (if x \<in> set (dropped m r ids) then None else the_job m x))"
  using assms
proof (induction ids arbitrary: m r kept)
  case Nil
  then show ?case by (simp add: dropped_def the_job_def)
next
  case (Cons i ids)
  show ?case
  proof (cases "0 < r \<and> done_in m i")
    case True
    define m' where "m' = m\<lparr>am_jobs := map_remove i (am_jobs m)\<rparr>"
    have jobs: "the_job m' x = (if x = i then None else the_job m x)" for x
      by (simp add: m'_def the_job_remove)
    from True obtain j where "the_job m i = Some j" "adminJobTerminal (aj_Status j)"
      by (auto simp: done_in_def finished_def split: option.splits)
    with True have scan: "prune_scan m r kept (i # ids) = prune_scan m' (r - 1) kept ids"
      by (simp add: m'_def)
    have "filter (done_in m') ids = filter (done_in m) ids"
      using Cons.prems by (intro filter_cong) (auto simp: done_in_def jobs)
    then have "dropped m' (r - 1) ids = dropped m (r - 1) ids" by (simp add: dropped_def)
    moreover have "i \<notin> set (dropped m (r - 1) ids)"
      using Cons.prems by (auto simp: dropped_def dest: in_set_takeD)
    ultimately show ?thesis
      using Cons.IH [of m' "r - 1" kept] Cons.prems True
      by (auto simp: scan dropped_Cons jobs simp del: prune_scan.simps intro!: filter_cong)
  next
    case False
    then have scan: "prune_scan m r kept (i # ids) = prune_scan m r (kept @ [i]) ids"
      by (auto simp: done_in_def finished_def split: option.splits)
    have "i \<notin> set (dropped m r ids)"
      using Cons.prems by (auto simp: dropped_def dest: in_set_takeD)
    moreover have "dropped m r (i # ids) = dropped m r ids" using False by (auto simp: dropped_Cons)
    ultimately show ?thesis
      using Cons.IH [of m r "kept @ [i]"] Cons.prems by (simp add: scan del: prune_scan.simps)
  qed
qed

lemma pruneLocked_spec:
  assumes "distinct (am_order m)" and "am_maxJobs m = 80"
  defines "D \<equiv> dropped m (int (length (am_order m)) - 80) (am_order m)"
  shows "am_order (pruneLocked m) = filter (\<lambda>i. i \<notin> set D) (am_order m)"
    and "the_job (pruneLocked m) x = (if x \<in> set D then None else the_job m x)"
proof -
  have "am_order (pruneLocked m) = filter (\<lambda>i. i \<notin> set D) (am_order m)
    \<and> the_job (pruneLocked m) x = (if x \<in> set D then None else the_job m x)"
  proof (cases "length (am_order m) \<le> 80")
    case True
    then have "D = []" by (simp add: D_def dropped_def)
    with True assms(2) show ?thesis by (simp add: pruneLocked_def)
  next
    case False
    with assms show ?thesis
      using prune_scan_spec [OF assms(1), of m "int (length (am_order m)) - 80" "[]"]
      by (simp add: pruneLocked_def D_def)
  qed
  then show "am_order (pruneLocked m) = filter (\<lambda>i. i \<notin> set D) (am_order m)"
    and "the_job (pruneLocked m) x = (if x \<in> set D then None else the_job m x)" by simp_all
qed

lemma pruneLocked_fields [simp]:
  "am_nextID (pruneLocked m) = am_nextID m" "am_closed (pruneLocked m) = am_closed m"
  "am_channels (pruneLocked m) = am_channels m"
  by (simp_all add: pruneLocked_def Let_def)

lemma pruneLocked_max: "am_maxJobs m = 80 \<Longrightarrow> am_maxJobs (pruneLocked m) = 80"
  by (simp add: pruneLocked_def)

lemma pruneLocked_go_map: "go_map (am_jobs m) \<Longrightarrow> go_map (am_jobs (pruneLocked m))"
  by (simp add: pruneLocked_def Let_def prune_scan_go_map)

text \<open>What is dropped is finished, and every entry in excess is dropped that can be.\<close>

lemma dropped_finished: "i \<in> set (dropped m r ids) \<Longrightarrow> done_in m i"
  by (auto simp: dropped_def dest: in_set_takeD)

lemma filter_dropped_length:
  assumes "distinct ids"
  shows "length (filter (\<lambda>i. i \<notin> set (dropped m r ids)) ids)
    = length ids - min (nat r) (length (filter (done_in m) ids))"
proof -
  let ?D = "dropped m r ids"
  have sub: "set ?D \<subseteq> set ids" by (auto simp: dropped_def dest: in_set_takeD)
  have "distinct ?D" using assms by (simp add: dropped_def)
  then have "card (set ?D) = min (nat r) (length (filter (done_in m) ids))"
    by (simp add: distinct_card dropped_def min.commute)
  moreover have "length (filter (\<lambda>i. i \<notin> set ?D) ids) = card (set ids - set ?D)"
    using assms by (simp add: distinct_card [symmetric] set_diff_eq)
  ultimately show ?thesis
    using sub assms by (simp add: card_Diff_subset distinct_card)
qed

subsection \<open>Identifiers\<close>

lemma decimal_nat_digits: "c \<in> set (decimal_nat n) \<Longrightarrow> \<exists>d < 10. c = digit_char d"
proof (induction n rule: decimal_nat.induct)
  case (1 n)
  show ?case
  proof (cases "n < 10")
    case True
    with 1(2) have "c = digit_char n" by (subst (asm) decimal_nat.simps) simp
    with True show ?thesis by blast
  next
    case False
    with 1(2) have "c \<in> set (decimal_nat (n div 10)) \<or> c = digit_char (n mod 10)"
      by (subst (asm) decimal_nat.simps) auto
    then show ?thesis
    proof
      assume "c = digit_char (n mod 10)"
      moreover have "n mod 10 < 10" by simp
      ultimately show ?thesis by blast
    qed (use 1(1) False in blast)
  qed
qed

lemma digit_char_value: "d < 10 \<Longrightarrow> digit_value (digit_char d) = int d"
  by (simp add: digit_value_def digit_char_def numeral_eq_Suc less_Suc_eq) (elim disjE; simp)

lemma digits_value_append: "digits_value (s @ [c]) = digits_value s * 10 + digit_value c"
  by (simp add: digits_value_def)

lemma decimal_nat_value: "digits_value (decimal_nat n) = int n"
proof (induction n rule: decimal_nat.induct)
  case (1 n)
  show ?case
  proof (cases "n < 10")
    case True
    then show ?thesis by (subst decimal_nat.simps) (simp add: digits_value_def digit_char_value)
  next
    case False
    with 1 have "digits_value (decimal_nat (n div 10)) = int (n div 10)" by simp
    moreover have "int (n div 10) * 10 + int (n mod 10) = int n" by (simp add: zdiv_int zmod_int)
    ultimately show ?thesis using False
      by (subst decimal_nat.simps) (simp add: digits_value_append digit_char_value)
  qed
qed

lemma digits_value_zeros: "digits_value (replicate k (CHR ''0'') @ s) = digits_value s"
  by (induction k) (simp_all add: digits_value_def digit_value_def)

lemma digits_value_pad: "digits_value (pad_left n s) = digits_value s"
  by (simp add: pad_left_def digits_value_zeros)

text \<open>The counter can be read off an identifier, so two jobs of a manager never share one.\<close>

definition after_dash :: "string \<Rightarrow> string" where
  "after_dash s = rev (takeWhile (\<lambda>c. c \<noteq> CHR ''-'') (rev s))"

lemma job_id_counter: "digits_value (after_dash (job_id kind now counter)) = int (unat counter)"
proof -
  let ?d = "pad_left 6 (decimal_nat (unat counter))"
  have "digit_char d \<noteq> CHR ''-''" if "d < 10" for d
    using that by (simp add: digit_char_def numeral_eq_Suc less_Suc_eq) (elim disjE; simp)
  then have "c \<noteq> CHR ''-''" if "c \<in> set (rev ?d)" for c
    using that by (auto simp: pad_left_def) (metis decimal_nat_digits)
  then have "takeWhile (\<lambda>c. c \<noteq> CHR ''-'') (rev ?d @ CHR ''-'' # xs) = rev ?d" for xs
    by (subst takeWhile_append2) simp_all
  then have "after_dash (job_id kind now counter) = ?d"
    by (simp add: after_dash_def job_id_def del: takeWhile_append)
  then show ?thesis by (simp add: digits_value_pad decimal_nat_value)
qed

lemma job_id_inject: "job_id k t c = job_id k' t' c' \<Longrightarrow> c = c'"
  by (metis job_id_counter of_nat_eq_iff unsigned_word_eqI)

subsection \<open>What starting a job does\<close>

definition enqueue :: "admin_jobs \<Rightarrow> string \<Rightarrow> admin_job \<Rightarrow> admin_jobs" where
  "enqueue m jid job =
     m\<lparr>am_nextID := am_nextID m + 1, am_jobs := map_put jid job (am_jobs m),
       am_order := am_order m @ [jid], am_channels := Suc (am_channels m)\<rparr>"

lemma the_job_enqueue: "the_job (enqueue m jid job) x = (if x = jid then Some job else the_job m x)"
  by (simp add: enqueue_def the_job_def)

lemma enqueue_fields [simp]:
  "am_nextID (enqueue m jid job) = am_nextID m + 1" "am_order (enqueue m jid job) = am_order m @ [jid]"
  "am_channels (enqueue m jid job) = Suc (am_channels m)" "am_closed (enqueue m jid job) = am_closed m"
  "am_maxJobs (enqueue m jid job) = am_maxJobs m" "am_jobs (enqueue m jid job) = map_put jid job (am_jobs m)"
  by (simp_all add: enqueue_def)

lemma job_start_joins: "job_start m kind sid req now = (snap, m', None) \<Longrightarrow> m' = m"
  by (auto simp: job_start_def Let_def split: option.splits)

lemma job_start_spawns:
  assumes "job_start m kind sid req now = (snap, m', Some (jid, k))"
  shows "k = trim_space kind \<and> jid = job_id k now (am_nextID m + 1)
    \<and> reusable m k (trim_space sid) (rev (am_order m)) = None
    \<and> m' = pruneLocked (enqueue m jid (queued_job jid k (trim_space sid) req now (am_channels m)))"
  using assms by (auto simp: job_start_def Let_def enqueue_def split: option.splits)

lemma reusable_None:
  "reusable m kind sid ids = None \<Longrightarrow> jid \<in> set ids \<Longrightarrow> the_job m jid = Some j \<Longrightarrow>
    same_work kind sid j \<Longrightarrow> \<not> still_open j"
  by (induction m kind sid ids rule: reusable.induct) (auto split: option.splits if_splits)

lemma open_statuses:
  assumes "aj_Status j \<in> job_statuses"
  shows "still_open j \<longleftrightarrow> \<not> finished j"
proof -
  have trims: "trim_space ''queued'' = ''queued''" "trim_space ''running'' = ''running''"
    "trim_space ''completed'' = ''completed''" "trim_space ''deferred'' = ''deferred''"
    "trim_space ''partial_error'' = ''partial_error''" "trim_space ''failed'' = ''failed''"
    "trim_space ''cancelled'' = ''cancelled''"
    by code_simp+
  show ?thesis
    using assms unfolding job_statuses_def still_open_def finished_def adminJobTerminal_def
    by (elim insertE emptyE) (simp_all add: trims)
qed

lemma queued_open: "\<not> finished (queued_job jid k sid req now ch)"
  using open_statuses [of "queued_job jid k sid req now ch"]
  by (simp add: queued_job_def job_statuses_def still_open_def)

subsection \<open>The system\<close>

datatype worker_pc = Spawned | Working | Left_work

record worker =
  wk_kind :: string
  wk_session :: string
  wk_pc :: worker_pc
  wk_cancelled :: bool

record jobs_system =
  js_mgr :: admin_jobs
  js_now :: go_time
  js_workers :: "string \<Rightarrow> worker option"
  js_streams :: "nat \<Rightarrow> event_stream option"

definition initial_jobs :: jobs_system where
  "initial_jobs = \<lparr>js_mgr = newAdminJobManager, js_now = 0, js_workers = (\<lambda>_. None), js_streams = (\<lambda>_. None)\<rparr>"

definition started_report :: "any_map option" where
  "started_report = Some [(''status'', Any_text ''running''), (''started'', Any_bool True)]"

definition mark_cancelled :: "worker option \<Rightarrow> worker option" where
  "mark_cancelled w = map_option (\<lambda>w. w\<lparr>wk_cancelled := True\<rparr>) w"

text \<open>
  The clock may jump. Fewer than \<open>2 ^ 64\<close> jobs are started (the premise on the counter). A worker's
  reports, its result and its error are arbitrary, whether or not its context is cancelled.
\<close>

inductive jobs_step :: "jobs_system \<Rightarrow> jobs_system \<Rightarrow> bool" where
  clock: "jobs_step s (s\<lparr>js_now := t\<rparr>)"
| spawns: "job_start (js_mgr s) kind sid req (js_now s) = (snap, m, Some (jid, k)) \<Longrightarrow>
    am_nextID (js_mgr s) \<noteq> - 1 \<Longrightarrow>
    jobs_step s (s\<lparr>js_mgr := m, js_workers := (js_workers s)(jid \<mapsto>
      \<lparr>wk_kind = k, wk_session = trim_space sid, wk_pc = Spawned, wk_cancelled = False\<rparr>)\<rparr>)"
| joins: "job_start (js_mgr s) kind sid req (js_now s) = (snap, m, None) \<Longrightarrow> jobs_step s (s\<lparr>js_mgr := m\<rparr>)"
| begins: "js_workers s jid = Some w \<Longrightarrow> wk_pc w = Spawned \<Longrightarrow>
    jobs_step s (s\<lparr>js_mgr := job_update (js_mgr s) jid ''running'' started_report (js_now s),
      js_workers := (js_workers s)(jid \<mapsto> w\<lparr>wk_pc := Working\<rparr>)\<rparr>)"
| reports: "js_workers s jid = Some w \<Longrightarrow> wk_pc w = Working \<Longrightarrow>
    jobs_step s (s\<lparr>js_mgr := job_update (js_mgr s) jid ''running'' progress (js_now s)\<rparr>)"
| leaves_work: "js_workers s jid = Some w \<Longrightarrow> wk_pc w = Working \<Longrightarrow>
    work_end (wk_kind w) result err = (status, msg) \<Longrightarrow>
    jobs_step s (s\<lparr>js_mgr := job_finish (js_mgr s) jid status result msg (js_now s),
      js_workers := (js_workers s)(jid \<mapsto> w\<lparr>wk_pc := Left_work\<rparr>)\<rparr>)"
| cancels: "cancelJob (js_mgr s) rawID (js_now s) = (snap, m, c) \<Longrightarrow>
    jobs_step s (s\<lparr>js_mgr := m, js_workers := (if c then (js_workers s)(trim_space rawID :=
      mark_cancelled (js_workers s (trim_space rawID))) else js_workers s)\<rparr>)"
| opens: "js_streams s n = None \<Longrightarrow> open_events (Some (js_mgr s)) rawID after True = Inr (jid, cur) \<Longrightarrow>
    jobs_step s (s\<lparr>js_streams := (js_streams s)(n \<mapsto> Observing jid cur [])\<rparr>)"
| turns: "js_streams s n = Some st \<Longrightarrow>
    jobs_step s (s\<lparr>js_streams := (js_streams s)(n \<mapsto> events_turn (js_mgr s) wrote st)\<rparr>)"
| hangs_up: "js_streams s n = Some (Sleeping jid cur ch sent) \<Longrightarrow>
    jobs_step s (s\<lparr>js_streams := (js_streams s)(n \<mapsto> Closed sent)\<rparr>)"

inductive_cases jobs_stepE: "jobs_step s s'"

inductive reachable_jobs :: "jobs_system \<Rightarrow> bool" where
  jobs_initial: "reachable_jobs initial_jobs"
| jobs_next: "reachable_jobs s \<Longrightarrow> jobs_step s s' \<Longrightarrow> reachable_jobs s'"

text \<open>
  Every step leaves the manager alone, touches one job whose worker (if it has finished now) has
  reported or been told, or spawns.
\<close>

lemma manager_step:
  assumes "jobs_step s s'"
  shows "(\<exists>jid. touched (js_mgr s) jid (js_mgr s')) \<or>
    (\<exists>kind sid req snap jid k. job_start (js_mgr s) kind sid req (js_now s) = (snap, js_mgr s', Some (jid, k))
       \<and> am_nextID (js_mgr s) \<noteq> - 1)"
  using assms
proof cases
  case (spawns kind sid req snap m jid k)
  then show ?thesis by auto
next
  case (joins kind sid req snap m)
  then show ?thesis by (auto dest: job_start_joins)
next
  case (begins jid w)
  then show ?thesis by (auto intro: touched_update)
next
  case (reports jid w progress)
  then show ?thesis by (auto intro: touched_update)
next
  case (leaves_work jid w result err status msg)
  then show ?thesis using touched_finish work_end_status [of "wk_kind w" result err] by fastforce
next
  case (cancels rawID snap m c)
  then show ?thesis by (auto dest: touched_cancel)
qed auto

subsection \<open>Invariants of the manager\<close>

definition order_ok :: "admin_jobs \<Rightarrow> bool" where
  "order_ok m \<longleftrightarrow> go_map (am_jobs m) \<and> distinct (am_order m)
     \<and> (\<forall>x. x \<in> set (am_order m) \<longleftrightarrow> the_job m x \<noteq> None) \<and> am_maxJobs m = 80"

definition shape_ok :: "admin_jobs \<Rightarrow> bool" where
  "shape_ok m \<longleftrightarrow> (\<forall>x j. the_job m x = Some j \<longrightarrow> aj_ID j = x \<and> aj_Status j \<in> job_statuses
     \<and> trim_space (aj_Kind j) = aj_Kind j \<and> trim_space (aj_SessionID j) = aj_SessionID j
     \<and> (\<exists>k t c. x = job_id k t c \<and> c \<le> am_nextID m))"

definition same_pair :: "admin_job \<Rightarrow> admin_job \<Rightarrow> bool" where
  "same_pair i j \<longleftrightarrow> equal_fold_ascii (aj_Kind i) (aj_Kind j) \<and> aj_SessionID i = aj_SessionID j"

definition one_open :: "admin_jobs \<Rightarrow> bool" where
  "one_open m \<longleftrightarrow> (\<forall>x y i j. the_job m x = Some i \<longrightarrow> the_job m y = Some j \<longrightarrow>
     \<not> finished i \<longrightarrow> \<not> finished j \<longrightarrow> same_pair i j \<longrightarrow> x = y)"

definition channels_ok :: "admin_jobs \<Rightarrow> bool" where
  "channels_ok m \<longleftrightarrow> (\<forall>x j. the_job m x = Some j \<longrightarrow> aj_changed j < am_channels m \<and> aj_changed j \<notin> set (am_closed m))
     \<and> (\<forall>x y i j. the_job m x = Some i \<longrightarrow> the_job m y = Some j \<longrightarrow> aj_changed i = aj_changed j \<longrightarrow> x = y)
     \<and> (\<forall>c \<in> set (am_closed m). c < am_channels m)"

definition jobs_ok :: "admin_jobs \<Rightarrow> bool" where
  "jobs_ok m \<longleftrightarrow> order_ok m \<and> shape_ok m \<and> one_open m \<and> channels_ok m"

lemma jobs_ok_initial: "jobs_ok newAdminJobManager"
  by (simp add: jobs_ok_def order_ok_def shape_ok_def one_open_def channels_ok_def newAdminJobManager_def the_job_def)

text \<open>A touched manager: nothing changed, or one open job was replaced by its next version.\<close>

definition next_version :: "admin_jobs \<Rightarrow> admin_job \<Rightarrow> admin_job" where
  "next_version m j = j\<lparr>aj_Revision := aj_Revision j + 1, aj_changed := am_channels m\<rparr>"

lemma touched_cases:
  assumes "touched m jid m'"
  obtains (same) "m' = m"
  | (published) j j' where "the_job m jid = Some j" "\<not> finished j" "same_job_identity j j'"
      "aj_Status j' \<in> job_statuses" "m' = publishChangeLocked m jid j'"
      "\<And>x. the_job m' x = (if x = jid then Some (next_version m j') else the_job m x)"
proof -
  from assms show thesis
    unfolding touched_def
    by (elim disjE exE conjE) (auto intro: same published simp: the_job_publish next_version_def)
qed

lemma next_version_simps [simp]:
  "aj_ID (next_version m j) = aj_ID j" "aj_Kind (next_version m j) = aj_Kind j"
  "aj_SessionID (next_version m j) = aj_SessionID j" "aj_Status (next_version m j) = aj_Status j"
  "aj_changed (next_version m j) = am_channels m" "aj_Revision (next_version m j) = aj_Revision j + 1"
  "finished (next_version m j) = finished j"
  by (simp_all add: next_version_def finished_def)

lemma jobs_ok_touched:
  assumes "jobs_ok m" and "touched m jid m'"
  shows "jobs_ok m'"
  using assms(2)
proof (cases rule: touched_cases)
  case same
  with assms(1) show ?thesis by simp
next
  case (published j j')
  note ok = assms(1) [unfolded jobs_ok_def]
  have id: "aj_ID j' = aj_ID j" "aj_Kind j' = aj_Kind j" "aj_SessionID j' = aj_SessionID j"
    "aj_changed j' = aj_changed j"
    using published(3) by (simp_all add: same_job_identity_def)
  have fields: "am_order m' = am_order m" "am_maxJobs m' = am_maxJobs m" "am_nextID m' = am_nextID m"
    "am_channels m' = Suc (am_channels m)" "am_closed m' = aj_changed j # am_closed m"
    "map fst (am_jobs m') = map fst (am_jobs m)"
    using published(5) id by simp_all
  have "order_ok m'"
    using ok published(1,6) fields by (auto simp: order_ok_def)
  moreover have "shape_ok m'"
    using ok published(1,4,6) fields id by (auto simp: shape_ok_def)
  moreover have "one_open m'"
    unfolding one_open_def
  proof (intro allI impI)
    fix x y a b
    assume a: "the_job m' x = Some a" "\<not> finished a" and b: "the_job m' y = Some b" "\<not> finished b"
      and pair: "same_pair a b"
    have old: "\<exists>a0. the_job m x = Some a0 \<and> \<not> finished a0 \<and> aj_Kind a0 = aj_Kind a \<and> aj_SessionID a0 = aj_SessionID a"
      if "the_job m' x = Some a" "\<not> finished a" for x a
      using that published(1,2,6) id by (cases "x = jid") auto
    from old [OF a] old [OF b] pair ok show "x = y"
      unfolding one_open_def same_pair_def by metis
  qed
  moreover have "channels_ok m'"
    unfolding channels_ok_def
  proof (intro conjI allI impI ballI)
    fix x a
    assume "the_job m' x = Some a"
    moreover have "aj_changed a \<noteq> aj_changed j \<and> aj_changed a < am_channels m" if "x \<noteq> jid" "the_job m x = Some a"
      using ok published(1) that unfolding channels_ok_def by metis
    moreover have "am_channels m \<notin> set (am_closed m)" "aj_changed j < am_channels m"
      using ok published(1) by (auto simp: channels_ok_def)
    ultimately show "aj_changed a < am_channels m'" "aj_changed a \<notin> set (am_closed m')"
      using ok published(6) by (auto simp: fields channels_ok_def less_Suc_eq split: if_splits)
  next
    fix x y a b
    assume "the_job m' x = Some a" "the_job m' y = Some b" "aj_changed a = aj_changed b"
    moreover have "aj_changed a < am_channels m" if "the_job m x = Some a" for x a
      using ok that by (auto simp: channels_ok_def)
    ultimately show "x = y"
      using ok published(6) unfolding channels_ok_def
      by (smt (verit, best) next_version_simps(5) option.inject order_less_irrefl)
  next
    fix c
    assume "c \<in> set (am_closed m')"
    with ok published(1) show "c < am_channels m'" by (auto simp: fields channels_ok_def less_Suc_eq)
  qed
  ultimately show ?thesis by (simp add: jobs_ok_def)
qed

lemma counter_next:
  fixes n :: uint64
  assumes "n \<noteq> - 1"
  shows "n < n + 1"
proof -
  have "1 + n \<noteq> 0" using assms by (metis add_eq_0_iff)
  then have "unat (1 + n) = Suc (unat n)" by (rule unatSuc)
  then show ?thesis by (simp add: word_less_nat_alt add.commute)
qed

text \<open>A spawned job: a fresh identifier, and the other jobs are there unless they were dropped.\<close>

lemma spawn_view:
  assumes "jobs_ok m" and "am_nextID m \<noteq> - 1"
    and start: "job_start m kind sid req now = (snap, m', Some (jid, k))"
  defines "q \<equiv> queued_job jid k (trim_space sid) req now (am_channels m)"
    and "gone \<equiv> dropped m (int (Suc (length (am_order m))) - 80) (am_order m)"
  shows "the_job m jid = None"
    and "the_job m' x = (if x = jid then Some q else if x \<in> set gone then None else the_job m x)"
    and "am_order m' = filter (\<lambda>i. i \<notin> set gone) (am_order m) @ [jid]"
    and "jid \<notin> set gone"
    and "am_nextID m' = am_nextID m + 1" "am_channels m' = Suc (am_channels m)"
      "am_closed m' = am_closed m" "am_maxJobs m' = 80" "go_map (am_jobs m')"
proof -
  let ?e = "enqueue m jid q"
  note new = job_start_spawns [OF start]
  have ord: "order_ok m" and shape: "shape_ok m" using assms(1) by (simp_all add: jobs_ok_def)
  show absent: "the_job m jid = None"
  proof (rule ccontr)
    assume "the_job m jid \<noteq> None"
    with shape obtain k' t c where "jid = job_id k' t c" "c \<le> am_nextID m"
      unfolding shape_ok_def by blast
    with new have "am_nextID m + 1 \<le> am_nextID m" using job_id_inject by metis
    with counter_next [OF assms(2)] show False by simp
  qed
  then have fresh: "jid \<notin> set (am_order m)" using ord by (simp add: order_ok_def)
  have m': "m' = pruneLocked ?e" using new by (simp add: q_def)
  have dist: "distinct (am_order ?e)" and max: "am_maxJobs ?e = 80"
    using ord fresh by (simp_all add: order_ok_def)
  have "done_in ?e i = done_in m i" if "i \<noteq> jid" for i
    using that by (simp add: done_in_def the_job_enqueue)
  moreover have "\<not> done_in ?e jid" by (simp add: done_in_def the_job_enqueue q_def queued_open)
  moreover have "filter (done_in ?e) (am_order m) = filter (done_in m) (am_order m)"
    using fresh calculation(1) by (intro filter_cong) metis+
  ultimately have "filter (done_in ?e) (am_order ?e) = filter (done_in m) (am_order m)"
    by simp
  then have gone: "dropped ?e (int (length (am_order ?e)) - 80) (am_order ?e) = gone"
    by (simp add: dropped_def gone_def)
  note spec = pruneLocked_spec [OF dist max, folded m', unfolded gone]
  show absent_gone: "jid \<notin> set gone" using fresh by (auto simp: gone_def dropped_def dest: in_set_takeD)
  show "the_job m' x = (if x = jid then Some q else if x \<in> set gone then None else the_job m x)"
    using absent_gone by (simp add: spec(2) the_job_enqueue)
  show "am_order m' = filter (\<lambda>i. i \<notin> set gone) (am_order m) @ [jid]"
    using absent_gone by (simp add: spec(1))
  show "am_nextID m' = am_nextID m + 1" "am_channels m' = Suc (am_channels m)"
      "am_closed m' = am_closed m" "am_maxJobs m' = 80" "go_map (am_jobs m')"
    using ord pruneLocked_max [OF max] by (simp_all add: m' pruneLocked_go_map order_ok_def go_map_put)
qed

lemma jobs_ok_spawn:
  assumes "jobs_ok m" and "am_nextID m \<noteq> - 1"
    and start: "job_start m kind sid req now = (snap, m', Some (jid, k))"
  shows "jobs_ok m'"
proof -
  note view = spawn_view [OF assms] and new = job_start_spawns [OF start]
  note ok = assms(1) [unfolded jobs_ok_def]
  let ?q = "queued_job jid k (trim_space sid) req now (am_channels m)"
  have up: "c \<le> am_nextID m + 1" if "c \<le> am_nextID m" for c
    using that counter_next [OF assms(2)] by simp
  have kept: "the_job m x = Some a" if "the_job m' x = Some a" "x \<noteq> jid" for x a
    using that by (simp add: view(2) split: if_splits)
  have q: "a = ?q" if "the_job m' jid = Some a" for a using that by (simp add: view(2))
  have "x \<in> set (am_order m') \<longleftrightarrow> the_job m' x \<noteq> None" for x
    using ok view(1,4) by (auto simp: view(2,3) order_ok_def)
  then have "order_ok m'"
    using ok view(1) by (simp add: order_ok_def view(3,8,9))
  moreover have "shape_ok m'"
    unfolding shape_ok_def
  proof (intro allI impI)
    fix x a
    assume a: "the_job m' x = Some a"
    show "aj_ID a = x \<and> aj_Status a \<in> job_statuses \<and> trim_space (aj_Kind a) = aj_Kind a
      \<and> trim_space (aj_SessionID a) = aj_SessionID a \<and> (\<exists>k t c. x = job_id k t c \<and> c \<le> am_nextID m')"
    proof (cases "x = jid")
      case True
      with a q new show ?thesis
        by (auto simp: queued_job_def job_statuses_def view(5))
    next
      case False
      with kept a ok have "the_job m x = Some a" "shape_ok m" by auto
      then show ?thesis unfolding shape_ok_def view(5) using up by blast
    qed
  qed
  moreover have "one_open m'"
    unfolding one_open_def
  proof (intro allI impI)
    fix x y a b
    assume a: "the_job m' x = Some a" "\<not> finished a" and b: "the_job m' y = Some b" "\<not> finished b"
      and pair: "same_pair a b"
    have clash: False if "the_job m z = Some c" "\<not> finished c" "same_pair c ?q" for z c
    proof -
      have "z \<in> set (rev (am_order m))" using ok that(1) by (simp add: order_ok_def)
      moreover have "same_work k (trim_space sid) c"
        using that(1,3) ok unfolding same_work_def same_pair_def shape_ok_def
        by (simp add: queued_job_def)
      ultimately have "\<not> still_open c" using new that(1) reusable_None by blast
      with that(1,2) ok show False by (metis open_statuses shape_ok_def)
    qed
    have "same_pair b a" using pair by (auto simp: same_pair_def equal_fold_ascii_def)
    with a b pair clash kept q ok show "x = y"
      by (metis (no_types, lifting) one_open_def)
  qed
  moreover have "channels_ok m'"
  proof -
    have old: "aj_changed a < am_channels m \<and> aj_changed a \<notin> set (am_closed m)" if "the_job m x = Some a" for x a
      using ok that unfolding channels_ok_def by blast
    have new_ch: "aj_changed ?q = am_channels m" by (simp add: queued_job_def)
    show ?thesis
      unfolding channels_ok_def view(6,7)
    proof (intro conjI allI impI ballI)
      fix x a
      assume a: "the_job m' x = Some a"
      have "am_channels m \<notin> set (am_closed m)" using ok by (auto simp: channels_ok_def)
      then show "aj_changed a < Suc (am_channels m)" "aj_changed a \<notin> set (am_closed m)"
        using a old kept q new_ch by (cases "x = jid"; fastforce)+
    next
      fix x y a b
      assume "the_job m' x = Some a" "the_job m' y = Some b" "aj_changed a = aj_changed b"
      with ok show "x = y"
        using old kept q new_ch unfolding channels_ok_def by (metis less_irrefl)
    next
      fix c
      assume "c \<in> set (am_closed m)"
      with ok show "c < Suc (am_channels m)" by (auto simp: channels_ok_def less_Suc_eq)
    qed
  qed
  ultimately show ?thesis by (simp add: jobs_ok_def)
qed

lemma jobs_ok_step: "jobs_step s s' \<Longrightarrow> jobs_ok (js_mgr s) \<Longrightarrow> jobs_ok (js_mgr s')"
  using manager_step jobs_ok_touched jobs_ok_spawn by metis

lemma reachable_jobs_ok: "reachable_jobs s \<Longrightarrow> jobs_ok (js_mgr s)"
  by (induction rule: reachable_jobs.induct) (simp_all add: jobs_ok_step jobs_ok_initial initial_jobs_def)

end
