(* ===== verification/Admin_Job_Streams.thy ===== *)
theory Admin_Job_Streams
  imports Admin_Job_Runs
begin

text \<open>
  What the runs of the job manager guarantee to workers and to readers: finished jobs stay as they
  are, open jobs have a worker that will report, and event streams neither miss a change nor go back.
  The stream's side of the last point is a locale over any source of revisions with a channel per
  item; the job manager is its interpretation.
\<close>

subsection \<open>A feed of changes\<close>

text \<open>
  A reader remembers a revision and sleeps on a channel when there is no \<open>news\<close>. The provider
  promises that a change that makes news closes the channel, and that closed channels stay closed.
\<close>

locale change_feed =
  fixes ok :: "'m \<Rightarrow> bool"
    and next_state :: "'m \<Rightarrow> 'm \<Rightarrow> bool"
    and quiet :: "'m \<Rightarrow> string \<Rightarrow> uint64 \<Rightarrow> nat \<Rightarrow> bool"
    and is_closed :: "'m \<Rightarrow> nat \<Rightarrow> bool"
  assumes ok_next: "ok m \<Longrightarrow> next_state m m' \<Longrightarrow> ok m'"
    and closed_stays: "next_state m m' \<Longrightarrow> is_closed m c \<Longrightarrow> is_closed m' c"
    and news_closes: "ok m \<Longrightarrow> next_state m m' \<Longrightarrow> quiet m x r c \<Longrightarrow> quiet m' x r c \<or> is_closed m' c"
begin

definition sleeps_well :: "'m \<Rightarrow> string \<Rightarrow> uint64 \<Rightarrow> nat \<Rightarrow> bool" where
  "sleeps_well m x r c \<longleftrightarrow> quiet m x r c \<or> is_closed m c"

lemma sleeps_well_next: "ok m \<Longrightarrow> next_state m m' \<Longrightarrow> sleeps_well m x r c \<Longrightarrow> sleeps_well m' x r c"
  unfolding sleeps_well_def using closed_stays news_closes by blast

lemma sleeps_well_run:
  assumes "next_state\<^sup>*\<^sup>* m m'" and "ok m" and "sleeps_well m x r c"
  shows "ok m' \<and> sleeps_well m' x r c"
  using assms by (induction rule: rtranclp_induct) (auto intro: ok_next sleeps_well_next)

end

definition manager_next :: "admin_jobs \<Rightarrow> admin_jobs \<Rightarrow> bool" where
  "manager_next m m' \<longleftrightarrow> (\<exists>jid. touched m jid m') \<or>
     (\<exists>kind sid req now snap jid k. job_start m kind sid req now = (snap, m', Some (jid, k)) \<and> am_nextID m \<noteq> - 1)"

lemma step_manager_next: "jobs_step s s' \<Longrightarrow> manager_next (js_mgr s) (js_mgr s')"
  using manager_step unfolding manager_next_def by blast

definition quiet_job :: "admin_jobs \<Rightarrow> string \<Rightarrow> uint64 \<Rightarrow> nat \<Rightarrow> bool" where
  "quiet_job m x r c \<longleftrightarrow>
     (case the_job m x of None \<Rightarrow> False
      | Some j \<Rightarrow> aj_changed j = c \<and> \<not> r < aj_Revision j \<and> \<not> finished j)"

definition channel_closed :: "admin_jobs \<Rightarrow> nat \<Rightarrow> bool" where
  "channel_closed m c \<longleftrightarrow> c \<in> set (am_closed m)"

text \<open>How one job fares in a step of the manager.\<close>

lemma manager_next_cases:
  assumes "jobs_ok m" and "manager_next m m'" and "the_job m x = Some j"
  obtains (kept) "the_job m' x = Some j" "set (am_closed m) \<subseteq> set (am_closed m')"
  | (changed) j' where "\<not> finished j" "the_job m' x = Some (next_version m j')" "same_job_identity j j'"
      "aj_Status j' \<in> job_statuses" "aj_changed j \<in> set (am_closed m')" "set (am_closed m) \<subseteq> set (am_closed m')"
  | (pruned) "finished j" "the_job m' x = None" "set (am_closed m) \<subseteq> set (am_closed m')"
  using assms(2) unfolding manager_next_def
proof (elim disjE exE conjE)
  fix jid
  assume "touched m jid m'"
  then show thesis
  proof (cases rule: touched_cases)
    case same
    with assms(3) kept show thesis by simp
  next
    case (published i j')
    show thesis
    proof (cases "x = jid")
      case True
      with published assms(3) changed [of j'] show thesis by (auto simp: same_job_identity_def)
    next
      case False
      with published assms(3) kept show thesis by auto
    qed
  qed
next
  fix kind sid req now snap jid k
  assume start: "job_start m kind sid req now = (snap, m', Some (jid, k))" and "am_nextID m \<noteq> - 1"
  note view = spawn_view [OF assms(1) this(2) start]
  have "x \<noteq> jid" using view(1) assms(3) by auto
  show thesis
  proof (cases "x \<in> set (dropped m (int (Suc (length (am_order m))) - 80) (am_order m))")
    case True
    then have "finished j" using dropped_finished [OF True] assms(3) by (simp add: done_in_def)
    with True \<open>x \<noteq> jid\<close> pruned show thesis by (simp add: view(2,7))
  next
    case False
    with \<open>x \<noteq> jid\<close> assms(3) kept show thesis by (simp add: view(2,7))
  qed
qed

interpretation feed: change_feed jobs_ok manager_next quiet_job channel_closed
proof
  show "jobs_ok m'" if "jobs_ok m" "manager_next m m'" for m m'
    using that jobs_ok_touched jobs_ok_spawn unfolding manager_next_def by blast
  show "channel_closed m' c" if "manager_next m m'" "channel_closed m c" for m m' c
    using that unfolding manager_next_def channel_closed_def
  proof (elim disjE exE conjE)
    fix jid
    assume "c \<in> set (am_closed m)" "touched m jid m'"
    from this(2,1) show "c \<in> set (am_closed m')" by (cases rule: touched_cases) auto
  next
    fix kind sid req now snap jid k
    assume "c \<in> set (am_closed m)" "job_start m kind sid req now = (snap, m', Some (jid, k))"
    then show "c \<in> set (am_closed m')" by (auto dest: job_start_spawns)
  qed
  show "quiet_job m' x r c \<or> channel_closed m' c"
    if "jobs_ok m" "manager_next m m'" "quiet_job m x r c" for m m' x r c
  proof -
    from that(3) obtain j where j: "the_job m x = Some j" "aj_changed j = c" "\<not> finished j"
      by (auto simp: quiet_job_def split: option.splits)
    from that(1,2) j(1) show ?thesis
      by (cases rule: manager_next_cases) (use that(3) j in \<open>auto simp: quiet_job_def channel_closed_def\<close>)
  qed
qed

subsection \<open>Finished jobs\<close>

lemma finished_step:
  assumes "jobs_ok m" and "manager_next m m'" and "the_job m x = Some j" and "finished j"
  shows "the_job m' x = None \<or> the_job m' x = Some j"
  using assms(1-3) by (cases rule: manager_next_cases) (use assms(4) in auto)

text \<open>An identifier that was given out is never given out again.\<close>

definition given_out :: "admin_jobs \<Rightarrow> string \<Rightarrow> bool" where
  "given_out m x \<longleftrightarrow> (\<exists>k t c. x = job_id k t c \<and> c \<le> am_nextID m)"

lemma given_out_next:
  assumes "jobs_ok m" and "manager_next m m'" and "given_out m x"
  shows "given_out m' x \<and> (the_job m x = None \<longrightarrow> the_job m' x = None)"
  using assms(2) unfolding manager_next_def
proof (elim disjE exE conjE)
  fix jid
  assume "touched m jid m'"
  then show ?thesis by (cases rule: touched_cases) (use assms(3) in \<open>auto simp: given_out_def\<close>)
next
  fix kind sid req now snap jid k
  assume start: "job_start m kind sid req now = (snap, m', Some (jid, k))" and bound: "am_nextID m \<noteq> - 1"
  note view = spawn_view [OF assms(1) bound start] and new = job_start_spawns [OF start]
  note grows = counter_next [OF bound]
  from assms(3) obtain k' t c where x: "x = job_id k' t c" "c \<le> am_nextID m" unfolding given_out_def by blast
  with new grows job_id_inject have "x \<noteq> jid" by (metis leD)
  moreover have "c \<le> am_nextID m'" using x(2) grows unfolding view(5) by simp
  ultimately show ?thesis using x(1) by (auto simp: given_out_def view(2))
qed

lemma job_given_out: "jobs_ok m \<Longrightarrow> the_job m x = Some j \<Longrightarrow> given_out m x"
  unfolding jobs_ok_def shape_ok_def given_out_def by blast

lemma reachable_run: "jobs_step\<^sup>*\<^sup>* s s' \<Longrightarrow> reachable_jobs s \<Longrightarrow> reachable_jobs s'"
  by (induction rule: rtranclp_induct) (auto intro: jobs_next)

lemma finished_run:
  assumes "jobs_step\<^sup>*\<^sup>* s s'" and "reachable_jobs s" and "the_job (js_mgr s) x = Some j" and "finished j"
  shows "the_job (js_mgr s') x = None \<or> the_job (js_mgr s') x = Some j"
proof -
  have "given_out (js_mgr s') x \<and> (the_job (js_mgr s') x = None \<or> the_job (js_mgr s') x = Some j)"
    using assms(1)
  proof (induction rule: rtranclp_induct)
    case base
    show ?case using assms(2,3) job_given_out reachable_jobs_ok by blast
  next
    case (step a b)
    have "jobs_ok (js_mgr a)" using reachable_run [OF step(1) assms(2)] by (rule reachable_jobs_ok)
    note next_facts = given_out_next [OF this step_manager_next [OF step(2)]]
      finished_step [OF this step_manager_next [OF step(2)] _ assms(4)]
    show ?case using step(3) next_facts by blast
  qed
  then show ?thesis by blast
qed

subsection \<open>Workers\<close>

definition workers_ok :: "jobs_system \<Rightarrow> bool" where
  "workers_ok s \<longleftrightarrow> (\<forall>x j. the_job (js_mgr s) x = Some j \<longrightarrow> \<not> finished j \<longrightarrow>
     (\<exists>w. js_workers s x = Some w \<and> wk_pc w \<noteq> Left_work \<and> wk_kind w = aj_Kind j \<and> wk_session w = aj_SessionID j))"

lemma terminal_words:
  "adminJobTerminal ''completed''" "adminJobTerminal ''deferred''" "adminJobTerminal ''partial_error''"
  "adminJobTerminal ''failed''" "adminJobTerminal ''cancelled''"
  by code_simp+

lemma work_end_terminal: "adminJobTerminal (fst (work_end kind result err))"
  by (auto simp: work_end_def work_status_def Let_def terminal_words split: option.splits)

lemma finish_finishes:
  assumes "adminJobTerminal status" and "the_job (job_finish m x status result msg now) x = Some j"
  shows "finished j"
  using assms by (auto simp: job_finish_def finished_def the_job_publish split: option.splits if_splits)

lemma workers_ok_initial: "workers_ok initial_jobs"
  by (simp add: workers_ok_def initial_jobs_def newAdminJobManager_def the_job_def)

text \<open>An open job was open before, unless it is the one that was spawned.\<close>

lemma open_before:
  assumes "touched m jid m'" and "the_job m' x = Some j" and "\<not> finished j"
  shows "\<exists>i. the_job m x = Some i \<and> \<not> finished i \<and> aj_Kind i = aj_Kind j \<and> aj_SessionID i = aj_SessionID j"
  using assms(1)
proof (cases rule: touched_cases)
  case same
  with assms show ?thesis by auto
next
  case (published i j')
  with assms(2,3) show ?thesis by (cases "x = jid") (auto simp: same_job_identity_def)
qed

lemma workers_ok_keep:
  assumes "workers_ok s" and "touched (js_mgr s) jid m'"
    and "\<And>x w. js_workers s x = Some w \<Longrightarrow> wk_pc w \<noteq> Left_work \<Longrightarrow> (\<exists>j. the_job m' x = Some j \<and> \<not> finished j) \<Longrightarrow>
      \<exists>w'. ws x = Some w' \<and> wk_pc w' \<noteq> Left_work \<and> wk_kind w' = wk_kind w \<and> wk_session w' = wk_session w"
  shows "workers_ok (s\<lparr>js_mgr := m', js_workers := ws\<rparr>)"
  unfolding workers_ok_def
proof (intro allI impI)
  fix x j
  assume "the_job (js_mgr (s\<lparr>js_mgr := m', js_workers := ws\<rparr>)) x = Some j" and fin: "\<not> finished j"
  then have j: "the_job m' x = Some j" by simp
  obtain i where i: "the_job (js_mgr s) x = Some i" "\<not> finished i" "aj_Kind i = aj_Kind j"
      "aj_SessionID i = aj_SessionID j"
    using open_before [OF assms(2) j fin] by blast
  obtain w where w: "js_workers s x = Some w" "wk_pc w \<noteq> Left_work" "wk_kind w = aj_Kind i" "wk_session w = aj_SessionID i"
    using assms(1) i(1,2) unfolding workers_ok_def by blast
  show "\<exists>w. js_workers (s\<lparr>js_mgr := m', js_workers := ws\<rparr>) x = Some w \<and> wk_pc w \<noteq> Left_work
      \<and> wk_kind w = aj_Kind j \<and> wk_session w = aj_SessionID j"
    using assms(3) [OF w(1,2)] j fin w(3,4) i(3,4) by auto
qed

lemma workers_ok_step:
  assumes "jobs_step s s'" and "jobs_ok (js_mgr s)" and "workers_ok s"
  shows "workers_ok s'"
  using assms(1)
proof cases
  case (spawns kind sid req snap m jid k)
  note view = spawn_view [OF assms(2) spawns(3,2)] and new = job_start_spawns [OF spawns(2)]
  show ?thesis
    unfolding workers_ok_def
  proof (intro allI impI)
    fix x j
    assume "the_job (js_mgr s') x = Some j" and fin: "\<not> finished j"
    then have "x = jid \<and> j = queued_job jid k (trim_space sid) req (js_now s) (am_channels (js_mgr s))
        \<or> x \<noteq> jid \<and> the_job (js_mgr s) x = Some j"
      by (auto simp: spawns(1) view(2) split: if_splits)
    with fin assms(3) show "\<exists>w. js_workers s' x = Some w \<and> wk_pc w \<noteq> Left_work \<and> wk_kind w = aj_Kind j
        \<and> wk_session w = aj_SessionID j"
      unfolding workers_ok_def by (auto simp: spawns(1) queued_job_def)
  qed
next
  case (begins jid w)
  show ?thesis
    unfolding begins(1) by (rule workers_ok_keep [OF assms(3) touched_update]) (auto simp: begins)
next
  case (reports jid w progress)
  have "workers_ok (s\<lparr>js_mgr := job_update (js_mgr s) jid ''running'' progress (js_now s), js_workers := js_workers s\<rparr>)"
    by (rule workers_ok_keep [OF assms(3) touched_update]) auto
  then show ?thesis by (simp add: reports(1))
next
  case (leaves_work jid w result err status msg)
  have "adminJobTerminal status" "status \<in> job_statuses"
    using work_end_terminal [of "wk_kind w" result err] work_end_status [of "wk_kind w" result err] leaves_work(4)
    by simp_all
  then show ?thesis
    unfolding leaves_work(1)
    by (intro workers_ok_keep [OF assms(3) touched_finish]) (use finish_finishes in \<open>fastforce+\<close>)
next
  case (cancels rawID snap m c)
  show ?thesis
    unfolding cancels(1)
    by (rule workers_ok_keep [OF assms(3) touched_cancel [OF cancels(2)]]) (auto simp: mark_cancelled_def)
next
  case (joins kind sid req snap m)
  with assms(3) job_start_joins [OF joins(2)] show ?thesis by (simp add: workers_ok_def)
qed (use assms(3) in \<open>auto simp: workers_ok_def\<close>)

lemma reachable_workers_ok: "reachable_jobs s \<Longrightarrow> workers_ok s"
  by (induction rule: reachable_jobs.induct)
    (use workers_ok_initial workers_ok_step reachable_jobs_ok in blast)+

text \<open>Cancelling an open job closes it at once, whatever its worker does.\<close>

lemma cancel_closes:
  assumes "trim_space rawID = x" and "the_job m x = Some j" and "\<not> finished j"
    and "cancelJob m rawID now = (snap, m', c)"
  shows "c = aj_cancel j \<and> (\<forall>y. y \<noteq> x \<longrightarrow> the_job m' y = the_job m y)
    \<and> (\<exists>j'. the_job m' x = Some j' \<and> finished j' \<and> aj_Kind j' = aj_Kind j \<and> aj_SessionID j' = aj_SessionID j)"
  using assms terminal_words(5)
  by (auto simp: cancelJob_def finished_def Let_def the_job_publish)

lemma reusable_Some:
  "reusable m kind sid ids = Some e \<Longrightarrow> \<exists>x. the_job m x = Some e \<and> same_work kind sid e \<and> still_open e"
  by (induction m kind sid ids rule: reusable.induct) (auto split: option.splits if_splits)

lemma no_reuse:
  assumes "jobs_ok m" and "trim_space kind = kind"
    and "\<And>x e. the_job m x = Some e \<Longrightarrow> equal_fold_ascii (aj_Kind e) kind \<Longrightarrow> aj_SessionID e = sid \<Longrightarrow> finished e"
  shows "reusable m kind sid ids = None"
proof (rule ccontr)
  assume "reusable m kind sid ids \<noteq> None"
  then obtain x e where e: "the_job m x = Some e" "same_work kind sid e" "still_open e"
    using reusable_Some by blast
  with assms(1) have "aj_Status e \<in> job_statuses" "trim_space (aj_Kind e) = aj_Kind e"
    "trim_space (aj_SessionID e) = aj_SessionID e"
    unfolding jobs_ok_def shape_ok_def by blast+
  with e assms(3) [OF e(1)] show False by (simp add: same_work_def open_statuses)
qed

text \<open>So the next start of the same work spawns a second worker beside the first.\<close>

lemma restart_after_cancel:
  assumes "reachable_jobs s" and "js_workers s x = Some w" and "wk_pc w = Working"
    and job: "the_job (js_mgr s) x = Some j" "\<not> finished j"
    and "trim_space x = x" and room: "am_nextID (js_mgr s) \<noteq> - 1"
  shows "\<exists>s' y w'. jobs_step\<^sup>*\<^sup>* s s' \<and> y \<noteq> x \<and> js_workers s' y = Some w' \<and> wk_pc w' = Working
    \<and> wk_kind w' = aj_Kind j \<and> wk_session w' = aj_SessionID j
    \<and> (\<exists>v. js_workers s' x = Some v \<and> wk_pc v = Working)"
proof -
  let ?kind = "aj_Kind j" and ?sid = "aj_SessionID j" and ?now = "js_now s"
  have ok: "jobs_ok (js_mgr s)" using assms(1) by (rule reachable_jobs_ok)
  then have trims: "trim_space ?kind = ?kind" "trim_space ?sid = ?sid"
    using job unfolding jobs_ok_def shape_ok_def by blast+
  obtain snap m c where cancel: "cancelJob (js_mgr s) x ?now = (snap, m, c)" by (metis prod_cases3)
  note closed = cancel_closes [OF assms(6) job cancel]
  note one_step = jobs_step.cancels [OF cancel]
  define s1 where "s1 = s\<lparr>js_mgr := m, js_workers := (if c then (js_workers s)(trim_space x :=
      mark_cancelled (js_workers s (trim_space x))) else js_workers s)\<rparr>"
  have step1: "jobs_step s s1" using one_step by (simp add: s1_def)
  have ok1: "jobs_ok m" using jobs_ok_step [OF step1 ok] by (simp add: s1_def)
  have same: "am_nextID m = am_nextID (js_mgr s)"
    using touched_cancel [OF cancel] by (cases rule: touched_cases) simp_all
  have none: "reusable m ?kind ?sid (rev (am_order m)) = None"
  proof (rule no_reuse [OF ok1 trims(1)])
    fix y e
    assume e: "the_job m y = Some e" "equal_fold_ascii (aj_Kind e) ?kind" "aj_SessionID e = ?sid"
    show "finished e"
    proof (cases "y = x")
      case False
      with e(1) closed have "the_job (js_mgr s) y = Some e" by simp
      with False ok job e show ?thesis
        unfolding jobs_ok_def one_open_def same_pair_def by blast
    qed (use e(1) closed in auto)
  qed
  obtain y where y: "y = job_id ?kind ?now (am_nextID m + 1)" by blast
  define m2 where "m2 = pruneLocked (enqueue m y (queued_job y ?kind ?sid None ?now (am_channels m)))"
  have start: "\<exists>snap. job_start m ?kind ?sid None ?now = (snap, m2, Some (y, ?kind))"
    using none by (simp add: job_start_def trims y m2_def enqueue_def Let_def)
  then obtain snap2 where start: "job_start m ?kind ?sid None ?now = (snap2, m2, Some (y, ?kind))" by blast
  have fresh: "y \<noteq> x" using spawn_view(1) [OF ok1 _ start] same room closed by auto
  define v where "v = \<lparr>wk_kind = ?kind, wk_session = ?sid, wk_pc = Spawned, wk_cancelled = False\<rparr>"
  define s2 where "s2 = s1\<lparr>js_mgr := m2, js_workers := (js_workers s1)(y \<mapsto> v)\<rparr>"
  have step2: "jobs_step s1 s2"
    using jobs_step.spawns [of s1 ?kind ?sid None snap2 m2 y ?kind] start same room
    by (simp add: s1_def s2_def v_def trims)
  define s3 where "s3 = s2\<lparr>js_mgr := job_update m2 y ''running'' started_report ?now,
    js_workers := (js_workers s2)(y \<mapsto> v\<lparr>wk_pc := Working\<rparr>)\<rparr>"
  have step3: "jobs_step s2 s3"
    using jobs_step.begins [of s2 y v] by (simp add: s1_def s2_def s3_def v_def)
  have "jobs_step\<^sup>*\<^sup>* s s3"
    using step1 step2 step3 by (meson converse_rtranclp_into_rtranclp rtranclp.rtrancl_refl)
  moreover have "js_workers s3 y = Some (v\<lparr>wk_pc := Working\<rparr>)" by (simp add: s3_def)
  moreover have "\<exists>u. js_workers s3 x = Some u \<and> wk_pc u = Working"
    using fresh assms(2,3) by (simp add: s3_def s2_def s1_def mark_cancelled_def assms(6))
  ultimately show ?thesis using fresh by (force simp: v_def)
qed

subsection \<open>Event streams\<close>

fun stream_sent :: "event_stream \<Rightarrow> any_map list" where
  "stream_sent (Observing jid cur sent) = sent"
| "stream_sent (Sleeping jid cur ch sent) = sent"
| "stream_sent (Closed sent) = sent"

definition revision_of :: "any_map \<Rightarrow> uint64" where
  "revision_of s = uint64FromAny (lookup (Some s) ''revision'')"

lemma snapshot_revision [simp]: "revision_of (job_snapshot j) = aj_Revision j"
  by (simp add: revision_of_def uint64FromAny_def)

lemma snapshot_terminal_snapshot [simp]: "snapshot_terminal (job_snapshot j) = finished j"
  by (simp add: snapshot_terminal_def)

definition ascending :: "any_map list \<Rightarrow> bool" where
  "ascending sent \<longleftrightarrow> sorted_wrt (\<lambda>a b. revision_of a < revision_of b) sent"

text \<open>What has been written so far: newer and newer, none final yet; \<open>cur\<close> is the last revision.\<close>

definition going_on :: "uint64 \<Rightarrow> any_map list \<Rightarrow> bool" where
  "going_on cur sent \<longleftrightarrow> ascending sent \<and> (\<forall>x \<in> set sent. \<not> snapshot_terminal x \<and> revision_of x \<le> cur)"

definition well_ended :: "any_map list \<Rightarrow> bool" where
  "well_ended sent \<longleftrightarrow> ascending (filter (\<lambda>x. \<not> snapshot_terminal x) sent)
     \<and> (\<forall>x \<in> set (butlast sent). \<not> snapshot_terminal x)"

fun stream_ok :: "admin_jobs \<Rightarrow> event_stream \<Rightarrow> bool" where
  "stream_ok m (Observing jid cur sent) \<longleftrightarrow> trim_space jid = jid \<and> going_on cur sent"
| "stream_ok m (Sleeping jid cur ch sent) \<longleftrightarrow> trim_space jid = jid \<and> going_on cur sent \<and> feed.sleeps_well m jid cur ch"
| "stream_ok m (Closed sent) \<longleftrightarrow> well_ended sent"

lemma going_on_well_ended: "going_on cur sent \<Longrightarrow> well_ended sent"
  by (auto simp: going_on_def well_ended_def dest: in_set_butlastD cong: filter_cong)

lemma going_on_append: "going_on cur sent \<Longrightarrow> \<not> snapshot_terminal x \<Longrightarrow> cur < revision_of x \<Longrightarrow> going_on (revision_of x) (sent @ [x])"
  by (fastforce simp: going_on_def ascending_def sorted_wrt_append)

lemma well_ended_append: "going_on cur sent \<Longrightarrow> snapshot_terminal x \<Longrightarrow> well_ended (sent @ [x])"
  by (auto simp: going_on_def well_ended_def cong: filter_cong)

lemma observe_cases:
  assumes "trim_space jid = jid"
  obtains (absent) "the_job m jid = None" "job_observe m jid cur = None"
  | (news) j where "the_job m jid = Some j" "cur < aj_Revision j \<or> finished j"
      "job_observe m jid cur = Some (Some (job_snapshot j), aj_changed j)"
  | (no_news) j where "the_job m jid = Some j" "quiet_job m jid cur (aj_changed j)"
      "job_observe m jid cur = Some (None, aj_changed j)"
proof (cases "the_job m jid")
  case None
  with assms absent show thesis by (simp add: job_observe_def)
next
  case (Some j)
  show thesis
  proof (cases "cur < aj_Revision j \<or> finished j")
    case True
    with assms Some news show thesis by (auto simp: job_observe_def finished_def)
  next
    case False
    with assms Some no_news show thesis by (auto simp: job_observe_def finished_def quiet_job_def)
  qed
qed

lemma stream_ok_turn:
  assumes "stream_ok m st"
  shows "stream_ok m (events_turn m wrote st)"
proof (cases st)
  case (Observing jid cur sent)
  with assms have "trim_space jid = jid" and on: "going_on cur sent" by simp_all
  from this(1) show ?thesis
  proof (cases rule: observe_cases [where m = m and cur = cur])
    case absent
    with Observing on show ?thesis by (simp add: going_on_well_ended)
  next
    case (news j)
    show ?thesis
    proof (cases "finished j")
      case True
      with Observing on news show ?thesis by (simp add: going_on_well_ended well_ended_append)
    next
      case False
      with news have "cur < revision_of (job_snapshot j)" by simp
      with False going_on_append [OF on, of "job_snapshot j"]
      have "going_on (aj_Revision j) (sent @ [job_snapshot j])" by simp
      with False Observing on news assms show ?thesis
        by (simp add: going_on_well_ended revision_of_def uint64FromAny_def)
    qed
  next
    case (no_news j)
    with Observing assms show ?thesis by (simp add: feed.sleeps_well_def)
  qed
qed (use assms in auto)

lemma stream_ok_next: "jobs_ok m \<Longrightarrow> manager_next m m' \<Longrightarrow> stream_ok m st \<Longrightarrow> stream_ok m' st"
  by (cases st) (auto intro: feed.sleeps_well_next)

definition streams_ok :: "jobs_system \<Rightarrow> bool" where
  "streams_ok s \<longleftrightarrow> (\<forall>n st. js_streams s n = Some st \<longrightarrow> stream_ok (js_mgr s) st)"

lemma streams_ok_step:
  assumes "jobs_step s s'" and "jobs_ok (js_mgr s)" and "streams_ok s"
  shows "streams_ok s'"
proof -
  have kept: "stream_ok (js_mgr s') st" if "stream_ok (js_mgr s) st" for st
    using stream_ok_next [OF assms(2) step_manager_next [OF assms(1)] that] .
  from assms(1) have "stream_ok (js_mgr s) x" if "js_streams s' k = Some x" for k x
  proof cases
    case (opens n rawID after jid cur)
    have "trim_space jid = jid"
      using opens(3) by (auto simp: open_events_def Let_def split: prod.splits if_splits)
    then have "stream_ok (js_mgr s) (Observing jid cur [])" by (simp add: going_on_def ascending_def)
    with opens(1) assms(3) that show ?thesis by (auto simp: streams_ok_def split: if_splits)
  next
    case (turns n st wrote)
    with assms(3) have "stream_ok (js_mgr s) (events_turn (js_mgr s) wrote st)"
      by (auto simp: streams_ok_def intro: stream_ok_turn)
    with turns(1) assms(3) that show ?thesis by (auto simp: streams_ok_def split: if_splits)
  next
    case (hangs_up n jid cur ch sent)
    with assms(3) have "stream_ok (js_mgr s) (Sleeping jid cur ch sent)"
      unfolding streams_ok_def by blast
    then have "stream_ok (js_mgr s) (Closed sent)" using going_on_well_ended by auto
    with hangs_up(1) assms(3) that show ?thesis by (auto simp: streams_ok_def split: if_splits)
  qed (use assms(3) that in \<open>auto simp: streams_ok_def\<close>)
  then show ?thesis using kept by (auto simp: streams_ok_def)
qed

lemma reachable_streams_ok: "reachable_jobs s \<Longrightarrow> streams_ok s"
proof (induction rule: reachable_jobs.induct)
  case jobs_initial
  show ?case by (simp add: streams_ok_def initial_jobs_def)
next
  case (jobs_next s s')
  then show ?case using streams_ok_step reachable_jobs_ok by blast
qed

text \<open>
  The end of a stream. A stream is \<open>over\<close> when its job is finished or gone; it then has at most
  two turns left: waking up, and writing the last snapshot.
\<close>

fun stream_job :: "event_stream \<Rightarrow> string option" where
  "stream_job (Observing jid cur sent) = Some jid"
| "stream_job (Sleeping jid cur ch sent) = Some jid"
| "stream_job (Closed sent) = None"

fun turns_left :: "event_stream \<Rightarrow> nat" where
  "turns_left (Observing jid cur sent) = 1"
| "turns_left (Sleeping jid cur ch sent) = 2"
| "turns_left (Closed sent) = 0"

definition over :: "admin_jobs \<Rightarrow> string \<Rightarrow> bool" where
  "over m jid \<longleftrightarrow> given_out m jid \<and> (case the_job m jid of None \<Rightarrow> True | Some j \<Rightarrow> finished j)"

lemma over_next: "jobs_ok m \<Longrightarrow> manager_next m m' \<Longrightarrow> over m jid \<Longrightarrow> over m' jid"
  unfolding over_def by (cases "the_job m jid")
    (use given_out_next [of m m' jid] finished_step [of m m' jid] in \<open>auto split: option.splits\<close>)

lemma over_not_quiet: "over m jid \<Longrightarrow> \<not> quiet_job m jid cur ch"
  by (auto simp: over_def quiet_job_def split: option.splits)

lemma over_turn:
  assumes "stream_ok m st" and "\<forall>jid. stream_job st = Some jid \<longrightarrow> over m jid"
  shows "turns_left (events_turn m wrote st) \<le> turns_left st - 1"
    and "\<forall>jid. stream_job (events_turn m wrote st) = Some jid \<longrightarrow> over m jid"
proof -
  have "turns_left (events_turn m wrote st) \<le> turns_left st - 1
    \<and> (\<forall>jid. stream_job (events_turn m wrote st) = Some jid \<longrightarrow> over m jid)"
  proof (cases st)
    case (Observing jid cur sent)
    with assms(1) have "trim_space jid = jid" by simp
    moreover have o: "over m jid" using assms(2) Observing by simp
    ultimately show ?thesis
      by (cases rule: observe_cases [where m = m and cur = cur])
        (use Observing over_not_quiet [OF o] o in \<open>auto simp: over_def\<close>)
  next
    case (Sleeping jid cur ch sent)
    then have "over m jid" using assms(2) by simp
    with assms(1) Sleeping have "channel_closed m ch"
      using over_not_quiet by (auto simp: feed.sleeps_well_def)
    with Sleeping \<open>over m jid\<close> show ?thesis by (simp add: channel_closed_def)
  qed simp
  then show "turns_left (events_turn m wrote st) \<le> turns_left st - 1"
    and "\<forall>jid. stream_job (events_turn m wrote st) = Some jid \<longrightarrow> over m jid" by simp_all
qed

text \<open>Runs in which the turns of stream \<open>n\<close> are counted.\<close>

inductive counted_run :: "nat \<Rightarrow> nat \<Rightarrow> jobs_system \<Rightarrow> jobs_system \<Rightarrow> bool"
  for n :: nat where
  no_steps: "counted_run n 0 s s"
| other_step: "counted_run n k s s' \<Longrightarrow> jobs_step s' s'' \<Longrightarrow> counted_run n k s s''"
| own_turn: "counted_run n k s s' \<Longrightarrow> js_streams s' n = Some st \<Longrightarrow>
    counted_run n (Suc k) s (s'\<lparr>js_streams := (js_streams s')(n \<mapsto> events_turn (js_mgr s') wrote st)\<rparr>)"

lemma counted_reachable: "counted_run n k s s' \<Longrightarrow> reachable_jobs s \<Longrightarrow> reachable_jobs s'"
  by (induction rule: counted_run.induct) (auto intro: jobs_next jobs_step.turns)

definition ending :: "jobs_system \<Rightarrow> nat \<Rightarrow> nat \<Rightarrow> bool" where
  "ending s n left \<longleftrightarrow> (\<exists>st. js_streams s n = Some st \<and> turns_left st \<le> left
     \<and> (\<forall>jid. stream_job st = Some jid \<longrightarrow> over (js_mgr s) jid))"

lemma ending_turn:
  assumes "reachable_jobs s" and "ending s n left" and "js_streams s n = Some st"
  shows "ending (s\<lparr>js_streams := (js_streams s)(n \<mapsto> events_turn (js_mgr s) wrote st)\<rparr>) n (left - 1)"
proof -
  have "stream_ok (js_mgr s) st" using reachable_streams_ok [OF assms(1)] assms(3) by (simp add: streams_ok_def)
  moreover have "\<forall>jid. stream_job st = Some jid \<longrightarrow> over (js_mgr s) jid" "turns_left st \<le> left"
    using assms(2,3) by (auto simp: ending_def)
  ultimately have "turns_left (events_turn (js_mgr s) wrote st) \<le> left - 1"
    "\<forall>jid. stream_job (events_turn (js_mgr s) wrote st) = Some jid \<longrightarrow> over (js_mgr s) jid"
    using over_turn [of "js_mgr s" st wrote] by (fastforce, blast)
  then show ?thesis by (simp add: ending_def)
qed

lemma ending_step:
  assumes "reachable_jobs s" and "ending s n left" and "jobs_step s s'"
  shows "ending s' n left"
proof -
  obtain st where st: "js_streams s n = Some st" "turns_left st \<le> left"
    "\<forall>jid. stream_job st = Some jid \<longrightarrow> over (js_mgr s) jid"
    using assms(2) by (auto simp: ending_def)
  have keep: "over (js_mgr s') jid" if "over (js_mgr s) jid" for jid
    using over_next [OF reachable_jobs_ok [OF assms(1)] step_manager_next [OF assms(3)] that] .
  show ?thesis
    using assms(3)
  proof cases
    case (turns k st' wrote)
    show ?thesis
    proof (cases "k = n")
      case True
      with ending_turn [OF assms(1,2), of st' wrote] turns show ?thesis
        by (auto simp: ending_def intro: order_trans [OF _ diff_le_self])
    qed (use turns st in \<open>auto simp: ending_def\<close>)
  next
    case (hangs_up k jid cur ch sent)
    with st show ?thesis by (cases "k = n") (auto simp: ending_def)
  next
    case (opens k rawID after jid cur)
    with st show ?thesis by (cases "k = n") (auto simp: ending_def)
  qed (use st keep in \<open>auto simp: ending_def\<close>)
qed

lemma ending_run:
  "counted_run n k s s' \<Longrightarrow> reachable_jobs s \<Longrightarrow> ending s n left \<Longrightarrow> ending s' n (left - k)"
proof (induction rule: counted_run.induct)
  case (no_steps s)
  then show ?case by simp
next
  case (other_step k s s' s'')
  from other_step.IH [OF other_step.prems] counted_reachable [OF other_step.hyps(1) other_step.prems(1)]
  show ?case using other_step.hyps(2) by (blast intro: ending_step)
next
  case (own_turn k s s' st wrote)
  from ending_turn [OF counted_reachable [OF own_turn.hyps(1) own_turn.prems(1)]
      own_turn.IH [OF own_turn.prems] own_turn.hyps(2), of wrote]
  show ?case by simp
qed

end
