(* ===== verification/Shadow_Compare.thy ===== *)
theory Shadow_Compare
  imports Dynamic_Values Turn_Response
begin

text \<open>
  The comparison of the Python backend with the Go shadow backend
  (\<open>go-service/internal/compare\<close>): the list of routes that may be called, the deep comparison of two
  decoded JSON bodies with its limit on the number of differences, the verdicts on one endpoint, and
  the totals of a report.
\<close>

subsection \<open>Library functions\<close>

text \<open>
  Two functions of the standard library are parameters, since no decision depends on their values:
  \<open>fmt\<close>'s \<open>%v\<close> text of a scalar, and the \<open>float64\<close> that \<open>strconv.ParseFloat\<close> makes of a JSON
  number (\<open>None\<close> for an error).
\<close>

record compare_lib =
  cl_text :: "any \<Rightarrow> string"
  cl_float :: "string \<Rightarrow> float64 option"

subsection \<open>Routes\<close>

definition readOnlyAllowlist :: "string list" where
  "readOnlyAllowlist =
     [''GET /health'', ''GET /ready'', ''GET /version'', ''GET /stats'', ''GET /wakeup'', ''GET /sessions'',
      ''GET /audit'', ''GET /chroma-shadow/preflight'', ''POST /search'', ''GET /kg/recall'', ''POST /kg/recall'',
      ''GET /sessions/compare'', ''POST /chapters/dry-run'', ''POST /chapters/search'', ''POST /episodes/search'',
      ''GET /retrieval-index/runtime-config'', ''GET /intent-routing/runtime-config'']"

definition prefixAllowlist :: "string list" where
  "prefixAllowlist =
     [''GET /active-states/'', ''GET /retrieval-index/'', ''GET /sessions/'', ''GET /explorer/'', ''GET /metrics/'',
      ''GET /world-rules/'', ''GET /characters/'', ''GET /kg/recall?'', ''GET /storylines/'', ''GET /episodes/'',
      ''GET /pending-threads/'', ''GET /narrative-control/'', ''GET /session-state/'', ''GET /canonical-state-layer/'',
      ''GET /continuity-pack/'', ''GET /momentum-packet/'', ''GET /session/'', ''GET /long-session-health/'',
      ''GET /prompts'', ''GET /prompts/'']"

definition endpoint_of :: "string \<Rightarrow> string \<Rightarrow> string" where
  "endpoint_of verb path = verb @ '' '' @ path"

definition route_allowed :: "string \<Rightarrow> string \<Rightarrow> bool" where
  "route_allowed verb path \<longleftrightarrow>
     (let endpoint = endpoint_of verb path
      in endpoint \<in> set readOnlyAllowlist \<or> list_ex (\<lambda>prefix. is_prefix prefix endpoint) prefixAllowlist)"

subsection \<open>Differences\<close>

record ValueDiff =
  vd_Path :: string
  vd_Type :: string
  vd_PythonVal :: string
  vd_GoVal :: string
  vd_Note :: string

definition plain_diff :: "string \<Rightarrow> string \<Rightarrow> string \<Rightarrow> string \<Rightarrow> ValueDiff" where
  "plain_diff path ty py go = \<lparr>vd_Path = path, vd_Type = ty, vd_PythonVal = py, vd_GoVal = go, vd_Note = []\<rparr>"

definition volatileSuffixes :: "string list" where
  "volatileSuffixes = [''timestamp'', ''exported_at'', ''generated_at'', ''runtime_updated_at'', ''updated_at'']"

text \<open>The part after the last dot, and that without an index suffix.\<close>

definition last_part :: "string \<Rightarrow> string" where
  "last_part path = rev (takeWhile (\<lambda>c. c \<noteq> CHR ''.'') (rev path))"

definition isVolatilePath :: "string \<Rightarrow> bool" where
  "isVolatilePath path =
     (let path = (if is_prefix ''.'' path then drop 1 path else path);
          final = takeWhile (\<lambda>c. c \<noteq> CHR ''['') (last_part path)
      in list_ex (\<lambda>s. equal_fold_ascii final s) volatileSuffixes)"

record diffCollector =
  dc_diffs :: "ValueDiff list"
  dc_maxDiffs :: int
  dc_truncated :: bool

definition mark_volatile :: "ValueDiff \<Rightarrow> ValueDiff" where
  "mark_volatile d =
     (if isVolatilePath (vd_Path d)
      then d\<lparr>vd_Type := ''volatile'', vd_Note := (if vd_Note d = [] then ''volatile field'' else vd_Note d)\<rparr>
      else d)"

definition dc_append :: "diffCollector \<Rightarrow> ValueDiff \<Rightarrow> diffCollector" where
  "dc_append dc d =
     (if dc_maxDiffs dc \<le> int (length (dc_diffs dc)) then dc\<lparr>dc_truncated := True\<rparr>
      else dc\<lparr>dc_diffs := dc_diffs dc @ [mark_volatile d]\<rparr>)"

subsection \<open>Scalars\<close>

text \<open>\<open>reflect.Kind\<close> of the values that occur; a \<open>json.Number\<close> is a string.\<close>

datatype kind = Kbool | Kint | Kint64 | Kuint | Kuint64 | Kfloat64 | Kstring | Kslice | Kmap | Kinvalid

fun kind_of :: "any \<Rightarrow> kind" where
  "kind_of Any_nil = Kinvalid"
| "kind_of (Any_bool b) = Kbool"
| "kind_of (Any_int i) = Kint"
| "kind_of (Any_int64 i) = Kint64"
| "kind_of (Any_uint i) = Kuint"
| "kind_of (Any_uint64 i) = Kuint64"
| "kind_of (Any_float f) = Kfloat64"
| "kind_of (Any_number t) = Kstring"
| "kind_of (Any_text t) = Kstring"
| "kind_of (Any_list vs) = Kslice"
| "kind_of (Any_map m) = Kmap"

text \<open>The text of \<open>%T\<close>.\<close>

fun type_text :: "any \<Rightarrow> string" where
  "type_text Any_nil = ''<nil>''"
| "type_text (Any_bool b) = ''bool''"
| "type_text (Any_int i) = ''int''"
| "type_text (Any_int64 i) = ''int64''"
| "type_text (Any_uint i) = ''uint''"
| "type_text (Any_uint64 i) = ''uint64''"
| "type_text (Any_float f) = ''float64''"
| "type_text (Any_number t) = ''json.Number''"
| "type_text (Any_text t) = ''string''"
| "type_text (Any_list vs) = ''[]interface {}''"
| "type_text (Any_map m) = ''map[string]interface {}''"

definition normalizeNumber :: "compare_lib \<Rightarrow> any \<Rightarrow> any" where
  "normalizeNumber L v =
     (case v of
        Any_number t \<Rightarrow>
          (case Atoi t of
             Some i \<Rightarrow> Any_int64 i
           | None \<Rightarrow> (case cl_float L t of Some f \<Rightarrow> Any_float f | None \<Rightarrow> v))
      | _ \<Rightarrow> v)"

text \<open>\<open>==\<close> on \<open>float64\<close>: NaN differs from itself, and the two zeros are equal.\<close>

definition float_nan :: "float64 \<Rightarrow> bool" where
  "float_nan f \<longleftrightarrow> 0x7FF0000000000000 < uint f mod 2 ^ 63"

definition float_equal :: "float64 \<Rightarrow> float64 \<Rightarrow> bool" where
  "float_equal f g \<longleftrightarrow> \<not> float_nan f \<and> \<not> float_nan g \<and> (f = g \<or> uint f mod 2 ^ 63 = 0 \<and> uint g mod 2 ^ 63 = 0)"

text \<open>\<open>reflect.DeepEqual\<close> of two scalars.\<close>

fun scalar_equal :: "any \<Rightarrow> any \<Rightarrow> bool" where
  "scalar_equal (Any_float f) (Any_float g) = float_equal f g"
| "scalar_equal v w = (v = w)"

definition isEmptyMap :: "any \<Rightarrow> bool" where
  "isEmptyMap v = (case v of Any_map m \<Rightarrow> entries m = [] | _ \<Rightarrow> False)"

definition isEmptySlice :: "any \<Rightarrow> bool" where
  "isEmptySlice v = (case v of Any_list vs \<Rightarrow> vs = [] | _ \<Rightarrow> False)"

text \<open>The difference for one value that is nil: \<open>swap\<close> is false when the Python value is the nil one.\<close>

definition nil_diff :: "bool \<Rightarrow> string \<Rightarrow> any \<Rightarrow> ValueDiff" where
  "nil_diff swap path v =
     (let mk = (\<lambda>ty other note. if swap
                 then \<lparr>vd_Path = path, vd_Type = ty, vd_PythonVal = other, vd_GoVal = ''null'', vd_Note = note\<rparr>
                 else \<lparr>vd_Path = path, vd_Type = ty, vd_PythonVal = ''null'', vd_GoVal = other, vd_Note = note\<rparr>)
      in if isEmptyMap v
           then mk ''null_vs_empty'' ''empty object'' (if swap then ''empty object vs null'' else ''null vs empty object'')
         else if isEmptySlice v
           then mk ''null_vs_empty'' ''empty array'' (if swap then ''empty array vs null'' else ''null vs empty array'')
         else mk ''type'' (type_text v) [])"

text \<open>Two values, not nil, of which at most one is a map and at most one a slice.\<close>

definition scalar_diffs :: "compare_lib \<Rightarrow> any \<Rightarrow> any \<Rightarrow> string \<Rightarrow> ValueDiff list" where
  "scalar_diffs L pyVal goVal path =
     (let py = normalizeNumber L pyVal; go = normalizeNumber L goVal
      in if kind_of py \<noteq> kind_of go then [plain_diff path ''type'' (type_text py) (type_text go)]
         else if \<not> scalar_equal py go then [plain_diff path ''scalar'' (cl_text L py) (cl_text L go)]
         else [])"

subsection \<open>The comparison\<close>

text \<open>
  \<open>for k := range m\<close> visits the entries in the order of the list, which is any order; the two loops over
  the Python map visit in the same order here.
\<close>

fun missing_loop :: "any_map \<Rightarrow> string \<Rightarrow> string \<Rightarrow> string \<Rightarrow> any_map \<Rightarrow> diffCollector \<Rightarrow> diffCollector" where
  "missing_loop other path py go [] dc = dc"
| "missing_loop other path py go ((k, v) # kvs) dc =
     (if map_of other k = None
        then (let dc = dc_append dc (plain_diff (path @ ''.'' @ k) ''missing_key'' py go)
              in if dc_truncated dc then dc else missing_loop other path py go kvs dc)
      else missing_loop other path py go kvs dc)"

definition as_map :: "any \<Rightarrow> any_map option" where
  "as_map v = (case v of Any_map m \<Rightarrow> Some (entries m) | _ \<Rightarrow> None)"

definition as_slice :: "any \<Rightarrow> any list option" where
  "as_slice v = (case v of Any_list vs \<Rightarrow> Some vs | _ \<Rightarrow> None)"

lemma as_map_size:
  "as_map v = Some kvs \<Longrightarrow> size_list (size_prod (\<lambda>_. 0) size) kvs < size v"
  by (cases v) (auto simp: as_map_def entries_def split: option.splits)

lemma as_slice_size: "as_slice v = Some vs \<Longrightarrow> size_list size vs < size v"
  by (cases v) (auto simp: as_slice_def)

definition append_all :: "diffCollector \<Rightarrow> ValueDiff list \<Rightarrow> diffCollector" where
  "append_all dc ds = fold (\<lambda>d dc. dc_append dc d) ds dc"

text \<open>The differences of two slices themselves, and of two maps themselves (missing keys, extra keys).\<close>

definition length_diffs :: "any list \<Rightarrow> any list \<Rightarrow> string \<Rightarrow> ValueDiff list" where
  "length_diffs xs ys path =
     (if length xs \<noteq> length ys
      then [plain_diff path ''list_length'' (decimal (int (length xs))) (decimal (int (length ys)))] else [])"

definition key_loops :: "any_map \<Rightarrow> any_map \<Rightarrow> string \<Rightarrow> diffCollector \<Rightarrow> diffCollector" where
  "key_loops pyMap goMap path dc =
     (let dc = missing_loop goMap path ''present'' ''missing'' pyMap dc
      in if dc_truncated dc then dc else missing_loop pyMap path ''missing'' ''present'' goMap dc)"

definition nil_case :: "any \<Rightarrow> any \<Rightarrow> string \<Rightarrow> ValueDiff list" where
  "nil_case pyVal goVal path =
     (if pyVal = Any_nil \<and> goVal = Any_nil then []
      else if pyVal = Any_nil then [nil_diff False path goVal] else [nil_diff True path pyVal])"

text \<open>
  \<open>compareValue\<close> with \<open>compareMap\<close> and \<open>compareSlice\<close>: the kinds of two maps (two slices) agree and a
  number is normalised to a number, so the order of these tests does not matter.
\<close>

function (sequential) compareValue :: "compare_lib \<Rightarrow> any \<Rightarrow> any \<Rightarrow> string \<Rightarrow> diffCollector \<Rightarrow> diffCollector"
  and common_loop :: "compare_lib \<Rightarrow> any_map \<Rightarrow> any_map \<Rightarrow> string \<Rightarrow> diffCollector \<Rightarrow> diffCollector"
  and item_loop :: "compare_lib \<Rightarrow> any list \<Rightarrow> any list \<Rightarrow> string \<Rightarrow> nat \<Rightarrow> diffCollector \<Rightarrow> diffCollector" where
  "compareValue L pyVal goVal path dc =
     (if dc_truncated dc then dc
      else if pyVal = Any_nil \<or> goVal = Any_nil then append_all dc (nil_case pyVal goVal path)
      else case (as_map pyVal, as_map goVal) of
             (Some pyMap, Some goMap) \<Rightarrow>
               (let dc = key_loops pyMap goMap path dc
                in if dc_truncated dc then dc else common_loop L pyMap goMap path dc)
           | _ \<Rightarrow>
               (case (as_slice pyVal, as_slice goVal) of
                  (Some pySlice, Some goSlice) \<Rightarrow>
                    (let dc = append_all dc (length_diffs pySlice goSlice path)
                     in if dc_truncated dc then dc else item_loop L pySlice goSlice path 0 dc)
                | _ \<Rightarrow> append_all dc (scalar_diffs L pyVal goVal path)))"
| "common_loop L [] goMap path dc = dc"
| "common_loop L ((k, pyV) # kvs) goMap path dc =
     (case map_of goMap k of
        None \<Rightarrow> common_loop L kvs goMap path dc
      | Some goV \<Rightarrow>
          (let dc = compareValue L pyV goV (path @ ''.'' @ k) dc
           in if dc_truncated dc then dc else common_loop L kvs goMap path dc))"
| "item_loop L (x # xs) (y # ys) path i dc =
     (let dc = compareValue L x y (path @ ''['' @ decimal (int i) @ '']'') dc
      in if dc_truncated dc then dc else item_loop L xs ys path (Suc i) dc)"
| "item_loop L xs ys path i dc = dc"
  by pat_completeness auto

termination
  by (relation "measure (\<lambda>args. case args of
       Inl (L, v, w, path, dc) \<Rightarrow> size v
     | Inr (Inl (L, kvs, goMap, path, dc)) \<Rightarrow> size_list (size_prod (\<lambda>_. 0) size) kvs
     | Inr (Inr (L, xs, ys, path, i, dc)) \<Rightarrow> size_list size xs)")
    (auto dest: as_map_size [OF sym] as_slice_size [OF sym])

definition CompareValues :: "compare_lib \<Rightarrow> any \<Rightarrow> any \<Rightarrow> int \<Rightarrow> ValueDiff list \<times> bool" where
  "CompareValues L pyVal goVal maxDiffs =
     (let dc = compareValue L pyVal goVal [] \<lparr>dc_diffs = [], dc_maxDiffs = maxDiffs, dc_truncated = False\<rparr>
      in (dc_diffs dc, dc_truncated dc))"

subsection \<open>Decoding a body\<close>

text \<open>
  \<open>json.Unmarshal\<close> into \<open>map[string]any\<close>: numbers become \<open>float64\<close> (nil when out of range, with an
  error that the code ignores), the last of several equal keys wins, and a body that is not an object
  leaves the map nil.
\<close>

fun body_any :: "compare_lib \<Rightarrow> json \<Rightarrow> any"
  and body_items :: "compare_lib \<Rightarrow> json list \<Rightarrow> any list"
  and body_members :: "compare_lib \<Rightarrow> (string \<times> json) list \<Rightarrow> any_map \<Rightarrow> any_map" where
  "body_any L JNull = Any_nil"
| "body_any L (JBool b) = Any_bool b"
| "body_any L (JNum t) = (case cl_float L t of Some f \<Rightarrow> Any_float f | None \<Rightarrow> Any_nil)"
| "body_any L (JStr s) = Any_text s"
| "body_any L (JArr js) = Any_list (body_items L js)"
| "body_any L (JObj ms) = Any_map (Some (body_members L ms []))"
| "body_items L [] = []"
| "body_items L (j # js) = body_any L j # body_items L js"
| "body_members L [] m = m"
| "body_members L ((k, j) # ms) m = body_members L ms (map_put k (body_any L j) m)"

definition unmarshal_map :: "compare_lib \<Rightarrow> json option \<Rightarrow> any_map option" where
  "unmarshal_map L body = (case body of Some (JObj ms) \<Rightarrow> Some (body_members L ms []) | _ \<Rightarrow> None)"

text \<open>\<open>sort.Strings\<close>, and the keys of two maps.\<close>

fun place_string :: "string \<Rightarrow> string list \<Rightarrow> string list" where
  "place_string x [] = [x]"
| "place_string x (y # ys) = (if byte_less y x then y # place_string x ys else x # y # ys)"

definition sort_strings :: "string list \<Rightarrow> string list" where
  "sort_strings xs = foldr place_string xs []"

definition sortedKeys :: "any_map option \<Rightarrow> string list" where
  "sortedKeys m = sort_strings (map fst (entries m))"

definition keyDiff :: "any_map option \<Rightarrow> any_map option \<Rightarrow> string list \<times> string list" where
  "keyDiff a b =
     (sort_strings (map fst (filter (\<lambda>kv. map_of (entries b) (fst kv) = None) (entries a))),
      sort_strings (map fst (filter (\<lambda>kv. map_of (entries a) (fst kv) = None) (entries b))))"

subsection \<open>Probing an endpoint\<close>

text \<open>
  \<open>Harness.do\<close> is the network, a parameter: an answer is the body, the status and the text of the
  error, for a URL, a method and a request body. \<open>DurationMS\<close> is the time between two readings of the clock.
\<close>

type_synonym http_reply = "json option \<times> int \<times> string option"

type_synonym 'st transport = "string \<Rightarrow> string \<Rightarrow> string option \<Rightarrow> 'st \<Rightarrow> http_reply \<times> 'st"

record harness =
  PythonBaseURL :: string
  GoBaseURL :: string

definition trim_right_slash :: "string \<Rightarrow> string" where
  "trim_right_slash s = rev (dropWhile (\<lambda>c. c = CHR ''/'') (rev s))"

definition NewHarness :: "string \<Rightarrow> string \<Rightarrow> harness" where
  "NewHarness pythonURL goURL =
     \<lparr>PythonBaseURL = trim_right_slash pythonURL, GoBaseURL = trim_right_slash goURL\<rparr>"

record compare_result =
  cr_Endpoint :: string
  cr_Allowed :: bool
  cr_StatusMatch :: bool
  cr_KeysMatch :: bool
  cr_PythonStatus :: int
  cr_GoStatus :: int
  cr_PythonKeys :: "string list"
  cr_GoKeys :: "string list"
  cr_MissingKeys :: "string list"
  cr_ExtraKeys :: "string list"
  cr_DurationMS :: int
  cr_Error :: string

record value_result = compare_result +
  vr_ExactJSONMatch :: bool
  vr_BehaviorMatch :: bool
  vr_VolatileOnlyDiffs :: bool
  vr_TypeMatch :: bool
  vr_Diffs :: "ValueDiff list"
  vr_DiffTruncated :: bool

definition no_result :: "string \<Rightarrow> bool \<Rightarrow> string \<Rightarrow> compare_result" where
  "no_result endpoint allowed msg =
     \<lparr>cr_Endpoint = endpoint, cr_Allowed = allowed, cr_StatusMatch = False, cr_KeysMatch = False,
      cr_PythonStatus = 0, cr_GoStatus = 0, cr_PythonKeys = [], cr_GoKeys = [], cr_MissingKeys = [],
      cr_ExtraKeys = [], cr_DurationMS = 0, cr_Error = msg\<rparr>"

definition unsafe_route :: string where
  "unsafe_route = ''route is not in the read-only allowlist''"

definition with_keys :: "compare_lib \<Rightarrow> json option \<Rightarrow> json option \<Rightarrow> compare_result \<Rightarrow> compare_result" where
  "with_keys L pyBody goBody r =
     (let pyMap = unmarshal_map L pyBody; goMap = unmarshal_map L goBody;
          (missing, extra) = keyDiff pyMap goMap
      in r\<lparr>cr_PythonKeys := sortedKeys pyMap, cr_GoKeys := sortedKeys goMap, cr_MissingKeys := missing,
           cr_ExtraKeys := extra, cr_KeysMatch := (missing = [] \<and> extra = [])\<rparr>)"

text \<open>\<open>Compare\<close>: a result, or the text of an error (with a result for a refused route).\<close>

definition harness_Compare ::
    "compare_lib \<Rightarrow> 'st transport \<Rightarrow> harness \<Rightarrow> string \<Rightarrow> string \<Rightarrow> string option \<Rightarrow> int \<Rightarrow> 'st
      \<Rightarrow> (compare_result option \<times> string option) \<times> 'st" where
  "harness_Compare L send h verb path body took st =
     (let endpoint = endpoint_of verb path
      in if \<not> route_allowed verb path then ((Some (no_result endpoint False []), Some unsafe_route), st)
         else case send (PythonBaseURL h @ path) verb body st of
                ((pyBody, pyStatus, Some e), st) \<Rightarrow> ((None, Some (''python backend: '' @ e)), st)
              | ((pyBody, pyStatus, None), st) \<Rightarrow>
                  (case send (GoBaseURL h @ path) verb body st of
                     ((goBody, goStatus, Some e), st) \<Rightarrow> ((None, Some (''go backend: '' @ e)), st)
                   | ((goBody, goStatus, None), st) \<Rightarrow>
                       ((Some (with_keys L pyBody goBody
                           ((no_result endpoint True [])\<lparr>cr_PythonStatus := pyStatus, cr_GoStatus := goStatus,
                             cr_DurationMS := took, cr_StatusMatch := (pyStatus = goStatus)\<rparr>)), None), st)))"

definition error_notes :: "string option \<Rightarrow> string option \<Rightarrow> string" where
  "error_notes pyErr goErr =
     (let py = (case pyErr of None \<Rightarrow> [] | Some e \<Rightarrow> ''python backend: '' @ e)
      in case goErr of None \<Rightarrow> py
         | Some e \<Rightarrow> (if py \<noteq> [] then py @ ''; '' else py) @ ''go backend: '' @ e)"

text \<open>The requests and the common fields of \<open>Probe\<close> and \<open>ProbeValue\<close>, and the two bodies if both answered.\<close>

definition probe_both ::
    "'st transport \<Rightarrow> harness \<Rightarrow> string \<Rightarrow> string \<Rightarrow> string option \<Rightarrow> int \<Rightarrow> 'st
      \<Rightarrow> (compare_result \<times> (json option \<times> json option) option) \<times> 'st" where
  "probe_both send h verb path body took st =
     (let ((pyBody, pyStatus, pyErr), st) = send (PythonBaseURL h @ path) verb body st;
          ((goBody, goStatus, goErr), st) = send (GoBaseURL h @ path) verb body st;
          r = (no_result (endpoint_of verb path) True (error_notes pyErr goErr))
                \<lparr>cr_PythonStatus := pyStatus, cr_GoStatus := goStatus, cr_DurationMS := took,
                 cr_StatusMatch := (pyStatus = goStatus \<and> pyErr = None \<and> goErr = None)\<rparr>
      in ((r, if pyErr = None \<and> goErr = None then Some (pyBody, goBody) else None), st))"

definition harness_Probe ::
    "compare_lib \<Rightarrow> 'st transport \<Rightarrow> harness \<Rightarrow> string \<Rightarrow> string \<Rightarrow> string option \<Rightarrow> int \<Rightarrow> 'st
      \<Rightarrow> compare_result \<times> 'st" where
  "harness_Probe L send h verb path body took st =
     (if \<not> route_allowed verb path then (no_result (endpoint_of verb path) False unsafe_route, st)
      else case probe_both send h verb path body took st of
             ((r, None), st) \<Rightarrow> (r, st)
           | ((r, Some (pyBody, goBody)), st) \<Rightarrow> (with_keys L pyBody goBody r, st))"

definition plain_value_result :: "compare_result \<Rightarrow> value_result" where
  "plain_value_result r =
     compare_result.extend r \<lparr>vr_ExactJSONMatch = False, vr_BehaviorMatch = False, vr_VolatileOnlyDiffs = False,
       vr_TypeMatch = False, vr_Diffs = [], vr_DiffTruncated = False\<rparr>"

text \<open>The verdicts of \<open>ProbeValue\<close> on two bodies.\<close>

definition judge :: "compare_lib \<Rightarrow> int \<Rightarrow> json option \<Rightarrow> json option \<Rightarrow> compare_result \<Rightarrow> value_result" where
  "judge L maxDiffs pyBody goBody r0 =
     (let r = with_keys L pyBody goBody r0;
          (diffs, truncated) =
            CompareValues L (Any_map (unmarshal_map L pyBody)) (Any_map (unmarshal_map L goBody)) maxDiffs;
          exact = (diffs = []);
          typeMatch = (\<not> list_ex (\<lambda>d. vd_Type d \<in> {''type'', ''missing_key'', ''null_vs_empty''}) diffs);
          volatileOnly = (diffs \<noteq> [] \<and> list_all (\<lambda>d. vd_Type d = ''volatile'') diffs)
      in compare_result.extend r
           \<lparr>vr_ExactJSONMatch = exact,
            vr_BehaviorMatch = (cr_StatusMatch r \<and> cr_KeysMatch r \<and> typeMatch \<and> (exact \<or> volatileOnly)),
            vr_VolatileOnlyDiffs = volatileOnly, vr_TypeMatch = typeMatch, vr_Diffs = diffs,
            vr_DiffTruncated = truncated\<rparr>)"

definition harness_ProbeValue ::
    "compare_lib \<Rightarrow> 'st transport \<Rightarrow> harness \<Rightarrow> string \<Rightarrow> string \<Rightarrow> string option \<Rightarrow> int \<Rightarrow> int \<Rightarrow> 'st
      \<Rightarrow> value_result \<times> 'st" where
  "harness_ProbeValue L send h verb path body maxDiffs took st =
     (if \<not> route_allowed verb path
      then (plain_value_result (no_result (endpoint_of verb path) False unsafe_route), st)
      else case probe_both send h verb path body took st of
             ((r, None), st) \<Rightarrow> (plain_value_result r, st)
           | ((r, Some (pyBody, goBody)), st) \<Rightarrow> (judge L maxDiffs pyBody goBody r, st))"

subsection \<open>Totals of a report\<close>

record report_summary =
  rs_Total :: nat
  rs_Compared :: nat
  rs_Skipped :: nat
  rs_Allowed :: nat
  rs_Blocked :: nat
  rs_ExactMatches :: nat
  rs_BehaviorMatches :: nat
  rs_MismatchCount :: nat
  rs_BehaviorMismatchCount :: nat
  rs_TransportErrorCount :: nat
  rs_StatusMismatchCount :: nat
  rs_KeysMismatchCount :: nat
  rs_TypeMismatchCount :: nat
  rs_ValueMismatchCount :: nat
  rs_VolatileOnlyCount :: nat
  rs_TruncatedDiffCount :: nat

definition one_if :: "bool \<Rightarrow> nat" where
  "one_if b = (if b then 1 else 0)"

definition count_result :: "(string \<times> string) list \<Rightarrow> value_result \<Rightarrow> report_summary \<Rightarrow> report_summary" where
  "count_result skips res s =
     (let s = s\<lparr>rs_Allowed := rs_Allowed s + one_if (cr_Allowed res),
                rs_Blocked := rs_Blocked s + one_if (\<not> cr_Allowed res)\<rparr>
      in if map_of skips (cr_Endpoint res) \<noteq> None then s\<lparr>rs_Skipped := rs_Skipped s + 1\<rparr>
         else
           s\<lparr>rs_Compared := rs_Compared s + 1,
             rs_ExactMatches := rs_ExactMatches s + one_if (vr_ExactJSONMatch res),
             rs_BehaviorMatches := rs_BehaviorMatches s + one_if (vr_BehaviorMatch res),
             rs_VolatileOnlyCount := rs_VolatileOnlyCount s + one_if (vr_VolatileOnlyDiffs res),
             rs_TransportErrorCount := rs_TransportErrorCount s + one_if (contains (cr_Error res) ''backend:''),
             rs_StatusMismatchCount := rs_StatusMismatchCount s + one_if (\<not> cr_StatusMatch res),
             rs_KeysMismatchCount := rs_KeysMismatchCount s + one_if (\<not> cr_KeysMatch res),
             rs_TypeMismatchCount := rs_TypeMismatchCount s + one_if (\<not> vr_TypeMatch res),
             rs_TruncatedDiffCount := rs_TruncatedDiffCount s + one_if (vr_DiffTruncated res),
             rs_ValueMismatchCount := rs_ValueMismatchCount s
               + one_if (list_ex (\<lambda>d. vd_Type d \<in> {''scalar'', ''list_length''}) (vr_Diffs res)),
             rs_MismatchCount := rs_MismatchCount s
               + one_if (cr_Error res \<noteq> [] \<or> \<not> cr_StatusMatch res \<or> \<not> cr_KeysMatch res \<or> \<not> vr_ExactJSONMatch res),
             rs_BehaviorMismatchCount := rs_BehaviorMismatchCount s
               + one_if (cr_Error res \<noteq> [] \<or> \<not> vr_BehaviorMatch res)\<rparr>)"

definition Summarize :: "(string \<times> string) list \<Rightarrow> value_result list \<Rightarrow> report_summary" where
  "Summarize skips results =
     fold (count_result skips) results
       \<lparr>rs_Total = length results, rs_Compared = 0, rs_Skipped = 0, rs_Allowed = 0, rs_Blocked = 0,
        rs_ExactMatches = 0, rs_BehaviorMatches = 0, rs_MismatchCount = 0, rs_BehaviorMismatchCount = 0,
        rs_TransportErrorCount = 0, rs_StatusMismatchCount = 0, rs_KeysMismatchCount = 0,
        rs_TypeMismatchCount = 0, rs_ValueMismatchCount = 0, rs_VolatileOnlyCount = 0, rs_TruncatedDiffCount = 0\<rparr>"

end
