(* ===== verification/Shadow_Verdicts.thy ===== *)
theory Shadow_Verdicts
  imports Shadow_Compare
begin

text \<open>
  What the bounded comparison means: a reference that lists all differences, the equality of decoded
  JSON values it decides, and the lemmas that the collector keeps the first differences of that list.
\<close>

subsection \<open>All differences\<close>

definition absent_keys :: "any_map \<Rightarrow> string \<Rightarrow> string \<Rightarrow> string \<Rightarrow> any_map \<Rightarrow> ValueDiff list" where
  "absent_keys other path py go kvs =
     map (\<lambda>kv. plain_diff (path @ ''.'' @ fst kv) ''missing_key'' py go)
       (filter (\<lambda>kv. map_of other (fst kv) = None) kvs)"

function (sequential) value_diffs :: "compare_lib \<Rightarrow> any \<Rightarrow> any \<Rightarrow> string \<Rightarrow> ValueDiff list"
  and common_diffs :: "compare_lib \<Rightarrow> any_map \<Rightarrow> any_map \<Rightarrow> string \<Rightarrow> ValueDiff list"
  and item_diffs :: "compare_lib \<Rightarrow> any list \<Rightarrow> any list \<Rightarrow> string \<Rightarrow> nat \<Rightarrow> ValueDiff list" where
  "value_diffs L v w path =
     (if v = Any_nil \<or> w = Any_nil then nil_case v w path
      else case (as_map v, as_map w) of
             (Some m, Some n) \<Rightarrow>
               absent_keys n path ''present'' ''missing'' m @ absent_keys m path ''missing'' ''present'' n
               @ common_diffs L m n path
           | _ \<Rightarrow>
               (case (as_slice v, as_slice w) of
                  (Some xs, Some ys) \<Rightarrow> length_diffs xs ys path @ item_diffs L xs ys path 0
                | _ \<Rightarrow> scalar_diffs L v w path))"
| "common_diffs L [] n path = []"
| "common_diffs L ((k, v) # kvs) n path =
     (case map_of n k of
        None \<Rightarrow> common_diffs L kvs n path
      | Some w \<Rightarrow> value_diffs L v w (path @ ''.'' @ k) @ common_diffs L kvs n path)"
| "item_diffs L (x # xs) (y # ys) path i =
     value_diffs L x y (path @ ''['' @ decimal (int i) @ '']'') @ item_diffs L xs ys path (Suc i)"
| "item_diffs L xs ys path i = []"
  by pat_completeness auto

termination
  by (relation "measure (\<lambda>args. case args of
       Inl (L, v, w, path) \<Rightarrow> size v
     | Inr (Inl (L, kvs, n, path)) \<Rightarrow> size_list (size_prod (\<lambda>_. 0) size) kvs
     | Inr (Inr (L, xs, ys, path, i)) \<Rightarrow> size_list size xs)")
    (auto dest: as_map_size [OF sym] as_slice_size [OF sym])

declare compareValue.simps [simp del] value_diffs.simps [simp del]

subsection \<open>The collector\<close>

definition dc_ok :: "diffCollector \<Rightarrow> bool" where
  "dc_ok dc \<longleftrightarrow> (dc_truncated dc \<longrightarrow> dc_maxDiffs dc \<le> int (length (dc_diffs dc)))"

lemma dc_append_truncated: "dc_ok dc \<Longrightarrow> dc_truncated dc \<Longrightarrow> dc_append dc d = dc"
  by (cases dc) (simp add: dc_ok_def dc_append_def)

lemma dc_ok_append: "dc_ok dc \<Longrightarrow> dc_ok (dc_append dc d)"
  by (auto simp: dc_ok_def dc_append_def)

lemma append_all_simps [simp]:
  "append_all dc [] = dc" "append_all dc (d # ds) = append_all (dc_append dc d) ds"
  "append_all dc (ds @ es) = append_all (append_all dc ds) es"
  by (simp_all add: append_all_def)

lemma dc_ok_append_all: "dc_ok dc \<Longrightarrow> dc_ok (append_all dc ds)"
  by (induction ds arbitrary: dc) (simp_all add: dc_ok_append)

lemma append_all_truncated: "dc_ok dc \<Longrightarrow> dc_truncated dc \<Longrightarrow> append_all dc ds = dc"
  by (induction ds arbitrary: dc) (simp_all add: dc_append_truncated)

lemma append_all_spec:
  assumes "\<not> dc_truncated dc"
  shows "append_all dc ds =
    dc\<lparr>dc_diffs := dc_diffs dc @ take (nat (dc_maxDiffs dc - int (length (dc_diffs dc)))) (map mark_volatile ds),
       dc_truncated := dc_maxDiffs dc < int (length (dc_diffs dc)) + int (length ds) \<and> ds \<noteq> []\<rparr>"
  using assms
proof (induction ds arbitrary: dc)
  case (Cons d ds)
  show ?case
  proof (cases "dc_maxDiffs dc \<le> int (length (dc_diffs dc))")
    case True
    then have "append_all (dc\<lparr>dc_truncated := True\<rparr>) ds = dc\<lparr>dc_truncated := True\<rparr>"
      by (intro append_all_truncated) (simp_all add: dc_ok_def)
    with True show ?thesis by (simp add: dc_append_def)
  next
    case False
    define n where "n = nat (dc_maxDiffs dc - int (Suc (length (dc_diffs dc))))"
    with False have n: "nat (dc_maxDiffs dc - int (length (dc_diffs dc))) = Suc n"
        "nat (dc_maxDiffs dc - int (Suc (length (dc_diffs dc)))) = n" by arith+
    from False Cons.prems Cons.IH [of "dc\<lparr>dc_diffs := dc_diffs dc @ [mark_volatile d]\<rparr>"] n show ?thesis
      by (cases "ds = []") (simp_all add: dc_append_def algebra_simps)
  qed
qed simp

lemma missing_loop_all:
  "dc_ok dc \<Longrightarrow> missing_loop other path py go kvs dc = append_all dc (absent_keys other path py go kvs)"
proof (induction kvs arbitrary: dc)
  case (Cons kv kvs)
  obtain k v where kv: "kv = (k, v)" by (cases kv)
  let ?dc = "dc_append dc (plain_diff (path @ ''.'' @ k) ''missing_key'' py go)"
  have "append_all ?dc ds = ?dc" if "dc_truncated ?dc" for ds
    using that Cons.prems by (intro append_all_truncated dc_ok_append)
  with Cons show ?case by (simp add: kv absent_keys_def dc_ok_append Let_def)
qed (simp add: absent_keys_def)

lemma key_loops_all:
  assumes "dc_ok dc"
  shows "key_loops m n path dc =
    append_all dc (absent_keys n path ''present'' ''missing'' m @ absent_keys m path ''missing'' ''present'' n)"
  using assms append_all_truncated [OF dc_ok_append_all [OF assms]]
  by (simp add: key_loops_def missing_loop_all dc_ok_append_all Let_def)

lemma compare_all:
  "dc_ok dc \<Longrightarrow> compareValue L v w path dc = append_all dc (value_diffs L v w path)"
  "dc_ok dc' \<Longrightarrow> common_loop L kvs n path' dc' = append_all dc' (common_diffs L kvs n path')"
  "dc_ok dc'' \<Longrightarrow> item_loop L xs ys path'' i dc'' = append_all dc'' (item_diffs L xs ys path'' i)"
proof (induction L v w path dc and L kvs n path' dc' and L xs ys path'' i dc''
    rule: compareValue_common_loop_item_loop.induct)
  case (1 L v w path dc)
  show ?case
  proof (cases "dc_truncated dc")
    case True
    with append_all_truncated [OF "1.prems"(1) True] show ?thesis by (simp add: compareValue.simps)
  next
    case live: False
    show ?thesis
    proof (cases "v = Any_nil \<or> w = Any_nil")
      case True
      with live show ?thesis by (simp add: compareValue.simps value_diffs.simps)
    next
      case nonnil: False
      show ?thesis
      proof (cases "\<exists>m n. as_map v = Some m \<and> as_map w = Some n")
        case True
        then obtain m n where mn: "as_map v = Some m" "as_map w = Some n" by blast
        let ?dc = "key_loops m n path dc"
        have ok: "dc_ok ?dc" using "1.prems"(1) by (simp add: key_loops_all dc_ok_append_all)
        have "compareValue L v w path dc = append_all ?dc (common_diffs L m n path)"
        proof (cases "dc_truncated ?dc")
          case True
          with ok live nonnil mn show ?thesis by (simp add: compareValue.simps append_all_truncated [OF ok True] Let_def)
        next
          case False
          with ok live nonnil mn "1.IH" show ?thesis by (simp add: compareValue.simps Let_def)
        qed
        with live nonnil mn "1.prems"(1) show ?thesis by (simp add: value_diffs.simps key_loops_all)
      next
        case nomap: False
        show ?thesis
        proof (cases "\<exists>xs ys. as_slice v = Some xs \<and> as_slice w = Some ys")
          case True
          then obtain xs ys where s: "as_slice v = Some xs" "as_slice w = Some ys" by blast
          then have m: "as_map v = None" "as_map w = None"
            by (cases v; cases w; simp add: as_slice_def as_map_def)+
          let ?dc = "append_all dc (length_diffs xs ys path)"
          have ok: "dc_ok ?dc" using "1.prems"(1) by (simp add: dc_ok_append_all)
          show ?thesis
          proof (cases "dc_truncated ?dc")
            case True
            with ok live nonnil m s show ?thesis
              by (simp add: compareValue.simps value_diffs.simps append_all_truncated Let_def)
          next
            case False
            with ok live nonnil m s "1.IH" show ?thesis
              by (simp add: compareValue.simps value_diffs.simps Let_def)
          qed
        next
          case False
          with live nonnil nomap show ?thesis
            by (auto simp: compareValue.simps value_diffs.simps split: option.splits)
        qed
      qed
    qed
  qed
next
  case (3 L k v kvs n path dc)
  show ?case
  proof (cases "map_of n k")
    case None
    with 3 show ?thesis by simp
  next
    case (Some w)
    let ?dc = "compareValue L v w (path @ ''.'' @ k) dc"
    have eq: "?dc = append_all dc (value_diffs L v w (path @ ''.'' @ k))" using "3.IH" "3.prems" Some by blast
    with "3.prems" have ok: "dc_ok ?dc" by (simp add: dc_ok_append_all)
    have "common_loop L ((k, v) # kvs) n path dc = (if dc_truncated ?dc then ?dc else common_loop L kvs n path ?dc)"
      by (simp add: Some Let_def)
    also have "\<dots> = append_all ?dc (common_diffs L kvs n path)"
      using "3.IH"(3) [OF Some refl _ ok] append_all_truncated [OF ok] by simp
    also have "\<dots> = append_all dc (common_diffs L ((k, v) # kvs) n path)" using Some eq by simp
    finally show ?thesis .
  qed
next
  case (4 L x xs y ys path i dc)
  let ?p = "path @ ''['' @ decimal (int i) @ '']''"
  let ?dc = "compareValue L x y ?p dc"
  have eq: "?dc = append_all dc (value_diffs L x y ?p)" using "4.IH" "4.prems" by blast
  with "4.prems" have ok: "dc_ok ?dc" by (simp add: dc_ok_append_all)
  have "item_loop L (x # xs) (y # ys) path i dc = (if dc_truncated ?dc then ?dc else item_loop L xs ys path (Suc i) ?dc)"
    by (simp add: Let_def)
  also have "\<dots> = append_all ?dc (item_diffs L xs ys path (Suc i))"
    using "4.IH"(2) [OF refl _ ok] append_all_truncated [OF ok] by simp
  also have "\<dots> = append_all dc (item_diffs L (x # xs) (y # ys) path i)" using eq by simp
  finally show ?case .
qed simp_all

lemma CompareValues_spec:
  "CompareValues L v w maxDiffs =
    (take (nat maxDiffs) (map mark_volatile (value_diffs L v w [])),
     maxDiffs < int (length (value_diffs L v w [])) \<and> value_diffs L v w [] \<noteq> [])"
  by (simp add: CompareValues_def Let_def compare_all dc_ok_def append_all_spec)

subsection \<open>Equality of decoded values\<close>

text \<open>What \<open>json.Unmarshal\<close> makes; a nil map occurs only at the top, for a body that is no object.\<close>

inductive json_value :: "any \<Rightarrow> bool" where
  "json_value Any_nil"
| "json_value (Any_bool b)"
| "\<not> float_nan f \<Longrightarrow> json_value (Any_float f)"
| "json_value (Any_text t)"
| "(\<And>x. x \<in> set xs \<Longrightarrow> json_value x) \<Longrightarrow> json_value (Any_list xs)"
| "(\<And>k x. map_of (entries m) k = Some x \<Longrightarrow> json_value x) \<Longrightarrow> go_map (entries m) \<Longrightarrow> json_value (Any_map m)"

text \<open>
  Equal as JSON: objects with the same keys and equal members in any order, arrays element by element,
  numbers as \<open>float64\<close> values.
\<close>

inductive same_json :: "any \<Rightarrow> any \<Rightarrow> bool" where
  "same_json Any_nil Any_nil"
| "same_json (Any_bool b) (Any_bool b)"
| "float_equal f g \<Longrightarrow> same_json (Any_float f) (Any_float g)"
| "same_json (Any_text t) (Any_text t)"
| "length xs = length ys \<Longrightarrow> (\<And>x y. (x, y) \<in> set (zip xs ys) \<Longrightarrow> same_json x y) \<Longrightarrow>
     same_json (Any_list xs) (Any_list ys)"
| "(\<And>k. map_of (entries m) k = None \<longleftrightarrow> map_of (entries n) k = None) \<Longrightarrow>
   (\<And>k x y. map_of (entries m) k = Some x \<Longrightarrow> map_of (entries n) k = Some y \<Longrightarrow> same_json x y) \<Longrightarrow>
     same_json (Any_map m) (Any_map n)"

inductive_simps json_value_simps: "json_value (Any_list xs)" "json_value (Any_map m)"
inductive_simps same_json_list: "same_json (Any_list xs) (Any_list ys)"
inductive_simps same_json_map: "same_json (Any_map m) (Any_map n)"

lemma same_json_nil: "same_json v w \<Longrightarrow> v = Any_nil \<longleftrightarrow> w = Any_nil"
  by (auto elim: same_json.cases)

lemma nil_case_equal:
  "v = Any_nil \<or> w = Any_nil \<Longrightarrow> nil_case v w path = [] \<longleftrightarrow> same_json v w"
  using same_json_nil same_json.intros(1) by (auto simp: nil_case_def)

lemma scalar_diffs_equal:
  assumes "json_value v" and "json_value w" and "\<not> (v = Any_nil \<or> w = Any_nil)"
    and "as_map v = None \<or> as_map w = None" and "as_slice v = None \<or> as_slice w = None"
  shows "scalar_diffs L v w path = [] \<longleftrightarrow> same_json v w"
  using assms(1)
proof cases
  case (3 f)
  with assms show ?thesis
    by (auto simp: scalar_diffs_def normalizeNumber_def elim!: json_value.cases [of w] same_json.cases intro: same_json.intros split: if_splits)
qed (use assms in \<open>auto simp: scalar_diffs_def normalizeNumber_def as_map_def as_slice_def
      elim!: json_value.cases [of w] same_json.cases intro: same_json.intros split: if_splits\<close>)

lemma absent_keys_empty:
  "absent_keys n path py go m = [] \<longleftrightarrow> (\<forall>k. map_of n k = None \<longrightarrow> map_of m k = None)"
  by (auto simp: absent_keys_def filter_empty_conv map_of_eq_None_iff)

lemma as_map_value: "as_map v = Some m \<Longrightarrow> \<exists>m'. v = Any_map m' \<and> entries m' = m"
  by (auto simp: as_map_def split: any.splits)

lemma as_slice_value: "as_slice v = Some xs \<Longrightarrow> v = Any_list xs"
  by (auto simp: as_slice_def split: any.splits)

lemma value_diffs_equal:
  "json_value v \<Longrightarrow> json_value w \<Longrightarrow> value_diffs L v w path = [] \<longleftrightarrow> same_json v w"
  "(\<And>k x. (k, x) \<in> set kvs \<Longrightarrow> json_value x) \<Longrightarrow> (\<And>k x. map_of n k = Some x \<Longrightarrow> json_value x) \<Longrightarrow>
     common_diffs L kvs n path' = [] \<longleftrightarrow> (\<forall>k x y. (k, x) \<in> set kvs \<longrightarrow> map_of n k = Some y \<longrightarrow> same_json x y)"
  "(\<And>x. x \<in> set xs \<Longrightarrow> json_value x) \<Longrightarrow> (\<And>y. y \<in> set ys \<Longrightarrow> json_value y) \<Longrightarrow>
     item_diffs L xs ys path'' i = [] \<longleftrightarrow> (\<forall>x y. (x, y) \<in> set (zip xs ys) \<longrightarrow> same_json x y)"
proof (induction L v w path and L kvs n path' and L xs ys path'' i rule: value_diffs_common_diffs_item_diffs.induct)
  case (1 L v w path)
  show ?case
  proof (cases "v = Any_nil \<or> w = Any_nil")
    case True
    then show ?thesis by (simp add: value_diffs.simps nil_case_equal)
  next
    case nonnil: False
    consider (maps) m n where "as_map v = Some m" "as_map w = Some n"
      | (slices) xs ys where "as_slice v = Some xs" "as_slice w = Some ys"
      | (other) "as_map v = None \<or> as_map w = None" "as_slice v = None \<or> as_slice w = None"
      by (cases "as_map v"; cases "as_map w"; cases "as_slice v"; cases "as_slice w") auto
    then show ?thesis
    proof cases
      case (maps m n)
      then obtain m' n' where vw: "v = Any_map m'" "w = Any_map n'" "entries m' = m" "entries n' = n"
        using as_map_value by blast
      with "1.prems" have d: "go_map m" "go_map n" "\<And>k x. map_of m k = Some x \<Longrightarrow> json_value x"
        "\<And>k x. map_of n k = Some x \<Longrightarrow> json_value x"
        by (auto simp: json_value_simps)
      then have mem: "(k, x) \<in> set m \<longleftrightarrow> map_of m k = Some x" for k x
        by simp
      have "common_diffs L m n path = [] \<longleftrightarrow>
          (\<forall>k x y. map_of m k = Some x \<longrightarrow> map_of n k = Some y \<longrightarrow> same_json x y)"
        using "1.IH"(3) [OF nonnil refl maps] d(3,4) unfolding mem by blast
      with nonnil maps show ?thesis
        by (auto simp: value_diffs.simps absent_keys_empty vw same_json_map)
    next
      case (slices xs ys)
      then have vw: "v = Any_list xs" "w = Any_list ys" by (simp_all add: as_slice_value)
      with "1.prems" have "\<And>x. x \<in> set xs \<Longrightarrow> json_value x" "\<And>x. x \<in> set ys \<Longrightarrow> json_value x"
        by (auto simp: json_value_simps)
      then have "item_diffs L xs ys path 0 = [] \<longleftrightarrow> (\<forall>x y. (x, y) \<in> set (zip xs ys) \<longrightarrow> same_json x y)"
        using "1.IH"(1) [OF nonnil refl _ refl slices] by (simp add: vw as_map_def)
      with nonnil slices show ?thesis
        by (auto simp: value_diffs.simps length_diffs_def vw same_json_list as_map_def)
    next
      case other
      with nonnil scalar_diffs_equal [OF "1.prems" nonnil other, of L path] show ?thesis
        by (auto simp: value_diffs.simps split: option.splits)
    qed
  qed
next
  case (3 L k v kvs n path)
  have kvs: "common_diffs L kvs n path = [] \<longleftrightarrow> (\<forall>k x y. (k, x) \<in> set kvs \<longrightarrow> map_of n k = Some y \<longrightarrow> same_json x y)"
    using "3.IH" "3.prems" by (cases "map_of n k") auto
  show ?case
  proof (cases "map_of n k")
    case (Some w)
    then have "json_value v" "json_value w" using "3.prems" by auto
    with "3.IH"(2) [OF Some this] kvs Some show ?thesis by auto
  qed (use kvs in auto)
next
  case (4 L x xs y ys path i)
  then show ?case by auto
qed auto

text \<open>\<open>strconv.ParseFloat\<close> makes no NaN of a JSON number, so decoding gives JSON values.\<close>

definition no_nan :: "compare_lib \<Rightarrow> bool" where
  "no_nan L \<longleftrightarrow> (\<forall>t f. cl_float L t = Some f \<longrightarrow> \<not> float_nan f)"

lemma decode_json_value:
  "no_nan L \<Longrightarrow> json_value (body_any L j)"
  "no_nan L \<Longrightarrow> x \<in> set (body_items L js) \<Longrightarrow> json_value x"
  "no_nan L \<Longrightarrow> go_map m \<Longrightarrow> (\<And>k x. map_of m k = Some x \<Longrightarrow> json_value x) \<Longrightarrow>
     go_map (body_members L ms m) \<and> (\<forall>k x. map_of (body_members L ms m) k = Some x \<longrightarrow> json_value x)"
proof (induction L j and L js and L ms m arbitrary: and x rule: body_any_body_items_body_members.induct)
  case (3 L t)
  then show ?case by (auto simp: no_nan_def intro: json_value.intros split: option.split)
next
  case (6 L ms)
  then show ?case by (simp add: json_value_simps entries_def)
next
  case (8 L j js)
  then show ?case by auto
next
  case (10 L k j ms m)
  have "json_value (body_any L j)" using "10.IH"(1) "10.prems" by simp
  with "10.prems" have "go_map (map_put k (body_any L j) m)"
    "\<And>i x. map_of (map_put k (body_any L j) m) i = Some x \<Longrightarrow> json_value x"
    by (auto split: if_splits)
  from "10.IH"(2) [OF "10.prems"(1) this] show ?case by simp
qed (auto intro: json_value.intros)

lemma unmarshal_json_value: "no_nan L \<Longrightarrow> json_value (Any_map (unmarshal_map L body))"
  using decode_json_value(3) [of L "[]"]
  by (auto simp: unmarshal_map_def json_value_simps entries_def split: option.splits json.splits)

lemma with_keys_status [simp]: "cr_StatusMatch (with_keys L b c r) = cr_StatusMatch r"
  by (simp add: with_keys_def Let_def split: prod.split)

subsection \<open>Routes that may be called\<close>

lemma prefix_split: "is_prefix p s \<Longrightarrow> s = p @ drop (length p) s"
  unfolding is_prefix_def by (metis append_take_drop_id)

lemma no_space_prefix:
  assumes "CHR '' '' \<notin> set verb" and "CHR '' '' \<notin> set p"
    and "is_prefix (p @ '' '' @ rest) (verb @ '' '' @ path)"
  shows "verb = p \<and> is_prefix rest path"
proof -
  obtain tail where eq: "verb @ '' '' @ path = p @ '' '' @ rest @ tail"
    using assms(3) unfolding is_prefix_def by (metis append.assoc append_take_drop_id)
  have "takeWhile (\<lambda>c. c \<noteq> CHR '' '') (v @ '' '' @ xs) = v" if "CHR '' '' \<notin> set v" for v xs
    using that by (subst takeWhile_append2) auto
  then have "verb = p" using eq assms(1,2) by metis
  with eq have "path = rest @ tail" by simp
  with \<open>verb = p\<close> show ?thesis by (simp add: is_prefix_def)
qed

definition post_routes :: "string list" where
  "post_routes = [''/search'', ''/kg/recall'', ''/chapters/dry-run'', ''/chapters/search'', ''/episodes/search'']"

lemma allowed_routes:
  assumes "CHR '' '' \<notin> set verb" and "route_allowed verb path"
  shows "verb = ''GET'' \<or> verb = ''POST'' \<and> path \<in> set post_routes"
proof -
  have get: "verb = ''GET''" if "\<exists>rest. endpoint_of verb path = ''GET '' @ rest"
  proof -
    from that obtain rest where eq: "verb @ '' '' @ path = ''GET '' @ rest"
      unfolding endpoint_of_def by blast
    have "is_prefix (''GET'' @ '' '' @ []) (verb @ '' '' @ path)"
      unfolding eq by (simp add: is_prefix_def)
    then show ?thesis using no_space_prefix [OF assms(1)] by fastforce
  qed
  have post: "verb = ''POST'' \<and> path = rest" if "endpoint_of verb path = ''POST '' @ rest" for rest
  proof -
    from that have eq: "verb @ '' '' @ path = ''POST '' @ rest" by (simp only: endpoint_of_def)
    have "is_prefix (''POST'' @ '' '' @ []) (verb @ '' '' @ path)"
      unfolding eq by (simp add: is_prefix_def)
    then have "verb = ''POST''" using no_space_prefix [OF assms(1)] by fastforce
    with that show ?thesis by (simp add: endpoint_of_def)
  qed
  have listed: "list_all (\<lambda>e. is_prefix ''GET '' e \<or> (is_prefix ''POST '' e \<and> drop 5 e \<in> set post_routes)) readOnlyAllowlist"
    "list_all (is_prefix ''GET '') prefixAllowlist"
    by code_simp+
  from assms(2) show ?thesis
    unfolding route_allowed_def Let_def
  proof
    assume "endpoint_of verb path \<in> set readOnlyAllowlist"
    with listed(1) consider "is_prefix ''GET '' (endpoint_of verb path)"
      | "is_prefix ''POST '' (endpoint_of verb path)" "drop 5 (endpoint_of verb path) \<in> set post_routes"
      by (auto simp: list_all_iff)
    then show ?thesis
    proof cases
      case 1
      then have "\<exists>rest. endpoint_of verb path = ''GET '' @ rest"
        unfolding is_prefix_def by (metis append_take_drop_id)
      with get show ?thesis by blast
    next
      case 2
      have five: "length ''POST '' = 5" by simp
      have "endpoint_of verb path = ''POST '' @ drop 5 (endpoint_of verb path)"
        using prefix_split [OF 2(1)] five by metis
      with post 2(2) show ?thesis by metis
    qed
  next
    assume "list_ex (\<lambda>prefix. is_prefix prefix (endpoint_of verb path)) prefixAllowlist"
    then obtain p where p: "p \<in> set prefixAllowlist" "is_prefix p (endpoint_of verb path)" by (auto simp: list_ex_iff)
    with listed(2) have "is_prefix ''GET '' p" by (simp add: list_all_iff)
    with p(2) have "\<exists>rest. endpoint_of verb path = ''GET '' @ rest"
      unfolding is_prefix_def by (metis append.assoc append_take_drop_id)
    with get show ?thesis by blast
  qed
qed

end
