(* ===== verification/Body_Cycle.thy ===== *)
theory Body_Cycle
  imports Archive_Prelude
begin

text \<open>
  The arithmetic of tracked body states: the estimate of the position in a cycle of variable length
  (\<open>assessBodyCycle\<close> of \<open>go-service/internal/httpapi/body_cycle.go\<close>) from the bounds on the elapsed days.
  The code computes day counts in \<open>float64\<close>; they are integers after \<open>math.Floor\<close>, and below \<open>2 ^ 53\<close>
  sums, products and floors of quotients of integers are exact there, so they are integers here. How
  elapsed days come from story dates, and the dates made from the result, are not modelled.
\<close>

subsection \<open>The estimate\<close>

record cycle_spec =
  CycleDays :: int
  VariationDays :: int
  PeriodDays :: int
  LutealMinDays :: int
  LutealMaxDays :: int

definition shortest :: "cycle_spec \<Rightarrow> int" where
  "shortest p = CycleDays p - VariationDays p"

definition longest :: "cycle_spec \<Rightarrow> int" where
  "longest p = CycleDays p + VariationDays p"

definition cycle_parameters_ok :: "cycle_spec \<Rightarrow> bool" where
  "cycle_parameters_ok p \<longleftrightarrow>
     \<not> (CycleDays p \<le> 0 \<or> VariationDays p < 0 \<or> shortest p \<le> 0 \<or> longest p < shortest p
        \<or> PeriodDays p \<le> 0 \<or> LutealMinDays p \<le> 0 \<or> LutealMaxDays p < LutealMinDays p
        \<or> LutealMaxDays p \<ge> shortest p)"

text \<open>The extreme phases over the two endpoint cycles.\<close>

fun endpoint_phases :: "cycle_spec \<Rightarrow> int \<Rightarrow> int \<Rightarrow> int list \<Rightarrow> int \<times> int \<Rightarrow> int \<times> int" where
  "endpoint_phases p minimumDays maximumDays [] acc = acc"
| "endpoint_phases p minimumDays maximumDays (cycle # cycles) (phaseMinimum, phaseMaximum) =
     (let startMinimum = cycle * shortest p;
          startMaximum = cycle * longest p;
          lo = max 0 (minimumDays - startMaximum);
          hi = min (longest p - 1) (maximumDays - startMinimum)
      in endpoint_phases p minimumDays maximumDays cycles
           (if lo \<le> hi then (min phaseMinimum lo, max phaseMaximum hi) else (phaseMinimum, phaseMaximum)))"

text \<open>\<open>math.Ceil\<close> of a quotient by a positive integer.\<close>

definition ceil_div :: "int \<Rightarrow> int \<Rightarrow> int" where
  "ceil_div a b = - ((- a) div b)"

text \<open>The first and the last cycle to which a fertile day may belong.\<close>

definition fertile_lo :: "cycle_spec \<Rightarrow> int \<Rightarrow> int" where
  "fertile_lo p minimumDays =
     (let fertilePhaseMax = longest p - LutealMinDays p
      in max 0 (ceil_div (minimumDays - fertilePhaseMax) (longest p)))"

definition fertile_hi :: "cycle_spec \<Rightarrow> int \<Rightarrow> int" where
  "fertile_hi p maximumDays =
     (let fertilePhaseMin = shortest p - LutealMaxDays p - 5
      in (maximumDays - fertilePhaseMin) div shortest p)"

record cycle_estimate =
  ce_cycle_index :: int
  ce_possible_cycles :: "int \<times> int"
  ce_cycle_day :: "int \<times> int"
  ce_menstruation_possible :: bool
  ce_menstruation_estimate :: bool
  ce_fertile_possible :: bool
  ce_fertile_cycles :: "(int \<times> int) option"

text \<open>
  \<open>days\<close> are the bounds on the elapsed days, \<open>None\<close> if one of them is unknown; the result is the reason of
  an unknown position, or the estimate.
\<close>

definition assessBodyCycle :: "cycle_spec \<Rightarrow> (int \<times> int) option \<Rightarrow> string + cycle_estimate" where
  "assessBodyCycle p days =
     (if \<not> cycle_parameters_ok p then Inl ''cycle_parameters_unresolved''
      else case days of
             None \<Rightarrow> Inl ''story_date_or_reference_unresolved''
           | Some (minimumDays, maximumDays) \<Rightarrow>
               (if minimumDays < 0 then Inl ''story_date_or_reference_unresolved''
                else
                  let minimumCycle = minimumDays div longest p;
                      maximumCycle = maximumDays div shortest p;
                      nominalCycle = (minimumDays + maximumDays) div (2 * CycleDays p);
                      (phaseMinimum, phaseMaximum) =
                        endpoint_phases p minimumDays maximumDays [minimumCycle, maximumCycle] (longest p, 0);
                      fertileCycleMin = fertile_lo p minimumDays;
                      fertileCycleMax = fertile_hi p maximumDays
                  in if phaseMinimum > phaseMaximum then Inl ''cycle_position_unresolved''
                     else Inr \<lparr>ce_cycle_index = nominalCycle,
                               ce_possible_cycles = (minimumCycle, maximumCycle),
                               ce_cycle_day = (phaseMinimum + 1, phaseMaximum + 1),
                               ce_menstruation_possible = (phaseMinimum < PeriodDays p),
                               ce_menstruation_estimate = (phaseMaximum < PeriodDays p),
                               ce_fertile_possible = (fertileCycleMin \<le> fertileCycleMax),
                               ce_fertile_cycles =
                                 (if fertileCycleMin \<le> fertileCycleMax then Some (fertileCycleMin, fertileCycleMax)
                                  else None)\<rparr>))"

subsection \<open>Histories\<close>

text \<open>
  The reference: a history is the lengths of the cycles so far, each within the author's bounds, and the
  length of the current one; the day is \<open>phase\<close> days into the current cycle.
\<close>

definition history :: "cycle_spec \<Rightarrow> int list \<Rightarrow> bool" where
  "history p ls \<longleftrightarrow> (\<forall>l \<in> set ls. shortest p \<le> l \<and> l \<le> longest p)"

definition possible :: "cycle_spec \<Rightarrow> int \<Rightarrow> int \<Rightarrow> int \<Rightarrow> int \<Rightarrow> bool" where
  "possible p minimumDays maximumDays k phase \<longleftrightarrow>
     (\<exists>ls current day. history p (current # ls) \<and> int (length ls) = k \<and> minimumDays \<le> day \<and> day \<le> maximumDays
        \<and> phase = day - sum_list ls \<and> 0 \<le> phase \<and> phase < current)"

lemma history_sum:
  "history p ls \<Longrightarrow> int (length ls) * shortest p \<le> sum_list ls \<and> sum_list ls \<le> int (length ls) * longest p"
  by (induction ls) (auto simp: history_def algebra_simps)

text \<open>Every sum between the extremes is reached.\<close>

lemma sum_reached:
  assumes "0 \<le> shortest p" and "int n * shortest p \<le> s" and "s \<le> int n * longest p"
  shows "\<exists>ls. history p ls \<and> length ls = n \<and> sum_list ls = s"
  using assms(2,3)
proof (induction n arbitrary: s)
  case 0
  then show ?case by (intro exI [of _ "[]"]) (simp add: history_def)
next
  case (Suc n)
  define l where "l = max (shortest p) (s - int n * longest p)"
  have le: "shortest p \<le> longest p"
  proof -
    have "int (Suc n) * shortest p \<le> int (Suc n) * longest p" using Suc.prems by linarith
    then show ?thesis by simp
  qed
  then have "int n * shortest p \<le> int n * longest p" by (simp add: mult_left_mono)
  with Suc.prems le have l: "shortest p \<le> l" "l \<le> longest p" and rest: "int n * shortest p \<le> s - l" "s - l \<le> int n * longest p"
    unfolding l_def by (auto simp: algebra_simps)
  from Suc.IH [OF rest] obtain ls where "history p ls" "length ls = n" "sum_list ls = s - l" by blast
  with l show ?case by (intro exI [of _ "l # ls"]) (auto simp: history_def)
qed

lemma possible_bounds:
  assumes "cycle_parameters_ok p" and "minimumDays \<le> maximumDays"
  shows "possible p minimumDays maximumDays k phase \<longleftrightarrow>
    0 \<le> k \<and> max 0 (minimumDays - k * longest p) \<le> phase \<and> phase \<le> min (longest p - 1) (maximumDays - k * shortest p)"
    (is "?l \<longleftrightarrow> ?r")
proof
  assume ?l
  then obtain ls current day where h: "history p (current # ls)" "int (length ls) = k"
      "minimumDays \<le> day" "day \<le> maximumDays" "phase = day - sum_list ls" "0 \<le> phase" "phase < current"
    unfolding possible_def by blast
  then have "history p ls" "current \<le> longest p" by (auto simp: history_def)
  with history_sum [of p ls] h show ?r by auto
next
  assume r: ?r
  define n where "n = nat k"
  have n: "int n = k" using r by (simp add: n_def)
  have pos: "0 < shortest p" "shortest p \<le> longest p"
    using assms(1) by (auto simp: cycle_parameters_ok_def)
  then have kk: "k * shortest p \<le> k * longest p" using r by (simp add: mult_left_mono)
  define s where "s = max (k * shortest p) (minimumDays - phase)"
  have s: "k * shortest p \<le> s" "s \<le> k * longest p" "minimumDays \<le> s + phase" "s + phase \<le> maximumDays"
    using r kk assms(2) by (auto simp: s_def)
  from sum_reached [of p n s] s pos n obtain ls where "history p ls" "length ls = n" "sum_list ls = s" by auto
  with s r n pos show ?l
    unfolding possible_def by (intro exI [of _ ls] exI [of _ "longest p"] exI [of _ "s + phase"]) (auto simp: history_def)
qed

subsection \<open>The estimate is exact\<close>

lemma le_div_iff: "0 < b \<Longrightarrow> k \<le> a div b \<longleftrightarrow> k * b \<le> (a :: int)"
proof
  assume b: "0 < b" and "k \<le> a div b"
  then have "k * b \<le> a div b * b" by (simp add: mult_right_mono)
  with b show "k * b \<le> a" using div_mult_mod_eq [of a b] pos_mod_sign [of b a] by linarith
next
  assume "0 < b" and "k * b \<le> a"
  then show "k \<le> a div b" using zdiv_mono1 [of "k * b" a b] by simp
qed

lemma div_le_iff: "0 < b \<Longrightarrow> a div b \<le> k \<longleftrightarrow> a < (k + 1) * (b :: int)"
  using le_div_iff [of b "k + 1" a] by linarith

lemma ceil_div_le_iff: "0 < b \<Longrightarrow> ceil_div a b \<le> k \<longleftrightarrow> a \<le> k * b"
  using le_div_iff [of b "- k" "- a"] by (simp add: ceil_div_def) linarith

lemma lengths_positive: "cycle_parameters_ok p \<Longrightarrow> 0 < shortest p \<and> shortest p \<le> longest p"
  by (auto simp: cycle_parameters_ok_def)

text \<open>The bounds on the phase in cycle \<open>k\<close>, and when they leave room.\<close>

definition phase_lo :: "cycle_spec \<Rightarrow> int \<Rightarrow> int \<Rightarrow> int" where
  "phase_lo p d k = max 0 (d - k * longest p)"

definition phase_hi :: "cycle_spec \<Rightarrow> int \<Rightarrow> int \<Rightarrow> int" where
  "phase_hi p d k = min (longest p - 1) (d - k * shortest p)"

lemma room_iff:
  assumes "cycle_parameters_ok p" and "0 \<le> a" and "a \<le> b"
  shows "0 \<le> k \<and> phase_lo p a k \<le> phase_hi p b k \<longleftrightarrow> a div longest p \<le> k \<and> k \<le> b div shortest p"
proof -
  have pos: "0 < shortest p" "shortest p \<le> longest p" "0 < longest p" using lengths_positive [OF assms(1)] by auto
  have nonneg: "0 \<le> a div longest p" using assms(2) pos by (simp add: pos_imp_zdiv_nonneg_iff)
  show ?thesis
  proof (cases "0 \<le> k")
    case True
    then have "k * shortest p \<le> k * longest p" using pos by (simp add: mult_left_mono)
    with True assms(2,3) pos show ?thesis
      by (auto simp: phase_lo_def phase_hi_def div_le_iff le_div_iff algebra_simps)
  qed (use nonneg in linarith)
qed

lemma endpoint_phases_Cons:
  "endpoint_phases p a b (c # cs) (u, v) = endpoint_phases p a b cs
     (if phase_lo p a c \<le> phase_hi p b c then (min u (phase_lo p a c), max v (phase_hi p b c)) else (u, v))"
  by (simp add: Let_def phase_lo_def phase_hi_def)

lemma phase_lo_mono: "k \<le> l \<Longrightarrow> 0 \<le> longest p \<Longrightarrow> phase_lo p d l \<le> phase_lo p d k"
  using mult_right_mono [of k l "longest p"] by (auto simp: phase_lo_def)

lemma phase_hi_mono: "k \<le> l \<Longrightarrow> 0 \<le> shortest p \<Longrightarrow> phase_hi p d l \<le> phase_hi p d k"
  using mult_right_mono [of k l "shortest p"] by (auto simp: phase_hi_def)

text \<open>The two endpoint cycles give the extremes, and the position is never unresolved.\<close>

lemma endpoint_phases_value:
  assumes "cycle_parameters_ok p" and "0 \<le> a" and "a \<le> b"
  defines "lowest \<equiv> a div longest p" and "highest \<equiv> b div shortest p"
  shows "endpoint_phases p a b [lowest, highest] (longest p, 0) = (phase_lo p a highest, phase_hi p b lowest)"
    and "lowest \<le> highest" and "phase_lo p a highest \<le> phase_hi p b lowest"
proof -
  have pos: "0 < shortest p" "shortest p \<le> longest p" "0 < longest p" using lengths_positive [OF assms(1)] by auto
  have "a div longest p \<le> a div shortest p" using assms(2) pos by (simp add: zdiv_mono2)
  also have "\<dots> \<le> b div shortest p" using assms(3) pos by (simp add: zdiv_mono1)
  finally show le: "lowest \<le> highest" by (simp add: lowest_def highest_def)
  have room: "phase_lo p a lowest \<le> phase_hi p b lowest" "phase_lo p a highest \<le> phase_hi p b highest"
    using room_iff [OF assms(1-3), of lowest] room_iff [OF assms(1-3), of highest] le
    by (simp_all add: lowest_def highest_def)
  have mono: "phase_lo p a highest \<le> phase_lo p a lowest" "phase_hi p b highest \<le> phase_hi p b lowest"
    using phase_lo_mono [OF le] phase_hi_mono [OF le] pos by simp_all
  with room show "phase_lo p a highest \<le> phase_hi p b lowest" by linarith
  have "0 \<le> phase_lo p a lowest" "phase_hi p b lowest < longest p" by (simp_all add: phase_lo_def phase_hi_def)
  with room mono show "endpoint_phases p a b [lowest, highest] (longest p, 0) = (phase_lo p a highest, phase_hi p b lowest)"
    by (simp add: endpoint_phases_Cons del: endpoint_phases.simps(2))
qed

lemma possible_phases:
  assumes "cycle_parameters_ok p" and "0 \<le> a" and "a \<le> b"
  shows "possible p a b k phase \<longleftrightarrow> 0 \<le> k \<and> phase_lo p a k \<le> phase \<and> phase \<le> phase_hi p b k"
  using possible_bounds [OF assms(1,3)] by (simp add: phase_lo_def phase_hi_def)

lemma estimate_fields:
  assumes "assessBodyCycle p days = Inr e"
  obtains a b where "days = Some (a, b)" "0 \<le> a" "cycle_parameters_ok p"
    and "ce_possible_cycles e = (a div longest p, b div shortest p)"
    and "a \<le> b \<Longrightarrow> ce_cycle_day e = (phase_lo p a (b div shortest p) + 1, phase_hi p b (a div longest p) + 1)"
    and "a \<le> b \<Longrightarrow> ce_menstruation_possible e = (phase_lo p a (b div shortest p) < PeriodDays p)"
    and "a \<le> b \<Longrightarrow> ce_menstruation_estimate e = (phase_hi p b (a div longest p) < PeriodDays p)"
    and "ce_fertile_possible e = (fertile_lo p a \<le> fertile_hi p b)"
proof -
  from assms obtain a b where d: "days = Some (a, b)" "0 \<le> a" "cycle_parameters_ok p"
    by (auto simp: assessBodyCycle_def split: if_splits option.splits)
  show thesis
  proof (rule that [OF d])
  qed (use assms d endpoint_phases_value(1) [OF d(3,2)] in
      \<open>auto simp: assessBodyCycle_def Let_def simp del: endpoint_phases.simps split: if_splits prod.splits\<close>)
qed

lemma assess_resolves:
  assumes "cycle_parameters_ok p" and "0 \<le> a" and "a \<le> b"
  shows "\<exists>e. assessBodyCycle p (Some (a, b)) = Inr e"
  using assms endpoint_phases_value [OF assms]
  by (simp add: assessBodyCycle_def Let_def del: endpoint_phases.simps)

lemma possible_range:
  assumes "cycle_parameters_ok p" and "0 \<le> a" and "a \<le> b"
  shows "(\<exists>phase. possible p a b k phase) \<longleftrightarrow> a div longest p \<le> k \<and> k \<le> b div shortest p"
    and "possible p a b k phase \<Longrightarrow> phase_lo p a (b div shortest p) \<le> phase"
    and "possible p a b k phase \<Longrightarrow> phase \<le> phase_hi p b (a div longest p)"
proof -
  have pos: "0 \<le> shortest p" "0 \<le> longest p" using lengths_positive [OF assms(1)] by auto
  show iff: "(\<exists>phase. possible p a b k phase) \<longleftrightarrow> a div longest p \<le> k \<and> k \<le> b div shortest p"
    using room_iff [OF assms, of k] unfolding possible_phases [OF assms] by (metis order_refl order_trans)
  assume ph: "possible p a b k phase"
  with iff have "a div longest p \<le> k" "k \<le> b div shortest p" by blast+
  with ph pos show "phase_lo p a (b div shortest p) \<le> phase" "phase \<le> phase_hi p b (a div longest p)"
    using phase_lo_mono [of k "b div shortest p" p a] phase_hi_mono [of "a div longest p" k p b]
    unfolding possible_phases [OF assms] by linarith+
qed

lemma extremes_possible:
  assumes "cycle_parameters_ok p" and "0 \<le> a" and "a \<le> b"
  shows "\<exists>k. possible p a b k (phase_lo p a (b div shortest p))"
    and "\<exists>k. possible p a b k (phase_hi p b (a div longest p))"
proof -
  have le: "a div longest p \<le> b div shortest p" by (rule endpoint_phases_value(2) [OF assms])
  have "possible p a b (b div shortest p) (phase_lo p a (b div shortest p))"
    "possible p a b (a div longest p) (phase_hi p b (a div longest p))"
    using room_iff [OF assms, of "b div shortest p"] room_iff [OF assms, of "a div longest p"] le
    unfolding possible_phases [OF assms] by auto
  then show "\<exists>k. possible p a b k (phase_lo p a (b div shortest p))"
    "\<exists>k. possible p a b k (phase_hi p b (a div longest p))" by blast+
qed

text \<open>Fertile days: up to five days before ovulation, which is a luteal length before the cycle's end.\<close>

definition fertile_day :: "cycle_spec \<Rightarrow> int \<Rightarrow> int \<Rightarrow> int \<Rightarrow> bool" where
  "fertile_day p minimumDays maximumDays k \<longleftrightarrow>
     (\<exists>ls current luteal day. history p (current # ls) \<and> int (length ls) = k
        \<and> LutealMinDays p \<le> luteal \<and> luteal \<le> LutealMaxDays p \<and> minimumDays \<le> day \<and> day \<le> maximumDays
        \<and> current - luteal - 5 \<le> day - sum_list ls \<and> day - sum_list ls \<le> current - luteal)"

lemma fertile_day_bounds:
  assumes "cycle_parameters_ok p" and "a \<le> b"
  shows "fertile_day p a b k \<longleftrightarrow> 0 \<le> k \<and> a - k * longest p \<le> longest p - LutealMinDays p
    \<and> shortest p - LutealMaxDays p - 5 \<le> b - k * shortest p" (is "?l \<longleftrightarrow> ?r")
proof
  assume ?l
  then obtain ls current luteal day where h: "history p (current # ls)" "int (length ls) = k"
      "LutealMinDays p \<le> luteal" "luteal \<le> LutealMaxDays p" "a \<le> day" "day \<le> b"
      "current - luteal - 5 \<le> day - sum_list ls" "day - sum_list ls \<le> current - luteal"
    unfolding fertile_day_def by blast
  then have "history p ls" "shortest p \<le> current" "current \<le> longest p" by (auto simp: history_def)
  with history_sum [of p ls] h show ?r by auto
next
  assume r: ?r
  define n where "n = nat k"
  have n: "int n = k" using r by (simp add: n_def)
  have pos: "0 < shortest p" "shortest p \<le> longest p" using lengths_positive [OF assms(1)] by auto
  have lut: "LutealMinDays p \<le> LutealMaxDays p" using assms(1) by (auto simp: cycle_parameters_ok_def)
  have kk: "k * shortest p \<le> k * longest p" using r pos by (simp add: mult_left_mono)
  let ?lo = "shortest p - LutealMaxDays p - 5" and ?hi = "longest p - LutealMinDays p"
  define off where "off = max ?lo (a - k * longest p)"
  have off: "?lo \<le> off" "off \<le> ?hi" "a - k * longest p \<le> off" "off \<le> b - k * shortest p"
    using r kk assms(2) pos lut by (auto simp: off_def)
  define s where "s = max (k * shortest p) (a - off)"
  have s: "k * shortest p \<le> s" "s \<le> k * longest p" "a \<le> s + off" "s + off \<le> b"
    using off kk assms(2) by (auto simp: s_def)
  from sum_reached [of p n s] s pos n obtain ls where ls: "history p ls" "length ls = n" "sum_list ls = s" by auto
  define current where "current = max (shortest p) (min (longest p) (off + LutealMaxDays p))"
  define luteal where "luteal = max (LutealMinDays p) (min (LutealMaxDays p) (current - off))"
  have "shortest p \<le> current" "current \<le> longest p" "LutealMinDays p \<le> luteal" "luteal \<le> LutealMaxDays p"
    "current - luteal - 5 \<le> off" "off \<le> current - luteal"
    using off(1,2) pos lut by (auto simp: current_def luteal_def)
  with ls s n show ?l
    unfolding fertile_day_def
    by (intro exI [of _ ls] exI [of _ current] exI [of _ luteal] exI [of _ "s + off"]) (auto simp: history_def)
qed

lemma fertile_day_range:
  assumes "cycle_parameters_ok p" and "a \<le> b"
  shows "fertile_day p a b k \<longleftrightarrow> fertile_lo p a \<le> k \<and> k \<le> fertile_hi p b"
  using lengths_positive [OF assms(1)] unfolding fertile_day_bounds [OF assms]
  by (auto simp: fertile_lo_def fertile_hi_def ceil_div_le_iff le_div_iff)

lemma fertile_cycles:
  assumes "assessBodyCycle p (Some (a, b)) = Inr e"
  shows "ce_fertile_possible e = (fertile_lo p a \<le> fertile_hi p b)"
    and "ce_fertile_cycles e = (if fertile_lo p a \<le> fertile_hi p b then Some (fertile_lo p a, fertile_hi p b) else None)"
  using assms
  by (auto simp: assessBodyCycle_def Let_def simp del: endpoint_phases.simps
      split: if_splits prod.splits)

end
