(* ===== verification/Body_Draw.thy ===== *)
theory Body_Draw
  imports Archive_Prelude
begin

text \<open>
  The stable random integers of the conception model (\<open>bodyPregnancyInteger\<close> of
  \<open>go-service/internal/httpapi/body_pregnancy_model.go\<close>): rejection sampling over 64-bit hashes. The hash
  of an attempt (SHA-256 of a JSON key) is a parameter, a function of the attempt.
\<close>

text \<open>The loop, which has no bound of its own; the result is the accepted value and its attempt.\<close>

partial_function (option) draw_from :: "(nat \<Rightarrow> uint64) \<Rightarrow> uint64 \<Rightarrow> nat \<Rightarrow> (uint64 \<times> nat) option" where
  "draw_from hash threshold attempt =
     (if threshold \<le> hash attempt then Some (hash attempt, attempt)
      else draw_from hash threshold (Suc attempt))"

definition draw_width :: "int \<Rightarrow> int \<Rightarrow> uint64" where
  "draw_width minimum maximum = word_of_int (int64 (maximum - minimum)) + 1"

definition draw_threshold :: "uint64 \<Rightarrow> uint64" where
  "draw_threshold width = (- width) mod width"

text \<open>
  \<open>Inl ()\<close> is the panic of a division by zero; the draw of the accepted attempt is returned by its number.
\<close>

definition bodyPregnancyInteger :: "(nat \<Rightarrow> uint64) \<Rightarrow> int \<Rightarrow> int \<Rightarrow> (unit + int \<times> nat) option" where
  "bodyPregnancyInteger hash minimum maximum =
     (let width = draw_width minimum maximum
      in if width = 0 then Some (Inl ())
         else map_option (\<lambda>(value, attempt). Inr (int64 (minimum + sint (value mod width)), attempt))
                (draw_from hash (draw_threshold width) 0))"

subsection \<open>When it returns\<close>

lemma draw_from_returns:
  assumes "threshold \<le> hash (a + n)" and "\<And>i. i < n \<Longrightarrow> \<not> threshold \<le> hash (a + i)"
  shows "draw_from hash threshold a = Some (hash (a + n), a + n)"
  using assms
proof (induction n arbitrary: a)
  case 0
  then show ?case by (simp add: draw_from.simps)
next
  case (Suc n)
  from Suc.prems(2) [of 0] have "\<not> threshold \<le> hash a" by simp
  moreover have "draw_from hash threshold (Suc a) = Some (hash (Suc a + n), Suc a + n)"
  proof (rule Suc.IH)
    show "threshold \<le> hash (Suc a + n)" using Suc.prems(1) by simp
    show "\<not> threshold \<le> hash (Suc a + i)" if "i < n" for i
      using Suc.prems(2) [of "Suc i"] that by simp
  qed
  ultimately show ?case by (subst draw_from.simps) simp
qed

lemma draw_from_result: "draw_from hash threshold a = Some r \<Longrightarrow> a \<le> snd r \<and> fst r = hash (snd r) \<and> threshold \<le> fst r"
proof -
  assume ret: "draw_from hash threshold a = Some r"
  show ?thesis
  proof (rule draw_from.raw_induct [where P = "\<lambda>hash threshold a r. a \<le> snd r \<and> fst r = hash (snd r) \<and> threshold \<le> fst r", OF _ ret])
    fix f :: "(nat \<Rightarrow> uint64) \<Rightarrow> uint64 \<Rightarrow> nat \<Rightarrow> (uint64 \<times> nat) option" and hash threshold a r
    assume IH: "\<And>hash threshold a r. f hash threshold a = Some r \<Longrightarrow> a \<le> snd r \<and> fst r = hash (snd r) \<and> threshold \<le> fst r"
      and eq: "(if threshold \<le> hash a then Some (hash a, a) else f hash threshold (Suc a)) = Some r"
    show "a \<le> snd r \<and> fst r = hash (snd r) \<and> threshold \<le> fst r"
    proof (cases "threshold \<le> hash a")
      case False
      with eq IH [of hash threshold "Suc a" r] show ?thesis by auto
    qed (use eq in auto)
  qed
qed

lemma draw_from_iff: "(\<exists>r. draw_from hash threshold 0 = Some r) \<longleftrightarrow> (\<exists>n. threshold \<le> hash n)"
proof
  assume "\<exists>r. draw_from hash threshold 0 = Some r"
  then show "\<exists>n. threshold \<le> hash n" using draw_from_result by metis
next
  assume ex: "\<exists>n. threshold \<le> hash n"
  define n where "n = (LEAST n. threshold \<le> hash n)"
  have "threshold \<le> hash (0 + n)" unfolding n_def add_0 by (rule LeastI_ex [OF ex])
  moreover have "\<not> threshold \<le> hash (0 + i)" if "i < n" for i
    using that unfolding n_def add_0 by (rule not_less_Least)
  ultimately have "threshold \<le> hash (0 + n)" "\<And>i. i < n \<Longrightarrow> \<not> threshold \<le> hash (0 + i)" by blast+
  from draw_from_returns [where hash = hash, OF this] show "\<exists>r. draw_from hash threshold 0 = Some r" by blast
qed

subsection \<open>Why it is unbiased\<close>

lemma one_residue:
  assumes "k < (w :: nat)"
  shows "card {n. M \<le> n \<and> n < M + w \<and> n mod w = k} = 1"
proof -
  define d where "d = (k + (w - M mod w)) mod w"
  have "d < w" using assms by (simp add: d_def)
  have res: "(M + d) mod w = k"
  proof -
    have "(M + d) mod w = (M mod w + (k + (w - M mod w))) mod w"
      unfolding d_def by (simp add: mod_add_left_eq mod_add_right_eq)
    also have "M mod w + (k + (w - M mod w)) = k + w" using less_imp_le [OF mod_less_divisor [of w M]] assms by linarith
    finally show ?thesis using assms by simp
  qed
  have "n = M + d" if "M \<le> n" "n < M + w" "n mod w = k" for n
  proof -
    have "n mod w = (M + d) mod w" using that(3) res by simp
    moreover have "n < M + d + w" "M + d < n + w" using that \<open>d < w\<close> by simp_all
    ultimately show ?thesis
      by (metis (no_types, lifting) mod_eq_dvd_iff_nat nat_le_linear dvd_imp_le diff_is_0_eq' le_antisym
          less_diff_conv2 linorder_not_le zero_less_diff add.commute le_add_diff_inverse2 nat_less_le)
  qed
  with res \<open>d < w\<close> have "{n. M \<le> n \<and> n < M + w \<and> n mod w = k} = {M + d}" by auto
  then show ?thesis by simp
qed

lemma residues:
  assumes "k < (w :: nat)"
  shows "card {n. M \<le> n \<and> n < M + w * q \<and> n mod w = k} = q"
proof (induction q)
  case (Suc q)
  let ?A = "{n. M \<le> n \<and> n < M + w * q \<and> n mod w = k}"
  let ?B = "{n. M + w * q \<le> n \<and> n < M + w * q + w \<and> n mod w = k}"
  have "{n. M \<le> n \<and> n < M + w * Suc q \<and> n mod w = k} = ?A \<union> ?B" by auto
  moreover have "finite ?A" by (rule finite_subset [of _ "{..<M + w * q}"]) auto
  moreover have "finite ?B" by (rule finite_subset [of _ "{..<M + w * q + w}"]) auto
  moreover have "?A \<inter> ?B = {}" by auto
  ultimately show ?case using Suc one_residue [OF assms, of "M + w * q"] by (simp add: card_Un_disjoint)
qed simp

lemma unat64: "unat (v :: uint64) < 2 ^ 64"
  using unsigned_less [where 'a = nat, of v] by simp

lemma unat_negated:
  assumes "v \<noteq> (0 :: uint64)"
  shows "unat (- v) = 2 ^ 64 - unat v"
proof -
  have "(unat (- v) + unat v) mod 2 ^ 64 = unat (- v + v)" by (simp only: unat_word_ariths) simp
  then have "(unat (- v) + unat v) mod 2 ^ 64 = 0" by simp
  moreover have "0 < unat (- v) + unat v" using assms by (simp add: unat_gt_0)
  moreover have "unat (- v) + unat v < 2 * 2 ^ 64" using unat64 [of v] unat64 [of "- v"] by linarith
  ultimately have "unat (- v) + unat v = 2 ^ 64" by (auto elim!: dvdE simp flip: dvd_eq_mod_eq_0)
  then show ?thesis by linarith
qed

lemma threshold_value:
  assumes "width \<noteq> 0"
  shows "unat (draw_threshold width) = 2 ^ 64 mod unat width"
proof -
  have pos: "0 < unat width" using assms by (simp add: unat_gt_0)
  have "unat (- width) = 2 ^ 64 - unat width"
    using assms by (rule unat_negated)
  then have "unat (draw_threshold width) = (2 ^ 64 - unat width) mod unat width"
    by (simp add: draw_threshold_def unat_mod)
  also have "\<dots> = 2 ^ 64 mod unat width"
    using unat64 [of width] by (simp add: mod_if [of "2 ^ 64"] le_mod_geq)
  finally show ?thesis .
qed

lemma accepted_values:
  assumes "k < width"
  shows "card {v :: uint64. draw_threshold width \<le> v \<and> v mod width = k} = 2 ^ 64 div unat width"
proof -
  let ?w = "unat width" and ?T = "2 ^ 64 mod unat width"
  have w0: "width \<noteq> 0" using assms by auto
  have total: "?T + ?w * (2 ^ 64 div ?w) = 2 ^ 64" by (simp add: mod_mult_div_eq)
  have img: "unat ` {v :: uint64. draw_threshold width \<le> v \<and> v mod width = k}
      = {n. ?T \<le> n \<and> n < ?T + ?w * (2 ^ 64 div ?w) \<and> n mod ?w = unat k}"
  proof (intro equalityI subsetI)
    fix n
    assume "n \<in> {n. ?T \<le> n \<and> n < ?T + ?w * (2 ^ 64 div ?w) \<and> n mod ?w = unat k}"
    then have n: "?T \<le> n" "n < 2 ^ 64" "n mod ?w = unat k" using total by auto
    then have un: "unat (of_nat n :: uint64) = n" by (simp add: unat_of_nat)
    then have "draw_threshold width \<le> (of_nat n :: uint64)" "of_nat n mod width = k"
      using n threshold_value [OF w0] by (simp_all add: word_le_nat_alt word_unat_eq_iff unat_mod)
    then show "n \<in> unat ` {v :: uint64. draw_threshold width \<le> v \<and> v mod width = k}"
      using un by (metis (mono_tags, lifting) imageI mem_Collect_eq)
  next
    fix n
    assume "n \<in> unat ` {v :: uint64. draw_threshold width \<le> v \<and> v mod width = k}"
    then obtain v :: uint64 where v: "n = unat v" "draw_threshold width \<le> v" "v mod width = k" by blast
    then show "n \<in> {n. ?T \<le> n \<and> n < ?T + ?w * (2 ^ 64 div ?w) \<and> n mod ?w = unat k}"
      using threshold_value [OF w0] unat64 [of v] unfolding total
      by (auto simp: word_le_nat_alt simp flip: unat_mod)
  qed
  have inj: "inj_on unat {v :: uint64. draw_threshold width \<le> v \<and> v mod width = k}"
    by (rule inj_onI) (simp add: word_unat_eq_iff)
  have "card {v :: uint64. draw_threshold width \<le> v \<and> v mod width = k}
      = card {n. ?T \<le> n \<and> n < ?T + ?w * (2 ^ 64 div ?w) \<and> n mod ?w = unat k}"
    unfolding img [symmetric] by (rule card_image [OF inj, symmetric])
  also have "\<dots> = 2 ^ 64 div ?w"
    using assms by (intro residues) (simp add: word_less_nat_alt)
  finally show ?thesis .
qed

text \<open>More than half of all values are accepted.\<close>

lemma threshold_small: "width \<noteq> 0 \<Longrightarrow> 2 * unat (draw_threshold width) < 2 ^ 64"
proof -
  assume w: "width \<noteq> 0"
  then have pos: "0 < unat width" and le: "unat width \<le> 2 ^ 64"
    using unat64 [of width] by (simp_all add: unat_gt_0)
  let ?T = "2 ^ 64 mod unat width"
  have "?T < unat width" using pos by simp
  moreover have "?T + unat width \<le> 2 ^ 64"
  proof -
    have "unat width * 1 \<le> unat width * (2 ^ 64 div unat width)"
      using pos le by (intro mult_le_mono2) (simp add: div_greater_zero_iff Suc_leI)
    then show ?thesis using mod_mult_div_eq [of "2 ^ 64" "unat width"] by linarith
  qed
  ultimately show ?thesis using threshold_value [OF w] by linarith
qed

lemma width_value:
  assumes "minimum \<le> maximum" and "maximum - minimum < 2 ^ 63"
  shows "uint (draw_width minimum maximum) = maximum - minimum + 1"
proof -
  have small: "int64 (maximum - minimum) = maximum - minimum" using assms by (simp add: int64_small)
  have "draw_width minimum maximum = word_of_int (maximum - minimum + 1)"
    unfolding draw_width_def small by simp
  moreover have "uint (word_of_int (maximum - minimum + 1) :: uint64) = (maximum - minimum + 1) mod 2 ^ 64"
    by (subst uint_word_of_int) simp
  ultimately show ?thesis using assms by simp
qed

lemma draw_range:
  assumes "minimum \<le> maximum" and "- (2 ^ 63) \<le> minimum" and "maximum < 2 ^ 63" and "maximum - minimum < 2 ^ 63"
  defines "w \<equiv> draw_width minimum maximum"
  shows "int64 (minimum + sint (v mod w)) = minimum + uint v mod (maximum - minimum + 1)"
proof -
  have "uint (v mod w) = uint v mod (maximum - minimum + 1)"
    using width_value [OF assms(1,4)] by (simp add: w_def uint_mod)
  moreover have "uint v mod (maximum - minimum + 1) < maximum - minimum + 1" "0 \<le> uint v mod (maximum - minimum + 1)"
    using assms(1) pos_mod_bound [of "maximum - minimum + 1" "uint v"] by simp_all
  moreover from calculation have "sint (v mod w) = uint (v mod w)"
    using assms(4) by (simp add: sint_uint signed_take_bit_int_eq_self)
  ultimately show ?thesis using assms(2,3) by (simp add: int64_small)
qed

lemma draw_width_nonzero:
  assumes "minimum \<le> maximum" and "maximum - minimum < 2 ^ 63"
  shows "draw_width minimum maximum \<noteq> 0"
  using width_value [OF assms] assms(1) by auto

lemma drawn_value:
  assumes "minimum \<le> maximum" and "- (2 ^ 63) \<le> minimum" and "maximum < 2 ^ 63" and "maximum - minimum < 2 ^ 63"
    and "bodyPregnancyInteger hash minimum maximum = Some r"
  shows "\<exists>n value. r = Inr (value, n) \<and> minimum \<le> value \<and> value \<le> maximum
    \<and> draw_threshold (draw_width minimum maximum) \<le> hash n
    \<and> value = minimum + uint (hash n) mod (maximum - minimum + 1)"
proof -
  let ?w = "draw_width minimum maximum"
  from assms(5) draw_width_nonzero [OF assms(1,4)] obtain v n
    where d: "draw_from hash (draw_threshold ?w) 0 = Some (v, n)" "r = Inr (int64 (minimum + sint (v mod ?w)), n)"
    by (auto simp: bodyPregnancyInteger_def Let_def)
  from draw_from_result [OF d(1)] have "v = hash n" "draw_threshold ?w \<le> hash n" by auto
  moreover have "0 \<le> uint v mod (maximum - minimum + 1)" "uint v mod (maximum - minimum + 1) < maximum - minimum + 1"
    using assms(1) pos_mod_bound [of "maximum - minimum + 1" "uint v"] by simp_all
  ultimately show ?thesis using d(2) draw_range [OF assms(1-4), of v] by auto
qed

lemma drawn_evenly:
  assumes "minimum \<le> maximum" and "maximum - minimum < 2 ^ 63" and "minimum \<le> value" and "value \<le> maximum"
  shows "card {v. draw_threshold (draw_width minimum maximum) \<le> v \<and> minimum + uint v mod (maximum - minimum + 1) = value}
    = 2 ^ 64 div nat (maximum - minimum + 1)"
proof -
  let ?w = "draw_width minimum maximum" and ?k = "word_of_int (value - minimum) :: uint64"
  have uw: "uint ?w = maximum - minimum + 1" using assms(1,2) by (rule width_value)
  have uk: "uint ?k = value - minimum" using assms by (subst uint_word_of_int) simp
  have "?k < ?w" using uw uk assms by (simp add: word_less_def)
  moreover have "minimum + uint v mod (maximum - minimum + 1) = value \<longleftrightarrow> v mod ?w = ?k" for v :: uint64
    using uw uk by (auto simp: word_uint_eq_iff uint_mod)
  moreover have "unat ?w = nat (maximum - minimum + 1)" using uw by (simp add: unat_eq_nat_uint)
  ultimately show ?thesis using accepted_values [of ?k ?w] by simp
qed

end
