(* ===== verification/Canon_Versions.thy ===== *)
theory Canon_Versions
  imports Package_Paths Dynamic_Values
begin

text \<open>
  The names and versions of canon packs (\<open>go-service/internal/canonpack/preview.go\<close>): the four regular
  expressions of the validator, and the comparison of semantic versions. Each expression is written out as
  the test it stands for; it reads its text from left to right without ambiguity. Strings are ordered byte by
  byte, as \<open><\<close> does in Go.
\<close>

subsection \<open>Regular expressions\<close>

definition is_lower :: "char \<Rightarrow> bool" where
  "is_lower c \<longleftrightarrow> 97 \<le> byte_at c \<and> byte_at c \<le> 122"

definition is_alnum :: "char \<Rightarrow> bool" where
  "is_alnum c \<longleftrightarrow> is_digit c \<or> is_lower c \<or> 65 \<le> byte_at c \<and> byte_at c \<le> 90"

text \<open>\<open>[a-z0-9._-]\<close> and \<open>[0-9A-Za-z.-]\<close>.\<close>

definition local_char :: "char \<Rightarrow> bool" where
  "local_char c \<longleftrightarrow> is_lower c \<or> is_digit c \<or> c = CHR ''.'' \<or> c = CHR ''_'' \<or> c = CHR ''-''"

definition version_char :: "char \<Rightarrow> bool" where
  "version_char c \<longleftrightarrow> is_alnum c \<or> c = CHR ''.'' \<or> c = CHR ''-''"

definition localIDRE :: "string \<Rightarrow> bool" where
  "localIDRE v \<longleftrightarrow> (case v of [] \<Rightarrow> False | c # cs \<Rightarrow> is_lower c \<and> list_all local_char cs)"

definition identifierRE :: "string \<Rightarrow> bool" where
  "identifierRE v \<longleftrightarrow>
     (let space = before_char (CHR '':'') v
      in localIDRE space
         \<and> (case drop (length space) v of
              colon # c # cs \<Rightarrow> is_alnum c
                \<and> list_all (\<lambda>c. is_alnum c \<or> c = CHR ''.'' \<or> c = CHR ''_'' \<or> c = CHR '':'' \<or> c = CHR ''-'') cs
            | _ \<Rightarrow> False))"

definition shaRE :: "string \<Rightarrow> bool" where
  "shaRE v \<longleftrightarrow> length v = 64 \<and> list_all (\<lambda>c. is_digit c \<or> 97 \<le> byte_at c \<and> byte_at c \<le> 102) v"

text \<open>\<open>0|[1-9][0-9]*\<close>.\<close>

definition plain_number :: "string \<Rightarrow> bool" where
  "plain_number v \<longleftrightarrow> v \<noteq> [] \<and> list_all is_digit v \<and> (v = ''0'' \<or> hd v \<noteq> CHR ''0'')"

definition after_char :: "char \<Rightarrow> string \<Rightarrow> string option" where
  "after_char c s = (case dropWhile (\<lambda>x. x \<noteq> c) s of [] \<Rightarrow> None | _ # t \<Rightarrow> Some t)"

definition version_suffix :: "string option \<Rightarrow> bool" where
  "version_suffix v \<longleftrightarrow> (case v of None \<Rightarrow> True | Some t \<Rightarrow> t \<noteq> [] \<and> list_all version_char t)"

definition semverRE :: "string \<Rightarrow> bool" where
  "semverRE v \<longleftrightarrow>
     (let main = before_char (CHR ''+'') v
      in version_suffix (after_char (CHR ''+'') v) \<and> version_suffix (after_char (CHR ''-'') main)
         \<and> (case split_dots (before_char (CHR ''-'') main) of
              [a, b, c] \<Rightarrow> plain_number a \<and> plain_number b \<and> plain_number c
            | _ \<Rightarrow> False))"

subsection \<open>Semantic versions\<close>

text \<open>
  \<open>fmt.Sscanf(core, "%d.%d.%d", ...)\<close>: it skips space before a number, reads an optional sign and digits,
  and stops at the first error, which leaves the remaining numbers 0. A line break before a number is an error.
\<close>

definition scan_number :: "string \<Rightarrow> (int \<times> string) option" where
  "scan_number s =
     (let t = trim_left (filter (\<lambda>e. e \<noteq> [CHR 0x0A]) space_encodings) s;
          u = (if is_prefix ''+'' t \<or> is_prefix ''-'' t then tl t else t);
          tok = take (length t - length u) t @ takeWhile is_digit u
      in case Atoi tok of None \<Rightarrow> None | Some n \<Rightarrow> Some (n, dropWhile is_digit u))"

fun scan_numbers :: "nat \<Rightarrow> string \<Rightarrow> int list" where
  "scan_numbers 0 s = []"
| "scan_numbers (Suc n) s =
     (case scan_number s of
        None \<Rightarrow> []
      | Some (i, t) \<Rightarrow> i # (if is_prefix ''.'' t then scan_numbers n (tl t) else []))"

definition semverParts :: "string \<Rightarrow> (int \<times> int \<times> int) \<times> string" where
  "semverParts v =
     (let core = before_char (CHR ''+'') v;
          (core, pre) = (case after_char (CHR ''-'') core of
                           None \<Rightarrow> (core, []) | Some p \<Rightarrow> (before_char (CHR ''-'') core, p));
          out = scan_numbers 3 core;
          number = (\<lambda>i. if i < length out then out ! i else 0)
      in ((number 0, number 1, number 2), pre))"

text \<open>The value of digits in \<open>int64\<close>, which wraps around.\<close>

definition numericIdentifier :: "string \<Rightarrow> int \<times> bool" where
  "numericIdentifier v =
     (if v = [] \<or> 1 < length v \<and> hd v = CHR ''0'' then (0, False)
      else if \<not> list_all is_digit v then (0, False)
      else (foldl (\<lambda>n c. int64 (n * 10 + digit_value c)) 0 v, True))"

fun compare_identifiers :: "string list \<Rightarrow> string list \<Rightarrow> int" where
  "compare_identifiers [] [] = 0"
| "compare_identifiers [] (r # rs) = -1"
| "compare_identifiers (l # ls) [] = 1"
| "compare_identifiers (l # ls) (r # rs) =
     (case (numericIdentifier l, numericIdentifier r) of
        ((ln, lok), (rn, rok)) \<Rightarrow>
          (if lok \<and> rok \<and> ln \<noteq> rn then (if ln < rn then -1 else 1)
           else if lok \<noteq> rok then (if lok then -1 else 1)
           else if l < r then -1
           else if r < l then 1
           else compare_identifiers ls rs))"

definition comparePrerelease :: "string \<Rightarrow> string \<Rightarrow> int" where
  "comparePrerelease a b = (if a = b then 0 else compare_identifiers (split_dots a) (split_dots b))"

definition compareSemver :: "string \<Rightarrow> string \<Rightarrow> int" where
  "compareSemver a b =
     (case (semverParts a, semverParts b) of
        (((x, y, z), apre), ((u, v, w), bpre)) \<Rightarrow>
          (if x < u then -1 else if x > u then 1
           else if y < v then -1 else if y > v then 1
           else if z < w then -1 else if z > w then 1
           else if apre = [] \<and> bpre \<noteq> [] then 1
           else if apre \<noteq> [] \<and> bpre = [] then -1
           else comparePrerelease apre bpre))"

subsection \<open>The order\<close>

text \<open>
  The reference: the precedence of Semantic Versioning, as the order of keys. A numeric identifier counts by
  its value and comes before any other; a release comes after its pre-releases. The numbers of a key do not wrap.
\<close>

definition identifier_key :: "string \<Rightarrow> bool \<times> int \<times> string" where
  "identifier_key v =
     (if plain_number v then (False, digits_value v, []) else (True, 0, v))"

definition semver_key :: "string \<Rightarrow> (int \<times> int \<times> int) \<times> bool \<times> (bool \<times> int \<times> string) list" where
  "semver_key v =
     (let main = before_char (CHR ''+'') v; nums = map digits_value (split_dots (before_char (CHR ''-'') main))
      in ((nums ! 0, nums ! 1, nums ! 2),
          (case after_char (CHR ''-'') main of
             None \<Rightarrow> (True, []) | Some p \<Rightarrow> (False, map identifier_key (split_dots p)))))"

text \<open>All numbers of a version fit into 63 bits.\<close>

definition numbers_fit :: "string \<Rightarrow> bool" where
  "numbers_fit v \<longleftrightarrow>
     (let main = before_char (CHR ''+'') v
      in list_all (\<lambda>s. digits_value s < 2 ^ 63) (split_dots (before_char (CHR ''-'') main))
         \<and> (case after_char (CHR ''-'') main of None \<Rightarrow> True
            | Some p \<Rightarrow> list_all (\<lambda>s. plain_number s \<longrightarrow> digits_value s < 2 ^ 63) (split_dots p)))"

subsection \<open>Numbers\<close>

lemma digits_value_snoc: "digits_value (s @ [c]) = digits_value s * 10 + digit_value c"
  by (simp add: digits_value_def)

lemma digit_value_range: "is_digit c \<Longrightarrow> 0 \<le> digit_value c \<and> digit_value c \<le> 9"
  by (simp add: is_digit_def digit_value_def byte_at_def)

lemma digit_value_inj: "is_digit c \<Longrightarrow> is_digit d \<Longrightarrow> digit_value c = digit_value d \<Longrightarrow> c = d"
  by (simp add: digit_value_def)

lemma digits_value_nonneg: "list_all is_digit s \<Longrightarrow> 0 \<le> digits_value s"
proof (induction s rule: rev_induct)
  case (snoc c s)
  then show ?case using digit_value_range [of c] by (simp add: digits_value_snoc)
qed (simp add: digits_value_def)

text \<open>A number without leading zeros is positive if it is longer than one digit, and has one text only.\<close>

lemma leading_digit_positive:
  "list_all is_digit s \<Longrightarrow> s \<noteq> [] \<Longrightarrow> hd s \<noteq> CHR ''0'' \<Longrightarrow> 0 < digits_value s"
proof (induction s rule: rev_induct)
  case (snoc c s)
  show ?case
  proof (cases "s = []")
    case True
    with snoc.prems have "digit_value c \<noteq> digit_value CHR ''0''" using digit_value_inj [of c "CHR ''0''"]
      by (auto simp: is_digit_def byte_at_def)
    then show ?thesis using True snoc.prems digit_value_range [of c]
      by (simp add: digits_value_def) (simp add: digit_value_def)
  next
    case False
    with snoc have "0 < digits_value s" by simp
    then show ?thesis using snoc.prems digit_value_range [of c] by (simp add: digits_value_snoc)
  qed
qed simp

lemma positive_digits_inj:
  assumes "list_all is_digit s" and "list_all is_digit t" and "s = [] \<or> hd s \<noteq> CHR ''0''" and "t = [] \<or> hd t \<noteq> CHR ''0''"
    and "digits_value s = digits_value t"
  shows "s = t"
  using assms
proof (induction s arbitrary: t rule: rev_induct)
  case Nil
  then show ?case using leading_digit_positive [of t] by (auto simp: digits_value_def)
next
  case (snoc c s)
  have "0 < digits_value (s @ [c])" using snoc.prems by (intro leading_digit_positive) auto
  with snoc.prems(5) have "t \<noteq> []" by (auto simp: digits_value_def)
  then obtain u d where t: "t = u @ [d]" by (cases t rule: rev_cases) auto
  with snoc.prems have eq: "digits_value s * 10 + digit_value c = digits_value u * 10 + digit_value d"
    by (simp add: digits_value_snoc)
  have "0 \<le> digit_value c \<and> digit_value c \<le> 9" "0 \<le> digit_value d \<and> digit_value d \<le> 9"
    using snoc.prems t digit_value_range [of c] digit_value_range [of d] by simp_all
  with eq have "digits_value s = digits_value u" by presburger
  with eq have "digit_value c = digit_value d" by linarith
  have "s = [] \<or> hd s \<noteq> CHR ''0''" "u = [] \<or> hd u \<noteq> CHR ''0''" using snoc.prems(3,4) t by (cases s; cases u; auto)+
  with \<open>digits_value s = digits_value u\<close> have "s = u" using snoc.IH [of u] snoc.prems(1,2) t by auto
  moreover have "c = d" using snoc.prems(1,2) t \<open>digit_value c = digit_value d\<close> by (auto intro: digit_value_inj)
  ultimately show ?case using t by simp
qed

lemma plain_number_inj:
  assumes "plain_number s" and "plain_number t" and "digits_value s = digits_value t"
  shows "s = t"
proof -
  have zero: "digits_value ''0'' = 0" by (simp add: digits_value_def digit_value_def)
  show ?thesis
  proof (cases "s = ''0'' \<or> t = ''0''")
    case True
    then show ?thesis
      using assms zero leading_digit_positive [of s] leading_digit_positive [of t] by (auto simp: plain_number_def)
  next
    case False
    then show ?thesis using assms positive_digits_inj [of s t] by (auto simp: plain_number_def)
  qed
qed

lemma wrapping_digits:
  assumes "list_all is_digit s" and "digits_value s < 2 ^ 63"
  shows "foldl (\<lambda>n c. int64 (n * 10 + digit_value c)) 0 s = digits_value s"
  using assms
proof (induction s rule: rev_induct)
  case (snoc c s)
  have "0 \<le> digits_value s" "0 \<le> digit_value c" using snoc.prems(1) by (auto intro: digits_value_nonneg simp: digit_value_range)
  moreover from snoc.prems(2) have "digits_value s * 10 + digit_value c < 2 ^ 63" by (simp add: digits_value_snoc)
  ultimately have "digits_value s < 2 ^ 63" "int64 (digits_value s * 10 + digit_value c) = digits_value s * 10 + digit_value c"
    by (auto intro!: int64_small)
  then show ?case using snoc by (simp add: digits_value_snoc)
qed (simp add: digits_value_def)

lemma numeric_identifiers:
  "snd (numericIdentifier v) = plain_number v"
  "plain_number v \<Longrightarrow> digits_value v < 2 ^ 63 \<Longrightarrow> numericIdentifier v = (digits_value v, True)"
proof -
  show "snd (numericIdentifier v) = plain_number v"
    by (cases v; cases "tl v") (auto simp: numericIdentifier_def plain_number_def)
  show "numericIdentifier v = (digits_value v, True)" if "plain_number v" "digits_value v < 2 ^ 63"
  proof -
    have "\<not> (v = [] \<or> 1 < length v \<and> hd v = CHR ''0'')" using that(1) by (auto simp: plain_number_def)
    with that show ?thesis
      using wrapping_digits [of v] by (simp add: numericIdentifier_def plain_number_def)
  qed
qed

subsection \<open>The comparison computes the order\<close>

definition sign_of :: "'a::linorder \<Rightarrow> 'a \<Rightarrow> int" where
  "sign_of x y = (if x = y then 0 else if x < y then -1 else 1)"

lemma sign_of_Pair:
  "sign_of (a, b) (c, d) = (if a < c then -1 else if c < a then 1 else sign_of b d)"
  by (auto simp: sign_of_def less_prod_def')

lemma sign_of_Cons:
  "sign_of (x # xs) (y # ys) = (if x < y then -1 else if y < x then 1 else sign_of xs ys)"
  by (auto simp: sign_of_def)

lemma sign_of_Nil: "sign_of [] [] = 0" "sign_of [] (y # ys) = -1" "sign_of (x # xs) [] = 1"
  by (simp_all add: sign_of_def)

definition fits :: "string \<Rightarrow> bool" where
  "fits s \<longleftrightarrow> (plain_number s \<longrightarrow> digits_value s < 2 ^ 63)"

lemma identifier_order:
  assumes "fits l" and "fits r"
  shows "compare_identifiers (l # ls) (r # rs) =
    (if identifier_key l < identifier_key r then -1 else if identifier_key r < identifier_key l then 1
     else compare_identifiers ls rs)"
proof (cases "plain_number l \<and> plain_number r")
  case True
  with assms have "numericIdentifier l = (digits_value l, True)" "numericIdentifier r = (digits_value r, True)"
    by (simp_all add: fits_def numeric_identifiers)
  with True show ?thesis
    using plain_number_inj [of l r] by (auto simp: identifier_key_def less_prod_def')
next
  case False
  obtain ln lok rn rok where n: "numericIdentifier l = (ln, lok)" "numericIdentifier r = (rn, rok)"
    by (metis surj_pair)
  with numeric_identifiers(1) [of l] numeric_identifiers(1) [of r]
  have "lok = plain_number l" "rok = plain_number r" by simp_all
  with False n show ?thesis by (auto simp: identifier_key_def less_prod_def')
qed

lemma identifiers_order:
  "list_all fits ls \<Longrightarrow> list_all fits rs \<Longrightarrow>
   compare_identifiers ls rs = sign_of (map identifier_key ls) (map identifier_key rs)"
  by (induction ls rs rule: list_induct2')
    (simp_all add: sign_of_Nil sign_of_Cons identifier_order del: compare_identifiers.simps(4))

lemma identifier_key_inj: "identifier_key l = identifier_key r \<Longrightarrow> l = r"
  by (auto simp: identifier_key_def plain_number_inj split: if_splits)

subsection \<open>Reading the numbers of a valid version\<close>

lemma digit_no_space:
  assumes "is_digit c"
  shows "trim_left (filter P space_encodings) (c # cs) = c # cs"
proof -
  have "\<forall>p \<in> set space_encodings. p \<noteq> [] \<and> \<not> is_digit (hd p)"
    by (simp add: space_encodings_def is_digit_def byte_at_def)
  then have "\<forall>p \<in> set (filter P space_encodings). \<not> is_prefix p (c # cs)"
    using assms by (auto simp: is_prefix_def neq_Nil_conv)
  then show ?thesis unfolding trim_left_def by (intro trim_left_fuel_keeps) (simp add: drop_space_None)
qed

lemma digit_no_sign: "is_digit c \<Longrightarrow> \<not> is_prefix ''+'' (c # cs) \<and> \<not> is_prefix ''-'' (c # cs)"
  by (auto simp: is_prefix_def is_digit_def byte_at_def)

lemma Atoi_digits:
  assumes "list_all is_digit a" and "a \<noteq> []" and "digits_value a < 2 ^ 63"
  shows "Atoi a = Some (digits_value a)"
proof -
  obtain c cs where a: "a = c # cs" using assms(2) by (cases a) auto
  then have "\<not> is_prefix ''+'' a" "\<not> is_prefix ''-'' a" using assms(1) digit_no_sign [of c cs] by auto
  with assms digits_value_nonneg [of a] show ?thesis by (simp add: Atoi_def)
qed

lemma scan_plain_number:
  assumes "plain_number a" and "digits_value a < 2 ^ 63" and "rest = [] \<or> hd rest = CHR ''.''"
  shows "scan_number (a @ rest) = Some (digits_value a, rest)"
proof -
  have dig: "list_all is_digit a" "a \<noteq> []" using assms(1) by (simp_all add: plain_number_def)
  obtain c cs where a: "a = c # cs" using dig(2) by (cases a) auto
  have "\<not> is_digit CHR ''.''" by (simp add: is_digit_def byte_at_def)
  then have "takeWhile is_digit rest = []" "dropWhile is_digit rest = rest" using assms(3) by (cases rest; auto)+
  moreover have "takeWhile is_digit (a @ rest) = a @ takeWhile is_digit rest" "dropWhile is_digit (a @ rest) = dropWhile is_digit rest"
    using dig(1) by (auto simp: list_all_iff takeWhile_append2 dropWhile_append2)
  ultimately have "takeWhile is_digit (a @ rest) = a" "dropWhile is_digit (a @ rest) = rest" by simp_all
  moreover have "trim_left (filter (\<lambda>e. e \<noteq> [CHR 0x0A]) space_encodings) (a @ rest) = a @ rest"
    using dig(1) a digit_no_space [of c _ "cs @ rest"] by simp
  moreover have "\<not> is_prefix ''+'' (a @ rest)" "\<not> is_prefix ''-'' (a @ rest)"
    using dig(1) a digit_no_sign [of c "cs @ rest"] by auto
  ultimately show ?thesis using Atoi_digits [OF dig assms(2)] by (simp add: scan_number_def Let_def)
qed

lemma split_dots_nonempty [simp]: "split_dots s \<noteq> []"
  by (induction s) (auto split: list.splits)

lemma split_dots_single: "split_dots s = [a] \<Longrightarrow> s = a"
  by (induction s arbitrary: a) (auto split: if_splits list.splits)

lemma split_dots_Cons: "split_dots s = a # b # bs \<Longrightarrow> \<exists>t. s = a @ CHR ''.'' # t \<and> split_dots t = b # bs"
proof (induction s arbitrary: a)
  case (Cons c s)
  show ?case
  proof (cases "c = CHR ''.''")
    case False
    with Cons.prems obtain a' where "a = c # a'" "split_dots s = a' # b # bs"
      by (auto split: list.splits)
    with Cons.IH show ?thesis by auto
  qed (use Cons.prems in simp)
qed simp

lemma scan_core:
  assumes "split_dots core = [a, b, c]" and "plain_number a \<and> plain_number b \<and> plain_number c"
    and "list_all (\<lambda>s. digits_value s < 2 ^ 63) [a, b, c]"
  shows "scan_numbers 3 core = [digits_value a, digits_value b, digits_value c]"
proof -
  from split_dots_Cons [OF assms(1)] obtain t where t: "core = a @ CHR ''.'' # t" "split_dots t = [b, c]" by blast
  from split_dots_Cons [OF t(2)] obtain u where u: "t = b @ CHR ''.'' # u" "split_dots u = [c]" by blast
  have "u = c" using u(2) by (rule split_dots_single)
  then show ?thesis
    using assms(2,3) t(1) u(1) scan_plain_number [of a "CHR ''.'' # t"] scan_plain_number [of b "CHR ''.'' # u"]
      scan_plain_number [of c "[]"]
    by (simp add: numeral_eq_Suc is_prefix_def)
qed

lemma semver_reading:
  assumes "semverRE v" and "numbers_fit v"
  obtains nums pre where "semverParts v = (nums, pre)" "list_all fits (split_dots pre)"
    "semver_key v = (nums, pre = [], if pre = [] then [] else map identifier_key (split_dots pre))"
proof -
  define main where "main = before_char (CHR ''+'') v"
  from assms(1) obtain a b c where core: "split_dots (before_char (CHR ''-'') main) = [a, b, c]"
      "plain_number a \<and> plain_number b \<and> plain_number c" and suffix: "version_suffix (after_char (CHR ''-'') main)"
    by (auto simp: semverRE_def Let_def main_def split: list.splits)
  have fit: "list_all (\<lambda>s. digits_value s < 2 ^ 63) [a, b, c]"
    "\<And>p. after_char (CHR ''-'') main = Some p \<Longrightarrow> list_all fits (split_dots p)"
    using assms(2) core(1) by (simp_all add: numbers_fit_def main_def [symmetric] fits_def [abs_def])
  note scan = scan_core [OF core fit(1)]
  show thesis
  proof (cases "after_char (CHR ''-'') main")
    case None
    then have "before_char (CHR ''-'') main = main"
      by (auto simp: after_char_def before_char_def takeWhile_eq_all_conv dropWhile_eq_Nil_conv split: list.splits)
    with None scan core show thesis
      by (intro that [of "(digits_value a, digits_value b, digits_value c)" "[]"])
        (simp_all add: semverParts_def semver_key_def main_def [symmetric] fits_def plain_number_def)
  next
    case (Some p)
    with suffix have "p \<noteq> []" by (simp add: version_suffix_def)
    with Some scan core fit(2) show thesis
      by (intro that [of "(digits_value a, digits_value b, digits_value c)" p])
        (simp_all add: semverParts_def semver_key_def main_def [symmetric])
  qed
qed

lemma split_dots_inj: "split_dots s = split_dots t \<Longrightarrow> s = t"
proof (induction s arbitrary: t)
  case Nil
  then show ?case
    by (cases t) (auto split: if_splits list.splits dest: split_dots_nonempty [THEN notE, OF sym])
next
  case (Cons c s)
  from Cons.prems obtain d u where t: "t = d # u" by (cases t) (auto split: if_splits list.splits)
  show ?case
    using Cons t by (cases "split_dots s"; cases "split_dots u") (auto split: if_splits)
qed

lemma semver_order:
  assumes "semverRE a" and "numbers_fit a" and "semverRE b" and "numbers_fit b"
  shows "compareSemver a b = sign_of (semver_key a) (semver_key b)"
proof -
  from semver_reading [OF assms(1,2)] obtain na pa where a: "semverParts a = (na, pa)" "list_all fits (split_dots pa)"
    "semver_key a = (na, pa = [], if pa = [] then [] else map identifier_key (split_dots pa))" .
  from semver_reading [OF assms(3,4)] obtain nb pb where b: "semverParts b = (nb, pb)" "list_all fits (split_dots pb)"
    "semver_key b = (nb, pb = [], if pb = [] then [] else map identifier_key (split_dots pb))" .
  have pre: "comparePrerelease pa pb = sign_of (map identifier_key (split_dots pa)) (map identifier_key (split_dots pb))"
    using identifiers_order [OF a(2) b(2)] by (simp add: comparePrerelease_def sign_of_def)
  obtain x y z u v w where n: "na = (x, y, z)" "nb = (u, v, w)" by (metis surj_pair)
  show ?thesis
    unfolding a(3) b(3) n sign_of_Pair
    using pre by (auto simp: compareSemver_def a(1) b(1) n sign_of_Pair comparePrerelease_def)
      (auto simp: sign_of_def)
qed

end
