(* ===== verification/Canon_Pack.thy ===== *)
theory Canon_Pack
  imports Canon_Versions
begin

unbundle bit_operations_syntax

text \<open>
  The validator of canon packs (\<open>go-service/internal/canonpack/preview.go\<close>): a ZIP archive with a manifest
  and at most three other files. The collector of diagnostics is the list of those a check adds, in order.

  What the standard library makes of bytes is the record \<open>pack_lib\<close>: the members of a ZIP archive, the tokens
  of a JSON text, whether a text is an RFC 3339 time, the parts of a URL, the SHA-256 of bytes in hexadecimal,
  and the quoted form of a string. The decoded manifest is built from the tokens.
\<close>

subsection \<open>What the library provides\<close>

text \<open>
  A member of an archive; the content is \<open>None\<close> if it cannot be opened or read to its end (a checksum error).
\<close>

record zip_file =
  zf_Name :: string
  zf_IsDir :: bool
  zf_IsRegular :: bool
  zf_Perm :: "32 word"
  zf_UncompressedSize64 :: uint64
  zf_CompressedSize64 :: uint64
  zf_content :: "string option"

text \<open>
  The tokens of a \<open>json.Decoder\<close>; a stream ends with the text of the error that \<open>Token\<close> then returns,
  \<open>None\<close> for \<open>io.EOF\<close>.
\<close>

datatype json_token = Open_object | Close_object | Open_array | Close_array | Text_token string | Plain_token any

type_synonym token_stream = "json_token list \<times> string option"

record url_parts =
  url_Scheme :: string
  url_HasUser :: bool
  url_QueryNames :: "string list"

record pack_lib =
  pl_zip :: "string \<Rightarrow> zip_file list option"
  pl_tokens :: "string \<Rightarrow> token_stream"
  pl_rfc3339 :: "string \<Rightarrow> bool"
  pl_url :: "string \<Rightarrow> url_parts option"
  pl_sha256 :: "string \<Rightarrow> string"
  pl_quote :: "string \<Rightarrow> string"

subsection \<open>Reports\<close>

definition pack_ManifestName :: string where
  "pack_ManifestName = ''canon-pack-manifest.json''"

definition MaxArchiveBytes :: int where "MaxArchiveBytes = 16 * 2 ^ 20"
definition maxManifestBytes :: int where "maxManifestBytes = 4 * 2 ^ 20"
definition maxExpandedBytes :: int where "maxExpandedBytes = 8 * 2 ^ 20"
definition maxMembers :: nat where "maxMembers = 16"
definition maxCompressionRatio :: uint64 where "maxCompressionRatio = 100"

record Diagnostic =
  dg_Code :: string
  dg_Path :: string
  dg_Message :: string

record pack_summary =
  ps_PackID :: string
  ps_PackVersion :: string
  ps_StableWorkID :: string
  ps_EditionID :: string
  ps_ReviewStatus :: string
  ps_TrustStatus :: string
  ps_SourceCount :: nat
  ps_RecordCounts :: "(string \<times> nat) list"
  ps_ConflictCount :: nat
  ps_UncertaintyCount :: nat
  ps_AncillaryFiles :: nat
  ps_ExpandedBytes :: int

definition empty_summary :: pack_summary where
  "empty_summary =
     \<lparr>ps_PackID = [], ps_PackVersion = [], ps_StableWorkID = [], ps_EditionID = [], ps_ReviewStatus = [],
      ps_TrustStatus = [], ps_SourceCount = 0, ps_RecordCounts = [], ps_ConflictCount = 0,
      ps_UncertaintyCount = 0, ps_AncillaryFiles = 0, ps_ExpandedBytes = 0\<rparr>"

record pack_report =
  pr_Contract :: string
  pr_ValidationProfile :: string
  pr_Valid :: bool
  pr_Diagnostics :: "Diagnostic list"
  pr_Summary :: pack_summary

definition diag :: "string \<Rightarrow> string \<Rightarrow> string \<Rightarrow> Diagnostic list" where
  "diag code p message = [\<lparr>dg_Code = ''canon_pack_'' @ code, dg_Path = p, dg_Message = message\<rparr>]"

definition diag_if :: "bool \<Rightarrow> string \<Rightarrow> string \<Rightarrow> string \<Rightarrow> Diagnostic list" where
  "diag_if b code p message = (if b then diag code p message else [])"

text \<open>\<open>sort.SliceStable\<close> by path, then by code.\<close>

definition diag_less :: "Diagnostic \<Rightarrow> Diagnostic \<Rightarrow> bool" where
  "diag_less d e =
     (if dg_Path d = dg_Path e then dg_Code d < dg_Code e else dg_Path d < dg_Path e)"

fun place_diag :: "Diagnostic \<Rightarrow> Diagnostic list \<Rightarrow> Diagnostic list" where
  "place_diag d [] = [d]"
| "place_diag d (e # es) = (if diag_less e d then e # place_diag d es else d # e # es)"

definition finish_report :: "pack_summary \<Rightarrow> Diagnostic list \<Rightarrow> pack_report" where
  "finish_report s ds =
     \<lparr>pr_Contract = ''canon-pack-preview.v1'', pr_ValidationProfile = ''canon-pack-manifest.v1-install-preview-subset'',
      pr_Valid = (ds = []), pr_Diagnostics = foldr place_diag ds [], pr_Summary = s\<rparr>"

subsection \<open>Members of the archive\<close>

text \<open>\<open>path.Clean(name) = name\<close>, for a name that is not empty and not rooted.\<close>

definition clean_relative :: "string \<Rightarrow> bool" where
  "clean_relative name \<longleftrightarrow>
     name = ''.'' \<or> list_all (\<lambda>part. part \<notin> {[], ''.'', ''..''}) (dropWhile (\<lambda>part. part = ''..'') (split_slash name))"

definition safeMemberName :: "string \<Rightarrow> string option" where
  "safeMemberName name =
     (if name = [] \<or> List.member name (CHR 0x00) \<or> List.member name (CHR 0x5C) \<or> is_prefix ''/'' name then None
      else if 2 \<le> length name \<and> name ! 1 = CHR '':'' then None
      else if \<not> clean_relative name \<or> is_prefix ''../'' name \<or> name = ''..'' \<or> contains name ''//'' then None
      else Some name)"

definition readMember :: "zip_file \<Rightarrow> int \<Rightarrow> string option" where
  "readMember f limit =
     (case zf_content f of
        None \<Rightarrow> None
      | Some b \<Rightarrow> (if int (length b) > limit \<or> int (length b) \<noteq> uint (zf_UncompressedSize64 f) then None else Some b))"

record member_scan =
  ms_seen :: "string list"
  ms_manifest :: "zip_file option"
  ms_expanded :: int

text \<open>\<open>compressed*maxCompressionRatio\<close> is computed in \<open>uint64\<close>.\<close>

definition ratio_diags :: "zip_file \<Rightarrow> string \<Rightarrow> Diagnostic list" where
  "ratio_diags f name =
     diag_if (if zf_CompressedSize64 f = 0 then 0 < zf_UncompressedSize64 f
              else zf_CompressedSize64 f * maxCompressionRatio < zf_UncompressedSize64 f)
       ''compression_ratio_exceeded'' name ''archive member compression ratio exceeds the preview limit''"

definition too_large :: "zip_file \<Rightarrow> int \<Rightarrow> bool" where
  "too_large f expanded \<longleftrightarrow>
     maxExpandedBytes < uint (zf_UncompressedSize64 f) \<or> maxExpandedBytes - uint (zf_UncompressedSize64 f) < expanded"

definition scan_member :: "zip_file \<Rightarrow> member_scan \<Rightarrow> Diagnostic list \<times> member_scan" where
  "scan_member f st =
     (case safeMemberName (zf_Name f) of
        None \<Rightarrow> (diag ''unsafe_path'' (zf_Name f) ''archive member path is not a normalized relative slash path'', st)
      | Some name \<Rightarrow>
          (if ascii_lower name \<in> set (ms_seen st)
             then (diag ''duplicate_member'' name ''archive member path is duplicated'', st)
           else
             let st = st\<lparr>ms_seen := ascii_lower name # ms_seen st\<rparr>
             in if zf_IsDir f \<or> \<not> zf_IsRegular f
                  then (diag ''unsafe_member_type'' name ''only regular files are permitted'', st)
                else
                  let exec = diag_if (zf_Perm f AND 0x49 \<noteq> 0) ''executable_member'' name
                               ''executable archive members are forbidden''
                  in if too_large f (ms_expanded st)
                       then (exec @ diag ''expanded_size_exceeded'' name ''expanded archive size exceeds the preview limit'', st)
                     else (exec @ ratio_diags f name,
                           st\<lparr>ms_expanded := ms_expanded st + uint (zf_UncompressedSize64 f),
                              ms_manifest := (if name = pack_ManifestName then Some f else ms_manifest st)\<rparr>)))"

fun scan_members :: "zip_file list \<Rightarrow> member_scan \<Rightarrow> Diagnostic list \<times> member_scan" where
  "scan_members [] st = ([], st)"
| "scan_members (f # fs) st =
     (case scan_member f st of (ds, st) \<Rightarrow> (case scan_members fs st of (ds', st) \<Rightarrow> (ds @ ds', st)))"

subsection \<open>The JSON text of the manifest\<close>

datatype walk_error = Token_error string | Duplicate_key string | Invalid_key | Unexpected_delimiter | Multiple_values

text \<open>\<open>dec.More()\<close>, and the error of \<open>dec.Token()\<close> at the end of the stream.\<close>

fun has_more :: "json_token list \<Rightarrow> bool" where
  "has_more [] = False"
| "has_more (t # ts) = (t \<noteq> Close_object \<and> t \<noteq> Close_array)"

definition token_error :: "string option \<Rightarrow> walk_error" where
  "token_error e = Token_error (case e of None \<Rightarrow> ''EOF'' | Some text \<Rightarrow> text)"

text \<open>
  The closure \<open>walk\<close> with its two loops. Each call or round consumes a token or starts a call that does, so fuel
  above twice the number of tokens is enough (\<open>walk_enough_fuel\<close>); without fuel the result is \<open>None\<close>.
\<close>

fun walk :: "nat \<Rightarrow> string option \<Rightarrow> json_token list \<Rightarrow> (walk_error + json_token list) option"
  and walk_members :: "nat \<Rightarrow> string option \<Rightarrow> string list \<Rightarrow> json_token list \<Rightarrow> (walk_error + json_token list) option"
  and walk_items :: "nat \<Rightarrow> string option \<Rightarrow> json_token list \<Rightarrow> (walk_error + json_token list) option" where
  "walk 0 e ts = None"
| "walk (Suc n) e [] = Some (Inl (token_error e))"
| "walk (Suc n) e (t # ts) =
     (case t of
        Open_object \<Rightarrow> walk_members n e [] ts
      | Open_array \<Rightarrow> walk_items n e ts
      | Close_object \<Rightarrow> Some (Inl Unexpected_delimiter)
      | Close_array \<Rightarrow> Some (Inl Unexpected_delimiter)
      | _ \<Rightarrow> Some (Inr ts))"
| "walk_members 0 e seen ts = None"
| "walk_members (Suc n) e seen ts =
     (if \<not> has_more ts then (case ts of [] \<Rightarrow> Some (Inl (token_error e)) | _ # ts \<Rightarrow> Some (Inr ts))
      else case hd ts of
             Text_token key \<Rightarrow>
               (if key \<in> set seen then Some (Inl (Duplicate_key key))
                else case walk n e (tl ts) of
                       Some (Inr ts) \<Rightarrow> walk_members n e (key # seen) ts
                     | r \<Rightarrow> r)
           | _ \<Rightarrow> Some (Inl Invalid_key))"
| "walk_items 0 e ts = None"
| "walk_items (Suc n) e ts =
     (if \<not> has_more ts then (case ts of [] \<Rightarrow> Some (Inl (token_error e)) | _ # ts \<Rightarrow> Some (Inr ts))
      else case walk n e ts of
             Some (Inr ts) \<Rightarrow> walk_items n e ts
           | r \<Rightarrow> r)"

text \<open>\<open>None\<close> for an accepted text.\<close>

definition rejectDuplicateJSONKeys :: "token_stream \<Rightarrow> walk_error option" where
  "rejectDuplicateJSONKeys s =
     (case walk (Suc (2 * length (fst s))) (snd s) (fst s) of
        Some (Inr []) \<Rightarrow> (case snd s of None \<Rightarrow> None | Some text \<Rightarrow> Some (Token_error text))
      | Some (Inr (_ # _)) \<Rightarrow> Some Multiple_values
      | Some (Inl e) \<Rightarrow> Some e
      | None \<Rightarrow> Some (Token_error ''EOF''))"

definition walk_text :: "pack_lib \<Rightarrow> walk_error \<Rightarrow> string" where
  "walk_text L e =
     (case e of
        Token_error text \<Rightarrow> text
      | Duplicate_key key \<Rightarrow> ''duplicate JSON object key '' @ pl_quote L key
      | Invalid_key \<Rightarrow> ''invalid object key''
      | Unexpected_delimiter \<Rightarrow> ''unexpected JSON delimiter''
      | Multiple_values \<Rightarrow> ''multiple JSON values'')"

text \<open>
  \<open>Decode\<close> with \<open>UseNumber\<close> into \<open>any\<close>: the value the tokens spell; \<open>None\<close> if they do not spell one.
  The last of several equal keys wins.
\<close>

fun read_value :: "nat \<Rightarrow> json_token list \<Rightarrow> (any \<times> json_token list) option"
  and read_members :: "nat \<Rightarrow> any_map \<Rightarrow> json_token list \<Rightarrow> (any_map \<times> json_token list) option"
  and read_items :: "nat \<Rightarrow> json_token list \<Rightarrow> (any list \<times> json_token list) option" where
  "read_value 0 ts = None"
| "read_value (Suc n) [] = None"
| "read_value (Suc n) (t # ts) =
     (case t of
        Open_object \<Rightarrow> map_option (map_prod (\<lambda>m. Any_map (Some m)) id) (read_members n [] ts)
      | Open_array \<Rightarrow> map_option (map_prod Any_list id) (read_items n ts)
      | Text_token s \<Rightarrow> Some (Any_text s, ts)
      | Plain_token v \<Rightarrow> Some (v, ts)
      | _ \<Rightarrow> None)"
| "read_members 0 m ts = None"
| "read_members (Suc n) m ts =
     (case ts of
        Close_object # ts \<Rightarrow> Some (m, ts)
      | Text_token key # ts \<Rightarrow>
          (case read_value n ts of
             Some (v, ts) \<Rightarrow> read_members n (map_put key v m) ts
           | None \<Rightarrow> None)
      | _ \<Rightarrow> None)"
| "read_items 0 ts = None"
| "read_items (Suc n) ts =
     (case ts of
        Close_array # ts \<Rightarrow> Some ([], ts)
      | _ \<Rightarrow> (case read_value n ts of
                Some (v, ts) \<Rightarrow> map_option (map_prod ((#) v) id) (read_items n ts)
              | None \<Rightarrow> None))"

definition decode_tokens :: "json_token list \<Rightarrow> any option" where
  "decode_tokens ts = map_option fst (read_value (Suc (2 * length ts)) ts)"

end
