(* ===== verification/Canon_Manifest.thy ===== *)
theory Canon_Manifest
  imports Canon_Pack
begin

text \<open>
  The checks of a canon pack's manifest (\<open>validateManifest\<close> and below in
  \<open>go-service/internal/canonpack/preview.go\<close>) and the preview and inspection of an archive.
\<close>

subsection \<open>Small checks\<close>

definition obj_of :: "any \<Rightarrow> any_map option" where
  "obj_of v = (case v of Any_map m \<Rightarrow> m | _ \<Rightarrow> None)"

definition arr_of :: "any \<Rightarrow> any list" where
  "arr_of v = (case v of Any_list a \<Rightarrow> a | _ \<Rightarrow> [])"

definition str_of :: "any \<Rightarrow> string" where
  "str_of v = (case v of Any_text s \<Rightarrow> s | _ \<Rightarrow> [])"

definition integer_of :: "any \<Rightarrow> int option" where
  "integer_of v = (case v of Any_number t \<Rightarrow> Atoi t | _ \<Rightarrow> None)"

abbreviation text_at :: "any_map option \<Rightarrow> string \<Rightarrow> string" where
  "text_at m k \<equiv> str_of (lookup m k)"

definition schema_if :: "bool \<Rightarrow> string \<Rightarrow> string \<Rightarrow> Diagnostic list" where
  "schema_if b p message = diag_if b ''schema_invalid'' p message"

definition requireKeys :: "any_map option \<Rightarrow> string \<Rightarrow> string list \<Rightarrow> Diagnostic list" where
  "requireKeys m p required =
     (case m of
        None \<Rightarrow> diag ''schema_invalid'' p ''object is required''
      | Some _ \<Rightarrow>
          concat (map (\<lambda>k. schema_if (\<not> has_key m k) (p @ ''.'' @ k) ''required property is missing'') required))"

definition validateIdentifier :: "string \<Rightarrow> string \<Rightarrow> Diagnostic list" where
  "validateIdentifier v p =
     schema_if (length v < 3 \<or> 160 < length v \<or> \<not> identifierRE v) p ''invalid namespaced identifier''"

definition validateLocalID :: "string \<Rightarrow> string \<Rightarrow> Diagnostic list" where
  "validateLocalID v p = schema_if (length v < 1 \<or> 120 < length v \<or> \<not> localIDRE v) p ''invalid local identifier''"

definition validateSHA :: "string \<Rightarrow> string \<Rightarrow> Diagnostic list" where
  "validateSHA v p = schema_if (\<not> shaRE v) p ''invalid lowercase SHA-256''"

definition validateSemver :: "string \<Rightarrow> string \<Rightarrow> Diagnostic list" where
  "validateSemver v p = schema_if (\<not> semverRE v) p ''invalid semantic version''"

definition validateTime :: "pack_lib \<Rightarrow> string \<Rightarrow> string \<Rightarrow> Diagnostic list" where
  "validateTime L v p = schema_if (\<not> pl_rfc3339 L v) p ''invalid RFC3339 timestamp''"

definition validateLocalized :: "any_map option \<Rightarrow> string \<Rightarrow> Diagnostic list" where
  "validateLocalized v p =
     requireKeys v p [''text'', ''language'']
     @ schema_if (trim_space (text_at v ''text'') = []) (p @ ''.text'') ''localized text is required''"

definition validateActor :: "any_map option \<Rightarrow> string \<Rightarrow> Diagnostic list" where
  "validateActor v p =
     requireKeys v p [''id'', ''display_name''] @ validateIdentifier (text_at v ''id'') (p @ ''.id'')"

definition secret_names :: "string list" where
  "secret_names =
     [''access_token'', ''api_key'', ''apikey'', ''auth'', ''authorization'', ''client_secret'', ''cookie'', ''key'',
      ''password'', ''passwd'', ''secret'', ''session'', ''session_id'', ''sig'', ''signature'', ''token'']"

definition secret_parameter :: "string \<Rightarrow> bool" where
  "secret_parameter name \<longleftrightarrow>
     (let normalized = ascii_lower (map (\<lambda>c. if c = CHR ''-'' then CHR ''_'' else c) (trim_space name))
      in List.member secret_names normalized \<or> is_suffix ''_token'' normalized \<or> is_suffix ''_secret'' normalized)"

text \<open>The loop over the query stops at the first secret, so its order does not matter.\<close>

definition validateSourceURI :: "pack_lib \<Rightarrow> string \<Rightarrow> string \<Rightarrow> Diagnostic list" where
  "validateSourceURI L v p =
     (case pl_url L v of
        None \<Rightarrow> diag ''source_uri_invalid'' p ''source URI must be HTTP(S) or URN without userinfo''
      | Some u \<Rightarrow>
          (if url_Scheme u \<notin> {''http'', ''https'', ''urn''} \<or> url_HasUser u
             then diag ''source_uri_invalid'' p ''source URI must be HTTP(S) or URN without userinfo''
           else diag_if (list_ex secret_parameter (url_QueryNames u)) ''source_uri_secret'' p
                  ''source URI contains a forbidden secret query parameter''))"

definition oneOf :: "string \<Rightarrow> string list \<Rightarrow> bool" where
  "oneOf v values = List.member values v"

text \<open>\<open>stringSet\<close>: the diagnostics and the distinct strings.\<close>

fun string_set_loop :: "string \<Rightarrow> string list \<Rightarrow> any list \<Rightarrow> Diagnostic list \<times> string list" where
  "string_set_loop p seen [] = ([], [])"
| "string_set_loop p seen (raw # rest) =
     (case raw of
        Any_text s \<Rightarrow>
          (if s = [] then
             (case string_set_loop p seen rest of
                (ds, out) \<Rightarrow> (diag ''schema_invalid'' p ''array entries must be non-empty strings'' @ ds, out))
           else if s \<in> set seen then
             (case string_set_loop p seen rest of
                (ds, out) \<Rightarrow> (diag ''schema_invalid'' p ''array entries must be unique'' @ ds, out))
           else (case string_set_loop p (s # seen) rest of (ds, out) \<Rightarrow> (ds, s # out)))
      | _ \<Rightarrow>
          (case string_set_loop p seen rest of
             (ds, out) \<Rightarrow> (diag ''schema_invalid'' p ''array entries must be non-empty strings'' @ ds, out)))"

definition stringSet :: "any \<Rightarrow> string \<Rightarrow> bool \<Rightarrow> Diagnostic list \<times> string list" where
  "stringSet v p required =
     (case string_set_loop p [] (arr_of v) of
        (ds, out) \<Rightarrow> (schema_if (required \<and> arr_of v = []) p ''non-empty array is required'' @ ds, out))"

text \<open>\<open>fmt.Sprintf("%s[%d]", p, i)\<close>, and a check of every entry of a list under its own path.\<close>

definition at_index :: "string \<Rightarrow> nat \<Rightarrow> string" where
  "at_index p i = p @ ''['' @ decimal_nat i @ '']''"

definition each :: "(any_map option \<Rightarrow> string \<Rightarrow> Diagnostic list) \<Rightarrow> any list \<Rightarrow> string \<Rightarrow> Diagnostic list" where
  "each check list p = concat (map (\<lambda>(i, raw). check (obj_of raw) (at_index p i)) (enumerate 0 list))"

subsection \<open>Sources\<close>

definition source_types :: "string list" where
  "source_types =
     [''official_primary'', ''licensed_dataset'', ''publisher_reference'', ''scholarly_secondary'',
      ''reputable_secondary'', ''public_wiki'', ''user_provided_local'']"

definition access_classes :: "string list" where
  "access_classes = [''public'', ''open_license'', ''authorized_distribution'', ''local_private'']"

definition is_bool :: "any \<Rightarrow> bool" where
  "is_bool v \<longleftrightarrow> (case v of Any_bool b \<Rightarrow> True | _ \<Rightarrow> False)"

definition source_diags :: "pack_lib \<Rightarrow> (string \<times> string) list \<Rightarrow> any_map option \<Rightarrow> string \<Rightarrow> Diagnostic list" where
  "source_diags L hashes s p =
     (let license = obj_of (lookup s ''license'') in
      requireKeys s p [''id'', ''title'', ''source_type'', ''uri'', ''license'', ''access_class'', ''retrieved_at'', ''document_sha256'']
      @ validateLocalID (text_at s ''id'') (p @ ''.id'')
      @ diag_if (map_of hashes (text_at s ''id'') \<noteq> None) ''duplicate_id'' (p @ ''.id'') ''source id is duplicated''
      @ validateSHA (text_at s ''document_sha256'') (p @ ''.document_sha256'')
      @ validateSourceURI L (text_at s ''uri'') (p @ ''.uri'')
      @ validateTime L (text_at s ''retrieved_at'') (p @ ''.retrieved_at'')
      @ schema_if (\<not> oneOf (text_at s ''source_type'') source_types) (p @ ''.source_type'') ''invalid source type''
      @ schema_if (\<not> oneOf (text_at s ''access_class'') access_classes) (p @ ''.access_class'') ''invalid source access class''
      @ requireKeys license (p @ ''.license'') [''name'', ''redistribution_allowed'']
      @ schema_if (trim_space (text_at license ''name'') = []) (p @ ''.license.name'') ''license name is required''
      @ schema_if (\<not> is_bool (lookup license ''redistribution_allowed'')) (p @ ''.license.redistribution_allowed'')
          ''redistribution flag must be boolean''
      @ (if text_at license ''uri'' \<noteq> [] then validateSourceURI L (text_at license ''uri'') (p @ ''.license.uri'') else []))"

fun source_loop :: "pack_lib \<Rightarrow> nat \<Rightarrow> any list \<Rightarrow> (string \<times> string) list \<Rightarrow> Diagnostic list \<times> (string \<times> string) list" where
  "source_loop L i [] hashes = ([], hashes)"
| "source_loop L i (raw # rest) hashes =
     (let s = obj_of raw
      in case source_loop L (Suc i) rest (map_put (text_at s ''id'') (text_at s ''document_sha256'') hashes) of
           (ds, out) \<Rightarrow> (source_diags L hashes s (at_index ''$.sources'' i) @ ds, out))"

subsection \<open>Content\<close>

definition locator_types :: "string list" where
  "locator_types = [''page'', ''chapter'', ''section'', ''paragraph'', ''fragment'', ''timestamp'', ''record'']"

definition evidence_diags :: "(string \<times> string) list \<Rightarrow> any_map option \<Rightarrow> string \<Rightarrow> Diagnostic list" where
  "evidence_diags sources e ep =
     (let h = text_at e ''document_sha256''; locator = obj_of (lookup e ''locator'') in
      requireKeys e ep [''source_id'', ''document_sha256'', ''locator'']
      @ (case map_of sources (text_at e ''source_id'') of
           None \<Rightarrow> diag ''evidence_source_missing'' (ep @ ''.source_id'') ''evidence references an unknown source''
         | Some expected \<Rightarrow>
             diag_if (h \<noteq> expected) ''evidence_hash_mismatch'' (ep @ ''.document_sha256'')
               ''evidence hash does not match its declared source'')
      @ validateSHA h (ep @ ''.document_sha256'')
      @ requireKeys locator (ep @ ''.locator'') [''type'', ''value'']
      @ schema_if (\<not> oneOf (text_at locator ''type'') locator_types) (ep @ ''.locator.type'') ''invalid locator type'')"

definition validateEvidence :: "any list \<Rightarrow> string \<Rightarrow> (string \<times> string) list \<Rightarrow> Diagnostic list" where
  "validateEvidence list p sources =
     schema_if (list = []) p ''at least one evidence locator is required'' @ each (evidence_diags sources) list p"

definition record_keys :: "string \<Rightarrow> string list" where
  "record_keys kind =
     [''id'', ''continuity_ids'', ''review_state'', ''evidence'']
     @ (if kind = ''relations'' then [''subject_id'', ''predicate'', ''object_id'']
        else if kind = ''claims'' then [''statement'', ''claim_type'', ''subject_ids'']
        else [''name''])
     @ (if kind = ''entities'' then [''kind''] else [])"

definition review_states :: "string list" where
  "review_states = [''approved'', ''machine_recommended'', ''conflict'', ''uncertain'', ''rejected'']"

definition validateRecord ::
    "string \<Rightarrow> any_map option \<Rightarrow> string \<Rightarrow> string list \<Rightarrow> (string \<times> string) list \<Rightarrow> string list \<Rightarrow> Diagnostic list" where
  "validateRecord kind record p continuity sources ids =
     (case stringSet (lookup record ''continuity_ids'') (p @ ''.continuity_ids'') True of
        (cds, conts) \<Rightarrow>
          requireKeys record p (record_keys kind)
          @ validateLocalID (text_at record ''id'') (p @ ''.id'')
          @ diag_if (text_at record ''id'' \<in> set ids) ''duplicate_id'' (p @ ''.id'') ''content item id is duplicated''
          @ cds
          @ concat (map (\<lambda>c. diag_if (c \<notin> set continuity) ''continuity_mismatch'' (p @ ''.continuity_ids'')
              ''record references an undeclared work continuity'') conts)
          @ schema_if (\<not> oneOf (text_at record ''review_state'') review_states) (p @ ''.review_state'') ''invalid review state''
          @ validateEvidence (arr_of (lookup record ''evidence'')) (p @ ''.evidence'') sources)"

text \<open>The ids seen so far are extended after each record.\<close>

fun record_loop ::
    "string \<Rightarrow> string list \<Rightarrow> (string \<times> string) list \<Rightarrow> nat \<Rightarrow> any list \<Rightarrow> string list \<Rightarrow> Diagnostic list \<times> string list" where
  "record_loop kind continuity sources i [] ids = ([], ids)"
| "record_loop kind continuity sources i (raw # rest) ids =
     (let record = obj_of raw
      in case record_loop kind continuity sources (Suc i) rest (text_at record ''id'' # ids) of
           (ds, out) \<Rightarrow>
             (validateRecord kind record (at_index (''$.content.'' @ kind) i) continuity sources ids @ ds, out))"

definition content_kinds :: "string list" where
  "content_kinds = [''entities'', ''locations'', ''factions'', ''settings'', ''events'', ''relations'', ''claims'']"

fun kind_loop ::
    "any_map option \<Rightarrow> string list \<Rightarrow> (string \<times> string) list \<Rightarrow> string list \<Rightarrow> string list \<Rightarrow> Diagnostic list \<times> string list" where
  "kind_loop content continuity sources [] ids = ([], ids)"
| "kind_loop content continuity sources (kind # kinds) ids =
     (case record_loop kind continuity sources 0 (arr_of (lookup content kind)) ids of
        (ds, ids) \<Rightarrow> (case kind_loop content continuity sources kinds ids of (ds', out) \<Rightarrow> (ds @ ds', out)))"

definition reference_fields :: "string \<Rightarrow> string list" where
  "reference_fields kind =
     (if kind = ''events'' then [''participant_ids'', ''location_ids'']
      else if kind = ''relations'' then [''subject_id'', ''object_id'']
      else if kind = ''claims'' then [''subject_ids'']
      else [])"

definition referenced :: "any \<Rightarrow> string list" where
  "referenced v = (case v of Any_list a \<Rightarrow> map str_of a | _ \<Rightarrow> [str_of v])"

definition reference_diags :: "string list \<Rightarrow> string \<Rightarrow> any_map option \<Rightarrow> string \<Rightarrow> Diagnostic list" where
  "reference_diags ids kind record p =
     concat (map (\<lambda>field.
       concat (map (\<lambda>i. diag_if (i \<noteq> [] \<and> i \<notin> set ids) ''item_reference_missing'' (p @ ''.'' @ field)
         ''record references an unknown content item'') (referenced (lookup record field)))) (reference_fields kind))"

definition validateReferences :: "any_map option \<Rightarrow> string list \<Rightarrow> Diagnostic list" where
  "validateReferences content ids =
     concat (map (\<lambda>kind. each (reference_diags ids kind) (arr_of (lookup content kind)) (''$.content.'' @ kind))
       [''events'', ''relations'', ''claims''])"

definition issue_diags :: "(string \<times> string) list \<Rightarrow> string list \<Rightarrow> any_map option \<Rightarrow> string \<Rightarrow> Diagnostic list" where
  "issue_diags sources ids issue p =
     (case stringSet (lookup issue ''item_ids'') (p @ ''.item_ids'') True of
        (ds, items) \<Rightarrow>
          requireKeys issue p [''id'', ''item_ids'', ''reason'', ''status'', ''evidence'']
          @ validateLocalID (text_at issue ''id'') (p @ ''.id'')
          @ ds
          @ concat (map (\<lambda>i. diag_if (i \<notin> set ids) ''item_reference_missing'' (p @ ''.item_ids'')
              ''issue references an unknown content item'') items)
          @ validateEvidence (arr_of (lookup issue ''evidence'')) (p @ ''.evidence'') sources)"

subsection \<open>Files and versions\<close>

definition ancillary_paths :: "string list" where
  "ancillary_paths = [''notices/LICENSE.txt'', ''notices/NOTICE.txt'', ''signatures/manifest.sig'']"

definition expected_role :: "string \<Rightarrow> (string \<times> string) option" where
  "expected_role name =
     (if name = ''notices/LICENSE.txt'' then Some (''license_notice'', ''text/plain; charset=utf-8'')
      else if name = ''notices/NOTICE.txt'' then Some (''attribution_notice'', ''text/plain; charset=utf-8'')
      else if name = ''signatures/manifest.sig'' then Some (''manifest_signature'', ''application/octet-stream'')
      else None)"

definition declared_diags :: "(string \<times> any_map option) list \<Rightarrow> any_map option \<Rightarrow> string \<Rightarrow> Diagnostic list" where
  "declared_diags declared f p =
     (let name = text_at f ''path'' in
      requireKeys f p [''path'', ''role'', ''media_type'', ''size_bytes'', ''sha256'']
      @ diag_if (\<not> oneOf name ancillary_paths) ''file_not_allowed'' (p @ ''.path'') ''ancillary path is not permitted''
      @ diag_if (expected_role name \<noteq> None \<and> expected_role name \<noteq> Some (text_at f ''role'', text_at f ''media_type''))
          ''file_metadata_invalid'' p ''ancillary role or media type does not match its path''
      @ schema_if (case integer_of (lookup f ''size_bytes'') of None \<Rightarrow> True | Some n \<Rightarrow> n < 0 \<or> 2 ^ 20 < n)
          (p @ ''.size_bytes'') ''file size must be an integer from 0 through 1048576''
      @ diag_if (map_of declared name \<noteq> None) ''duplicate_file_declaration'' (p @ ''.path'') ''file is declared more than once''
      @ validateSHA (text_at f ''sha256'') (p @ ''.sha256''))"

fun declared_loop ::
    "nat \<Rightarrow> any list \<Rightarrow> (string \<times> any_map option) list \<Rightarrow> Diagnostic list \<times> (string \<times> any_map option) list" where
  "declared_loop i [] declared = ([], declared)"
| "declared_loop i (raw # rest) declared =
     (let f = obj_of raw
      in case declared_loop (Suc i) rest (map_put (text_at f ''path'') f declared) of
           (ds, out) \<Rightarrow> (declared_diags declared f (at_index ''$.files'' i) @ ds, out))"

fun actual_files :: "zip_file list \<Rightarrow> (string \<times> zip_file) list \<Rightarrow> (string \<times> zip_file) list" where
  "actual_files [] actual = actual"
| "actual_files (f # fs) actual =
     actual_files fs
       (case safeMemberName (zf_Name f) of
          None \<Rightarrow> actual
        | Some name \<Rightarrow> (if name \<noteq> pack_ManifestName then map_put name f actual else actual))"

definition content_diags :: "pack_lib \<Rightarrow> (string \<times> any_map option) list \<Rightarrow> string \<times> zip_file \<Rightarrow> Diagnostic list" where
  "content_diags L declared nf =
     (case nf of (name, f) \<Rightarrow>
        (case map_of declared name of
           None \<Rightarrow> diag ''unlisted_member'' name ''archive member is not listed in manifest files''
         | Some d \<Rightarrow>
             (case readMember f maxExpandedBytes of
                None \<Rightarrow> diag ''member_read_failed'' name ''archive member could not be read''
              | Some b \<Rightarrow>
                  diag_if (integer_of (lookup d ''size_bytes'') \<noteq> Some (int (length b))) ''file_size_mismatch'' name
                    ''archive member size does not match manifest''
                  @ diag_if (pl_sha256 L b \<noteq> text_at d ''sha256'') ''file_checksum_mismatch'' name
                      ''archive member checksum does not match manifest'')))"

definition missing_diags :: "(string \<times> zip_file) list \<Rightarrow> string \<Rightarrow> Diagnostic list" where
  "missing_diags actual name =
     diag_if (map_of actual name = None) ''listed_file_missing'' name ''manifest-listed archive member is missing''"

text \<open>The two loops over maps visit the entries in any order; here in the order of the lists.\<close>

definition map_diags :: "pack_lib \<Rightarrow> (string \<times> any_map option) list \<Rightarrow> (string \<times> zip_file) list \<Rightarrow> Diagnostic list" where
  "map_diags L declared actual =
     concat (map (content_diags L declared) actual) @ concat (map (missing_diags actual \<circ> fst) declared)"

definition validateFiles :: "pack_lib \<Rightarrow> any list \<Rightarrow> zip_file list \<Rightarrow> bool \<Rightarrow> Diagnostic list" where
  "validateFiles L files members signatureRequired =
     (case declared_loop 0 files [] of
        (ds, declared) \<Rightarrow>
          ds
          @ diag_if (signatureRequired \<and> map_of declared ''signatures/manifest.sig'' = None) ''trust_invalid'' ''$.files''
              ''signed trust states require a declared manifest signature file''
          @ map_diags L declared (actual_files members []))"

definition validateCompatibility :: "any_map option \<Rightarrow> string \<Rightarrow> Diagnostic list" where
  "validateCompatibility v current =
     (let schema = obj_of (lookup v ''schema'');
          ac = obj_of (lookup v ''archive_center'');
          lo = text_at ac ''minimum_version'';
          hi = text_at ac ''maximum_version_exclusive'' in
      requireKeys v ''$.compatibility'' [''archive_center'', ''schema'']
      @ diag_if (text_at schema ''name'' \<noteq> ''canon-pack-manifest'' \<or> text_at schema ''version'' \<noteq> ''1.0.0'')
          ''schema_unsupported'' ''$.compatibility.schema'' ''only canon-pack-manifest 1.0.0 is supported''
      @ requireKeys ac ''$.compatibility.archive_center'' [''minimum_version'']
      @ validateSemver lo ''$.compatibility.archive_center.minimum_version''
      @ (if hi \<noteq> [] then validateSemver hi ''$.compatibility.archive_center.maximum_version_exclusive'' else [])
      @ diag_if (semverRE lo \<and> hi \<noteq> [] \<and> semverRE hi \<and> compareSemver hi lo \<le> 0) ''compatibility_invalid''
          ''$.compatibility.archive_center'' ''maximum version must be greater than minimum version''
      @ (if \<not> semverRE current
           then diag ''archive_center_version_invalid'' ''$.compatibility.archive_center''
                  ''running Archive Center version is not valid SemVer''
         else diag_if (compareSemver current lo < 0 \<or> hi \<noteq> [] \<and> 0 \<le> compareSemver current hi)
                ''archive_center_incompatible'' ''$.compatibility.archive_center''
                ''pack does not support this Archive Center version''))"

subsection \<open>The manifest\<close>

definition pack_statuses :: "string list" where
  "pack_statuses = [''draft'', ''review_candidate'', ''published'', ''deprecated'', ''withdrawn'']"

definition head_diags :: "pack_lib \<Rightarrow> any_map option \<Rightarrow> any_map option \<Rightarrow> Diagnostic list" where
  "head_diags L m pack =
     requireKeys m ''$'' [''contract'', ''pack'', ''work'', ''production'', ''review'', ''trust'', ''sources'', ''content'',
       ''conflicts'', ''uncertainties'', ''coverage_report'', ''compatibility'', ''files'']
     @ diag_if (text_at m ''contract'' \<noteq> ''canon-pack-manifest.v1'') ''contract_unsupported'' ''$.contract''
         ''manifest contract must be canon-pack-manifest.v1''
     @ requireKeys pack ''$.pack'' [''id'', ''version'', ''status'', ''built_at'']
     @ validateIdentifier (text_at pack ''id'') ''$.pack.id''
     @ validateSemver (text_at pack ''version'') ''$.pack.version''
     @ validateTime L (text_at pack ''built_at'') ''$.pack.built_at''
     @ schema_if (\<not> oneOf (text_at pack ''status'') pack_statuses) ''$.pack.status'' ''invalid pack status''"

text \<open>The diagnostics of the work, and its continuities.\<close>

definition work_diags :: "any_map option \<Rightarrow> Diagnostic list \<times> string list" where
  "work_diags work =
     (let edition = obj_of (lookup work ''edition'');
          (cds, continuities) = stringSet (lookup work ''continuity_ids'') ''$.work.continuity_ids'' True;
          (lds, languages) = stringSet (lookup work ''content_languages'') ''$.work.content_languages'' True
      in (requireKeys work ''$.work'' [''stable_id'', ''original_title'', ''translated_titles'', ''aliases'',
            ''original_language'', ''content_languages'', ''edition'', ''continuity_ids'']
          @ validateIdentifier (text_at work ''stable_id'') ''$.work.stable_id''
          @ cds
          @ concat (map (\<lambda>i. validateIdentifier i ''$.work.continuity_ids'') continuities)
          @ requireKeys edition ''$.work.edition'' [''edition_id'', ''label'', ''language'', ''scope_note'']
          @ validateIdentifier (text_at edition ''edition_id'') ''$.work.edition.edition_id''
          @ validateLocalized (obj_of (lookup work ''original_title'')) ''$.work.original_title''
          @ lds
          @ schema_if (languages = []) ''$.work.content_languages'' ''at least one content language is required'',
          continuities))"

definition production_diags :: "pack_lib \<Rightarrow> any_map option \<Rightarrow> Diagnostic list" where
  "production_diags L production =
     requireKeys production ''$.production'' [''method'', ''created_at'', ''producer'']
     @ schema_if (\<not> oneOf (text_at production ''method'') [''human_curated'', ''machine_assisted'', ''imported''])
         ''$.production.method'' ''invalid production method''
     @ validateTime L (text_at production ''created_at'') ''$.production.created_at''
     @ validateActor (obj_of (lookup production ''producer'')) ''$.production.producer''"

definition review_diags :: "pack_lib \<Rightarrow> any_map option \<Rightarrow> any_map option \<Rightarrow> Diagnostic list" where
  "review_diags L pack review =
     (let status = text_at review ''status''; basis = text_at review ''admission_basis'' in
      requireKeys review ''$.review'' [''status'']
      @ schema_if (\<not> oneOf status [''not_reviewed'', ''in_review'', ''approved'', ''changes_requested'', ''rejected''])
          ''$.review.status'' ''invalid review status''
      @ (if status = ''approved'' then
           requireKeys review ''$.review'' [''procedure_id'', ''reviewed_at'', ''admission_basis'']
           @ validateIdentifier (text_at review ''procedure_id'') ''$.review.procedure_id''
           @ validateTime L (text_at review ''reviewed_at'') ''$.review.reviewed_at''
           @ diag_if (\<not> oneOf basis [''human_review'', ''trusted_pack_review'', ''evidence_validated_batch''])
               ''review_invalid'' ''$.review.admission_basis'' ''approved pack has no admissible review basis''
           @ diag_if (oneOf basis [''human_review'', ''trusted_pack_review''] \<and> arr_of (lookup review ''reviewers'') = [])
               ''review_invalid'' ''$.review.reviewers'' ''identified reviewer is required''
         else [])
      @ diag_if (text_at pack ''status'' = ''published'' \<and> status \<noteq> ''approved'') ''review_invalid'' ''$.review.status''
          ''published packs must be approved'')"

definition signed_states :: "string list" where
  "signed_states = [''trusted_publisher'', ''invalid_signature'']"

definition trust_diags :: "any_map option \<Rightarrow> Diagnostic list" where
  "trust_diags trust =
     (let status = text_at trust ''status'' in
      requireKeys trust ''$.trust'' [''status'']
      @ schema_if (\<not> oneOf status [''unsigned_local'', ''trusted_publisher'', ''invalid_signature''])
          ''$.trust.status'' ''invalid trust status''
      @ (if oneOf status signed_states then
           requireKeys trust ''$.trust'' [''publisher'', ''signature_file'', ''trust_policy_id'']
           @ validateActor (obj_of (lookup trust ''publisher'')) ''$.trust.publisher''
           @ validateIdentifier (text_at trust ''trust_policy_id'') ''$.trust.trust_policy_id''
           @ diag_if (text_at trust ''signature_file'' \<noteq> ''signatures/manifest.sig'') ''trust_invalid'' ''$.trust.signature_file''
               ''signed trust states require signatures/manifest.sig''
           @ (if status = ''invalid_signature''
                then diag ''signature_invalid'' ''$.trust.status''
                       ''a pack with an invalid signature cannot pass installation preview''
              else diag ''trust_verification_unavailable'' ''$.trust.status''
                       ''publisher signature verification is not implemented for this preview profile'')
         else []))"

definition coverage_diags :: "pack_lib \<Rightarrow> any_map option \<Rightarrow> Diagnostic list" where
  "coverage_diags L coverage =
     requireKeys coverage ''$.coverage_report'' [''generated_at'', ''saturation'', ''domains'']
     @ validateTime L (text_at coverage ''generated_at'') ''$.coverage_report.generated_at''
     @ schema_if (\<not> oneOf (text_at coverage ''saturation'') [''not_assessed'', ''growing'', ''saturated'', ''insufficient_sources''])
         ''$.coverage_report.saturation'' ''invalid saturation''
     @ schema_if (arr_of (lookup coverage ''domains'') = []) ''$.coverage_report.domains''
         ''at least one coverage domain is required''"

definition manifest_summary :: "any_map option \<Rightarrow> int \<Rightarrow> pack_summary" where
  "manifest_summary m expanded =
     (let pack = obj_of (lookup m ''pack''); work = obj_of (lookup m ''work''); content = obj_of (lookup m ''content'') in
      \<lparr>ps_PackID = text_at pack ''id'', ps_PackVersion = text_at pack ''version'', ps_StableWorkID = text_at work ''stable_id'',
       ps_EditionID = text_at (obj_of (lookup work ''edition'')) ''edition_id'',
       ps_ReviewStatus = text_at (obj_of (lookup m ''review'')) ''status'',
       ps_TrustStatus = text_at (obj_of (lookup m ''trust'')) ''status'',
       ps_SourceCount = length (arr_of (lookup m ''sources'')),
       ps_RecordCounts = map (\<lambda>kind. (kind, length (arr_of (lookup content kind)))) content_kinds,
       ps_ConflictCount = length (arr_of (lookup m ''conflicts'')),
       ps_UncertaintyCount = length (arr_of (lookup m ''uncertainties'')),
       ps_AncillaryFiles = length (arr_of (lookup m ''files'')), ps_ExpandedBytes = expanded\<rparr>)"

definition validateManifest :: "pack_lib \<Rightarrow> any_map option \<Rightarrow> zip_file list \<Rightarrow> string \<Rightarrow> Diagnostic list" where
  "validateManifest L m members acVersion =
     (let pack = obj_of (lookup m ''pack'');
          trust = obj_of (lookup m ''trust'');
          content = obj_of (lookup m ''content'');
          (wds, continuities) = work_diags (obj_of (lookup m ''work''));
          (sds, hashes) = source_loop L 0 (arr_of (lookup m ''sources'')) [];
          (rds, ids) = kind_loop content continuities hashes content_kinds []
      in head_diags L m pack @ wds
         @ production_diags L (obj_of (lookup m ''production''))
         @ review_diags L pack (obj_of (lookup m ''review''))
         @ trust_diags trust
         @ schema_if (arr_of (lookup m ''sources'') = []) ''$.sources'' ''at least one source is required''
         @ sds
         @ requireKeys content ''$.content'' content_kinds
         @ rds
         @ validateReferences content ids
         @ each (issue_diags hashes ids) (arr_of (lookup m ''conflicts'')) ''$.conflicts''
         @ each (issue_diags hashes ids) (arr_of (lookup m ''uncertainties'')) ''$.uncertainties''
         @ coverage_diags L (obj_of (lookup m ''coverage_report''))
         @ validateCompatibility (obj_of (lookup m ''compatibility'')) acVersion
         @ validateFiles L (arr_of (lookup m ''files'')) members (oneOf (text_at trust ''status'') signed_states))"

subsection \<open>Preview and inspection\<close>

definition PreviewZIP :: "pack_lib \<Rightarrow> string \<Rightarrow> string \<Rightarrow> pack_report" where
  "PreviewZIP L data archiveCenterVersion =
     (if MaxArchiveBytes < int (length data)
        then finish_report empty_summary (diag ''archive_too_large'' [] ''compressed archive exceeds the preview limit'')
      else case pl_zip L data of
        None \<Rightarrow> finish_report empty_summary (diag ''archive_invalid'' [] ''payload is not a readable ZIP archive'')
      | Some files \<Rightarrow>
          (if maxMembers < length files
             then finish_report empty_summary (diag ''member_limit_exceeded'' [] ''archive contains too many members'')
           else case scan_members files \<lparr>ms_seen = [], ms_manifest = None, ms_expanded = 0\<rparr> of
             (ds, st) \<Rightarrow>
               let s = empty_summary\<lparr>ps_ExpandedBytes := ms_expanded st\<rparr>;
                   stop = (\<lambda>code message. finish_report s (ds @ diag code pack_ManifestName message))
               in case ms_manifest st of
                    None \<Rightarrow> stop ''manifest_missing'' ''archive root manifest is required''
                  | Some manifestFile \<Rightarrow>
                      if maxManifestBytes < uint (zf_UncompressedSize64 manifestFile)
                        then stop ''manifest_too_large'' ''manifest exceeds the preview limit''
                      else case readMember manifestFile maxManifestBytes of
                        None \<Rightarrow> stop ''manifest_read_failed'' ''manifest could not be read within its declared size''
                      | Some manifestBytes \<Rightarrow>
                          (case rejectDuplicateJSONKeys (pl_tokens L manifestBytes) of
                             Some (Duplicate_key key) \<Rightarrow> stop ''json_duplicate_key'' (walk_text L (Duplicate_key key))
                           | Some e \<Rightarrow> stop ''manifest_json_invalid'' (walk_text L e)
                           | None \<Rightarrow>
                               (case decode_tokens (fst (pl_tokens L manifestBytes)) of
                                  None \<Rightarrow> stop ''manifest_json_invalid'' ''manifest is not valid JSON''
                                | Some (Any_map (Some m)) \<Rightarrow>
                                    finish_report (manifest_summary (Some m) (ms_expanded st))
                                      (ds @ validateManifest L (Some m) files archiveCenterVersion)
                                | Some _ \<Rightarrow> finish_report s (ds @ diag ''schema_invalid'' ''$'' ''manifest root must be an object'')))))"

record inspection =
  in_Report :: pack_report
  in_ArchiveSHA256 :: string
  in_ManifestSHA256 :: string
  in_ManifestJSON :: string

text \<open>The inspection, and the text of an error. An archive that cannot be read any more has no text here.\<close>

fun find_manifest :: "pack_lib \<Rightarrow> zip_file list \<Rightarrow> inspection \<Rightarrow> inspection \<times> string option" where
  "find_manifest L [] i = (i, Some ''validated canon pack manifest disappeared'')"
| "find_manifest L (f # fs) i =
     (if zf_Name f \<noteq> pack_ManifestName then find_manifest L fs i
      else case readMember f maxManifestBytes of
             None \<Rightarrow> (i, Some ''bounded read failed'')
           | Some manifest \<Rightarrow>
               (i\<lparr>in_ManifestSHA256 := pl_sha256 L manifest, in_ManifestJSON := manifest\<rparr>, None))"

definition InspectZIP :: "pack_lib \<Rightarrow> string \<Rightarrow> string \<Rightarrow> inspection \<times> string option" where
  "InspectZIP L data archiveCenterVersion =
     (let report = PreviewZIP L data archiveCenterVersion;
          i = \<lparr>in_Report = report, in_ArchiveSHA256 = pl_sha256 L data, in_ManifestSHA256 = [], in_ManifestJSON = []\<rparr>
      in if \<not> pr_Valid report then (i, None)
         else case pl_zip L data of
                None \<Rightarrow> (i, Some [])
              | Some files \<Rightarrow> find_manifest L files i)"

end
