(* ===== verification/Canon_Accepted.thy ===== *)
theory Canon_Accepted
  imports Canon_Manifest Turn_Response "HOL-Library.Multiset"
begin

text \<open>
  What an accepted canon pack is: the facts behind an empty list of diagnostics, the uniqueness of the report,
  and the reading of the manifest's JSON text.
\<close>

subsection \<open>No diagnostics\<close>

lemma no_diag [simp]: "diag c p m \<noteq> []"
  by (simp add: diag_def)

lemma no_diag_if [simp]: "diag_if b c p m = [] \<longleftrightarrow> \<not> b"
  by (simp add: diag_if_def)

lemma no_schema_if [simp]: "schema_if b p m = [] \<longleftrightarrow> \<not> b"
  by (simp add: schema_if_def)

lemma no_requireKeys [simp]: "requireKeys m p ks = [] \<longleftrightarrow> m \<noteq> None \<and> (\<forall>k \<in> set ks. has_key m k)"
  by (auto simp: requireKeys_def split: option.splits)

lemma concat_Nil: "concat (map f xs) = [] \<longleftrightarrow> (\<forall>x \<in> set xs. f x = [])"
  by auto

lemma no_each: "each check list p = [] \<longleftrightarrow> (\<forall>i < length list. check (obj_of (list ! i)) (at_index p i) = [])"
  unfolding each_def concat_Nil by (fastforce simp: enumerate_eq_zip set_zip)

lemma each_member: "each check list p = [] \<Longrightarrow> raw \<in> set list \<Longrightarrow> \<exists>q. check (obj_of raw) q = []"
  unfolding no_each by (metis in_set_conv_nth)

lemma valid_report [simp]: "pr_Valid (finish_report s ds) \<longleftrightarrow> ds = []"
  by (simp add: finish_report_def)

lemma string_set_ok: "string_set_loop p seen vs = ([], out) \<Longrightarrow> vs = map Any_text out"
proof (induction p seen vs arbitrary: out rule: string_set_loop.induct)
  case (2 p seen raw rest)
  then show ?case by (auto split: any.splits if_splits prod.splits)
qed simp

lemma stringSet_ok: "stringSet v p True = ([], out) \<Longrightarrow> arr_of v = map Any_text out \<and> out \<noteq> []"
  by (auto simp: stringSet_def split: prod.splits dest: string_set_ok)

subsection \<open>Members\<close>

lemma safe_name: "safeMemberName n = Some name \<Longrightarrow> name = n"
  by (auto simp: safeMemberName_def split: if_splits)

definition member_ok :: "zip_file \<Rightarrow> bool" where
  "member_ok f \<longleftrightarrow>
     safeMemberName (zf_Name f) = Some (zf_Name f) \<and> zf_IsRegular f \<and> \<not> zf_IsDir f \<and> zf_Perm f AND 0x49 = 0
     \<and> uint (zf_UncompressedSize64 f) \<le> 100 * uint (zf_CompressedSize64 f)"

lemma ratio_ok: "ratio_diags f name = [] \<Longrightarrow> uint (zf_UncompressedSize64 f) \<le> 100 * uint (zf_CompressedSize64 f)"
proof -
  assume ok: "ratio_diags f name = []"
  show ?thesis
  proof (cases "zf_CompressedSize64 f = 0")
    case True
    with ok have "zf_UncompressedSize64 f = 0" by (auto simp: ratio_diags_def word_gt_0)
    then show ?thesis by simp
  next
    case False
    with ok have "uint (zf_UncompressedSize64 f) \<le> uint (zf_CompressedSize64 f * 100)"
      by (simp add: ratio_diags_def maxCompressionRatio_def not_less word_le_def)
    also have "\<dots> = (uint (zf_CompressedSize64 f) * 100) mod 2 ^ 64"
      by (simp add: uint_word_ariths)
    also have "\<dots> \<le> uint (zf_CompressedSize64 f) * 100"
      by (intro zmod_le_nonneg_dividend) simp
    finally show ?thesis by (simp add: mult.commute)
  qed
qed

lemma scan_member_ok:
  assumes "scan_member f st = ([], st')"
  shows "member_ok f \<and> ascii_lower (zf_Name f) \<notin> set (ms_seen st)
    \<and> st' = \<lparr>ms_seen = ascii_lower (zf_Name f) # ms_seen st,
             ms_manifest = (if zf_Name f = pack_ManifestName then Some f else ms_manifest st),
             ms_expanded = ms_expanded st + uint (zf_UncompressedSize64 f)\<rparr>
    \<and> ms_expanded st' \<le> maxExpandedBytes"
proof -
  from assms obtain name where n: "safeMemberName (zf_Name f) = Some name"
    by (auto simp: scan_member_def split: option.splits)
  with safe_name have [simp]: "name = zf_Name f" by blast
  from assms n show ?thesis
    by (auto simp: scan_member_def member_ok_def Let_def too_large_def intro: ratio_ok split: if_splits)
qed

lemma scan_members_ok:
  assumes "scan_members fs st = ([], st')" and "ms_expanded st \<le> maxExpandedBytes"
  shows "(\<forall>f \<in> set fs. member_ok f) \<and> distinct (map (\<lambda>f. ascii_lower (zf_Name f)) fs)
    \<and> (\<forall>f \<in> set fs. ascii_lower (zf_Name f) \<notin> set (ms_seen st))
    \<and> ms_expanded st' = ms_expanded st + (\<Sum>f\<leftarrow>fs. uint (zf_UncompressedSize64 f)) \<and> ms_expanded st' \<le> maxExpandedBytes
    \<and> (ms_manifest st = None \<longrightarrow> ms_manifest st' = find (\<lambda>f. zf_Name f = pack_ManifestName) fs)
    \<and> (ascii_lower pack_ManifestName \<in> set (ms_seen st) \<longrightarrow> ms_manifest st' = ms_manifest st)"
  using assms
proof (induction fs arbitrary: st)
  case (Cons f fs)
  from Cons.prems(1) obtain st1 where s: "scan_member f st = ([], st1)" "scan_members fs st1 = ([], st')"
    by (auto split: prod.splits)
  note one = scan_member_ok [OF s(1)]
  with Cons.IH [OF s(2)]
  have rest: "(\<forall>f \<in> set fs. member_ok f) \<and> distinct (map (\<lambda>f. ascii_lower (zf_Name f)) fs)
    \<and> (\<forall>f \<in> set fs. ascii_lower (zf_Name f) \<notin> set (ms_seen st1))
    \<and> ms_expanded st' = ms_expanded st1 + (\<Sum>f\<leftarrow>fs. uint (zf_UncompressedSize64 f)) \<and> ms_expanded st' \<le> maxExpandedBytes
    \<and> (ms_manifest st1 = None \<longrightarrow> ms_manifest st' = find (\<lambda>f. zf_Name f = pack_ManifestName) fs)
    \<and> (ascii_lower pack_ManifestName \<in> set (ms_seen st1) \<longrightarrow> ms_manifest st' = ms_manifest st1)"
    by blast
  with one show ?case by auto
qed simp

subsection \<open>Sources and content\<close>

lemma source_loop_ok:
  assumes "source_loop L i raws hashes = ([], out)"
  shows "out = hashes @ map (\<lambda>raw. (text_at (obj_of raw) ''id'', text_at (obj_of raw) ''document_sha256'')) raws
    \<and> (go_map hashes \<longrightarrow> go_map out)"
  using assms
proof (induction L i raws hashes arbitrary: out rule: source_loop.induct)
  case (2 L i raw rest hashes)
  let ?s = "obj_of raw"
  from "2.prems" have d: "source_diags L hashes ?s (at_index ''$.sources'' i) = []"
    and r: "source_loop L (Suc i) rest (map_put (text_at ?s ''id'') (text_at ?s ''document_sha256'') hashes) = ([], out)"
    by (auto simp: Let_def split: prod.splits)
  from d have fresh: "map_of hashes (text_at ?s ''id'') = None" by (simp add: source_diags_def Let_def)
  then have "map_put (text_at ?s ''id'') v hashes = hashes @ [(text_at ?s ''id'', v)]" for v
    by (simp add: map_put_def map_remove_absent)
  with "2.IH" [OF refl r] have "out = hashes @ map (\<lambda>raw. (text_at (obj_of raw) ''id'', text_at (obj_of raw) ''document_sha256'')) (raw # rest)"
    by simp
  moreover have "go_map hashes \<longrightarrow> go_map out" using "2.IH" [OF refl r] by (intro impI) (elim conjE, simp)
  ultimately show ?case by blast
qed simp

text \<open>The content of a manifest: its records with their kinds.\<close>

definition content_items :: "any_map option \<Rightarrow> (string \<times> any_map option) list" where
  "content_items content =
     concat (map (\<lambda>kind. map (\<lambda>raw. (kind, obj_of raw)) (arr_of (lookup content kind))) content_kinds)"

definition item_ids :: "any_map option \<Rightarrow> string list" where
  "item_ids content = map (\<lambda>(kind, record). text_at record ''id'') (content_items content)"

text \<open>What is checked of a record apart from its id: evidence from declared sources, declared continuities.\<close>

definition cited :: "(string \<times> string) list \<Rightarrow> any_map option \<Rightarrow> bool" where
  "cited sources record \<longleftrightarrow>
     arr_of (lookup record ''evidence'') \<noteq> []
     \<and> (\<forall>raw \<in> set (arr_of (lookup record ''evidence'')).
          map_of sources (text_at (obj_of raw) ''source_id'') = Some (text_at (obj_of raw) ''document_sha256''))"

definition within :: "string list \<Rightarrow> any_map option \<Rightarrow> bool" where
  "within continuity record \<longleftrightarrow>
     (\<exists>conts. arr_of (lookup record ''continuity_ids'') = map Any_text conts \<and> conts \<noteq> [] \<and> set conts \<subseteq> set continuity)"

lemma evidence_ok:
  assumes "validateEvidence (arr_of (lookup record ''evidence'')) p sources = []"
  shows "cited sources record"
proof -
  from assms have e: "arr_of (lookup record ''evidence'') \<noteq> []"
    "each (evidence_diags sources) (arr_of (lookup record ''evidence'')) p = []"
    by (simp_all add: validateEvidence_def)
  have "map_of sources (text_at (obj_of raw) ''source_id'') = Some (text_at (obj_of raw) ''document_sha256'')"
    if "raw \<in> set (arr_of (lookup record ''evidence''))" for raw
    using each_member [OF e(2) that] by (auto simp: evidence_diags_def Let_def split: option.splits)
  with e(1) show ?thesis by (simp add: cited_def)
qed

lemma record_ok:
  assumes "validateRecord kind record p continuity sources ids = []"
  shows "text_at record ''id'' \<notin> set ids \<and> within continuity record \<and> cited sources record
    \<and> (\<forall>k \<in> set (record_keys kind). has_key record k) \<and> localIDRE (text_at record ''id'')"
proof -
  obtain cds conts where c: "stringSet (lookup record ''continuity_ids'') (p @ ''.continuity_ids'') True = (cds, conts)"
    by (metis surj_pair)
  with assms have "cds = []" "\<forall>c \<in> set conts. c \<in> set continuity"
    by (auto simp: validateRecord_def)
  with c stringSet_ok [of "lookup record ''continuity_ids''"] have "within continuity record"
    unfolding within_def by blast
  with assms c show ?thesis
    by (auto simp: validateRecord_def validateLocalID_def intro: evidence_ok)
qed

definition record_checked :: "string list \<Rightarrow> (string \<times> string) list \<Rightarrow> string \<times> any_map option \<Rightarrow> bool" where
  "record_checked continuity sources kr \<longleftrightarrow>
     within continuity (snd kr) \<and> cited sources (snd kr) \<and> localIDRE (text_at (snd kr) ''id'')
     \<and> (\<forall>k \<in> set (record_keys (fst kr)). has_key (snd kr) k)"

lemma record_loop_ok:
  assumes "record_loop kind continuity sources i raws ids = ([], out)"
  shows "out = rev (map (\<lambda>raw. text_at (obj_of raw) ''id'') raws) @ ids \<and> (distinct ids \<longrightarrow> distinct out)
    \<and> (\<forall>raw \<in> set raws. record_checked continuity sources (kind, obj_of raw))"
  using assms
proof (induction kind continuity sources i raws ids arbitrary: out rule: record_loop.induct)
  case (2 kind continuity sources i raw rest ids)
  from "2.prems" have d: "validateRecord kind (obj_of raw) (at_index (''$.content.'' @ kind) i) continuity sources ids = []"
    and r: "record_loop kind continuity sources (Suc i) rest (text_at (obj_of raw) ''id'' # ids) = ([], out)"
    by (auto simp: Let_def split: prod.splits)
  note IH = "2.IH" [OF refl r] and ok = record_ok [OF d]
  from IH ok have "distinct ids \<longrightarrow> distinct out" by (intro impI) (elim conjE, simp)
  moreover from IH have "out = rev (map (\<lambda>raw. text_at (obj_of raw) ''id'') (raw # rest)) @ ids" by simp
  moreover from IH ok have "\<forall>r \<in> set (raw # rest). record_checked continuity sources (kind, obj_of r)"
    by (simp add: record_checked_def)
  ultimately show ?case by blast
qed simp

lemma kind_loop_ok:
  assumes "kind_loop content continuity sources kinds ids = ([], out)"
  shows "out = rev (concat (map (\<lambda>kind. map (\<lambda>raw. text_at (obj_of raw) ''id'') (arr_of (lookup content kind))) kinds)) @ ids
    \<and> (distinct ids \<longrightarrow> distinct out)
    \<and> (\<forall>kind \<in> set kinds. \<forall>raw \<in> set (arr_of (lookup content kind)). record_checked continuity sources (kind, obj_of raw))"
  using assms
proof (induction content continuity sources kinds ids arbitrary: out rule: kind_loop.induct)
  case (2 content continuity sources kind kinds ids)
  from "2.prems" obtain mid where r: "record_loop kind continuity sources 0 (arr_of (lookup content kind)) ids = ([], mid)"
    "kind_loop content continuity sources kinds mid = ([], out)"
    by (auto split: prod.splits)
  note one = record_loop_ok [OF r(1)] and rest = "2.IH" [OF r(1) [symmetric] r(2)]
  from one rest have "distinct ids \<longrightarrow> distinct out" by blast
  with one rest show ?case by simp
qed simp

lemma content_ok:
  assumes "kind_loop content continuity sources content_kinds [] = ([], out)"
  shows "set out = set (item_ids content)" and "distinct (item_ids content)"
    and "kr \<in> set (content_items content) \<Longrightarrow> record_checked continuity sources kr"
proof -
  have ids: "item_ids content
      = concat (map (\<lambda>kind. map (\<lambda>raw. text_at (obj_of raw) ''id'') (arr_of (lookup content kind))) content_kinds)"
    by (simp add: item_ids_def content_items_def map_concat comp_def)
  note ok = kind_loop_ok [OF assms]
  from ok ids show "set out = set (item_ids content)" by simp
  have "out = rev (item_ids content)" using ok unfolding ids append_Nil2 by blast
  moreover have "distinct out" using ok by (elim conjE) simp
  ultimately show "distinct (item_ids content)" by simp
  show "record_checked continuity sources kr" if "kr \<in> set (content_items content)"
    using ok that by (auto simp: content_items_def)
qed

lemma references_ok:
  assumes "validateReferences content ids = []" and "(kind, record) \<in> set (content_items content)"
    and "field \<in> set (reference_fields kind)" and "i \<in> set (referenced (lookup record field))" and "i \<noteq> []"
  shows "i \<in> set ids"
proof -
  from assms(2,3) obtain raw where raw: "raw \<in> set (arr_of (lookup content kind))" "record = obj_of raw"
      and kind: "kind \<in> {''events'', ''relations'', ''claims''}"
    by (auto simp: content_items_def reference_fields_def split: if_splits)
  from assms(1) kind have "each (reference_diags ids kind) (arr_of (lookup content kind)) (''$.content.'' @ kind) = []"
    by (auto simp: validateReferences_def)
  from each_member [OF this raw(1)] raw(2) obtain q where "reference_diags ids kind record q = []" by blast
  with assms(3-5) show ?thesis by (auto simp: reference_diags_def)
qed

subsection \<open>Files\<close>

lemma declared_loop_ok:
  assumes "declared_loop i raws declared = ([], out)"
  shows "out = declared @ map (\<lambda>raw. (text_at (obj_of raw) ''path'', obj_of raw)) raws
    \<and> (go_map declared \<longrightarrow> go_map out)
    \<and> (\<forall>raw \<in> set raws. text_at (obj_of raw) ''path'' \<in> set ancillary_paths)"
  using assms
proof (induction i raws declared arbitrary: out rule: declared_loop.induct)
  case (2 i raw rest declared)
  let ?f = "obj_of raw"
  from "2.prems" have d: "declared_diags declared ?f (at_index ''$.files'' i) = []"
    and r: "declared_loop (Suc i) rest (map_put (text_at ?f ''path'') ?f declared) = ([], out)"
    by (auto simp: Let_def split: prod.splits)
  from d have fresh: "map_of declared (text_at ?f ''path'') = None"
    and anc: "text_at ?f ''path'' \<in> set ancillary_paths"
    by (simp_all add: declared_diags_def Let_def oneOf_def List.member_iff)
  from fresh have "map_put (text_at ?f ''path'') ?f declared = declared @ [(text_at ?f ''path'', ?f)]"
    by (simp add: map_put_def map_remove_absent)
  with "2.IH" [OF refl r] have "out = declared @ map (\<lambda>raw. (text_at (obj_of raw) ''path'', obj_of raw)) (raw # rest)"
    by simp
  moreover have "go_map declared \<longrightarrow> go_map out" using "2.IH" [OF refl r] by (intro impI) (elim conjE, simp)
  moreover have "\<forall>r \<in> set (raw # rest). text_at (obj_of r) ''path'' \<in> set ancillary_paths"
    using "2.IH" [OF refl r] anc by simp
  ultimately show ?case by blast
qed simp

lemma actual_files_ok:
  assumes "\<forall>f \<in> set fs. safeMemberName (zf_Name f) = Some (zf_Name f)"
    and "distinct (map fst actual @ map zf_Name fs)"
  shows "actual_files fs actual
    = actual @ map (\<lambda>f. (zf_Name f, f)) (filter (\<lambda>f. zf_Name f \<noteq> pack_ManifestName) fs)"
  using assms
proof (induction fs actual rule: actual_files.induct)
  case (2 f fs actual)
  have "map_put (zf_Name f) f actual = actual @ [(zf_Name f, f)]"
    using "2.prems"(2) by (auto simp: map_put_def intro!: map_remove_absent simp: map_of_eq_None_iff)
  with 2 show ?case by auto
qed simp

text \<open>The members of an archive are the files its manifest declares, with their sizes and digests.\<close>

definition intact :: "pack_lib \<Rightarrow> any_map option \<Rightarrow> zip_file \<Rightarrow> bool" where
  "intact L d f \<longleftrightarrow>
     (\<exists>b. zf_content f = Some b \<and> integer_of (lookup d ''size_bytes'') = Some (int (length b))
        \<and> pl_sha256 L b = text_at d ''sha256'' \<and> uint (zf_UncompressedSize64 f) = int (length b))"

lemma files_ok:
  assumes "validateFiles L files members signature = []"
    and "\<forall>f \<in> set members. safeMemberName (zf_Name f) = Some (zf_Name f)" and "distinct (map zf_Name members)"
  shows "distinct (map (\<lambda>raw. text_at (obj_of raw) ''path'') files)
    \<and> (\<forall>f \<in> set members. zf_Name f \<noteq> pack_ManifestName \<longrightarrow> zf_Name f \<in> set ancillary_paths
          \<and> (\<exists>raw \<in> set files. text_at (obj_of raw) ''path'' = zf_Name f \<and> intact L (obj_of raw) f))
    \<and> (\<forall>raw \<in> set files. \<exists>f \<in> set members. zf_Name f = text_at (obj_of raw) ''path'')"
proof -
  obtain declared where dl: "declared_loop 0 files [] = ([], declared)"
    and m: "map_diags L declared (actual_files members []) = []"
    using assms(1) by (auto simp: validateFiles_def split: prod.splits)
  note D = declared_loop_ok [OF dl]
  then have decl: "declared = map (\<lambda>raw. (text_at (obj_of raw) ''path'', obj_of raw)) files" and "go_map declared"
    by auto
  have actual: "actual_files members []
      = map (\<lambda>f. (zf_Name f, f)) (filter (\<lambda>f. zf_Name f \<noteq> pack_ManifestName) members)" (is "_ = ?actual")
    using assms(2,3) by (subst actual_files_ok) auto
  have content: "\<exists>raw \<in> set files. text_at (obj_of raw) ''path'' = zf_Name f \<and> intact L (obj_of raw) f"
    if "f \<in> set members" "zf_Name f \<noteq> pack_ManifestName" for f
  proof -
    have "content_diags L declared (zf_Name f, f) = []"
      using m that unfolding map_diags_def actual by auto
    then obtain d b where "map_of declared (zf_Name f) = Some d" "readMember f maxExpandedBytes = Some b"
        "integer_of (lookup d ''size_bytes'') = Some (int (length b))" "pl_sha256 L b = text_at d ''sha256''"
      by (auto simp: content_diags_def split: option.splits)
    then have "intact L d f"
      by (auto simp: intact_def readMember_def split: option.splits if_splits)
    moreover from \<open>map_of declared (zf_Name f) = Some d\<close>
    have "\<exists>raw \<in> set files. text_at (obj_of raw) ''path'' = zf_Name f \<and> obj_of raw = d"
      unfolding decl by (force dest!: map_of_SomeD)
    ultimately show ?thesis by blast
  qed
  moreover have "\<exists>f \<in> set members. zf_Name f = text_at (obj_of raw) ''path''" if "raw \<in> set files" for raw
  proof -
    have "missing_diags ?actual (text_at (obj_of raw) ''path'') = []"
      using m that unfolding map_diags_def actual decl by auto
    then show ?thesis by (force simp: missing_diags_def dest!: map_of_SomeD)
  qed
  moreover have "distinct (map (\<lambda>raw. text_at (obj_of raw) ''path'') files)"
    using \<open>go_map declared\<close> by (simp add: decl comp_def)
  moreover have "\<forall>raw \<in> set files. text_at (obj_of raw) ''path'' \<in> set ancillary_paths" using D by blast
  ultimately show ?thesis by metis
qed

subsection \<open>Acceptance\<close>

text \<open>The manifest of an archive: what the text of the member under its name decodes to.\<close>

definition manifest_bytes :: "zip_file list \<Rightarrow> string option" where
  "manifest_bytes files = Option.bind (find (\<lambda>f. zf_Name f = pack_ManifestName) files) zf_content"

definition decoded_manifest :: "pack_lib \<Rightarrow> string \<Rightarrow> any_map option" where
  "decoded_manifest L b = (case decode_tokens (fst (pl_tokens L b)) of Some (Any_map m) \<Rightarrow> m | _ \<Rightarrow> None)"

definition first_scan :: member_scan where
  "first_scan = \<lparr>ms_seen = [], ms_manifest = None, ms_expanded = 0\<rparr>"

definition sizes :: "zip_file list \<Rightarrow> int" where
  "sizes files = (\<Sum>f\<leftarrow>files. uint (zf_UncompressedSize64 f))"

lemma accepted_pack:
  assumes "pr_Valid (PreviewZIP L data ver)"
  obtains files b m where "int (length data) \<le> MaxArchiveBytes" "pl_zip L data = Some files" "length files \<le> maxMembers"
    "\<forall>f \<in> set files. member_ok f" "distinct (map (\<lambda>f. ascii_lower (zf_Name f)) files)" "sizes files \<le> maxExpandedBytes"
    "manifest_bytes files = Some b" "int (length b) \<le> maxManifestBytes"
    "\<forall>f \<in> set files. zf_Name f = pack_ManifestName \<longrightarrow> readMember f maxManifestBytes = Some b"
    "rejectDuplicateJSONKeys (pl_tokens L b) = None" "decoded_manifest L b = Some m" "validateManifest L (Some m) files ver = []"
    "pr_Summary (PreviewZIP L data ver) = manifest_summary (Some m) (sizes files)"
proof -
  from assms obtain files where small: "int (length data) \<le> MaxArchiveBytes" "pl_zip L data = Some files" "length files \<le> maxMembers"
    by (auto simp: PreviewZIP_def split: if_splits option.splits)
  obtain ds st where sc: "scan_members files first_scan = (ds, st)" by (metis surj_pair)
  from assms small sc obtain f b m where ds: "ds = []" and f: "ms_manifest st = Some f" "readMember f maxManifestBytes = Some b"
    "rejectDuplicateJSONKeys (pl_tokens L b) = None" "decode_tokens (fst (pl_tokens L b)) = Some (Any_map (Some m))"
    "validateManifest L (Some m) files ver = []"
    by (auto simp: PreviewZIP_def Let_def first_scan_def split: if_splits option.splits walk_error.splits any.splits)
  have "pr_Summary (PreviewZIP L data ver) = manifest_summary (Some m) (ms_expanded st)"
    using small sc f by (auto simp: PreviewZIP_def Let_def first_scan_def finish_report_def maxManifestBytes_def readMember_def
        split: if_splits option.splits)
  moreover note scan_members_ok [OF sc [unfolded ds]]
  ultimately have scan: "\<forall>f \<in> set files. member_ok f" "distinct (map (\<lambda>f. ascii_lower (zf_Name f)) files)"
    "sizes files \<le> maxExpandedBytes" "find (\<lambda>f. zf_Name f = pack_ManifestName) files = Some f"
    "pr_Summary (PreviewZIP L data ver) = manifest_summary (Some m) (sizes files)"
    using f(1) by (auto simp: first_scan_def sizes_def maxExpandedBytes_def)
  have one: "g = f" if "g \<in> set files" "zf_Name g = pack_ManifestName" for g
  proof -
    from scan(4) have "f \<in> set files" "zf_Name f = pack_ManifestName" by (auto simp: find_Some_iff)
    then have "ascii_lower (zf_Name g) = ascii_lower (zf_Name f)" using that by simp
    with scan(2) that(1) \<open>f \<in> set files\<close> show ?thesis unfolding distinct_map by (auto dest: inj_onD)
  qed
  from f(2) have "zf_content f = Some b" "int (length b) \<le> maxManifestBytes"
    by (auto simp: readMember_def split: option.splits if_splits)
  with scan small f one show thesis
    by (intro that [of files b m]) (auto simp: manifest_bytes_def decoded_manifest_def)
qed

subsection \<open>The report does not depend on the order of maps\<close>

definition diag_key :: "Diagnostic \<Rightarrow> string \<times> string" where
  "diag_key d = (dg_Path d, dg_Code d)"

lemma sorted_report: "foldr place_diag ds [] = sort_key diag_key ds"
proof -
  have less: "diag_less e d \<longleftrightarrow> diag_key e < diag_key d" for d e
    by (auto simp: diag_less_def diag_key_def less_prod_def')
  have "place_diag d es = insort_key diag_key d es" for d es
    by (induction es) (simp_all add: less not_less [symmetric] del: not_less)
  then have "place_diag = insort_key diag_key" by (intro ext)
  then show ?thesis by (simp add: sort_key_def)
qed

lemma report_order:
  assumes "mset xs = mset ys" and "distinct (map diag_key xs)"
  shows "finish_report s (ds @ xs) = finish_report s (ds @ ys)"
proof -
  have dy: "distinct (map diag_key ys)" using assms by (metis mset_map mset_eq_imp_distinct_iff)
  have at_most: "filter (\<lambda>x. k = diag_key x) zs = (case find (\<lambda>x. k = diag_key x) zs of None \<Rightarrow> [] | Some z \<Rightarrow> [z])"
    if "distinct (map diag_key zs)" for k zs
    using that by (induction zs) (auto simp: filter_empty_conv)
  have same: "filter (\<lambda>x. k = diag_key x) xs = filter (\<lambda>x. k = diag_key x) ys" for k
  proof -
    have "mset (filter (\<lambda>x. k = diag_key x) xs) = mset (filter (\<lambda>x. k = diag_key x) ys)"
      using assms(1) by (simp add: mset_filter)
    then show ?thesis using at_most [OF assms(2), of k] at_most [OF dy, of k] by (auto split: option.splits)
  qed
  have "sort_key diag_key (ds @ xs) = sort_key diag_key (ds @ ys)"
  proof (rule properties_for_sort_key)
    show "mset (sort_key diag_key (ds @ ys)) = mset (ds @ xs)" using assms(1) by simp
    show "filter (\<lambda>x. diag_key k = diag_key x) (sort_key diag_key (ds @ ys)) = filter (\<lambda>x. diag_key k = diag_key x) (ds @ xs)" for k
      using same [of "diag_key k"] sort_key_stable [of diag_key "diag_key k" "ds @ ys"]
      by (simp add: eq_commute [of "diag_key k"])
  qed simp
  moreover have "(xs = []) = (ys = [])" using assms(1) by (metis mset_zero_iff)
  ultimately show ?thesis by (simp add: finish_report_def sorted_report del: foldr_append)
qed

lemma content_codes:
  "distinct (map diag_key (content_diags L declared (name, f)))
   \<and> (\<forall>d \<in> set (content_diags L declared (name, f)). dg_Path d = name
        \<and> dg_Code d \<in> {''canon_pack_unlisted_member'', ''canon_pack_member_read_failed'', ''canon_pack_file_size_mismatch'',
             ''canon_pack_file_checksum_mismatch''})"
  by (auto simp: content_diags_def diag_def diag_if_def diag_key_def split: option.splits)

lemma map_diags_keys:
  assumes "go_map declared" and "go_map actual"
  shows "distinct (map diag_key (map_diags L declared actual))"
proof -
  have "distinct (map diag_key (concat (map (content_diags L declared) actual)))"
    using assms(2)
  proof (induction actual)
    case (Cons nf actual)
    obtain name f where nf: "nf = (name, f)" by (cases nf)
    have "diag_key d \<noteq> diag_key e" if "d \<in> set (content_diags L declared nf)" "mg \<in> set actual" "e \<in> set (content_diags L declared mg)"
      for d e mg
    proof -
      obtain m g where mg: "mg = (m, g)" by (cases mg)
      have "dg_Path d = name" "dg_Path e = m" using that content_codes nf mg by blast+
      moreover have "m \<noteq> name" using Cons.prems that(2) nf mg by (auto simp: image_iff)
      ultimately show ?thesis by (simp add: diag_key_def)
    qed
    then have "set (map diag_key (content_diags L declared nf)) \<inter> set (map diag_key (concat (map (content_diags L declared) actual))) = {}"
      by fastforce
    with Cons content_codes [of L declared name f] nf show ?case by simp
  qed simp
  moreover have "distinct (map diag_key (concat (map (missing_diags actual \<circ> fst) declared)))"
    using assms(1)
  proof (induction declared)
    case (Cons d declared)
    then have "fst d \<notin> fst ` set declared" by simp
    with Cons show ?case by (auto simp: missing_diags_def diag_if_def diag_def diag_key_def image_iff)
  qed simp
  moreover have "dg_Code d \<noteq> dg_Code e" if "d \<in> set (concat (map (content_diags L declared) actual))"
    "e \<in> set (concat (map (missing_diags actual \<circ> fst) declared))" for d e
    using that content_codes [of L declared] by (fastforce simp: missing_diags_def diag_if_def diag_def split: if_splits)
  ultimately show ?thesis
    unfolding map_diags_def by (auto simp: diag_key_def)
qed

lemma map_diags_permuted:
  fixes declared declared' :: "(string \<times> any_map option) list" and actual actual' :: "(string \<times> zip_file) list"
  assumes "go_map declared" and "go_map actual" and "mset declared' = mset declared" and "mset actual' = mset actual"
  shows "mset (map_diags L declared actual) = mset (map_diags L declared' actual')"
proof -
  have "go_map declared'" "go_map actual'"
    using assms by (metis mset_map mset_eq_imp_distinct_iff)+
  then have "map_of declared' = map_of declared" "map_of actual' = map_of actual"
    using assms map_of_inject_set set_mset_mset by metis+
  then have "content_diags L declared' = content_diags L declared" "missing_diags actual' = missing_diags actual"
    by (auto simp: content_diags_def missing_diags_def fun_eq_iff)
  then show ?thesis
    using assms(3,4) by (simp add: map_diags_def mset_concat) (metis mset_map sum_mset_sum_list)
qed

subsection \<open>Reading the manifest's text\<close>

text \<open>The tokens of a JSON value, and the value in Go; both keep the members in their order.\<close>

fun json_tokens :: "json \<Rightarrow> json_token list"
  and member_tokens :: "(string \<times> json) list \<Rightarrow> json_token list"
  and item_tokens :: "json list \<Rightarrow> json_token list" where
  "json_tokens JNull = [Plain_token Any_nil]"
| "json_tokens (JBool b) = [Plain_token (Any_bool b)]"
| "json_tokens (JNum t) = [Plain_token (Any_number t)]"
| "json_tokens (JStr s) = [Text_token s]"
| "json_tokens (JArr js) = Open_array # item_tokens js @ [Close_array]"
| "json_tokens (JObj ms) = Open_object # member_tokens ms @ [Close_object]"
| "member_tokens [] = []"
| "member_tokens ((k, j) # ms) = Text_token k # json_tokens j @ member_tokens ms"
| "item_tokens [] = []"
| "item_tokens (j # js) = json_tokens j @ item_tokens js"

fun json_value_of :: "json \<Rightarrow> any"
  and member_values :: "(string \<times> json) list \<Rightarrow> any_map"
  and item_values :: "json list \<Rightarrow> any list" where
  "json_value_of JNull = Any_nil"
| "json_value_of (JBool b) = Any_bool b"
| "json_value_of (JNum t) = Any_number t"
| "json_value_of (JStr s) = Any_text s"
| "json_value_of (JArr js) = Any_list (item_values js)"
| "json_value_of (JObj ms) = Any_map (Some (member_values ms))"
| "member_values [] = []"
| "member_values ((k, j) # ms) = (k, json_value_of j) # member_values ms"
| "item_values [] = []"
| "item_values (j # js) = json_value_of j # item_values js"

fun unique_keys :: "json \<Rightarrow> bool"
  and unique_members :: "string list \<Rightarrow> (string \<times> json) list \<Rightarrow> bool"
  and unique_items :: "json list \<Rightarrow> bool" where
  "unique_keys (JArr js) = unique_items js"
| "unique_keys (JObj ms) = unique_members [] ms"
| "unique_keys _ = True"
| "unique_members seen [] = True"
| "unique_members seen ((k, j) # ms) = (k \<notin> set seen \<and> unique_keys j \<and> unique_members (k # seen) ms)"
| "unique_items [] = True"
| "unique_items (j # js) = (unique_keys j \<and> unique_items js)"

text \<open>The first token of a value is no closing delimiter.\<close>

lemma json_tokens_start: "\<exists>t ts. json_tokens j = t # ts \<and> t \<noteq> Close_object \<and> t \<noteq> Close_array"
  by (cases j) auto

lemma more_value [simp]: "has_more (json_tokens j @ rest)"
  using json_tokens_start [of j] by auto

text \<open>With enough fuel the walk accepts a value without repeated keys, and stops at the first repeated one.\<close>

definition walk_result :: "bool \<Rightarrow> json_token list \<Rightarrow> (walk_error + json_token list) option \<Rightarrow> bool" where
  "walk_result ok rest r \<longleftrightarrow> (if ok then r = Some (Inr rest) else \<exists>k. r = Some (Inl (Duplicate_key k)))"

lemma walk_value:
  shows "length (json_tokens j) < n \<Longrightarrow> walk_result (unique_keys j) rest (walk n e (json_tokens j @ rest))"
    and "length (member_tokens ms) + 1 < n \<Longrightarrow>
      walk_result (unique_members seen ms) rest (walk_members n e seen (member_tokens ms @ Close_object # rest))"
    and "length (item_tokens js) + 1 < n \<Longrightarrow>
      walk_result (unique_items js) rest (walk_items n e (item_tokens js @ Close_array # rest))"
proof (induction j and ms and js arbitrary: n rest and n rest seen and n rest
    rule: json_tokens_member_tokens_item_tokens.induct)
  case (5 js)
  then obtain m where n: "n = Suc m" by (cases n) auto
  with "5.prems" "5.IH" [of m rest] show ?case by simp
next
  case (6 ms)
  then obtain m where n: "n = Suc m" by (cases n) auto
  with "6.prems" "6.IH" [of m "[]" rest] show ?case by simp
next
  case (8 k j ms)
  then obtain m where n: "n = Suc m" by (cases n) auto
  with "8.prems" have "length (json_tokens j) < m" "length (member_tokens ms) + 1 < m" by simp_all
  from "8.IH"(1) [OF this(1), of "member_tokens ms @ Close_object # rest"] "8.IH"(2) [OF this(2), of "k # seen" rest]
  show ?case by (auto simp: n walk_result_def split: if_splits)
next
  case (10 j js)
  then obtain m where n: "n = Suc m" by (cases n) auto
  have "json_tokens j \<noteq> []" using json_tokens_start [of j] by auto
  with n "10.prems" have "length (json_tokens j) < m" "length (item_tokens js) + 1 < m" by (auto simp: neq_Nil_conv)
  from "10.IH"(1) [OF this(1), of "item_tokens js @ Close_array # rest"] "10.IH"(2) [OF this(2), of rest]
  show ?case by (auto simp: n walk_result_def split: if_splits)
qed (auto simp: walk_result_def gr0_conv_Suc less_Suc_eq_0_disj elim!: less_natE)

lemma unique_members_set: "set seen = set seen' \<Longrightarrow> unique_members seen ms = unique_members seen' ms"
proof (induction ms arbitrary: seen seen')
  case (Cons kj ms)
  have "unique_members (fst kj # seen) ms = unique_members (fst kj # seen') ms"
    by (rule Cons.IH) (use Cons.prems in simp)
  then show ?case using Cons.prems by (cases kj) simp
qed simp

lemma read_value_tokens:
  shows "length (json_tokens j) < n \<Longrightarrow> unique_keys j \<Longrightarrow> read_value n (json_tokens j @ rest) = Some (json_value_of j, rest)"
    and "length (member_tokens ms) + 1 < n \<Longrightarrow> unique_members (map fst m) ms \<Longrightarrow>
      read_members n m (member_tokens ms @ Close_object # rest) = Some (m @ member_values ms, rest)"
    and "length (item_tokens js) + 1 < n \<Longrightarrow> unique_items js \<Longrightarrow>
      read_items n (item_tokens js @ Close_array # rest) = Some (item_values js, rest)"
proof (induction j and ms and js arbitrary: n rest and n rest m and n rest
    rule: json_tokens_member_tokens_item_tokens.induct)
  case (5 js)
  then obtain l where n: "n = Suc l" by (cases n) auto
  with "5.prems" "5.IH" [of l rest] show ?case by simp
next
  case (6 ms)
  then obtain l where n: "n = Suc l" by (cases n) auto
  with "6.prems" "6.IH" [of l "[]" rest] show ?case by simp
next
  case (8 k j ms)
  then obtain l where n: "n = Suc l" by (cases n) auto
  with "8.prems" have len: "length (json_tokens j) < l" "length (member_tokens ms) + 1 < l" by simp_all
  have u: "unique_keys j" "unique_members (map fst (m @ [(k, json_value_of j)])) ms" and fresh: "map_of m k = None"
    using "8.prems"(2) unique_members_set [of "k # map fst m" "map fst (m @ [(k, json_value_of j)])" ms]
    by (auto simp: map_of_eq_None_iff)
  from fresh have "map_put k (json_value_of j) m = m @ [(k, json_value_of j)]"
    by (simp add: map_put_def map_remove_absent)
  with "8.IH"(1) [OF len(1) u(1), of "member_tokens ms @ Close_object # rest"] "8.IH"(2) [OF len(2) u(2), of rest]
  show ?case by (simp add: n)
next
  case (10 j js)
  then obtain l where n: "n = Suc l" by (cases n) auto
  obtain t ts where t: "json_tokens j = t # ts" "t \<noteq> Close_array" using json_tokens_start [of j] by auto
  with n "10.prems" have "length (json_tokens j) < l" "length (item_tokens js) + 1 < l" by auto
  with "10.IH"(1) [of l "item_tokens js @ Close_array # rest"] "10.IH"(2) [of l rest] "10.prems"(2)
  have "read_value l (t # ts @ item_tokens js @ Close_array # rest) = Some (json_value_of j, item_tokens js @ Close_array # rest)"
    "read_items l (item_tokens js @ Close_array # rest) = Some (item_values js, rest)"
    by (simp_all add: t)
  with t show ?case by (cases t) (simp_all add: n del: read_value.simps)
qed (auto simp: gr0_conv_Suc less_Suc_eq_0_disj elim!: less_natE)

text \<open>Fuel above twice the number of tokens is enough for any stream, also for one that breaks off.\<close>

lemma walk_consumes:
  shows "walk n e ts = Some (Inr us) \<Longrightarrow> length us < length ts"
    and "walk_members n e seen ts = Some (Inr us) \<Longrightarrow> length us < length ts"
    and "walk_items n e ts = Some (Inr us) \<Longrightarrow> length us < length ts"
proof (induction n e ts and n e seen ts and n e ts arbitrary: us and us and us rule: walk_walk_members_walk_items.induct)
  case (3 n e t ts)
  then show ?case by (cases t) (auto dest: less_SucI)
next
  case (5 n e seen ts)
  then show ?case
    by (cases ts) (fastforce split: if_splits json_token.splits option.splits sum.splits dest: less_trans)+
next
  case (7 n e ts)
  then show ?case
    by (cases ts) (fastforce split: if_splits option.splits sum.splits dest: less_trans)+
qed auto

lemma walk_enough_fuel:
  shows "2 * length ts < n \<Longrightarrow> walk n e ts \<noteq> None"
    and "2 * length ts + 1 < n \<Longrightarrow> walk_members n e seen ts \<noteq> None"
    and "2 * length ts + 1 < n \<Longrightarrow> walk_items n e ts \<noteq> None"
proof (induction n e ts and n e seen ts and n e ts rule: walk_walk_members_walk_items.induct)
  case (3 n e t ts)
  then show ?case by (cases t) auto
next
  case (5 n e seen ts)
  show ?case
  proof (cases "has_more ts")
    case True
    then obtain t us where ts: "ts = t # us" by (cases ts) auto
    have "walk_members n e (key # seen) vs \<noteq> None" if "t = Text_token key" "key \<notin> set seen" "walk n e us = Some (Inr vs)" for key vs
      using "5.IH"(2) [of key "Inr vs" vs] that True walk_consumes(1) [OF that(3)] "5.prems" by (simp add: ts)
    moreover have "walk n e us \<noteq> None" if "t = Text_token key" "key \<notin> set seen" for key
      using "5.IH"(1) [of key] that True "5.prems" by (simp add: ts)
    ultimately show ?thesis using True by (auto simp: ts split: json_token.splits option.splits sum.splits)
  qed (cases ts; simp)
next
  case (7 n e ts)
  show ?case
  proof (cases "has_more ts")
    case True
    have "walk_items n e us \<noteq> None" if "walk n e ts = Some (Inr us)" for us
      using "7.IH"(2) [of "Inr us" us] that True walk_consumes(1) [OF that] "7.prems" by simp
    moreover have "walk n e ts \<noteq> None" using "7.IH"(1) True "7.prems" by simp
    ultimately show ?thesis using True by (auto split: option.splits sum.splits)
  qed (cases ts; simp)
qed simp_all

text \<open>The text of a manifest is accepted exactly if no object in it repeats a key, and then decoded to its value.\<close>

lemma manifest_text:
  assumes "s = (json_tokens j, None)"
  shows "(rejectDuplicateJSONKeys s = None) = unique_keys j"
    and "\<not> unique_keys j \<Longrightarrow> \<exists>k. rejectDuplicateJSONKeys s = Some (Duplicate_key k)"
    and "unique_keys j \<Longrightarrow> decode_tokens (fst s) = Some (json_value_of j)"
  using walk_value(1) [of j "Suc (2 * length (json_tokens j))" "[]" None]
    read_value_tokens(1) [of j "Suc (2 * length (json_tokens j))" "[]"]
  by (auto simp: assms rejectDuplicateJSONKeys_def decode_tokens_def walk_result_def split: if_splits)

subsection \<open>Trust, review and versions\<close>

lemma trust_ok: "trust_diags trust = [] \<Longrightarrow> text_at trust ''status'' = ''unsigned_local''"
  by (auto simp: trust_diags_def Let_def oneOf_def signed_states_def List.member_iff split: if_splits)

lemma review_ok:
  assumes "review_diags L pack review = []"
  shows "text_at pack ''status'' = ''published'' \<longrightarrow> text_at review ''status'' = ''approved''"
    and "text_at review ''status'' = ''approved'' \<longrightarrow> text_at review ''admission_basis'' = ''evidence_validated_batch''
      \<or> text_at review ''admission_basis'' \<in> {''human_review'', ''trusted_pack_review''} \<and> arr_of (lookup review ''reviewers'') \<noteq> []"
  using assms by (auto simp: review_diags_def Let_def oneOf_def List.member_iff split: if_splits)

lemma compatibility_ok:
  assumes "validateCompatibility v current = []"
  defines "lo \<equiv> text_at (obj_of (lookup v ''archive_center'')) ''minimum_version''"
    and "hi \<equiv> text_at (obj_of (lookup v ''archive_center'')) ''maximum_version_exclusive''"
  shows "semverRE current" and "semverRE lo" and "hi \<noteq> [] \<longrightarrow> semverRE hi"
    and "numbers_fit current \<and> numbers_fit lo \<longrightarrow> semver_key lo \<le> semver_key current"
    and "hi \<noteq> [] \<and> numbers_fit current \<and> numbers_fit hi \<longrightarrow> semver_key current < semver_key hi"
proof -
  from assms(1) have c: "semverRE current" "semverRE lo" "hi \<noteq> [] \<longrightarrow> semverRE hi" "\<not> compareSemver current lo < 0"
    "hi \<noteq> [] \<longrightarrow> compareSemver current hi < 0"
    by (auto simp: validateCompatibility_def Let_def lo_def hi_def validateSemver_def split: if_splits)
  then show "semverRE current" "semverRE lo" "hi \<noteq> [] \<longrightarrow> semverRE hi" by blast+
  show "numbers_fit current \<and> numbers_fit lo \<longrightarrow> semver_key lo \<le> semver_key current"
    using c(4) semver_order [OF c(1) _ c(2)] by (auto simp: sign_of_def not_less split: if_splits)
  show "hi \<noteq> [] \<and> numbers_fit current \<and> numbers_fit hi \<longrightarrow> semver_key current < semver_key hi"
    using c(3,5) semver_order [OF c(1)] by (auto simp: sign_of_def split: if_splits)
qed

subsection \<open>Inspection\<close>

lemma find_manifest_found:
  assumes "manifest_bytes files = Some b"
    and "\<forall>f \<in> set files. zf_Name f = pack_ManifestName \<longrightarrow> readMember f maxManifestBytes = Some b"
  shows "find_manifest L files i = (i\<lparr>in_ManifestSHA256 := pl_sha256 L b, in_ManifestJSON := b\<rparr>, None)"
  using assms
proof (induction files)
  case (Cons f fs)
  then show ?case by (cases "zf_Name f = pack_ManifestName") (auto simp: manifest_bytes_def)
qed (simp add: manifest_bytes_def)

end
