(* ===== verification/Spec2Isabelle.thy ===== *)
theory Spec2Isabelle
  imports Turn_Outcomes Store_Contracts Shared_Caches Vector_Fence Rollback_Routes Update_Checks Admin_Job_Streams Shadow_Verdicts Body_Cycle Body_Draw Canon_Accepted
begin

text \<open>
  Archive Center keeps the long-term memory of a role-playing chat: a browser plugin
  (\<open>Archive Center.js\<close>) sends every finished turn to a Go service (\<open>go-service\<close>), which
  extracts facts from it, stores them in MariaDB and in a vector index, and answers later turns
  with what is relevant. This library models the parts of the Go service that decide whether a
  turn is processed once, what a rollback deletes, where a write goes, who may touch the vector index
  at the same time, how background jobs run and are observed, how two backends are compared, how
  the service replaces its own files, and which canon packs it accepts; and the arithmetic of its body model. A name in a theory is the name of the function, method or type it translates, with a
  suffix or prefix where HOL has that name already.

  \<^bold>\<open>Prelude.\<close> \<open>Archive_Prelude\<close>: strings as byte lists, \<open>time.Time\<close> as nanoseconds,
  64-bit counters as words, \<open>error\<close> values as the datatype \<open>go_error\<close>, a method with an error
  result as a state function \<open>('st, 'r) meth\<close>, Go maps as association lists in iteration order.
  White space is trimmed with fuel equal to the length of the string; \<open>trim_left_fuel_done\<close>
  shows that this is enough.

  \<^bold>\<open>Completing a turn once\<close> (\<open>internal/httpapi/complete_turn_idempotency.go\<close>).
  \<^item> \<open>Turn_Response\<close>: the response buffer of a handler run, the response recorded of it, the state
    \<open>json.Unmarshal\<close> reads back from its body, and the decisions taken from that state. A body is
    the list of JSON documents written to it; the concrete syntax of JSON belongs to the standard
    library.
  \<^item> \<open>Turn_Ledger\<close>: \<open>completeTurnRequestLedger\<close>. Entries are shared by pointer, so the record
    \<open>request_ledger\<close> has a heap of entries beside the map from keys to addresses; \<open>close\<close> of a
    closed channel sets \<open>led_panicked\<close>. \<open>ledger_ok\<close> is the invariant of every operation. Capacity is
    the code's 1024 entries.
  \<^item> \<open>Turn_Requests\<close>: \<open>executeCompleteTurnIdempotent\<close> as the step relation \<open>request_step\<close> over any
    number of concurrent requests (arrive, enter, wait, cancel, return, panic, report, and the
    goroutine that watches a cancelled owner), one step per critical section of the ledger's
    mutex; the status route \<open>request_status_answer\<close>. The locale \<open>run_registry\<close> states what a table
    of runs owes its clients; \<open>turn_runs\<close> interprets it on the ledger.
  \<^item> \<open>Turn_Outcomes\<close>: what becomes of an outcome over every interleaving: pinned outcomes stay,
    and why an entry leaves.

  \<^bold>\<open>Rolling a chat back to a turn\<close> (\<open>internal/httpapi/group_turn_range_decision.go\<close> and
  \<open>group_turn_rollback.go\<close>).
  \<^item> \<open>Rollback_Decision\<close>: \<open>calculateRollbackDecision\<close> (the refusals in their order, the imported
    boundary, the first turn to delete) and \<open>rollbackDecisionLedger\<close>, the table of one-use decision
    tokens, with the code's capacity of 1024; histories of issued and presented tokens.
  \<^item> \<open>Deletion_Evidence\<close>: the replies the plugin still sees, normalised and matched with the stored
    ones (with the content hash \<open>prepareOR1CHash\<close>, from bytes over runes to UTF-16 units), and
    \<open>verifyRollbackAssistantDeletionEvidence\<close>. The SHA-256 digest of the observations, the
    identities \<open>completeTurnInputGroupLogicalIDs\<close> derives for a pending input, and the acceptance
    journal read from the audit log are arguments.
  \<^item> \<open>Rollback_Routes\<close>: \<open>handleRollbackDecision\<close>, which gathers what the store knows, decides and
    issues a token, and the head of \<open>handleRollback\<close>, which redeems it. The store's interfaces for
    session routes are the record \<open>rollback_extensions\<close>.

  \<^bold>\<open>Updating the package\<close> (\<open>internal/packageupdate/update.go\<close>).
  \<^item> \<open>Package_Paths\<close>: the names a package may manage, names of archive entries, versions and their
    order, on a system whose path separator is the slash.
  \<^item> \<open>Update_Disk\<close>: the disk as a map from paths to files, directories and links, a file's content being
    the document its bytes decode as; every change is a step, and a list of faults says which steps
    run, are refused or see the process killed. On them the file operations \<open>copyFile\<close>, \<open>replaceFile\<close>,
    \<open>writeJSONAtomic\<close>. \<open>touches S m\<close> says that \<open>m\<close> changes only files in \<open>S\<close>, \<open>after P m Q\<close> is a
    triple that holds for all faults.
  \<^item> \<open>Package_Update\<close>: the documents of the updater and their checks, the archive, the checks of a
    candidate. \<open>Update_Transaction\<close>: \<open>applyPending\<close>, \<open>Commit\<close>, \<open>Rollback\<close>, \<open>Status\<close>. \<open>Update_Checks\<close>:
    \<open>PreflightCandidate\<close> and \<open>ValidateInstalledApplyHelper\<close>. SHA-256 with the size of a file is the
    argument \<open>hash\<close>; the clock, the names of temporary directories and the working directory are
    arguments too.
  \<^item> \<open>Update_Recovery\<close>: a disk is recoverable if no update is recorded as under way and the package is
    as it was (\<open>idle_disk\<close>), or the recorded journal covers every changed file and has its backup
    (\<open>active_disk\<close>); rolling back keeps that and ends in the first case if it reports no error.
    \<open>Update_Apply\<close>: the same of the transaction, and what a finished one has installed.
    \<open>Update_Contents\<close>: the locale \<open>content_law\<close>, no operation brings contents that were not there.
    \<open>Update_Candidate\<close>: the names of an accepted candidate differ. \<open>Update_History\<close>: sequences of calls,
    commits. \<open>Update_Outcome\<close>: what a reported success means.

  \<^bold>\<open>Where a write goes\<close> (\<open>internal/store\<close>).
  \<^item> \<open>Store_Types\<close>, \<open>Store_Api\<close>: every record of the store's data and every interface a store can
    implement, as a record of methods; \<open>Store\<close> has the required methods and, for each optional
    interface a client asks for by type assertion, a field that is \<open>None\<close> when the assertion
    fails. A method that writes into the record behind a pointer argument returns that record.
  \<^item> \<open>Store_Calls\<close>: the calls of the interface as data, so that theorems speak of sequences of calls.
  \<^item> \<open>Dual_Write\<close>, \<open>Dual_Store\<close> (\<open>dualwrite.go\<close>): the state \<open>dual\<close> (both delegates' states, the
    failure counter, the last error), the shapes that the methods share, and all methods of
    \<open>dualWriteStore\<close> as instances of them.
  \<^item> \<open>Noop_Store\<close> (\<open>noop.go\<close>), \<open>Read_Only\<close> (\<open>readonly.go\<close>): the other two stores of the package
    that need no database.
  \<^item> \<open>Store_Contracts\<close>: the interfaces as locales (\<open>primary_decides\<close> and \<open>reading_store\<close>) and their
    interpretations; sequences of calls are answered as the primary would answer them, whatever
    the shadow does.

  \<^bold>\<open>Shared state of the process\<close> (\<open>internal/concurrency\<close>). \<open>Shared_Caches\<close>: the rate limiter, the
  session cache, the token cache and the shared flags. Each method is one critical section of a
  mutex, hence one function on the state; the caches interpret the locale \<open>expiring_cache\<close>.

  \<^bold>\<open>The vector index\<close> (\<open>internal/vector\<close>). \<open>Vector_Fence\<close>: the in-memory store of \<open>fake.go\<close>, and the
  reader-writer fence of \<open>mutation_fence.go\<close> as the step relation \<open>fence_step\<close> over any number of
  processes and any delegate; the locale \<open>fenced\<close> is interpreted on the in-memory store.

  \<^bold>\<open>Background jobs\<close> (\<open>internal/httpapi/admin_jobs.go\<close>).
  \<^item> \<open>Dynamic_Values\<close>: a Go value of type \<open>any\<close> with the types the code puts there, maps from strings
    to such values, the conversions \<open>stringFromAny\<close>, \<open>intFromAny\<close>, \<open>uint64FromAny\<close>, and times as text.
    A \<open>float64\<close> is its 64 bits.
  \<^item> \<open>Admin_Jobs\<close>: \<open>adminJobManager\<close> with every method (start, update, finish, cancel, prune, list,
    observe) and the three routes. The channel of a job's next change is a number, and \<open>am_closed\<close>
    lists the closed ones; the loop of an event stream is the state \<open>event_stream\<close> with the turn
    \<open>events_turn\<close>. The code's bound of 80 jobs.
  \<^item> \<open>Admin_Job_Runs\<close>: the step relation \<open>jobs_step\<close> over any number of starts, workers, cancellations
    and streams, one step per critical section; its invariants. Fewer than \<open>2 ^ 64\<close> jobs are started.
  \<^item> \<open>Admin_Job_Streams\<close>: the locale \<open>change_feed\<close>, what an observer needs of a source of changes, interpreted
    on the manager; workers and streams over every interleaving. An ending of two turns is counted by
    \<open>counted_run\<close>, since no scheduler is assumed to be fair.

  \<^bold>\<open>Comparing two backends\<close> (\<open>internal/compare\<close>).
  \<^item> \<open>Shadow_Compare\<close>: the allow-list of routes, the bounded comparison of decoded JSON, and the probes with
    their verdicts and totals. The network is the parameter \<open>transport\<close> with a state of its own; the text of
    a scalar and the \<open>float64\<close> of a number are the parameters \<open>compare_lib\<close>.
  \<^item> \<open>Shadow_Verdicts\<close>: the unbounded list of all differences as the reference, and equality of JSON values.

  \<^bold>\<open>The body model\<close> (\<open>internal/httpapi/body_cycle.go\<close>, \<open>body_pregnancy_model.go\<close>).
  \<^item> \<open>Body_Cycle\<close>: the estimate of the position in a cycle from bounds on the elapsed days; the reference
    is the set of histories of cycles of admissible lengths.
  \<^item> \<open>Body_Draw\<close>: rejection sampling over hashes, as a \<open>partial_function\<close>, since the loop has no bound;
    the hash of an attempt is a parameter.

  \<^bold>\<open>Canon packs\<close> (\<open>internal/canonpack/preview.go\<close>).
  \<^item> \<open>Canon_Versions\<close>: the regular expressions, the parsing and comparison of versions, and as the
    reference the order of keys \<open>semver_key\<close>.
  \<^item> \<open>Canon_Pack\<close>: the members of an archive, the check of the manifest's text for repeated keys and
    its decoding. The list of diagnostics is what the code collects, in order. The walk over the tokens
    has fuel above twice their number, which \<open>walk_enough_fuel\<close> shows to be enough. What the standard
    library makes of ZIP bytes, JSON text, times and URLs is the parameter \<open>pack_lib\<close>.
  \<^item> \<open>Canon_Manifest\<close>: every check of a manifest, \<open>PreviewZIP\<close> and \<open>InspectZIP\<close>.
  \<^item> \<open>Canon_Accepted\<close>: what an empty list of diagnostics means, part by part; the order of the report;
    the reading of the tokens that spell a JSON value.

  \<^bold>\<open>The properties\<close> C1 to C4 are about turns, C5 to C7 about rollbacks of a chat, C8 to C14 about
  package updates, C15 to C21 about background jobs, C22 and C23 about the store decorators, C24 to C26
  about the vector store, C27 to C30 about the comparison of backends, C31 to C33 about the body
  model and C34 to C40 about canon packs. Theorems of the root without a number state further facts
  of the same parts.

  \<^bold>\<open>Not modelled.\<close> The MariaDB implementation of the store (\<open>mariadb_*.go\<close>: SQL text sent to a
  database), the Chroma client (HTTP), the prompts and the HTTP handlers of the memory pipeline,
  session migration, the routes of canon packs, configuration, story dates, the markdown reports, and the browser plugin.
  Case folding is that of ASCII letters. Locks are represented by
  the atomicity of the steps; the Go memory model and fairness of the scheduler are not. The disk
  of the updater keeps the order of the steps: a loss of power that reorders writes is not
  represented, nor are other processes that change the package meanwhile.
\<close>

section \<open>The turn ledger\<close>

text \<open>
  A short trace for the witnesses: request 0 arrives, owns the entry of key \<open>''k''\<close>, and its
  handler returns \<open>r\<close>.
\<close>

definition sample_running :: request_system where
  "sample_running =
     (let l = register_entry ''k'' ''f'' newCompleteTurnRequestLedger
      in set_pc 0 (Running ''k'' 0)
           ((set_pc 0 (Arrived ''k'' ''f'') initial_system)
              \<lparr>sys_ledger := l, sys_watch := [0 \<mapsto> (''k'', 0)]\<rparr>))"

definition sample_returned :: "recorded_response \<Rightarrow> request_system" where
  "sample_returned r = set_pc 0 (Returned ''k'' 0 r) sample_running"

lemma sample_enter:
  "enter_request ''k'' ''f'' newCompleteTurnRequestLedger =
     (Running ''k'' 0, register_entry ''k'' ''f'' newCompleteTurnRequestLedger)"
  by (simp add: enter_request_def begin_cases make_room_def lookup_entry_def
      newCompleteTurnRequestLedger_def completeTurnRequestMax_def)

lemma sample_running_pc: "sys_pcs sample_running 0 = Some (Running ''k'' 0)"
  by (simp add: sample_running_def set_pc_def Let_def)

lemma sample_returned_pc: "sys_pcs (sample_returned r) 0 = Some (Returned ''k'' 0 r)"
  by (simp add: sample_returned_def set_pc_def)

lemma sample_running_reachable: "reachable_system sample_running"
proof -
  let ?s = "set_pc 0 (Arrived ''k'' ''f'') initial_system"
  have "reachable_system ?s"
    by (rule reachable_step [OF reachable_initial], rule arrive) (simp add: initial_system_def)
  moreover have "request_step ?s sample_running"
    using enter [of ?s 0 "''k''" "''f''" "Running ''k'' 0" "register_entry ''k'' ''f'' newCompleteTurnRequestLedger"]
      sample_enter
    by (simp add: sample_running_def set_pc_def initial_system_def Let_def)
  ultimately show ?thesis by (rule reachable_step)
qed

lemma sample_returned_reachable: "reachable_system (sample_returned r)"
  unfolding sample_returned_def
  by (rule reachable_step [OF sample_running_reachable], rule run_returns) (rule sample_running_pc)

lemma sample_lookup:
  "lookup_entry (sys_ledger sample_running) ''k'' = Some 0"
  "lookup_entry (sys_ledger (sample_returned r)) ''k'' = Some 0"
  by (simp_all add: sample_running_def sample_returned_def Let_def lookup_entry_def register_entry_def
      newCompleteTurnRequestLedger_def set_pc_def)

text \<open>
  C1: For one idempotency key at most one handler runs at a time, in every interleaving of
  arrivals, returns, panics, cancellations and evictions: two processes that are between owning
  an entry and reporting its response, for the same key, are the same process.
\<close>

theorem one_run_per_key:
  assumes "reachable_system s" and "sys_runs s t = Some (key, a)" and "sys_runs s u = Some (key, b)"
  shows "t = u \<and> a = b"
  using system_okD(3) [OF reachable_system_ok [OF assms(1)] assms(2,3)] assms(2,3) by simp

theorem one_run_per_key_witness: "sys_runs sample_running 0 = Some (''k'', 0)"
  using one_run_per_key [OF sample_running_reachable, of 0 "''k''" 0 0 0] sample_running_pc
  by (simp add: sys_runs_def)

text \<open>
  C2: The ledger never closes a channel twice (which would panic), never holds more than 1024
  entries, has no entry under the empty key, and an entry's channel is closed exactly when the
  entry is finished.
\<close>

theorem ledger_never_panics:
  assumes "reachable_system s"
  shows "\<not> led_panicked (sys_ledger s) \<and> length (led_entries (sys_ledger s)) \<le> 1024
    \<and> lookup_entry (sys_ledger s) [] = None
    \<and> (\<forall>e \<in> set (led_heap (sys_ledger s)). ent_done_closed e = ent_finished e)"
proof -
  have ok: "ledger_ok (sys_ledger s)"
    by (rule system_okD(1) [OF reachable_system_ok [OF assms]])
  have "lookup_entry (sys_ledger s) [] = None"
    using ledger_okD(3) [OF ok, of "[]"] by (cases "lookup_entry (sys_ledger s) []") auto
  with ok show ?thesis by (auto simp: ledger_ok_def completeTurnRequestMax_def)
qed

theorem ledger_never_panics_witness: "\<not> led_panicked (sys_ledger sample_running)"
  using ledger_never_panics [OF sample_running_reachable] by blast

text \<open>
  While a handler runs, the ledger's entry for its key is the one it owns, it is not finished
  by anything but a cancellation, and no eviction can remove it.
\<close>

theorem running_entry_is_kept:
  assumes "reachable_system s" and "sys_runs s t = Some (key, a)"
  shows "lookup_entry (sys_ledger s) key = Some a
    \<and> lookup_entry (evictFinishedForCapacityLocked (sys_ledger s)) key = Some a"
  using system_okD(1,2) [OF reachable_system_ok [OF assms(1)]] assms(2) evict_keeps by blast

theorem running_entry_is_kept_witness:
  "lookup_entry (evictFinishedForCapacityLocked (sys_ledger sample_running)) ''k'' = Some 0"
  using running_entry_is_kept [OF sample_running_reachable, of 0 "''k''" 0] sample_running_pc
  by (simp add: sys_runs_def)

text \<open>
  C3: An outcome that is pinned (its commit state is unknown) and whose handler is done stays in
  the ledger for the rest of the process, whatever happens: the same entry with the same
  response is there after any further steps, no handler ever runs for its key again, and a
  duplicate request is answered with the recorded response, or with a conflict if its
  fingerprint differs.
\<close>

theorem pinned_outcome_is_final:
  assumes "reachable_system s" and "settled s key a r" and "request_step\<^sup>*\<^sup>* s s'"
  shows "settled s' key a r
    \<and> enter_request key fp (sys_ledger s') =
        (let fp0 = ent_fingerprint (entry_at (sys_ledger s') a) in
         if fp0 \<noteq> [] \<and> fp \<noteq> [] \<and> fp0 \<noteq> fp then Replied (json_response 200 (conflict_answer key))
         else Waiting key a, sys_ledger s')
    \<and> waited_answer key a (sys_ledger s') = r"
proof -
  have st: "settled s' key a r" and "reachable_system s'"
    using settled_steps [OF assms(3,1,2)] by auto
  then have "ledger_ok (sys_ledger s')" by (simp add: reachable_system_ok system_okD(1))
  with settled_duplicate [OF st this] st show ?thesis by blast
qed

text \<open>
  Where such outcomes come from: when the owner of a key reports a response with an unknown
  commit state, the outcome is settled from then on.
\<close>

theorem unknown_commit_settles:
  assumes "reachable_system s" and "sys_pcs s t = Some (Returned key a r)"
    and "completeTurnRecordedResponsePinsOutcome r"
  shows "settled (set_pc t (Replied r) (s\<lparr>sys_ledger := finishOwner key a r (sys_ledger s)\<rparr>)) key a r"
  by (rule owner_settled [OF assms])

theorem unknown_commit_settles_witness:
  "let r = cancelled_response ''k'' in
   settled (set_pc 0 (Replied r) ((sample_returned r)
     \<lparr>sys_ledger := finishOwner ''k'' 0 r (sys_ledger (sample_returned r))\<rparr>)) ''k'' 0 r"
  using unknown_commit_settles [OF sample_returned_reachable sample_returned_pc cancelled_pins]
  by (simp add: Let_def)

theorem pinned_outcome_is_final_witness:
  "let r = cancelled_response ''k'';
       s = set_pc 0 (Replied r) ((sample_returned r)
         \<lparr>sys_ledger := finishOwner ''k'' 0 r (sys_ledger (sample_returned r))\<rparr>)
   in waited_answer ''k'' 0 (sys_ledger s) = r"
proof -
  let ?r = "cancelled_response ''k''"
  let ?s = "set_pc 0 (Replied ?r) ((sample_returned ?r)
         \<lparr>sys_ledger := finishOwner ''k'' 0 ?r (sys_ledger (sample_returned ?r))\<rparr>)"
  have "reachable_system ?s"
    by (rule reachable_step [OF sample_returned_reachable], rule owner_settles, rule sample_returned_pc)
  moreover have "settled ?s ''k'' 0 ?r"
    by (rule owner_settled [OF sample_returned_reachable sample_returned_pc cancelled_pins])
  ultimately show ?thesis
    using pinned_outcome_is_final [of ?s "''k''" 0 ?r ?s "''f''"] by (simp add: Let_def)
qed

text \<open>
  An entry leaves the ledger for two reasons only: its owner reports a response that allows
  the whole request to be repeated, which is never one that committed or reported a successful
  save; or the ledger is full and the entry is finished and not pinned.
\<close>

theorem why_an_entry_leaves:
  assumes "reachable_system s" and "request_step s s'"
    and "lookup_entry (sys_ledger s) key = Some a" and "lookup_entry (sys_ledger s') key \<noteq> Some a"
  shows "(\<exists>t r. sys_pcs s t = Some (Returned key a r) \<and> sys_pcs s' t = Some (Replied r)
        \<and> completeTurnRecordedResponseAllowsWholeRequestRetry r
        \<and> (\<forall>p. parseCompleteTurnRecordedResponseState r = Some p \<longrightarrow>
              \<not> rs_raw_committed p \<and> rs_save_ok p \<noteq> Some True))
    \<or> length (led_entries (sys_ledger s)) = 1024 \<and> evictable (entry_at (sys_ledger s) a)"
  using step_drops [OF reachable_system_ok [OF assms(1)] assms(2-4)] committed_not_retry
  unfolding completeTurnRequestMax_def by blast

definition failed_response :: recorded_response where
  "failed_response = json_response 500 (JObj [])"

lemma failed_retry: "completeTurnRecordedResponseAllowsWholeRequestRetry failed_response"
  by (simp add: completeTurnRecordedResponseAllowsWholeRequestRetry_def failed_response_def
      parseCompleteTurnRecordedResponseState_def json_response_def recorded_def writeJSON_def
      newCompleteTurnResponseBuffer_def Write_def WriteHeader_def zero_state_def Let_def archive_eval)

theorem why_an_entry_leaves_witness:
  "\<exists>t r. sys_pcs (sample_returned failed_response) t = Some (Returned ''k'' 0 r)
     \<and> completeTurnRecordedResponseAllowsWholeRequestRetry r"
proof -
  let ?s = "sample_returned failed_response"
  let ?s' = "set_pc 0 (Replied failed_response)
    (?s\<lparr>sys_ledger := finishOwner ''k'' 0 failed_response (sys_ledger ?s)\<rparr>)"
  have "request_step ?s ?s'" by (rule owner_settles) (rule sample_returned_pc)
  moreover have "lookup_entry (sys_ledger ?s') ''k'' \<noteq> Some 0"
    using system_okD(1) [OF reachable_system_ok [OF sample_returned_reachable]] failed_retry
    by (simp add: finishOwner_eq sample_lookup drop_if_retryable_def)
  moreover have "length (led_entries (sys_ledger ?s)) \<noteq> 1024"
    by (simp add: sample_returned_def sample_running_def Let_def set_pc_def register_entry_def
        newCompleteTurnRequestLedger_def map_put_def map_remove_def)
  ultimately show ?thesis
    using why_an_entry_leaves [OF sample_returned_reachable, of failed_response ?s' "''k''" 0]
    by (auto simp: sample_lookup)
qed

text \<open>
  What the owner's report does, also when a cancellation has already finished the entry: the
  recorded response is the owner's from then on, or the key is free again if that response allows
  a retry; no other key is touched.
\<close>

theorem owner_report_wins:
  assumes "reachable_system s" and "sys_pcs s t = Some (Returned key a r)"
  shows "(let l = finishOwner key a r (sys_ledger s) in
      (if completeTurnRecordedResponseAllowsWholeRequestRetry r then lookup_entry l key = None
       else responseForEntry key a l = (r, True) \<and> ledger_status key l = (''completed'', r, True))
    \<and> (\<forall>k. k \<noteq> key \<longrightarrow> lookup_entry l k = lookup_entry (sys_ledger s) k))"
proof -
  note l = system_okD(1) [OF reachable_system_ok [OF assms(1)]]
  have at: "lookup_entry (sys_ledger s) key = Some a"
    using system_okD(2) [OF reachable_system_ok [OF assms(1)], of t key a] assms(2)
    by (simp add: sys_runs_def)
  with ledger_okD(4) [OF l at] show ?thesis
    by (simp add: finishOwner_eq [OF l] drop_if_retryable_def responseForEntry_def ledger_status_def
        settle_entry_at Let_def)
qed

theorem owner_report_wins_witness:
  "lookup_entry (finishOwner ''k'' 0 failed_response (sys_ledger (sample_returned failed_response))) ''k'' = None"
  using owner_report_wins [OF sample_returned_reachable sample_returned_pc, of failed_response] failed_retry
  by (simp add: Let_def)

text \<open>
  Making room removes exactly one entry: a finished, unpinned one that was registered before
  every other such entry; if there is none, nothing changes.
\<close>

theorem eviction_takes_the_oldest:
  assumes "ledger_ok l"
  shows "if evict_candidates l = [] then evictFinishedForCapacityLocked l = l
    else \<exists>k a. lookup_entry l k = Some a \<and> evictable (entry_at l a)
      \<and> evictFinishedForCapacityLocked l = drop_key k l
      \<and> (\<forall>k' a'. lookup_entry l k' = Some a' \<longrightarrow> evictable (entry_at l a') \<longrightarrow>
            ent_sequence (entry_at l a) \<le> ent_sequence (entry_at l a'))"
proof (cases "evict_candidates l = []")
  case False
  with evict_some [OF assms False] show ?thesis by metis
qed (simp add: evict_none)

text \<open>Two settled entries, the older one first.\<close>

definition sample_settled :: request_ledger where
  "sample_settled = settle_entry 1 failed_response (settle_entry 0 failed_response
     (register_entry ''b'' [] (register_entry ''a'' [] newCompleteTurnRequestLedger)))"

lemma sample_settled_entries:
  "led_entries sample_settled = [(''b'', 1), (''a'', 0)] \<or> led_entries sample_settled = [(''a'', 0), (''b'', 1)]"
  by (simp add: sample_settled_def settle_entry_def register_entry_def newCompleteTurnRequestLedger_def
      map_put_def map_remove_def)

lemma sample_settled_ok: "ledger_ok sample_settled"
  unfolding sample_settled_def
  by (intro ledger_ok_settle ledger_ok_register ledger_ok_new)
    (simp_all add: lookup_entry_def newCompleteTurnRequestLedger_def completeTurnRequestMax_def
      register_entry_def map_put_def map_remove_def)

lemma failed_not_pinned: "\<not> completeTurnRecordedResponsePinsOutcome failed_response"
  using failed_retry pins_not_retry by blast

lemma sample_settled_sequences:
  "ent_sequence (entry_at sample_settled 0) = 1" "ent_sequence (entry_at sample_settled 1) = 2"
  "evictable (entry_at sample_settled 0)" "evictable (entry_at sample_settled 1)"
  by (simp_all add: sample_settled_def settle_entry_at register_entry_def entry_at_def evictable_def
      newCompleteTurnRequestLedger_def failed_not_pinned settle_entry_def set_entry_def)

lemma sample_settled_lookup:
  "lookup_entry sample_settled k = (if k = ''a'' then Some 0 else if k = ''b'' then Some 1 else None)"
  using sample_settled_entries by (auto simp: lookup_entry_def)

theorem eviction_takes_the_oldest_witness:
  "evictFinishedForCapacityLocked sample_settled = drop_key ''a'' sample_settled"
proof -
  have "evict_candidates sample_settled \<noteq> []"
    using sample_settled_entries sample_settled_sequences by (auto simp: evict_candidates_def)
  with eviction_takes_the_oldest [OF sample_settled_ok] obtain k a where
    k: "lookup_entry sample_settled k = Some a" "evictFinishedForCapacityLocked sample_settled = drop_key k sample_settled"
    and min: "\<forall>k' a'. lookup_entry sample_settled k' = Some a' \<longrightarrow> evictable (entry_at sample_settled a')
      \<longrightarrow> ent_sequence (entry_at sample_settled a) \<le> ent_sequence (entry_at sample_settled a')"
    by auto
  have "ent_sequence (entry_at sample_settled a) \<le> 1"
    using min sample_settled_sequences(1,3) sample_settled_lookup [of "''a''"] by metis
  then have "a \<noteq> 1" using sample_settled_sequences(2) by (auto simp: word_le_nat_alt)
  with k show ?thesis by (auto simp: sample_settled_lookup split: if_splits)
qed

text \<open>
  The choice does not depend on the order in which Go ranges over the map: any two iteration
  orders of the same entries leave the same entries, as long as the sequence numbers differ
  (they are handed out once each until the 64-bit counter wraps).
\<close>

theorem eviction_ignores_map_order:
  assumes "ledger_ok l" and "mset order = mset (led_entries l)"
    and "inj_on (\<lambda>a. ent_sequence (entry_at l a)) {a. \<exists>k. lookup_entry l k = Some a}"
  shows "lookup_entry (evictFinishedForCapacityLocked (l\<lparr>led_entries := order\<rparr>))
    = lookup_entry (evictFinishedForCapacityLocked l)"
  using evict_permuted [OF assms(1), of "l\<lparr>led_entries := order\<rparr>"] assms ledger_okD(7) by simp

theorem eviction_ignores_map_order_witness:
  "lookup_entry (evictFinishedForCapacityLocked (sample_settled\<lparr>led_entries := rev (led_entries sample_settled)\<rparr>))
    = lookup_entry (evictFinishedForCapacityLocked sample_settled)"
proof -
  have "inj_on (\<lambda>a. ent_sequence (entry_at sample_settled a)) {a. \<exists>k. lookup_entry sample_settled k = Some a}"
    using sample_settled_sequences by (auto simp: inj_on_def sample_settled_lookup split: if_splits)
  with eviction_ignores_map_order [OF sample_settled_ok, of "rev (led_entries sample_settled)"]
  show ?thesis by simp
qed

text \<open>
  At capacity: when the ledger holds 1024 entries none of which may be evicted, a request
  with a new key is refused with status 503 and the ledger is as before; when one may be
  evicted, the request gets a run and the ledger still holds 1024 entries.
\<close>

theorem full_ledger:
  assumes "ledger_ok l" and "key \<noteq> []" and "lookup_entry l key = None"
    and "length (led_entries l) = 1024"
  shows "if evict_candidates l = []
    then enter_request key fp l =
      (Replied (json_response 503 (retry_answer ''complete_turn_processing_capacity_reached'' key)), l)
    else fst (enter_request key fp l) = Running key (length (led_heap l))
      \<and> length (led_entries (snd (enter_request key fp l))) = 1024"
proof (cases "evict_candidates l = []")
  case True
  then show ?thesis
    using assms
    by (simp add: enter_request_def begin_cases make_room_def evict_none completeTurnRequestMax_def)
next
  case False
  obtain k a where k: "lookup_entry l k = Some a" "evictFinishedForCapacityLocked l = drop_key k l"
    by (rule evict_some [OF assms(1) False])
  have "length (led_entries (drop_key k l)) = 1023"
    using k(1) assms(4) ledger_okD(1) [OF assms(1)] length_map_remove_present [of "led_entries l" k]
    by (simp add: drop_key_def lookup_entry_def)
  moreover have "make_room l = drop_key k l"
    using k(2) assms(4) by (simp add: make_room_def completeTurnRequestMax_def)
  moreover have "map_of (led_entries (drop_key k l)) key = None"
    using assms(3) by (simp add: drop_key_def lookup_entry_def)
  ultimately show ?thesis
    using False assms
    by (simp add: enter_request_def begin_cases completeTurnRequestMax_def register_entry_def
        length_map_put_absent)
qed

text \<open>A ledger of \<open>n\<close> running requests, with the keys \<open>x\<close>, \<open>xx\<close>, and so on.\<close>

primrec busy_ledger :: "nat \<Rightarrow> request_ledger" where
  "busy_ledger 0 = newCompleteTurnRequestLedger"
| "busy_ledger (Suc n) = register_entry (replicate (Suc n) CHR ''x'') [] (busy_ledger n)"

lemma busy_ledger_facts:
  "n \<le> 1024 \<Longrightarrow> ledger_ok (busy_ledger n) \<and> length (led_entries (busy_ledger n)) = n
    \<and> (\<forall>k. n < length k \<longrightarrow> lookup_entry (busy_ledger n) k = None)
    \<and> (\<forall>e \<in> set (led_heap (busy_ledger n)). \<not> ent_finished e)"
proof (induction n)
  case 0
  then show ?case using ledger_ok_new by (simp add: newCompleteTurnRequestLedger_def lookup_entry_def)
next
  case (Suc n)
  let ?k = "replicate (Suc n) CHR ''x''"
  have IH: "ledger_ok (busy_ledger n)" "length (led_entries (busy_ledger n)) = n"
    "lookup_entry (busy_ledger n) ?k = None" "\<forall>k. n < length k \<longrightarrow> lookup_entry (busy_ledger n) k = None"
    "\<forall>e \<in> set (led_heap (busy_ledger n)). \<not> ent_finished e"
    using Suc by auto
  have "ledger_ok (busy_ledger (Suc n))"
    using IH Suc.prems by (simp add: ledger_ok_register completeTurnRequestMax_def)
  moreover have "length (led_entries (busy_ledger (Suc n))) = Suc n"
    using IH(2,3) by (simp add: register_entry_def lookup_entry_def length_map_put_absent)
  moreover have "\<forall>k. Suc n < length k \<longrightarrow> lookup_entry (busy_ledger (Suc n)) k = None"
    using IH(4) by auto
  moreover have "\<forall>e \<in> set (led_heap (busy_ledger (Suc n))). \<not> ent_finished e"
    using IH(5) by (auto simp: register_entry_def)
  ultimately show ?case by blast
qed

theorem full_ledger_witness:
  "snd (enter_request (replicate 1025 CHR ''x'') [] (busy_ledger 1024)) = busy_ledger 1024"
proof -
  note busy = busy_ledger_facts [of 1024, simplified]
  have "evict_candidates (busy_ledger 1024) = []"
    using busy ledger_okD(1,4) [of "busy_ledger 1024"]
    by (auto simp: evict_candidates_def evictable_def entry_at_def lookup_entry_def filter_empty_conv)
  with full_ledger [of "busy_ledger 1024" "replicate 1025 CHR ''x''" "[]"] busy show ?thesis
    by simp
qed

text \<open>
  The decisions on a recorded response exclude each other: one that allows the whole request
  to be repeated is neither pinned nor successful, and one with a failed save is not successful.
\<close>

theorem decisions_exclude_each_other:
  "\<not> (completeTurnRecordedResponseAllowsWholeRequestRetry r \<and> completeTurnRecordedResponsePinsOutcome r)
   \<and> \<not> (completeTurnRecordedResponseAllowsWholeRequestRetry r \<and> completeTurnRecordedResponseSuccessful r)
   \<and> \<not> (completeTurnRecordedResponseHasFailedSave r \<and> completeTurnRecordedResponseSuccessful r)"
  by (auto simp: response_decisions split: option.splits if_splits)


text \<open>
  The status route does not shorten its key although completing a turn does: the ledger is
  keyed by at most 240 bytes, so for a longer (trimmed) key the route answers \<open>unknown\<close> whatever
  the ledger knows about the request.
\<close>

theorem long_keys_have_no_status:
  assumes "\<forall>k a. lookup_entry l k = Some a \<longrightarrow> length k \<le> 240" and "240 < length (trim_space query)"
  shows "length (completeTurnIdempotencyKey meta) \<le> 240
    \<and> request_status_answer query l =
      (200, JObj [(''status'', JStr ''unknown''), (''idempotency_key'', JStr (trim_space query))])"
proof -
  have "lookup_entry l (trim_space query) = None"
    using assms by (metis not_less option.exhaust)
  with assms(2) show ?thesis
    by (auto simp: request_status_answer_def ledger_status_def completeTurnIdempotencyKey_def Let_def)
qed

theorem long_keys_have_no_status_witness:
  "request_status_answer (replicate 241 CHR ''x'')
     (register_entry (replicate 240 CHR ''x'') [] newCompleteTurnRequestLedger)
   = (200, JObj [(''status'', JStr ''unknown''), (''idempotency_key'', JStr (replicate 241 CHR ''x''))])"
proof -
  have "trim_space (replicate 241 CHR ''x'') = replicate 241 CHR ''x''"
    by (simp add: archive_eval)
  then show ?thesis
    using long_keys_have_no_status [of "register_entry (replicate 240 CHR ''x'') [] newCompleteTurnRequestLedger"
        "replicate 241 CHR ''x''" "[]"]
    by (simp add: lookup_entry_def newCompleteTurnRequestLedger_def register_entry_def map_put_def map_remove_def)
qed

section \<open>Rolling a chat back\<close>

text \<open>
  C5: A decision token authorises one rollback at most, and only the one it was issued for: over any
  history of issued decisions and presented tokens, a token is accepted only if it was issued and
  not presented since (not even with wrong data), for this session, turn and observation digest;
  what it carries is the decision issued; and it is accepted by nobody afterwards.
\<close>

theorem tokens_authorise_once:
  assumes "drawn_tokens h" and "consume tok sid turn digest (after_calls h) = (Some rec, l)"
  shows "(\<exists>r seq. standing h tok = Some r \<and> rec = r\<lparr>dr_Token := tok, dr_Sequence := seq\<rparr>
      \<and> dr_SessionID r = sid \<and> dr_FromTurn r = turn
      \<and> trim_space (dr_AssistantObservationDigest r) = trim_space digest)
    \<and> (\<forall>sid' turn' digest'. consume tok sid' turn' digest' l = (None, l))"
proof -
  note facts = consumed_facts [OF assms(2)]
  obtain r where "standing h tok = Some r" "rec = stamped tok (dr_Sequence rec) r"
    using held_stands [OF assms(1) facts(1)] by blast
  with facts have "standing h tok = Some r \<and> rec = r\<lparr>dr_Token := tok, dr_Sequence := dr_Sequence rec\<rparr>
      \<and> dr_SessionID r = sid \<and> dr_FromTurn r = turn
      \<and> trim_space (dr_AssistantObservationDigest r) = trim_space digest"
    by (metis stamped_def stamped_simps(2-4))
  moreover have "map_of (dl_records l) tok = None" using facts(5) by simp
  ultimately show ?thesis using consume_absent by blast
qed

definition sample_decision :: rollbackDecisionRecord where
  "sample_decision = \<lparr>dr_Token = [], dr_SessionID = ''s'', dr_FromTurn = 4, dr_RequestSource = ''auto'',
     dr_LifecycleAction = ''deleted'', dr_StableCharacterID = [], dr_HostChatID = [],
     dr_CanonicalSessionID = ''s'', dr_RouteBindingRevision = 0, dr_AssistantObservationDigest = ''d'',
     dr_Sequence = 0\<rparr>"

lemma sample_consumed:
  "consume ''t'' ''s'' 4 ''d'' (after_calls [Issue ''t'' sample_decision])
    = (Some (sample_decision\<lparr>dr_Token := ''t'', dr_Sequence := 1\<rparr>), \<lparr>dl_records = [], dl_nextSequence = 1\<rparr>)"
  by (simp add: consume_def issue_def newRollbackDecisionLedger_def rollbackDecisionMax_def map_put_def
      map_remove_def sample_decision_def Let_def)

theorem tokens_authorise_once_witness:
  "consume ''t'' ''s'' 4 ''d'' \<lparr>dl_records = [], dl_nextSequence = 1\<rparr>
    = (None, \<lparr>dl_records = [], dl_nextSequence = 1\<rparr>)"
  using tokens_authorise_once [OF _ sample_consumed] by simp

text \<open>
  C6: A token is not lost early: as long as fewer than 1024 decisions have been issued since (and
  fewer than 2^64 calls made in all, so that the sequence numbers have not wrapped), the token of
  a standing decision is accepted with the data it was issued for.
\<close>

theorem tokens_last:
  assumes "drawn_tokens h" and "length h < 2 ^ 64" and "standing h tok = Some r" and "issued_since h tok < 1024"
  shows "\<exists>rec l. consume tok (dr_SessionID r) (dr_FromTurn r) (dr_AssistantObservationDigest r) (after_calls h)
      = (Some rec, l) \<and> dr_LifecycleAction rec = dr_LifecycleAction r"
proof -
  obtain rec where rec: "map_of (dl_records (after_calls h)) tok = Some rec"
    using standing_held [OF assms(1-3)] assms(4) by (auto simp: rollbackDecisionMax_def)
  with held_stands [OF assms(1) rec] assms(3) obtain seq where "rec = stamped tok seq r" by auto
  with consume_held [OF rec] show ?thesis
    by (metis prod.collapse stamped_simps)
qed

theorem tokens_last_witness:
  "fst (consume ''t'' ''s'' 4 ''d'' (after_calls [Issue ''u'' sample_decision, Issue ''t'' sample_decision])) \<noteq> None"
  using tokens_last [of "[Issue ''u'' sample_decision, Issue ''t'' sample_decision]" "''t''" sample_decision]
  by (auto simp: sample_decision_def)

text \<open>
  What an allowed decision says can be redeemed: its token is accepted for exactly the session,
  first turn and digest of the response and carries the response's lifecycle action; a decision
  that is not allowed leaves the ledger as it is and has no token.
\<close>

theorem allowed_decisions_redeem:
  "(let (resp, l') = decide_and_issue token notice req l in
     if rp_Allowed resp
     then rp_DecisionToken resp = token \<and>
       map_option dr_LifecycleAction (fst (consume token (rp_ChatSessionID resp) (rp_FromTurn resp)
         (rp_AssistantObservationDigest resp) l')) = Some (rp_LifecycleAction resp)
     else l' = l \<and> rp_DecisionToken resp = [])"
  by (simp add: decide_and_issue_def Let_def issue_def consume_def calculateRollbackDecision_def
      blocked_response_def split: option.splits prod.splits sum.splits)

text \<open>
  What an allowed decision may delete: the session is a named one, no guard is up, the first
  turn is at least 1 and not after the last stored turn, the action is a deletion or a
  supersession, and, unless the request calls itself manual, no turn at or below an imported
  boundary is in the range.
\<close>

theorem allowed_range:
  assumes "rp_Allowed (calculateRollbackDecision req)"
    and "\<forall>b. rq_Baseline req = Some b \<longrightarrow> rb_BackendTurnAtRoute b < 2 ^ 63 - 1"
  shows "trim_space (rq_ChatSessionID req) \<noteq> [] \<and> \<not> rq_HistoryTrimGuard req \<and> \<not> rq_DuplicateBlocked req
    \<and> 1 \<le> rp_FromTurn (calculateRollbackDecision req)
    \<and> (0 < rq_BackendLatestTurn req \<longrightarrow> rp_FromTurn (calculateRollbackDecision req) \<le> rq_BackendLatestTurn req)
    \<and> rp_LifecycleAction (calculateRollbackDecision req) \<in> {''deleted'', ''superseded''}
    \<and> (\<forall>b. \<not> is_manual req \<and> rq_Baseline req = Some b \<and> routingBaselineReasonSupported (rb_Reason b)
        \<longrightarrow> rb_BackendTurnAtRoute b < rp_FromTurn (calculateRollbackDecision req))"
proof -
  obtain completed before minFrom applied where turns: "baseline_turns req = (completed, before, minFrom, applied)"
    by (metis surj_pair)
  from allowed_cases [OF assms(1) turns] obtain anchor where none: "refusal req = None" and "0 < anchor"
    and from_turn: "rp_FromTurn (calculateRollbackDecision req) = clamp_anchor minFrom anchor"
    and latest: "0 < rq_BackendLatestTurn req \<Longrightarrow> clamp_anchor minFrom anchor \<le> rq_BackendLatestTurn req"
    and action: "rp_LifecycleAction (calculateRollbackDecision req) = the (lifecycle_action req)"
    by blast
  have "rb_BackendTurnAtRoute b < clamp_anchor minFrom anchor"
    if b: "\<not> is_manual req" "rq_Baseline req = Some b" "routingBaselineReasonSupported (rb_Reason b)" for b
  proof (cases "0 < rb_BackendTurnAtRoute b")
    case True
    then have "minFrom = rb_BackendTurnAtRoute b + 1"
      using turns b assms(2) int64_small [of "rb_BackendTurnAtRoute b + 1"]
      by (auto simp: baseline_turns_def Let_def)
    with True clamp_anchor_ge(2) [of minFrom anchor] show ?thesis by simp
  next
    case False
    with \<open>0 < anchor\<close> clamp_anchor_ge(1) [of anchor minFrom] show ?thesis by simp
  qed
  with refusal_none [OF none] action from_turn latest \<open>0 < anchor\<close> clamp_anchor_ge(1) [of anchor minFrom]
  show ?thesis by auto
qed

text \<open>A request as the route decodes it from the minimal body, to build others from.\<close>

definition plain_request :: "'pending rollbackDecisionRequest" where
  "plain_request = \<lparr>rq_ChatSessionID = ''s'', rq_StableCharacterID = ''c'', rq_StableCharacterIDState = ''observed'',
     rq_HostChatID = ''h'', rq_HostChatIDState = ''observed'', rq_RequestSource = ''auto'', rq_Reason = [],
     rq_CandidateFromTurn = 0, rq_PreviousTurnIndex = 0, rq_FirstRemovedTurn = 0, rq_LedgerAnchorTurn = 0,
     rq_RemovedAssistantCount = 0, rq_RemovedUserCount = 0, rq_RemovedMessageCount = 0,
     rq_VisibleCompletedTurns = 0, rq_BackendLatestTurn = 0, rq_DeletionObserved = False,
     rq_LedgerVerified = False, rq_IncompleteTailCandidate = False, rq_BackendIncompleteTailVerified = False,
     rq_HistoryTrimGuard = False, rq_DuplicateBlocked = False, rq_HostLifecycleObservation = [],
     rq_LifecycleActionObservation = [], rq_AllowManualCandidate = False,
     rq_AssistantObservationScope = ''full_active_chat'', rq_AssistantObservations = [],
     rq_PendingInputObservation = None, rq_Baseline = None, rq_ManualTargetOwnershipObserved = False,
     rq_ManualTargetOwned = False, rq_AssistantEvidenceRequired = False, rq_AssistantEvidenceVerified = False,
     rq_AssistantOutputRemoved = False, rq_AssistantEvidenceReason = [], rq_RouteBindingRevision = 0,
     rq_AssistantObservationDigest = [], rq_IncompleteAssistantObservations = []\<rparr>"

definition reported_deletion :: "unit rollbackDecisionRequest" where
  "reported_deletion = plain_request\<lparr>rq_DeletionObserved := True, rq_FirstRemovedTurn := 2,
     rq_Baseline := Some \<lparr>rb_BackendTurnAtRoute = 5, rb_LocalPairsAtRoute = 0, rb_Reason = ''timeline_copy'',
       rb_durableSourceID = [], rb_durableVerified = True, rb_durableSourceIDs = [],
       rb_durableInputGroupAliases = []\<rparr>\<rparr>"

lemma reported_deletion_allowed:
  "rp_Allowed (calculateRollbackDecision reported_deletion)"
  "rp_FromTurn (calculateRollbackDecision reported_deletion) = 6"
  by code_simp+

theorem allowed_range_witness: "5 < rp_FromTurn (calculateRollbackDecision reported_deletion)"
  using allowed_range [OF reported_deletion_allowed(1)]
  by (simp add: reported_deletion_def plain_request_def is_manual_def routingBaselineReasonSupported_def archive_eval)

text \<open>
  A request that calls itself manual skips every check, also when it does not ask for a manual
  candidate: neither the missing evidence nor the imported boundary counts, so with a reported
  deletion it is allowed where the same request without that word is refused or moved.
\<close>

theorem manual_requests_skip_checks:
  assumes "is_manual req"
  shows "calculateRollbackDecision (req\<lparr>rq_Baseline := baseline, rq_AssistantEvidenceRequired := required,
      rq_AssistantEvidenceVerified := verified, rq_AssistantOutputRemoved := removed\<rparr>)
    = calculateRollbackDecision req"
  by (rule manual_ignores_evidence [OF assms])

definition claimed_manual :: "unit rollbackDecisionRequest" where
  "claimed_manual = reported_deletion\<lparr>rq_RequestSource := ''manual''\<rparr>"

theorem manual_requests_skip_checks_witness:
  "rp_FromTurn (calculateRollbackDecision (claimed_manual\<lparr>rq_AssistantEvidenceRequired := True\<rparr>)) = 2
   \<and> rp_Allowed (calculateRollbackDecision (claimed_manual\<lparr>rq_AssistantEvidenceRequired := True\<rparr>))"
proof -
  have manual: "is_manual claimed_manual" by code_simp
  have "calculateRollbackDecision (claimed_manual\<lparr>rq_AssistantEvidenceRequired := True\<rparr>)
      = calculateRollbackDecision claimed_manual"
    using manual_requests_skip_checks [OF manual, where baseline = "rq_Baseline claimed_manual" and required = True
        and verified = "rq_AssistantEvidenceVerified claimed_manual"
        and removed = "rq_AssistantOutputRemoved claimed_manual"] by simp
  moreover have "rp_Allowed (calculateRollbackDecision claimed_manual)"
    "rp_FromTurn (calculateRollbackDecision claimed_manual) = 2" by code_simp+
  ultimately show ?thesis by simp
qed


text \<open>A session with two accepted replies, of which the chat shows the first.\<close>

definition stored_reply :: "go_int \<Rightarrow> string \<Rightarrow> MemorySourceRevision" where
  "stored_reply turn message = \<lparr>MemorySourceRevision_ID = turn, MemorySourceRevision_ContractVersion = [],
     MemorySourceRevision_SourceRevision = message, MemorySourceRevision_ChatSessionID = ''s'',
     MemorySourceRevision_LogicalTurnID = [], MemorySourceRevision_TurnIndex = turn,
     MemorySourceRevision_SourceMessageID = message, MemorySourceRevision_SourceGenerationID = [],
     MemorySourceRevision_BranchID = [], MemorySourceRevision_BranchState = [],
     MemorySourceRevision_UserContent = ''u'', MemorySourceRevision_AssistantContent = ''a'',
     MemorySourceRevision_CombinedContentHash = [], MemorySourceRevision_UserObservedContentHash = [],
     MemorySourceRevision_AssistantObservedContentHash = [], MemorySourceRevision_HashAlgorithm = [],
     MemorySourceRevision_HostObservedAtMS = 0, MemorySourceRevision_LifecycleState = ''active'',
     MemorySourceRevision_SupersededByRevision = [], MemorySourceRevision_InvalidationReason = [],
     MemorySourceRevision_DerivedAdmissionState = [], MemorySourceRevision_DerivedAdmissionVersion = [],
     MemorySourceRevision_DerivedExtractorVersion = [], MemorySourceRevision_DerivedIndexVersion = [],
     MemorySourceRevision_DerivedResultHash = [], MemorySourceRevision_DerivedResultJSON = [],
     MemorySourceRevision_DerivedAdmittedAt = 0, MemorySourceRevision_CriticInputSnapshotJSON = [],
     MemorySourceRevision_CriticInputSnapshotHash = [], MemorySourceRevision_CreatedAt = 0,
     MemorySourceRevision_UpdatedAt = 0\<rparr>"

lemma stored_reply_turn [simp]: "MemorySourceRevision_TurnIndex (stored_reply turn message) = turn"
  by (simp add: stored_reply_def)









text \<open>
  The evidence depends neither on the order in which the plugin lists the replies it shows nor
  on the order of the store's rows, provided no two rows have the same turn and row id.
\<close>

theorem evidence_order_irrelevant:
  assumes "mset obs = mset obs'" and "mset sources = mset sources'"
    and "distinct (map (\<lambda>s. (MemorySourceRevision_TurnIndex s, MemorySourceRevision_ID s)) sources)"
  shows "deletion_evidence sid sources obs pending journal baseline
    = deletion_evidence sid sources' obs' pending journal baseline"
  by (rule evidence_permuted [OF assms])

theorem evidence_order_irrelevant_witness:
  "deletion_evidence ''s'' [stored_reply 2 ''m2'', stored_reply 1 ''m1''] [] None (\<lambda>_. ([], [])) None
   = deletion_evidence ''s'' [stored_reply 1 ''m1'', stored_reply 2 ''m2''] [] None (\<lambda>_. ([], [])) None"
  by (rule evidence_order_irrelevant) (simp_all add: stored_reply_def)

text \<open>
  The content hash that stands in for a reply's identity reads back in base 36 as the 31-bit
  number it was computed as and has at most 11 characters, and it does not tell replies apart that
  differ in two neighbouring ASCII characters of equal weight, wherever they stand: the reply with
  Ab has the hash of the reply with BA (after the same ASCII text).
\<close>

theorem content_hash_collides:
  assumes "t \<noteq> []" and "ascii_text before"
  shows "base36_read (drop 5 (prepareOR1CHash t)) = foldl or1c_step 5381 (or1c_units t)
    \<and> length (prepareOR1CHash t) \<le> 11
    \<and> prepareOR1CHash (before @ ''Ab'' @ rest) = prepareOR1CHash (before @ ''BA'' @ rest)"
proof (intro conjI)
  show "base36_read (drop 5 (prepareOR1CHash t)) = foldl or1c_step 5381 (or1c_units t)"
    by (rule or1c_hash_reads [OF assms(1)])
  show "length (prepareOR1CHash t) \<le> 11" by (rule or1c_hash_length)
  show "prepareOR1CHash (before @ ''Ab'' @ rest) = prepareOR1CHash (before @ ''BA'' @ rest)"
    by (rule or1c_hash_ascii_swap [OF assms(2)]) code_simp+
qed

theorem content_hash_collides_witness:
  "base36_read (drop 5 (prepareOR1CHash ''ok'')) = foldl or1c_step 5381 (or1c_units ''ok'')
   \<and> prepareOR1CHash ''say Ab.'' = prepareOR1CHash ''say BA.''"
proof -
  have ascii: "ascii_text ''say ''" by code_simp
  show ?thesis using content_hash_collides [of "''ok''", OF _ ascii, of "''.''"] by simp
qed

definition stitched :: "(string \<times> string list) list \<Rightarrow> routingTurnBaseline" where
  "stitched aliases = \<lparr>rb_BackendTurnAtRoute = 4, rb_LocalPairsAtRoute = 0, rb_Reason = ''timeline_stitch'',
     rb_durableSourceID = ''o'', rb_durableVerified = True, rb_durableSourceIDs = [],
     rb_durableInputGroupAliases = aliases\<rparr>"

text \<open>
  Which of the pending input's identities are found through the aliases of a stitched session
  depends on the order in which the alias map is iterated, which Go leaves open: an alias that
  names another alias's logical turn is found only after it.
\<close>

theorem alias_order_matters:
  "stitchedInputGroupLogicalIDs [''x''] (\<lambda>_. []) (stitched [(''A'', [''x'']), (''B'', [''A''])]) = [''x'', ''A'', ''B'']
   \<and> stitchedInputGroupLogicalIDs [''x''] (\<lambda>_. []) (stitched [(''B'', [''A'']), (''A'', [''x''])]) = [''x'', ''A'']"
  by code_simp

section \<open>Package updates\<close>

text \<open>
  A package with two files, one of which the pending update replaces while it drops the other and
  adds a third. The digest function of the samples is the text itself with its length.
\<close>

definition sample_digest :: "content \<Rightarrow> string \<times> int" where
  "sample_digest c = (case c of Bytes s \<Rightarrow> (s, int (length s)) | _ \<Rightarrow> ([], 0))"


definition sample_manifest :: "string \<Rightarrow> manifestFile list \<Rightarrow> content" where
  "sample_manifest version mfs =
     Manifest_doc \<lparr>pm_SchemaVersion = ''archive-center.package-file-manifest.v1'', pm_PackageVersion = version,
       pm_Files = mfs\<rparr>"



definition sample_pending :: Pending where
  "sample_pending = \<lparr>pu_ContractVersion = ''archive-center.pending-update.v1'', pu_CurrentVersion = ''1'',
     pu_TargetVersion = ''2'', pu_AssetPath = ''.updates/u'', pu_RequiredFiles = []\<rparr>"




definition sample_backup :: "string \<Rightarrow> JournalEntry" where
  "sample_backup rel = \<lparr>je_Path = rel, je_Existed = True, je_BackupPath = ''backups/2-t/'' @ rel\<rparr>"














text \<open>
  C11: A committed update is final. A commit that reports no error, whatever faults it met, has changed no
  file of the package, and a rollback after it changes nothing at all.
\<close>

theorem commit_is_final:
  assumes "run_state (Commit now root) w = (Inr r, w')" and "own root p"
  shows "file_at (wd_disk w') p = file_at (wd_disk w) p
    \<and> wd_disk (snd (run_state (Rollback hash later root) (w'\<lparr>wd_faults := faults\<rparr>))) = wd_disk w'"
proof -
  have "settled_state root (wd_disk w')"
    using after_apply [OF Commit_settles [of "\<lambda>_. True"] _ assms(1)] by simp
  then have "settled_state root (wd_disk (w'\<lparr>wd_faults := faults\<rparr>))" by simp
  from settled_rollback [OF this, of hash later] Commit_keeps_files [OF assms(2), of now w] assms(1) show ?thesis by simp
qed

definition applied_disk :: disk where
  "applied_disk = [([''.updates''], Directory), ([''a''], File (Bytes ''new'') 420),
     ([''.updates'', ''update-state.json''], File (State_doc ((new_state ''now'' ''t'' [] sample_pending)
        \<lparr>us_Status := ''applied_pending_health'', us_BackupDir := [], us_Journal := [sample_backup ''a'']\<rparr>)) 384)]"

lemma applied_commit:
  "isl (fst (run_state (Commit ''then'' []) \<lparr>wd_disk = applied_disk, wd_faults = []\<rparr>)) = False"
  by code_simp

theorem commit_is_final_witness:
  "wd_disk (snd (run_state (Rollback sample_digest ''later'' [])
       ((snd (run_state (Commit ''then'' []) \<lparr>wd_disk = applied_disk, wd_faults = []\<rparr>))\<lparr>wd_faults := []\<rparr>)))
     = wd_disk (snd (run_state (Commit ''then'' []) \<lparr>wd_disk = applied_disk, wd_faults = []\<rparr>))"
proof -
  obtain r w where run: "run_state (Commit ''then'' []) \<lparr>wd_disk = applied_disk, wd_faults = []\<rparr> = (Inr r, w)"
    using applied_commit by (metis isl_def prod.collapse sum.exhaust)
  have "own [] [''a'']" by code_simp
  from commit_is_final [OF run this, of sample_digest "''later''" "[]"] run show ?thesis by simp
qed



text \<open>
  Unpacking an archive changes no file outside the new directory: whatever names the archive lists
  (absolute paths, drive letters, parent directories, backslashes), whatever it is asked to hold and
  whatever faults meet the extraction. So does the check of a candidate before its download is kept:
  outside its temporary directory it changes nothing.
\<close>

theorem unpacking_stays_inside:
  "(file_at (wd_disk (snd (run_state (extractVerifiedArchive hash asset extractedRoot name) w))) p = file_at (wd_disk w) p
     \<or> is_prefix (extractedRoot @ [name]) p)
   \<and> (file_at (wd_disk (snd (run_state (PreflightCandidate hash cwd root tempRoot name c) w))) p = file_at (wd_disk w) p
     \<or> is_prefix tempRoot p)"
  using touches_extract [of extractedRoot name hash asset] touches_preflight [of tempRoot hash cwd root name c]
  unfolding touches_def state_io_rel_def same_outside_def by blast

text \<open>
  The order of versions. Comparing two versions is comparing their keys in lexicographic order: the
  three numbers, then a release after its pre-releases, then the text of the pre-release. That text is
  compared byte by byte, so the tenth release candidate is older than the ninth.
\<close>

theorem version_order:
  "comparePackageVersions l r =
     (if version_key l = version_key r then 0 else if version_key l < version_key r then -1 else 1)
   \<and> comparePackageVersions ''4.1.0-rc.10'' ''4.1.0-rc.9'' = -1"
proof -
  have "comparePackageVersions ''4.1.0-rc.10'' ''4.1.0-rc.9'' = -1" by code_simp
  with compare_versions show ?thesis by blast
qed

text \<open>
  C13: Names that collide end in a dead end. If two files of a transaction have the same name up to case
  (the checks of the two manifests exclude that within each of them, but not against the manifest file
  itself, which is added to the list), a transaction that reports success leaves a state which its own
  reader refuses: from then on applying, committing, rolling back and reporting the status all fail,
  whatever their arguments, and none of them changes anything.
\<close>

theorem colliding_names_block_the_updater:
  assumes "\<not> distinct (map (\<lambda>f. ascii_lower (if_Rel f)) files)"
  shows "if_success (\<lambda>d. \<forall>c faults. run_state (updater_call hash' cwd root c) \<lparr>wd_disk = d, wd_faults = faults\<rparr>
      = (Inl (if is_dir d root then ''state_invalid'' else ''invalid_root''), \<lparr>wd_disk = d, wd_faults = faults\<rparr>))
    (fst (run_state (transact hash now root s files) w)) (wd_disk (snd (run_state (transact hash now root s files) w)))"
proof -
  let ?r = "fst (run_state (transact hash now root s files) w)" and ?d = "wd_disk (snd (run_state (transact hash now root s files) w))"
  have state: "if_success (\<lambda>d. \<exists>t m. file_at d (state_path root) = Some (State_doc t, m)
      \<and> map je_Path (us_Journal t) = map if_Rel files) ?r ?d"
    using transact_state [of hash now root s files] by (simp add: after_def)
  have refused: "\<exists>e. readState ?d root = Inl e"
    if doc: "file_at ?d (state_path root) = Some (State_doc t, m)" and "map je_Path (us_Journal t) = map if_Rel files" for t m
  proof (rule colliding_state [OF doc])
    have "map ascii_lower (map je_Path (us_Journal t)) = map ascii_lower (map if_Rel files)" using that(2) by simp
    with assms show "\<not> distinct (map (\<lambda>e. ascii_lower (je_Path e)) (us_Journal t))" by (simp add: comp_def)
  qed
  show ?thesis
  proof (cases ?r)
    case (Inr x)
    then obtain e where "readState ?d root = Inl e" using state refused by auto
    then have "run_state (updater_call hash' cwd root c) \<lparr>wd_disk = ?d, wd_faults = faults\<rparr>
        = (Inl (if is_dir ?d root then ''state_invalid'' else ''invalid_root''), \<lparr>wd_disk = ?d, wd_faults = faults\<rparr>)" for c faults
      using refused_call [of "\<lparr>wd_disk = ?d, wd_faults = faults\<rparr>" root e hash' cwd c] by simp
    with Inr show ?thesis by simp
  qed simp
qed

definition colliding_files :: "installFile list" where
  "colliding_files = map (\<lambda>rel. \<lparr>if_Rel = rel, if_Src = [], if_Mode = 0, if_Remove = True, if_Integrity = None\<rparr>) [''a'', ''A'']"

definition colliding_run :: "outcome \<times> world" where
  "colliding_run = run_state (transact sample_digest ''now'' [] (new_state ''now'' ''t'' [] sample_pending) colliding_files)
     \<lparr>wd_disk = [([''.updates''], Directory), ([''a''], File (Bytes ''old'') 420)], wd_faults = []\<rparr>"

lemma colliding_success: "isl (fst colliding_run) = False"
  by code_simp

theorem colliding_names_block_the_updater_witness:
  "\<not> isl (fst colliding_run)
   \<and> fst (run_state (updater_call sample_digest [] [] Call_status) \<lparr>wd_disk = wd_disk (snd colliding_run), wd_faults = []\<rparr>)
     = Inl ''state_invalid''"
proof -
  have "\<not> distinct (map (\<lambda>f. ascii_lower (if_Rel f)) colliding_files)" by code_simp
  from colliding_names_block_the_updater [OF this, of sample_digest "[]" "[]" sample_digest "''now''"
      "new_state ''now'' ''t'' [] sample_pending"
      "\<lparr>wd_disk = [([''.updates''], Directory), ([''a''], File (Bytes ''old'') 420)], wd_faults = []\<rparr>"]
    colliding_success
  show ?thesis unfolding colliding_run_def [symmetric] if_success_def is_dir_def
    by (simp del: updater_call.simps split: sum.splits)
qed




section \<open>Background jobs\<close>

text \<open>
  The run used by the witnesses: at the epoch, a rescan of session \<open>s1\<close> is started, begins, and is
  cancelled while its worker runs.
\<close>

definition epoch :: go_time where
  "epoch = 719162 * 86400 * 1000000000"

definition demo_queued :: admin_job where
  "demo_queued = queued_job ''rescan-0-000001'' ''rescan'' ''s1'' None epoch 0"

definition demo_worker :: worker where
  "demo_worker = \<lparr>wk_kind = ''rescan'', wk_session = ''s1'', wk_pc = Spawned, wk_cancelled = False\<rparr>"

definition demo_spawned :: jobs_system where
  "demo_spawned = \<lparr>js_mgr = pruneLocked (enqueue newAdminJobManager ''rescan-0-000001'' demo_queued), js_now = epoch,
     js_workers = (\<lambda>_. None)(''rescan-0-000001'' \<mapsto> demo_worker), js_streams = (\<lambda>_. None)\<rparr>"

definition demo_running :: jobs_system where
  "demo_running = demo_spawned\<lparr>
     js_mgr := job_update (js_mgr demo_spawned) ''rescan-0-000001'' ''running'' started_report epoch,
     js_workers := (js_workers demo_spawned)(''rescan-0-000001'' \<mapsto> demo_worker\<lparr>wk_pc := Working\<rparr>)\<rparr>"

definition demo_cancelled :: jobs_system where
  "demo_cancelled = demo_running\<lparr>js_mgr := fst (snd (cancelJob (js_mgr demo_running) ''rescan-0-000001'' epoch)),
     js_workers := (js_workers demo_running)(''rescan-0-000001'' \<mapsto> demo_worker\<lparr>wk_pc := Working, wk_cancelled := True\<rparr>)\<rparr>"

lemma demo_id: "job_id ''rescan'' epoch 1 = ''rescan-0-000001''"
  by (simp add: job_id_def unix_nano_def epoch_def second_def int64_def decimal_def decimal_nat.simps
      pad_left_def digit_char_def is_prefix_def) (simp add: numeral_eq_Suc)

lemma demo_trims:
  "trim_space ''rescan'' = ''rescan''" "trim_space ''s1'' = ''s1''"
  "trim_space ''rescan-0-000001'' = ''rescan-0-000001''"
  by code_simp+

lemma demo_start:
  "\<exists>snap. job_start newAdminJobManager ''rescan'' ''s1'' None epoch
     = (snap, js_mgr demo_spawned, Some (''rescan-0-000001'', ''rescan''))"
  by (simp add: job_start_def demo_trims demo_id demo_spawned_def demo_queued_def enqueue_def newAdminJobManager_def Let_def)

lemma demo_spawned_reachable: "reachable_jobs demo_spawned"
proof -
  obtain snap where start: "job_start newAdminJobManager ''rescan'' ''s1'' None epoch
     = (snap, js_mgr demo_spawned, Some (''rescan-0-000001'', ''rescan''))"
    using demo_start by blast
  have "reachable_jobs (initial_jobs\<lparr>js_now := epoch\<rparr>)"
    by (rule jobs_next [OF jobs_initial jobs_step.clock])
  from jobs_next [OF this jobs_step.spawns [of _ "''rescan''" "''s1''" None]] start show ?thesis
    by (simp add: initial_jobs_def demo_spawned_def demo_worker_def demo_trims newAdminJobManager_def)
qed

lemma demo_jobs:
  "the_job (js_mgr demo_spawned) ''rescan-0-000001'' = Some demo_queued"
  "\<exists>j. the_job (js_mgr demo_running) ''rescan-0-000001'' = Some j \<and> \<not> finished j \<and> aj_cancel j"
  "\<exists>j. the_job (js_mgr demo_cancelled) ''rescan-0-000001'' = Some j \<and> finished j"
proof -
  have open_q: "\<not> finished demo_queued" "aj_cancel demo_queued"
    by (simp_all add: demo_queued_def queued_open) (simp add: queued_job_def)
  have word_running: "\<not> adminJobTerminal ''running''" by code_simp
  show q: "the_job (js_mgr demo_spawned) ''rescan-0-000001'' = Some demo_queued"
    by (simp add: demo_spawned_def pruneLocked_def enqueue_def newAdminJobManager_def the_job_def)
  then show r: "\<exists>j. the_job (js_mgr demo_running) ''rescan-0-000001'' = Some j \<and> \<not> finished j \<and> aj_cancel j"
    using open_q word_running
    by (simp add: demo_running_def job_update_def the_job_publish running_text finished_def)
  then obtain j where j: "the_job (js_mgr demo_running) ''rescan-0-000001'' = Some j" "\<not> finished j" by blast
  obtain snap m c where c: "cancelJob (js_mgr demo_running) ''rescan-0-000001'' epoch = (snap, m, c)"
    by (metis prod_cases3)
  from cancel_closes [OF demo_trims(3) j c] c
  show "\<exists>j. the_job (js_mgr demo_cancelled) ''rescan-0-000001'' = Some j \<and> finished j"
    by (auto simp: demo_cancelled_def)
qed

lemma demo_running_reachable: "reachable_jobs demo_running"
  using jobs_next [OF demo_spawned_reachable jobs_step.begins [of demo_spawned "''rescan-0-000001''" demo_worker]]
  by (simp add: demo_running_def demo_spawned_def demo_worker_def)

lemma demo_cancelled_reachable: "reachable_jobs demo_cancelled"
proof -
  obtain j where j: "the_job (js_mgr demo_running) ''rescan-0-000001'' = Some j" "\<not> finished j" "aj_cancel j"
    using demo_jobs(2) by blast
  obtain snap m c where cancel: "cancelJob (js_mgr demo_running) ''rescan-0-000001'' epoch = (snap, m, c)"
    by (metis prod_cases3)
  with cancel_closes [OF demo_trims(3) j(1,2) cancel] j(3) have "c" by simp
  have now: "js_now demo_running = epoch" by (simp add: demo_running_def demo_spawned_def)
  have "jobs_step demo_running demo_cancelled"
    using jobs_step.cancels [OF cancel [folded now]] cancel \<open>c\<close>
    by (simp add: demo_trims mark_cancelled_def demo_cancelled_def) (simp add: demo_running_def)
  with demo_running_reachable show ?thesis by (rule jobs_next)
qed

text \<open>
  C15: A finished job (completed, deferred, partial_error, failed or cancelled) never changes again: in
  every later state it is found exactly as it was, or it has been pruned for good. A report or a
  result that a worker delivers after its job was cancelled has no effect.
\<close>

theorem finished_jobs_are_final:
  assumes "reachable_jobs s" and "jobs_step\<^sup>*\<^sup>* s s'" and "the_job (js_mgr s) jid = Some j" and "finished j"
  shows "the_job (js_mgr s') jid = None \<or> the_job (js_mgr s') jid = Some j"
  using assms(2,1,3,4) by (rule finished_run)

theorem finished_jobs_are_final_witness:
  "\<exists>j. the_job (job_update (js_mgr demo_cancelled) ''rescan-0-000001'' ''running'' None epoch) ''rescan-0-000001'' = Some j
    \<and> finished j \<and> the_job (js_mgr demo_cancelled) ''rescan-0-000001'' = Some j"
proof -
  obtain j where j: "the_job (js_mgr demo_cancelled) ''rescan-0-000001'' = Some j" "finished j"
    using demo_jobs(3) by blast
  define s' where "s' = demo_cancelled\<lparr>js_mgr := job_update (js_mgr demo_cancelled) ''rescan-0-000001'' ''running'' None epoch\<rparr>"
  have "jobs_step demo_cancelled s'"
    using jobs_step.reports [of demo_cancelled "''rescan-0-000001''" "demo_worker\<lparr>wk_pc := Working, wk_cancelled := True\<rparr>" None]
    by (simp add: s'_def demo_cancelled_def demo_running_def demo_spawned_def)
  then have "jobs_step\<^sup>*\<^sup>* demo_cancelled s'" by (rule r_into_rtranclp)
  from finished_jobs_are_final [OF demo_cancelled_reachable this j]
  have "the_job (js_mgr s') ''rescan-0-000001'' = None \<or> the_job (js_mgr s') ''rescan-0-000001'' = Some j" .
  moreover have "the_job (js_mgr s') ''rescan-0-000001'' \<noteq> None"
    using j by (simp add: s'_def job_update_def finished_def)
  ultimately show ?thesis using j by (auto simp: s'_def)
qed

text \<open>
  C16: At most one job of a kind (up to letter case) and session is open at any time, and an open job is
  never orphaned: its worker has not returned, so it will report the job's end.
\<close>

theorem one_open_job_per_session:
  assumes "reachable_jobs s" and "the_job (js_mgr s) x = Some i" and "\<not> finished i"
  shows "(\<exists>w. js_workers s x = Some w \<and> wk_pc w \<noteq> Left_work \<and> wk_kind w = aj_Kind i \<and> wk_session w = aj_SessionID i)
    \<and> \<not> (\<exists>y j. y \<noteq> x \<and> the_job (js_mgr s) y = Some j \<and> \<not> finished j
           \<and> equal_fold_ascii (aj_Kind i) (aj_Kind j) \<and> aj_SessionID i = aj_SessionID j)"
  using reachable_workers_ok [OF assms(1)] reachable_jobs_ok [OF assms(1)] assms(2,3)
  unfolding workers_ok_def jobs_ok_def one_open_def same_pair_def by blast

theorem one_open_job_per_session_witness:
  "\<exists>w. js_workers demo_spawned ''rescan-0-000001'' = Some w \<and> wk_pc w \<noteq> Left_work \<and> wk_session w = ''s1''"
proof -
  have "\<not> finished demo_queued" by (simp add: demo_queued_def queued_open)
  from one_open_job_per_session [OF demo_spawned_reachable demo_jobs(1) this]
  show ?thesis by (auto simp: demo_queued_def queued_job_def)
qed



text \<open>
  C18: Pruning: a start that spawns keeps every open job, drops only as many entries as there are over 80,
  takes the oldest finished ones, and leaves all other jobs as they are; afterwards the list holds at
  most 80 entries, or only open jobs.
\<close>

theorem pruning_drops_the_oldest_finished:
  assumes "reachable_jobs s" and "am_nextID (js_mgr s) \<noteq> - 1"
    and "job_start (js_mgr s) kind sid req now = (snap, m', Some (jid, k))"
  defines "m \<equiv> js_mgr s"
  defines "gone \<equiv> take (length (am_order m) + 1 - 80) (filter (done_in m) (am_order m))"
  shows "am_order m' = filter (\<lambda>i. i \<notin> set gone) (am_order m) @ [jid]
    \<and> (\<forall>i. i \<noteq> jid \<longrightarrow> the_job m' i = (if i \<in> set gone then None else the_job m i))
    \<and> (length (am_order m') \<le> 80 \<or> (\<forall>i \<in> set (am_order m'). \<not> done_in m' i))"
proof -
  have ok: "jobs_ok m" using reachable_jobs_ok [OF assms(1)] by (simp add: m_def)
  have gone: "gone = dropped m (int (Suc (length (am_order m))) - 80) (am_order m)"
    by (simp add: gone_def dropped_def nat_diff_distrib' nat_int_add)
  note view = spawn_view [OF ok assms(2,3) [folded m_def], folded gone]
  have dist: "distinct (am_order m)" using ok by (simp add: jobs_ok_def order_ok_def)
  have "length (am_order m') \<le> 80 \<or> (\<forall>i \<in> set (am_order m'). \<not> done_in m' i)"
  proof (cases "length (filter (done_in m) (am_order m)) \<le> length (am_order m) + 1 - 80")
    case True
    then have "gone = filter (done_in m) (am_order m)" by (simp add: gone_def)
    then have "\<not> done_in m' i" if "i \<in> set (am_order m')" for i
      using that view(4) by (auto simp: done_in_def view(2,3) queued_open)
    then show ?thesis by blast
  next
    case False
    then have "length (am_order m') = length (am_order m) - (length (am_order m) + 1 - 80) + 1"
      using filter_dropped_length [OF dist, of m "int (Suc (length (am_order m))) - 80"]
      by (simp add: view(3) gone nat_diff_distrib' nat_int_add min_def)
    with False length_filter_le [of "done_in m" "am_order m"] show ?thesis by linarith
  qed
  then show ?thesis by (simp add: view(2,3))
qed

theorem pruning_drops_the_oldest_finished_witness:
  "am_order (js_mgr demo_spawned) = [''rescan-0-000001'']"
proof -
  obtain snap where start: "job_start newAdminJobManager ''rescan'' ''s1'' None epoch
     = (snap, js_mgr demo_spawned, Some (''rescan-0-000001'', ''rescan''))"
    using demo_start by blast
  have mgr: "js_mgr initial_jobs = newAdminJobManager" by (simp add: initial_jobs_def)
  show ?thesis
    using pruning_drops_the_oldest_finished [OF jobs_initial, of "''rescan''" "''s1''" None epoch snap] start
    by (simp add: mgr newAdminJobManager_def)
qed

text \<open>
  C19: No change is missed: a stream that waits on a channel that is still open has written everything
  there is. Its job is there, unfinished, and not newer than what the stream has.
\<close>

theorem sleeping_streams_miss_nothing:
  assumes "reachable_jobs s" and "js_streams s n = Some (Sleeping jid cur ch sent)"
    and "ch \<notin> set (am_closed (js_mgr s))"
  shows "\<exists>j. the_job (js_mgr s) jid = Some j \<and> aj_changed j = ch \<and> \<not> finished j \<and> aj_Revision j \<le> cur"
proof -
  have "stream_ok (js_mgr s) (Sleeping jid cur ch sent)"
    using reachable_streams_ok [OF assms(1)] assms(2) unfolding streams_ok_def by blast
  with assms(3) show ?thesis
    by (auto simp: feed.sleeps_well_def channel_closed_def quiet_job_def not_less split: option.splits)
qed

text \<open>The demo's stream: it reads the queued job's first revision and then waits.\<close>

definition demo_stream :: "event_stream \<Rightarrow> jobs_system" where
  "demo_stream st = demo_spawned\<lparr>js_streams := (\<lambda>_. None)(0 \<mapsto> st)\<rparr>"

lemma demo_opened: "reachable_jobs (demo_stream (Observing ''rescan-0-000001'' 0 []))"
proof -
  have texts: "trim_space [] = []" by code_simp
  have "open_events (Some (js_mgr demo_spawned)) ''rescan-0-000001'' [] True = Inr (''rescan-0-000001'', 0)"
    by (simp add: open_events_def demo_trims texts ParseUint_def job_observe_def demo_jobs(1))
  from jobs_next [OF demo_spawned_reachable jobs_step.opens [OF _ this, of 0]] show ?thesis
    by (simp add: demo_stream_def demo_spawned_def)
qed

lemma demo_turn:
  assumes "reachable_jobs (demo_stream st)"
  shows "reachable_jobs (demo_stream (events_turn (js_mgr demo_spawned) True st))"
  using jobs_next [OF assms jobs_step.turns [of "demo_stream st" 0 st True]]
  by (simp add: demo_stream_def)

lemma demo_waits:
  "reachable_jobs (demo_stream (Sleeping ''rescan-0-000001'' 1 0 [job_snapshot demo_queued]))"
proof -
  let ?turn = "events_turn (js_mgr demo_spawned) True"
  have q: "\<not> adminJobTerminal (aj_Status demo_queued)" "aj_Revision demo_queued = 1" "aj_changed demo_queued = 0"
    using queued_open [of "''rescan-0-000001''" "''rescan''" "''s1''" None epoch 0]
    by (simp_all add: finished_def demo_queued_def) (simp_all add: queued_job_def)
  have one: "?turn (Observing ''rescan-0-000001'' 0 []) = Observing ''rescan-0-000001'' 1 [job_snapshot demo_queued]"
    using q by (simp add: job_observe_def demo_trims demo_jobs(1) finished_def uint64FromAny_def)
  have "?turn (Observing ''rescan-0-000001'' 1 [job_snapshot demo_queued])
      = Sleeping ''rescan-0-000001'' 1 0 [job_snapshot demo_queued]"
    using q by (simp add: job_observe_def demo_trims demo_jobs(1))
  with demo_turn [OF demo_turn [OF demo_opened], unfolded one] show ?thesis by simp
qed

theorem sleeping_streams_miss_nothing_witness:
  "\<exists>j. the_job (js_mgr demo_spawned) ''rescan-0-000001'' = Some j \<and> aj_Revision j \<le> 1"
proof -
  have "am_closed (js_mgr demo_spawned) = []" by (simp add: demo_spawned_def newAdminJobManager_def)
  with sleeping_streams_miss_nothing [OF demo_waits, of 0] show ?thesis by (auto simp: demo_stream_def)
qed

text \<open>
  A stream never goes back: the revisions of the snapshots it has written that are not final are
  strictly increasing, and only the last one it writes can be final.
\<close>

theorem streams_never_go_back:
  assumes "reachable_jobs s" and "js_streams s n = Some st"
  shows "sorted_wrt (\<lambda>a b. revision_of a < revision_of b)
      (filter (\<lambda>x. \<not> snapshot_terminal x) (stream_sent st))
    \<and> (\<forall>x \<in> set (butlast (stream_sent st)). \<not> snapshot_terminal x)"
proof -
  have "stream_ok (js_mgr s) st"
    using reachable_streams_ok [OF assms(1)] assms(2) unfolding streams_ok_def by blast
  then have "well_ended (stream_sent st)" by (cases st) (auto intro: going_on_well_ended)
  then show ?thesis by (simp add: well_ended_def ascending_def)
qed

theorem streams_never_go_back_witness:
  "\<forall>x \<in> set (butlast [job_snapshot demo_queued]). \<not> snapshot_terminal x"
  using streams_never_go_back [OF demo_waits, of 0 "Sleeping ''rescan-0-000001'' 1 0 [job_snapshot demo_queued]"]
  by (simp add: demo_stream_def)

text \<open>
  C20: Streams end: once the job of a stream is finished (or pruned after that), the stream returns within
  two of its own turns, whatever else happens between them.
\<close>

theorem finished_jobs_end_their_streams:
  assumes "reachable_jobs s" and "js_streams s n = Some st" and "stream_job st = Some jid"
    and "the_job (js_mgr s) jid = Some j" and "finished j"
    and "counted_run n k s s'" and "2 \<le> k"
  shows "\<exists>sent. js_streams s' n = Some (Closed sent)"
proof -
  have "given_out (js_mgr s) jid" using job_given_out [OF reachable_jobs_ok [OF assms(1)] assms(4)] .
  then have "ending s n 2"
    using assms(2-5) by (cases st) (auto simp: ending_def over_def)
  from ending_run [OF assms(6,1) this] assms(7) obtain st' where "js_streams s' n = Some st'" "turns_left st' = 0"
    by (auto simp: ending_def)
  then show ?thesis by (cases st') auto
qed

text \<open>In the demo, the waiting stream's job is cancelled; it wakes up, writes the last snapshot and returns.\<close>

lemma demo_stream_cancel:
  "\<exists>s j. reachable_jobs s \<and> js_streams s 0 = Some (Sleeping ''rescan-0-000001'' 1 0 [job_snapshot demo_queued])
    \<and> the_job (js_mgr s) ''rescan-0-000001'' = Some j \<and> finished j"
proof -
  let ?s = "demo_stream (Sleeping ''rescan-0-000001'' 1 0 [job_snapshot demo_queued])"
  obtain snap m c where c: "cancelJob (js_mgr ?s) ''rescan-0-000001'' (js_now ?s) = (snap, m, c)"
    by (metis prod_cases3)
  have "\<not> finished demo_queued" by (simp add: demo_queued_def queued_open)
  moreover have "the_job (js_mgr ?s) ''rescan-0-000001'' = Some demo_queued"
    using demo_jobs(1) by (simp add: demo_stream_def)
  ultimately obtain j where "the_job m ''rescan-0-000001'' = Some j" "finished j"
    using cancel_closes [OF demo_trims(3) _ _ c] by blast
  with jobs_next [OF demo_waits jobs_step.cancels [OF c]] show ?thesis
    by (intro exI [of _ "?s\<lparr>js_mgr := m, js_workers := (if c then (js_workers ?s)(trim_space ''rescan-0-000001'' :=
      mark_cancelled (js_workers ?s (trim_space ''rescan-0-000001''))) else js_workers ?s)\<rparr>"] exI [of _ j])
      (simp add: demo_stream_def)
qed

theorem finished_jobs_end_their_streams_witness:
  "\<exists>s s' sent. js_streams s 0 = Some (Sleeping ''rescan-0-000001'' 1 0 [job_snapshot demo_queued])
    \<and> counted_run 0 2 s s' \<and> js_streams s' 0 = Some (Closed sent)"
proof -
  obtain s j where s: "reachable_jobs s"
      "js_streams s 0 = Some (Sleeping ''rescan-0-000001'' 1 0 [job_snapshot demo_queued])"
      "the_job (js_mgr s) ''rescan-0-000001'' = Some j" "finished j"
    using demo_stream_cancel by blast
  note one = counted_run.own_turn [OF counted_run.no_steps s(2), of True]
  obtain s1 st1 where s1: "counted_run 0 (Suc 0) s s1" "js_streams s1 0 = Some st1"
    using one by fastforce
  obtain s2 where s2: "counted_run 0 2 s s2"
    using counted_run.own_turn [OF s1, of True] by (auto simp: numeral_2_eq_2)
  from finished_jobs_end_their_streams [OF s(1,2) _ s(3,4) s2] s(2) s2 show ?thesis by auto
qed

text \<open>
  Top-level secrets are redacted: in the request of every job that a start creates, each key whose name
  contains key, secret, password or token (in any letter case) reads as nothing or as the redaction mark.
\<close>

theorem top_level_secrets_are_redacted:
  assumes "job_start m kind sid req now = (snap, m', Some (jid, k))" and "secret_key name"
  shows "\<exists>shown. lookup (Some snap) ''request'' = Any_map (Some shown)
    \<and> lookup (Some shown) name \<in> {Any_nil, Any_text ''[redacted]''}"
proof -
  have put: "map_of (merge_into dst (map redact kvs)) name \<in> {None, Some (Any_text ''[redacted]'')}"
    if "map_of dst name \<in> {None, Some (Any_text ''[redacted]'')}" for dst kvs
    using that
  proof (induction kvs arbitrary: dst)
    case (Cons kv kvs)
    obtain k v where red: "redact kv = (k, v)" by (cases "redact kv")
    then have "k = name \<longrightarrow> v = Any_text ''[redacted]''"
      using assms(2) by (auto simp: redact_def split: if_splits)
    with Cons show ?case by (auto simp: red)
  qed simp
  let ?r = "sanitizeAdminJobRequest req"
  have "map_of ?r name \<in> {None, Some (Any_text ''[redacted]'')}"
    unfolding sanitizeAdminJobRequest_def by (rule put) simp
  moreover have "cloneMapAny (Some ?r) = Some ?r"
    by (intro clone_entries) (simp add: sanitizeAdminJobRequest_def go_map_merge_into)
  moreover have "lookup (Some snap) ''request'' = Any_map (cloneMapAny (Some ?r))"
    using assms(1) by (auto simp: job_start_def Let_def queued_job_def split: option.splits)
  ultimately show ?thesis by (auto simp: lookup_def)
qed



text \<open>
  A job's last report agrees with how it ended: \<open>done\<close> is true exactly for a completed job, a completed
  job stands at 100 percent, and a deferred job below 100, whatever its worker reported before.
\<close>

theorem last_progress_matches_the_end:
  assumes "the_job m jid = Some job" and "\<not> finished job"
    and "status \<in> {''completed'', ''deferred'', ''partial_error'', ''failed'', ''cancelled''}"
  shows "\<exists>j p. the_job (job_finish m jid status produced msg now) jid = Some j \<and> aj_Progress j = Some p
    \<and> aj_Status j = status \<and> finished j \<and> lookup (Some p) ''done'' = Any_bool (status = ''completed'')
    \<and> (status = ''completed'' \<longrightarrow> lookup (Some p) ''progress_percent'' = Any_int 100)
    \<and> (status = ''deferred'' \<longrightarrow> intFromAny (lookup (Some p) ''progress_percent'') 0 < 100)"
proof -
  let ?p = "closing_progress (aj_Progress job) status (trim_space msg) now"
  have "adminJobTerminal status" using assms(3) terminal_words by auto
  moreover have "lookup (Some ?p) ''done'' = Any_bool (status = ''completed'')"
    by (simp add: closing_progress_def lookup_def Let_def)
  moreover have "status = ''completed'' \<longrightarrow> lookup (Some ?p) ''progress_percent'' = Any_int 100"
    by (simp add: closing_progress_def lookup_def Let_def)
  moreover have "status = ''deferred'' \<longrightarrow> intFromAny (lookup (Some ?p) ''progress_percent'') 0 < 100"
    by (auto simp: closing_progress_def lookup_def Let_def intFromAny_def)
  ultimately show ?thesis
    using assms(1,2) by (auto simp: job_finish_def finished_def the_job_publish)
qed

theorem last_progress_matches_the_end_witness:
  "\<exists>j p. the_job (job_finish (js_mgr demo_spawned) ''rescan-0-000001'' ''deferred'' None [] epoch) ''rescan-0-000001'' = Some j
    \<and> aj_Progress j = Some p \<and> intFromAny (lookup (Some p) ''progress_percent'') 0 < 100"
proof -
  have "\<not> finished demo_queued" by (simp add: demo_queued_def queued_open)
  from last_progress_matches_the_end [OF demo_jobs(1) this, of "''deferred''" None "[]" epoch] show ?thesis by auto
qed

theorem top_level_secrets_are_redacted_witness:
  "\<exists>snap shown. job_start newAdminJobManager ''rescan'' ''s1'' (Some [(''api_key'', Any_text ''sk'')]) epoch
      = (snap, pruneLocked (enqueue newAdminJobManager ''rescan-0-000001''
           (queued_job ''rescan-0-000001'' ''rescan'' ''s1'' (Some [(''api_key'', Any_text ''sk'')]) epoch 0)),
         Some (''rescan-0-000001'', ''rescan''))
    \<and> lookup (Some snap) ''request'' = Any_map (Some shown)
    \<and> lookup (Some shown) ''api_key'' \<in> {Any_nil, Any_text ''[redacted]''}"
proof -
  have "secret_key ''api_key''" by code_simp
  moreover have "\<exists>snap. job_start newAdminJobManager ''rescan'' ''s1'' (Some [(''api_key'', Any_text ''sk'')]) epoch
      = (snap, pruneLocked (enqueue newAdminJobManager ''rescan-0-000001''
           (queued_job ''rescan-0-000001'' ''rescan'' ''s1'' (Some [(''api_key'', Any_text ''sk'')]) epoch 0)),
         Some (''rescan-0-000001'', ''rescan''))"
    by (simp add: job_start_def demo_trims demo_id enqueue_def newAdminJobManager_def Let_def)
  ultimately show ?thesis using top_level_secrets_are_redacted by blast
qed



section \<open>The store decorators\<close>


text \<open>
  The deletions of a rollback (in the order of the handler's table list, or any other) go
  through the dual-write store as through the primary: each step returns the primary's error,
  labelled with the method and \<open>primary\<close>, a failing step does not stop the following ones, and
  the primary ends as if it had been called directly.
\<close>

theorem dual_rollback_refines_primary:
  assumes "as_RollbackStore P = Some r"
  shows "fst (run_calls (rollback_call (dual_RollbackStore P S)) cs d)
      = map (\<lambda>(c, (u, e)). (u, map_option (Wrapped (rollback_label c @ '' primary'')) e))
          (zip cs (fst (run_calls (rollback_call r) cs (dual_primary d))))
    \<and> dual_primary (snd (run_calls (rollback_call (dual_RollbackStore P S)) cs d))
      = snd (run_calls (rollback_call r) cs (dual_primary d))"
  by (rule dual_rollback_run [OF assms])

lemma noop_has_rollback: "as_RollbackStore NewNoopStore = Some noop_RollbackStore"
  by (simp add: NewNoopStore_def)

theorem dual_rollback_refines_primary_witness:
  "\<forall>S :: nat Store. map snd (fst (run_calls (rollback_call (dual_RollbackStore NewNoopStore S))
     [Rollback_DeleteMemories ''s'' 4, Rollback_DeleteSession ''s''] (new_dual () 0))) = [None, None]"
proof
  fix S :: "nat Store"
  show "map snd (fst (run_calls (rollback_call (dual_RollbackStore NewNoopStore S))
     [Rollback_DeleteMemories ''s'' 4, Rollback_DeleteSession ''s''] (new_dual () 0))) = [None, None]"
    using dual_rollback_refines_primary [OF noop_has_rollback,
        where cs = "[Rollback_DeleteMemories ''s'' 4, Rollback_DeleteSession ''s'']" and d = "new_dual () 0"
        and S = S]
    by (simp add: noop_RollbackStore_def archive_eval)
qed

text \<open>
  The shadow's failures are accounted for and nothing else is: over any run the failure
  counter grows by at most one per call, the last error is kept when it does not grow, and is
  some error when it does.
\<close>

theorem shadow_failures_are_counted:
  "\<exists>n. n \<le> length cs
    \<and> shadowFailures (snd (run_calls (call (NewDualWriteStore P S)) cs d)) = shadowFailures d + of_nat n
    \<and> (if n = 0
       then shadowLastErr (snd (run_calls (call (NewDualWriteStore P S)) cs d)) = shadowLastErr d
       else shadowLastErr (snd (run_calls (call (NewDualWriteStore P S)) cs d)) \<noteq> None)"
  using dual_calls.run_accounts [where P = P and S = S and cs = cs and d = d] by blast

text \<open>
  A run that the primary refuses throughout never reaches the shadow: its state, the failure
  counter and the last error are as before.
\<close>

theorem refused_calls_spare_the_shadow:
  assumes "\<forall>a \<in> set (fst (run_calls (call (or_noop P)) cs (dual_primary d))). snd a \<noteq> None"
  shows "dual_shadow (snd (run_calls (call (NewDualWriteStore P S)) cs d)) = dual_shadow d
    \<and> ShadowStatus (snd (run_calls (call (NewDualWriteStore P S)) cs d)) = ShadowStatus d"
  using dual_calls.refused_run_keeps_shadow [OF assms, where S = S] by (simp add: same_shadow_def)

theorem refused_calls_spare_the_shadow_witness:
  "\<forall>(S :: nat Store) m. dual_shadow (snd (run_calls
     (call (NewDualWriteStore (Some (NewReadOnlyStore NewNoopStore)) (Some S)))
     [Call_SaveMemory m, Call_GetEffectiveInput ''s'' 1] (new_dual () 7))) = 7"
proof (intro allI)
  fix S :: "nat Store" and m
  let ?cs = "[Call_SaveMemory m, Call_GetEffectiveInput ''s'' 1]"
  have "\<forall>a \<in> set (fst (run_calls (call (or_noop (Some (NewReadOnlyStore NewNoopStore)))) ?cs ())).
      snd a \<noteq> None"
    by (simp add: or_noop_def answered_def raises_def NewNoopStore_def)
  then show "dual_shadow (snd (run_calls
     (call (NewDualWriteStore (Some (NewReadOnlyStore NewNoopStore)) (Some S))) ?cs (new_dual () 7))) = 7"
    using refused_calls_spare_the_shadow [where P = "Some (NewReadOnlyStore NewNoopStore)" and cs = ?cs
        and d = "new_dual () 7" and S = "Some S"]
    by (simp add: new_dual_def)
qed

text \<open>
  Shadow mode (\<open>mariadb_shadow\<close>: no-op primary, database as shadow): the database goes
  through exactly the writes of the run, in order, as if it had been called directly, whether it
  fails or not; no call fails with anything but \<open>ErrNotFound\<close>; and the failure counter is the
  number of writes the database refused.
\<close>

theorem shadow_mode_writes_through:
  "dual_shadow (snd (run_calls (call (behind_noop M)) cs d))
     = snd (run_calls (call M) (filter is_write cs) (dual_shadow d))
   \<and> list_all (\<lambda>a. snd a = None \<or> snd a = Some ErrNotFound) (fst (run_calls (call (behind_noop M)) cs d))
   \<and> shadowFailures (snd (run_calls (call (behind_noop M)) cs d)) = shadowFailures d
     + of_nat (length (filter (\<lambda>a. snd a \<noteq> None)
         (fst (run_calls (call M) (filter is_write cs) (dual_shadow d)))))"
  using behind_noop_run behind_noop_failures behind_noop_errors [of M cs d]
  by (auto simp: list_all_iff)

text \<open>
  C23: The read-only store lets no write through: a write of the \<open>Store\<close> interface and each of the
  thirty rollback methods return \<open>ErrNotEnabled\<close> and leave the delegate as it is; any other call
  of the interface is the delegate's.
\<close>

theorem read_only_blocks_writes:
  "call (NewReadOnlyStore R) c q = (if is_write c then ((Saved, Some ErrNotEnabled), q) else call R c q)
   \<and> as_RollbackStore (NewReadOnlyStore R) = Some (readonly_RollbackStore R)
   \<and> rollback_call (readonly_RollbackStore R) k q = (((), Some ErrNotEnabled), q)"
  using readonly_write [of c R q] readonly_rollback [of R k q]
  by (cases "is_write c") (simp_all, cases c, simp_all)

text \<open>
  If the delegate's reads have no effect, a client of the read-only store cannot change
  anything: over any run the state is constant and every read answers from that state.
\<close>

theorem read_only_runs_are_constant:
  assumes "reading_store R"
  shows "run_calls (call (NewReadOnlyStore R)) cs q
    = (map (\<lambda>c. if is_write c then (Saved, Some ErrNotEnabled) else fst (call R c q)) cs, q)"
  by (rule reading_store.readonly_run [OF assms])

theorem read_only_runs_are_constant_witness:
  "\<forall>(S :: nat Store) m (d :: (unit, nat) dual). run_calls (call (NewReadOnlyStore (dual_store NewNoopStore S)))
     [Call_SaveMemory m, Call_ListSessions] d = ([(Saved, Some ErrNotEnabled), (Got_ListSessions [], None)], d)"
proof (intro allI)
  fix S :: "nat Store" and m and d :: "(unit, nat) dual"
  have "ListSessions (NewNoopStore :: unit Store) = returns []" by (simp add: NewNoopStore_def)
  then show "run_calls (call (NewReadOnlyStore (dual_store NewNoopStore S)))
     [Call_SaveMemory m, Call_ListSessions] d = ([(Saved, Some ErrNotEnabled), (Got_ListSessions [], None)], d)"
    using read_only_runs_are_constant [OF noop_dual_reads.reading_store_axioms, of S
        "[Call_SaveMemory m, Call_ListSessions]" d]
    by (simp add: dual_ListSessions_def answered_def)
qed

text \<open>
  Writes behind an availability gate: if no side has the writer, nothing is called and the
  answer is \<open>ErrNotEnabled\<close>; with the primary's writer the primary decides.
\<close>

theorem gated_save_follows_primary:
  "(case preciseMemoryWriterForStore P (dual_primary d) of
      Some w \<Rightarrow> snd (fst (dual_SavePreciseMemoryUnit P S item d))
          = snd (fst (SavePreciseMemoryUnit w item (dual_primary d)))
        \<and> dual_primary (snd (dual_SavePreciseMemoryUnit P S item d))
          = snd (SavePreciseMemoryUnit w item (dual_primary d))
    | None \<Rightarrow> dual_primary (snd (dual_SavePreciseMemoryUnit P S item d)) = dual_primary d
        \<and> (dual_PreciseMemoryWritesEnabled P S d
           \<or> dual_SavePreciseMemoryUnit P S item d = (((False, item), Some ErrNotEnabled), d)))"
proof (cases "preciseMemoryWriterForStore P (dual_primary d)")
  case None
  then show ?thesis
    by (auto simp: dual_SavePreciseMemoryUnit_def dual_PreciseMemoryWritesEnabled_def gated_write_def
        on_shadow_def recordShadowErr_def Option.is_none_def split: option.splits prod.splits)
next
  case (Some w)
  with follows_primaryD(1,2) [OF follows_gated_write, of False "SavePreciseMemoryUnit w" _ item d]
  show ?thesis by (simp add: dual_SavePreciseMemoryUnit_def)
qed

text \<open>
  When only the shadow can queue vector operations and it refuses one, the caller is told
  that all is well: the answer has no error, the item is not queued anywhere, and only the
  failure counter knows. This happens in particular when the shadow tracks source revisions but
  has no outbox.
\<close>

theorem lost_vector_operation_is_silent:
  assumes "memoryLifecycleSourceStore P (dual_primary d) = None"
    and "memoryLifecycleSourceStore S (dual_shadow d) \<noteq> None"
    and "as_MemoryVectorOutboxStore S = None"
  shows "dual_EnqueueMemoryVectorOperation P S item d = (((False, item), None), recordShadowErr ErrNotEnabled d)"
  using assms
  by (auto simp: dual_EnqueueMemoryVectorOperation_def dualEnqueueMemoryWork_def gated_write_def
      on_shadow_def)

definition revisions_only :: "'st SourceRevisionStore" where
  "revisions_only = \<lparr>RegisterAcceptedSourceRevision = (\<lambda>x. returns (zero_SourceRevisionRegistration, x)),
     GetSourceRevision = (\<lambda>_ _. returns None), IsSourceRevisionActive = (\<lambda>_ _. returns True),
     InvalidateSourceRevisions = (\<lambda>_ _ _ _ _. returns ())\<rparr>"

theorem lost_vector_operation_is_silent_witness:
  "\<forall>item. snd (fst (dual_EnqueueMemoryVectorOperation NewNoopStore
     (NewNoopStore\<lparr>as_SourceRevisionStore := Some revisions_only\<rparr>) item (new_dual () ()))) = None"
  using lost_vector_operation_is_silent [where P = NewNoopStore and d = "new_dual () ()"
      and S = "NewNoopStore\<lparr>as_SourceRevisionStore := Some revisions_only\<rparr>"]
  by (simp add: memoryLifecycleSourceStore_def NewNoopStore_def)

text \<open>
  What the caller's record holds after a successful save: in the methods of \<open>Store\<close> the shadow
  writes into the same record after the primary, so an id the shadow assigns replaces the
  primary's; \<open>SaveEpisodeSummary\<close> gives the shadow a copy, so there it does not.
\<close>

theorem caller_sees_shadow_row:
  assumes "SaveMemory P m (dual_primary d) = ((m1, None), p1)"
    and "as_EpisodeSummaryStore P = Some w" and "SaveEpisodeSummary w x (dual_primary d) = ((x1, None), p2)"
  shows "fst (fst (dual_SaveMemory P S m d)) = fst (fst (SaveMemory S m1 (dual_shadow d)))
    \<and> fst (fst (dual_SaveEpisodeSummary P S x d)) = x1"
proof -
  have "on_primary (SaveMemory P m) d = ((m1, None), d\<lparr>dual_primary := p1\<rparr>)"
    "on_primary (SaveEpisodeSummary w x) d = ((x1, None), d\<lparr>dual_primary := p2\<rparr>)"
    using assms by (simp_all add: on_primary_def)
  moreover obtain x2 d2 where q: "shadow_quietly (SaveMemory S m1) (d\<lparr>dual_primary := p1\<rparr>) = (x2, d2)"
    by (metis surj_pair)
  moreover have "x2 = fst (fst (SaveMemory S m1 (dual_shadow d)))"
    using shadow_quietly_eqs(2) [of "SaveMemory S m1" "d\<lparr>dual_primary := p1\<rparr>"] q by simp
  ultimately show ?thesis
    using assms(2) by (simp add: dual_SaveMemory_def write_both_def dual_SaveEpisodeSummary_def
        write_required_copy_def)
qed

theorem caller_sees_shadow_row_witness:
  "\<forall>m. fst (fst (dual_SaveMemory
       (NewNoopStore\<lparr>SaveMemory := \<lambda>m. returns (m\<lparr>Memory_ID := 1\<rparr>),
          as_EpisodeSummaryStore := Some \<lparr>SaveEpisodeSummary = returns\<rparr>\<rparr>)
       (NewNoopStore\<lparr>SaveMemory := \<lambda>m. returns (m\<lparr>Memory_ID := 9\<rparr>)\<rparr>) m (new_dual () ())))
     = m\<lparr>Memory_ID := 9\<rparr>"
proof
  fix m
  let ?P = "NewNoopStore\<lparr>SaveMemory := \<lambda>m. returns (m\<lparr>Memory_ID := 1\<rparr>),
          as_EpisodeSummaryStore := Some \<lparr>SaveEpisodeSummary = returns\<rparr>\<rparr> :: unit Store"
  let ?S = "NewNoopStore\<lparr>SaveMemory := \<lambda>m. returns (m\<lparr>Memory_ID := 9\<rparr>)\<rparr> :: unit Store"
  have "SaveMemory ?P m (dual_primary (new_dual () ())) = ((m\<lparr>Memory_ID := 1\<rparr>, None), ())"
    "as_EpisodeSummaryStore ?P = Some \<lparr>SaveEpisodeSummary = returns\<rparr>"
    "\<And>x. SaveEpisodeSummary \<lparr>SaveEpisodeSummary = returns\<rparr> x (dual_primary (new_dual () ())) = ((x, None), ())"
    by (simp_all add: archive_eval)
  from caller_sees_shadow_row [OF this, of ?S]
  show "fst (fst (dual_SaveMemory ?P ?S m (new_dual () ()))) = m\<lparr>Memory_ID := 9\<rparr>"
    by (simp add: archive_eval)
qed

text \<open>
  The extension reads are not primary-only: when the primary lacks the interface, claiming a
  reprocessing job claims it in the shadow, the shadow's answer and error reach the caller, and
  the failure is not counted.
\<close>

theorem claim_falls_back_to_shadow:
  assumes "as_MemoryReprocessingJobStore P = None" and "as_MemoryReprocessingJobStore S = Some w"
  shows "(let (answer, d') = dual_ClaimMemoryReprocessingJob P S lease_owner now lease d in
      answer = fst (ClaimMemoryReprocessingJob w lease_owner now lease (dual_shadow d))
      \<and> dual_shadow d' = snd (ClaimMemoryReprocessingJob w lease_owner now lease (dual_shadow d))
      \<and> dual_primary d' = dual_primary d \<and> ShadowStatus d' = ShadowStatus d)"
  using assms
  by (simp add: dual_ClaimMemoryReprocessingJob_def on_shadow_def ShadowStatus_def split: prod.splits)

definition failing_jobs :: "'st MemoryReprocessingJobStore" where
  "failing_jobs = \<lparr>EnqueueMemoryReprocessingJob = (\<lambda>x. raises ErrNotEnabled (False, x)),
     ClaimMemoryReprocessingJob = (\<lambda>_ _ _. raises ErrLeaseExpired None),
     CompleteMemoryReprocessingJob = (\<lambda>_ _ _. returns ()),
     FailMemoryReprocessingJob = (\<lambda>_ _ _ _ _ _. returns ())\<rparr>"

theorem claim_falls_back_to_shadow_witness:
  "fst (dual_ClaimMemoryReprocessingJob NewNoopStore
      (NewNoopStore\<lparr>as_MemoryReprocessingJobStore := Some failing_jobs\<rparr>) ''worker'' 0 second (new_dual () ()))
    = (None, Some ErrLeaseExpired)"
  using claim_falls_back_to_shadow [where P = NewNoopStore and w = failing_jobs and lease_owner = "''worker''"
      and now = 0 and lease = second and d = "new_dual () ()"
      and S = "NewNoopStore\<lparr>as_MemoryReprocessingJobStore := Some failing_jobs\<rparr>"]
  by (simp add: NewNoopStore_def failing_jobs_def raises_def split: prod.splits)


section \<open>Shared caches\<close>

text \<open>
  A window of the rate limiter: the request that opens it is let through whatever the limit
  is, and of all \<open>n\<close> requests that come before it ends, in any order of times, the first \<open>limit\<close>
  are let through and no more.
\<close>

theorem window_admits_limit:
  assumes "\<not> in_window r t" and "\<forall>u \<in> set ts. in_window (r\<lparr>rl_windowStart := t\<rparr>) u"
    and "int (length ts) < 2 ^ 63 - 1"
  shows "fst (answers (t # ts) r) = map (\<lambda>i. i = 0 \<or> int i < rl_limit r) [0..<length (t # ts)]
    \<and> length (filter id (fst (answers (t # ts) r))) = max 1 (min (length (t # ts)) (nat (rl_limit r)))"
proof -
  let ?r = "r\<lparr>rl_windowStart := t, rl_count := 1\<rparr>"
  have "\<forall>u \<in> set ts. in_window ?r u" using assms(2) by (simp add: in_window_def)
  from answers_in_window [OF this] assms(3)
  have ts: "fst (answers ts ?r) = map (\<lambda>i. 1 + int i < rl_limit r) [0..<length ts]" by simp
  have upt: "[0..<length (t # ts)] = 0 # map Suc [0..<length ts]"
    by (simp add: map_Suc_upt upt_conv_Cons del: upt_Suc)
  have all: "fst (answers (t # ts) r) = True # map (\<lambda>i. 1 + int i < rl_limit r) [0..<length ts]"
    using ts by (cases "answers ts ?r") (simp add: allowed_new_window [OF assms(1)])
  have "length (filter id (map (\<lambda>i. 1 + int i < rl_limit r) [0..<length ts]))
      = min (length ts) (nat (rl_limit r - 1))"
    using count_below [of 1 "rl_limit r" "length ts"] by (simp add: filter_map comp_def)
  with all have "length (filter id (fst (answers (t # ts) r))) = Suc (min (length ts) (nat (rl_limit r - 1)))"
    by simp
  moreover have "Suc (min n (nat (m - 1))) = max 1 (min (Suc n) (nat m))" for n and m :: int
  proof (cases "0 < m")
    case True
    then obtain k where "m = int (Suc k)" by (metis zero_less_imp_eq_int gr0_implies_Suc)
    then show ?thesis by simp
  qed simp
  moreover have "fst (answers (t # ts) r) = map (\<lambda>i. i = 0 \<or> int i < rl_limit r) [0..<length (t # ts)]"
    unfolding all upt by (simp add: comp_def)
  ultimately show ?thesis by (simp del: answers.simps)
qed

theorem window_admits_limit_witness:
  "fst (answers [60 * second, 61 * second, 62 * second] (NewRateLimiter 0 60 0)) = [True, False, False]"
proof -
  let ?r = "NewRateLimiter 0 60 0"
  have "seconds 60 = 60 * second" by (simp add: seconds_def second_def int64_small)
  then have w: "\<not> in_window ?r (60 * second)"
    "\<forall>u \<in> set [61 * second, 62 * second]. in_window (?r\<lparr>rl_windowStart := 60 * second\<rparr>) u"
    by (simp_all add: in_window_def NewRateLimiter_def time_sub_def second_def)
  from window_admits_limit [OF w] show ?thesis
    by (simp add: NewRateLimiter_def upt_rec)
qed

text \<open>
  A cached session value that has expired stays expired: after any history of writes and
  deletions, once a lookup of a key of that history misses, every later lookup misses until the
  next write.
\<close>

theorem session_miss_is_stable:
  assumes "sid \<in> fst ` set ws"
    and "session_Get (expiring_cache.apply_writes session_put session_Delete ws c) sid now = None"
    and "now \<le> later"
  shows "session_Get (expiring_cache.apply_writes session_put session_Delete ws c) sid later = None"
  by (rule sessions.miss_stays [OF assms])

theorem session_miss_is_stable_witness:
  "session_Get (session_Set ''s'' (7 :: nat) 5 0 NewSessionCache) ''s'' 9 = None"
proof -
  let ?ws = "[(''s'', Some \<lparr>sv_Data = 7 :: nat, sv_CreatedAt = 0, sv_TTL = 5\<rparr>)]"
  have "expiring_cache.apply_writes session_put session_Delete ?ws NewSessionCache
      = session_Set ''s'' 7 5 0 NewSessionCache"
    by (simp add: session_Set_def)
  moreover have "session_Get (session_Set ''s'' (7 :: nat) 5 0 NewSessionCache) ''s'' 8 = None"
    by (simp add: session_Get_def session_Set_def session_put_def time_sub_def)
  ultimately show ?thesis
    using session_miss_is_stable [of "''s''" ?ws NewSessionCache 8 9] by simp
qed

text \<open>
  \<open>GetOrFetch\<close>: a live token is returned without a fetch; a failed fetch caches nothing and
  returns no token; a fetch that succeeds with a nil token is cached, and from then on every
  lookup of that key dereferences nil.
\<close>

theorem get_or_fetch:
  "(case token_Get cache key now of
      Token_hit t \<Rightarrow> GetOrFetch key now fetcher cache world = (Some (Some t, None), cache, world)
    | Token_nil_dereference \<Rightarrow> fst (GetOrFetch key now fetcher cache world) = None
    | Token_miss \<Rightarrow> (case fetcher key world of
        ((t, Some e), world') \<Rightarrow> GetOrFetch key now fetcher cache world = (Some (None, Some e), cache, world')
      | ((Some t, None), world') \<Rightarrow> (let (res, cache', w) = GetOrFetch key now fetcher cache world in
          res = Some (Some t, None)
          \<and> token_Get cache' key later = (if ct_ExpiresAt t < later then Token_miss else Token_hit t))
      | ((None, None), world') \<Rightarrow> (let (res, cache', w) = GetOrFetch key now fetcher cache world in
          res = Some (None, None) \<and> token_Get cache' key later = Token_nil_dereference)))"
  by (auto simp: GetOrFetch_def token_Set_def split: token_lookup.splits prod.splits option.splits)
    (auto simp: token_Get_def)

section \<open>The vector store behind its fence\<close>









text \<open>
  C26: Readers of the in-memory store see one set of documents: from the moment a search, count or
  listing has the lock until it gives it back, the documents do not change.
\<close>

theorem readers_see_a_snapshot:
  assumes "reachable_fence fake_store d0 s"
    and "fs_pcs s t = Some (Inside Shared start replies prog)"
  shows "docs start = docs (fs_delegate s)"
  by (rule fake_fence.reader_view [OF assms])

theorem readers_see_a_snapshot_witness:
  "\<exists>s. reachable_fence fake_store NewFakeVectorStore s \<and> docs (fs_delegate s) = []
     \<and> holds Shared (fs_pcs s 0)"
proof -
  let ?s0 = "initial_fence NewFakeVectorStore"
  let ?s1 = "at_pc 0 (Queued False Shared (method_body Op_Health)) ?s0"
  let ?s2 = "at_pc 0 (Inside Shared NewFakeVectorStore [] (method_body Op_Health)) (?s1\<lparr>fs_readers := {0}\<rparr>)"
  have r1: "reachable_fence fake_store NewFakeVectorStore ?s1"
    using call_method [of ?s0 0 fake_store Op_Health]
    by (intro fence_next [OF fence_initial]) (simp add: initial_fence_def)
  have r2: "reachable_fence fake_store NewFakeVectorStore ?s2"
    using lock_shared [of ?s1 0 False "method_body Op_Health" fake_store]
    by (intro fence_next [OF r1]) (simp add: initial_fence_def)
  have "docs NewFakeVectorStore = docs (fs_delegate ?s2)"
    by (rule readers_see_a_snapshot [OF r2, of 0 _ "[]" "method_body Op_Health"]) simp
  then show ?thesis
    using r2 by (intro exI [of _ ?s2]) (simp add: NewFakeVectorStore_def)
qed


section \<open>The shadow comparison\<close>

text \<open>A library for the witnesses: no number has a float, scalars have no text.\<close>

definition demo_lib :: compare_lib where
  "demo_lib = \<lparr>cl_text = (\<lambda>_. []), cl_float = (\<lambda>t. if t = ''1'' then Some 0x3FF0000000000000 else Some 0x4000000000000000)\<rparr>"

text \<open>
  C27: The bounded comparison returns exactly the first \<open>maxDiffs\<close> entries of the list of all differences
  (with those at volatile paths relabelled), and says that it was cut exactly when there are more.
\<close>

theorem bounded_comparison_is_a_prefix:
  "CompareValues L pyVal goVal maxDiffs =
    (take (nat maxDiffs) (map mark_volatile (value_diffs L pyVal goVal [])),
     nat maxDiffs < length (value_diffs L pyVal goVal []))"
proof (cases "value_diffs L pyVal goVal []")
  case Nil
  then show ?thesis by (simp add: CompareValues_spec)
next
  case (Cons d ds)
  then show ?thesis unfolding CompareValues_spec by auto
qed

text \<open>
  C28: With a positive limit, \<open>ExactJSONMatch\<close> means equality of what the two bodies decode to: the same keys
  with the same values at every depth, arrays element by element, numbers as \<open>float64\<close>.
\<close>

theorem exact_match_means_equal:
  assumes "no_nan L" and "0 < maxDiffs"
  shows "vr_ExactJSONMatch (judge L maxDiffs pyBody goBody r) \<longleftrightarrow>
    same_json (Any_map (unmarshal_map L pyBody)) (Any_map (unmarshal_map L goBody))"
proof -
  have "vr_ExactJSONMatch (judge L maxDiffs pyBody goBody r) \<longleftrightarrow>
      value_diffs L (Any_map (unmarshal_map L pyBody)) (Any_map (unmarshal_map L goBody)) [] = []"
    using assms(2) by (simp add: judge_def Let_def CompareValues_spec compare_result.defs)
  then show ?thesis
    using value_diffs_equal(1) [OF unmarshal_json_value [OF assms(1)] unmarshal_json_value [OF assms(1)]] by simp
qed

theorem exact_match_means_equal_witness:
  "vr_ExactJSONMatch (judge demo_lib 20 (Some (JObj [])) (Some (JObj [])) (no_result [] True []))"
proof -
  have "no_nan demo_lib" by (simp add: no_nan_def demo_lib_def float_nan_def)
  from exact_match_means_equal [OF this, of 20 "Some (JObj [])" "Some (JObj [])"] show ?thesis
    by (simp add: unmarshal_map_def same_json_map entries_def)
qed

text \<open>
  A body that is not an object is not compared: whatever two such bodies are (arrays, strings, text that is
  not JSON), the verdict is an exact match, and a behaviour match if the statuses agree.
\<close>

theorem non_objects_always_match:
  assumes "\<nexists>ms. pyBody = Some (JObj ms)" and "\<nexists>ms. goBody = Some (JObj ms)"
  shows "vr_ExactJSONMatch (judge L maxDiffs pyBody goBody r)
    \<and> vr_BehaviorMatch (judge L maxDiffs pyBody goBody r) = cr_StatusMatch r"
proof -
  have none: "unmarshal_map L pyBody = None" "unmarshal_map L goBody = None"
    using assms by (auto simp: unmarshal_map_def split: option.splits json.splits)
  have "value_diffs L (Any_map None) (Any_map None) [] = []"
    by (simp add: value_diffs.simps as_map_def entries_def absent_keys_def)
  then show ?thesis
    by (simp add: judge_def Let_def CompareValues_spec none with_keys_def keyDiff_def entries_def sort_strings_def
        compare_result.defs)
qed

theorem non_objects_always_match_witness:
  "vr_ExactJSONMatch (judge demo_lib 20 (Some (JArr [JNum ''1''])) (Some (JArr [JNum ''2'', JNull])) (no_result [] True []))"
  using non_objects_always_match [of "Some (JArr [JNum ''1''])" "Some (JArr [JNum ''2'', JNull])"] by simp



text \<open>
  C30: The harness only reads: a probe that reaches a backend at all is a GET, or a POST to one of five search
  and dry-run routes; any other request is refused before anything is sent, by each of the three
  operations.
\<close>

theorem only_read_routes_are_sent:
  assumes "CHR '' '' \<notin> set verb"
    and "snd (harness_ProbeValue L send h verb path body maxDiffs took st) \<noteq> st
      \<or> snd (harness_Probe L send h verb path body took st) \<noteq> st
      \<or> snd (harness_Compare L send h verb path body took st) \<noteq> st"
  shows "verb = ''GET'' \<or> verb = ''POST'' \<and> path \<in> set post_routes"
proof -
  have "route_allowed verb path"
  proof (rule ccontr)
    assume "\<not> route_allowed verb path"
    with assms(2) show False by (simp add: harness_ProbeValue_def harness_Probe_def harness_Compare_def)
  qed
  with assms(1) show ?thesis by (rule allowed_routes)
qed

theorem only_read_routes_are_sent_witness:
  "snd (harness_Probe demo_lib (\<lambda>url verb body n. ((None, 200, None), Suc n)) (NewHarness ''p'' ''g'') ''GET'' ''/health'' None 0 0)
     \<noteq> (0 :: nat) \<and> (''GET'' = ''GET'' \<or> ''GET'' = ''POST'' \<and> ''/health'' \<in> set post_routes)"
proof -
  have "route_allowed ''GET'' ''/health''" by code_simp
  then have sent: "snd (harness_Probe demo_lib (\<lambda>url verb body n. ((None, 200, None), Suc n)) (NewHarness ''p'' ''g'')
      ''GET'' ''/health'' None 0 0) \<noteq> (0 :: nat)"
    by (simp add: harness_Probe_def probe_both_def Let_def)
  moreover have "CHR '' '' \<notin> set ''GET''" by simp
  ultimately show ?thesis
    using only_read_routes_are_sent [of "''GET''" demo_lib
        "\<lambda>url verb body n. ((None, 200, None), Suc n)" "NewHarness ''p'' ''g''" "''/health''" None 0 0 "0 :: nat"]
    by blast
qed

text \<open>
  A difference in a volatile field can count as a behaviour mismatch: when a top-level \<open>updated_at\<close> is there
  on one side only, every difference is volatile and yet the keys do not match.
\<close>

theorem volatile_key_breaks_behavior:
  "let v = judge demo_lib 20 (Some (JObj [(''updated_at'', JNull)])) (Some (JObj []))
         ((no_result [] True [])\<lparr>cr_StatusMatch := True\<rparr>)
   in vr_VolatileOnlyDiffs v \<and> vr_TypeMatch v \<and> \<not> vr_BehaviorMatch v"
proof -
  have vol: "isVolatilePath ''.updated_at''" by code_simp
  have bodies: "unmarshal_map demo_lib (Some (JObj [(''updated_at'', JNull)])) = Some [(''updated_at'', Any_nil)]"
    "unmarshal_map demo_lib (Some (JObj [])) = Some []"
    by (simp_all add: unmarshal_map_def map_put_def map_remove_def)
  have "value_diffs demo_lib (Any_map (Some [(''updated_at'', Any_nil)])) (Any_map (Some [])) []
      = [plain_diff ''.updated_at'' ''missing_key'' ''present'' ''missing'']"
    by (simp add: value_diffs.simps as_map_def entries_def absent_keys_def)
  then show ?thesis
    by (simp add: judge_def Let_def CompareValues_spec bodies mark_volatile_def vol with_keys_def keyDiff_def
        entries_def sort_strings_def plain_diff_def compare_result.defs no_result_def)
qed

text \<open>The counts of a report add up.\<close>

lemma report_adds_up:
  "rs_Compared (Summarize skips results) + rs_Skipped (Summarize skips results) = rs_Total (Summarize skips results)
   \<and> rs_Allowed (Summarize skips results) + rs_Blocked (Summarize skips results) = rs_Total (Summarize skips results)"
proof -
  have "rs_Compared (fold (count_result skips) results s) + rs_Skipped (fold (count_result skips) results s)
      = rs_Compared s + rs_Skipped s + length results
    \<and> rs_Allowed (fold (count_result skips) results s) + rs_Blocked (fold (count_result skips) results s)
      = rs_Allowed s + rs_Blocked s + length results
    \<and> rs_Total (fold (count_result skips) results s) = rs_Total s" for s
    by (induction results arbitrary: s) (simp_all add: count_result_def one_if_def Let_def)
  then show ?thesis by (simp add: Summarize_def)
qed


section \<open>The body model\<close>

text \<open>
  C31: The estimate of the position in a cycle is exact for the model of cycles of bounded length: the cycle
  indices are those some history of cycles allows, the day of the cycle ranges over attained extremes,
  menstruation is possible if some history puts the day in a period and estimated if every history does. The
  position is never left unresolved.
\<close>

theorem cycle_estimate_is_exact:
  assumes "cycle_parameters_ok p" and "0 \<le> a" and "a \<le> b"
  shows "\<exists>e. assessBodyCycle p (Some (a, b)) = Inr e
    \<and> (\<forall>k. (\<exists>phase. possible p a b k phase) \<longleftrightarrow> fst (ce_possible_cycles e) \<le> k \<and> k \<le> snd (ce_possible_cycles e))
    \<and> (\<forall>k phase. possible p a b k phase \<longrightarrow> fst (ce_cycle_day e) \<le> phase + 1 \<and> phase + 1 \<le> snd (ce_cycle_day e))
    \<and> (\<exists>k. possible p a b k (fst (ce_cycle_day e) - 1)) \<and> (\<exists>k. possible p a b k (snd (ce_cycle_day e) - 1))
    \<and> ce_menstruation_possible e = (\<exists>k phase. possible p a b k phase \<and> phase < PeriodDays p)
    \<and> ce_menstruation_estimate e = (\<forall>k phase. possible p a b k phase \<longrightarrow> phase < PeriodDays p)"
proof -
  obtain e where e: "assessBodyCycle p (Some (a, b)) = Inr e"
    using assess_resolves [OF assms] by blast
  from e assms(3) have cycles: "ce_possible_cycles e = (a div longest p, b div shortest p)"
    and day: "ce_cycle_day e = (phase_lo p a (b div shortest p) + 1, phase_hi p b (a div longest p) + 1)"
    and period: "ce_menstruation_possible e = (phase_lo p a (b div shortest p) < PeriodDays p)"
      "ce_menstruation_estimate e = (phase_hi p b (a div longest p) < PeriodDays p)"
    by (auto elim!: estimate_fields)
  note range = possible_range [OF assms] and attained = extremes_possible [OF assms]
  have "ce_menstruation_possible e = (\<exists>k phase. possible p a b k phase \<and> phase < PeriodDays p)"
    unfolding period using range(2) attained(1) by (meson le_less_trans)
  moreover have "ce_menstruation_estimate e = (\<forall>k phase. possible p a b k phase \<longrightarrow> phase < PeriodDays p)"
    unfolding period using range(3) attained(2) by (meson le_less_trans)
  ultimately show ?thesis
    using e range attained by (intro exI [of _ e]) (auto simp: cycles day)
qed

text \<open>Cycles of 26 to 30 days, a period of 5, a luteal phase of 12 to 15 days; 55 days on.\<close>

definition demo_cycle :: cycle_spec where
  "demo_cycle = \<lparr>CycleDays = 28, VariationDays = 2, PeriodDays = 5, LutealMinDays = 12, LutealMaxDays = 15\<rparr>"

lemma demo_cycle_ok: "cycle_parameters_ok demo_cycle"
  by (simp add: cycle_parameters_ok_def demo_cycle_def shortest_def longest_def)

theorem cycle_estimate_is_exact_witness:
  "\<exists>k phase. possible demo_cycle 55 55 k phase \<and> phase < 5"
proof -
  from cycle_estimate_is_exact [OF demo_cycle_ok, of 55 55] obtain e
    where e: "assessBodyCycle demo_cycle (Some (55, 55)) = Inr e"
      "ce_menstruation_possible e = (\<exists>k phase. possible demo_cycle 55 55 k phase \<and> phase < PeriodDays demo_cycle)"
    by auto
  from e(1) have "ce_menstruation_possible e"
    by (auto simp: assessBodyCycle_def demo_cycle_def shortest_def longest_def cycle_parameters_ok_def ceil_div_def fertile_lo_def fertile_hi_def)
  with e(2) show ?thesis by (simp add: demo_cycle_def)
qed

text \<open>
  C32: A fertile day is reported possible exactly if some history of cycles and some luteal length make the
  day one of the six up to and including ovulation, and the reported cycles are exactly those it can belong to.
\<close>

theorem fertile_window_is_exact:
  assumes "assessBodyCycle p (Some (a, b)) = Inr e" and "a \<le> b"
  shows "ce_fertile_possible e = (\<exists>k. fertile_day p a b k)
    \<and> (\<forall>lo hi. ce_fertile_cycles e = Some (lo, hi) \<longrightarrow> (\<forall>k. fertile_day p a b k \<longleftrightarrow> lo \<le> k \<and> k \<le> hi))"
proof -
  from assms(1) have ok: "cycle_parameters_ok p" by (auto elim!: estimate_fields)
  show ?thesis using fertile_cycles [OF assms(1)] fertile_day_range [OF ok assms(2)] by (auto split: if_splits)
qed

theorem fertile_window_is_exact_witness: "\<nexists>k. fertile_day demo_cycle 55 55 k"
proof -
  define e where "e = projr (assessBodyCycle demo_cycle (Some (55, 55)))"
  have e: "assessBodyCycle demo_cycle (Some (55, 55)) = Inr e" "\<not> ce_fertile_possible e"
    by (simp_all add: e_def assessBodyCycle_def demo_cycle_def shortest_def longest_def cycle_parameters_ok_def ceil_div_def fertile_lo_def fertile_hi_def)
  from fertile_window_is_exact [OF e(1)] e(2) show ?thesis by simp
qed

text \<open>
  C33: The draw of an integer ends exactly if some attempt's hash reaches the threshold, which more than half
  of all hashes do. What it returns lies in the range asked for, and every value of the range is the result of
  the same number of accepted hashes, so the draw is unbiased.
\<close>

theorem draws_end_and_are_unbiased:
  assumes "minimum \<le> maximum" and "- (2 ^ 63) \<le> minimum" and "maximum < 2 ^ 63" and "maximum - minimum < 2 ^ 63"
  defines "T \<equiv> draw_threshold (draw_width minimum maximum)"
  shows "((\<exists>r. bodyPregnancyInteger hash minimum maximum = Some r) \<longleftrightarrow> (\<exists>n. T \<le> hash n))
    \<and> 2 * unat T < 2 ^ 64
    \<and> (\<forall>r. bodyPregnancyInteger hash minimum maximum = Some r \<longrightarrow>
        (\<exists>n value. r = Inr (value, n) \<and> minimum \<le> value \<and> value \<le> maximum \<and> T \<le> hash n
          \<and> value = minimum + uint (hash n) mod (maximum - minimum + 1)))
    \<and> (\<forall>value. minimum \<le> value \<and> value \<le> maximum \<longrightarrow>
        card {v. T \<le> v \<and> minimum + uint v mod (maximum - minimum + 1) = value} = 2 ^ 64 div nat (maximum - minimum + 1))"
proof -
  note w = draw_width_nonzero [OF assms(1,4)]
  have "((\<exists>r. bodyPregnancyInteger hash minimum maximum = Some r) \<longleftrightarrow> (\<exists>n. T \<le> hash n))"
    using draw_from_iff [of hash T] w by (auto simp: bodyPregnancyInteger_def Let_def T_def)
  moreover have "2 * unat T < 2 ^ 64" unfolding T_def using w by (rule threshold_small)
  moreover have "\<exists>n value. r = Inr (value, n) \<and> minimum \<le> value \<and> value \<le> maximum \<and> T \<le> hash n
          \<and> value = minimum + uint (hash n) mod (maximum - minimum + 1)"
    if "bodyPregnancyInteger hash minimum maximum = Some r" for r
    using drawn_value [OF assms(1-4) that] unfolding T_def .
  moreover have "card {v. T \<le> v \<and> minimum + uint v mod (maximum - minimum + 1) = value} = 2 ^ 64 div nat (maximum - minimum + 1)"
    if "minimum \<le> value \<and> value \<le> maximum" for "value"
    using drawn_evenly [OF assms(1,4)] that unfolding T_def by blast
  ultimately show ?thesis by blast
qed

theorem draws_end_and_are_unbiased_witness:
  "\<exists>r. bodyPregnancyInteger (\<lambda>n. if n = 0 then 3 else 77) 1 10 = Some r"
proof -
  have "draw_threshold (draw_width 1 10) \<le> 77" by (simp add: draw_threshold_def draw_width_def int64_def word_le_def)
  then have "\<exists>n :: nat. draw_threshold (draw_width 1 10) \<le> (if n = 0 then 3 else 77)" by (intro exI [of _ 1]) simp
  then show ?thesis using draws_end_and_are_unbiased [of 1 10 "\<lambda>n. if n = 0 then 3 else 77"] by simp
qed


section \<open>Canon packs\<close>

text \<open>The manifest of an archive, as the preview decodes it.\<close>

definition pack_manifest :: "pack_lib \<Rightarrow> string \<Rightarrow> any_map option" where
  "pack_manifest L data =
     Option.bind (pl_zip L data) (\<lambda>files. Option.bind (manifest_bytes files) (decoded_manifest L))"

lemma accepted_manifest:
  assumes "pr_Valid (PreviewZIP L data ver)" and "pl_zip L data = Some files"
  obtains b m where "manifest_bytes files = Some b" "pack_manifest L data = Some m"
    "\<forall>f \<in> set files. zf_Name f = pack_ManifestName \<longrightarrow> readMember f maxManifestBytes = Some b"
    "validateManifest L (Some m) files ver = []"
  by (rule accepted_pack [OF assms(1)]) (auto simp: pack_manifest_def assms(2) intro: that)

lemma no_items: "each check [] p = []"
  by (simp add: each_def)

lemma accept_pack:
  assumes "int (length data) \<le> MaxArchiveBytes" and "pl_zip L data = Some files" and "length files \<le> maxMembers"
    and "scan_members files first_scan = ([], st)" and "ms_manifest st = Some f"
    and "uint (zf_UncompressedSize64 f) \<le> maxManifestBytes" and "readMember f maxManifestBytes = Some b"
    and "rejectDuplicateJSONKeys (pl_tokens L b) = None"
    and "decode_tokens (fst (pl_tokens L b)) = Some (Any_map (Some m))" and "validateManifest L (Some m) files ver = []"
  shows "pr_Valid (PreviewZIP L data ver)"
  using assms by (simp add: PreviewZIP_def first_scan_def)

text \<open>A small pack: one entity, one relation with the given subject, one notice.\<close>

definition a_digest :: string where
  "a_digest = replicate 64 CHR ''a''"

definition sample_evidence :: json where
  "sample_evidence = JArr [JObj [(''source_id'', JStr ''book''), (''document_sha256'', JStr a_digest),
     (''locator'', JObj [(''type'', JStr ''page''), (''value'', JStr ''1'')])]]"

definition sample_record :: "string \<Rightarrow> (string \<times> json) list \<Rightarrow> json" where
  "sample_record i extra_fields = JArr [JObj ([(''id'', JStr i), (''continuity_ids'', JArr [JStr ''c:main'']),
     (''review_state'', JStr ''approved''), (''evidence'', sample_evidence)] @ extra_fields)]"

definition sample_content :: "json \<Rightarrow> json" where
  "sample_content subject = JObj [(''entities'', sample_record ''hero'' [(''name'', JStr ''Hero''), (''kind'', JStr ''person'')]),
     (''locations'', JArr []), (''factions'', JArr []), (''settings'', JArr []), (''events'', JArr []),
     (''relations'', sample_record ''self'' [(''subject_id'', subject), (''predicate'', JStr ''is''), (''object_id'', JStr ''hero'')]),
     (''claims'', JArr [])]"

definition sample_work :: json where
  "sample_work = JObj [(''stable_id'', JStr ''work:1''), (''original_title'', JObj [(''text'', JStr ''T''), (''language'', JStr ''en'')]),
     (''translated_titles'', JArr []), (''aliases'', JArr []), (''original_language'', JStr ''en''),
     (''content_languages'', JArr [JStr ''en'']),
     (''edition'', JObj [(''edition_id'', JStr ''ed:1''), (''label'', JStr ''1''), (''language'', JStr ''en''), (''scope_note'', JStr [])]),
     (''continuity_ids'', JArr [JStr ''c:main''])]"

definition sample_source :: json where
  "sample_source = JObj [(''id'', JStr ''book''), (''title'', JStr ''T''), (''source_type'', JStr ''official_primary''),
     (''uri'', JStr ''urn:x''), (''license'', JObj [(''name'', JStr ''L''), (''redistribution_allowed'', JBool True)]),
     (''access_class'', JStr ''public''), (''retrieved_at'', JStr ''now''), (''document_sha256'', JStr a_digest)]"

definition sample_pack :: "json \<Rightarrow> json" where
  "sample_pack subject = JObj [(''contract'', JStr ''canon-pack-manifest.v1''),
     (''pack'', JObj [(''id'', JStr ''pack:1''), (''version'', JStr ''1.0.0''), (''status'', JStr ''published''), (''built_at'', JStr ''now'')]),
     (''work'', sample_work),
     (''production'', JObj [(''method'', JStr ''imported''), (''created_at'', JStr ''now''),
        (''producer'', JObj [(''id'', JStr ''user:1''), (''display_name'', JStr ''U'')])]),
     (''review'', JObj [(''status'', JStr ''approved''), (''procedure_id'', JStr ''p:1''), (''reviewed_at'', JStr ''now''),
        (''admission_basis'', JStr ''human_review''), (''reviewers'', JArr [JStr ''user:1''])]),
     (''trust'', JObj [(''status'', JStr ''unsigned_local'')]),
     (''sources'', JArr [sample_source]), (''content'', sample_content subject),
     (''conflicts'', JArr [JObj [(''id'', JStr ''x''), (''item_ids'', JArr [JStr ''hero'']), (''reason'', JStr ''r''),
        (''status'', JStr ''open''), (''evidence'', sample_evidence)]]), (''uncertainties'', JArr []),
     (''coverage_report'', JObj [(''generated_at'', JStr ''now''), (''saturation'', JStr ''growing''), (''domains'', JArr [JStr ''d''])]),
     (''compatibility'', JObj [(''archive_center'', JObj [(''minimum_version'', JStr ''1.2.0''), (''maximum_version_exclusive'', JStr ''2.0.0'')]),
        (''schema'', JObj [(''name'', JStr ''canon-pack-manifest''), (''version'', JStr ''1.0.0'')])]),
     (''files'', JArr [JObj [(''path'', JStr ''notices/NOTICE.txt''), (''role'', JStr ''attribution_notice''),
        (''media_type'', JStr ''text/plain; charset=utf-8''), (''size_bytes'', JNum ''4''), (''sha256'', JStr a_digest)]])]"

definition sample_member :: "string \<Rightarrow> string \<Rightarrow> zip_file" where
  "sample_member name b = \<lparr>zf_Name = name, zf_IsDir = False, zf_IsRegular = True, zf_Perm = 0x1A4,
     zf_UncompressedSize64 = word_of_nat (length b), zf_CompressedSize64 = 8, zf_content = Some b\<rparr>"

definition sample_files :: "zip_file list" where
  "sample_files = [sample_member pack_ManifestName ''{...}'', sample_member ''notices/NOTICE.txt'' ''text'']"

definition sample_lib :: "json \<Rightarrow> pack_lib" where
  "sample_lib subject = \<lparr>pl_zip = (\<lambda>data. Some sample_files), pl_tokens = (\<lambda>b. (json_tokens (sample_pack subject), None)),
     pl_rfc3339 = (\<lambda>s. s = ''now''), pl_url = (\<lambda>s. Some \<lparr>url_Scheme = ''urn'', url_HasUser = False, url_QueryNames = []\<rparr>),
     pl_sha256 = (\<lambda>b. a_digest), pl_quote = (\<lambda>s. s)\<rparr>"

lemmas sample_defs = sample_pack_def sample_content_def sample_record_def sample_evidence_def sample_work_def sample_source_def

abbreviation hero_lib :: pack_lib where
  "hero_lib \<equiv> sample_lib (JStr ''hero'')"

definition sample_map :: any_map where
  "sample_map = (case json_value_of (sample_pack (JStr ''hero'')) of Any_map (Some m) \<Rightarrow> m)"

abbreviation sample_part :: "string \<Rightarrow> any" where
  "sample_part \<equiv> lookup (Some sample_map)"

lemma sample_parts:
  "head_diags hero_lib (Some sample_map) (obj_of (sample_part ''pack'')) = []"
  "work_diags (obj_of (sample_part ''work'')) = ([], [''c:main''])"
  "production_diags hero_lib (obj_of (sample_part ''production'')) = []"
  "review_diags hero_lib (obj_of (sample_part ''pack'')) (obj_of (sample_part ''review'')) = []"
  "text_at (obj_of (sample_part ''trust'')) ''status'' = ''unsigned_local''"
  "trust_diags (obj_of (sample_part ''trust'')) = []"
  "source_loop hero_lib 0 (arr_of (sample_part ''sources'')) [] = ([], [(''book'', a_digest)])"
  "arr_of (sample_part ''sources'') = [] \<longleftrightarrow> False"
  by code_simp+

lemma sample_content_checked:
  "kind_loop (obj_of (sample_part ''content'')) [''c:main''] [(''book'', a_digest)] content_kinds [] = ([], [''self'', ''hero''])"
  "requireKeys (obj_of (sample_part ''content'')) ''$.content'' content_kinds = []"
  "validateReferences (obj_of (sample_part ''content'')) [''self'', ''hero''] = []"
  "each (issue_diags [(''book'', a_digest)] [''self'', ''hero'']) (arr_of (sample_part ''conflicts'')) ''$.conflicts'' = []"
  "arr_of (sample_part ''uncertainties'') = []"
  "coverage_diags hero_lib (obj_of (sample_part ''coverage_report'')) = []"
  "validateCompatibility (obj_of (sample_part ''compatibility'')) ''1.10.0'' = []"
  "validateFiles hero_lib (arr_of (sample_part ''files'')) sample_files False = []"
  by code_simp+

lemma sample_checked: "validateManifest hero_lib (Some sample_map) sample_files ''1.10.0'' = []"
  by (simp add: validateManifest_def Let_def sample_parts sample_content_checked oneOf_def signed_states_def no_items
      del: no_requireKeys)

lemma sample_text: "unique_keys (sample_pack (JStr ''hero''))" "json_value_of (sample_pack (JStr ''hero'')) = Any_map (Some sample_map)"
  by code_simp+

lemma sample_scan:
  "pl_zip hero_lib data = Some sample_files" "length sample_files = 2" "map zf_Name sample_files = [pack_ManifestName, ''notices/NOTICE.txt'']"
  "scan_members sample_files first_scan
     = ([], \<lparr>ms_seen = [''notices/notice.txt'', pack_ManifestName], ms_manifest = Some (hd sample_files), ms_expanded = 9\<rparr>)"
  "manifest_bytes sample_files = Some ''{...}''" "readMember (hd sample_files) maxManifestBytes = Some ''{...}''"
  "zf_UncompressedSize64 (hd sample_files) = 5"
  by (simp add: sample_lib_def) code_simp+

lemma sample_valid: "pr_Valid (PreviewZIP hero_lib [] ''1.10.0'')"
  and sample_manifest: "pack_manifest hero_lib [] = Some sample_map"
proof -
  have tokens: "pl_tokens hero_lib b = (json_tokens (sample_pack (JStr ''hero'')), None)" for b by (simp add: sample_lib_def)
  have read: "rejectDuplicateJSONKeys (pl_tokens hero_lib b) = None"
    "decode_tokens (fst (pl_tokens hero_lib b)) = Some (Any_map (Some sample_map))" for b
    using manifest_text(1,3) [OF tokens] by (simp_all only: sample_text)
  show "pr_Valid (PreviewZIP hero_lib [] ''1.10.0'')"
    by (rule accept_pack [OF _ sample_scan(1) _ sample_scan(4) _ _ sample_scan(6) _ _ sample_checked])
      (simp_all add: read sample_scan(2,7) MaxArchiveBytes_def maxMembers_def maxManifestBytes_def)
  show "pack_manifest hero_lib [] = Some sample_map"
    using sample_scan read by (simp add: pack_manifest_def decoded_manifest_def)
qed

text \<open>
  C34: An accepted archive is intact: it has at most sixteen members within the size limits, whose names are normal
  relative paths that differ by more than case, none of them a directory, executable or compressed beyond the
  ratio; one is the manifest, and the others are exactly the files the manifest declares, with the size and the
  digest it gives.
\<close>

theorem accepted_archives_are_intact:
  assumes "pr_Valid (PreviewZIP L data ver)"
  shows "\<exists>files m. pl_zip L data = Some files \<and> pack_manifest L data = Some m
    \<and> int (length data) \<le> MaxArchiveBytes \<and> length files \<le> 16
    \<and> (\<forall>f \<in> set files. member_ok f) \<and> distinct (map (\<lambda>f. ascii_lower (zf_Name f)) files)
    \<and> sizes files \<le> maxExpandedBytes \<and> ps_ExpandedBytes (pr_Summary (PreviewZIP L data ver)) = sizes files
    \<and> (\<exists>f \<in> set files. zf_Name f = pack_ManifestName)
    \<and> (\<forall>f \<in> set files. zf_Name f \<noteq> pack_ManifestName \<longrightarrow> zf_Name f \<in> set ancillary_paths
        \<and> (\<exists>raw \<in> set (arr_of (lookup (Some m) ''files'')). text_at (obj_of raw) ''path'' = zf_Name f \<and> intact L (obj_of raw) f))
    \<and> (\<forall>raw \<in> set (arr_of (lookup (Some m) ''files'')). \<exists>f \<in> set files. zf_Name f = text_at (obj_of raw) ''path'')
    \<and> distinct (map (\<lambda>raw. text_at (obj_of raw) ''path'') (arr_of (lookup (Some m) ''files'')))"
proof (rule accepted_pack [OF assms])
  fix files b m
  assume facts: "int (length data) \<le> MaxArchiveBytes" "pl_zip L data = Some files" "length files \<le> maxMembers"
    "\<forall>f \<in> set files. member_ok f" "distinct (map (\<lambda>f. ascii_lower (zf_Name f)) files)" "sizes files \<le> maxExpandedBytes"
    "manifest_bytes files = Some b" "decoded_manifest L b = Some m"
    "pr_Summary (PreviewZIP L data ver) = manifest_summary (Some m) (sizes files)"
    and valid: "validateManifest L (Some m) files ver = []"
  have names: "distinct (map zf_Name files)"
    using facts(5) by (metis (no_types, lifting) distinct_map comp_inj_on_iff inj_on_imageI2 comp_def inj_on_def)
  from valid obtain signed where "validateFiles L (arr_of (lookup (Some m) ''files'')) files signed = []"
    by (auto simp: validateManifest_def Let_def split: prod.splits)
  from files_ok [OF this _ names] facts(4)
  have declared: "distinct (map (\<lambda>raw. text_at (obj_of raw) ''path'') (arr_of (lookup (Some m) ''files'')))
    \<and> (\<forall>f \<in> set files. zf_Name f \<noteq> pack_ManifestName \<longrightarrow> zf_Name f \<in> set ancillary_paths
        \<and> (\<exists>raw \<in> set (arr_of (lookup (Some m) ''files'')). text_at (obj_of raw) ''path'' = zf_Name f \<and> intact L (obj_of raw) f))
    \<and> (\<forall>raw \<in> set (arr_of (lookup (Some m) ''files'')). \<exists>f \<in> set files. zf_Name f = text_at (obj_of raw) ''path'')"
    by (simp add: member_ok_def)
  have "\<exists>f \<in> set files. zf_Name f = pack_ManifestName"
    using facts(7) by (auto simp: manifest_bytes_def find_Some_iff bind_eq_Some_conv)
  with facts declared show ?thesis
    by (intro exI [of _ files] exI [of _ m]) (simp add: pack_manifest_def maxMembers_def manifest_summary_def Let_def)
qed

theorem accepted_archives_are_intact_witness:
  "\<exists>raw \<in> set (arr_of (sample_part ''files'')). intact hero_lib (obj_of raw) (sample_files ! 1)"
proof -
  from accepted_archives_are_intact [OF sample_valid] obtain files m where "files = sample_files" "m = sample_map"
    "\<forall>f \<in> set files. zf_Name f \<noteq> pack_ManifestName \<longrightarrow>
       (\<exists>raw \<in> set (arr_of (lookup (Some m) ''files'')). text_at (obj_of raw) ''path'' = zf_Name f \<and> intact hero_lib (obj_of raw) f)"
    by (auto simp: sample_scan(1) sample_manifest)
  moreover have "sample_files ! 1 \<in> set sample_files" "zf_Name (sample_files ! 1) \<noteq> pack_ManifestName"
    by (simp_all add: sample_files_def sample_member_def pack_ManifestName_def)
  ultimately show ?thesis by blast
qed

text \<open>
  C35: An accepted pack is closed: the ids of its sources and of its content items are distinct; every item is
  supported by evidence whose source is declared with the same document digest, and belongs to continuities
  the work declares; items and issues refer to items of the pack only.
\<close>

theorem accepted_packs_are_closed:
  assumes "pr_Valid (PreviewZIP L data ver)" and "pack_manifest L data = Some m"
  shows "let content = obj_of (lookup (Some m) ''content'');
             sources = map (\<lambda>raw. (text_at (obj_of raw) ''id'', text_at (obj_of raw) ''document_sha256'')) (arr_of (lookup (Some m) ''sources''))
         in sources \<noteq> [] \<and> distinct (map fst sources) \<and> distinct (item_ids content)
          \<and> (\<exists>continuity. arr_of (lookup (obj_of (lookup (Some m) ''work'')) ''continuity_ids'') = map Any_text continuity
              \<and> (\<forall>kr \<in> set (content_items content). record_checked continuity sources kr))
          \<and> (\<forall>(kind, record) \<in> set (content_items content). \<forall>field \<in> set (reference_fields kind).
               set (referenced (lookup record field)) \<subseteq> {[]} \<union> set (item_ids content))
          \<and> (\<forall>raw \<in> set (arr_of (lookup (Some m) ''conflicts'') @ arr_of (lookup (Some m) ''uncertainties'')).
               \<exists>items. arr_of (lookup (obj_of raw) ''item_ids'') = map Any_text items \<and> items \<noteq> []
                 \<and> set items \<subseteq> set (item_ids content) \<and> cited sources (obj_of raw))"
proof -
  let ?content = "obj_of (lookup (Some m) ''content'')" and ?work = "obj_of (lookup (Some m) ''work'')"
  let ?raws = "arr_of (lookup (Some m) ''sources'')"
  let ?sources = "map (\<lambda>raw. (text_at (obj_of raw) ''id'', text_at (obj_of raw) ''document_sha256'')) ?raws"
  obtain files where "pl_zip L data = Some files" using assms(2) by (auto simp: pack_manifest_def bind_eq_Some_conv)
  from accepted_manifest [OF assms(1) this] assms(2)
  have valid: "validateManifest L (Some m) files ver = []" by (metis option.inject)
  obtain wds continuity sds hashes rds ids where parts: "work_diags ?work = (wds, continuity)"
    "source_loop L 0 ?raws [] = (sds, hashes)" "kind_loop ?content continuity hashes content_kinds [] = (rds, ids)"
    by (metis surj_pair)
  with valid have none: "wds = []" "sds = []" "rds = []" "?raws \<noteq> []" "validateReferences ?content ids = []"
    "each (issue_diags hashes ids) (arr_of (lookup (Some m) ''conflicts'')) ''$.conflicts'' = []"
    "each (issue_diags hashes ids) (arr_of (lookup (Some m) ''uncertainties'')) ''$.uncertainties'' = []"
    by (simp_all add: validateManifest_def Let_def)
  from source_loop_ok [OF parts(2) [unfolded none(2)]] have hashes: "hashes = ?sources" by simp
  from source_loop_ok [OF parts(2) [unfolded none(2)]] have keys: "go_map hashes" by (elim conjE) simp
  note content = content_ok [OF parts(3) [unfolded none(3)]]
  have work: "arr_of (lookup ?work ''continuity_ids'') = map Any_text continuity"
    using parts(1) none(1) by (auto simp: work_diags_def Let_def split: prod.splits dest!: stringSet_ok)
  have issue: "\<exists>items. arr_of (lookup issue ''item_ids'') = map Any_text items \<and> items \<noteq> []
      \<and> set items \<subseteq> set ids \<and> cited hashes issue" if "issue_diags hashes ids issue p = []" for issue p
    using that by (auto simp: issue_diags_def split: prod.splits dest!: stringSet_ok intro: evidence_ok)
  have "\<exists>items. arr_of (lookup (obj_of raw) ''item_ids'') = map Any_text items \<and> items \<noteq> []
      \<and> set items \<subseteq> set (item_ids ?content) \<and> cited ?sources (obj_of raw)"
    if "raw \<in> set (arr_of (lookup (Some m) ''conflicts'') @ arr_of (lookup (Some m) ''uncertainties''))" for raw
    using that each_member [OF none(6), of raw] each_member [OF none(7), of raw] issue content(1) hashes by fastforce
  moreover have "set (referenced (lookup r field)) \<subseteq> {[]} \<union> set (item_ids ?content)"
    if "(kind, r) \<in> set (content_items ?content)" "field \<in> set (reference_fields kind)" for kind r field
    using references_ok [OF none(5) that] content(1) by blast
  moreover have "\<forall>kr \<in> set (content_items ?content). record_checked continuity ?sources kr"
    using content(3) hashes by blast
  ultimately show ?thesis
    unfolding Let_def using none(4) keys [unfolded hashes] content(2) work by (intro conjI) (simp, blast+)
qed

theorem accepted_packs_are_closed_witness:
  "distinct (item_ids (obj_of (sample_part ''content''))) \<and> item_ids (obj_of (sample_part ''content'')) = [''hero'', ''self'']"
proof -
  have "item_ids (obj_of (sample_part ''content'')) = [''hero'', ''self'']" by code_simp
  moreover from accepted_packs_are_closed [OF sample_valid sample_manifest]
  have "distinct (item_ids (obj_of (sample_part ''content'')))" unfolding Let_def by (elim conjE)
  ultimately show ?thesis by blast
qed

text \<open>
  C36: An accepted pack was vetted: it claims no signature, since none can be verified; a published pack is approved,
  and an approved one has an admissible basis, with reviewers unless it was a validated batch. The running
  version is at least the minimum the pack demands and below its maximum, in the precedence of semantic
  versions, if their numbers fit into 63 bits.
\<close>

theorem accepted_packs_are_vetted:
  assumes "pr_Valid (PreviewZIP L data ver)" and "pack_manifest L data = Some m"
  shows "let part = (\<lambda>k. obj_of (lookup (Some m) k)); review = part ''review''; basis = text_at review ''admission_basis'';
             window = obj_of (lookup (part ''compatibility'') ''archive_center'');
             lo = text_at window ''minimum_version''; hi = text_at window ''maximum_version_exclusive''
         in text_at (part ''trust'') ''status'' = ''unsigned_local''
          \<and> (text_at (part ''pack'') ''status'' = ''published'' \<longrightarrow> text_at review ''status'' = ''approved'')
          \<and> (text_at review ''status'' = ''approved'' \<longrightarrow> basis = ''evidence_validated_batch''
               \<or> basis \<in> {''human_review'', ''trusted_pack_review''} \<and> arr_of (lookup review ''reviewers'') \<noteq> [])
          \<and> semverRE ver \<and> semverRE lo \<and> (hi \<noteq> [] \<longrightarrow> semverRE hi)
          \<and> (numbers_fit ver \<and> numbers_fit lo \<longrightarrow> semver_key lo \<le> semver_key ver)
          \<and> (hi \<noteq> [] \<and> numbers_fit ver \<and> numbers_fit hi \<longrightarrow> semver_key ver < semver_key hi)"
proof -
  obtain files where "pl_zip L data = Some files" using assms(2) by (auto simp: pack_manifest_def bind_eq_Some_conv)
  from accepted_manifest [OF assms(1) this] assms(2)
  have valid: "validateManifest L (Some m) files ver = []" by (metis option.inject)
  then have t: "trust_diags (obj_of (lookup (Some m) ''trust'')) = []"
    and r: "review_diags L (obj_of (lookup (Some m) ''pack'')) (obj_of (lookup (Some m) ''review'')) = []"
    and c: "validateCompatibility (obj_of (lookup (Some m) ''compatibility'')) ver = []"
    by (auto simp: validateManifest_def Let_def split: prod.splits)
  from c show ?thesis
    using trust_ok [OF t] review_ok [OF r] compatibility_ok [OF c] by (simp add: Let_def)
qed

theorem accepted_packs_are_vetted_witness:
  "text_at (obj_of (sample_part ''review'')) ''status'' = ''approved''"
proof -
  have "text_at (obj_of (sample_part ''pack'')) ''status'' = ''published''" by code_simp
  with accepted_packs_are_vetted [OF sample_valid sample_manifest] show ?thesis unfolding Let_def by (elim conjE) (erule mp)
qed

text \<open>
  C37: The installer gets the manifest that passed the preview, and nothing else: an inspection reports what the
  preview reports, with the digest of the archive; for a rejected archive it hands over no manifest, for an accepted
  one the very bytes the checks have read, with their digest. It never fails.
\<close>

theorem inspection_hands_over_the_manifest:
  "case InspectZIP L data ver of
     (i, failure) \<Rightarrow> failure = None \<and> in_Report i = PreviewZIP L data ver \<and> in_ArchiveSHA256 i = pl_sha256 L data
       \<and> (if pr_Valid (in_Report i)
            then \<exists>files. pl_zip L data = Some files \<and> manifest_bytes files = Some (in_ManifestJSON i)
                   \<and> pack_manifest L data = decoded_manifest L (in_ManifestJSON i)
                   \<and> in_ManifestSHA256 i = pl_sha256 L (in_ManifestJSON i)
          else in_ManifestJSON i = [] \<and> in_ManifestSHA256 i = [])"
proof (cases "pr_Valid (PreviewZIP L data ver)")
  case True
  from accepted_pack [OF True] obtain files b where z: "pl_zip L data = Some files" "manifest_bytes files = Some b"
    "\<forall>f \<in> set files. zf_Name f = pack_ManifestName \<longrightarrow> readMember f maxManifestBytes = Some b" by metis
  from find_manifest_found [OF z(2,3)] z True show ?thesis
    by (simp add: InspectZIP_def Let_def pack_manifest_def)
qed (simp add: InspectZIP_def Let_def)


text \<open>
  C39: Comparing versions is comparing them in the precedence of semantic versioning: the three numbers, then
  pre-releases before the release, identifier by identifier, numbers before texts. Build metadata does not count.
  The numbers have to fit into 63 bits.
\<close>

theorem semver_order_is_precedence:
  assumes "semverRE a" and "numbers_fit a" and "semverRE b" and "numbers_fit b"
  shows "compareSemver a b = (if semver_key a < semver_key b then -1 else if semver_key b < semver_key a then 1 else 0)
    \<and> compareSemver b a = - compareSemver a b"
  using semver_order [OF assms] semver_order [OF assms(3,4,1,2)] by (auto simp: sign_of_def)

theorem semver_order_is_precedence_witness:
  "compareSemver ''1.0.0-rc.10'' ''1.0.0-rc.9+build'' = 1"
proof -
  have "semverRE ''1.0.0-rc.10''" "numbers_fit ''1.0.0-rc.10''" "semverRE ''1.0.0-rc.9+build''" "numbers_fit ''1.0.0-rc.9+build''"
    "compareSemver ''1.0.0-rc.9+build'' ''1.0.0-rc.10'' = -1"
    by code_simp+
  with semver_order_is_precedence [of "''1.0.0-rc.9+build''" "''1.0.0-rc.10''"] show ?thesis by simp
qed

text \<open>
  C40: The report does not depend on the order in which Go visits its maps of declared and of actual files: the
  diagnostics that the two loops over them add have different keys in the final sorting, so it puts them in one order.
\<close>

theorem reports_ignore_map_order:
  assumes "distinct (map fst declared)" and "distinct (map fst actual)"
    and "mset declared' = mset declared" and "mset actual' = mset actual"
  shows "finish_report s (ds @ map_diags L declared actual) = finish_report s (ds @ map_diags L declared' actual')"
  by (rule report_order [OF map_diags_permuted map_diags_keys]) (simp_all add: assms)

theorem reports_ignore_map_order_witness:
  "finish_report empty_summary (map_diags hero_lib [(''a'', None), (''b'', None)] [])
     = finish_report empty_summary (map_diags hero_lib [(''b'', None), (''a'', None)] [])"
  using reports_ignore_map_order [of "[(''a'', None), (''b'', None)]" "[]" "[(''b'', None), (''a'', None)]" "[]" empty_summary "[]" hero_lib] by simp

text \<open>A relation may have no subject at all: only a text is looked up among the items.\<close>

theorem relations_need_no_subject:
  "kind_loop (obj_of (json_value_of (sample_content JNull))) [''c:main''] [(''book'', a_digest)] content_kinds [] = ([], [''self'', ''hero''])
   \<and> validateReferences (obj_of (json_value_of (sample_content JNull))) [''self'', ''hero''] = []"
  by (intro conjI; code_simp)

text \<open>Numbers beyond 63 bits compare wrongly: a scan that overflows leaves 0, and identifiers wrap around.\<close>

theorem huge_versions_compare_wrongly:
  "compareSemver ''99999999999999999999.0.0'' ''1.0.0'' = -1 \<and> compareSemver ''1.0.0-18446744073709551616'' ''1.0.0-1'' = -1
   \<and> semver_key ''1.0.0'' < semver_key ''99999999999999999999.0.0''
   \<and> semver_key ''1.0.0-1'' < semver_key ''1.0.0-18446744073709551616''"
  by (intro conjI; code_simp)


end
